(* ===== verification/Prelude.thy ===== *)
theory Prelude
  imports Main "HOL-Library.Sublist"
begin

text \<open>
  Shared vocabulary of the development.

  \<^item> The services mutate a database session and process-wide registries and raise
    exceptions.  An operation is a function from a state to a result (\<open>Inl\<close> an
    exception, \<open>Inr\<close> a value) and the state left behind.  The state is kept when an
    exception is raised, as Python keeps it until somebody rolls back.
  \<^item> \<open>keeps R m\<close> says that running \<open>m\<close> relates the state before to the state after
    by \<open>R\<close>, whatever the result.  The locale \<open>state_preorder\<close> derives the composition
    rules for every reflexive and transitive \<open>R\<close>; it is interpreted for "this part of the
    state is unchanged" and for "this log only grows".
  \<^item> Python strings are lists of ASCII characters, dictionaries are association lists in
    insertion order.
\<close>

named_theorems op_defs \<open>definitions of the operation combinators\<close>
named_theorems op_intro \<open>introduction rules for keeps goals\<close>

section \<open>Operations that change a state and may raise\<close>

type_synonym ('s, 'e, 'a) op = "'s \<Rightarrow> ('e + 'a) \<times> 's"

definition ret :: "'a \<Rightarrow> ('s, 'e, 'a) op" where
  "ret x = (\<lambda>s. (Inr x, s))"

definition raise :: "'e \<Rightarrow> ('s, 'e, 'a) op" where
  "raise e = (\<lambda>s. (Inl e, s))"

definition and_then :: "('s, 'e, 'a) op \<Rightarrow> ('a \<Rightarrow> ('s, 'e, 'b) op) \<Rightarrow> ('s, 'e, 'b) op" where
  "and_then m f = (\<lambda>s. case m s of (Inl e, s') \<Rightarrow> (Inl e, s') | (Inr x, s') \<Rightarrow> f x s')"

definition gets :: "('s \<Rightarrow> 'a) \<Rightarrow> ('s, 'e, 'a) op" where
  "gets f = (\<lambda>s. (Inr (f s), s))"

definition modify :: "('s \<Rightarrow> 's) \<Rightarrow> ('s, 'e, unit) op" where
  "modify f = (\<lambda>s. (Inr (), f s))"

definition guard :: "bool \<Rightarrow> 'e \<Rightarrow> ('s, 'e, unit) op" where
  "guard b e = (if b then ret () else raise e)"

definition only_if :: "bool \<Rightarrow> ('s, 'e, unit) op \<Rightarrow> ('s, 'e, unit) op" where
  "only_if b m = (if b then m else ret ())"

definition from_option :: "'e \<Rightarrow> 'a option \<Rightarrow> ('s, 'e, 'a) op" where
  "from_option e x = (case x of None \<Rightarrow> raise e | Some v \<Rightarrow> ret v)"

definition try_except :: "('s, 'e, 'a) op \<Rightarrow> ('e \<Rightarrow> ('s, 'e, 'a) op) \<Rightarrow> ('s, 'e, 'a) op" where
  "try_except m h = (\<lambda>s. case m s of (Inl e, s') \<Rightarrow> h e s' | (Inr x, s') \<Rightarrow> (Inr x, s'))"

text \<open>A \<open>try\<close> whose handler needs the value as well: the exception as a value.\<close>

definition capture :: "('s, 'e, 'a) op \<Rightarrow> ('s, 'f, 'e + 'a) op" where
  "capture m = (\<lambda>s. case m s of (r, t) \<Rightarrow> (Inr r, t))"

text \<open>A sequence of statements, and a \<open>for\<close> loop that collects one value per round.\<close>

primrec block :: "('s, 'e, unit) op list \<Rightarrow> ('s, 'e, unit) op" where
  "block [] = ret ()"
| "block (m # ms) = and_then m (\<lambda>_. block ms)"

primrec for_each :: "'a list \<Rightarrow> ('a \<Rightarrow> ('s, 'e, 'b) op) \<Rightarrow> ('s, 'e, 'b list) op" where
  "for_each [] f = ret []"
| "for_each (x # xs) f =
     and_then (f x) (\<lambda>y. and_then (for_each xs f) (\<lambda>ys. ret (y # ys)))"

lemmas [op_defs] = ret_def raise_def and_then_def gets_def modify_def guard_def only_if_def
  from_option_def try_except_def

lemma run_ret [simp]: "ret x s = (Inr x, s)"
  by (simp add: ret_def)

lemma run_raise [simp]: "raise e s = (Inl e, s)"
  by (simp add: raise_def)

lemma run_gets [simp]: "gets f s = (Inr (f s), s)"
  by (simp add: gets_def)

lemma run_modify [simp]: "modify f s = (Inr (), f s)"
  by (simp add: modify_def)

lemma run_guard: "guard b e s = (if b then (Inr (), s) else (Inl e, s))"
  by (simp add: guard_def)

lemma run_guard_True [simp]: "b \<Longrightarrow> guard b e s = (Inr (), s)"
  by (simp add: guard_def)

lemma run_guard_False [simp]: "\<not> b \<Longrightarrow> guard b e s = (Inl e, s)"
  by (simp add: guard_def)

lemma run_only_if_True [simp]: "b \<Longrightarrow> only_if b m = m"
  by (simp add: only_if_def)

lemma run_only_if_False [simp]: "\<not> b \<Longrightarrow> only_if b m = ret ()"
  by (simp add: only_if_def)

lemma run_from_option_None [simp]: "from_option e None = raise e"
  by (simp add: from_option_def)

lemma run_from_option_Some [simp]: "from_option e (Some v) = ret v"
  by (simp add: from_option_def)

lemma run_and_then_ok [simp]: "m s = (Inr x, s') \<Longrightarrow> and_then m f s = f x s'"
  by (simp add: and_then_def)

lemma run_and_then_err [simp]: "m s = (Inl e, s') \<Longrightarrow> and_then m f s = (Inl e, s')"
  by (simp add: and_then_def)

text \<open>To run an operation on a concrete state: evaluate the first part before the second.\<close>

lemma run_cong: "m = m' \<Longrightarrow> and_then m f = and_then m' f"
  by simp

lemma and_then_split:
  "P (and_then m f s) \<longleftrightarrow>
     (\<forall>e s'. m s = (Inl e, s') \<longrightarrow> P (Inl e, s')) \<and>
     (\<forall>x s'. m s = (Inr x, s') \<longrightarrow> P (f x s'))"
  by (cases "m s"; cases "fst (m s)") (auto simp: and_then_def split: sum.splits)

lemma and_then_okE:
  assumes "and_then m f s = (Inr y, t)"
  obtains x s' where "m s = (Inr x, s')" and "f x s' = (Inr y, t)"
  using assms by (auto simp: and_then_def split: prod.splits sum.splits)

lemma and_then_errE:
  assumes "and_then m f s = (Inl e, t)"
  obtains (first) "m s = (Inl e, t)"
  | (second) x s' where "m s = (Inr x, s')" and "f x s' = (Inl e, t)"
  using assms by (auto simp: and_then_def split: prod.splits sum.splits)

lemma guard_okE:
  assumes "guard b e s = (Inr y, t)"
  obtains "b" and "t = s"
  using assms by (auto simp: guard_def split: if_splits)

lemma from_option_okE:
  assumes "from_option e v s = (Inr y, t)"
  obtains "v = Some y" and "t = s"
  using assms by (auto simp: from_option_def split: option.splits)

lemma run_try_ok [simp]: "m s = (Inr x, s') \<Longrightarrow> try_except m h s = (Inr x, s')"
  by (simp add: try_except_def)

lemma run_try_err [simp]: "m s = (Inl e, s') \<Longrightarrow> try_except m h s = h e s'"
  by (simp add: try_except_def)

lemma run_capture [simp]: "m s = (r, t) \<Longrightarrow> capture m s = (Inr r, t)"
  by (simp add: capture_def)

lemma capture_okE:
  assumes "capture m s = (Inr r, t)"
  obtains "m s = (r, t)"
  using assms by (auto simp: capture_def split: prod.splits)

text \<open>
  \<open>returns m s Q\<close>: from \<open>s\<close> the operation returns, with a value and a state that satisfy
  \<open>Q\<close>.  It is total correctness: an operation that raises does not return.
\<close>

definition returns :: "('s, 'e, 'a) op \<Rightarrow> 's \<Rightarrow> ('a \<Rightarrow> 's \<Rightarrow> bool) \<Rightarrow> bool" where
  "returns m s Q \<longleftrightarrow> (\<exists>x t. m s = (Inr x, t) \<and> Q x t)"

lemma returnsI: "m s = (Inr x, t) \<Longrightarrow> Q x t \<Longrightarrow> returns m s Q"
  by (auto simp: returns_def)

lemma returnsE:
  assumes "returns m s Q"
  obtains x t where "m s = (Inr x, t)" and "Q x t"
  using assms by (auto simp: returns_def)

lemma returnsD: "returns m s Q \<Longrightarrow> m s = (Inr x, t) \<Longrightarrow> Q x t"
  by (auto simp: returns_def)

lemma returns_mono: "returns m s P \<Longrightarrow> (\<And>x t. P x t \<Longrightarrow> Q x t) \<Longrightarrow> returns m s Q"
  by (auto simp: returns_def)

lemma returns_ret [simp]: "returns (ret x) s Q = Q x s"
  by (simp add: returns_def)

lemma returns_gets [simp]: "returns (gets f) s Q = Q (f s) s"
  by (simp add: returns_def)

lemma returns_and_then:
  "returns m s P \<Longrightarrow> (\<And>x t. P x t \<Longrightarrow> returns (f x) t Q) \<Longrightarrow> returns (and_then m f) s Q"
  by (auto simp: returns_def and_then_def)

lemma returns_block_Nil [simp]: "returns (block []) s Q = Q () s"
  by simp

lemma returns_block_Cons:
  "returns m s (\<lambda>_. P) \<Longrightarrow> (\<And>t. P t \<Longrightarrow> returns (block ms) t Q) \<Longrightarrow> returns (block (m # ms)) s Q"
  by (auto intro: returns_and_then)

text \<open>Operations that cannot raise.\<close>

definition no_raise :: "('s, 'e, 'a) op \<Rightarrow> bool" where
  "no_raise m \<longleftrightarrow> (\<forall>s. \<exists>x s'. m s = (Inr x, s'))"

lemma no_raiseE:
  assumes "no_raise m"
  obtains x s' where "m s = (Inr x, s')"
  using assms unfolding no_raise_def by blast

lemma no_raise_returns: "no_raise m \<longleftrightarrow> (\<forall>s. returns m s (\<lambda>_ _. True))"
  by (auto simp: no_raise_def returns_def)

lemma no_raise_ret [op_intro]: "no_raise (ret x)"
  and no_raise_gets [op_intro]: "no_raise (gets f)"
  and no_raise_modify [op_intro]: "no_raise (modify g)"
  by (simp_all add: no_raise_def)

lemma no_raise_and_then [op_intro]: "no_raise m \<Longrightarrow> (\<And>x. no_raise (f x)) \<Longrightarrow> no_raise (and_then m f)"
  unfolding no_raise_def by (metis run_and_then_ok)

lemma no_raise_block_Nil [op_intro]: "no_raise (block [])"
  by (simp add: no_raise_ret)

lemma no_raise_block_Cons [op_intro]: "no_raise m \<Longrightarrow> no_raise (block ms) \<Longrightarrow> no_raise (block (m # ms))"
  by (simp add: no_raise_and_then)

lemma no_raise_only_if [op_intro]: "(b \<Longrightarrow> no_raise m) \<Longrightarrow> no_raise (only_if b m)"
  by (cases b) (auto simp: no_raise_ret)

lemma no_raise_if [op_intro]: "(b \<Longrightarrow> no_raise m) \<Longrightarrow> (\<not> b \<Longrightarrow> no_raise n) \<Longrightarrow> no_raise (if b then m else n)"
  by simp

lemma no_raise_case_option [op_intro]:
  "(x = None \<Longrightarrow> no_raise m) \<Longrightarrow> (\<And>v. x = Some v \<Longrightarrow> no_raise (f v)) \<Longrightarrow>
   no_raise (case x of None \<Rightarrow> m | Some v \<Rightarrow> f v)"
  by (cases x) auto

section \<open>What an operation does to the state\<close>

definition keeps :: "('s \<Rightarrow> 's \<Rightarrow> bool) \<Rightarrow> ('s, 'e, 'a) op \<Rightarrow> bool" where
  "keeps R m \<longleftrightarrow> (\<forall>s. R s (snd (m s)))"

lemma keepsD: "keeps R m \<Longrightarrow> m s = (r, t) \<Longrightarrow> R s t"
  by (metis keeps_def snd_conv)

text \<open>
  The composition rules hold for every preorder on states.  Clients state one fact per
  primitive operation; the rules carry it through whole handlers.
\<close>

locale state_preorder =
  fixes R :: "'s \<Rightarrow> 's \<Rightarrow> bool"
  assumes R_refl: "R s s"
    and R_trans: "R s t \<Longrightarrow> R t u \<Longrightarrow> R s u"
begin

lemma keeps_ret [op_intro]: "keeps R (ret x)"
  by (simp add: keeps_def R_refl)

lemma keeps_raise [op_intro]: "keeps R (raise e)"
  by (simp add: keeps_def R_refl)

lemma keeps_gets [op_intro]: "keeps R (gets f)"
  by (simp add: keeps_def R_refl)

lemma keeps_guard [op_intro]: "keeps R (guard b e)"
  by (simp add: keeps_def run_guard R_refl)

lemma keeps_from_option [op_intro]: "keeps R (from_option e x)"
  by (cases x) (simp_all add: keeps_ret keeps_raise)

lemma keeps_and_then [op_intro]:
  assumes m: "keeps R m" and f: "\<And>x. keeps R (f x)"
  shows "keeps R (and_then m f)"
  unfolding keeps_def
proof
  fix s
  obtain r s' where r: "m s = (r, s')" by (cases "m s")
  then have "R s s'" using m by (rule keepsD [rotated])
  then show "R s (snd (and_then m f s))"
    using f r by (cases r) (auto simp: keeps_def and_then_def intro: R_trans)
qed

lemma keeps_try_except [op_intro]:
  assumes m: "keeps R m" and h: "\<And>e. keeps R (h e)"
  shows "keeps R (try_except m h)"
  unfolding keeps_def
proof
  fix s
  obtain r s' where r: "m s = (r, s')" by (cases "m s")
  then have "R s s'" using m by (rule keepsD [rotated])
  then show "R s (snd (try_except m h s))"
    using h r by (cases r) (auto simp: keeps_def try_except_def intro: R_trans)
qed

lemma keeps_capture [op_intro]: "keeps R m \<Longrightarrow> keeps R (capture m)"
  by (simp add: keeps_def capture_def split_def)

lemma keeps_block_Nil [op_intro]: "keeps R (block [])"
  by (simp add: keeps_ret)

lemma keeps_block_Cons [op_intro]:
  "keeps R m \<Longrightarrow> keeps R (block ms) \<Longrightarrow> keeps R (block (m # ms))"
  by (simp add: keeps_and_then)

lemma keeps_for_each [op_intro]:
  "(\<And>x. x \<in> set xs \<Longrightarrow> keeps R (f x)) \<Longrightarrow> keeps R (for_each xs f)"
  by (induction xs) (auto intro!: keeps_ret keeps_and_then)

lemma keeps_only_if [op_intro]: "(b \<Longrightarrow> keeps R m) \<Longrightarrow> keeps R (only_if b m)"
  by (cases b) (auto intro: keeps_ret)

lemma keeps_if [op_intro]:
  "(b \<Longrightarrow> keeps R m) \<Longrightarrow> (\<not> b \<Longrightarrow> keeps R n) \<Longrightarrow> keeps R (if b then m else n)"
  by simp

lemma keeps_case_option [op_intro]:
  "(x = None \<Longrightarrow> keeps R m) \<Longrightarrow> (\<And>v. x = Some v \<Longrightarrow> keeps R (f v)) \<Longrightarrow>
   keeps R (case x of None \<Rightarrow> m | Some v \<Rightarrow> f v)"
  by (cases x) auto

lemma keeps_case_prod [op_intro]:
  "(\<And>a b. x = (a, b) \<Longrightarrow> keeps R (f a b)) \<Longrightarrow> keeps R (case x of (a, b) \<Rightarrow> f a b)"
  by (cases x) auto

lemma keeps_let [op_intro]: "keeps R (f x) \<Longrightarrow> keeps R (let y = x in f y)"
  by simp

lemma keeps_case_sum [op_intro]:
  "(\<And>e. x = Inl e \<Longrightarrow> keeps R (f e)) \<Longrightarrow> (\<And>v. x = Inr v \<Longrightarrow> keeps R (g v)) \<Longrightarrow>
   keeps R (case x of Inl e \<Rightarrow> f e | Inr v \<Rightarrow> g v)"
  by (cases x) auto

end

text \<open>"The part \<open>f\<close> of the state is unchanged" and "the log \<open>f\<close> only grows" are preorders.\<close>

abbreviation (input) same :: "('s \<Rightarrow> 'v) \<Rightarrow> 's \<Rightarrow> 's \<Rightarrow> bool" where
  "same f \<equiv> (\<lambda>s t. f t = f s)"

definition grows :: "('s \<Rightarrow> 'v list) \<Rightarrow> 's \<Rightarrow> 's \<Rightarrow> bool" where
  "grows f s t \<longleftrightarrow> prefix (f s) (f t)"

interpretation frame: state_preorder "same f" for f :: "'s \<Rightarrow> 'v"
  by unfold_locales auto

interpretation log: state_preorder "grows f" for f :: "'s \<Rightarrow> 'v list"
  by unfold_locales (auto simp: grows_def intro: prefix_order.trans)

lemma keeps_modify_same [op_intro]: "(\<And>s. f (g s) = f s) \<Longrightarrow> keeps (same f) (modify g)"
  by (simp add: keeps_def)

lemma keeps_modify_grows [op_intro]:
  "(\<And>s. prefix (f s) (f (g s))) \<Longrightarrow> keeps (grows f) (modify g)"
  by (simp add: keeps_def grows_def)

lemma same_imp_grows: "keeps (same f) m \<Longrightarrow> keeps (grows f) m"
  by (simp add: keeps_def grows_def)

lemma keeps_same_result: "keeps (same f) m \<Longrightarrow> m s = (r, t) \<Longrightarrow> f t = f s"
  by (drule (1) keepsD) simp

lemma returns_same: "no_raise m \<Longrightarrow> keeps (same f) m \<Longrightarrow> returns m s (\<lambda>_ t. f t = f s)"
proof -
  assume n: "no_raise m" and k: "keeps (same f) m"
  from n obtain x t where m: "m s = (Inr x, t)" by (rule no_raiseE)
  from keeps_same_result [OF k m] m show "returns m s (\<lambda>_ t. f t = f s)" by (intro returnsI)
qed

lemma keeps_same_compose: "keeps (same f) m \<Longrightarrow> keeps (same (\<lambda>s. g (f s))) m"
  by (simp add: keeps_def)

lemma keeps_grows_result: "keeps (grows f) m \<Longrightarrow> m s = (r, t) \<Longrightarrow> prefix (f s) (f t)"
  by (drule (1) keepsD) (simp add: grows_def)

section \<open>Invariants that operations preserve\<close>

definition preserves :: "('s \<Rightarrow> bool) \<Rightarrow> ('s, 'e, 'a) op \<Rightarrow> bool" where
  "preserves P m \<longleftrightarrow> (\<forall>s. P s \<longrightarrow> returns m s (\<lambda>_. P))"

lemma preservesD: "preserves P m \<Longrightarrow> P s \<Longrightarrow> returns m s (\<lambda>_. P)"
  by (simp add: preserves_def)

lemma preserves_ret [op_intro]: "preserves P (ret x)"
  by (simp add: preserves_def)

lemma preserves_and_then [op_intro]:
  "preserves P m \<Longrightarrow> (\<And>x. preserves P (f x)) \<Longrightarrow> preserves P (and_then m f)"
  unfolding preserves_def by (blast intro: returns_and_then)

lemma preserves_block_Nil [op_intro]: "preserves P (block [])"
  by (simp add: preserves_ret)

lemma preserves_block_Cons [op_intro]:
  "preserves P m \<Longrightarrow> preserves P (block ms) \<Longrightarrow> preserves P (block (m # ms))"
  by (simp add: preserves_and_then)

lemma preserves_case_sum [op_intro]:
  "(\<And>x. preserves P (f x)) \<Longrightarrow> (\<And>y. preserves P (g y)) \<Longrightarrow>
   preserves P (case q of Inl x \<Rightarrow> f x | Inr y \<Rightarrow> g y)"
  by (cases q) auto

lemma returns_keeps:
  "returns m s Q \<Longrightarrow> keeps (same f) m \<Longrightarrow> returns m s (\<lambda>x t. Q x t \<and> f t = f s)"
  unfolding returns_def by (metis keeps_same_result)

section \<open>Dictionaries\<close>

text \<open>A Python dictionary: assignment overwrites in place or appends at the end.\<close>

fun dict_set :: "'k \<Rightarrow> 'v \<Rightarrow> ('k \<times> 'v) list \<Rightarrow> ('k \<times> 'v) list" where
  "dict_set k v [] = [(k, v)]"
| "dict_set k v ((k', v') # d) = (if k = k' then (k, v) # d else (k', v') # dict_set k v d)"

definition dict_get :: "'v \<Rightarrow> ('k \<times> 'v) list \<Rightarrow> 'k \<Rightarrow> 'v" where
  "dict_get dflt d k = (case map_of d k of None \<Rightarrow> dflt | Some v \<Rightarrow> v)"

lemma map_of_dict_set [simp]: "map_of (dict_set k v d) = (map_of d)(k \<mapsto> v)"
  by (induction k v d rule: dict_set.induct) auto

lemma keys_dict_set: "fst ` set (dict_set k v d) = insert k (fst ` set d)"
  by (induction k v d rule: dict_set.induct) auto

lemma distinct_dict_set: "distinct (map fst d) \<Longrightarrow> distinct (map fst (dict_set k v d))"
proof (induction k v d rule: dict_set.induct)
  case (2 k v k' v' d)
  then show ?case using keys_dict_set [of k v d] by auto
qed simp

lemma dict_get_set [simp]: "dict_get x (dict_set k v d) k' = (if k' = k then v else dict_get x d k')"
  by (simp add: dict_get_def)

section \<open>Strings\<close>

definition is_space :: "char \<Rightarrow> bool" where
  "is_space c = (let n = (of_char c :: nat) in (9 \<le> n \<and> n \<le> 13) \<or> (28 \<le> n \<and> n \<le> 32))"

definition strip :: "string \<Rightarrow> string" where
  "strip s = rev (dropWhile is_space (rev (dropWhile is_space s)))"

definition lower_char :: "char \<Rightarrow> char" where
  "lower_char c = (let n = (of_char c :: nat) in if 65 \<le> n \<and> n \<le> 90 then char_of (n + 32) else c)"

definition upper_char :: "char \<Rightarrow> char" where
  "upper_char c = (let n = (of_char c :: nat) in if 97 \<le> n \<and> n \<le> 122 then char_of (n - 32) else c)"

definition lower :: "string \<Rightarrow> string" where
  "lower s = map lower_char s"

definition upper :: "string \<Rightarrow> string" where
  "upper s = map upper_char s"

definition dash_to_underscore :: "string \<Rightarrow> string" where
  "dash_to_underscore s = map (\<lambda>c. if c = CHR ''-'' then CHR ''_'' else c) s"

text \<open>\<open>str(n)\<close> for an integer; \<open>repr\<close> for a string.\<close>

fun digits :: "nat \<Rightarrow> string" where
  "digits n = (if n < 10 then [char_of (48 + n)] else digits (n div 10) @ [char_of (48 + n mod 10)])"

declare digits.simps [simp del]

definition str_int :: "int \<Rightarrow> string" where
  "str_int i = (if i < 0 then CHR ''-'' # digits (nat (- i)) else digits (nat i))"

definition hex_digit :: "nat \<Rightarrow> char" where
  "hex_digit n = (if n < 10 then char_of (48 + n) else char_of (87 + n))"

definition quote_char :: "char \<Rightarrow> char \<Rightarrow> string" where
  "quote_char q c = (let n = (of_char c :: nat) in
     if c = q \<or> n = 92 then [char_of (92 :: nat), c]
     else if n = 9 then [char_of (92 :: nat), CHR ''t'']
     else if n = 10 then [char_of (92 :: nat), CHR ''n'']
     else if n = 13 then [char_of (92 :: nat), CHR ''r'']
     else if n < 32 \<or> n = 127 then [char_of (92 :: nat), CHR ''x'', hex_digit (n div 16), hex_digit (n mod 16)]
     else [c])"

definition str_repr :: "string \<Rightarrow> string" where
  "str_repr s = (let q = (if char_of (39 :: nat) \<in> set s \<and> char_of (34 :: nat) \<notin> set s
                          then char_of (34 :: nat) else char_of (39 :: nat))
                 in [q] @ concat (map (quote_char q) s) @ [q])"

lemma lower_char_idem [simp]: "lower_char (lower_char c) = lower_char c"
  by (auto simp: lower_char_def Let_def)

lemma lower_idem [simp]: "lower (lower s) = lower s"
  by (simp add: lower_def)

lemma is_space_lower_char [simp]: "is_space (lower_char c) = is_space c"
  by (auto simp: lower_char_def is_space_def Let_def)

lemma dropWhile_space_map:
  "(\<And>c. is_space (f c) = is_space c) \<Longrightarrow>
   dropWhile is_space (map f s) = map f (dropWhile is_space s)"
  by (induction s) auto

lemma strip_map: "(\<And>c. is_space (f c) = is_space c) \<Longrightarrow> strip (map f s) = map f (strip s)"
  by (simp add: strip_def dropWhile_space_map rev_map)

lemma dropWhile_idem: "dropWhile P (dropWhile P xs) = dropWhile P xs"
  by (induction xs) auto

lemma dropWhile_rev_dropWhile:
  "dropWhile P (rev (dropWhile P (rev (dropWhile P xs)))) = rev (dropWhile P (rev (dropWhile P xs)))"
proof (cases "dropWhile P xs")
  case (Cons y ys)
  then have "\<not> P y" using hd_dropWhile [of P xs] by simp
  with Cons show ?thesis by (simp add: dropWhile_append3)
next
  case Nil
  show ?thesis by (simp only: Nil) simp
qed

lemma strip_idem [simp]: "strip (strip s) = strip s"
  by (simp add: strip_def dropWhile_rev_dropWhile dropWhile_idem)

end
