(* ===== verification/Observability.thy ===== *)
theory Observability
  imports Prelude "HOL-Library.Char_ord" "HOL-Library.List_Lexorder" "HOL-Library.Product_Lexorder"
begin

text \<open>
  The metrics registry of \<open>app/observability.py\<close>: unlabelled counters kept by
  \<open>MetricsRegistry\<close>, and the counters, gauges, histograms and help texts of
  \<open>PrometheusProvider\<close>, with the text exposition \<open>render\<close> produces.

  Counters and gauges only ever hold whole numbers in this program and are \<open>int\<close>.
  Observed durations are seconds in the code and whole microseconds here, so bucket bounds
  are microseconds too; sums are exact where the code adds floats.  Logging and tracing
  write to other processes and keep no state, so they are not modelled.
\<close>

type_synonym metric_labels = "(string \<times> string option) list"
type_synonym label_set = "(string \<times> string) list"

definition DEFAULT_HISTOGRAM_BUCKETS :: "int list" where
  "DEFAULT_HISTOGRAM_BUCKETS =
     [5000, 10000, 25000, 50000, 100000, 250000, 500000, 1000000, 2500000, 5000000, 10000000]"

record histogram_state =
  hs_buckets :: "int list"
  hs_bucket_counts :: "(int \<times> nat) list"
  hs_inf_count :: nat
  hs_count :: nat
  hs_total :: int

record prometheus_provider =
  pp_counters :: "((string \<times> label_set) \<times> int) list"
  pp_gauges :: "((string \<times> label_set) \<times> int) list"
  pp_histograms :: "((string \<times> label_set) \<times> histogram_state) list"
  pp_descriptions :: "(string \<times> string) list"

record metrics_registry =
  mr_counters :: "(string \<times> int) list"
  mr_provider :: prometheus_provider

definition empty_metrics :: metrics_registry where
  "empty_metrics = \<lparr>mr_counters = [],
     mr_provider = \<lparr>pp_counters = [], pp_gauges = [], pp_histograms = [], pp_descriptions = []\<rparr>\<rparr>"

section \<open>Histograms\<close>

fun bucket_for :: "int list \<Rightarrow> int \<Rightarrow> int option" where
  "bucket_for [] v = None"
| "bucket_for (b # bs) v = (if v \<le> b then Some b else bucket_for bs v)"

definition histogram_observe :: "int \<Rightarrow> histogram_state \<Rightarrow> histogram_state" where
  "histogram_observe v h =
     (let h = h\<lparr>hs_count := hs_count h + 1, hs_total := hs_total h + v\<rparr> in
      case bucket_for (hs_buckets h) v of
        Some b \<Rightarrow> h\<lparr>hs_bucket_counts :=
                      dict_set b (dict_get 0 (hs_bucket_counts h) b + 1) (hs_bucket_counts h)\<rparr>
      | None \<Rightarrow> h\<lparr>hs_inf_count := hs_inf_count h + 1\<rparr>)"

definition new_histogram :: "int list \<Rightarrow> histogram_state" where
  "new_histogram bs = \<lparr>hs_buckets = sorted_list_of_set (set bs),
     hs_bucket_counts = map (\<lambda>b. (b, 0)) bs, hs_inf_count = 0, hs_count = 0, hs_total = 0\<rparr>"

section \<open>The provider\<close>

definition sanitize_metric_name :: "string \<Rightarrow> string" where
  "sanitize_metric_name s = map (\<lambda>c.
     if (CHR ''a'' \<le> c \<and> c \<le> CHR ''z'') \<or> (CHR ''A'' \<le> c \<and> c \<le> CHR ''Z'') \<or>
        (CHR ''0'' \<le> c \<and> c \<le> CHR ''9'') \<or> c = CHR ''_'' \<or> c = CHR '':''
     then c else CHR ''_'') s"

definition normalize_labels :: "metric_labels option \<Rightarrow> label_set" where
  "normalize_labels labels = (case labels of None \<Rightarrow> []
     | Some ls \<Rightarrow> sort [(k, v). (k, Some v) \<leftarrow> ls])"

definition remember_description :: "string \<Rightarrow> string option \<Rightarrow> prometheus_provider \<Rightarrow> prometheus_provider" where
  "remember_description name description p =
     (case description of None \<Rightarrow> p
      | Some d \<Rightarrow> if d = '''' \<or> map_of (pp_descriptions p) name \<noteq> None then p
                  else p\<lparr>pp_descriptions := dict_set name d (pp_descriptions p)\<rparr>)"

definition increment_counter ::
  "string \<Rightarrow> int \<Rightarrow> metric_labels option \<Rightarrow> string option \<Rightarrow> prometheus_provider \<Rightarrow> prometheus_provider" where
  "increment_counter name amount labels description p =
     (let metric_name = sanitize_metric_name name;
          key = (metric_name, normalize_labels labels);
          p = remember_description metric_name description p
      in p\<lparr>pp_counters := dict_set key (dict_get 0 (pp_counters p) key + amount) (pp_counters p)\<rparr>)"

definition provider_set_gauge ::
  "string \<Rightarrow> int \<Rightarrow> metric_labels option \<Rightarrow> string option \<Rightarrow> prometheus_provider \<Rightarrow> prometheus_provider" where
  "provider_set_gauge name value labels description p =
     (let metric_name = sanitize_metric_name name;
          key = (metric_name, normalize_labels labels);
          p = remember_description metric_name description p
      in p\<lparr>pp_gauges := dict_set key value (pp_gauges p)\<rparr>)"

definition observe_histogram ::
  "string \<Rightarrow> int \<Rightarrow> metric_labels option \<Rightarrow> int list \<Rightarrow> string option \<Rightarrow>
   prometheus_provider \<Rightarrow> prometheus_provider" where
  "observe_histogram name value labels buckets description p =
     (let metric_name = sanitize_metric_name name;
          key = (metric_name, normalize_labels labels);
          p = remember_description metric_name description p;
          h = (case map_of (pp_histograms p) key of None \<Rightarrow> new_histogram buckets | Some h \<Rightarrow> h)
      in p\<lparr>pp_histograms := dict_set key (histogram_observe value h) (pp_histograms p)\<rparr>)"

section \<open>The registry\<close>

definition registry_increment ::
  "string \<Rightarrow> int \<Rightarrow> metric_labels option \<Rightarrow> string option \<Rightarrow> metrics_registry \<Rightarrow> metrics_registry" where
  "registry_increment name amount labels description r =
     (let r = (if labels = None
               then r\<lparr>mr_counters := dict_set name (dict_get 0 (mr_counters r) name + amount) (mr_counters r)\<rparr>
               else r)
      in r\<lparr>mr_provider := increment_counter name amount labels description (mr_provider r)\<rparr>)"

definition registry_set_gauge ::
  "string \<Rightarrow> int \<Rightarrow> metric_labels option \<Rightarrow> string option \<Rightarrow> metrics_registry \<Rightarrow> metrics_registry" where
  "registry_set_gauge name value labels description r =
     r\<lparr>mr_provider := provider_set_gauge name value labels description (mr_provider r)\<rparr>"

definition registry_observe ::
  "string \<Rightarrow> int \<Rightarrow> metric_labels option \<Rightarrow> string option \<Rightarrow> metrics_registry \<Rightarrow> metrics_registry" where
  "registry_observe name value labels description r =
     r\<lparr>mr_provider :=
         observe_histogram name value labels DEFAULT_HISTOGRAM_BUCKETS description (mr_provider r)\<rparr>"

definition snapshot :: "metrics_registry \<Rightarrow> (string \<times> int) list" where
  "snapshot r = sort (mr_counters r)"

section \<open>Text exposition\<close>

definition escape_label_value :: "string \<Rightarrow> string" where
  "escape_label_value v = concat (map (\<lambda>c.
     if of_char c = (92 :: nat) then [c, c]
     else if of_char c = (10 :: nat) then [char_of (92 :: nat), CHR ''n'']
     else if of_char c = (34 :: nat) then [char_of (92 :: nat), c]
     else [c]) v)"

definition join :: "string \<Rightarrow> string list \<Rightarrow> string" where
  "join sep xs = (case xs of [] \<Rightarrow> '''' | y # ys \<Rightarrow> y @ concat (map (\<lambda>s. sep @ s) ys))"

definition format_labels :: "label_set \<Rightarrow> string" where
  "format_labels ls = (if ls = [] then '''' else
     ''{'' @ join '','' (map (\<lambda>(k, v). k @ ''='' @ [char_of (34 :: nat)] @ escape_label_value v
                                        @ [char_of (34 :: nat)]) ls) @ ''}'')"

definition rstrip_char :: "char \<Rightarrow> string \<Rightarrow> string" where
  "rstrip_char c s = rev (dropWhile (\<lambda>d. d = c) (rev s))"

text \<open>A number of microseconds printed as seconds: six decimals without trailing zeros.\<close>

definition six_digits :: "nat \<Rightarrow> string" where
  "six_digits n = (let ds = digits n in replicate (6 - length ds) (CHR ''0'') @ ds)"

definition format_seconds :: "int \<Rightarrow> string" where
  "format_seconds us =
     (if us mod 1000000 = 0 then str_int (us div 1000000)
      else let a = nat \<bar>us\<bar>; body = digits (a div 1000000) @ ''.'' @ six_digits (a mod 1000000)
           in rstrip_char (CHR ''.'') (rstrip_char (CHR ''0'') (if us < 0 then CHR ''-'' # body else body)))"

definition metric_header :: "string \<Rightarrow> string \<Rightarrow> (string \<times> string) list \<Rightarrow> string list" where
  "metric_header name kind descriptions =
     [''# HELP '' @ name @ '' '' @
        dict_get (map (\<lambda>c. if c = CHR ''_'' then CHR '' '' else c) name) descriptions name,
      ''# TYPE '' @ name @ '' '' @ kind]"

definition metric_names :: "((string \<times> label_set) \<times> 'v) list \<Rightarrow> string list" where
  "metric_names d = sorted_list_of_set (set (map (\<lambda>((n, _), _). n) d))"

definition sorted_items :: "((string \<times> label_set) \<times> 'v) list \<Rightarrow> ((string \<times> label_set) \<times> 'v) list" where
  "sorted_items d = sort_key fst d"

fun cumulative_counts :: "(int \<times> nat) list \<Rightarrow> nat \<Rightarrow> int list \<Rightarrow> nat list" where
  "cumulative_counts counts acc [] = []"
| "cumulative_counts counts acc (b # bs) =
     (let acc = acc + dict_get 0 counts b in acc # cumulative_counts counts acc bs)"

definition histogram_lines :: "string \<Rightarrow> label_set \<Rightarrow> histogram_state \<Rightarrow> string list" where
  "histogram_lines name labels h =
     map (\<lambda>(b, n). name @ ''_bucket'' @ format_labels (labels @ [(''le'', format_seconds b)])
                     @ '' '' @ str_int (int n))
       (zip (hs_buckets h) (cumulative_counts (hs_bucket_counts h) 0 (hs_buckets h))) @
     [name @ ''_bucket'' @ format_labels (labels @ [(''le'', ''+Inf'')]) @ '' '' @
        str_int (int (sum_list (map (dict_get 0 (hs_bucket_counts h)) (hs_buckets h)) + hs_inf_count h)),
      name @ ''_count'' @ format_labels labels @ '' '' @ str_int (int (hs_count h)),
      name @ ''_sum'' @ format_labels labels @ '' '' @ format_seconds (hs_total h)]"

definition simple_lines :: "string \<Rightarrow> ((string \<times> label_set) \<times> int) list \<Rightarrow> (string \<times> string) list \<Rightarrow> string list" where
  "simple_lines kind d descriptions = concat (map (\<lambda>name.
     metric_header name kind descriptions @
     [name @ format_labels ls @ '' '' @ str_int v. ((n, ls), v) \<leftarrow> sorted_items d, n = name])
     (metric_names d))"

definition render :: "prometheus_provider \<Rightarrow> string" where
  "render p = join [char_of (10 :: nat)] (
     simple_lines ''counter'' (pp_counters p) (pp_descriptions p) @
     simple_lines ''gauge'' (pp_gauges p) (pp_descriptions p) @
     concat (map (\<lambda>name.
       metric_header name ''histogram'' (pp_descriptions p) @
       concat [histogram_lines name ls h. ((n, ls), h) \<leftarrow> sorted_items (pp_histograms p), n = name])
       (metric_names (pp_histograms p))) @
     [''''])"

section \<open>Request paths\<close>

definition is_digit :: "char \<Rightarrow> bool" where
  "is_digit c \<longleftrightarrow> CHR ''0'' \<le> c \<and> c \<le> CHR ''9''"

text \<open>
  \<open>re.sub(r"/[0-9]+(?=/|$)", "/{id}", path)\<close>: a slash, the longest run of digits after
  it, and then a slash or the end (possibly before one final newline).
\<close>

function normalize_request_path :: "string \<Rightarrow> string" where
  "normalize_request_path [] = []"
| "normalize_request_path (c # cs) =
     (let ds = takeWhile is_digit cs; rest = dropWhile is_digit cs in
      if c = CHR ''/'' \<and> ds \<noteq> [] \<and> (rest = [] \<or> rest = [char_of (10 :: nat)] \<or> hd rest = CHR ''/'')
      then ''/{id}'' @ normalize_request_path rest
      else c # normalize_request_path cs)"
  by pat_completeness auto
termination
  by (relation "measure length") (auto simp: le_imp_less_Suc length_dropWhile_le)

section \<open>What the registry guarantees\<close>

lemma bucket_for_Some: "bucket_for bs v = Some b \<Longrightarrow> b \<in> set bs \<and> v \<le> b"
  by (induction bs) (auto split: if_splits)

lemma bucket_for_None: "bucket_for bs v = None \<longleftrightarrow> (\<forall>b \<in> set bs. b < v)"
  by (induction bs) auto

lemma bucket_for_least: "sorted bs \<Longrightarrow> bucket_for bs v = Some b \<Longrightarrow> c \<in> set bs \<Longrightarrow> v \<le> c \<Longrightarrow> b \<le> c"
  by (induction bs) (auto split: if_splits)

lemma histogram_observe_buckets [simp]: "hs_buckets (histogram_observe v h) = hs_buckets h"
  by (simp add: histogram_observe_def Let_def split: option.splits)

text \<open>The number \<open>render\<close> prints for bucket \<open>b\<close> and for \<open>+Inf\<close>.\<close>

definition cumulative_at :: "histogram_state \<Rightarrow> int \<Rightarrow> nat" where
  "cumulative_at h b =
     sum_list (map (dict_get 0 (hs_bucket_counts h)) (filter (\<lambda>c. c \<le> b) (hs_buckets h)))"

definition inf_cumulative :: "histogram_state \<Rightarrow> nat" where
  "inf_cumulative h =
     sum_list (map (dict_get 0 (hs_bucket_counts h)) (hs_buckets h)) + hs_inf_count h"

definition histogram_of :: "int list \<Rightarrow> int list \<Rightarrow> histogram_state" where
  "histogram_of bs vs = fold histogram_observe vs (new_histogram bs)"

lemma sum_list_dict_bump:
  fixes counts :: "(int \<times> nat) list"
  assumes "distinct bs"
  shows "sum_list (map (dict_get 0 (dict_set b (dict_get 0 counts b + 1) counts)) bs) =
         sum_list (map (dict_get 0 counts) bs) + (if b \<in> set bs then 1 else 0)"
  using assms by (induction bs) auto

lemma cumulative_at_observe:
  assumes "sorted (hs_buckets h)" and "distinct (hs_buckets h)" and "b \<in> set (hs_buckets h)"
  shows "cumulative_at (histogram_observe v h) b = cumulative_at h b + (if v \<le> b then 1 else 0)"
proof (cases "bucket_for (hs_buckets h) v")
  case None
  then have "\<not> v \<le> b" using assms(3) by (auto simp: bucket_for_None)
  with None show ?thesis
    by (simp add: cumulative_at_def histogram_observe_def Let_def)
next
  case (Some c)
  have d: "distinct (filter (\<lambda>c. c \<le> b) (hs_buckets h))" using assms(2) by simp
  have "c \<le> b \<longleftrightarrow> v \<le> b"
    using bucket_for_Some [OF Some] bucket_for_least [OF assms(1) Some assms(3)] by auto
  with Some show ?thesis
    using sum_list_dict_bump [OF d, of c "hs_bucket_counts h"] bucket_for_Some [OF Some]
    by (simp add: cumulative_at_def histogram_observe_def Let_def)
qed

lemma inf_cumulative_observe:
  assumes "distinct (hs_buckets h)"
  shows "inf_cumulative (histogram_observe v h) = inf_cumulative h + 1"
  using sum_list_dict_bump [OF assms] bucket_for_Some [of "hs_buckets h" v]
  by (auto simp: inf_cumulative_def histogram_observe_def Let_def split: option.splits)

lemma fold_observe:
  assumes "sorted (hs_buckets h)" and "distinct (hs_buckets h)"
  shows "hs_buckets (fold histogram_observe vs h) = hs_buckets h"
    and "b \<in> set (hs_buckets h) \<Longrightarrow> cumulative_at (fold histogram_observe vs h) b =
           cumulative_at h b + length (filter (\<lambda>v. v \<le> b) vs)"
    and "inf_cumulative (fold histogram_observe vs h) = inf_cumulative h + length vs"
  using assms
  by (induction vs arbitrary: h) (auto simp: cumulative_at_observe inf_cumulative_observe)

lemma dict_get_zeros: "dict_get 0 (map (\<lambda>b. (b, 0)) bs) c = (0 :: nat)"
  by (induction bs) (auto simp: dict_get_def)

lemma cumulative_new [simp]: "cumulative_at (new_histogram bs) b = 0" "inf_cumulative (new_histogram bs) = 0"
  by (simp_all add: cumulative_at_def inf_cumulative_def new_histogram_def sum_list_eq_0_iff dict_get_zeros)

lemma cumulative_counts_nth:
  "sorted bs \<Longrightarrow> distinct bs \<Longrightarrow> i < length bs \<Longrightarrow>
   cumulative_counts counts acc bs ! i =
     acc + sum_list (map (dict_get 0 counts) (filter (\<lambda>c. c \<le> bs ! i) bs))"
proof (induction bs arbitrary: acc i)
  case (Cons b bs)
  show ?case
  proof (cases i)
    case 0
    have "filter (\<lambda>c. c \<le> b) bs = []" using Cons.prems by (force simp: filter_empty_conv)
    with 0 show ?thesis by (simp add: Let_def)
  next
    case (Suc j)
    moreover have "b \<le> bs ! j" using Cons.prems Suc by auto
    ultimately show ?thesis using Cons by (simp add: Let_def)
  qed
qed simp

text \<open>
  A histogram rendered after any sequence of observations reports, on its line for
  bucket \<open>b\<close>, exactly the number of observations that were at most \<open>b\<close>, and on its
  \<open>+Inf\<close> line the number of all observations, which is the value of its count line.
\<close>

theorem histogram_render_counts:
  assumes "i < length (hs_buckets (histogram_of bs vs))"
  shows "cumulative_counts (hs_bucket_counts (histogram_of bs vs)) 0
             (hs_buckets (histogram_of bs vs)) ! i =
           length (filter (\<lambda>v. v \<le> hs_buckets (histogram_of bs vs) ! i) vs) \<and>
         inf_cumulative (histogram_of bs vs) = length vs \<and>
         hs_count (histogram_of bs vs) = length vs"
proof -
  let ?h = "histogram_of bs vs" and ?n = "new_histogram bs"
  have n: "sorted (hs_buckets ?n)" "distinct (hs_buckets ?n)"
    by (simp_all add: new_histogram_def)
  have b: "hs_buckets ?h = hs_buckets ?n"
    unfolding histogram_of_def by (rule fold_observe(1) [OF n])
  have "hs_count (fold histogram_observe vs h) = hs_count h + length vs" for h
    by (induction vs arbitrary: h) (auto simp: histogram_observe_def Let_def split: option.splits)
  then have c: "hs_count ?h = length vs" by (simp add: histogram_of_def new_histogram_def)
  have "cumulative_at ?h (hs_buckets ?h ! i) = length (filter (\<lambda>v. v \<le> hs_buckets ?h ! i) vs)"
    using fold_observe(2) [OF n, of "hs_buckets ?h ! i" vs] assms nth_mem [OF assms]
    by (simp add: histogram_of_def [symmetric] b)
  moreover have "inf_cumulative ?h = length vs"
    using fold_observe(3) [OF n] by (simp add: histogram_of_def)
  ultimately show ?thesis
    using cumulative_counts_nth [of "hs_buckets ?h" i] n assms c by (simp add: b cumulative_at_def)
qed

lemma histogram_render_counts_witness:
  "length (filter (\<lambda>v. v \<le> hs_buckets (histogram_of [1000, 5] [1, 7, 4000]) ! 1) [1, 7, 4000]) = 2"
proof -
  have "1 < length (hs_buckets (histogram_of [1000, 5] [1, 7, 4000]))" by code_simp
  from histogram_render_counts [OF this] show ?thesis by code_simp
qed

end
