(* ===== verification/Events.thy ===== *)
theory Events
  imports Main
begin

text \<open>
  The domain events of \<open>app/domain/events.py\<close>, one constructor per dataclass with its
  fields in order.  The field \<open>occurred_at\<close> of the base class is the first component of
  \<open>timed_event\<close>.  Durations are whole microseconds.
\<close>

datatype identity_event =
    GroupCreated int string
  | GroupUpdated int string
  | GroupMembershipAdded int int
  | GroupMembershipRemoved int int
  | GroupMembershipReplaced int "int list"
  | UserProvisioned int string
  | EnterpriseProfileCreated int
  | EnterpriseProfileUpdated int
  | ManagerChanged int "int option"
  | DepartmentChanged int "string option"
  | OrganizationChanged int "string option"
  | CostCenterChanged int "string option"
  | DivisionChanged int "string option"
  | EmployeeNumberChanged int "string option"

datatype connector_event =
    ProvisioningStarted string string string
  | ProvisioningCompleted string string string string
  | ProvisioningFailed string string string string
  | ConnectorCalled string string string int
  | ConnectorSucceeded string string string int int
  | ConnectorFailed string string string int bool string
  | ConnectorRetryScheduled string string string int int int string

datatype job_event =
    ProvisioningJobCreated int string string string
  | ProvisioningJobStarted int string string string
  | ProvisioningJobCompleted int string string string string
  | ProvisioningJobFailed int string string string bool string
  | ProvisioningRetryRecorded int string string string int int int

datatype governance_event =
    CertificationCampaignCreated int string
  | CertificationCampaignStarted int int
  | CertificationCampaignCompleted int int int int
  | CertificationCampaignCancelled int
  | CertificationDecisionRecorded int int int int int string
  | CertificationDecisionUpdated int int int int int "string option" string

datatype remediation_event =
    RemediationCreated int int int string string
  | RemediationStarted int int int string string
  | RemediationCompleted int int int string string "int option" string
  | RemediationFailed int int int string string string

datatype delegation_event =
    DelegationAssigned int int string int string
  | DelegationRemoved int int string int string
  | DelegatedAccessGranted int int int int int string
  | DelegatedAccessDenied "int option" int int int int string string

datatype domain_event =
    IdentityEvent identity_event
  | ConnectorEvent connector_event
  | JobEvent job_event
  | GovernanceEvent governance_event
  | RemediationEvent remediation_event
  | DelegationEvent delegation_event

type_synonym timed_event = "int \<times> domain_event"

end
