(* ===== verification/Tables.thy ===== *)
theory Tables
  imports Main
begin

text \<open>
  The tables of \<open>app/models.py\<close>, \<open>app/governance/models.py\<close>,
  \<open>app/remediation/models.py\<close> and \<open>app/delegation/models.py\<close>: one record per mapped
  class with its columns in order.  Timestamps are microseconds since the epoch (UTC) and
  durations are microseconds.  Relationships are the foreign-key columns.
\<close>

record user =
  u_id :: int
  u_name :: string
  u_email :: string
  u_department :: string
  u_active :: bool
  u_operator_role :: string
  u_password_hash :: string

record group =
  g_id :: int
  g_display_name :: string
  g_created_at :: int
  g_updated_at :: int

record group_member =
  gm_id :: int
  gm_group_id :: int
  gm_user_id :: int
  gm_created_at :: int

record enterprise_user_profile =
  ep_id :: int
  ep_user_id :: int
  ep_employee_number :: "string option"
  ep_department :: "string option"
  ep_division :: "string option"
  ep_cost_center :: "string option"
  ep_organization :: "string option"
  ep_manager_id :: "int option"
  ep_created_at :: int
  ep_updated_at :: int

record application =
  app_id :: int
  app_name :: string
  app_slug :: string

record entitlement =
  ent_id :: int
  ent_name :: string
  ent_slug :: string
  ent_application_id :: int

record access_assignment =
  aa_id :: int
  aa_user_id :: int
  aa_entitlement_id :: int
  aa_granted_at :: int

record audit_event =
  ae_id :: int
  ae_requester_id :: int
  ae_target_user_id :: int
  ae_action :: string
  ae_application_id :: int
  ae_entitlement_id :: int
  ae_result :: string
  ae_reason :: string
  ae_correlation_id :: "string option"
  ae_created_at :: int

record provisioning_job =
  pj_id :: int
  pj_correlation_id :: string
  pj_connector :: string
  pj_operation :: string
  pj_target_type :: string
  pj_target_id :: "string option"
  pj_status :: string
  pj_attempt_count :: int
  pj_retry_count :: int
  pj_max_attempts :: int
  pj_retryable :: bool
  pj_last_error :: "string option"
  pj_created_at :: int
  pj_started_at :: "int option"
  pj_completed_at :: "int option"
  pj_duration_ms :: "int option"

record provisioning_history =
  ph_id :: int
  ph_job_id :: int
  ph_correlation_id :: string
  ph_connector :: string
  ph_operation :: string
  ph_event_type :: string
  ph_status :: string
  ph_message :: string
  ph_attempt :: int
  ph_retryable :: bool
  ph_duration_ms :: "int option"
  ph_details :: "string option"
  ph_created_at :: int

record certification_campaign =
  cc_id :: int
  cc_name :: string
  cc_description :: "string option"
  cc_status :: string
  cc_created_by :: int
  cc_default_reviewer_id :: int
  cc_created_at :: int
  cc_started_at :: "int option"
  cc_completed_at :: "int option"
  cc_cancelled_at :: "int option"
  cc_total_items :: nat
  cc_completed_items :: nat
  cc_approval_count :: nat
  cc_revocation_count :: nat
  cc_abstain_count :: nat

record certification_review_item =
  ri_id :: int
  ri_campaign_id :: int
  ri_access_assignment_id :: int
  ri_user_id :: int
  ri_application_id :: int
  ri_entitlement_id :: int
  ri_group_id :: "int option"
  ri_reviewer_id :: int
  ri_status :: string
  ri_reviewed_at :: "int option"
  ri_created_at :: int

record certification_decision =
  cd_id :: int
  cd_campaign_id :: int
  cd_review_item_id :: int
  cd_reviewer_id :: int
  cd_decision :: string
  cd_comments :: "string option"
  cd_created_at :: int
  cd_updated_at :: int

record remediation_job =
  rj_id :: int
  rj_campaign_id :: int
  rj_review_item_id :: int
  rj_provisioning_job_id :: "int option"
  rj_correlation_id :: string
  rj_remediation_type :: string
  rj_status :: string
  rj_created_at :: int
  rj_started_at :: "int option"
  rj_completed_at :: "int option"
  rj_last_error :: "string option"
  rj_initiated_by :: int

record delegation_assignment =
  da_id :: int
  da_delegate_user_id :: int
  da_scope_type :: string
  da_scope_id :: int
  da_delegation_role :: string
  da_created_by :: int
  da_created_at :: int
  da_expires_at :: "int option"
  da_active :: bool

record db =
  db_users :: "user list"
  db_groups :: "group list"
  db_group_members :: "group_member list"
  db_applications :: "application list"
  db_entitlements :: "entitlement list"
  db_access :: "access_assignment list"
  db_audit :: "audit_event list"
  db_jobs :: "provisioning_job list"
  db_history :: "provisioning_history list"
  db_campaigns :: "certification_campaign list"
  db_items :: "certification_review_item list"
  db_decisions :: "certification_decision list"
  db_rjobs :: "remediation_job list"
  db_delegations :: "delegation_assignment list"
  db_profiles :: "enterprise_user_profile list"

text \<open>The row of a table with a given primary key, and a row written back under its key.\<close>

definition row_by :: "('r \<Rightarrow> int) \<Rightarrow> int \<Rightarrow> 'r list \<Rightarrow> 'r option" where
  "row_by key k rows = find (\<lambda>r. key r = k) rows"

definition put_row :: "('r \<Rightarrow> int) \<Rightarrow> 'r \<Rightarrow> 'r list \<Rightarrow> 'r list" where
  "put_row key r rows = map (\<lambda>r'. if key r' = key r then r else r') rows"

lemma row_by_Some: "row_by key k rows = Some r \<Longrightarrow> r \<in> set rows \<and> key r = k"
  by (auto simp: row_by_def find_Some_iff)

lemma row_by_None: "row_by key k rows = None \<longleftrightarrow> (\<forall>r \<in> set rows. key r \<noteq> k)"
  by (auto simp: row_by_def find_None_iff)

lemma row_by_snoc: "key r \<notin> key ` set rows \<Longrightarrow> row_by key (key r) (rows @ [r]) = Some r"
  by (induction rows) (auto simp: row_by_def)

lemma row_by_absent: "row_by key k rows = None \<longleftrightarrow> k \<notin> key ` set rows"
  unfolding row_by_None by (metis imageE imageI)

lemma row_by_unique:
  "distinct (map key rows) \<Longrightarrow> r \<in> set rows \<Longrightarrow> row_by key (key r) rows = Some r"
  by (induction rows) (force simp: row_by_def)+

lemma map_key_put_row [simp]: "map key (put_row key r rows) = map key rows"
  by (auto simp: put_row_def)

lemma length_put_row [simp]: "length (put_row key r rows) = length rows"
  by (simp add: put_row_def)

lemma put_row_iff:
  "x \<in> set (put_row key r rows) \<longleftrightarrow>
     (x \<in> set rows \<and> key x \<noteq> key r) \<or> (x = r \<and> key r \<in> key ` set rows)"
  by (force simp: put_row_def image_iff)

lemma row_by_put_row:
  "row_by key k (put_row key r rows) =
     (if k = key r \<and> row_by key k rows \<noteq> None then Some r else row_by key k rows)"
  by (induction rows) (auto simp: row_by_def put_row_def)

lemma map_put_row_other:
  "(\<And>r'. r' \<in> set rows \<Longrightarrow> key r' = key r \<Longrightarrow> f r' = f r) \<Longrightarrow>
   map f (put_row key r rows) = map f rows"
  by (auto simp: put_row_def)

lemma distinct_map_put_row:
  assumes "distinct (map key rows)" and "distinct (map f rows)"
    and "\<forall>r \<in> set rows. key r \<noteq> key a \<longrightarrow> f r \<noteq> f a"
  shows "distinct (map f (put_row key a rows))"
  using assms
proof (induction rows)
  case (Cons x rows)
  then have ih: "distinct (map f (put_row key a rows))" by simp
  show ?case
  proof (cases "key x = key a")
    case True
    then have "\<forall>r \<in> set rows. key r \<noteq> key a" using Cons.prems(1) by (auto simp: image_iff)
    then have "put_row key a rows = rows" by (auto simp: put_row_def intro: map_idI)
    moreover from \<open>\<forall>r \<in> set rows. key r \<noteq> key a\<close> have "f a \<notin> f ` set rows" using Cons.prems(3) by auto
    ultimately show ?thesis using True Cons.prems(2) by (simp add: put_row_def)
  next
    case False
    with ih Cons.prems show ?thesis by (auto simp: put_row_def image_iff split: if_splits)
  qed
qed (simp add: put_row_def)

end
