(* ===== verification/Enums.thy ===== *)
theory Enums
  imports Main
begin

text \<open>
  The \<open>StrEnum\<close> classes of the services.  Each is a datatype with one constructor per
  member (with a prefix where two classes share a member name), its \<open>value\<close>, and the list
  of its members in the order of the class.  Columns hold the values; \<open>Enum(value)\<close> is
  \<open>parse_enum\<close>, which finds the member with that value or fails.
\<close>

definition parse_enum :: "'a list \<Rightarrow> ('a \<Rightarrow> string) \<Rightarrow> string \<Rightarrow> 'a option" where
  "parse_enum members val s = find (\<lambda>x. val x = s) members"

text \<open>What a string enumeration promises: the members are all listed, the values differ.\<close>

locale str_enum =
  fixes members :: "'a list" and val :: "'a \<Rightarrow> string"
  assumes members: "x \<in> set members"
    and value_inj: "val x = val y \<Longrightarrow> x = y"
begin

lemma value_eq_iff: "val x = val y \<longleftrightarrow> x = y"
  using value_inj by blast

lemma parse_value: "parse_enum members val (val x) = Some x"
proof -
  obtain y where y: "parse_enum members val (val x) = Some y"
    using members [of x] by (cases "parse_enum members val (val x)")
      (auto simp: parse_enum_def find_None_iff)
  then have "val y = val x" by (auto simp: parse_enum_def find_Some_iff)
  with y show ?thesis using value_inj by blast
qed

lemma parse_Some_iff: "parse_enum members val s = Some x \<longleftrightarrow> s = val x"
  using parse_value by (auto simp: parse_enum_def find_Some_iff)

end

section \<open>CampaignStatus\<close>

datatype campaign_status =
    Campaign_DRAFT
  | Campaign_ACTIVE
  | Campaign_COMPLETED
  | Campaign_CANCELLED

fun campaign_status_value :: "campaign_status \<Rightarrow> string" where
  "campaign_status_value Campaign_DRAFT = ''DRAFT''"
| "campaign_status_value Campaign_ACTIVE = ''ACTIVE''"
| "campaign_status_value Campaign_COMPLETED = ''COMPLETED''"
| "campaign_status_value Campaign_CANCELLED = ''CANCELLED''"

definition campaign_status_members :: "campaign_status list" where
  "campaign_status_members =
     [Campaign_DRAFT, Campaign_ACTIVE, Campaign_COMPLETED, Campaign_CANCELLED]"

interpretation campaign_status: str_enum campaign_status_members campaign_status_value
proof
  fix x y :: campaign_status
  show "x \<in> set campaign_status_members"
    by (cases x) (simp_all add: campaign_status_members_def)
  show "campaign_status_value x = campaign_status_value y \<Longrightarrow> x = y"
    by (cases x; cases y; simp)
qed

section \<open>ReviewItemStatus\<close>

datatype review_item_status =
    Item_PENDING
  | Item_COMPLETED

fun review_item_status_value :: "review_item_status \<Rightarrow> string" where
  "review_item_status_value Item_PENDING = ''PENDING''"
| "review_item_status_value Item_COMPLETED = ''COMPLETED''"

definition review_item_status_members :: "review_item_status list" where
  "review_item_status_members =
     [Item_PENDING, Item_COMPLETED]"

interpretation review_item_status: str_enum review_item_status_members review_item_status_value
proof
  fix x y :: review_item_status
  show "x \<in> set review_item_status_members"
    by (cases x) (simp_all add: review_item_status_members_def)
  show "review_item_status_value x = review_item_status_value y \<Longrightarrow> x = y"
    by (cases x; cases y; simp)
qed

section \<open>CertificationDecisionValue\<close>

datatype certification_decision_value =
    APPROVE
  | REVOKE
  | ABSTAIN

fun certification_decision_value_value :: "certification_decision_value \<Rightarrow> string" where
  "certification_decision_value_value APPROVE = ''APPROVE''"
| "certification_decision_value_value REVOKE = ''REVOKE''"
| "certification_decision_value_value ABSTAIN = ''ABSTAIN''"

definition certification_decision_value_members :: "certification_decision_value list" where
  "certification_decision_value_members =
     [APPROVE, REVOKE, ABSTAIN]"

interpretation certification_decision_value: str_enum certification_decision_value_members certification_decision_value_value
proof
  fix x y :: certification_decision_value
  show "x \<in> set certification_decision_value_members"
    by (cases x) (simp_all add: certification_decision_value_members_def)
  show "certification_decision_value_value x = certification_decision_value_value y \<Longrightarrow> x = y"
    by (cases x; cases y; simp)
qed

section \<open>RemediationType\<close>

datatype remediation_type =
    Remediate_REVOKE_ENTITLEMENT
  | Remediate_REMOVE_GROUP_MEMBER
  | Remediate_DISABLE_USER

fun remediation_type_value :: "remediation_type \<Rightarrow> string" where
  "remediation_type_value Remediate_REVOKE_ENTITLEMENT = ''REVOKE_ENTITLEMENT''"
| "remediation_type_value Remediate_REMOVE_GROUP_MEMBER = ''REMOVE_GROUP_MEMBER''"
| "remediation_type_value Remediate_DISABLE_USER = ''DISABLE_USER''"

definition remediation_type_members :: "remediation_type list" where
  "remediation_type_members =
     [Remediate_REVOKE_ENTITLEMENT, Remediate_REMOVE_GROUP_MEMBER, Remediate_DISABLE_USER]"

interpretation remediation_type: str_enum remediation_type_members remediation_type_value
proof
  fix x y :: remediation_type
  show "x \<in> set remediation_type_members"
    by (cases x) (simp_all add: remediation_type_members_def)
  show "remediation_type_value x = remediation_type_value y \<Longrightarrow> x = y"
    by (cases x; cases y; simp)
qed

section \<open>RemediationStatus\<close>

datatype remediation_status =
    Remediation_PENDING
  | Remediation_RUNNING
  | Remediation_COMPLETED
  | Remediation_FAILED
  | Remediation_SKIPPED

fun remediation_status_value :: "remediation_status \<Rightarrow> string" where
  "remediation_status_value Remediation_PENDING = ''PENDING''"
| "remediation_status_value Remediation_RUNNING = ''RUNNING''"
| "remediation_status_value Remediation_COMPLETED = ''COMPLETED''"
| "remediation_status_value Remediation_FAILED = ''FAILED''"
| "remediation_status_value Remediation_SKIPPED = ''SKIPPED''"

definition remediation_status_members :: "remediation_status list" where
  "remediation_status_members =
     [Remediation_PENDING, Remediation_RUNNING, Remediation_COMPLETED, Remediation_FAILED, Remediation_SKIPPED]"

interpretation remediation_status: str_enum remediation_status_members remediation_status_value
proof
  fix x y :: remediation_status
  show "x \<in> set remediation_status_members"
    by (cases x) (simp_all add: remediation_status_members_def)
  show "remediation_status_value x = remediation_status_value y \<Longrightarrow> x = y"
    by (cases x; cases y; simp)
qed

section \<open>DelegationRole\<close>

datatype delegation_role =
    APPLICATION_OWNER
  | APPLICATION_ADMINISTRATOR
  | GROUP_OWNER
  | GROUP_ADMINISTRATOR
  | ACCESS_REVIEWER
  | HELPDESK_DELEGATE

fun delegation_role_value :: "delegation_role \<Rightarrow> string" where
  "delegation_role_value APPLICATION_OWNER = ''APPLICATION_OWNER''"
| "delegation_role_value APPLICATION_ADMINISTRATOR = ''APPLICATION_ADMINISTRATOR''"
| "delegation_role_value GROUP_OWNER = ''GROUP_OWNER''"
| "delegation_role_value GROUP_ADMINISTRATOR = ''GROUP_ADMINISTRATOR''"
| "delegation_role_value ACCESS_REVIEWER = ''ACCESS_REVIEWER''"
| "delegation_role_value HELPDESK_DELEGATE = ''HELPDESK_DELEGATE''"

definition delegation_role_members :: "delegation_role list" where
  "delegation_role_members =
     [APPLICATION_OWNER, APPLICATION_ADMINISTRATOR, GROUP_OWNER, GROUP_ADMINISTRATOR, ACCESS_REVIEWER, HELPDESK_DELEGATE]"

interpretation delegation_role: str_enum delegation_role_members delegation_role_value
proof
  fix x y :: delegation_role
  show "x \<in> set delegation_role_members"
    by (cases x) (simp_all add: delegation_role_members_def)
  show "delegation_role_value x = delegation_role_value y \<Longrightarrow> x = y"
    by (cases x; cases y; simp)
qed

section \<open>DelegationScopeType\<close>

datatype delegation_scope_type =
    Scope_APPLICATION
  | Scope_GROUP
  | Scope_ENTITLEMENT

fun delegation_scope_type_value :: "delegation_scope_type \<Rightarrow> string" where
  "delegation_scope_type_value Scope_APPLICATION = ''APPLICATION''"
| "delegation_scope_type_value Scope_GROUP = ''GROUP''"
| "delegation_scope_type_value Scope_ENTITLEMENT = ''ENTITLEMENT''"

definition delegation_scope_type_members :: "delegation_scope_type list" where
  "delegation_scope_type_members =
     [Scope_APPLICATION, Scope_GROUP, Scope_ENTITLEMENT]"

interpretation delegation_scope_type: str_enum delegation_scope_type_members delegation_scope_type_value
proof
  fix x y :: delegation_scope_type
  show "x \<in> set delegation_scope_type_members"
    by (cases x) (simp_all add: delegation_scope_type_members_def)
  show "delegation_scope_type_value x = delegation_scope_type_value y \<Longrightarrow> x = y"
    by (cases x; cases y; simp)
qed

section \<open>DelegatedAction\<close>

datatype delegated_action =
    GRANT_ACCESS
  | REVOKE_ACCESS

fun delegated_action_value :: "delegated_action \<Rightarrow> string" where
  "delegated_action_value GRANT_ACCESS = ''grant_access''"
| "delegated_action_value REVOKE_ACCESS = ''revoke_access''"

definition delegated_action_members :: "delegated_action list" where
  "delegated_action_members =
     [GRANT_ACCESS, REVOKE_ACCESS]"

interpretation delegated_action: str_enum delegated_action_members delegated_action_value
proof
  fix x y :: delegated_action
  show "x \<in> set delegated_action_members"
    by (cases x) (simp_all add: delegated_action_members_def)
  show "delegated_action_value x = delegated_action_value y \<Longrightarrow> x = y"
    by (cases x; cases y; simp)
qed

section \<open>ConnectorOperation\<close>

datatype connector_operation =
    Op_HEALTH_CHECK
  | Op_CREATE_USER
  | Op_UPDATE_USER
  | Op_DISABLE_USER
  | Op_DELETE_USER
  | Op_CREATE_GROUP
  | Op_UPDATE_GROUP
  | Op_DELETE_GROUP
  | Op_ADD_GROUP_MEMBER
  | Op_REMOVE_GROUP_MEMBER
  | Op_GRANT_ENTITLEMENT
  | Op_REVOKE_ENTITLEMENT

fun connector_operation_value :: "connector_operation \<Rightarrow> string" where
  "connector_operation_value Op_HEALTH_CHECK = ''health_check''"
| "connector_operation_value Op_CREATE_USER = ''create_user''"
| "connector_operation_value Op_UPDATE_USER = ''update_user''"
| "connector_operation_value Op_DISABLE_USER = ''disable_user''"
| "connector_operation_value Op_DELETE_USER = ''delete_user''"
| "connector_operation_value Op_CREATE_GROUP = ''create_group''"
| "connector_operation_value Op_UPDATE_GROUP = ''update_group''"
| "connector_operation_value Op_DELETE_GROUP = ''delete_group''"
| "connector_operation_value Op_ADD_GROUP_MEMBER = ''add_group_member''"
| "connector_operation_value Op_REMOVE_GROUP_MEMBER = ''remove_group_member''"
| "connector_operation_value Op_GRANT_ENTITLEMENT = ''grant_entitlement''"
| "connector_operation_value Op_REVOKE_ENTITLEMENT = ''revoke_entitlement''"

definition connector_operation_members :: "connector_operation list" where
  "connector_operation_members =
     [Op_HEALTH_CHECK, Op_CREATE_USER, Op_UPDATE_USER, Op_DISABLE_USER, Op_DELETE_USER, Op_CREATE_GROUP, Op_UPDATE_GROUP, Op_DELETE_GROUP, Op_ADD_GROUP_MEMBER, Op_REMOVE_GROUP_MEMBER, Op_GRANT_ENTITLEMENT, Op_REVOKE_ENTITLEMENT]"

interpretation connector_operation: str_enum connector_operation_members connector_operation_value
proof
  fix x y :: connector_operation
  show "x \<in> set connector_operation_members"
    by (cases x) (simp_all add: connector_operation_members_def)
  show "connector_operation_value x = connector_operation_value y \<Longrightarrow> x = y"
    by (cases x; cases y; simp)
qed

section \<open>ConnectorStatus\<close>

datatype connector_status =
    Connector_SUCCESS
  | Connector_FAILED
  | Connector_RETRYABLE
  | Connector_SKIPPED

fun connector_status_value :: "connector_status \<Rightarrow> string" where
  "connector_status_value Connector_SUCCESS = ''SUCCESS''"
| "connector_status_value Connector_FAILED = ''FAILED''"
| "connector_status_value Connector_RETRYABLE = ''RETRYABLE''"
| "connector_status_value Connector_SKIPPED = ''SKIPPED''"

definition connector_status_members :: "connector_status list" where
  "connector_status_members =
     [Connector_SUCCESS, Connector_FAILED, Connector_RETRYABLE, Connector_SKIPPED]"

interpretation connector_status: str_enum connector_status_members connector_status_value
proof
  fix x y :: connector_status
  show "x \<in> set connector_status_members"
    by (cases x) (simp_all add: connector_status_members_def)
  show "connector_status_value x = connector_status_value y \<Longrightarrow> x = y"
    by (cases x; cases y; simp)
qed

section \<open>ConnectorHealthStatus\<close>

datatype connector_health_status =
    Health_HEALTHY
  | Health_DEGRADED
  | Health_UNAVAILABLE

fun connector_health_status_value :: "connector_health_status \<Rightarrow> string" where
  "connector_health_status_value Health_HEALTHY = ''HEALTHY''"
| "connector_health_status_value Health_DEGRADED = ''DEGRADED''"
| "connector_health_status_value Health_UNAVAILABLE = ''UNAVAILABLE''"

definition connector_health_status_members :: "connector_health_status list" where
  "connector_health_status_members =
     [Health_HEALTHY, Health_DEGRADED, Health_UNAVAILABLE]"

interpretation connector_health_status: str_enum connector_health_status_members connector_health_status_value
proof
  fix x y :: connector_health_status
  show "x \<in> set connector_health_status_members"
    by (cases x) (simp_all add: connector_health_status_members_def)
  show "connector_health_status_value x = connector_health_status_value y \<Longrightarrow> x = y"
    by (cases x; cases y; simp)
qed

section \<open>ConnectorSimulationMode\<close>

datatype simulation_mode =
    Mode_SUCCESS
  | Mode_VALIDATION_FAILURE
  | Mode_TIMEOUT
  | Mode_RATE_LIMIT
  | Mode_RETRYABLE_FAILURE
  | Mode_NON_RETRYABLE_FAILURE
  | Mode_DEGRADED
  | Mode_UNAVAILABLE

fun simulation_mode_value :: "simulation_mode \<Rightarrow> string" where
  "simulation_mode_value Mode_SUCCESS = ''success''"
| "simulation_mode_value Mode_VALIDATION_FAILURE = ''validation_failure''"
| "simulation_mode_value Mode_TIMEOUT = ''timeout''"
| "simulation_mode_value Mode_RATE_LIMIT = ''rate_limit''"
| "simulation_mode_value Mode_RETRYABLE_FAILURE = ''retryable_failure''"
| "simulation_mode_value Mode_NON_RETRYABLE_FAILURE = ''non_retryable_failure''"
| "simulation_mode_value Mode_DEGRADED = ''degraded''"
| "simulation_mode_value Mode_UNAVAILABLE = ''unavailable''"

definition simulation_mode_members :: "simulation_mode list" where
  "simulation_mode_members =
     [Mode_SUCCESS, Mode_VALIDATION_FAILURE, Mode_TIMEOUT, Mode_RATE_LIMIT, Mode_RETRYABLE_FAILURE, Mode_NON_RETRYABLE_FAILURE, Mode_DEGRADED, Mode_UNAVAILABLE]"

interpretation simulation_mode: str_enum simulation_mode_members simulation_mode_value
proof
  fix x y :: simulation_mode
  show "x \<in> set simulation_mode_members"
    by (cases x) (simp_all add: simulation_mode_members_def)
  show "simulation_mode_value x = simulation_mode_value y \<Longrightarrow> x = y"
    by (cases x; cases y; simp)
qed

section \<open>ProvisioningJobStatus\<close>

datatype provisioning_job_status =
    Job_PENDING
  | Job_RUNNING
  | Job_SUCCESS
  | Job_FAILED
  | Job_RETRYABLE
  | Job_SKIPPED

fun provisioning_job_status_value :: "provisioning_job_status \<Rightarrow> string" where
  "provisioning_job_status_value Job_PENDING = ''PENDING''"
| "provisioning_job_status_value Job_RUNNING = ''RUNNING''"
| "provisioning_job_status_value Job_SUCCESS = ''SUCCESS''"
| "provisioning_job_status_value Job_FAILED = ''FAILED''"
| "provisioning_job_status_value Job_RETRYABLE = ''RETRYABLE''"
| "provisioning_job_status_value Job_SKIPPED = ''SKIPPED''"

definition provisioning_job_status_members :: "provisioning_job_status list" where
  "provisioning_job_status_members =
     [Job_PENDING, Job_RUNNING, Job_SUCCESS, Job_FAILED, Job_RETRYABLE, Job_SKIPPED]"

interpretation provisioning_job_status: str_enum provisioning_job_status_members provisioning_job_status_value
proof
  fix x y :: provisioning_job_status
  show "x \<in> set provisioning_job_status_members"
    by (cases x) (simp_all add: provisioning_job_status_members_def)
  show "provisioning_job_status_value x = provisioning_job_status_value y \<Longrightarrow> x = y"
    by (cases x; cases y; simp)
qed

section \<open>ProvisioningHistoryEventType\<close>

datatype history_event_type =
    H_JOB_CREATED
  | H_JOB_STARTED
  | H_CONNECTOR_INVOCATION
  | H_CONNECTOR_RESULT
  | H_JOB_COMPLETED
  | H_JOB_FAILED
  | H_RETRY_RECORDED

fun history_event_type_value :: "history_event_type \<Rightarrow> string" where
  "history_event_type_value H_JOB_CREATED = ''job_created''"
| "history_event_type_value H_JOB_STARTED = ''job_started''"
| "history_event_type_value H_CONNECTOR_INVOCATION = ''connector_invocation''"
| "history_event_type_value H_CONNECTOR_RESULT = ''connector_result''"
| "history_event_type_value H_JOB_COMPLETED = ''job_completed''"
| "history_event_type_value H_JOB_FAILED = ''job_failed''"
| "history_event_type_value H_RETRY_RECORDED = ''retry_recorded''"

definition history_event_type_members :: "history_event_type list" where
  "history_event_type_members =
     [H_JOB_CREATED, H_JOB_STARTED, H_CONNECTOR_INVOCATION, H_CONNECTOR_RESULT, H_JOB_COMPLETED, H_JOB_FAILED, H_RETRY_RECORDED]"

interpretation history_event_type: str_enum history_event_type_members history_event_type_value
proof
  fix x y :: history_event_type
  show "x \<in> set history_event_type_members"
    by (cases x) (simp_all add: history_event_type_members_def)
  show "history_event_type_value x = history_event_type_value y \<Longrightarrow> x = y"
    by (cases x; cases y; simp)
qed

text \<open>The values stay folded in proofs; equality of values is equality of members.\<close>

lemmas enum_values =
  campaign_status_value.simps
  review_item_status_value.simps
  certification_decision_value_value.simps
  remediation_type_value.simps
  remediation_status_value.simps
  delegation_role_value.simps
  delegation_scope_type_value.simps
  delegated_action_value.simps
  connector_operation_value.simps
  connector_status_value.simps
  connector_health_status_value.simps
  simulation_mode_value.simps
  provisioning_job_status_value.simps
  history_event_type_value.simps

declare enum_values [simp del]

lemmas enum_value_eq [simp] =
  campaign_status.value_eq_iff
  review_item_status.value_eq_iff
  certification_decision_value.value_eq_iff
  remediation_type.value_eq_iff
  remediation_status.value_eq_iff
  delegation_role.value_eq_iff
  delegation_scope_type.value_eq_iff
  delegated_action.value_eq_iff
  connector_operation.value_eq_iff
  connector_status.value_eq_iff
  connector_health_status.value_eq_iff
  simulation_mode.value_eq_iff
  provisioning_job_status.value_eq_iff
  history_event_type.value_eq_iff

lemmas enum_parse [simp] =
  campaign_status.parse_value
  review_item_status.parse_value
  certification_decision_value.parse_value
  remediation_type.parse_value
  remediation_status.parse_value
  delegation_role.parse_value
  delegation_scope_type.parse_value
  delegated_action.parse_value
  connector_operation.parse_value
  connector_status.parse_value
  connector_health_status.parse_value
  simulation_mode.parse_value
  provisioning_job_status.parse_value
  history_event_type.parse_value

lemmas enum_parse_iff =
  campaign_status.parse_Some_iff
  review_item_status.parse_Some_iff
  certification_decision_value.parse_Some_iff
  remediation_type.parse_Some_iff
  remediation_status.parse_Some_iff
  delegation_role.parse_Some_iff
  delegation_scope_type.parse_Some_iff
  delegated_action.parse_Some_iff
  connector_operation.parse_Some_iff
  connector_status.parse_Some_iff
  connector_health_status.parse_Some_iff
  simulation_mode.parse_Some_iff
  provisioning_job_status.parse_Some_iff
  history_event_type.parse_Some_iff

end
