(* ===== verification/Store.thy ===== *)
theory Store
  imports Observability Json Events Tables Enums
begin

text \<open>
  The state every service works on and the operations they share: the exceptions, the
  request context, the process-wide metrics registry and event publisher, the clock, the
  database session, and \<open>create_audit_event\<close> of \<open>app/audit_service.py\<close>.

  Outside the program and therefore parameters, in the record \<open>environment\<close>: the readings
  of the wall clock and of \<open>perf_counter\<close>, the UUIDs that \<open>uuid4\<close> draws, the database's
  choice of a new primary key given the keys in use and the text of its errors, the password
  hash of \<open>passlib\<close> and its verification (\<open>None\<close> when it raises), pydantic's
  \<open>EmailStr\<close> validation (the normalised address, or \<open>None\<close>), and the UTC offset in the
  ISO form of a timestamp the database returns (empty for SQLite, \<open>+00:00\<close> otherwise).  A database never hands out a key in
  use (\<open>fresh_keys\<close>).  A violated unique constraint raises \<open>IntegrityError\<close>.
\<close>

section \<open>Exceptions\<close>

datatype governance_error =
    DuplicateCampaignNameError string
  | CampaignNotFoundError int
  | ReviewItemNotFoundError int
  | MissingReviewerError int
  | InvalidCampaignTransitionError string
  | IncompleteCampaignError certification_campaign
  | UnsupportedGovernanceSortFieldError string
  | UnsupportedGovernanceSortOrderError string

datatype remediation_error =
    RemediationCampaignNotFoundError int
  | RemediationReviewItemNotFoundError int
  | RemediationJobNotFoundError int
  | DuplicateRemediationJobError int
  | InvalidRemediationCampaignStateError certification_campaign
  | UnsupportedRemediationDecisionError int
  | UnsupportedRemediationConnectorError string
  | UnsupportedRemediationSortFieldError string
  | UnsupportedRemediationSortOrderError string

datatype delegation_error =
    DelegationAssignmentNotFoundError int
  | DelegationDelegateNotFoundError int
  | InactiveDelegateUserError int
  | DelegationScopeNotFoundError string int
  | InvalidDelegationScopeError delegation_scope_type delegation_role
  | DuplicateDelegationAssignmentError int delegation_scope_type int delegation_role
  | ExpiredDelegationAssignmentError
  | InactiveDelegationAssignmentError int
  | UnsupportedDelegationSortFieldError string
  | UnsupportedDelegationSortOrderError string

datatype provisioning_job_error =
    ProvisioningJobNotFoundError int
  | UnsupportedProvisioningSortFieldError string
  | UnsupportedProvisioningSortOrderError string

datatype connector_error_class =
    ConnectorError
  | AuthenticationError
  | AuthorizationError
  | RetryableConnectorError
  | RateLimitError
  | TimeoutError
  | ValidationError
  | ConfigurationError
  | UnknownConnectorError
  | UnsupportedConnectorOperationError

datatype user_service_error =
    DuplicateUserNameError string user
  | UserNotFoundError string

datatype enterprise_user_error =
    DuplicateEmployeeNumberError string enterprise_user_profile
  | UnknownManagerError int
  | SelfManagerError int
  | ManagerCycleError int int

datatype group_error =
    DuplicateGroupError string group
  | GroupNotFoundError string
  | UnknownGroupMemberError string
  | DuplicateGroupMemberError string
  | UnsupportedGroupSortFieldError string
  | UnsupportedGroupSortOrderError string

text \<open>\<open>ScimHTTPException\<close> of \<open>app/scim/errors.py\<close>.\<close>

record scim_http_exception =
  se_status_code :: int
  se_detail :: string
  se_scim_type :: "string option"

record connector_error =
  ce_class :: connector_error_class
  ce_message :: string
  ce_connector :: "string option"
  ce_operation :: "string option"
  ce_details :: payload

datatype exn =
    GovernanceExn governance_error
  | RemediationExn remediation_error
  | DelegationExn delegation_error
  | ProvisioningJobExn provisioning_job_error
  | ConnectorExn connector_error
  | UserServiceExn user_service_error
  | EnterpriseUserExn enterprise_user_error
  | GroupExn group_error
  | ScimExn scim_http_exception
  | ValueError string
  | RuntimeError string
  | AttributeError string
  | IntegrityError string

fun governance_message :: "governance_error \<Rightarrow> string" where
  "governance_message (DuplicateCampaignNameError name) =
     ''Certification campaign '' @ str_repr name @ '' already exists''"
| "governance_message (CampaignNotFoundError i) =
     ''Certification campaign '' @ str_int i @ '' was not found''"
| "governance_message (ReviewItemNotFoundError i) =
     ''Certification review item '' @ str_int i @ '' was not found''"
| "governance_message (MissingReviewerError i) = ''Reviewer '' @ str_int i @ '' was not found''"
| "governance_message (InvalidCampaignTransitionError m) = m"
| "governance_message (IncompleteCampaignError c) =
     ''Campaign cannot be completed while review items are pending''"
| "governance_message (UnsupportedGovernanceSortFieldError f) =
     ''Unsupported governance sort field: '' @ f"
| "governance_message (UnsupportedGovernanceSortOrderError o') =
     ''Unsupported governance sort order: '' @ o'"

fun remediation_message :: "remediation_error \<Rightarrow> string" where
  "remediation_message (RemediationCampaignNotFoundError i) =
     ''Certification campaign '' @ str_int i @ '' was not found''"
| "remediation_message (RemediationReviewItemNotFoundError i) =
     ''Certification review item '' @ str_int i @ '' was not found''"
| "remediation_message (RemediationJobNotFoundError i) =
     ''Remediation job '' @ str_int i @ '' was not found''"
| "remediation_message (DuplicateRemediationJobError i) =
     ''Remediation job already exists for review item '' @ str_int i"
| "remediation_message (InvalidRemediationCampaignStateError c) =
     ''Campaign '' @ str_int (cc_id c) @ '' must be COMPLETED before remediation''"
| "remediation_message (UnsupportedRemediationDecisionError i) =
     ''Review item '' @ str_int i @ '' does not have a remediable decision''"
| "remediation_message (UnsupportedRemediationConnectorError slug) =
     ''No remediation connector is available for application '' @ str_repr slug"
| "remediation_message (UnsupportedRemediationSortFieldError f) =
     ''Unsupported remediation sort field: '' @ f"
| "remediation_message (UnsupportedRemediationSortOrderError o') =
     ''Unsupported remediation sort order: '' @ o'"

fun delegation_message :: "delegation_error \<Rightarrow> string" where
  "delegation_message (DelegationAssignmentNotFoundError i) =
     ''Delegation assignment '' @ str_int i @ '' was not found''"
| "delegation_message (DelegationDelegateNotFoundError i) =
     ''Delegate user '' @ str_int i @ '' was not found''"
| "delegation_message (InactiveDelegateUserError i) = ''Delegate user '' @ str_int i @ '' is inactive''"
| "delegation_message (DelegationScopeNotFoundError t i) =
     t @ '' scope '' @ str_int i @ '' was not found''"
| "delegation_message (InvalidDelegationScopeError t r) =
     delegation_role_value r @ '' cannot be assigned to '' @ delegation_scope_type_value t @ '' scope''"
| "delegation_message (DuplicateDelegationAssignmentError u t i r) =
     ''Delegation assignment already exists for user='' @ str_int u @ '', scope='' @
     delegation_scope_type_value t @ '':'' @ str_int i @ '', role='' @ delegation_role_value r"
| "delegation_message ExpiredDelegationAssignmentError =
     ''Delegation assignment expiration must be in the future''"
| "delegation_message (InactiveDelegationAssignmentError i) =
     ''Delegation assignment '' @ str_int i @ '' is inactive''"
| "delegation_message (UnsupportedDelegationSortFieldError f) = ''Unsupported delegation sort field: '' @ f"
| "delegation_message (UnsupportedDelegationSortOrderError o') = ''Unsupported delegation sort order: '' @ o'"

fun provisioning_job_message :: "provisioning_job_error \<Rightarrow> string" where
  "provisioning_job_message (ProvisioningJobNotFoundError i) =
     ''Provisioning job '' @ str_int i @ '' was not found''"
| "provisioning_job_message (UnsupportedProvisioningSortFieldError f) =
     ''Unsupported provisioning sort field: '' @ f"
| "provisioning_job_message (UnsupportedProvisioningSortOrderError o') =
     ''Unsupported provisioning sort order: '' @ o'"

fun user_service_message :: "user_service_error \<Rightarrow> string" where
  "user_service_message (DuplicateUserNameError n _) = ''User with userName '' @ str_repr n @ '' already exists''"
| "user_service_message (UserNotFoundError i) = ''User '' @ str_repr i @ '' was not found''"

fun enterprise_user_message :: "enterprise_user_error \<Rightarrow> string" where
  "enterprise_user_message (DuplicateEmployeeNumberError n _) =
     ''Employee number '' @ str_repr n @ '' is already assigned''"
| "enterprise_user_message (UnknownManagerError i) = ''Manager '' @ str_int i @ '' was not found''"
| "enterprise_user_message (SelfManagerError _) = ''A user cannot be their own manager''"
| "enterprise_user_message (ManagerCycleError _ _) = ''Manager assignment would create a cycle''"

fun group_message :: "group_error \<Rightarrow> string" where
  "group_message (DuplicateGroupError n _) = ''Group with displayName '' @ str_repr n @ '' already exists''"
| "group_message (GroupNotFoundError i) = ''Group '' @ str_repr i @ '' was not found''"
| "group_message (UnknownGroupMemberError i) = ''Group member '' @ str_repr i @ '' was not found''"
| "group_message (DuplicateGroupMemberError i) = ''Group member '' @ str_repr i @ '' is already present''"
| "group_message (UnsupportedGroupSortFieldError f) = ''Unsupported group sort field: '' @ f"
| "group_message (UnsupportedGroupSortOrderError o') = ''Unsupported group sort order: '' @ o'"

text \<open>\<open>str(exc)\<close> and \<open>exc.__class__.__name__\<close>.\<close>

fun exn_message :: "exn \<Rightarrow> string" where
  "exn_message (GovernanceExn e) = governance_message e"
| "exn_message (RemediationExn e) = remediation_message e"
| "exn_message (DelegationExn e) = delegation_message e"
| "exn_message (ProvisioningJobExn e) = provisioning_job_message e"
| "exn_message (ConnectorExn e) = ce_message e"
| "exn_message (UserServiceExn e) = user_service_message e"
| "exn_message (EnterpriseUserExn e) = enterprise_user_message e"
| "exn_message (GroupExn e) = group_message e"
| "exn_message (ScimExn e) = str_int (se_status_code e) @ '': '' @ se_detail e"
| "exn_message (ValueError m) = m"
| "exn_message (RuntimeError m) = m"
| "exn_message (AttributeError m) = m"
| "exn_message (IntegrityError m) = m"

fun connector_class_name :: "connector_error_class \<Rightarrow> string" where
  "connector_class_name ConnectorError = ''ConnectorError''"
| "connector_class_name AuthenticationError = ''AuthenticationError''"
| "connector_class_name AuthorizationError = ''AuthorizationError''"
| "connector_class_name RetryableConnectorError = ''RetryableConnectorError''"
| "connector_class_name RateLimitError = ''RateLimitError''"
| "connector_class_name TimeoutError = ''TimeoutError''"
| "connector_class_name ValidationError = ''ValidationError''"
| "connector_class_name ConfigurationError = ''ConfigurationError''"
| "connector_class_name UnknownConnectorError = ''UnknownConnectorError''"
| "connector_class_name UnsupportedConnectorOperationError = ''UnsupportedConnectorOperationError''"

fun exn_class_name :: "exn \<Rightarrow> string" where
  "exn_class_name (GovernanceExn e) = (case e of
       DuplicateCampaignNameError _ \<Rightarrow> ''DuplicateCampaignNameError''
     | CampaignNotFoundError _ \<Rightarrow> ''CampaignNotFoundError''
     | ReviewItemNotFoundError _ \<Rightarrow> ''ReviewItemNotFoundError''
     | MissingReviewerError _ \<Rightarrow> ''MissingReviewerError''
     | InvalidCampaignTransitionError _ \<Rightarrow> ''InvalidCampaignTransitionError''
     | IncompleteCampaignError _ \<Rightarrow> ''IncompleteCampaignError''
     | UnsupportedGovernanceSortFieldError _ \<Rightarrow> ''UnsupportedGovernanceSortFieldError''
     | UnsupportedGovernanceSortOrderError _ \<Rightarrow> ''UnsupportedGovernanceSortOrderError'')"
| "exn_class_name (RemediationExn e) = (case e of
       RemediationCampaignNotFoundError _ \<Rightarrow> ''RemediationCampaignNotFoundError''
     | RemediationReviewItemNotFoundError _ \<Rightarrow> ''RemediationReviewItemNotFoundError''
     | RemediationJobNotFoundError _ \<Rightarrow> ''RemediationJobNotFoundError''
     | DuplicateRemediationJobError _ \<Rightarrow> ''DuplicateRemediationJobError''
     | InvalidRemediationCampaignStateError _ \<Rightarrow> ''InvalidRemediationCampaignStateError''
     | UnsupportedRemediationDecisionError _ \<Rightarrow> ''UnsupportedRemediationDecisionError''
     | UnsupportedRemediationConnectorError _ \<Rightarrow> ''UnsupportedRemediationConnectorError''
     | UnsupportedRemediationSortFieldError _ \<Rightarrow> ''UnsupportedRemediationSortFieldError''
     | UnsupportedRemediationSortOrderError _ \<Rightarrow> ''UnsupportedRemediationSortOrderError'')"
| "exn_class_name (DelegationExn e) = (case e of
       DelegationAssignmentNotFoundError _ \<Rightarrow> ''DelegationAssignmentNotFoundError''
     | DelegationDelegateNotFoundError _ \<Rightarrow> ''DelegationDelegateNotFoundError''
     | InactiveDelegateUserError _ \<Rightarrow> ''InactiveDelegateUserError''
     | DelegationScopeNotFoundError _ _ \<Rightarrow> ''DelegationScopeNotFoundError''
     | InvalidDelegationScopeError _ _ \<Rightarrow> ''InvalidDelegationScopeError''
     | DuplicateDelegationAssignmentError _ _ _ _ \<Rightarrow> ''DuplicateDelegationAssignmentError''
     | ExpiredDelegationAssignmentError \<Rightarrow> ''ExpiredDelegationAssignmentError''
     | InactiveDelegationAssignmentError _ \<Rightarrow> ''InactiveDelegationAssignmentError''
     | UnsupportedDelegationSortFieldError _ \<Rightarrow> ''UnsupportedDelegationSortFieldError''
     | UnsupportedDelegationSortOrderError _ \<Rightarrow> ''UnsupportedDelegationSortOrderError'')"
| "exn_class_name (ProvisioningJobExn e) = (case e of
       ProvisioningJobNotFoundError _ \<Rightarrow> ''ProvisioningJobNotFoundError''
     | UnsupportedProvisioningSortFieldError _ \<Rightarrow> ''UnsupportedProvisioningSortFieldError''
     | UnsupportedProvisioningSortOrderError _ \<Rightarrow> ''UnsupportedProvisioningSortOrderError'')"
| "exn_class_name (ConnectorExn e) = connector_class_name (ce_class e)"
| "exn_class_name (UserServiceExn e) = (case e of
       DuplicateUserNameError _ _ \<Rightarrow> ''DuplicateUserNameError''
     | UserNotFoundError _ \<Rightarrow> ''UserNotFoundError'')"
| "exn_class_name (EnterpriseUserExn e) = (case e of
       DuplicateEmployeeNumberError _ _ \<Rightarrow> ''DuplicateEmployeeNumberError''
     | UnknownManagerError _ \<Rightarrow> ''UnknownManagerError''
     | SelfManagerError _ \<Rightarrow> ''SelfManagerError''
     | ManagerCycleError _ _ \<Rightarrow> ''ManagerCycleError'')"
| "exn_class_name (GroupExn e) = (case e of
       DuplicateGroupError _ _ \<Rightarrow> ''DuplicateGroupError''
     | GroupNotFoundError _ \<Rightarrow> ''GroupNotFoundError''
     | UnknownGroupMemberError _ \<Rightarrow> ''UnknownGroupMemberError''
     | DuplicateGroupMemberError _ \<Rightarrow> ''DuplicateGroupMemberError''
     | UnsupportedGroupSortFieldError _ \<Rightarrow> ''UnsupportedGroupSortFieldError''
     | UnsupportedGroupSortOrderError _ \<Rightarrow> ''UnsupportedGroupSortOrderError'')"
| "exn_class_name (ScimExn e) = ''ScimHTTPException''"
| "exn_class_name (ValueError m) = ''ValueError''"
| "exn_class_name (RuntimeError m) = ''RuntimeError''"
| "exn_class_name (AttributeError m) = ''AttributeError''"
| "exn_class_name (IntegrityError m) = ''IntegrityError''"

declare user_service_message.simps [simp del] enterprise_user_message.simps [simp del]
  group_message.simps [simp del] governance_message.simps [simp del] remediation_message.simps [simp del]
  delegation_message.simps [simp del] provisioning_job_message.simps [simp del]
  connector_class_name.simps [simp del] exn_class_name.simps [simp del] exn_message.simps [simp del]

section \<open>The world\<close>

record authenticated_user =
  au_id :: int
  au_email :: string
  au_operator_role :: string

record request_context =
  rc_correlation_id :: string
  rc_request_start :: int
  rc_authenticated_user :: "authenticated_user option"

text \<open>A \<open>MockIdentityConnector\<close> of \<open>app/connectors/mock.py\<close>.\<close>

record mock_connector =
  mk_name :: string
  mk_display_name :: string
  mk_enabled :: bool
  mk_simulation_mode :: simulation_mode
  mk_failures_before_success :: int
  mk_supported_operations :: "connector_operation list"
  mk_attempts :: "(string \<times> int) list"

record environment =
  env_clock :: "nat \<Rightarrow> int"
  env_perf :: "nat \<Rightarrow> int"
  env_uuid :: "nat \<Rightarrow> string"
  env_key :: "int list \<Rightarrow> int"
  env_db_error :: string
  env_hash_password :: "string \<Rightarrow> string"
  env_verify_password :: "string \<Rightarrow> string \<Rightarrow> bool option"
  env_email_address :: "string \<Rightarrow> string option"
  env_utc_offset :: string

text \<open>
  \<open>w_pending\<close> are the pending events of the service a request works with, \<open>w_job_pending\<close>
  those of the \<open>ProvisioningJobService\<close> the orchestrator creates.  \<open>w_connectors\<close> is the
  connector registry.  The three counters say how many readings have been taken.
\<close>

record world =
  w_env :: environment
  w_clock_reads :: nat
  w_perf_reads :: nat
  w_uuid_reads :: nat
  w_context :: "request_context option"
  w_db :: db
  w_published :: "timed_event list"
  w_pending :: "timed_event list"
  w_job_pending :: "timed_event list"
  w_metrics :: metrics_registry
  w_connectors :: "(string \<times> mock_connector) list"

definition fresh_keys :: "environment \<Rightarrow> bool" where
  "fresh_keys env \<longleftrightarrow> (\<forall>ks. env_key env ks \<notin> set ks)"

lemma fresh_keys_map: "fresh_keys env \<Longrightarrow> env_key env (map f rows) \<notin> f ` set rows"
  by (metis fresh_keys_def set_map)

type_synonym 'a wop = "(world, exn, 'a) op"

section \<open>Primitive operations\<close>

definition utc_now :: "(world, 'e, int) op" where
  "utc_now = (\<lambda>s. (Inr (env_clock (w_env s) (w_clock_reads s)), s\<lparr>w_clock_reads := Suc (w_clock_reads s)\<rparr>))"

definition perf_counter :: "(world, 'e, int) op" where
  "perf_counter = (\<lambda>s. (Inr (env_perf (w_env s) (w_perf_reads s)), s\<lparr>w_perf_reads := Suc (w_perf_reads s)\<rparr>))"

definition uuid4 :: "(world, 'e, string) op" where
  "uuid4 = (\<lambda>s. (Inr (env_uuid (w_env s) (w_uuid_reads s)), s\<lparr>w_uuid_reads := Suc (w_uuid_reads s)\<rparr>))"

definition query :: "(db \<Rightarrow> 'a) \<Rightarrow> (world, 'e, 'a) op" where
  "query f = gets (\<lambda>s. f (w_db s))"

definition update_db :: "(db \<Rightarrow> db) \<Rightarrow> (world, 'e, unit) op" where
  "update_db f = modify (\<lambda>s. s\<lparr>w_db := f (w_db s)\<rparr>)"

definition new_key :: "int list \<Rightarrow> (world, 'e, int) op" where
  "new_key ks = gets (\<lambda>s. env_key (w_env s) ks)"

definition unique_constraint :: "bool \<Rightarrow> unit wop" where
  "unique_constraint ok = and_then (gets (\<lambda>s. env_db_error (w_env s))) (\<lambda>m. guard ok (IntegrityError m))"

definition metric_increment ::
  "string \<Rightarrow> int \<Rightarrow> metric_labels option \<Rightarrow> string option \<Rightarrow> (world, 'e, unit) op" where
  "metric_increment name amount labels description =
     modify (\<lambda>s. s\<lparr>w_metrics := registry_increment name amount labels description (w_metrics s)\<rparr>)"

definition metric_set_gauge ::
  "string \<Rightarrow> int \<Rightarrow> metric_labels option \<Rightarrow> string option \<Rightarrow> (world, 'e, unit) op" where
  "metric_set_gauge name value labels description =
     modify (\<lambda>s. s\<lparr>w_metrics := registry_set_gauge name value labels description (w_metrics s)\<rparr>)"

definition metric_observe ::
  "string \<Rightarrow> int \<Rightarrow> metric_labels option \<Rightarrow> string option \<Rightarrow> (world, 'e, unit) op" where
  "metric_observe name value labels description =
     modify (\<lambda>s. s\<lparr>w_metrics := registry_observe name value labels description (w_metrics s)\<rparr>)"

text \<open>\<open>app/domain/publisher.py\<close> and the pending list every service keeps.\<close>

definition publish_domain_events :: "timed_event list \<Rightarrow> (world, 'e, unit) op" where
  "publish_domain_events events = block [
     modify (\<lambda>s. s\<lparr>w_published := w_published s @ events\<rparr>),
     metric_increment ''domain_events_total'' (int (length events)) None None]"

definition append_pending :: "domain_event \<Rightarrow> (world, 'e, unit) op" where
  "append_pending event = and_then utc_now (\<lambda>now.
     modify (\<lambda>s. s\<lparr>w_pending := w_pending s @ [(now, event)]\<rparr>))"

definition append_job_pending :: "domain_event \<Rightarrow> (world, 'e, unit) op" where
  "append_job_pending event = and_then utc_now (\<lambda>now.
     modify (\<lambda>s. s\<lparr>w_job_pending := w_job_pending s @ [(now, event)]\<rparr>))"

definition publish_pending_events :: "(world, 'e, unit) op" where
  "publish_pending_events = and_then (gets w_pending) (\<lambda>events. block [
     publish_domain_events events,
     modify (\<lambda>s. s\<lparr>w_pending := []\<rparr>)])"

definition publish_job_pending_events :: "(world, 'e, unit) op" where
  "publish_job_pending_events = and_then (gets w_job_pending) (\<lambda>events. block [
     publish_domain_events events,
     modify (\<lambda>s. s\<lparr>w_job_pending := []\<rparr>)])"

definition get_published_events :: "(world, 'e, timed_event list) op" where
  "get_published_events = gets w_published"

definition clear_published_events :: "(world, 'e, unit) op" where
  "clear_published_events = modify (\<lambda>s. s\<lparr>w_published := []\<rparr>)"

section \<open>Audit events\<close>

definition create_audit_event ::
  "int \<Rightarrow> int \<Rightarrow> string \<Rightarrow> int \<Rightarrow> int \<Rightarrow> string \<Rightarrow> string \<Rightarrow> string option \<Rightarrow>
   (world, 'e, audit_event) op" where
  "create_audit_event requester_id target_user_id action application_id entitlement_id
     result reason correlation_id =
   and_then (gets w_context) (\<lambda>context.
   and_then (query db_audit) (\<lambda>rows.
   and_then (new_key (map ae_id rows)) (\<lambda>key.
   and_then utc_now (\<lambda>now.
     let resolved_correlation_id =
           (case (correlation_id, context) of
              (None, Some c) \<Rightarrow> Some (rc_correlation_id c) | _ \<Rightarrow> correlation_id);
         event = \<lparr>ae_id = key, ae_requester_id = requester_id, ae_target_user_id = target_user_id,
           ae_action = action, ae_application_id = application_id, ae_entitlement_id = entitlement_id,
           ae_result = result, ae_reason = reason, ae_correlation_id = resolved_correlation_id,
           ae_created_at = now\<rparr>
     in and_then (update_db (\<lambda>d. d\<lparr>db_audit := db_audit d @ [event]\<rparr>)) (\<lambda>_.
        and_then (metric_increment ''audit_events_total'' 1 None None) (\<lambda>_.
        ret event))))))"

section \<open>Frame rules of the primitives\<close>

text \<open>
  A part \<open>f\<close> of the world that none of the counters, logs, metrics or tables it writes
  belongs to is left alone.  \<open>static\<close> names the parts that no service writes.
\<close>

definition static :: "world \<Rightarrow> environment \<times> request_context option" where
  "static s = (w_env s, w_context s)"

lemma keeps_utc_now [op_intro]:
  "(\<And>s n. f (s\<lparr>w_clock_reads := n\<rparr>) = f s) \<Longrightarrow> keeps (same f) utc_now"
  by (simp add: keeps_def utc_now_def)

lemma keeps_perf_counter [op_intro]:
  "(\<And>s n. f (s\<lparr>w_perf_reads := n\<rparr>) = f s) \<Longrightarrow> keeps (same f) perf_counter"
  by (simp add: keeps_def perf_counter_def)

lemma keeps_uuid4 [op_intro]:
  "(\<And>s n. f (s\<lparr>w_uuid_reads := n\<rparr>) = f s) \<Longrightarrow> keeps (same f) uuid4"
  by (simp add: keeps_def uuid4_def)

lemma keeps_query [op_intro]: "keeps (same f) (query g)"
  by (simp add: query_def op_intro)

lemma keeps_new_key [op_intro]: "keeps (same f) (new_key ks)"
  by (simp add: new_key_def op_intro)

lemma keeps_update_db [op_intro]:
  "(\<And>s. f (s\<lparr>w_db := g (w_db s)\<rparr>) = f s) \<Longrightarrow> keeps (same f) (update_db g)"
  by (simp add: keeps_def update_db_def)

lemma keeps_unique_constraint [op_intro]: "keeps (same f) (unique_constraint b)"
  by (auto simp: unique_constraint_def intro!: op_intro)

lemma keeps_metrics [op_intro]:
  assumes "\<And>s m. f (s\<lparr>w_metrics := m\<rparr>) = f s"
  shows "keeps (same f) (metric_increment n a l d)"
    and "keeps (same f) (metric_set_gauge n a l d)"
    and "keeps (same f) (metric_observe n a l d)"
  using assms
  by (simp_all add: keeps_def metric_increment_def metric_set_gauge_def metric_observe_def)

lemma keeps_publish_domain_events [op_intro]:
  "(\<And>s p. f (s\<lparr>w_published := p\<rparr>) = f s) \<Longrightarrow> (\<And>s m. f (s\<lparr>w_metrics := m\<rparr>) = f s) \<Longrightarrow>
   keeps (same f) (publish_domain_events evs)"
  by (auto simp: publish_domain_events_def intro!: op_intro)

lemma keeps_append_pending [op_intro]:
  "(\<And>s n. f (s\<lparr>w_clock_reads := n\<rparr>) = f s) \<Longrightarrow> (\<And>s p. f (s\<lparr>w_pending := p\<rparr>) = f s) \<Longrightarrow>
   keeps (same f) (append_pending ev)"
  by (auto simp: append_pending_def intro!: op_intro)

lemma keeps_append_job_pending [op_intro]:
  "(\<And>s n. f (s\<lparr>w_clock_reads := n\<rparr>) = f s) \<Longrightarrow> (\<And>s p. f (s\<lparr>w_job_pending := p\<rparr>) = f s) \<Longrightarrow>
   keeps (same f) (append_job_pending ev)"
  by (auto simp: append_job_pending_def intro!: op_intro)

lemma keeps_publish_pending_events [op_intro]:
  "(\<And>s p. f (s\<lparr>w_published := p\<rparr>) = f s) \<Longrightarrow> (\<And>s m. f (s\<lparr>w_metrics := m\<rparr>) = f s) \<Longrightarrow>
   (\<And>s p. f (s\<lparr>w_pending := p\<rparr>) = f s) \<Longrightarrow> keeps (same f) publish_pending_events"
  by (auto simp: publish_pending_events_def intro!: op_intro)

lemma keeps_publish_job_pending_events [op_intro]:
  "(\<And>s p. f (s\<lparr>w_published := p\<rparr>) = f s) \<Longrightarrow> (\<And>s m. f (s\<lparr>w_metrics := m\<rparr>) = f s) \<Longrightarrow>
   (\<And>s p. f (s\<lparr>w_job_pending := p\<rparr>) = f s) \<Longrightarrow> keeps (same f) publish_job_pending_events"
  by (auto simp: publish_job_pending_events_def intro!: op_intro)

lemma keeps_create_audit_event [op_intro]:
  assumes "\<And>s n. f (s\<lparr>w_clock_reads := n\<rparr>) = f s" and "\<And>s m. f (s\<lparr>w_metrics := m\<rparr>) = f s"
    and "\<And>s a. f (s\<lparr>w_db := (w_db s)\<lparr>db_audit := a\<rparr>\<rparr>) = f s"
  shows "keeps (same f) (create_audit_event rq tu ac ap en rs rn co)"
  using assms by (auto simp: create_audit_event_def Let_def intro!: op_intro)

text \<open>The same primitives for logs: whatever leaves a log alone lets it grow.\<close>

lemmas keeps_log_primitives [op_intro] =
  keeps_utc_now [THEN same_imp_grows] keeps_perf_counter [THEN same_imp_grows]
  keeps_uuid4 [THEN same_imp_grows] keeps_query [THEN same_imp_grows]
  keeps_new_key [THEN same_imp_grows] keeps_unique_constraint [THEN same_imp_grows]
  keeps_metrics [THEN same_imp_grows] keeps_append_pending [THEN same_imp_grows]
  keeps_append_job_pending [THEN same_imp_grows]

lemma keeps_log_update_db [op_intro]:
  "(\<And>d. prefix (h d) (h (g d))) \<Longrightarrow> keeps (grows (\<lambda>s. h (w_db s))) (update_db g)"
  by (simp add: keeps_def update_db_def grows_def)

lemma keeps_log_publish [op_intro]:
  assumes "\<And>s p. h (s\<lparr>w_published := p\<rparr>) = h s" and "\<And>s m. h (s\<lparr>w_metrics := m\<rparr>) = h s"
  shows "keeps (grows h) (publish_domain_events evs)"
    and "(\<And>s p. h (s\<lparr>w_pending := p\<rparr>) = h s) \<Longrightarrow> keeps (grows h) publish_pending_events"
    and "(\<And>s p. h (s\<lparr>w_job_pending := p\<rparr>) = h s) \<Longrightarrow> keeps (grows h) publish_job_pending_events"
  using assms by (auto intro!: op_intro same_imp_grows [OF keeps_publish_domain_events]
      same_imp_grows [OF keeps_publish_pending_events] same_imp_grows [OF keeps_publish_job_pending_events])

lemma keeps_log_create_audit_event [op_intro]:
  "(\<And>d a. prefix (h d) (h (d\<lparr>db_audit := db_audit d @ a\<rparr>))) \<Longrightarrow>
   keeps (grows (\<lambda>s. h (w_db s))) (create_audit_event rq tu ac ap en rs rn co)"
  by (auto simp: create_audit_event_def Let_def intro!: op_intro)

section \<open>Results of the primitives\<close>

lemma run_query [simp]: "query f s = (Inr (f (w_db s)), s)"
  by (simp add: query_def)

lemma run_new_key [simp]: "new_key ks s = (Inr (env_key (w_env s) ks), s)"
  by (simp add: new_key_def)

lemma run_update_db [simp]: "update_db f s = (Inr (), s\<lparr>w_db := f (w_db s)\<rparr>)"
  by (simp add: update_db_def)

lemma run_utc_now [simp]:
  "utc_now s = (Inr (env_clock (w_env s) (w_clock_reads s)), s\<lparr>w_clock_reads := Suc (w_clock_reads s)\<rparr>)"
  by (simp add: utc_now_def)

lemma run_unique_constraint [simp]:
  "unique_constraint b s = (if b then (Inr (), s) else (Inl (IntegrityError (env_db_error (w_env s))), s))"
  by (simp add: unique_constraint_def and_then_def run_guard)

lemma no_raise_primitives [op_intro]:
  "no_raise utc_now" "no_raise perf_counter" "no_raise uuid4" "no_raise (query f)" "no_raise (new_key ks)"
  "no_raise (update_db g)" "no_raise (metric_increment n a l d)" "no_raise (metric_set_gauge n a l d)"
  "no_raise (metric_observe n a l d)"
  by (simp_all add: no_raise_def perf_counter_def uuid4_def metric_increment_def metric_set_gauge_def
      metric_observe_def)

lemma no_raise_events [op_intro]:
  "no_raise (publish_domain_events evs)" "no_raise (append_pending ev)" "no_raise (append_job_pending ev)"
  "no_raise publish_pending_events" "no_raise publish_job_pending_events"
  by (auto simp: publish_domain_events_def append_pending_def append_job_pending_def
      publish_pending_events_def publish_job_pending_events_def intro!: op_intro)

lemma no_raise_create_audit_event [op_intro]: "no_raise (create_audit_event rq tu ac ap en rs rn co)"
  by (auto simp: create_audit_event_def Let_def intro!: op_intro)

text \<open>The row that \<open>create_audit_event\<close> adds, and the state it leaves.\<close>

definition audit_row ::
  "int \<Rightarrow> int \<Rightarrow> string \<Rightarrow> int \<Rightarrow> int \<Rightarrow> string \<Rightarrow> string \<Rightarrow> string option \<Rightarrow> world \<Rightarrow> audit_event" where
  "audit_row rq tu ac ap en rs rn co s =
     \<lparr>ae_id = env_key (w_env s) (map ae_id (db_audit (w_db s))), ae_requester_id = rq,
      ae_target_user_id = tu, ae_action = ac, ae_application_id = ap, ae_entitlement_id = en,
      ae_result = rs, ae_reason = rn,
      ae_correlation_id = (case (co, w_context s) of (None, Some c) \<Rightarrow> Some (rc_correlation_id c) | _ \<Rightarrow> co),
      ae_created_at = env_clock (w_env s) (w_clock_reads s)\<rparr>"

definition audit_post :: "audit_event \<Rightarrow> world \<Rightarrow> world" where
  "audit_post ev s = s\<lparr>w_clock_reads := Suc (w_clock_reads s),
     w_db := (w_db s)\<lparr>db_audit := db_audit (w_db s) @ [ev]\<rparr>,
     w_metrics := registry_increment ''audit_events_total'' 1 None None (w_metrics s)\<rparr>"

lemma run_create_audit_event [simp]:
  "create_audit_event rq tu ac ap en rs rn co s =
     (Inr (audit_row rq tu ac ap en rs rn co s), audit_post (audit_row rq tu ac ap en rs rn co s) s)"
  by (simp add: create_audit_event_def audit_row_def audit_post_def and_then_def Let_def metric_increment_def)

lemma audit_post_sel [simp]:
  "w_env (audit_post ev s) = w_env s" "w_context (audit_post ev s) = w_context s"
  "w_db (audit_post ev s) = (w_db s)\<lparr>db_audit := db_audit (w_db s) @ [ev]\<rparr>"
  "w_published (audit_post ev s) = w_published s" "w_pending (audit_post ev s) = w_pending s"
  "w_job_pending (audit_post ev s) = w_job_pending s" "w_connectors (audit_post ev s) = w_connectors s"
  "w_clock_reads (audit_post ev s) = Suc (w_clock_reads s)"
  by (simp_all add: audit_post_def)

lemma audit_row_sel [simp]:
  "ae_id (audit_row rq tu ac ap en rs rn co s) = env_key (w_env s) (map ae_id (db_audit (w_db s)))"
  "ae_requester_id (audit_row rq tu ac ap en rs rn co s) = rq"
  "ae_target_user_id (audit_row rq tu ac ap en rs rn co s) = tu"
  "ae_action (audit_row rq tu ac ap en rs rn co s) = ac"
  "ae_application_id (audit_row rq tu ac ap en rs rn co s) = ap"
  "ae_entitlement_id (audit_row rq tu ac ap en rs rn co s) = en"
  "ae_result (audit_row rq tu ac ap en rs rn co s) = rs"
  "ae_reason (audit_row rq tu ac ap en rs rn co s) = rn"
  by (simp_all add: audit_row_def)

lemma run_append_pending [simp]:
  "append_pending ev s = (Inr (), s\<lparr>w_clock_reads := Suc (w_clock_reads s),
     w_pending := w_pending s @ [(env_clock (w_env s) (w_clock_reads s), ev)]\<rparr>)"
  by (simp add: append_pending_def)

lemma run_append_job_pending [simp]:
  "append_job_pending ev s = (Inr (), s\<lparr>w_clock_reads := Suc (w_clock_reads s),
     w_job_pending := w_job_pending s @ [(env_clock (w_env s) (w_clock_reads s), ev)]\<rparr>)"
  by (simp add: append_job_pending_def)

text \<open>
  Symbolic execution: with \<open>run_ops\<close> the simplifier evaluates a handler on a state, leaving
  one case for each decision the handler takes.
\<close>

lemmas run_ops = and_then_def run_guard

end
