(* ===== verification/Policy.thy ===== *)
theory Policy
  imports Store
begin

text \<open>
  Who may do what: \<open>app/roles.py\<close> (operator roles and their aliases), \<open>app/rbac.py\<close> (the
  role gate in front of every protected route) and \<open>app/policy_engine.py\<close> (the business
  rules for granting and revoking an entitlement).
\<close>

section \<open>Operator roles\<close>

definition CANONICAL_OPERATOR_ROLES :: "string list" where
  "CANONICAL_OPERATOR_ROLES =
     [''security_admin'', ''iam_admin'', ''auditor'', ''helpdesk'', ''manager'', ''employee'']"

definition LEGACY_OPERATOR_ROLE_ALIASES :: "(string \<times> string) list" where
  "LEGACY_OPERATOR_ROLE_ALIASES =
     [(''administrator'', ''security_admin''), (''help_desk'', ''helpdesk'')]"

definition normalize_operator_role :: "string \<Rightarrow> string" where
  "normalize_operator_role role =
     (let normalized_role = dash_to_underscore (lower (strip role))
      in dict_get normalized_role LEGACY_OPERATOR_ROLE_ALIASES normalized_role)"

definition validate_operator_role :: "string \<Rightarrow> exn + string" where
  "validate_operator_role role =
     (let normalized_role = normalize_operator_role role in
      if normalized_role \<notin> set CANONICAL_OPERATOR_ROLES
      then Inl (ValueError (''Unsupported operator role: '' @ role))
      else Inr normalized_role)"

section \<open>The role gate\<close>

record http_error =
  he_status_code :: int
  he_detail :: string

definition forbidden_exception :: http_error where
  "forbidden_exception = \<lparr>he_status_code = 403, he_detail = ''Insufficient privileges''\<rparr>"

definition record_rbac_denial :: "string \<Rightarrow> string list \<Rightarrow> (world, 'e, unit) op" where
  "record_rbac_denial role required_roles =
     metric_increment ''accessiq_rbac_denials_total'' 1
       (Some [(''role'', Some role), (''required_roles'', Some (join '','' (sort required_roles)))])
       (Some ''API RBAC authorization denials.'')"

fun validate_all :: "string list \<Rightarrow> exn + string list" where
  "validate_all [] = Inr []"
| "validate_all (r # rs) =
     (case validate_operator_role r of Inl e \<Rightarrow> Inl e
      | Inr r' \<Rightarrow> (case validate_all rs of Inl e \<Rightarrow> Inl e | Inr rs' \<Rightarrow> Inr (r' # rs')))"

text \<open>\<open>require_roles(*roles)\<close>: the frozen set of allowed roles, and the dependency it returns.\<close>

definition require_roles :: "string list \<Rightarrow> exn + string list" where
  "require_roles roles =
     (case validate_all roles of Inl e \<Rightarrow> Inl e
      | Inr allowed \<Rightarrow> if allowed = [] then Inl (ValueError ''At least one role is required'')
                       else Inr (remdups allowed))"

definition role_dependency :: "string list \<Rightarrow> user \<Rightarrow> (world, http_error, user) op" where
  "role_dependency allowed_roles current_user =
     (case validate_operator_role (u_operator_role current_user) of
        Inl _ \<Rightarrow> and_then (record_rbac_denial (u_operator_role current_user) (sort allowed_roles))
                   (\<lambda>_. raise forbidden_exception)
      | Inr current_role \<Rightarrow>
          (if current_role \<notin> set allowed_roles
           then and_then (record_rbac_denial current_role (sort allowed_roles))
                  (\<lambda>_. raise forbidden_exception)
           else ret current_user))"

section \<open>The policy engine\<close>

record policy_decision =
  pd_allowed :: bool
  pd_reason :: string

definition allow :: "string \<Rightarrow> policy_decision" where
  "allow reason = \<lparr>pd_allowed = True, pd_reason = reason\<rparr>"

definition deny :: "string \<Rightarrow> policy_decision" where
  "deny reason = \<lparr>pd_allowed = False, pd_reason = reason\<rparr>"

definition ADMIN_POLICY_ROLES :: "string list" where
  "ADMIN_POLICY_ROLES = [''security_admin'', ''iam_admin'']"

definition HELPDESK_POLICY_ROLES :: "string list" where
  "HELPDESK_POLICY_ROLES = [''helpdesk'']"

definition DELEGATED_ACCESS_POLICY_ROLES :: "string list" where
  "DELEGATED_ACCESS_POLICY_ROLES =
     [''APPLICATION_OWNER'', ''APPLICATION_ADMINISTRATOR'', ''HELPDESK_DELEGATE'']"

definition DELEGATED_ADMIN_POLICY_ROLES :: "string list" where
  "DELEGATED_ADMIN_POLICY_ROLES = [''APPLICATION_OWNER'', ''APPLICATION_ADMINISTRATOR'']"

definition is_administrator_entitlement :: "entitlement \<Rightarrow> bool" where
  "is_administrator_entitlement e \<longleftrightarrow> lower (ent_slug e) = ''administrator''"

definition normalize_delegation_role :: "string option \<Rightarrow> string option" where
  "normalize_delegation_role delegation_role =
     (case delegation_role of None \<Rightarrow> None
      | Some r \<Rightarrow> Some (dash_to_underscore (upper (strip r))))"

text \<open>\<open>entitlement.application\<close> is an argument: the row the foreign key points to.\<close>

definition evaluate_grant_policy ::
  "user \<Rightarrow> user \<Rightarrow> entitlement \<Rightarrow> application \<Rightarrow> string option \<Rightarrow> policy_decision" where
  "evaluate_grant_policy requester target_user entitlement application delegation_role =
     (let requester_role = normalize_operator_role (u_operator_role requester);
          application_slug = lower (app_slug application);
          delegation = normalize_delegation_role delegation_role
      in
      if \<not> u_active target_user then deny ''Target user is inactive''
      else if \<not> u_active requester then deny ''Requester is inactive''
      else if delegation = None \<and> requester_role = ''auditor''
        then deny ''Auditors cannot grant access''
      else if delegation = None \<and> requester_role = ''employee''
        then deny ''Employees cannot grant access''
      else if application_slug = ''finance-portal'' \<and> lower (u_department target_user) \<noteq> ''finance''
        then deny ''Finance Portal access is restricted to Finance employees''
      else if is_administrator_entitlement entitlement \<and> delegation \<noteq> None \<and>
              delegation \<notin> Some ` set DELEGATED_ADMIN_POLICY_ROLES
        then deny ''Delegation does not permit administrator access changes''
      else if is_administrator_entitlement entitlement \<and> delegation = None \<and>
              requester_role \<notin> set ADMIN_POLICY_ROLES
        then deny ''Requester lacks permission to grant administrator access''
      else if delegation \<in> Some ` set DELEGATED_ACCESS_POLICY_ROLES
        then allow ''Delegated access request approved''
      else if requester_role \<in> set ADMIN_POLICY_ROLES \<union> set HELPDESK_POLICY_ROLES
        then allow ''Access request approved''
      else deny ''Requester role is not allowed to grant access'')"

definition evaluate_revoke_policy ::
  "user \<Rightarrow> user \<Rightarrow> entitlement \<Rightarrow> string option \<Rightarrow> policy_decision" where
  "evaluate_revoke_policy requester target_user entitlement delegation_role =
     (let requester_role = normalize_operator_role (u_operator_role requester);
          delegation = normalize_delegation_role delegation_role
      in
      if \<not> u_active requester then deny ''Requester is inactive''
      else if delegation = None \<and> requester_role = ''auditor''
        then deny ''Auditors cannot revoke access''
      else if delegation = None \<and> requester_role = ''employee''
        then deny ''Employees cannot revoke access''
      else if is_administrator_entitlement entitlement \<and> delegation \<noteq> None \<and>
              delegation \<notin> Some ` set DELEGATED_ADMIN_POLICY_ROLES
        then deny ''Delegation does not permit administrator access changes''
      else if is_administrator_entitlement entitlement \<and> delegation = None \<and>
              requester_role \<notin> set ADMIN_POLICY_ROLES
        then deny ''Requester lacks permission to revoke administrator access''
      else if delegation \<in> Some ` set DELEGATED_ACCESS_POLICY_ROLES
        then allow ''Delegated access request approved''
      else if requester_role \<in> set ADMIN_POLICY_ROLES \<union> set HELPDESK_POLICY_ROLES
        then allow ''Access request approved''
      else deny ''Requester role is not allowed to revoke access'')"

section \<open>Roles: facts\<close>

lemma is_space_dash: "is_space (if c = CHR ''-'' then CHR ''_'' else c) = is_space c"
  by (auto simp: is_space_def)

lemma lower_char_dash_iff: "lower_char c = CHR ''-'' \<longleftrightarrow> c = CHR ''-''"
proof
  assume eq: "lower_char c = CHR ''-''"
  show "c = CHR ''-''"
  proof (cases "65 \<le> (of_char c :: nat) \<and> of_char c \<le> (90 :: nat)")
    case True
    then have "lower_char c = char_of (of_char c + 32 :: nat)" by (simp add: lower_char_def)
    then have "(of_char (lower_char c) :: nat) = of_char c + 32" using True by simp
    with eq True show ?thesis by simp
  next
    case False
    then have "lower_char c = c" by (auto simp: lower_char_def Let_def)
    with eq show ?thesis by simp
  qed
qed (simp add: lower_char_def)

lemma lower_char_dash:
  "lower_char (if c = CHR ''-'' then CHR ''_'' else c) = (if lower_char c = CHR ''-'' then CHR ''_'' else lower_char c)"
  by (auto simp: lower_char_dash_iff lower_char_def [of "CHR ''_''"])

definition role_text :: "string \<Rightarrow> string" where
  "role_text role = dash_to_underscore (lower (strip role))"

lemma role_text_idem: "role_text (role_text role) = role_text role"
proof -
  have "strip (role_text role) = role_text role"
    by (simp add: role_text_def dash_to_underscore_def lower_def strip_map is_space_dash)
  then show ?thesis
    by (simp add: role_text_def dash_to_underscore_def lower_def o_def lower_char_dash)
qed

lemma normalize_operator_role_alt:
  "normalize_operator_role role =
     (if role_text role = ''administrator'' then ''security_admin''
      else if role_text role = ''help_desk'' then ''helpdesk'' else role_text role)"
  by (simp add: normalize_operator_role_def role_text_def Let_def dict_get_def
      LEGACY_OPERATOR_ROLE_ALIASES_def)

lemma role_text_canonical: "role_text ''security_admin'' = ''security_admin''"
  "role_text ''helpdesk'' = ''helpdesk''"
  by code_simp+

text \<open>
  Normalising an operator role is idempotent, so the role the gate compares and the role
  the policy engine compares are the same however often the stored text is normalised, and a
  role passes validation exactly when its normal form is one of the six canonical roles.
\<close>

theorem normalize_operator_role_stable:
  "normalize_operator_role (normalize_operator_role role) = normalize_operator_role role \<and>
   ((\<exists>r. validate_operator_role role = Inr r) \<longleftrightarrow>
      normalize_operator_role role \<in> set CANONICAL_OPERATOR_ROLES)"
proof
  show "normalize_operator_role (normalize_operator_role role) = normalize_operator_role role"
    by (simp add: normalize_operator_role_alt role_text_canonical role_text_idem)
  show "(\<exists>r. validate_operator_role role = Inr r) \<longleftrightarrow>
      normalize_operator_role role \<in> set CANONICAL_OPERATOR_ROLES"
    by (simp add: validate_operator_role_def Let_def)
qed

section \<open>The gate: facts\<close>

lemma validate_Inr_iff:
  "validate_operator_role role = Inr r \<longleftrightarrow>
     r = normalize_operator_role role \<and> normalize_operator_role role \<in> set CANONICAL_OPERATOR_ROLES"
  by (auto simp: validate_operator_role_def Let_def)

lemma validate_all_Inr:
  "validate_all rs = Inr allowed \<Longrightarrow>
   allowed = map normalize_operator_role rs \<and> set allowed \<subseteq> set CANONICAL_OPERATOR_ROLES"
  by (induction rs arbitrary: allowed) (fastforce simp: validate_Inr_iff split: sum.splits)+

lemma role_dependency_result:
  assumes "require_roles roles = Inr allowed"
  shows "fst (role_dependency allowed current_user s) =
           (if normalize_operator_role (u_operator_role current_user) \<in> normalize_operator_role ` set roles
            then Inr current_user else Inl forbidden_exception) \<and>
         w_db (snd (role_dependency allowed current_user s)) = w_db s \<and>
         w_published (snd (role_dependency allowed current_user s)) = w_published s"
proof -
  from assms have va: "validate_all roles = Inr (map normalize_operator_role roles)"
    and set: "set allowed = normalize_operator_role ` set roles"
    by (auto simp: require_roles_def split: sum.splits if_splits dest: validate_all_Inr)
  from validate_all_Inr [OF va]
  have canon: "normalize_operator_role ` set roles \<subseteq> set CANONICAL_OPERATOR_ROLES" by simp
  show ?thesis
  proof (cases "validate_operator_role (u_operator_role current_user)")
    case (Inl e)
    then have "normalize_operator_role (u_operator_role current_user) \<notin> set CANONICAL_OPERATOR_ROLES"
      by (auto simp: validate_operator_role_def Let_def split: if_splits)
    with Inl canon show ?thesis
      by (auto simp: role_dependency_def record_rbac_denial_def metric_increment_def and_then_def)
  next
    case (Inr r)
    then have r: "r = normalize_operator_role (u_operator_role current_user)"
      by (simp add: validate_Inr_iff)
    with Inr set show ?thesis
      by (simp add: role_dependency_def record_rbac_denial_def metric_increment_def and_then_def)
  qed
qed

definition sample_helpdesk :: "string \<Rightarrow> user" where
  "sample_helpdesk role =
     \<lparr>u_id = 3, u_name = ''hal'', u_email = ''hal@example.com'', u_department = ''IT'',
      u_active = True, u_operator_role = role, u_password_hash = []\<rparr>"

text \<open>
  A route guarded by \<open>require_roles\<close> lets a user through exactly when the normal form of
  the user's role is the normal form of one of the roles the route names; otherwise the
  request ends with 403.  Either way no table and no event list changes.
\<close>

theorem role_gate:
  assumes "require_roles roles = Inr allowed"
  shows "fst (role_dependency allowed current_user s) =
           (if normalize_operator_role (u_operator_role current_user) \<in> normalize_operator_role ` set roles
            then Inr current_user else Inl forbidden_exception) \<and>
         w_db (snd (role_dependency allowed current_user s)) = w_db s \<and>
         w_published (snd (role_dependency allowed current_user s)) = w_published s"
  using role_dependency_result [OF assms] .

lemma role_gate_witness:
  "\<forall>s. fst (role_dependency [''helpdesk''] (sample_helpdesk ''Help-Desk'') s) =
       Inr (sample_helpdesk ''Help-Desk'')"
proof
  fix s
  have "require_roles [''help_desk''] = Inr [''helpdesk'']"
    and "normalize_operator_role ''Help-Desk'' \<in> normalize_operator_role ` set [''help_desk'']" by code_simp+
  with role_gate [of "[''help_desk'']" "[''helpdesk'']" "sample_helpdesk ''Help-Desk''" s]
  show "fst (role_dependency [''helpdesk''] (sample_helpdesk ''Help-Desk'') s) =
       Inr (sample_helpdesk ''Help-Desk'')"
    by (simp add: sample_helpdesk_def)
qed

section \<open>The policy engine: facts\<close>

text \<open>
  The rules without the order of the checks: what a requester needs, apart from being active,
  to change an entitlement.
\<close>

definition may_change_entitlement :: "user \<Rightarrow> entitlement \<Rightarrow> string option \<Rightarrow> bool" where
  "may_change_entitlement requester entitlement delegation_role \<longleftrightarrow>
     (let role = normalize_operator_role (u_operator_role requester);
          admin = is_administrator_entitlement entitlement in
      case normalize_delegation_role delegation_role of
        None \<Rightarrow> role \<in> {''security_admin'', ''iam_admin''} \<or> (role = ''helpdesk'' \<and> \<not> admin)
      | Some d \<Rightarrow> d \<in> {''APPLICATION_OWNER'', ''APPLICATION_ADMINISTRATOR''} \<or>
          (\<not> admin \<and> (d = ''HELPDESK_DELEGATE'' \<or> role \<in> {''security_admin'', ''iam_admin'', ''helpdesk''})))"

lemmas policy_roles = ADMIN_POLICY_ROLES_def HELPDESK_POLICY_ROLES_def
  DELEGATED_ACCESS_POLICY_ROLES_def DELEGATED_ADMIN_POLICY_ROLES_def

lemma allow_allowed [simp]: "pd_allowed (allow r)" "pd_reason (allow r) = r"
  by (simp_all add: allow_def)

lemma deny_allowed [simp]: "\<not> pd_allowed (deny r)" "pd_reason (deny r) = r"
  by (simp_all add: deny_def)

lemma revoke_policy_spec:
  "pd_allowed (evaluate_revoke_policy requester target_user entitlement delegation_role) \<longleftrightarrow>
     u_active requester \<and> may_change_entitlement requester entitlement delegation_role"
  by (cases "normalize_delegation_role delegation_role")
     (simp_all add: evaluate_revoke_policy_def may_change_entitlement_def Let_def policy_roles)

text \<open>
  C35. The ordered checks of the grant policy implement the following rule: the target and the
  requester are active, access to the Finance Portal is for the Finance department only, and
  the requester may change the entitlement: directly as an administrator, or as helpdesk for
  ordinary entitlements; by delegation as application owner or administrator, or for ordinary
  entitlements as helpdesk delegate or with a role that would suffice without delegation.
\<close>

theorem grant_policy_spec:
  "pd_allowed (evaluate_grant_policy requester target_user entitlement application delegation_role) \<longleftrightarrow>
     u_active target_user \<and> u_active requester \<and>
     (lower (app_slug application) = ''finance-portal'' \<longrightarrow> lower (u_department target_user) = ''finance'') \<and>
     may_change_entitlement requester entitlement delegation_role"
  by (cases "normalize_delegation_role delegation_role")
     (simp_all add: evaluate_grant_policy_def may_change_entitlement_def Let_def policy_roles)

lemma grant_policy_spec_witness:
  "let u = sample_helpdesk ''help-desk'';
       e = \<lparr>ent_id = 1, ent_name = ''Viewer'', ent_slug = ''viewer'', ent_application_id = 1\<rparr>;
       app = (\<lambda>slug. \<lparr>app_id = 1, app_name = ''App'', app_slug = slug\<rparr>)
   in pd_allowed (evaluate_grant_policy u u e (app ''github'') None) \<and>
      \<not> pd_allowed (evaluate_grant_policy u u e (app ''Finance-Portal'') None)"
  unfolding Let_def grant_policy_spec by code_simp

end
