(* ===== verification/Http.thy ===== *)
theory Http
  imports Policy
begin

text \<open>
  What the route modules have in common: a request constructs its service with no pending
  events, runs it inside one database transaction, and maps exceptions to HTTP errors.  A
  route rolls back on a service error and on a database error; any other exception ends the
  request with 500 and \<open>get_db\<close> closes the session, which discards the transaction too.  So
  whenever the service raises, the tables are those the request found; the published events
  and the metrics stay.
\<close>

definition HTTPException :: "int \<Rightarrow> string \<Rightarrow> http_error" where
  "HTTPException code detail = \<lparr>he_status_code = code, he_detail = detail\<rparr>"

definition database_error :: http_error where
  "database_error = HTTPException 500 ''Database operation failed''"

definition internal_server_error :: http_error where
  "internal_server_error = HTTPException 500 ''Internal Server Error''"

definition new_service :: "(world, 'e, unit) op" where
  "new_service = modify (\<lambda>s. s\<lparr>w_pending := []\<rparr>)"

definition transaction :: "'a wop \<Rightarrow> (exn \<Rightarrow> http_error) \<Rightarrow> (world, http_error, 'a) op" where
  "transaction m h = (\<lambda>s. case m s of
       (Inl e, t) \<Rightarrow> (Inl (h e), t\<lparr>w_db := w_db s\<rparr>)
     | (Inr x, t) \<Rightarrow> (Inr x, t))"

definition require_roles_gate :: "string list \<Rightarrow> user \<Rightarrow> (world, http_error, user) op" where
  "require_roles_gate roles current_user =
     (case require_roles roles of
        Inl _ \<Rightarrow> raise internal_server_error
      | Inr allowed \<Rightarrow> role_dependency allowed current_user)"

text \<open>A mutating route: the role gate, the service call in a transaction, the publication.\<close>

definition mutating_route ::
  "string list \<Rightarrow> user \<Rightarrow> (exn \<Rightarrow> http_error) \<Rightarrow> 'a wop \<Rightarrow> (world, http_error, 'a) op" where
  "mutating_route roles current_user h m =
     and_then (require_roles_gate roles current_user) (\<lambda>_.
     and_then new_service (\<lambda>_.
     and_then (transaction m h) (\<lambda>x.
     and_then publish_pending_events (\<lambda>_. ret x))))"

text \<open>
  A reading route never commits: closing the session discards whatever the service wrote.
\<close>

definition rolled_back :: "'a wop \<Rightarrow> (exn \<Rightarrow> http_error) \<Rightarrow> (world, http_error, 'a) op" where
  "rolled_back m h = (\<lambda>s. case m s of
       (Inl e, t) \<Rightarrow> (Inl (h e), t\<lparr>w_db := w_db s\<rparr>)
     | (Inr x, t) \<Rightarrow> (Inr x, t\<lparr>w_db := w_db s\<rparr>))"

definition reading_route ::
  "string list \<Rightarrow> user \<Rightarrow> (exn \<Rightarrow> http_error) \<Rightarrow> 'a wop \<Rightarrow> (world, http_error, 'a) op" where
  "reading_route roles current_user h m =
     and_then (require_roles_gate roles current_user) (\<lambda>_.
     and_then new_service (\<lambda>_. rolled_back m h))"

text \<open>A computation that raises or returns, as an operation that leaves the state alone.\<close>

definition lift_sum :: "exn + 'a \<Rightarrow> 'a wop" where
  "lift_sum r = (case r of Inl e \<Rightarrow> raise e | Inr x \<Rightarrow> ret x)"

section \<open>Facts\<close>

lemma run_lift_sum [simp]: "lift_sum (Inr x) = ret x" "lift_sum (Inl e) = raise e"
  by (simp_all add: lift_sum_def)

lemma lift_sum_okE:
  assumes "lift_sum r s = (Inr x, t)"
  obtains "r = Inr x" and "t = s"
  using assms by (cases r) auto

lemma keeps_lift_sum [op_intro]: "keeps (same f) (lift_sum r)"
  by (cases r) (auto intro!: op_intro)

lemma keeps_role_dependency [op_intro]:
  "(\<And>s m. f (s\<lparr>w_metrics := m\<rparr>) = f s) \<Longrightarrow> keeps (same f) (role_dependency allowed u)"
  by (auto simp: role_dependency_def record_rbac_denial_def intro!: op_intro)

lemma keeps_require_roles_gate [op_intro]:
  "(\<And>s m. f (s\<lparr>w_metrics := m\<rparr>) = f s) \<Longrightarrow> keeps (same f) (require_roles_gate roles u)"
  by (auto simp: require_roles_gate_def intro!: op_intro)

lemma transaction_okD:
  assumes "transaction m h s = (Inr x, t)"
  shows "m s = (Inr x, t)"
  using assms by (auto simp: transaction_def split: prod.splits sum.splits)

lemma transaction_errD:
  assumes "transaction m h s = (Inl e, t)"
  shows "w_db t = w_db s"
  using assms by (auto simp: transaction_def split: prod.splits sum.splits)

lemma keeps_transaction:
  assumes m: "keeps (same f) m" and f: "\<And>s d. f (s\<lparr>w_db := d\<rparr>) = f s"
  shows "keeps (same f) (transaction m h)"
  unfolding keeps_def transaction_def
  using m f by (auto simp: keeps_def split: prod.splits sum.splits) (metis snd_conv)+

text \<open>
  A route whose service never publishes by itself: when the request fails, nothing was
  committed and nothing was published.
\<close>

lemma mutating_route_err:
  assumes "keeps (same w_published) m"
    and "mutating_route roles u h m s = (Inl e, t)"
  shows "w_db t = w_db s \<and> w_published t = w_published s"
proof -
  have gate: "w_db s' = w_db s \<and> w_published s' = w_published s"
    if "require_roles_gate roles u s = (r, s')" for r s'
    using keeps_same_result [OF keeps_require_roles_gate that, of w_db]
      keeps_same_result [OF keeps_require_roles_gate that, of w_published] by simp
  have tr: "w_db t' = w_db s' \<and> w_published t' = w_published s'"
    if "transaction m h s' = (Inl e', t')" for e' s' t'
    using keeps_same_result [OF keeps_transaction that, of w_published] transaction_errD [OF that]
    by (simp add: assms(1))
  have no_raise: "publish_pending_events s' \<noteq> (Inl e', t')" for s' e' t'
    using no_raise_events(4) by (metis no_raise_def Pair_inject sum.distinct(1))
  from assms(2) show ?thesis
    unfolding mutating_route_def
    by (elim and_then_errE)
       (auto simp: new_service_def no_raise dest!: gate tr)
qed

lemma mutating_route_ok:
  assumes "mutating_route roles u h m s = (Inr x, t)"
  obtains s1 s2 where "require_roles_gate roles u s = (Inr u, s1)"
    and "m (s1\<lparr>w_pending := []\<rparr>) = (Inr x, s2)"
    and "w_db s1 = w_db s" and "w_db t = w_db s2"
    and "w_published t = w_published s2 @ w_pending s2" and "w_pending t = []"
proof -
  from assms obtain v s1 where g: "require_roles_gate roles u s = (Inr v, s1)"
    and r: "and_then new_service (\<lambda>_. and_then (transaction m h)
              (\<lambda>x. and_then publish_pending_events (\<lambda>_. ret x))) s1 = (Inr x, t)"
    unfolding mutating_route_def by (rule and_then_okE)
  from r obtain s2 where "transaction m h (s1\<lparr>w_pending := []\<rparr>) = (Inr x, s2)"
    and p: "(publish_pending_events :: (world, http_error, unit) op) s2 = (Inr (), t)"
    by (auto simp: new_service_def elim!: and_then_okE)
  then have m: "m (s1\<lparr>w_pending := []\<rparr>) = (Inr x, s2)" by (blast dest: transaction_okD)
  have "v = u"
    using g by (auto simp: require_roles_gate_def role_dependency_def record_rbac_denial_def
        metric_increment_def and_then_def split: sum.splits if_splits)
  moreover have "w_db s1 = w_db s"
    using keeps_same_result [OF keeps_require_roles_gate g, of w_db] by simp
  moreover have "w_db t = w_db s2 \<and> w_published t = w_published s2 @ w_pending s2 \<and> w_pending t = []"
    using p by (auto simp: publish_pending_events_def publish_domain_events_def metric_increment_def
        and_then_def)
  ultimately show ?thesis using that g m by blast
qed

lemma mutating_route_failed:
  assumes "mutating_route roles u h m s = (Inl e, t)"
  shows "w_db t = w_db s"
proof -
  have gate: "w_db s' = w_db s" if "require_roles_gate roles u s = (r, s')" for r s'
    using keeps_same_result [OF keeps_require_roles_gate that, of w_db] by simp
  have no_raise: "publish_pending_events s' \<noteq> (Inl e', t')" for s' e' t'
    using no_raise_events(4) by (metis no_raise_def Pair_inject sum.distinct(1))
  from assms show ?thesis
    unfolding mutating_route_def
    by (elim and_then_errE) (auto simp: new_service_def no_raise dest!: gate transaction_errD)
qed

lemma keeps_mutating_route [op_intro]:
  assumes "keeps (same f) m"
    and "\<And>s d. f (s\<lparr>w_db := d\<rparr>) = f s" and "\<And>s x. f (s\<lparr>w_metrics := x\<rparr>) = f s"
    and "\<And>s p. f (s\<lparr>w_pending := p\<rparr>) = f s" and "\<And>s p. f (s\<lparr>w_published := p\<rparr>) = f s"
  shows "keeps (same f) (mutating_route roles u h m)"
  using assms by (auto simp: mutating_route_def new_service_def intro!: op_intro keeps_transaction)

text \<open>What a service keeps when it succeeds, its route keeps in any case.\<close>

lemma mutating_route_invariant:
  assumes run: "mutating_route roles u h m s = (r, t)" and start: "I (w_db s)"
    and env: "keeps (same w_env) m"
    and step: "\<And>s' x t'. w_db s' = w_db s \<Longrightarrow> w_env s' = w_env s \<Longrightarrow> m s' = (Inr x, t') \<Longrightarrow> I (w_db t')"
  shows "I (w_db t) \<and> w_env t = w_env s"
proof
  show "w_env t = w_env s"
    using run by (rule keeps_same_result [rotated]) (auto intro!: op_intro env)
  show "I (w_db t)"
  proof (cases r)
    case (Inl e)
    with run start mutating_route_failed show ?thesis by metis
  next
    case (Inr x)
    with run obtain s1 s2 where g: "require_roles_gate roles u s = (Inr u, s1)"
      and m: "m (s1\<lparr>w_pending := []\<rparr>) = (Inr x, s2)" and db: "w_db s1 = w_db s" "w_db t = w_db s2"
      by (blast elim: mutating_route_ok)
    have "w_env s1 = w_env s" using keeps_same_result [OF keeps_require_roles_gate g, of w_env] by simp
    with step [OF _ _ m] db show ?thesis by simp
  qed
qed

lemma rolled_back_db: "rolled_back m h s = (r, t) \<Longrightarrow> w_db t = w_db s"
  by (auto simp: rolled_back_def split: prod.splits sum.splits)

lemma reading_route_db:
  assumes "reading_route roles u h m s = (r, t)"
  shows "w_db t = w_db s"
proof -
  have gate: "w_db s' = w_db s" if "require_roles_gate roles u s = (r', s')" for r' s'
    using keeps_same_result [OF keeps_require_roles_gate that, of w_db] by simp
  have rolled: "w_db t' = w_db s'" if "rolled_back m h s' = (r', t')" for r' s' t'
    using that by (rule rolled_back_db)
  from assms show ?thesis
    by (cases r) (auto simp: reading_route_def new_service_def
        elim!: and_then_errE and_then_okE dest!: gate rolled)
qed

lemma require_roles_gate_ok:
  assumes "require_roles roles = Inr allowed"
    and "validate_operator_role (u_operator_role u) = Inr r" and "r \<in> set allowed"
  shows "require_roles_gate roles u s = (Inr u, s)"
  using assms by (simp add: require_roles_gate_def role_dependency_def)

text \<open>A request that passes the gate and whose service raises answers with the mapped error.\<close>

lemma mutating_route_raises:
  assumes "require_roles_gate roles u s = (Inr u, s)" and "m (s\<lparr>w_pending := []\<rparr>) = (Inl e, t)"
  shows "mutating_route roles u h m s = (Inl (h e), t\<lparr>w_db := w_db s\<rparr>)"
  using assms by (simp add: mutating_route_def new_service_def transaction_def)

lemma require_roles_gate_fst:
  assumes "require_roles roles = Inr allowed"
  shows "fst (require_roles_gate roles u s) =
     (if normalize_operator_role (u_operator_role u) \<in> normalize_operator_role ` set roles
      then Inr u else Inl forbidden_exception)"
  using role_dependency_result [OF assms, of u s] assms by (simp add: require_roles_gate_def)

end
