(* ===== verification/Sample.thy ===== *)
theory Sample
  imports Http
begin

text \<open>
  A small concrete installation on which the properties are exercised: a clock that advances
  by one millisecond per reading, consecutive keys, an administrator, a manager, a helpdesk
  agent and two employees, two applications with three entitlements, one group.
\<close>

definition next_key :: "int list \<Rightarrow> int" where
  "next_key ks = fold max ks 0 + 1"

definition sample_env :: environment where
  "sample_env = \<lparr>env_clock = (\<lambda>n. 1000 * int n), env_perf = (\<lambda>n. 2500 * int n),
     env_uuid = (\<lambda>n. ''uuid-'' @ digits n), env_key = next_key,
     env_db_error = ''UNIQUE constraint failed'',
     env_hash_password = (\<lambda>p. ''argon2:'' @ p),
     env_verify_password = (\<lambda>p h. Some (h = ''argon2:'' @ p)),
     env_email_address = (\<lambda>a. if CHR ''@'' \<in> set a then Some a else None), env_utc_offset = ''''\<rparr>"

definition sample_user :: "int \<Rightarrow> string \<Rightarrow> string \<Rightarrow> string \<Rightarrow> user" where
  "sample_user i name department role =
     \<lparr>u_id = i, u_name = name, u_email = name @ ''@example.com'', u_department = department,
      u_active = True, u_operator_role = role, u_password_hash = ''''\<rparr>"

abbreviation root_admin :: user where
  "root_admin \<equiv> sample_user 1 ''root'' ''IT'' ''security_admin''"

abbreviation ann :: user where
  "ann \<equiv> sample_user 2 ''ann'' ''Finance'' ''manager''"

abbreviation hal :: user where
  "hal \<equiv> sample_user 3 ''hal'' ''IT'' ''help-desk''"

abbreviation bob :: user where
  "bob \<equiv> sample_user 4 ''bob'' ''Finance'' ''employee''"

abbreviation eve :: user where
  "eve \<equiv> sample_user 5 ''eve'' ''Sales'' ''employee''"

definition viewer :: entitlement where
  "viewer = \<lparr>ent_id = 1, ent_name = ''Viewer'', ent_slug = ''viewer'', ent_application_id = 1\<rparr>"

definition sample_db :: db where
  "sample_db =
     \<lparr>db_users = [root_admin, ann, hal, bob, eve],
      db_groups = [\<lparr>g_id = 1, g_display_name = ''Staff'', g_created_at = 0, g_updated_at = 0\<rparr>],
      db_group_members = [],
      db_applications =
        [\<lparr>app_id = 1, app_name = ''Finance Portal'', app_slug = ''finance-portal''\<rparr>,
         \<lparr>app_id = 2, app_name = ''GitHub'', app_slug = ''github''\<rparr>,
         \<lparr>app_id = 3, app_name = ''Empty'', app_slug = ''empty''\<rparr>],
      db_entitlements =
        [viewer,
         \<lparr>ent_id = 2, ent_name = ''Administrator'', ent_slug = ''administrator'', ent_application_id = 1\<rparr>,
         \<lparr>ent_id = 3, ent_name = ''Developer'', ent_slug = ''developer'', ent_application_id = 2\<rparr>],
      db_access = [\<lparr>aa_id = 1, aa_user_id = 5, aa_entitlement_id = 3, aa_granted_at = 0\<rparr>,
                   \<lparr>aa_id = 2, aa_user_id = 4, aa_entitlement_id = 3, aa_granted_at = 0\<rparr>],
      db_audit = [], db_jobs = [], db_history = [], db_campaigns = [], db_items = [],
      db_decisions = [], db_rjobs = [], db_delegations = [], db_profiles = []\<rparr>"

definition sample_world :: world where
  "sample_world =
     \<lparr>w_env = sample_env, w_clock_reads = 0, w_perf_reads = 0, w_uuid_reads = 0, w_context = None,
      w_db = sample_db, w_published = [], w_pending = [], w_job_pending = [],
      w_metrics = empty_metrics, w_connectors = []\<rparr>"

lemma next_key_fresh: "next_key ks \<notin> set ks"
proof -
  have "x \<le> fold max ks m" if "x \<in> set ks \<or> x \<le> m" for x m :: int
    using that by (induction ks arbitrary: m) (auto simp: le_max_iff_disj)
  then have "x < next_key ks" if "x \<in> set ks" for x
    using that by (fastforce simp: next_key_def)
  then show ?thesis by blast
qed

lemma sample_fresh: "fresh_keys sample_env" "w_env sample_world = sample_env"
  by (simp_all add: fresh_keys_def sample_env_def next_key_fresh sample_world_def)

lemma run_fst: "fst (m s) = r \<Longrightarrow> m s = (r, snd (m s))"
  by (cases "m s") simp

text \<open>Whether an operation returned.\<close>

definition returned :: "('e + 'a) \<times> 's \<Rightarrow> bool" where
  "returned r = (case fst r of Inl _ \<Rightarrow> False | Inr _ \<Rightarrow> True)"

lemma returnedE:
  assumes "returned (m s)"
  obtains x where "m s = (Inr x, snd (m s))"
  using assms by (cases "m s") (auto simp: returned_def split: sum.splits)

lemma sample_texts:
  "normalize_operator_role ''security_admin'' = ''security_admin''"
  "lower ''finance-portal'' = ''finance-portal''" "lower ''github'' = ''github''"
  "lower ''Finance'' = ''finance''" "lower ''Sales'' = ''sales''" "lower ''viewer'' = ''viewer''"
  "lower ''developer'' = ''developer''"
  by code_simp+

lemmas sample_simps = sample_world_def sample_db_def sample_user_def viewer_def sample_env_def
  next_key_def row_by_def sample_texts

end
