(* ===== verification/Listing.thy ===== *)
theory Listing
  imports Prelude "HOL-Library.Multiset" "HOL-Library.Char_ord" "HOL-Library.List_Lexorder" "HOL-Library.Product_Lexorder"
begin

text \<open>
  Ordered, paged queries.  Every service builds \<open>SELECT ... WHERE filters ORDER BY keys
  OFFSET o LIMIT l\<close> from a table of supported sort fields.  A sort key is an integer, a
  string or an optional integer (\<open>NULL\<close> sorts before every value, as in SQLite).  Strings
  compare by code point.
\<close>

datatype sort_value = SInt int | SOptInt "int option" | SStr string

fun sort_rank :: "sort_value \<Rightarrow> int \<times> string" where
  "sort_rank (SInt i) = (i, '''')"
| "sort_rank (SOptInt None) = (0, '''')"
| "sort_rank (SOptInt (Some i)) = (i, ''x'')"
| "sort_rank (SStr s) = (0, s)"

fun sort_kind :: "sort_value \<Rightarrow> nat" where
  "sort_kind (SInt i) = 0"
| "sort_kind (SOptInt None) = 1"
| "sort_kind (SOptInt (Some i)) = 2"
| "sort_kind (SStr s) = 3"

lemma sort_rank_inj: "sort_kind x = sort_kind y \<Longrightarrow> sort_rank x = sort_rank y \<Longrightarrow> x = y"
  by (cases x rule: sort_rank.cases; cases y rule: sort_rank.cases) auto

instantiation sort_value :: linorder
begin

definition less_eq_sort_value :: "sort_value \<Rightarrow> sort_value \<Rightarrow> bool" where
  "x \<le> y \<longleftrightarrow> (sort_kind x, sort_rank x) \<le> (sort_kind y, sort_rank y)"

definition less_sort_value :: "sort_value \<Rightarrow> sort_value \<Rightarrow> bool" where
  "x < y \<longleftrightarrow> (sort_kind x, sort_rank x) < (sort_kind y, sort_rank y)"

instance
proof
  fix x y z :: sort_value
  show "x < y \<longleftrightarrow> x \<le> y \<and> \<not> y \<le> x"
    by (auto simp: less_eq_sort_value_def less_sort_value_def)
  show "x \<le> x" by (simp add: less_eq_sort_value_def)
  show "x \<le> y \<Longrightarrow> y \<le> z \<Longrightarrow> x \<le> z" by (auto simp: less_eq_sort_value_def)
  show "x \<le> y \<Longrightarrow> y \<le> x \<Longrightarrow> x = y"
    unfolding less_eq_sort_value_def
    by (rule sort_rank_inj) (auto dest: antisym)
  show "x \<le> y \<or> y \<le> x" by (auto simp: less_eq_sort_value_def linear)
qed

end

definition SUPPORTED_SORT_ORDERS :: "string list" where
  "SUPPORTED_SORT_ORDERS = [''ascending'', ''descending'']"

text \<open>
  \<open>ORDER BY key, tie\<close> ascending or descending in both.  Where a service orders by the key
  alone the database resolves ties as it likes; \<open>tie\<close> is then an arbitrary function.
\<close>

definition order_rows ::
  "('r \<Rightarrow> sort_value) \<Rightarrow> ('r \<Rightarrow> int) \<Rightarrow> bool \<Rightarrow> 'r list \<Rightarrow> 'r list" where
  "order_rows key tie descending rows =
     (let ordered = sort_key (\<lambda>r. (key r, tie r)) rows in if descending then rev ordered else ordered)"

definition page :: "nat \<Rightarrow> nat \<Rightarrow> 'r list \<Rightarrow> 'r list" where
  "page offset limit rows = take limit (drop offset rows)"

text \<open>An optional filter value.\<close>

definition wanted :: "'a option \<Rightarrow> 'a \<Rightarrow> bool" where
  "wanted wish v = (case wish of None \<Rightarrow> True | Some x \<Rightarrow> v = x)"

lemma mset_order_rows: "mset (order_rows key tie d rows) = mset rows"
  by (simp add: order_rows_def Let_def)

lemma set_order_rows [simp]: "set (order_rows key tie d rows) = set rows"
  by (simp add: order_rows_def Let_def)

lemma length_order_rows [simp]: "length (order_rows key tie d rows) = length rows"
  by (simp add: order_rows_def Let_def)

lemma order_rows_sorted:
  "sorted_wrt (\<lambda>x y. if d then (key y, tie y) \<le> (key x, tie x) else (key x, tie x) \<le> (key y, tie y))
     (order_rows key tie d rows)"
proof -
  let ?k = "\<lambda>r. (key r, tie r)"
  have "sorted (map ?k (sort_key ?k rows))" by simp
  then have "sorted_wrt (\<lambda>x y. ?k x \<le> ?k y) (sort_key ?k rows)" by (simp add: sorted_wrt_map)
  then show ?thesis by (cases d) (simp_all add: order_rows_def Let_def sorted_wrt_rev)
qed

lemma SInt_le_iff [simp]: "SInt a \<le> SInt b \<longleftrightarrow> a \<le> b"
  and SInt_less_iff [simp]: "SInt a < SInt b \<longleftrightarrow> a < b"
  by (auto simp: less_eq_sort_value_def less_sort_value_def)

text \<open>Consecutive pages of one ordered result tile it: nothing is lost and nothing repeats.\<close>

fun pages :: "nat \<Rightarrow> nat \<Rightarrow> nat \<Rightarrow> 'r list \<Rightarrow> 'r list" where
  "pages 0 offset limit rows = []"
| "pages (Suc n) offset limit rows = page offset limit rows @ pages n (offset + limit) limit rows"

lemma pages_eq: "pages n offset limit rows = take (n * limit) (drop offset rows)"
proof (induction n arbitrary: offset)
  case (Suc n)
  have "take (limit + n * limit) (drop offset rows) =
      take limit (drop offset rows) @ take (n * limit) (drop limit (drop offset rows))"
    by (rule take_add)
  with Suc show ?case by (simp add: page_def add.commute)
qed simp

end
