(* ===== verification/Delegation.thy ===== *)
theory Delegation
  imports Sample Listing
begin

text \<open>
  Delegated administration, \<open>app/delegation/services.py\<close> with \<open>validation.py\<close> and the routes
  of \<open>routes.py\<close>: who is given authority over an application, an entitlement or a group, and
  whether an acting user may change an entitlement.  The table carries the unique constraint
  of \<open>app/delegation/models.py\<close> over delegate, scope, role and the active flag.
\<close>

section \<open>Scopes and roles\<close>

fun SCOPE_ROLE_MATRIX :: "delegation_scope_type \<Rightarrow> delegation_role list" where
  "SCOPE_ROLE_MATRIX Scope_APPLICATION =
     [APPLICATION_OWNER, APPLICATION_ADMINISTRATOR, ACCESS_REVIEWER, HELPDESK_DELEGATE]"
| "SCOPE_ROLE_MATRIX Scope_ENTITLEMENT =
     [APPLICATION_OWNER, APPLICATION_ADMINISTRATOR, HELPDESK_DELEGATE]"
| "SCOPE_ROLE_MATRIX Scope_GROUP = [GROUP_OWNER, GROUP_ADMINISTRATOR]"

definition ACCESS_CHANGE_DELEGATION_ROLES :: "delegation_role list" where
  "ACCESS_CHANGE_DELEGATION_ROLES = [APPLICATION_OWNER, APPLICATION_ADMINISTRATOR, HELPDESK_DELEGATE]"

definition role_supports_scope :: "delegation_scope_type \<Rightarrow> delegation_role \<Rightarrow> bool" where
  "role_supports_scope scope_type role \<longleftrightarrow> role \<in> set (SCOPE_ROLE_MATRIX scope_type)"

definition role_supports_access_change :: "string \<Rightarrow> bool" where
  "role_supports_access_change role =
     (case parse_enum delegation_role_members delegation_role_value role of
        None \<Rightarrow> False
      | Some parsed_role \<Rightarrow> parsed_role \<in> set ACCESS_CHANGE_DELEGATION_ROLES)"

text \<open>\<open>DelegationScopeType(text)\<close>, which raises on an unknown text.\<close>

definition scope_type_of :: "string \<Rightarrow> exn + delegation_scope_type" where
  "scope_type_of text =
     (case parse_enum delegation_scope_type_members delegation_scope_type_value text of
        None \<Rightarrow> Inl (ValueError (str_repr text @ '' is not a valid DelegationScopeType''))
      | Some t \<Rightarrow> Inr t)"

section \<open>The authorization record\<close>

record delegation_authorization =
  dz_allowed :: bool
  dz_delegated :: bool
  dz_reason :: string
  dz_assignment :: "delegation_assignment option"

definition dz_delegation_role :: "delegation_authorization \<Rightarrow> string option" where
  "dz_delegation_role a = map_option da_delegation_role (dz_assignment a)"

definition ACTION_DELEGATION_ASSIGNED :: string where
  "ACTION_DELEGATION_ASSIGNED = ''delegation_assigned''"
definition ACTION_DELEGATION_REMOVED :: string where
  "ACTION_DELEGATION_REMOVED = ''delegation_removed''"
definition ACTION_DELEGATED_ACTION_ALLOWED :: string where
  "ACTION_DELEGATED_ACTION_ALLOWED = ''delegated_action_allowed''"
definition ACTION_DELEGATED_ACTION_DENIED :: string where
  "ACTION_DELEGATED_ACTION_DENIED = ''delegated_action_denied''"

definition GLOBAL_ADMIN_ROLES :: "string list" where
  "GLOBAL_ADMIN_ROLES = [''security_admin'', ''iam_admin'']"

section \<open>Helpers of the service\<close>

definition is_expired :: "int \<Rightarrow> (world, 'e, bool) op" where
  "is_expired expires_at = and_then utc_now (\<lambda>now. ret (expires_at \<le> now))"

definition scope_exists :: "db \<Rightarrow> delegation_scope_type \<Rightarrow> int \<Rightarrow> bool" where
  "scope_exists d scope_type i = (case scope_type of
       Scope_APPLICATION \<Rightarrow> row_by app_id i (db_applications d) \<noteq> None
     | Scope_ENTITLEMENT \<Rightarrow> row_by ent_id i (db_entitlements d) \<noteq> None
     | Scope_GROUP \<Rightarrow> row_by g_id i (db_groups d) \<noteq> None)"

definition validate_scope :: "delegation_scope_type \<Rightarrow> int \<Rightarrow> delegation_role \<Rightarrow> unit wop" where
  "validate_scope scope_type scope_id delegation_role =
     (if \<not> role_supports_scope scope_type delegation_role
      then raise (DelegationExn (InvalidDelegationScopeError scope_type delegation_role))
      else and_then (query (\<lambda>d. scope_exists d scope_type scope_id)) (\<lambda>found.
           guard found (DelegationExn
             (DelegationScopeNotFoundError (delegation_scope_type_value scope_type) scope_id))))"

text \<open>The condition \<open>active AND (expires_at IS NULL OR expires_at > now)\<close>.\<close>

definition effective_at :: "int \<Rightarrow> delegation_assignment \<Rightarrow> bool" where
  "effective_at now a \<longleftrightarrow>
     da_active a \<and> (case da_expires_at a of None \<Rightarrow> True | Some e \<Rightarrow> now < e)"

definition prevent_duplicate_assignment ::
  "int \<Rightarrow> delegation_scope_type \<Rightarrow> int \<Rightarrow> delegation_role \<Rightarrow> unit wop" where
  "prevent_duplicate_assignment delegate_user_id scope_type scope_id delegation_role =
     and_then utc_now (\<lambda>now.
     and_then (query db_delegations) (\<lambda>rows.
       guard (\<not> (\<exists>a \<in> set rows. da_delegate_user_id a = delegate_user_id \<and>
                   da_scope_type a = delegation_scope_type_value scope_type \<and>
                   da_scope_id a = scope_id \<and>
                   da_delegation_role a = delegation_role_value delegation_role \<and>
                   effective_at now a))
         (DelegationExn (DuplicateDelegationAssignmentError
            delegate_user_id scope_type scope_id delegation_role))))"

definition audit_reference_for_assignment :: "db \<Rightarrow> delegation_assignment \<Rightarrow> exn + int \<times> int" where
  "audit_reference_for_assignment d a =
     (case scope_type_of (da_scope_type a) of
        Inl err \<Rightarrow> Inl err
      | Inr scope_type \<Rightarrow>
         (case (case scope_type of
                  Scope_ENTITLEMENT \<Rightarrow> row_by ent_id (da_scope_id a) (db_entitlements d)
                | Scope_APPLICATION \<Rightarrow>
                    (case sort_key ent_id
                            (filter (\<lambda>e. ent_application_id e = da_scope_id a) (db_entitlements d))
                     of [] \<Rightarrow> None | e # _ \<Rightarrow> Some e)
                | Scope_GROUP \<Rightarrow>
                    find (\<lambda>e. ent_slug e = ''group-lifecycle'' \<and>
                              (\<exists>p \<in> set (db_applications d). app_id p = ent_application_id e \<and>
                                 app_slug p = ''scim-provisioning'')) (db_entitlements d)) of
            None \<Rightarrow> Inl (DelegationExn (DelegationScopeNotFoundError
                      (delegation_scope_type_value scope_type) (da_scope_id a)))
          | Some e \<Rightarrow> Inr (ent_application_id e, ent_id e)))"

definition record_assignment_audit ::
  "delegation_assignment \<Rightarrow> user \<Rightarrow> string \<Rightarrow> string \<Rightarrow> string \<Rightarrow> unit wop" where
  "record_assignment_audit a actor action result reason =
     and_then (query (\<lambda>d. audit_reference_for_assignment d a)) (\<lambda>found.
     and_then (lift_sum found) (\<lambda>(application_id, entitlement_id).
     and_then (create_audit_event (u_id actor) (da_delegate_user_id a) action application_id
                 entitlement_id result reason None) (\<lambda>_. ret ())))"

definition record_action_audit ::
  "user \<Rightarrow> user \<Rightarrow> entitlement \<Rightarrow> string \<Rightarrow> string \<Rightarrow> string \<Rightarrow> (world, 'e, unit) op" where
  "record_action_audit actor target_user entitlement action result reason =
     and_then (create_audit_event (u_id actor) (u_id target_user) action (ent_application_id entitlement)
                 (ent_id entitlement) result reason None) (\<lambda>_. ret ())"

text \<open>The columns of the unique constraint \<open>uq_delegation_assignments_active_scope_role\<close>.\<close>

definition da_unique_key :: "delegation_assignment \<Rightarrow> int \<times> string \<times> int \<times> string \<times> bool" where
  "da_unique_key a = (da_delegate_user_id a, da_scope_type a, da_scope_id a, da_delegation_role a, da_active a)"

definition insert_delegation :: "(int \<Rightarrow> int \<Rightarrow> delegation_assignment) \<Rightarrow> delegation_assignment wop" where
  "insert_delegation row =
     and_then utc_now (\<lambda>now.
     and_then (query db_delegations) (\<lambda>rows.
     and_then (new_key (map da_id rows)) (\<lambda>key.
     and_then (unique_constraint (da_unique_key (row key now) \<notin> da_unique_key ` set rows)) (\<lambda>_.
     and_then (update_db (\<lambda>d. d\<lparr>db_delegations := rows @ [row key now]\<rparr>)) (\<lambda>_.
     ret (row key now))))))"

definition save_delegation :: "delegation_assignment \<Rightarrow> unit wop" where
  "save_delegation a =
     and_then (query db_delegations) (\<lambda>rows.
     and_then (unique_constraint (\<forall>r \<in> set rows. da_id r \<noteq> da_id a \<longrightarrow> da_unique_key r \<noteq> da_unique_key a)) (\<lambda>_.
     update_db (\<lambda>d. d\<lparr>db_delegations := put_row da_id a rows\<rparr>)))"

section \<open>Operations\<close>

definition assign_delegate ::
  "int \<Rightarrow> delegation_scope_type \<Rightarrow> int \<Rightarrow> delegation_role \<Rightarrow> user \<Rightarrow> int option \<Rightarrow>
   delegation_assignment wop" where
  "assign_delegate delegate_user_id scope_type scope_id delegation_role actor expires_at =
     and_then (query (\<lambda>d. row_by u_id delegate_user_id (db_users d))) (\<lambda>found.
     and_then (from_option (DelegationExn (DelegationDelegateNotFoundError delegate_user_id)) found) (\<lambda>delegate.
     and_then (guard (u_active delegate) (DelegationExn (InactiveDelegateUserError delegate_user_id))) (\<lambda>_.
     and_then (case expires_at of None \<Rightarrow> ret False | Some e \<Rightarrow> is_expired e) (\<lambda>expired.
     and_then (guard (\<not> expired) (DelegationExn ExpiredDelegationAssignmentError)) (\<lambda>_.
     and_then (validate_scope scope_type scope_id delegation_role) (\<lambda>_.
     and_then (prevent_duplicate_assignment delegate_user_id scope_type scope_id delegation_role) (\<lambda>_.
     and_then (insert_delegation (\<lambda>key now.
         \<lparr>da_id = key, da_delegate_user_id = delegate_user_id,
          da_scope_type = delegation_scope_type_value scope_type, da_scope_id = scope_id,
          da_delegation_role = delegation_role_value delegation_role, da_created_by = u_id actor,
          da_created_at = now, da_expires_at = expires_at, da_active = True\<rparr>)) (\<lambda>assignment.
     and_then (block [
       record_assignment_audit assignment actor ACTION_DELEGATION_ASSIGNED ''succeeded''
         (''Delegation assignment '' @ str_int (da_id assignment) @ '' created''),
       append_pending (DelegationEvent (DelegationAssigned (da_id assignment)
         (da_delegate_user_id assignment) (da_scope_type assignment) (da_scope_id assignment)
         (da_delegation_role assignment)))]) (\<lambda>_.
     ret assignment)))))))))"

definition lookup_assignment :: "int \<Rightarrow> delegation_assignment wop" where
  "lookup_assignment assignment_id =
     and_then (query (\<lambda>d. row_by da_id assignment_id (db_delegations d))) (\<lambda>found.
     from_option (DelegationExn (DelegationAssignmentNotFoundError assignment_id)) found)"

definition remove_delegate :: "int \<Rightarrow> user \<Rightarrow> delegation_assignment wop" where
  "remove_delegate assignment_id actor =
     and_then (lookup_assignment assignment_id) (\<lambda>a.
     and_then (guard (da_active a) (DelegationExn (InactiveDelegationAssignmentError assignment_id))) (\<lambda>_.
     let a = a\<lparr>da_active := False\<rparr> in
     and_then (block [
       save_delegation a,
       record_assignment_audit a actor ACTION_DELEGATION_REMOVED ''succeeded''
         (''Delegation assignment '' @ str_int (da_id a) @ '' removed''),
       append_pending (DelegationEvent (DelegationRemoved (da_id a) (da_delegate_user_id a)
         (da_scope_type a) (da_scope_id a) (da_delegation_role a)))]) (\<lambda>_.
     ret a)))"

definition find_effective_delegations :: "int \<Rightarrow> (world, 'e, delegation_assignment list) op" where
  "find_effective_delegations delegate_user_id =
     and_then utc_now (\<lambda>now.
     query (\<lambda>d. sort_key da_id
       (filter (\<lambda>a. da_delegate_user_id a = delegate_user_id \<and> effective_at now a) (db_delegations d))))"

definition assignment_matches_entitlement :: "delegation_assignment \<Rightarrow> entitlement \<Rightarrow> exn + bool" where
  "assignment_matches_entitlement a e =
     (case scope_type_of (da_scope_type a) of
        Inl err \<Rightarrow> Inl err
      | Inr Scope_APPLICATION \<Rightarrow> Inr (da_scope_id a = ent_application_id e)
      | Inr Scope_ENTITLEMENT \<Rightarrow> Inr (da_scope_id a = ent_id e)
      | Inr Scope_GROUP \<Rightarrow> Inr False)"

fun first_permitting :: "delegation_assignment list \<Rightarrow> entitlement \<Rightarrow> exn + delegation_assignment option" where
  "first_permitting [] e = Inr None"
| "first_permitting (a # as) e =
     (if \<not> role_supports_access_change (da_delegation_role a) then first_permitting as e
      else case assignment_matches_entitlement a e of
             Inl err \<Rightarrow> Inl err
           | Inr True \<Rightarrow> Inr (Some a)
           | Inr False \<Rightarrow> first_permitting as e)"

text \<open>The method deletes its argument \<open>action\<close>: one delegation covers granting and revoking.\<close>

definition has_permission ::
  "int \<Rightarrow> delegated_action \<Rightarrow> entitlement \<Rightarrow> delegation_assignment option wop" where
  "has_permission delegate_user_id action entitlement =
     and_then (find_effective_delegations delegate_user_id) (\<lambda>as.
     lift_sum (first_permitting as entitlement))"

definition record_delegated_access_granted ::
  "user \<Rightarrow> user \<Rightarrow> entitlement \<Rightarrow> delegated_action \<Rightarrow> delegation_assignment \<Rightarrow> (world, 'e, unit) op" where
  "record_delegated_access_granted actor target_user entitlement action a =
     append_pending (DelegationEvent (DelegatedAccessGranted (da_id a) (u_id actor) (u_id target_user)
       (ent_id entitlement) (ent_application_id entitlement) (delegated_action_value action)))"

definition record_delegated_access_denied ::
  "user \<Rightarrow> user \<Rightarrow> entitlement \<Rightarrow> delegated_action \<Rightarrow> string \<Rightarrow> delegation_assignment option \<Rightarrow>
   (world, 'e, unit) op" where
  "record_delegated_access_denied actor target_user entitlement action reason a =
     append_pending (DelegationEvent (DelegatedAccessDenied (map_option da_id a) (u_id actor)
       (u_id target_user) (ent_id entitlement) (ent_application_id entitlement)
       (delegated_action_value action) reason))"

definition authorize_access_action ::
  "user \<Rightarrow> user \<Rightarrow> entitlement \<Rightarrow> delegated_action \<Rightarrow> delegation_authorization wop" where
  "authorize_access_action actor target_user entitlement action =
     (let actor_role = normalize_operator_role (u_operator_role actor) in
      if actor_role \<in> set GLOBAL_ADMIN_ROLES
      then ret \<lparr>dz_allowed = True, dz_delegated = False, dz_reason = ''Global administrative role'',
                dz_assignment = None\<rparr>
      else and_then (has_permission (u_id actor) action entitlement) (\<lambda>found.
        case found of
          None \<Rightarrow>
            (let reason = ''No active delegation permits this action'' in
             and_then (block [
               record_action_audit actor target_user entitlement ACTION_DELEGATED_ACTION_DENIED
                 ''denied'' reason,
               record_delegated_access_denied actor target_user entitlement action reason None]) (\<lambda>_.
             ret \<lparr>dz_allowed = False, dz_delegated = False, dz_reason = reason, dz_assignment = None\<rparr>))
        | Some a \<Rightarrow>
            (let reason = ''Delegation assignment '' @ str_int (da_id a) @ '' permits this action'' in
             and_then (record_action_audit actor target_user entitlement
               ACTION_DELEGATED_ACTION_ALLOWED ''allowed'' reason) (\<lambda>_.
             ret \<lparr>dz_allowed = True, dz_delegated = True, dz_reason = reason, dz_assignment = Some a\<rparr>))))"

section \<open>Listing\<close>

record delegation_filters =
  df_delegate_user_id :: "int option"
  df_scope_type :: "string option"
  df_scope_id :: "int option"
  df_delegation_role :: "string option"
  df_active :: "bool option"

definition delegation_sort_fields :: "(string \<times> (delegation_assignment \<Rightarrow> sort_value)) list" where
  "delegation_sort_fields =
     [(''id'', \<lambda>a. SInt (da_id a)), (''created_at'', \<lambda>a. SInt (da_created_at a)),
      (''expires_at'', \<lambda>a. SOptInt (da_expires_at a)), (''scope_type'', \<lambda>a. SStr (da_scope_type a)),
      (''delegation_role'', \<lambda>a. SStr (da_delegation_role a))]"

definition matches_delegation_filters :: "delegation_filters \<Rightarrow> delegation_assignment \<Rightarrow> bool" where
  "matches_delegation_filters f a \<longleftrightarrow>
     wanted (df_delegate_user_id f) (da_delegate_user_id a) \<and> wanted (df_scope_type f) (da_scope_type a) \<and>
     wanted (df_scope_id f) (da_scope_id a) \<and> wanted (df_delegation_role f) (da_delegation_role a) \<and>
     wanted (df_active f) (da_active a)"

definition list_assignments ::
  "delegation_filters \<Rightarrow> nat \<Rightarrow> nat \<Rightarrow> string option \<Rightarrow> string \<Rightarrow> delegation_assignment list wop" where
  "list_assignments filters offset limit sort_by sort_order =
     (let field = (case sort_by of None \<Rightarrow> ''created_at'' | Some f \<Rightarrow> if f = '''' then ''created_at'' else f) in
      if sort_order \<notin> set SUPPORTED_SORT_ORDERS
      then raise (DelegationExn (UnsupportedDelegationSortOrderError sort_order))
      else case map_of delegation_sort_fields field of
             None \<Rightarrow> raise (DelegationExn (UnsupportedDelegationSortFieldError field))
           | Some key \<Rightarrow> query (\<lambda>d. page offset limit
               (order_rows key da_id (sort_order = ''descending'')
                 (filter (matches_delegation_filters filters) (db_delegations d)))))"

section \<open>Routes\<close>

fun delegation_http_error :: "exn \<Rightarrow> http_error" where
  "delegation_http_error (DelegationExn e) =
     HTTPException (case e of
         DelegationAssignmentNotFoundError _ \<Rightarrow> 404
       | DelegationDelegateNotFoundError _ \<Rightarrow> 404
       | DelegationScopeNotFoundError _ _ \<Rightarrow> 404
       | DuplicateDelegationAssignmentError _ _ _ _ \<Rightarrow> 409
       | InactiveDelegateUserError _ \<Rightarrow> 409
       | InactiveDelegationAssignmentError _ \<Rightarrow> 409
       | _ \<Rightarrow> 400) (delegation_message e)"
| "delegation_http_error (IntegrityError _) = database_error"
| "delegation_http_error _ = internal_server_error"

definition DELEGATION_ADMIN_ROLES :: "string list" where
  "DELEGATION_ADMIN_ROLES = [''security_admin'', ''iam_admin'']"

definition assign_delegation_route ::
  "int \<Rightarrow> delegation_scope_type \<Rightarrow> int \<Rightarrow> delegation_role \<Rightarrow> int option \<Rightarrow> user \<Rightarrow>
   (world, http_error, delegation_assignment) op" where
  "assign_delegation_route delegate_user_id scope_type scope_id delegation_role expires_at current_user =
     mutating_route DELEGATION_ADMIN_ROLES current_user delegation_http_error
       (assign_delegate delegate_user_id scope_type scope_id delegation_role current_user expires_at)"

definition remove_delegation_route :: "int \<Rightarrow> user \<Rightarrow> (world, http_error, delegation_assignment) op" where
  "remove_delegation_route assignment_id current_user =
     mutating_route DELEGATION_ADMIN_ROLES current_user delegation_http_error
       (remove_delegate assignment_id current_user)"

section \<open>Facts\<close>

lemma scope_type_of_value [simp]: "scope_type_of (delegation_scope_type_value t) = Inr t"
  by (simp add: scope_type_of_def)

lemma scope_type_of_Inr: "scope_type_of text = Inr t \<longleftrightarrow> text = delegation_scope_type_value t"
  by (auto simp: scope_type_of_def enum_parse_iff split: option.splits)

lemma run_record_assignment_audit [simp]:
  "record_assignment_audit a actor action result reason s =
     (case audit_reference_for_assignment (w_db s) a of
        Inl e \<Rightarrow> (Inl e, s)
      | Inr (ap, en) \<Rightarrow> (Inr (), audit_post (audit_row (u_id actor) (da_delegate_user_id a) action ap en
                                  result reason None s) s))"
  by (simp add: record_assignment_audit_def run_ops split: sum.splits prod.splits)

section \<open>Assigning and removing\<close>

definition new_assignment ::
  "int \<Rightarrow> delegation_scope_type \<Rightarrow> int \<Rightarrow> delegation_role \<Rightarrow> user \<Rightarrow> int option \<Rightarrow> int \<Rightarrow> int \<Rightarrow>
   delegation_assignment" where
  "new_assignment u scope_type i role actor expires_at key now =
     \<lparr>da_id = key, da_delegate_user_id = u,
      da_scope_type = delegation_scope_type_value scope_type, da_scope_id = i,
      da_delegation_role = delegation_role_value role, da_created_by = u_id actor,
      da_created_at = now, da_expires_at = expires_at, da_active = True\<rparr>"

lemma assign_delegate_ok:
  assumes "assign_delegate u scope_type i role actor expires_at s = (Inr a, t)"
  shows "\<exists>delegate. row_by u_id u (db_users (w_db s)) = Some delegate \<and> u_active delegate"
    and "\<And>e. expires_at = Some e \<Longrightarrow> env_clock (w_env s) (w_clock_reads s) < e"
    and "role_supports_scope scope_type role" and "scope_exists (w_db s) scope_type i"
    and "da_unique_key a \<notin> da_unique_key ` set (db_delegations (w_db s))"
    and "\<exists>created. a = new_assignment u scope_type i role actor expires_at
           (env_key (w_env s) (map da_id (db_delegations (w_db s)))) created"
    and "\<exists>ev. w_db t = (w_db s)\<lparr>db_delegations := db_delegations (w_db s) @ [a],
                                db_audit := db_audit (w_db s) @ [ev]\<rparr> \<and>
              ae_requester_id ev = u_id actor \<and> ae_target_user_id ev = u \<and>
              ae_action ev = ACTION_DELEGATION_ASSIGNED"
    and "w_env t = w_env s"
  using assms
  by (auto simp: assign_delegate_def run_ops is_expired_def validate_scope_def prevent_duplicate_assignment_def
      insert_delegation_def new_assignment_def from_option_def
      split: if_splits option.splits sum.splits prod.splits)


lemma remove_delegate_ok:
  assumes "remove_delegate i actor s = (Inr a, t)"
  shows "\<exists>a0. row_by da_id i (db_delegations (w_db s)) = Some a0 \<and> da_active a0 \<and> a = a0\<lparr>da_active := False\<rparr>"
    and "\<forall>r \<in> set (db_delegations (w_db s)). da_id r \<noteq> i \<longrightarrow> da_unique_key r \<noteq> da_unique_key a"
    and "\<exists>ev. w_db t = (w_db s)\<lparr>db_delegations := put_row da_id a (db_delegations (w_db s)),
                                db_audit := db_audit (w_db s) @ [ev]\<rparr> \<and>
              ae_requester_id ev = u_id actor \<and> ae_target_user_id ev = da_delegate_user_id a \<and>
              ae_action ev = ACTION_DELEGATION_REMOVED"
    and "w_env t = w_env s"
  using assms
  by (auto simp: remove_delegate_def lookup_assignment_def save_delegation_def run_ops Let_def
      from_option_def split: if_splits option.splits sum.splits prod.splits dest: row_by_Some)

lemma keeps_published_delegation [op_intro]:
  "keeps (same w_published) (assign_delegate u st i role actor e)"
  "keeps (same w_published) (remove_delegate i actor)"
  by (auto simp: assign_delegate_def remove_delegate_def is_expired_def validate_scope_def
      prevent_duplicate_assignment_def insert_delegation_def record_assignment_audit_def
      lookup_assignment_def save_delegation_def Let_def intro!: op_intro split: option.splits)

text \<open>
  What the rows of the table satisfy: the primary keys and the unique keys differ, each
  row pairs a scope with a role of the scope role matrix.
\<close>

definition wf_delegation :: "delegation_assignment \<Rightarrow> bool" where
  "wf_delegation a \<longleftrightarrow> (\<exists>scope_type role. da_scope_type a = delegation_scope_type_value scope_type \<and>
     da_delegation_role a = delegation_role_value role \<and> role_supports_scope scope_type role)"

definition wf_delegations :: "delegation_assignment list \<Rightarrow> bool" where
  "wf_delegations rows \<longleftrightarrow> distinct (map da_id rows) \<and> distinct (map da_unique_key rows) \<and>
     (\<forall>a \<in> set rows. wf_delegation a)"

lemma wf_delegations_insert:
  assumes "wf_delegations rows" and "da_id a \<notin> da_id ` set rows"
    and "da_unique_key a \<notin> da_unique_key ` set rows" and "wf_delegation a"
  shows "wf_delegations (rows @ [a])"
  using assms by (auto simp: wf_delegations_def)

lemma wf_delegations_put:
  assumes "wf_delegations rows" and "wf_delegation a"
    and "\<forall>r \<in> set rows. da_id r \<noteq> da_id a \<longrightarrow> da_unique_key r \<noteq> da_unique_key a"
  shows "wf_delegations (put_row da_id a rows)"
  using assms by (auto simp: wf_delegations_def put_row_iff intro!: distinct_map_put_row)

lemma assign_delegate_wf:
  assumes "wf_delegations (db_delegations (w_db s))" and "fresh_keys (w_env s)"
    and "assign_delegate u scope_type i role actor e s = (Inr a, t)"
  shows "wf_delegations (db_delegations (w_db t))"
proof -
  from assign_delegate_ok(6) [OF assms(3)] obtain created where
    a: "a = new_assignment u scope_type i role actor e (env_key (w_env s) (map da_id (db_delegations (w_db s)))) created" ..
  have "env_key (w_env s) (map da_id (db_delegations (w_db s))) \<notin> set (map da_id (db_delegations (w_db s)))"
    using assms(2) by (simp only: fresh_keys_def simp_thms)
  then have "da_id a \<notin> da_id ` set (db_delegations (w_db s))" by (simp add: a new_assignment_def)
  moreover have "wf_delegation a"
    using assign_delegate_ok(3) [OF assms(3)] by (auto simp: a new_assignment_def wf_delegation_def)
  ultimately show ?thesis
    using assign_delegate_ok(5,7) [OF assms(3)] assms(1) by (auto intro: wf_delegations_insert)
qed

lemma remove_delegate_wf:
  assumes "wf_delegations (db_delegations (w_db s))" and "remove_delegate i actor s = (Inr a, t)"
  shows "wf_delegations (db_delegations (w_db t))"
proof -
  from remove_delegate_ok(1) [OF assms(2)] obtain a0 where
    a0: "row_by da_id i (db_delegations (w_db s)) = Some a0" "a = a0\<lparr>da_active := False\<rparr>" by blast
  from row_by_Some [OF a0(1)] have m: "a0 \<in> set (db_delegations (w_db s))" "da_id a = i"
    by (auto simp: a0(2))
  have "wf_delegation a" using assms(1) m(1) by (auto simp: wf_delegations_def wf_delegation_def a0(2))
  then show ?thesis
    using remove_delegate_ok(2,3) [OF assms(2)] assms(1) by (auto simp: m(2) intro!: wf_delegations_put)
qed


section \<open>The table under any sequence of requests\<close>

inductive delegation_request :: "world \<Rightarrow> world \<Rightarrow> bool" where
  assigned: "assign_delegation_route u scope_type i role e actor s = (r, t) \<Longrightarrow> delegation_request s t"
| removed: "remove_delegation_route i actor s = (r', t) \<Longrightarrow> delegation_request s t"

lemma keeps_env_delegation [op_intro]:
  "keeps (same w_env) (assign_delegate u st i role actor e)"
  "keeps (same w_env) (remove_delegate i actor)"
  by (auto simp: assign_delegate_def remove_delegate_def is_expired_def validate_scope_def
      prevent_duplicate_assignment_def insert_delegation_def record_assignment_audit_def
      lookup_assignment_def save_delegation_def Let_def intro!: op_intro split: option.splits)

lemma assign_route_wf:
  assumes "wf_delegations (db_delegations (w_db s))" and "fresh_keys (w_env s)"
    and "assign_delegation_route u scope_type i role e actor s = (r, t)"
  shows "wf_delegations (db_delegations (w_db t)) \<and> w_env t = w_env s"
  using assms(3) unfolding assign_delegation_route_def
  by (rule mutating_route_invariant [where I = "\<lambda>d. wf_delegations (db_delegations d)"])
     (use assms(1,2) in \<open>auto intro!: op_intro elim!: assign_delegate_wf [rotated 2]\<close>)

lemma remove_route_wf:
  assumes "wf_delegations (db_delegations (w_db s))"
    and "remove_delegation_route i actor s = (r, t)"
  shows "wf_delegations (db_delegations (w_db t)) \<and> w_env t = w_env s"
  using assms(2) unfolding remove_delegation_route_def
  by (rule mutating_route_invariant [where I = "\<lambda>d. wf_delegations (db_delegations d)"])
     (use assms(1) in \<open>auto intro!: op_intro elim!: remove_delegate_wf [rotated]\<close>)

lemma delegation_request_wf:
  assumes "delegation_request s t" and "fresh_keys (w_env s)"
    and "wf_delegations (db_delegations (w_db s))"
  shows "wf_delegations (db_delegations (w_db t)) \<and> w_env t = w_env s"
  using assms by (induction rule: delegation_request.induct) (metis assign_route_wf remove_route_wf)+

section \<open>Permission\<close>

text \<open>What it means that assignment \<open>a\<close> gives \<open>u\<close> authority over an entitlement.\<close>

definition permits :: "int \<Rightarrow> int \<Rightarrow> entitlement \<Rightarrow> delegation_assignment \<Rightarrow> bool" where
  "permits now u e a \<longleftrightarrow>
     da_delegate_user_id a = u \<and> effective_at now a \<and>
     da_delegation_role a \<in> delegation_role_value ` {APPLICATION_OWNER, APPLICATION_ADMINISTRATOR, HELPDESK_DELEGATE} \<and>
     ((da_scope_type a = delegation_scope_type_value Scope_APPLICATION \<and> da_scope_id a = ent_application_id e) \<or>
      (da_scope_type a = delegation_scope_type_value Scope_ENTITLEMENT \<and> da_scope_id a = ent_id e))"

lemma role_supports_access_change_iff:
  "role_supports_access_change role \<longleftrightarrow>
     role \<in> delegation_role_value ` {APPLICATION_OWNER, APPLICATION_ADMINISTRATOR, HELPDESK_DELEGATE}"
  by (auto simp: role_supports_access_change_def ACCESS_CHANGE_DELEGATION_ROLES_def enum_parse_iff
      split: option.splits)

definition covers :: "entitlement \<Rightarrow> delegation_assignment \<Rightarrow> bool" where
  "covers e a \<longleftrightarrow> role_supports_access_change (da_delegation_role a) \<and>
     assignment_matches_entitlement a e = Inr True"

lemma wf_matches:
  "wf_delegation a \<Longrightarrow> assignment_matches_entitlement a e =
     Inr ((da_scope_type a = delegation_scope_type_value Scope_APPLICATION \<and> da_scope_id a = ent_application_id e) \<or>
          (da_scope_type a = delegation_scope_type_value Scope_ENTITLEMENT \<and> da_scope_id a = ent_id e))"
  by (auto simp: wf_delegation_def assignment_matches_entitlement_def enum_value_eq
      split: delegation_scope_type.splits)

lemma first_permitting_find:
  "\<forall>a \<in> set as. wf_delegation a \<Longrightarrow> first_permitting as e = Inr (find (covers e) as)"
  by (induction as) (auto simp: covers_def wf_matches split: sum.splits bool.splits)

lemma find_SomeD: "find P xs = Some x \<Longrightarrow> x \<in> set xs \<and> P x"
  by (induction xs) (auto split: if_splits)

lemma find_sorted_least:
  assumes "sorted (map f xs)" and "find P xs = Some x" and "y \<in> set xs" and "P y"
  shows "f x \<le> f y"
  using assms by (induction xs) (auto split: if_splits)

lemma run_has_permission:
  assumes "\<forall>a \<in> set (db_delegations (w_db s)). wf_delegation a"
  shows "has_permission u action e s =
    (Inr (find (covers e) (sort_key da_id (filter (\<lambda>a. da_delegate_user_id a = u \<and>
            effective_at (env_clock (w_env s) (w_clock_reads s)) a) (db_delegations (w_db s))))),
     s\<lparr>w_clock_reads := Suc (w_clock_reads s)\<rparr>)"
  using assms
  by (simp add: has_permission_def find_effective_delegations_def run_ops first_permitting_find)

lemma covers_permits:
  assumes "wf_delegation a"
  shows "permits now u e a \<longleftrightarrow> da_delegate_user_id a = u \<and> effective_at now a \<and> covers e a"
  using assms by (auto simp: permits_def covers_def wf_matches role_supports_access_change_iff)


section \<open>Properties\<close>

text \<open>Worlds for the witnesses: the sample installation with given delegation rows.\<close>

definition owner_row :: "int \<Rightarrow> int option \<Rightarrow> bool \<Rightarrow> delegation_assignment" where
  "owner_row i e act = (new_assignment 2 Scope_APPLICATION 1 APPLICATION_OWNER root_admin e i 0)\<lparr>da_active := act\<rparr>"

definition with_delegations :: "delegation_assignment list \<Rightarrow> world" where
  "with_delegations rows = sample_world\<lparr>w_db := sample_db\<lparr>db_delegations := rows\<rparr>\<rparr>"

lemma with_delegations_sel [simp]:
  "db_delegations (w_db (with_delegations rows)) = rows" "w_env (with_delegations rows) = sample_env"
  "db_users (w_db (with_delegations rows)) = [root_admin, ann, hal, bob, eve]"
  by (simp_all add: with_delegations_def sample_fresh sample_db_def)

lemma owner_row_wf: "wf_delegation (owner_row i e act)"
  by (auto simp: wf_delegation_def owner_row_def new_assignment_def role_supports_scope_def
      intro!: exI [of _ Scope_APPLICATION] exI [of _ APPLICATION_OWNER])

text \<open>
  C29. Assigning a delegate succeeds only for an active delegate, a role that fits the scope,
  an existing scope object and an expiry in the future; it adds one active row with the
  requested values, whose unique key was not in the table, and one audit event that names
  the actor and the delegate, and changes no other table.
\<close>

theorem assign_delegate_effect:
  assumes "assign_delegate u scope_type i role actor expires_at s = (Inr a, t)"
  shows "(\<exists>delegate. row_by u_id u (db_users (w_db s)) = Some delegate \<and> u_active delegate) \<and>
         role_supports_scope scope_type role \<and> scope_exists (w_db s) scope_type i \<and>
         (\<forall>e. expires_at = Some e \<longrightarrow> env_clock (w_env s) (w_clock_reads s) < e) \<and>
         da_unique_key a = (u, delegation_scope_type_value scope_type, i, delegation_role_value role, True) \<and>
         da_unique_key a \<notin> da_unique_key ` set (db_delegations (w_db s)) \<and>
         da_expires_at a = expires_at \<and> da_created_by a = u_id actor \<and>
         (\<exists>ev. w_db t = (w_db s)\<lparr>db_delegations := db_delegations (w_db s) @ [a],
                                 db_audit := db_audit (w_db s) @ [ev]\<rparr> \<and>
               ae_requester_id ev = u_id actor \<and> ae_target_user_id ev = u \<and>
               ae_action ev = ACTION_DELEGATION_ASSIGNED)"
  using assign_delegate_ok [OF assms] by (auto simp: new_assignment_def da_unique_key_def)

lemma assign_delegate_effect_witness:
  "\<exists>a. da_unique_key a = (2, ''APPLICATION'', 1, ''APPLICATION_OWNER'', True) \<and>
       db_delegations (w_db (snd (assign_delegate 2 Scope_APPLICATION 1 APPLICATION_OWNER root_admin
         (Some 5000) sample_world))) = [a]"
proof -
  let ?m = "assign_delegate 2 Scope_APPLICATION 1 APPLICATION_OWNER root_admin (Some 5000)"
  have "returned (?m sample_world)" by code_simp
  then obtain a where a: "?m sample_world = (Inr a, snd (?m sample_world))" by (rule returnedE)
  have "db_delegations (w_db sample_world) = []" by (simp add: sample_world_def sample_db_def)
  with assign_delegate_effect [OF a] show ?thesis
    by (intro exI [of _ a]) (elim conjE exE, simp add: enum_values)
qed

text \<open>
  C28. However requests to assign and to remove delegations follow each other, successful or
  not, primary keys stay distinct, no two rows agree in delegate, scope, role and active flag,
  and every row holds a scope with a role that the scope role matrix allows.
\<close>

theorem delegation_table_invariant:
  assumes "delegation_request\<^sup>*\<^sup>* s t" and "fresh_keys (w_env s)"
    and "wf_delegations (db_delegations (w_db s))"
  shows "wf_delegations (db_delegations (w_db t))"
proof -
  have "wf_delegations (db_delegations (w_db t)) \<and> w_env t = w_env s"
    using assms by (induction rule: rtranclp_induct) (auto dest: delegation_request_wf)
  then show ?thesis ..
qed

text \<open>
  C3. On a well-formed table \<open>has_permission\<close> never raises and answers correctly: it returns
  the effective, access-changing assignment with the least id that covers the entitlement
  itself or its application, and nothing exactly when the user holds no such assignment.
\<close>

theorem has_permission_correct:
  assumes "wf_delegations (db_delegations (w_db s))"
  defines "now \<equiv> env_clock (w_env s) (w_clock_reads s)"
  shows "\<exists>found. fst (has_permission u action e s) = Inr found \<and>
     (case found of
        None \<Rightarrow> \<not> (\<exists>a \<in> set (db_delegations (w_db s)). permits now u e a)
      | Some a \<Rightarrow> a \<in> set (db_delegations (w_db s)) \<and> permits now u e a \<and>
          (\<forall>b \<in> set (db_delegations (w_db s)). permits now u e b \<longrightarrow> da_id a \<le> da_id b))"
proof -
  let ?rows = "db_delegations (w_db s)"
  let ?own = "sort_key da_id (filter (\<lambda>a. da_delegate_user_id a = u \<and> effective_at now a) ?rows)"
  from assms(1) have wf: "\<forall>a \<in> set ?rows. wf_delegation a" by (simp add: wf_delegations_def)
  note run = run_has_permission [OF wf, of u action e, folded now_def]
  have own: "permits now u e b \<longleftrightarrow> b \<in> set ?own \<and> covers e b" if "b \<in> set ?rows" for b
    using that wf by (auto simp: covers_permits)
  show ?thesis
  proof (cases "find (covers e) ?own")
    case None
    then have "\<not> (\<exists>a \<in> set ?rows. permits now u e a)" using own by (auto simp: find_None_iff)
    then show ?thesis by (intro exI [of _ None]) (simp add: run None)
  next
    case (Some a)
    then have "a \<in> set ?own \<and> covers e a" by (rule find_SomeD)
    moreover have "da_id a \<le> da_id b" if "b \<in> set ?own" "covers e b" for b
      using find_sorted_least [of da_id ?own, OF sorted_sort_key Some that] .
    ultimately show ?thesis by (intro exI [of _ "Some a"]) (auto simp: run Some own)
  qed
qed

lemma delegation_table_invariant_witness:
  "wf_delegations (db_delegations (w_db (snd (assign_delegation_route 2 Scope_APPLICATION 1
     APPLICATION_OWNER None root_admin (with_delegations [])))))"
proof -
  let ?s = "with_delegations []"
  let ?r = "assign_delegation_route 2 Scope_APPLICATION 1 APPLICATION_OWNER None root_admin ?s"
  have "?r = (fst ?r, snd ?r)" by simp
  then have "delegation_request\<^sup>*\<^sup>* ?s (snd ?r)"
    by (intro r_into_rtranclp) (rule delegation_request.assigned)
  moreover have "fresh_keys (w_env ?s)" "wf_delegations (db_delegations (w_db ?s))"
    by (simp_all add: sample_fresh wf_delegations_def)
  ultimately show ?thesis by (rule delegation_table_invariant)
qed

lemma has_permission_correct_witness:
  "fst (has_permission 2 GRANT_ACCESS viewer (with_delegations [owner_row 1 None True])) =
     Inr (Some (owner_row 1 None True))"
proof -
  let ?a = "owner_row 1 None True"
  have "wf_delegations (db_delegations (w_db (with_delegations [?a])))"
    by (simp add: wf_delegations_def owner_row_wf)
  moreover have "permits now 2 viewer ?a" for now
    by (simp add: permits_def owner_row_def new_assignment_def effective_at_def viewer_def)
  ultimately show ?thesis
    using has_permission_correct [of "with_delegations [?a]" 2 GRANT_ACCESS viewer]
    by (auto split: option.splits)
qed

text \<open>
  What can happen to the installation: a request for the delegations, successful or not, or
  anything else, which leaves their table as it is.
\<close>

inductive authority_step :: "world \<Rightarrow> world \<Rightarrow> bool" where
  delegation: "delegation_request s t \<Longrightarrow> authority_step s t"
| elsewhere: "db_delegations (w_db t) = db_delegations (w_db s) \<Longrightarrow> w_env t = w_env s \<Longrightarrow> authority_step s t"

definition retired :: "int \<Rightarrow> db \<Rightarrow> bool" where
  "retired i d \<longleftrightarrow> wf_delegations (db_delegations d) \<and>
     (\<exists>a \<in> set (db_delegations d). da_id a = i \<and> \<not> da_active a)"

lemma remove_delegate_retired:
  assumes "remove_delegate j actor s = (Inr a, t)" and "wf_delegations (db_delegations (w_db s))"
    and "j = i \<or> retired i (w_db s)"
  shows "retired i (w_db t)"
proof -
  from remove_delegate_ok(1) [OF assms(1)] obtain a0 where
    a0: "row_by da_id j (db_delegations (w_db s)) = Some a0" "a = a0\<lparr>da_active := False\<rparr>" by blast
  have a: "da_id a = j" "\<not> da_active a" "a0 \<in> set (db_delegations (w_db s))" "da_id a0 = j"
    using row_by_Some [OF a0(1)] by (simp_all add: a0(2))
  have rows: "db_delegations (w_db t) = put_row da_id a (db_delegations (w_db s))"
    using remove_delegate_ok(3) [OF assms(1)] by auto
  have "\<exists>b \<in> set (db_delegations (w_db t)). da_id b = i \<and> \<not> da_active b"
  proof (cases "j = i")
    case True
    have "a \<in> set (db_delegations (w_db t))"
      unfolding rows put_row_iff using a by (intro disjI2 conjI refl) (auto intro: rev_image_eqI)
    with a True show ?thesis by blast
  next
    case False
    with assms(3) obtain b where "b \<in> set (db_delegations (w_db s))" "da_id b = i" "\<not> da_active b"
      by (auto simp: retired_def)
    with False a rows show ?thesis by (auto simp: put_row_iff)
  qed
  with remove_delegate_wf [OF assms(2,1)] show ?thesis by (simp add: retired_def)
qed

lemma assign_delegate_retired:
  assumes "assign_delegate u st j role actor e s = (Inr a, t)" and "fresh_keys (w_env s)" and "retired i (w_db s)"
  shows "retired i (w_db t)"
  using assign_delegate_ok(7) [OF assms(1)] assign_delegate_wf [OF _ assms(2,1)] assms(3)
  by (auto simp: retired_def)

lemma authority_step_retired:
  assumes "authority_step s t" and "fresh_keys (w_env s)" and "retired i (w_db s)"
  shows "retired i (w_db t) \<and> w_env t = w_env s"
proof -
  have wf: "wf_delegations (db_delegations (w_db s))" using assms(3) by (simp add: retired_def)
  from assms(1) show ?thesis
  proof cases
    case delegation
    then show ?thesis
    proof cases
      case (assigned u st j role e actor r)
      from this [unfolded assign_delegation_route_def] show ?thesis
        by (rule mutating_route_invariant [where I = "retired i"])
           (use assms(2,3) in \<open>auto intro!: op_intro elim!: assign_delegate_retired\<close>)
    next
      case (removed j actor r)
      from this [unfolded remove_delegation_route_def] show ?thesis
        by (rule mutating_route_invariant [where I = "retired i"])
           (use assms(3) wf in \<open>auto intro!: op_intro elim!: remove_delegate_retired\<close>)
    qed
  next
    case elsewhere
    with assms(3) show ?thesis by (simp add: retired_def)
  qed
qed

text \<open>
  C14. A removed delegation is powerless for good.  When an administrator has removed a
  delegation, then in every later state, however further requests to assign and to remove
  delegations, successful or not, and changes of the other tables have been interleaved, the
  removed assignment gives nobody permission for anything, and removing it once more is refused
  and changes nothing.
\<close>

theorem removed_delegation_is_powerless:
  assumes "remove_delegation_route i actor s = (Inr a, t)" and "wf_delegations (db_delegations (w_db s))"
    and "fresh_keys (w_env s)" and "authority_step\<^sup>*\<^sup>* t s'"
  shows "(\<forall>u action e b s''. has_permission u action e s' = (Inr (Some b), s'') \<longrightarrow> da_id b \<noteq> i) \<and>
         remove_delegate i actor' s' = (Inl (DelegationExn (InactiveDelegationAssignmentError i)), s')"
proof -
  have "retired i (w_db t) \<and> w_env t = w_env s"
    using assms(1) [unfolded remove_delegation_route_def]
  proof (rule mutating_route_ok)
    fix s1 s2
    assume g: "require_roles_gate DELEGATION_ADMIN_ROLES actor s = (Inr actor, s1)"
      and m: "remove_delegate i actor (s1\<lparr>w_pending := []\<rparr>) = (Inr a, s2)"
      and db: "w_db s1 = w_db s" "w_db t = w_db s2"
    have "retired i (w_db s2)" using m by (rule remove_delegate_retired) (simp_all add: db assms(2))
    with db remove_route_wf [OF assms(2,1)] show ?thesis by simp
  qed
  then have t: "retired i (w_db t)" "fresh_keys (w_env t)" using assms(3) by simp_all
  from assms(4) have "retired i (w_db s') \<and> w_env s' = w_env t"
  proof (induction rule: rtranclp_induct)
    case (step s1 s2)
    with authority_step_retired [OF step.hyps(2), of i] t(2) show ?case by simp
  qed (simp add: t(1))
  then obtain b where wf: "wf_delegations (db_delegations (w_db s'))"
    and b: "b \<in> set (db_delegations (w_db s'))" "da_id b = i" "\<not> da_active b" by (auto simp: retired_def)
  have distinct: "distinct (map da_id (db_delegations (w_db s')))"
    and rows: "\<forall>b \<in> set (db_delegations (w_db s')). wf_delegation b" using wf by (simp_all add: wf_delegations_def)
  have row: "row_by da_id i (db_delegations (w_db s')) = Some b"
    using row_by_unique [OF distinct b(1)] b(2) by simp
  have "da_id c \<noteq> i" if h: "has_permission u action e s' = (Inr (Some c), s'')" for u action e c s''
  proof
    assume "da_id c = i"
    from h run_has_permission [OF rows, of u action e]
    have c: "c \<in> set (db_delegations (w_db s'))" "da_active c"
      by (auto simp: effective_at_def dest!: find_SomeD)
    have "c = b" using row_by_unique [OF distinct c(1)] row \<open>da_id c = i\<close> by simp
    with c(2) b(3) show False by simp
  qed
  moreover have "remove_delegate i actor' s' = (Inl (DelegationExn (InactiveDelegationAssignmentError i)), s')"
    using row b(3) by (simp add: remove_delegate_def lookup_assignment_def run_ops)
  ultimately show ?thesis by blast
qed

lemma removed_delegation_is_powerless_witness:
  "let t = snd (remove_delegation_route 1 root_admin (with_delegations [owner_row 1 None True]));
       s' = snd (assign_delegation_route 2 Scope_APPLICATION 1 APPLICATION_OWNER None root_admin t)
   in (\<forall>b s''. has_permission 2 GRANT_ACCESS viewer s' = (Inr (Some b), s'') \<longrightarrow> da_id b \<noteq> 1)"
proof -
  let ?s = "with_delegations [owner_row 1 None True]"
  let ?t = "snd (remove_delegation_route 1 root_admin ?s)"
  let ?r = "assign_delegation_route 2 Scope_APPLICATION 1 APPLICATION_OWNER None root_admin ?t"
  have "returned (remove_delegation_route 1 root_admin ?s)" by code_simp
  then obtain a where a: "remove_delegation_route 1 root_admin ?s = (Inr a, ?t)" by (rule returnedE)
  have wf: "wf_delegations (db_delegations (w_db ?s))" by (simp add: wf_delegations_def owner_row_wf)
  have fresh: "fresh_keys (w_env ?s)" by (simp add: sample_fresh)
  have "?r = (fst ?r, snd ?r)" by simp
  then have "delegation_request ?t (snd ?r)" by (rule delegation_request.assigned)
  then have "authority_step\<^sup>*\<^sup>* ?t (snd ?r)" by (intro r_into_rtranclp authority_step.delegation)
  from removed_delegation_is_powerless [OF a wf fresh this] show ?thesis unfolding Let_def by blast
qed

text \<open>
  The unique constraint includes the active flag, so a removed row blocks the removal of the
  next one.
\<close>

lemma gate_admin:
  assumes "normalize_operator_role (u_operator_role u) \<in> {''security_admin'', ''iam_admin''}"
  shows "require_roles_gate DELEGATION_ADMIN_ROLES u s = (Inr u, s)"
proof (rule require_roles_gate_ok)
  show "require_roles DELEGATION_ADMIN_ROLES = Inr [''security_admin'', ''iam_admin'']" by code_simp
  show "validate_operator_role (u_operator_role u) = Inr (normalize_operator_role (u_operator_role u))"
    using assms by (auto simp: validate_operator_role_def Let_def CANONICAL_OPERATOR_ROLES_def)
qed (use assms in auto)

text \<open>
  C37. The second removal of the same authority fails: when the table already holds an inactive
  row for the same delegate, scope and role, the removal request of an administrator for the
  active row answers 500 and the row stays active.  Once assigned, removed and assigned again,
  a delegation cannot be removed any more.
\<close>

theorem second_removal_fails:
  assumes "wf_delegations (db_delegations (w_db s))"
    and "row_by da_id i (db_delegations (w_db s)) = Some a" and "da_active a"
    and "b \<in> set (db_delegations (w_db s))" and "da_unique_key b = da_unique_key (a\<lparr>da_active := False\<rparr>)"
    and "normalize_operator_role (u_operator_role actor) \<in> {''security_admin'', ''iam_admin''}"
  shows "fst (remove_delegation_route i actor s) = Inl database_error \<and>
         w_db (snd (remove_delegation_route i actor s)) = w_db s"
proof -
  have b: "\<not> da_active b" using assms(5) by (simp add: da_unique_key_def)
  have "da_id b \<noteq> i"
  proof
    assume "da_id b = i"
    then have "row_by da_id i (db_delegations (w_db s)) = Some b"
      using row_by_unique [OF _ assms(4), of da_id] assms(1) by (simp add: wf_delegations_def)
    with assms(2,3) b show False by simp
  qed
  then have "(\<forall>r \<in> set (db_delegations (w_db s)). da_id r \<noteq> da_id a \<longrightarrow>
                 da_unique_key r \<noteq> da_unique_key (a\<lparr>da_active := False\<rparr>)) = False"
    using assms(4,5) row_by_Some [OF assms(2)] by auto
  then have "remove_delegate i actor (s\<lparr>w_pending := []\<rparr>) =
      (Inl (IntegrityError (env_db_error (w_env s))), s\<lparr>w_pending := []\<rparr>)"
    using assms(2,3)
    using if_False
    by (simp add: remove_delegate_def lookup_assignment_def save_delegation_def run_ops Let_def del: not_all ball_simps)
  with gate_admin [OF assms(6)] show ?thesis
    unfolding remove_delegation_route_def by (subst (1 2) mutating_route_raises) auto
qed

lemma second_removal_fails_witness:
  "fst (remove_delegation_route 2 root_admin
     (with_delegations [owner_row 1 None False, owner_row 2 None True])) = Inl database_error"
proof -
  let ?rows = "[owner_row 1 None False, owner_row 2 None True]"
  have "wf_delegations (db_delegations (w_db (with_delegations ?rows)))"
    by (simp add: wf_delegations_def owner_row_wf)
       (simp add: owner_row_def new_assignment_def da_unique_key_def)
  moreover have "row_by da_id 2 (db_delegations (w_db (with_delegations ?rows))) = Some (owner_row 2 None True)"
    by (simp add: row_by_def owner_row_def new_assignment_def)
  moreover have "da_active (owner_row 2 None True)"
    "da_unique_key (owner_row 1 None False) = da_unique_key ((owner_row 2 None True)\<lparr>da_active := False\<rparr>)"
    by (simp_all add: owner_row_def new_assignment_def da_unique_key_def)
  moreover have "owner_row 1 None False \<in> set (db_delegations (w_db (with_delegations ?rows)))" by simp
  moreover have "normalize_operator_role (u_operator_role root_admin) \<in> {''security_admin'', ''iam_admin''}"
    by code_simp
  ultimately show ?thesis by (intro conjunct1 [OF second_removal_fails])
qed

text \<open>
  C38. An authority that has lapsed cannot be given again: when the table holds an active row
  for the same delegate, scope and role whose expiry has passed, the duplicate check lets the
  new assignment through but the unique constraint refuses it, and an otherwise valid request
  of an administrator, without an expiry or with one in the future, answers 500 and changes no
  table.
\<close>

theorem lapsed_delegation_blocks_reassignment:
  assumes "row_by u_id u (db_users (w_db s)) = Some delegate" and "u_active delegate"
    and "role_supports_scope scope_type role" and "scope_exists (w_db s) scope_type i"
    and "wf_delegations (db_delegations (w_db s))" and "b \<in> set (db_delegations (w_db s))"
    and "da_unique_key b = (u, delegation_scope_type_value scope_type, i, delegation_role_value role, True)"
    and "da_expires_at b = Some lapsed" and "\<forall>n \<ge> w_clock_reads s. lapsed \<le> env_clock (w_env s) n"
    and "\<forall>e. expires_at = Some e \<longrightarrow> env_clock (w_env s) (w_clock_reads s) < e"
    and "normalize_operator_role (u_operator_role actor) \<in> {''security_admin'', ''iam_admin''}"
  shows "fst (assign_delegation_route u scope_type i role expires_at actor s) = Inl database_error \<and>
         w_db (snd (assign_delegation_route u scope_type i role expires_at actor s)) = w_db s"
proof -
  have "\<not> (\<exists>a \<in> set (db_delegations (w_db s)). da_delegate_user_id a = u \<and>
      da_scope_type a = delegation_scope_type_value scope_type \<and> da_scope_id a = i \<and>
      da_delegation_role a = delegation_role_value role \<and> effective_at (env_clock (w_env s) n) a)"
    if "w_clock_reads s \<le> n" for n
  proof
    assume "\<exists>a \<in> set (db_delegations (w_db s)). da_delegate_user_id a = u \<and>
      da_scope_type a = delegation_scope_type_value scope_type \<and> da_scope_id a = i \<and>
      da_delegation_role a = delegation_role_value role \<and> effective_at (env_clock (w_env s) n) a"
    then obtain a where a: "a \<in> set (db_delegations (w_db s))" "effective_at (env_clock (w_env s) n) a"
      "da_unique_key a = da_unique_key b"
      using assms(7) by (auto simp: da_unique_key_def effective_at_def)
    have "inj_on da_unique_key (set (db_delegations (w_db s)))"
      using assms(5) by (simp add: wf_delegations_def distinct_map)
    then have "a = b" using a(1,3) assms(6) by (auto dest: inj_onD)
    with a(2) assms(8,9) that show False by (auto simp: effective_at_def)
  qed
  note free = this [OF order_refl] this [OF le_SucI [OF order_refl]]
  have "(da_unique_key (new_assignment u scope_type i role actor expires_at k n) \<notin>
      da_unique_key ` set (db_delegations (w_db s))) = False" for k n
    using assms(6,7) by (force simp: new_assignment_def da_unique_key_def image_iff)
  with free have "\<exists>t. assign_delegate u scope_type i role actor expires_at (s\<lparr>w_pending := []\<rparr>) =
      (Inl (IntegrityError (env_db_error (w_env s))), t)"
    using assms(1-4,10)
    by (cases expires_at)
      (simp_all add: assign_delegate_def run_ops validate_scope_def prevent_duplicate_assignment_def
        is_expired_def insert_delegation_def new_assignment_def del: bex_simps ball_simps not_all)
  then obtain t where "assign_delegate u scope_type i role actor expires_at (s\<lparr>w_pending := []\<rparr>) =
      (Inl (IntegrityError (env_db_error (w_env s))), t)" ..
  with gate_admin [OF assms(11)] show ?thesis
    unfolding assign_delegation_route_def by (subst (1 2) mutating_route_raises) auto
qed

lemma lapsed_delegation_blocks_reassignment_witness:
  "fst (assign_delegation_route 2 Scope_APPLICATION 1 APPLICATION_OWNER (Some 5000) root_admin
     (with_delegations [owner_row 1 (Some (-5)) True])) = Inl database_error"
proof -
  let ?s = "with_delegations [owner_row 1 (Some (-5)) True]"
  have "row_by u_id 2 (db_users (w_db ?s)) = Some ann" "u_active ann"
    by (simp_all add: row_by_def sample_user_def)
  moreover have "role_supports_scope Scope_APPLICATION APPLICATION_OWNER"
    "scope_exists (w_db ?s) Scope_APPLICATION 1"
    by (simp_all add: role_supports_scope_def scope_exists_def with_delegations_def sample_db_def row_by_def)
  moreover have "wf_delegations (db_delegations (w_db ?s))" by (simp add: wf_delegations_def owner_row_wf)
  moreover have "owner_row 1 (Some (-5)) True \<in> set (db_delegations (w_db ?s))" by simp
  moreover have "da_unique_key (owner_row 1 (Some (-5)) True) =
      (2, delegation_scope_type_value Scope_APPLICATION, 1, delegation_role_value APPLICATION_OWNER, True)"
    "da_expires_at (owner_row 1 (Some (-5)) True) = Some (-5)"
    by (simp_all add: owner_row_def new_assignment_def da_unique_key_def)
  moreover have "\<forall>n \<ge> w_clock_reads ?s. -5 \<le> env_clock (w_env ?s) n"
    "\<forall>e. Some 5000 = Some e \<longrightarrow> env_clock (w_env ?s) (w_clock_reads ?s) < e"
    by (simp_all add: sample_env_def with_delegations_def sample_world_def)
  moreover have "normalize_operator_role (u_operator_role root_admin) \<in> {''security_admin'', ''iam_admin''}"
    by code_simp
  ultimately show ?thesis by (intro conjunct1 [OF lapsed_delegation_blocks_reassignment])
qed

end
