(* ===== verification/Access.thy ===== *)
theory Access
  imports Delegation
begin

text \<open>
  Granting and revoking an entitlement and reading the audit trail: the routes
  \<open>/access/grant\<close>, \<open>/access/revoke\<close> and \<open>/audit-events\<close> of \<open>app/main.py\<close>.  A refusal
  commits its audit record before it answers, so the handlers leave in one of two ways:
  \<open>Answered\<close>, an HTTP error after a commit, and \<open>Aborted\<close>, an exception that rolls the whole
  request back.
\<close>

section \<open>Leaving a handler\<close>

datatype access_exit = Answered http_error | Aborted exn

type_synonym 'a access_op = "(world, access_exit, 'a) op"

definition service_call :: "'a wop \<Rightarrow> 'a access_op" where
  "service_call m = (\<lambda>s. case m s of (Inl e, t) \<Rightarrow> (Inl (Aborted e), t) | (Inr x, t) \<Rightarrow> (Inr x, t))"

definition answer :: "int \<Rightarrow> string \<Rightarrow> 'a access_op" where
  "answer code detail = raise (Answered (HTTPException code detail))"

fun aborted_error :: "exn \<Rightarrow> http_error" where
  "aborted_error (IntegrityError _) = database_error"
| "aborted_error _ = internal_server_error"

definition request_end :: "'a access_op \<Rightarrow> (world, http_error, 'a) op" where
  "request_end m = (\<lambda>s. case m s of
       (Inl (Answered h), t) \<Rightarrow> (Inl h, t)
     | (Inl (Aborted e), t) \<Rightarrow> (Inl (aborted_error e), t\<lparr>w_db := w_db s\<rparr>)
     | (Inr x, t) \<Rightarrow> (Inr x, t))"

section \<open>Helpers of the handlers\<close>

record access_response =
  ar_id :: int
  ar_user_id :: int
  ar_application_id :: int
  ar_application :: string
  ar_entitlement_id :: int
  ar_entitlement :: string
  ar_status :: string
  ar_granted_at :: int

record revoke_access_response =
  rr_status :: string
  rr_user_id :: int
  rr_entitlement_id :: int

definition access_assignment_to_response :: "access_assignment \<Rightarrow> access_response access_op" where
  "access_assignment_to_response a =
     and_then (query (\<lambda>d. row_by ent_id (aa_entitlement_id a) (db_entitlements d))) (\<lambda>found.
     and_then (from_option (Aborted (AttributeError ''application'')) found) (\<lambda>e.
     and_then (query (\<lambda>d. row_by app_id (ent_application_id e) (db_applications d))) (\<lambda>found.
     and_then (from_option (Aborted (AttributeError ''id'')) found) (\<lambda>p.
     ret \<lparr>ar_id = aa_id a, ar_user_id = aa_user_id a, ar_application_id = app_id p,
          ar_application = app_name p, ar_entitlement_id = ent_id e, ar_entitlement = ent_name e,
          ar_status = ''active'', ar_granted_at = aa_granted_at a\<rparr>))))"

definition record_policy_denial :: "string \<Rightarrow> (world, 'e, unit) op" where
  "record_policy_denial action =
     metric_increment ''accessiq_policy_denials_total'' 1 (Some [(''action'', Some action)])
       (Some ''Business policy denials for access mutations.'')"

definition record_delegated_success ::
  "delegation_authorization \<Rightarrow> user \<Rightarrow> user \<Rightarrow> entitlement \<Rightarrow> delegated_action \<Rightarrow> (world, 'e, unit) op" where
  "record_delegated_success authorization actor target_user entitlement action =
     (case dz_assignment authorization of
        None \<Rightarrow> ret ()
      | Some a \<Rightarrow> only_if (dz_delegated authorization)
          (record_delegated_access_granted actor target_user entitlement action a))"

definition record_delegated_denial ::
  "delegation_authorization \<Rightarrow> user \<Rightarrow> user \<Rightarrow> entitlement \<Rightarrow> delegated_action \<Rightarrow> string \<Rightarrow>
   (world, 'e, unit) op" where
  "record_delegated_denial authorization actor target_user entitlement action reason =
     (case dz_assignment authorization of
        None \<Rightarrow> ret ()
      | Some a \<Rightarrow> only_if (dz_delegated authorization)
          (record_delegated_access_denied actor target_user entitlement action reason (Some a)))"

definition record_access_audit ::
  "user \<Rightarrow> int \<Rightarrow> string \<Rightarrow> int \<Rightarrow> int \<Rightarrow> string \<Rightarrow> string \<Rightarrow> (world, 'e, unit) op" where
  "record_access_audit current_user target_user_id action application_id entitlement_id result reason =
     and_then (create_audit_event (u_id current_user) target_user_id action application_id
       entitlement_id result reason None) (\<lambda>_. ret ())"

text \<open>A refusal of a handler: audit, commit, publish, answer.\<close>

definition refuse ::
  "delegation_authorization \<Rightarrow> user \<Rightarrow> user \<Rightarrow> entitlement \<Rightarrow> int \<Rightarrow> delegated_action \<Rightarrow> string \<Rightarrow>
   string \<Rightarrow> int \<Rightarrow> 'a access_op" where
  "refuse authorization current_user target_user entitlement application_id action audit_action reason code =
     and_then (block [
       record_delegated_denial authorization current_user target_user entitlement action reason,
       record_access_audit current_user (u_id target_user) audit_action application_id
         (ent_id entitlement) ''denied'' reason,
       publish_pending_events]) (\<lambda>_. answer code reason)"

definition insert_access :: "int \<Rightarrow> int \<Rightarrow> access_assignment wop" where
  "insert_access user_id entitlement_id =
     and_then utc_now (\<lambda>now.
     and_then (query db_access) (\<lambda>rows.
     and_then (new_key (map aa_id rows)) (\<lambda>key.
     let row = \<lparr>aa_id = key, aa_user_id = user_id, aa_entitlement_id = entitlement_id, aa_granted_at = now\<rparr> in
     and_then (unique_constraint ((user_id, entitlement_id) \<notin>
                 (\<lambda>a. (aa_user_id a, aa_entitlement_id a)) ` set rows)) (\<lambda>_.
     and_then (update_db (\<lambda>d. d\<lparr>db_access := rows @ [row]\<rparr>)) (\<lambda>_.
     ret row)))))"

definition find_access :: "int \<Rightarrow> int \<Rightarrow> db \<Rightarrow> access_assignment option" where
  "find_access user_id entitlement_id d =
     find (\<lambda>a. aa_user_id a = user_id \<and> aa_entitlement_id a = entitlement_id) (db_access d)"

text \<open>The part both handlers begin with: the rows the request names, and the authorization.\<close>

definition access_subject ::
  "int \<Rightarrow> int \<Rightarrow> delegated_action \<Rightarrow> user \<Rightarrow>
   (user \<times> entitlement \<times> application \<times> delegation_authorization) access_op" where
  "access_subject target_user_id entitlement_id action current_user =
     and_then (query (\<lambda>d. row_by u_id target_user_id (db_users d))) (\<lambda>found.
     and_then (from_option (Answered (HTTPException 404 ''User not found'')) found) (\<lambda>user.
     and_then (query (\<lambda>d. row_by ent_id entitlement_id (db_entitlements d))) (\<lambda>found.
     and_then (from_option (Answered (HTTPException 404 ''Entitlement not found'')) found) (\<lambda>entitlement.
     and_then (query (\<lambda>d. row_by app_id (ent_application_id entitlement) (db_applications d))) (\<lambda>found.
     and_then (from_option (Aborted (AttributeError ''id'')) found) (\<lambda>application.
     and_then (service_call (authorize_access_action current_user user entitlement action)) (\<lambda>authorization.
     if \<not> dz_allowed authorization
     then and_then publish_pending_events (\<lambda>_. raise (Answered forbidden_exception))
     else ret (user, entitlement, application, authorization))))))))"

section \<open>The handlers\<close>

definition grant_access_handler :: "int \<Rightarrow> int \<Rightarrow> user \<Rightarrow> access_response access_op" where
  "grant_access_handler target_user_id entitlement_id current_user =
     and_then (access_subject target_user_id entitlement_id GRANT_ACCESS current_user)
       (\<lambda>(user, entitlement, application, authorization).
     and_then (query (find_access target_user_id entitlement_id)) (\<lambda>existing.
     if existing \<noteq> None
     then refuse authorization current_user user entitlement (app_id application) GRANT_ACCESS ''grant''
            ''User already has this access'' 409
     else
     let decision = evaluate_grant_policy current_user user entitlement application
                      (dz_delegation_role authorization) in
     if \<not> pd_allowed decision
     then and_then (record_policy_denial ''grant'') (\<lambda>_.
          refuse authorization current_user user entitlement (app_id application) GRANT_ACCESS ''grant''
            (pd_reason decision) 403)
     else
     and_then (service_call (insert_access target_user_id entitlement_id)) (\<lambda>assignment.
     and_then (block [
       record_delegated_success authorization current_user user entitlement GRANT_ACCESS,
       record_access_audit current_user target_user_id ''grant'' (app_id application) entitlement_id
         ''succeeded'' (pd_reason decision),
       publish_pending_events]) (\<lambda>_.
     and_then (query (\<lambda>d. row_by aa_id (aa_id assignment) (db_access d))) (\<lambda>found.
     and_then (from_option (Answered (HTTPException 404 ''Access assignment not found'')) found) (\<lambda>a.
     access_assignment_to_response a))))))"

definition revoke_access_handler :: "int \<Rightarrow> int \<Rightarrow> user \<Rightarrow> revoke_access_response access_op" where
  "revoke_access_handler target_user_id entitlement_id current_user =
     and_then (access_subject target_user_id entitlement_id REVOKE_ACCESS current_user)
       (\<lambda>(user, entitlement, application, authorization).
     and_then (query (find_access target_user_id entitlement_id)) (\<lambda>existing.
     case existing of
       None \<Rightarrow> refuse authorization current_user user entitlement (app_id application) REVOKE_ACCESS
                 ''revoke'' ''Access assignment not found'' 404
     | Some assignment \<Rightarrow>
     (let decision = evaluate_revoke_policy current_user user entitlement
                       (dz_delegation_role authorization) in
      if \<not> pd_allowed decision
      then and_then (record_policy_denial ''revoke'') (\<lambda>_.
           refuse authorization current_user user entitlement (app_id application) REVOKE_ACCESS
             ''revoke'' (pd_reason decision) 403)
      else
      and_then (block [
        update_db (\<lambda>d. d\<lparr>db_access := filter (\<lambda>a. aa_id a \<noteq> aa_id assignment) (db_access d)\<rparr>),
        record_delegated_success authorization current_user user entitlement REVOKE_ACCESS,
        record_access_audit current_user target_user_id ''revoke'' (app_id application) entitlement_id
          ''succeeded'' ''Access revoked'',
        publish_pending_events]) (\<lambda>_.
      ret \<lparr>rr_status = ''revoked'', rr_user_id = target_user_id, rr_entitlement_id = entitlement_id\<rparr>))))"

definition grant_access :: "int \<Rightarrow> int \<Rightarrow> user \<Rightarrow> (world, http_error, access_response) op" where
  "grant_access target_user_id entitlement_id current_user =
     and_then new_service (\<lambda>_.
     request_end (grant_access_handler target_user_id entitlement_id current_user))"

definition revoke_access :: "int \<Rightarrow> int \<Rightarrow> user \<Rightarrow> (world, http_error, revoke_access_response) op" where
  "revoke_access target_user_id entitlement_id current_user =
     and_then new_service (\<lambda>_.
     request_end (revoke_access_handler target_user_id entitlement_id current_user))"

section \<open>The audit trail\<close>

record audit_filters =
  af_requester_id :: "int option"
  af_target_user_id :: "int option"
  af_result :: "string option"
  af_action :: "string option"
  af_correlation_id :: "string option"

definition matches_audit_filters :: "audit_filters \<Rightarrow> audit_event \<Rightarrow> bool" where
  "matches_audit_filters f ev \<longleftrightarrow>
     wanted (af_requester_id f) (ae_requester_id ev) \<and> wanted (af_target_user_id f) (ae_target_user_id ev) \<and>
     wanted (af_result f) (ae_result ev) \<and> wanted (af_action f) (ae_action ev) \<and>
     (af_correlation_id f = None \<or> af_correlation_id f = ae_correlation_id ev)"

record audit_event_response =
  er_id :: int
  er_requester_id :: int
  er_target_user_id :: int
  er_action :: string
  er_application_id :: int
  er_application :: string
  er_entitlement_id :: int
  er_entitlement :: string
  er_result :: string
  er_reason :: string
  er_correlation_id :: "string option"
  er_created_at :: int

text \<open>\<open>event.application.name\<close> raises when the row the event refers to is not there.\<close>

definition audit_event_to_response :: "db \<Rightarrow> audit_event \<Rightarrow> audit_event_response option" where
  "audit_event_to_response d event =
     (case row_by app_id (ae_application_id event) (db_applications d) of
        None \<Rightarrow> None
      | Some application \<Rightarrow>
         (case row_by ent_id (ae_entitlement_id event) (db_entitlements d) of
            None \<Rightarrow> None
          | Some entitlement \<Rightarrow>
              Some \<lparr>er_id = ae_id event, er_requester_id = ae_requester_id event,
                er_target_user_id = ae_target_user_id event, er_action = ae_action event,
                er_application_id = ae_application_id event, er_application = app_name application,
                er_entitlement_id = ae_entitlement_id event, er_entitlement = ent_name entitlement,
                er_result = ae_result event, er_reason = ae_reason event,
                er_correlation_id = ae_correlation_id event, er_created_at = ae_created_at event\<rparr>))"

definition list_audit_events :: "audit_filters \<Rightarrow> user \<Rightarrow> (world, http_error, audit_event_response list) op" where
  "list_audit_events filters current_user =
     and_then (require_roles_gate [''security_admin'', ''iam_admin'', ''auditor''] current_user) (\<lambda>_.
     and_then (query (\<lambda>d. those (map (audit_event_to_response d)
       (order_rows (\<lambda>ev. SInt (ae_created_at ev)) ae_id True
         (filter (matches_audit_filters filters) (db_audit d))))))
       (from_option internal_server_error))"

section \<open>What the parts of the handlers do\<close>

text \<open>The tables apart from the audit trail, and the state after some audit records.\<close>

definition other_tables :: "world \<Rightarrow> db" where
  "other_tables s = (w_db s)\<lparr>db_audit := []\<rparr>"

definition audited :: "world \<Rightarrow> audit_event list \<Rightarrow> world \<Rightarrow> bool" where
  "audited s evs t \<longleftrightarrow> w_db t = (w_db s)\<lparr>db_audit := db_audit (w_db s) @ evs\<rparr> \<and> w_env t = w_env s"

lemma audited_Nil: "audited s [] t \<longleftrightarrow> w_db t = w_db s \<and> w_env t = w_env s"
  by (simp add: audited_def)

lemma audited_trans: "audited s evs t \<Longrightarrow> audited t evs' u \<Longrightarrow> audited s (evs @ evs') u"
  by (simp add: audited_def)

lemma audited_sel:
  assumes "audited s evs t"
  shows "db_access (w_db t) = db_access (w_db s)" "db_users (w_db t) = db_users (w_db s)"
    "db_entitlements (w_db t) = db_entitlements (w_db s)"
    "db_applications (w_db t) = db_applications (w_db s)"
    "db_audit (w_db t) = db_audit (w_db s) @ evs" "w_env t = w_env s" "other_tables t = other_tables s"
  using assms by (simp_all add: audited_def other_tables_def)

lemma publish_pending_run:
  "\<exists>t. publish_pending_events s = (Inr (), t) \<and> w_db t = w_db s \<and> w_env t = w_env s \<and>
       w_published t = w_published s @ w_pending s"
  by (simp add: publish_pending_events_def publish_domain_events_def metric_increment_def run_ops)

lemma delegated_records_run:
  "\<exists>t. record_delegated_success az actor tu e act s = (Inr (), t) \<and> w_db t = w_db s \<and> w_env t = w_env s"
  "\<exists>t. record_delegated_denial az actor tu e act reason s = (Inr (), t) \<and> w_db t = w_db s \<and> w_env t = w_env s"
  by (cases "dz_delegated az"; simp add: record_delegated_success_def record_delegated_denial_def
      record_delegated_access_granted_def record_delegated_access_denied_def split: option.splits)+

lemma refuse_run:
  "\<exists>t ev. refuse az cu tu e p act aact reason code s = (Inl (Answered (HTTPException code reason)), t) \<and>
      audited s [ev] t \<and> ae_action ev = aact \<and> ae_result ev = ''denied''"
proof -
  obtain t1 where 1: "(record_delegated_denial az cu tu e act reason :: unit access_op) s = (Inr (), t1)"
    "w_db t1 = w_db s" "w_env t1 = w_env s"
    using delegated_records_run(2) by metis
  let ?ev = "audit_row (u_id cu) (u_id tu) aact p (ent_id e) ''denied'' reason None t1"
  obtain t2 where 2: "(publish_pending_events :: unit access_op) (audit_post ?ev t1) = (Inr (), t2)"
    "w_db t2 = w_db (audit_post ?ev t1)" "w_env t2 = w_env t1"
    using publish_pending_run [of "audit_post ?ev t1"] by auto
  have "refuse az cu tu e p act aact reason code s = (Inl (Answered (HTTPException code reason)), t2)"
    using 1 2 by (simp add: refuse_def record_access_audit_def answer_def run_ops)
  moreover have "audited s [?ev] t2" using 1 2 by (simp add: audited_def)
  ultimately show ?thesis by (metis audit_row_sel(4,7))
qed

lemma has_permission_frame:
  assumes "has_permission u act e s = (r, t)"
  shows "w_db t = w_db s \<and> w_env t = w_env s"
  using assms
  by (auto simp: has_permission_def find_effective_delegations_def run_ops lift_sum_def split: sum.splits)

text \<open>What \<open>authorize_access_action\<close> answers, without its bookkeeping.\<close>

lemma authorize_run:
  assumes "authorize_access_action actor tu e act s = (Inr az, t)"
  shows authorize_audits: "\<exists>evs. audited s evs t \<and> length evs \<le> 1 \<and>
      (\<forall>ev \<in> set evs. ae_action ev \<in> {ACTION_DELEGATED_ACTION_ALLOWED, ACTION_DELEGATED_ACTION_DENIED} \<and>
         ae_result ev \<in> {''allowed'', ''denied''} \<and>
         ae_application_id ev = ent_application_id e \<and> ae_entitlement_id ev = ent_id e)"
    and authorize_global: "dz_allowed az \<Longrightarrow> dz_assignment az = None \<Longrightarrow>
           normalize_operator_role (u_operator_role actor) \<in> set GLOBAL_ADMIN_ROLES"
    and authorize_delegated: "dz_assignment az = Some a \<Longrightarrow> \<exists>t'. has_permission (u_id actor) act e s = (Inr (Some a), t')"
proof -
  let ?adm = "normalize_operator_role (u_operator_role actor) \<in> set GLOBAL_ADMIN_ROLES"
  show "dz_allowed az \<Longrightarrow> dz_assignment az = None \<Longrightarrow> ?adm"
    and "dz_assignment az = Some a \<Longrightarrow> \<exists>t'. has_permission (u_id actor) act e s = (Inr (Some a), t')"
    using assms by (auto simp: authorize_access_action_def Let_def record_action_audit_def
        record_delegated_access_denied_def run_ops split: if_splits sum.splits prod.splits option.splits)
  show "\<exists>evs. audited s evs t \<and> length evs \<le> 1 \<and>
      (\<forall>ev \<in> set evs. ae_action ev \<in> {ACTION_DELEGATED_ACTION_ALLOWED, ACTION_DELEGATED_ACTION_DENIED} \<and>
         ae_result ev \<in> {''allowed'', ''denied''} \<and>
         ae_application_id ev = ent_application_id e \<and> ae_entitlement_id ev = ent_id e)"
  proof (cases ?adm)
    case True
    with assms show ?thesis
      by (intro exI [of _ "[]"]) (simp add: authorize_access_action_def audited_Nil)
  next
    case False
    with assms obtain found s1 where h: "has_permission (u_id actor) act e s = (Inr found, s1)"
      by (auto simp: authorize_access_action_def Let_def elim: and_then_okE)
    show ?thesis
    proof (cases found)
      case None
      let ?ev = "audit_row (u_id actor) (u_id tu) ACTION_DELEGATED_ACTION_DENIED (ent_application_id e)
         (ent_id e) ''denied'' ''No active delegation permits this action'' None s1"
      from assms False h None have "w_db t = w_db (audit_post ?ev s1) \<and> w_env t = w_env s1"
        by (auto simp: authorize_access_action_def Let_def record_action_audit_def
            record_delegated_access_denied_def run_ops)
      then show ?thesis
        using has_permission_frame [OF h] by (intro exI [of _ "[?ev]"]) (simp add: audited_def)
    next
      case (Some a)
      let ?ev = "audit_row (u_id actor) (u_id tu) ACTION_DELEGATED_ACTION_ALLOWED (ent_application_id e)
         (ent_id e) ''allowed'' (''Delegation assignment '' @ str_int (da_id a) @ '' permits this action'') None s1"
      from assms False h Some have "t = audit_post ?ev s1"
        by (auto simp: authorize_access_action_def Let_def record_action_audit_def run_ops)
      then show ?thesis
        using has_permission_frame [OF h] by (intro exI [of _ "[?ev]"]) (simp add: audited_def)
    qed
  qed
qed

lemma authorize_err:
  assumes "authorize_access_action actor tu e act s = (Inl x, t)"
  shows "w_db t = w_db s \<and> w_env t = w_env s"
  using assms has_permission_frame [of "u_id actor" act e s]
  by (auto simp: authorize_access_action_def Let_def record_action_audit_def
      record_delegated_access_denied_def run_ops split: if_splits sum.splits prod.splits option.splits)

definition delegation_audits :: "audit_event list \<Rightarrow> bool" where
  "delegation_audits evs \<longleftrightarrow> length evs \<le> 1 \<and>
     (\<forall>ev \<in> set evs. ae_action ev \<in> {ACTION_DELEGATED_ACTION_ALLOWED, ACTION_DELEGATED_ACTION_DENIED} \<and>
        ae_result ev \<in> {''allowed'', ''denied''})"

definition about_entitlement :: "entitlement \<Rightarrow> audit_event list \<Rightarrow> bool" where
  "about_entitlement e evs \<longleftrightarrow>
     (\<forall>ev \<in> set evs. ae_application_id ev = ent_application_id e \<and> ae_entitlement_id ev = ent_id e)"

lemma access_subject_run:
  obtains (refused) h t evs where "access_subject u e act cu s = (Inl (Answered h), t)"
      "audited s evs t" "delegation_audits evs"
  | (aborted) x t where "access_subject u e act cu s = (Inl (Aborted x), t)"
  | (granted) user en ap az evs s' t where "access_subject u e act cu s = (Inr (user, en, ap, az), t)"
      "row_by u_id u (db_users (w_db s)) = Some user"
      "row_by ent_id e (db_entitlements (w_db s)) = Some en"
      "row_by app_id (ent_application_id en) (db_applications (w_db s)) = Some ap"
      "authorize_access_action cu user en act s = (Inr az, t)" "dz_allowed az"
      "audited s evs t" "delegation_audits evs" "about_entitlement en evs"
proof -
  have nil: "audited s [] s" "delegation_audits []" by (simp_all add: audited_Nil delegation_audits_def)
  show thesis
  proof (cases "row_by u_id u (db_users (w_db s))")
    case None
    then have "access_subject u e act cu s = (Inl (Answered (HTTPException 404 ''User not found'')), s)"
      by (simp add: access_subject_def run_ops)
    then show ?thesis using nil by (rule refused)
  next
    case u: (Some user)
    show ?thesis
    proof (cases "row_by ent_id e (db_entitlements (w_db s))")
      case None
      with u have "access_subject u e act cu s = (Inl (Answered (HTTPException 404 ''Entitlement not found'')), s)"
        by (simp add: access_subject_def run_ops)
      then show ?thesis using nil by (rule refused)
    next
      case e: (Some en)
      show ?thesis
      proof (cases "row_by app_id (ent_application_id en) (db_applications (w_db s))")
        case None
        with u e have "access_subject u e act cu s = (Inl (Aborted (AttributeError ''id'')), s)"
          by (simp add: access_subject_def run_ops)
        then show ?thesis by (rule aborted)
      next
        case a: (Some ap)
        obtain r s1 where r: "authorize_access_action cu user en act s = (r, s1)" by fastforce
        show ?thesis
        proof (cases r)
          case (Inl x)
          with u e a r have "access_subject u e act cu s = (Inl (Aborted x), s1)"
            by (simp add: access_subject_def service_call_def run_ops)
          then show ?thesis by (rule aborted)
        next
          case (Inr az)
          from authorize_audits [OF r [unfolded Inr]] obtain evs where
            evs: "audited s evs s1" "delegation_audits evs" "about_entitlement en evs"
            by (auto simp: delegation_audits_def about_entitlement_def)
          show ?thesis
          proof (cases "dz_allowed az")
            case True
            with u e a r Inr have "access_subject u e act cu s = (Inr (user, en, ap, az), s1)"
              by (simp add: access_subject_def service_call_def run_ops)
            from granted [OF this u e a r [unfolded Inr] True evs] show ?thesis .
          next
            case False
            obtain t where t: "(publish_pending_events :: unit access_op) s1 = (Inr (), t)"
              "w_db t = w_db s1" "w_env t = w_env s1"
              using publish_pending_run [of s1] by auto
            with u e a r Inr False have "access_subject u e act cu s = (Inl (Answered forbidden_exception), t)"
              by (simp add: access_subject_def service_call_def run_ops)
            moreover have "audited s evs t" using evs(1) t by (simp add: audited_def)
            ultimately show ?thesis using evs(2) by (rule refused)
          qed
        qed
      qed
    qed
  qed
qed

section \<open>Granting\<close>

text \<open>
  What gives the requester authority over an entitlement: a global administrative role, or a
  delegation that permits it.  The second component is the delegation role the policy sees.
\<close>

definition authority :: "int \<Rightarrow> db \<Rightarrow> user \<Rightarrow> entitlement \<Rightarrow> string option \<Rightarrow> bool" where
  "authority now d actor e role \<longleftrightarrow>
     (case role of
        None \<Rightarrow> normalize_operator_role (u_operator_role actor) \<in> set GLOBAL_ADMIN_ROLES
      | Some r \<Rightarrow> \<exists>a \<in> set (db_delegations d). permits now (u_id actor) e a \<and> r = da_delegation_role a)"

lemma authorize_authority:
  assumes "authorize_access_action actor tu e act s = (Inr az, t)" and "dz_allowed az"
    and "wf_delegations (db_delegations (w_db s))"
  shows "authority (env_clock (w_env s) (w_clock_reads s)) (w_db s) actor e (dz_delegation_role az)"
proof (cases "dz_assignment az")
  case None
  with authorize_global [OF assms(1,2)] show ?thesis by (simp add: authority_def dz_delegation_role_def)
next
  case (Some a)
  from authorize_delegated [OF assms(1) Some] obtain t' where
    h: "has_permission (u_id actor) act e s = (Inr (Some a), t')" ..
  have wf: "\<forall>b \<in> set (db_delegations (w_db s)). wf_delegation b" using assms(3) by (simp add: wf_delegations_def)
  from h run_has_permission [OF wf, of "u_id actor" act e]
  have "a \<in> set (db_delegations (w_db s)) \<and> da_delegate_user_id a = u_id actor \<and>
        effective_at (env_clock (w_env s) (w_clock_reads s)) a \<and> covers e a"
    by (auto dest!: find_SomeD)
  with wf Some show ?thesis by (auto simp: authority_def dz_delegation_role_def covers_permits)
qed

lemma insert_access_run:
  "insert_access u e s =
     (let row = \<lparr>aa_id = env_key (w_env s) (map aa_id (db_access (w_db s))), aa_user_id = u,
                 aa_entitlement_id = e, aa_granted_at = env_clock (w_env s) (w_clock_reads s)\<rparr>;
          s' = s\<lparr>w_clock_reads := Suc (w_clock_reads s)\<rparr>
      in if find_access u e (w_db s) = None
         then (Inr row, s'\<lparr>w_db := (w_db s)\<lparr>db_access := db_access (w_db s) @ [row]\<rparr>\<rparr>)
         else (Inl (IntegrityError (env_db_error (w_env s))), s'))"
  by (auto simp: insert_access_def run_ops Let_def find_access_def find_None_iff find_Some_iff
      set_conv_nth image_iff)

text \<open>The successful end of a handler: delegated access event, audit record, publication.\<close>

lemma finish_run:
  "\<exists>t. (block [record_delegated_success az cu user en act,
               record_access_audit cu u aact p e res reason, publish_pending_events] :: unit access_op) s =
       (Inr (), t) \<and> (\<exists>ev. audited s [ev] t \<and> ae_requester_id ev = u_id cu \<and> ae_target_user_id ev = u \<and>
         ae_entitlement_id ev = e \<and> ae_action ev = aact \<and> ae_result ev = res \<and> ae_application_id ev = p)"
proof -
  obtain t1 where 1: "(record_delegated_success az cu user en act :: unit access_op) s = (Inr (), t1)"
    "w_db t1 = w_db s" "w_env t1 = w_env s"
    using delegated_records_run(1) by metis
  let ?ev = "audit_row (u_id cu) u aact p e res reason None t1"
  obtain t2 where 2: "(publish_pending_events :: unit access_op) (audit_post ?ev t1) = (Inr (), t2)"
    "w_db t2 = w_db (audit_post ?ev t1)" "w_env t2 = w_env t1"
    using publish_pending_run [of "audit_post ?ev t1"] by auto
  with 1 show ?thesis
    by (intro exI [of _ t2]) (auto simp: record_access_audit_def run_ops audited_def intro!: exI [of _ ?ev])
qed

text \<open>Either the handler leaves all tables but the audit trail alone, or it has granted.\<close>

lemma grant_handler_run:
  assumes fresh: "fresh_keys (w_env s)"
  obtains (refused) h t evs where "grant_access_handler u e cu s = (Inl (Answered h), t)"
      "audited s evs t"
  | (aborted) x t where "grant_access_handler u e cu s = (Inl (Aborted x), t)"
  | (granted) resp t user en ap az s' row evs ev where
      "grant_access_handler u e cu s = (Inr resp, t)" "find_access u e (w_db s) = None"
      "row_by u_id u (db_users (w_db s)) = Some user"
      "row_by ent_id e (db_entitlements (w_db s)) = Some en"
      "row_by app_id (ent_application_id en) (db_applications (w_db s)) = Some ap"
      "authorize_access_action cu user en GRANT_ACCESS s = (Inr az, s')" "dz_allowed az"
      "pd_allowed (evaluate_grant_policy cu user en ap (dz_delegation_role az))"
      "aa_user_id row = u" "aa_entitlement_id row = e"
      "aa_id row = env_key (w_env s) (map aa_id (db_access (w_db s)))"
      "w_db t = (w_db s)\<lparr>db_access := db_access (w_db s) @ [row], db_audit := db_audit (w_db s) @ evs @ [ev]\<rparr>"
      "delegation_audits evs" "ae_requester_id ev = u_id cu" "ae_target_user_id ev = u"
      "ae_entitlement_id ev = e" "ae_action ev = ''grant''" "ae_result ev = ''succeeded''"
      "ar_id resp = aa_id row" "ar_user_id resp = u" "ar_entitlement_id resp = e"
      "about_entitlement en (evs @ [ev])"
proof (rule access_subject_run [of u e GRANT_ACCESS cu s])
  fix h t evs
  assume "access_subject u e GRANT_ACCESS cu s = (Inl (Answered h), t)" "audited s evs t"
  then show thesis by (intro refused) (simp_all add: grant_access_handler_def)
next
  fix x t
  assume "access_subject u e GRANT_ACCESS cu s = (Inl (Aborted x), t)"
  then show thesis by (intro aborted) (simp_all add: grant_access_handler_def)
next
  fix user en ap az evs s' t
  assume sub: "access_subject u e GRANT_ACCESS cu s = (Inr (user, en, ap, az), t)"
    and rows: "row_by u_id u (db_users (w_db s)) = Some user"
      "row_by ent_id e (db_entitlements (w_db s)) = Some en"
      "row_by app_id (ent_application_id en) (db_applications (w_db s)) = Some ap"
    and az: "authorize_access_action cu user en GRANT_ACCESS s = (Inr az, t)" "dz_allowed az"
    and evs: "audited s evs t" "delegation_audits evs" "about_entitlement en evs"
  have id: "u_id user = u" "ent_id en = e" using rows row_by_Some by metis+
  show thesis
  proof (cases "find_access u e (w_db s)")
    case (Some a)
    obtain t' ev where "refuse az cu user en (app_id ap) GRANT_ACCESS ''grant'' ''User already has this access''
        409 t = ((Inl (Answered (HTTPException 409 ''User already has this access'')), t') :: (access_exit + access_response) \<times> world)"
      "audited t [ev] t'" using refuse_run by metis
    with sub Some evs show ?thesis
      by (intro refused [OF _ audited_trans [OF evs(1)]])
         (auto simp: grant_access_handler_def run_ops find_access_def audited_sel [OF evs(1)])
  next
    case None
    let ?pd = "evaluate_grant_policy cu user en ap (dz_delegation_role az)"
    have none: "find_access u e (w_db t) = None" using None by (simp add: find_access_def audited_sel [OF evs(1)])
    show thesis
    proof (cases "pd_allowed ?pd")
      case False
      define t0 where "t0 = snd ((record_policy_denial ''grant'' :: unit access_op) t)"
      have t0: "(record_policy_denial ''grant'' :: unit access_op) t = (Inr (), t0)" "audited t [] t0"
        by (simp_all add: t0_def record_policy_denial_def metric_increment_def audited_Nil)
      obtain t' ev where "refuse az cu user en (app_id ap) GRANT_ACCESS ''grant'' (pd_reason ?pd) 403 t0 =
          ((Inl (Answered (HTTPException 403 (pd_reason ?pd))), t') :: (access_exit + access_response) \<times> world)"
        "audited t0 [ev] t'" using refuse_run by metis
      with sub none False t0 evs show ?thesis
        by (intro refused [OF _ audited_trans [OF evs(1) audited_trans [OF t0(2)]]])
           (auto simp: grant_access_handler_def run_ops Let_def)
    next
      case True
      define row where "row = \<lparr>aa_id = env_key (w_env t) (map aa_id (db_access (w_db t))), aa_user_id = u,
                 aa_entitlement_id = e, aa_granted_at = env_clock (w_env t) (w_clock_reads t)\<rparr>"
      define t1 where "t1 = t\<lparr>w_clock_reads := Suc (w_clock_reads t),
                 w_db := (w_db t)\<lparr>db_access := db_access (w_db t) @ [row]\<rparr>\<rparr>"
      have ins: "insert_access u e t = (Inr row, t1)"
        using none by (simp add: insert_access_run row_def t1_def Let_def)
      obtain t2 ev where fin: "(block [record_delegated_success az cu user en GRANT_ACCESS,
            record_access_audit cu u ''grant'' (app_id ap) e ''succeeded'' (pd_reason ?pd),
            publish_pending_events] :: unit access_op) t1 = (Inr (), t2)"
        and ev: "audited t1 [ev] t2" "ae_requester_id ev = u_id cu" "ae_target_user_id ev = u"
          "ae_entitlement_id ev = e" "ae_action ev = ''grant''" "ae_result ev = ''succeeded''"
          "ae_application_id ev = app_id ap"
        using finish_run [of az cu user en GRANT_ACCESS u "''grant''" "app_id ap" e "''succeeded''"] by metis
      have key: "aa_id row \<notin> aa_id ` set (db_access (w_db s))"
        using fresh_keys_map [OF fresh] by (simp add: row_def audited_sel [OF evs(1)])
      have db2: "w_db t2 = (w_db s)\<lparr>db_access := db_access (w_db s) @ [row],
                    db_audit := db_audit (w_db s) @ evs @ [ev]\<rparr>"
        using ev(1) evs(1) by (simp add: audited_def t1_def)
      have found: "row_by aa_id (aa_id row) (db_access (w_db t2)) = Some row"
        using row_by_snoc [of aa_id row] key by (simp add: db2)
      define resp where "resp = \<lparr>ar_id = aa_id row, ar_user_id = aa_user_id row, ar_application_id = app_id ap,
          ar_application = app_name ap, ar_entitlement_id = ent_id en, ar_entitlement = ent_name en,
          ar_status = ''active'', ar_granted_at = aa_granted_at row\<rparr>"
      have "access_assignment_to_response row t2 = (Inr resp, t2)"
        using rows by (simp add: access_assignment_to_response_def run_ops db2 resp_def row_def)
      then have "grant_access_handler u e cu s = (Inr resp, t2)"
        using sub none True ins fin found
        by (simp add: grant_access_handler_def run_ops Let_def service_call_def del: block.simps)
      then show ?thesis
        by (rule granted [where row = row, OF _ None rows az True _ _ _ db2 evs(2) ev(2-6)])
           (use evs(3) ev(4,7) row_by_Some [OF rows(3)] in
             \<open>auto simp: resp_def row_def id audited_sel [OF evs(1)] about_entitlement_def\<close>)
    qed
  qed
qed

section \<open>Revoking\<close>

lemma revoke_handler_run:
  obtains (refused) h t evs where "revoke_access_handler u e cu s = (Inl (Answered h), t)"
      "audited s evs t"
  | (aborted) x t where "revoke_access_handler u e cu s = (Inl (Aborted x), t)"
  | (revoked) resp t user en ap az s' row evs ev where
      "revoke_access_handler u e cu s = (Inr resp, t)" "find_access u e (w_db s) = Some row"
      "row_by u_id u (db_users (w_db s)) = Some user"
      "row_by ent_id e (db_entitlements (w_db s)) = Some en"
      "authorize_access_action cu user en REVOKE_ACCESS s = (Inr az, s')" "dz_allowed az"
      "pd_allowed (evaluate_revoke_policy cu user en (dz_delegation_role az))"
      "w_db t = (w_db s)\<lparr>db_access := filter (\<lambda>a. aa_id a \<noteq> aa_id row) (db_access (w_db s)),
                        db_audit := db_audit (w_db s) @ evs @ [ev]\<rparr>"
      "delegation_audits evs" "ae_requester_id ev = u_id cu" "ae_target_user_id ev = u"
      "ae_entitlement_id ev = e" "ae_action ev = ''revoke''" "ae_result ev = ''succeeded''"
      "row_by app_id (ent_application_id en) (db_applications (w_db s)) = Some ap"
      "about_entitlement en (evs @ [ev])"
proof (rule access_subject_run [of u e REVOKE_ACCESS cu s])
  fix h t evs
  assume "access_subject u e REVOKE_ACCESS cu s = (Inl (Answered h), t)" "audited s evs t"
  then show thesis by (intro refused) (simp_all add: revoke_access_handler_def)
next
  fix x t
  assume "access_subject u e REVOKE_ACCESS cu s = (Inl (Aborted x), t)"
  then show thesis by (intro aborted) (simp_all add: revoke_access_handler_def)
next
  fix user en ap az evs s' t
  assume sub: "access_subject u e REVOKE_ACCESS cu s = (Inr (user, en, ap, az), t)"
    and rows: "row_by u_id u (db_users (w_db s)) = Some user"
      "row_by ent_id e (db_entitlements (w_db s)) = Some en"
      "row_by app_id (ent_application_id en) (db_applications (w_db s)) = Some ap"
    and az: "authorize_access_action cu user en REVOKE_ACCESS s = (Inr az, t)" "dz_allowed az"
    and evs: "audited s evs t" "delegation_audits evs" "about_entitlement en evs"
  have find: "find_access u e (w_db t) = find_access u e (w_db s)"
    by (simp add: find_access_def audited_sel [OF evs(1)])
  let ?pd = "evaluate_revoke_policy cu user en (dz_delegation_role az)"
  show thesis
  proof (cases "find_access u e (w_db s)")
    case None
    obtain t' ev where "refuse az cu user en (app_id ap) REVOKE_ACCESS ''revoke'' ''Access assignment not found''
        404 t = ((Inl (Answered (HTTPException 404 ''Access assignment not found'')), t') ::
                 (access_exit + revoke_access_response) \<times> world)"
      "audited t [ev] t'" using refuse_run by metis
    with sub None find evs show ?thesis
      by (intro refused [OF _ audited_trans [OF evs(1)]])
         (auto simp: revoke_access_handler_def run_ops)
  next
    case (Some row)
    show ?thesis
    proof (cases "pd_allowed ?pd")
      case False
      define t0 where "t0 = snd ((record_policy_denial ''revoke'' :: unit access_op) t)"
      have t0: "(record_policy_denial ''revoke'' :: unit access_op) t = (Inr (), t0)" "audited t [] t0"
        by (simp_all add: t0_def record_policy_denial_def metric_increment_def audited_Nil)
      obtain t' ev where "refuse az cu user en (app_id ap) REVOKE_ACCESS ''revoke'' (pd_reason ?pd) 403 t0 =
          ((Inl (Answered (HTTPException 403 (pd_reason ?pd))), t') :: (access_exit + revoke_access_response) \<times> world)"
        "audited t0 [ev] t'" using refuse_run by metis
      with sub Some find False t0 evs show ?thesis
        by (intro refused [OF _ audited_trans [OF evs(1) audited_trans [OF t0(2)]]])
           (auto simp: revoke_access_handler_def run_ops Let_def)
    next
      case True
      define t1 where "t1 = t\<lparr>w_db := (w_db t)\<lparr>db_access := filter (\<lambda>a. aa_id a \<noteq> aa_id row) (db_access (w_db t))\<rparr>\<rparr>"
      obtain t2 ev where fin: "(block [record_delegated_success az cu user en REVOKE_ACCESS,
            record_access_audit cu u ''revoke'' (app_id ap) e ''succeeded'' ''Access revoked'',
            publish_pending_events] :: unit access_op) t1 = (Inr (), t2)"
        and ev: "audited t1 [ev] t2" "ae_requester_id ev = u_id cu" "ae_target_user_id ev = u"
          "ae_entitlement_id ev = e" "ae_action ev = ''revoke''" "ae_result ev = ''succeeded''"
          "ae_application_id ev = app_id ap"
        using finish_run [of az cu user en REVOKE_ACCESS u "''revoke''" "app_id ap" e "''succeeded''"] by metis
      have db2: "w_db t2 = (w_db s)\<lparr>db_access := filter (\<lambda>a. aa_id a \<noteq> aa_id row) (db_access (w_db s)),
                    db_audit := db_audit (w_db s) @ evs @ [ev]\<rparr>"
        using ev(1) evs(1) by (simp add: audited_def t1_def)
      have "revoke_access_handler u e cu s =
          (Inr \<lparr>rr_status = ''revoked'', rr_user_id = u, rr_entitlement_id = e\<rparr>, t2)"
        using sub find Some True fin
        by (simp add: revoke_access_handler_def run_ops Let_def t1_def)
      note run = this
      have about: "about_entitlement en (evs @ [ev])"
        using evs(3) ev(4,7) row_by_Some [OF rows(2)] row_by_Some [OF rows(3)] by (auto simp: about_entitlement_def)
      from revoked [OF run Some rows(1,2) az True db2 evs(2) ev(2-6) rows(3) about] show ?thesis .
    qed
  qed
qed

section \<open>The access table\<close>

definition wf_access :: "access_assignment list \<Rightarrow> bool" where
  "wf_access rows \<longleftrightarrow> distinct (map aa_id rows) \<and>
     distinct (map (\<lambda>a. (aa_user_id a, aa_entitlement_id a)) rows)"

lemma wf_access_insert:
  assumes "wf_access rows" and "aa_id a \<notin> aa_id ` set rows"
    and "find (\<lambda>b. aa_user_id b = aa_user_id a \<and> aa_entitlement_id b = aa_entitlement_id a) rows = None"
  shows "wf_access (rows @ [a])"
  using assms by (auto simp: wf_access_def find_None_iff)

lemma wf_access_filter: "wf_access rows \<Longrightarrow> wf_access (filter P rows)"
  by (simp add: wf_access_def distinct_map inj_on_def)

lemma request_end_errD:
  "request_end m s = (Inl h, t) \<Longrightarrow>
     (\<exists>t'. m s = (Inl (Answered h), t') \<and> t' = t) \<or> (\<exists>x t'. m s = (Inl (Aborted x), t') \<and> w_db t = w_db s)"
  by (auto simp: request_end_def split: prod.splits sum.splits access_exit.splits)

lemma request_end_okD: "request_end m s = (Inr x, t) \<Longrightarrow> m s = (Inr x, t)"
  by (auto simp: request_end_def split: prod.splits sum.splits access_exit.splits)

lemma new_service_state [simp]: "and_then new_service f s = f () (s\<lparr>w_pending := []\<rparr>)"
  by (simp add: new_service_def)

lemma find_access_SomeD:
  "find_access u e d = Some a \<Longrightarrow> a \<in> set (db_access d) \<and> aa_user_id a = u \<and> aa_entitlement_id a = e"
  unfolding find_access_def by (drule find_SomeD) simp

lemma filter_row_key:
  assumes "wf_access rows" and "a \<in> set rows"
  shows "filter (\<lambda>b. aa_id b \<noteq> aa_id a) rows =
         filter (\<lambda>b. (aa_user_id b, aa_entitlement_id b) \<noteq> (aa_user_id a, aa_entitlement_id a)) rows"
proof (rule filter_cong [OF refl])
  fix b assume b: "b \<in> set rows"
  have "aa_id b = aa_id a \<longleftrightarrow> b = a"
    using assms b by (auto simp: wf_access_def distinct_map dest: inj_onD)
  moreover have "(aa_user_id b, aa_entitlement_id b) = (aa_user_id a, aa_entitlement_id a) \<longleftrightarrow> b = a"
    using assms b by (auto simp: wf_access_def distinct_map inj_on_def)
  ultimately show "(aa_id b \<noteq> aa_id a) = ((aa_user_id b, aa_entitlement_id b) \<noteq> (aa_user_id a, aa_entitlement_id a))"
    by simp
qed

lemma grant_handler_answered:
  assumes "fresh_keys (w_env s)" and "grant_access_handler u e cu s = (Inl (Answered h), t)"
  shows "\<exists>evs. audited s evs t"
  by (rule grant_handler_run [OF assms(1), of u e cu]) (use assms(2) in auto)

lemma revoke_handler_answered:
  assumes "revoke_access_handler u e cu s = (Inl (Answered h), t)"
  shows "\<exists>evs. audited s evs t"
  by (rule revoke_handler_run [of u e cu s]) (use assms in auto)

lemma grant_access_adds:
  assumes "fresh_keys (w_env s)" and "grant_access u e cu s = (Inr resp, t)"
  shows "\<exists>row audits. find_access u e (w_db s) = None \<and> aa_user_id row = u \<and> aa_entitlement_id row = e \<and>
     aa_id row = env_key (w_env s) (map aa_id (db_access (w_db s))) \<and>
     w_db t = (w_db s)\<lparr>db_access := db_access (w_db s) @ [row], db_audit := db_audit (w_db s) @ audits\<rparr>"
proof -
  let ?s = "s\<lparr>w_pending := []\<rparr>"
  have run: "grant_access_handler u e cu ?s = (Inr resp, t)"
    using assms(2) by (auto simp: grant_access_def dest: request_end_okD)
  show ?thesis
  proof (rule grant_handler_run [of ?s u e cu])
    fix resp' t' row evs ev
    assume "grant_access_handler u e cu ?s = (Inr resp', t')" "find_access u e (w_db ?s) = None"
      "aa_user_id row = u" "aa_entitlement_id row = e"
      "aa_id row = env_key (w_env ?s) (map aa_id (db_access (w_db ?s)))"
      "w_db t' = (w_db ?s)\<lparr>db_access := db_access (w_db ?s) @ [row], db_audit := db_audit (w_db ?s) @ evs @ [ev]\<rparr>"
    with run show ?thesis by (intro exI [of _ row] exI [of _ "evs @ [ev]"]) simp
  qed (use run assms(1) in simp_all)
qed

lemma revoke_access_removes:
  assumes "revoke_access u e cu s = (Inr resp, t)"
  shows "\<exists>row audits. find_access u e (w_db s) = Some row \<and>
     w_db t = (w_db s)\<lparr>db_access := filter (\<lambda>a. aa_id a \<noteq> aa_id row) (db_access (w_db s)),
                       db_audit := db_audit (w_db s) @ audits\<rparr>"
proof -
  let ?s = "s\<lparr>w_pending := []\<rparr>"
  have run: "revoke_access_handler u e cu ?s = (Inr resp, t)"
    using assms by (auto simp: revoke_access_def dest: request_end_okD)
  show ?thesis
  proof (rule revoke_handler_run [of u e cu ?s])
    fix resp' t' row evs ev
    assume "revoke_access_handler u e cu ?s = (Inr resp', t')" "find_access u e (w_db ?s) = Some row"
      "w_db t' = (w_db ?s)\<lparr>db_access := filter (\<lambda>a. aa_id a \<noteq> aa_id row) (db_access (w_db ?s)),
                        db_audit := db_audit (w_db ?s) @ evs @ [ev]\<rparr>"
    with run show ?thesis by (intro exI [of _ row] exI [of _ "evs @ [ev]"]) simp
  qed (use run in simp_all)
qed

text \<open>
  C1. A grant request succeeds only with authority and a consenting policy: the requester is a
  global administrator or holds an effective delegation that permits the entitlement, the
  grant policy allows the change under the delegation role, and the user did not have the
  entitlement.  It then adds exactly one access row, for that user and entitlement and under a
  new key, answers with that row, and its last audit record says who granted what to whom; no
  other table changes.
\<close>

theorem grant_access_effect:
  assumes "fresh_keys (w_env s)" and "wf_delegations (db_delegations (w_db s))"
    and "grant_access u e current_user s = (Inr resp, t)"
  shows "\<exists>user en ap role row evs ev.
     row_by u_id u (db_users (w_db s)) = Some user \<and>
     row_by ent_id e (db_entitlements (w_db s)) = Some en \<and>
     row_by app_id (ent_application_id en) (db_applications (w_db s)) = Some ap \<and>
     authority (env_clock (w_env s) (w_clock_reads s)) (w_db s) current_user en role \<and>
     pd_allowed (evaluate_grant_policy current_user user en ap role) \<and>
     find_access u e (w_db s) = None \<and>
     aa_id row \<notin> aa_id ` set (db_access (w_db s)) \<and> aa_user_id row = u \<and> aa_entitlement_id row = e \<and>
     ar_id resp = aa_id row \<and> ar_user_id resp = u \<and> ar_entitlement_id resp = e \<and>
     w_db t = (w_db s)\<lparr>db_access := db_access (w_db s) @ [row], db_audit := db_audit (w_db s) @ evs @ [ev]\<rparr> \<and>
     delegation_audits evs \<and> ae_requester_id ev = u_id current_user \<and> ae_target_user_id ev = u \<and>
     ae_entitlement_id ev = e \<and> ae_action ev = ''grant'' \<and> ae_result ev = ''succeeded''"
proof -
  let ?s = "s\<lparr>w_pending := []\<rparr>"
  have run: "grant_access_handler u e current_user ?s = (Inr resp, t)"
    using assms(3) by (auto simp: grant_access_def dest: request_end_okD)
  show ?thesis
  proof (rule grant_handler_run [of ?s u e current_user])
    show "fresh_keys (w_env ?s)" using assms(1) by simp
  next
    fix resp' t' user en ap az s' row evs ev
    assume r: "grant_access_handler u e current_user ?s = (Inr resp', t')"
      and none: "find_access u e (w_db ?s) = None"
      and rows: "row_by u_id u (db_users (w_db ?s)) = Some user"
        "row_by ent_id e (db_entitlements (w_db ?s)) = Some en"
        "row_by app_id (ent_application_id en) (db_applications (w_db ?s)) = Some ap"
      and az: "authorize_access_action current_user user en GRANT_ACCESS ?s = (Inr az, s')" "dz_allowed az"
      and rest: "pd_allowed (evaluate_grant_policy current_user user en ap (dz_delegation_role az))"
        "aa_user_id row = u" "aa_entitlement_id row = e"
        "aa_id row = env_key (w_env ?s) (map aa_id (db_access (w_db ?s)))"
        "w_db t' = (w_db ?s)\<lparr>db_access := db_access (w_db ?s) @ [row], db_audit := db_audit (w_db ?s) @ evs @ [ev]\<rparr>"
        "delegation_audits evs" "ae_requester_id ev = u_id current_user" "ae_target_user_id ev = u"
        "ae_entitlement_id ev = e" "ae_action ev = ''grant''" "ae_result ev = ''succeeded''"
        "ar_id resp' = aa_id row" "ar_user_id resp' = u" "ar_entitlement_id resp' = e"
    have auth: "authority (env_clock (w_env s) (w_clock_reads s)) (w_db s) current_user en (dz_delegation_role az)"
      using authorize_authority [OF az] assms(2) by simp
    have "aa_id row \<notin> aa_id ` set (db_access (w_db s))"
      using fresh_keys_map [OF assms(1)] by (simp add: rest(4))
    with r run none rows auth rest show ?thesis
      by (intro exI [of _ user] exI [of _ en] exI [of _ ap] exI [of _ "dz_delegation_role az"]
            exI [of _ row] exI [of _ evs] exI [of _ ev]) simp
  qed (use run in auto)
qed

text \<open>
  C2. A revoke request succeeds only with authority and a consenting policy; it then removes
  exactly the access row of that user and entitlement, which existed, and its last audit
  record says so; no other table changes.
\<close>

theorem revoke_access_effect:
  assumes "wf_access (db_access (w_db s))" and "wf_delegations (db_delegations (w_db s))"
    and "revoke_access u e current_user s = (Inr resp, t)"
  shows "\<exists>user en role evs ev.
     row_by u_id u (db_users (w_db s)) = Some user \<and>
     row_by ent_id e (db_entitlements (w_db s)) = Some en \<and>
     authority (env_clock (w_env s) (w_clock_reads s)) (w_db s) current_user en role \<and>
     pd_allowed (evaluate_revoke_policy current_user user en role) \<and>
     find_access u e (w_db s) \<noteq> None \<and>
     w_db t = (w_db s)\<lparr>db_access := filter (\<lambda>b. (aa_user_id b, aa_entitlement_id b) \<noteq> (u, e)) (db_access (w_db s)),
                       db_audit := db_audit (w_db s) @ evs @ [ev]\<rparr> \<and>
     delegation_audits evs \<and> ae_requester_id ev = u_id current_user \<and> ae_target_user_id ev = u \<and>
     ae_entitlement_id ev = e \<and> ae_action ev = ''revoke'' \<and> ae_result ev = ''succeeded''"
proof -
  let ?s = "s\<lparr>w_pending := []\<rparr>"
  have run: "revoke_access_handler u e current_user ?s = (Inr resp, t)"
    using assms(3) by (auto simp: revoke_access_def dest: request_end_okD)
  show ?thesis
  proof (rule revoke_handler_run [of u e current_user ?s])
    fix resp' t' user en az s' row evs ev
    assume r: "revoke_access_handler u e current_user ?s = (Inr resp', t')"
      and some: "find_access u e (w_db ?s) = Some row"
      and rows: "row_by u_id u (db_users (w_db ?s)) = Some user"
        "row_by ent_id e (db_entitlements (w_db ?s)) = Some en"
      and az: "authorize_access_action current_user user en REVOKE_ACCESS ?s = (Inr az, s')" "dz_allowed az"
      and rest: "pd_allowed (evaluate_revoke_policy current_user user en (dz_delegation_role az))"
        "w_db t' = (w_db ?s)\<lparr>db_access := filter (\<lambda>a. aa_id a \<noteq> aa_id row) (db_access (w_db ?s)),
                          db_audit := db_audit (w_db ?s) @ evs @ [ev]\<rparr>"
        "delegation_audits evs" "ae_requester_id ev = u_id current_user" "ae_target_user_id ev = u"
        "ae_entitlement_id ev = e" "ae_action ev = ''revoke''" "ae_result ev = ''succeeded''"
    have auth: "authority (env_clock (w_env s) (w_clock_reads s)) (w_db s) current_user en (dz_delegation_role az)"
      using authorize_authority [OF az] assms(2) by simp
    from find_access_SomeD [OF some] have row: "row \<in> set (db_access (w_db s))" "aa_user_id row = u"
      "aa_entitlement_id row = e" by simp_all
    with r run some rows auth rest filter_row_key [OF assms(1) row(1)] show ?thesis
      by (intro exI [of _ user] exI [of _ en] exI [of _ "dz_delegation_role az"]
            exI [of _ evs] exI [of _ ev]) simp
  qed (use run in auto)
qed

text \<open>
  C12. A refused or failed grant or revoke request changes no table but the audit trail, and
  the audit trail it leaves extends the one it found.
\<close>

theorem failed_access_request_changes_nothing:
  assumes "fresh_keys (w_env s)"
    and "grant_access u e current_user s = (Inl h, t) \<or> revoke_access u e current_user s = (Inl h, t)"
  shows "other_tables t = other_tables s \<and> prefix (db_audit (w_db s)) (db_audit (w_db t))"
proof -
  let ?s = "s\<lparr>w_pending := []\<rparr>"
  have same: ?thesis if "w_db t = w_db s" using that by (simp add: other_tables_def)
  have aud: ?thesis if "audited ?s evs t" for evs
    using audited_sel(5,7) [OF that] by (simp add: other_tables_def)
  from assms(2) show ?thesis
  proof
    assume "grant_access u e current_user s = (Inl h, t)"
    then have "request_end (grant_access_handler u e current_user) ?s = (Inl h, t)"
      by (simp add: grant_access_def)
    from request_end_errD [OF this] same aud grant_handler_answered [of ?s] assms(1) show ?thesis
      by fastforce
  next
    assume "revoke_access u e current_user s = (Inl h, t)"
    then have "request_end (revoke_access_handler u e current_user) ?s = (Inl h, t)"
      by (simp add: revoke_access_def)
    from request_end_errD [OF this] same aud revoke_handler_answered [of u e current_user ?s] show ?thesis
      by fastforce
  qed
qed

lemma sample_wf: "wf_delegations (db_delegations (w_db sample_world))" "wf_access (db_access (w_db sample_world))"
  "fresh_keys (w_env sample_world)"
  by (simp_all add: sample_world_def sample_db_def wf_delegations_def wf_access_def sample_fresh [unfolded sample_world_def])

lemmas access_defs = grant_access_def revoke_access_def request_end_def grant_access_handler_def
  revoke_access_handler_def access_subject_def service_call_def authorize_access_action_def
  GLOBAL_ADMIN_ROLES_def find_access_def evaluate_grant_policy_def evaluate_revoke_policy_def
  is_administrator_entitlement_def policy_roles dz_delegation_role_def normalize_delegation_role_def Let_def

lemmas access_end_defs = insert_access_def record_delegated_success_def record_access_audit_def
  record_delegated_denial_def record_policy_denial_def refuse_def answer_def Let_def
  publish_pending_events_def publish_domain_events_def metric_increment_def access_assignment_to_response_def

lemma sample_grant:
  "returned (grant_access 4 1 root_admin sample_world) \<and>
   db_access (w_db (snd (grant_access 4 1 root_admin sample_world))) =
     db_access sample_db @ [\<lparr>aa_id = 3, aa_user_id = 4, aa_entitlement_id = 1, aa_granted_at = 0\<rparr>]"
  by (simp add: access_defs sample_simps cong: run_cong)
     (simp add: access_end_defs sample_simps returned_def cong: run_cong)

lemma sample_refused_grant: "\<not> returned (grant_access 5 1 root_admin sample_world)"
  by (simp add: access_defs sample_simps cong: run_cong)
     (simp add: access_end_defs sample_simps returned_def cong: run_cong)

definition after_grant :: world where
  "after_grant = sample_world\<lparr>w_db := sample_db\<lparr>db_access := db_access sample_db @
     [\<lparr>aa_id = 3, aa_user_id = 4, aa_entitlement_id = 1, aa_granted_at = 0\<rparr>]\<rparr>\<rparr>"

lemma sample_revoke:
  "returned (revoke_access 5 3 root_admin sample_world)" "returned (revoke_access 4 1 root_admin after_grant)"
  by (simp add: access_defs sample_simps after_grant_def cong: run_cong,
      simp add: access_end_defs sample_simps returned_def cong: run_cong)+

lemma grant_access_effect_witness:
  "\<exists>row. aa_user_id row = 4 \<and> aa_entitlement_id row = 1 \<and>
     db_access (w_db (snd (grant_access 4 1 root_admin sample_world))) = db_access sample_db @ [row]"
proof -
  obtain resp where "grant_access 4 1 root_admin sample_world =
      (Inr resp, snd (grant_access 4 1 root_admin sample_world))"
    using sample_grant by (blast elim: returnedE)
  from grant_access_effect [OF sample_wf(3,1) this] show ?thesis
    by (elim exE conjE) (auto simp: sample_world_def)
qed

lemma revoke_access_effect_witness:
  "find_access 5 3 (w_db (snd (revoke_access 5 3 root_admin sample_world))) = None"
proof -
  obtain resp where "revoke_access 5 3 root_admin sample_world =
      (Inr resp, snd (revoke_access 5 3 root_admin sample_world))"
    using sample_revoke(1) by (rule returnedE)
  from revoke_access_effect [OF sample_wf(2,1) this] show ?thesis
    by (elim exE conjE) (simp add: find_access_def find_None_iff)
qed

lemma failed_access_request_changes_nothing_witness:
  "db_access (w_db (snd (grant_access 5 1 root_admin sample_world))) = db_access sample_db"
proof -
  obtain h where "grant_access 5 1 root_admin sample_world =
      (Inl h, snd (grant_access 5 1 root_admin sample_world))"
    using sample_refused_grant
    by (cases "grant_access 5 1 root_admin sample_world") (auto simp: returned_def split: sum.splits)
  from failed_access_request_changes_nothing [OF sample_wf(3) disjI1 [OF this]]
  have "db_access (other_tables (snd (grant_access 5 1 root_admin sample_world))) =
      db_access (other_tables sample_world)" by simp
  then show ?thesis by (simp add: other_tables_def sample_world_def)
qed

text \<open>
  C30. Revoking undoes granting: whatever happened in between, if the access table is still the
  one a successful grant left, a successful revoke of the same user and entitlement restores
  the table the grant found.
\<close>

theorem revoke_undoes_grant:
  assumes "fresh_keys (w_env s)" and "wf_access (db_access (w_db s))"
    and "grant_access u e granter s = (Inr resp, t)"
    and "db_access (w_db s') = db_access (w_db t)"
    and "revoke_access u e revoker s' = (Inr resp', t')"
  shows "db_access (w_db t') = db_access (w_db s)"
proof -
  from grant_access_adds [OF assms(1,3)] obtain row where none: "find_access u e (w_db s) = None"
    and row: "aa_user_id row = u" "aa_entitlement_id row = e"
      "aa_id row = env_key (w_env s) (map aa_id (db_access (w_db s)))"
    and t: "db_access (w_db t) = db_access (w_db s) @ [row]"
    by auto
  have wf: "wf_access (db_access (w_db s'))"
    unfolding assms(4) t
    using wf_access_insert [OF assms(2), of row] fresh_keys_map [OF assms(1), of aa_id "db_access (w_db s)"] none row
    by (simp add: find_access_def)
  from revoke_access_removes [OF assms(5)] obtain row' where row': "find_access u e (w_db s') = Some row'"
    and t': "db_access (w_db t') = filter (\<lambda>a. aa_id a \<noteq> aa_id row') (db_access (w_db s'))"
    by auto
  note r' = find_access_SomeD [OF row']
  have "db_access (w_db t') = filter (\<lambda>b. (aa_user_id b, aa_entitlement_id b) \<noteq> (u, e)) (db_access (w_db s'))"
    using filter_row_key [OF wf, of row'] r' by (simp add: t')
  also have "\<dots> = db_access (w_db s)"
    using none row by (auto simp: assms(4) t find_access_def find_None_iff intro!: filter_True)
  finally show ?thesis .
qed

lemma revoke_undoes_grant_witness:
  "db_access (w_db (snd (revoke_access 4 1 root_admin after_grant))) = db_access (w_db sample_world)"
proof -
  obtain resp where g: "grant_access 4 1 root_admin sample_world =
      (Inr resp, snd (grant_access 4 1 root_admin sample_world))"
    using sample_grant by (blast elim: returnedE)
  obtain resp' where r: "revoke_access 4 1 root_admin after_grant =
      (Inr resp', snd (revoke_access 4 1 root_admin after_grant))"
    using sample_revoke(2) by (rule returnedE)
  have "db_access (w_db after_grant) = db_access (w_db (snd (grant_access 4 1 root_admin sample_world)))"
    using sample_grant by (simp add: after_grant_def)
  from revoke_undoes_grant [OF sample_wf(3,2) g this r] show ?thesis .
qed

section \<open>The audit listing\<close>

lemma those_Some_map: "those (map g xs) = Some ys \<Longrightarrow> ys = map (\<lambda>x. the (g x)) xs \<and> (\<forall>x \<in> set xs. g x \<noteq> None)"
  by (induction xs arbitrary: ys) (auto split: option.splits)

lemma those_total: "\<forall>x \<in> set xs. g x \<noteq> None \<Longrightarrow> those (map g xs) = Some (map (\<lambda>x. the (g x)) xs)"
  by (induction xs) auto

lemma response_sel:
  assumes "audit_event_to_response d ev \<noteq> None"
  shows "er_id (the (audit_event_to_response d ev)) = ae_id ev"
    "er_created_at (the (audit_event_to_response d ev)) = ae_created_at ev"
    "er_action (the (audit_event_to_response d ev)) = ae_action ev"
  using assms by (auto simp: audit_event_to_response_def split: option.splits)

text \<open>What the listing answers: who may read, which events, and in which order.\<close>

lemma list_audit_events_run:
  fixes reader :: user
  defines "permitted \<equiv> normalize_operator_role (u_operator_role reader) \<in> {''security_admin'', ''iam_admin'', ''auditor''}"
  shows "fst (list_audit_events f reader s) =
     (if \<not> permitted then Inl forbidden_exception
      else case those (map (audit_event_to_response (w_db s)) (order_rows (\<lambda>ev. SInt (ae_created_at ev)) ae_id True
             (filter (matches_audit_filters f) (db_audit (w_db s))))) of
             None \<Rightarrow> Inl internal_server_error | Some evs \<Rightarrow> Inr evs)"
    and "w_db (snd (list_audit_events f reader s)) = w_db s"
proof -
  let ?roles = "[''security_admin'', ''iam_admin'', ''auditor'']"
  have req: "require_roles ?roles = Inr ?roles"
    and roles: "normalize_operator_role ` set ?roles = set ?roles" by code_simp+
  note gate = require_roles_gate_fst [OF req, of reader s, unfolded roles]
  obtain r t where r: "require_roles_gate ?roles reader s = (r, t)" by fastforce
  then have db: "w_db t = w_db s"
    using keeps_same_result [OF keeps_require_roles_gate r, of w_db] by simp
  show "fst (list_audit_events f reader s) =
     (if \<not> permitted then Inl forbidden_exception
      else case those (map (audit_event_to_response (w_db s)) (order_rows (\<lambda>ev. SInt (ae_created_at ev)) ae_id True
             (filter (matches_audit_filters f) (db_audit (w_db s))))) of
             None \<Rightarrow> Inl internal_server_error | Some evs \<Rightarrow> Inr evs)"
    using r gate db unfolding permitted_def
    by (auto simp: list_audit_events_def run_ops split: sum.splits if_splits option.splits)
  show "w_db (snd (list_audit_events f reader s)) = w_db s"
    using r gate db
    by (auto simp: list_audit_events_def run_ops from_option_def split: sum.splits if_splits option.splits)
qed

lemma listed_sorted:
  assumes "those (map (audit_event_to_response d) (order_rows (\<lambda>ev. SInt (ae_created_at ev)) ae_id True evs)) = Some rs"
  shows "sorted_wrt (\<lambda>x y. (er_created_at y, er_id y) \<le> (er_created_at x, er_id x)) rs"
proof -
  let ?xs = "order_rows (\<lambda>ev. SInt (ae_created_at ev)) ae_id True evs"
  note rs = those_Some_map [OF assms]
  have "sorted_wrt (\<lambda>x y. (SInt (ae_created_at y), ae_id y) \<le> (SInt (ae_created_at x), ae_id x)) ?xs"
    using order_rows_sorted [where d = True and key = "\<lambda>ev. SInt (ae_created_at ev)" and tie = ae_id and rows = evs] by simp
  then have "sorted_wrt (\<lambda>x y. (er_created_at (the (audit_event_to_response d y)), er_id (the (audit_event_to_response d y)))
      \<le> (er_created_at (the (audit_event_to_response d x)), er_id (the (audit_event_to_response d x)))) ?xs"
    by (rule sorted_wrt_mono_rel [rotated]) (use rs in \<open>auto simp: response_sel less_eq_prod_def\<close>)
  then show ?thesis using rs by (simp add: sorted_wrt_map)
qed

text \<open>After new events about known rows the listing shows them beside what it showed before.\<close>

lemma listing_grows:
  assumes before: "fst (list_audit_events f reader s) = Inr before"
    and t: "db_audit (w_db t) = db_audit (w_db s) @ new" "db_applications (w_db t) = db_applications (w_db s)"
      "db_entitlements (w_db t) = db_entitlements (w_db s)"
    and known: "\<forall>ev \<in> set new. audit_event_to_response (w_db s) ev \<noteq> None"
  shows "\<exists>after. fst (list_audit_events f reader t) = Inr after \<and>
     mset after = mset before + mset (map (\<lambda>ev. the (audit_event_to_response (w_db s) ev)) (filter (matches_audit_filters f) new)) \<and>
     sorted_wrt (\<lambda>x y. (er_created_at y, er_id y) \<le> (er_created_at x, er_id x)) after"
proof -
  let ?g = "audit_event_to_response (w_db s)" and ?m = "matches_audit_filters f"
  let ?order = "order_rows (\<lambda>ev. SInt (ae_created_at ev)) ae_id True"
  have g: "audit_event_to_response (w_db t) = ?g" by (rule ext) (simp only: audit_event_to_response_def t)
  from before have permitted: "normalize_operator_role (u_operator_role reader) \<in> {''security_admin'', ''iam_admin'', ''auditor''}"
    and b: "those (map ?g (?order (filter ?m (db_audit (w_db s))))) = Some before"
    by (auto simp: list_audit_events_run split: if_splits option.splits)
  note bs = those_Some_map [OF b]
  have "\<forall>ev \<in> set (?order (filter ?m (db_audit (w_db t)))). ?g ev \<noteq> None" using bs known by (auto simp: t)
  note after = those_total [OF this]
  let ?after = "map (\<lambda>ev. the (?g ev)) (?order (filter ?m (db_audit (w_db t))))"
  have "fst (list_audit_events f reader t) = Inr ?after"
    using permitted after by (auto simp: list_audit_events_run g)
  moreover have "mset ?after = mset before + mset (map (\<lambda>ev. the (?g ev)) (filter ?m new))"
    using bs by (simp add: t mset_order_rows)
  ultimately show ?thesis using listed_sorted [OF after] by blast
qed

lemma about_known:
  assumes "row_by ent_id e (db_entitlements d) = Some en" and "row_by app_id (ent_application_id en) (db_applications d) = Some ap"
    and "about_entitlement en evs"
  shows "\<forall>ev \<in> set evs. audit_event_to_response d ev = Some
     \<lparr>er_id = ae_id ev, er_requester_id = ae_requester_id ev, er_target_user_id = ae_target_user_id ev,
      er_action = ae_action ev, er_application_id = app_id ap, er_application = app_name ap,
      er_entitlement_id = e, er_entitlement = ent_name en, er_result = ae_result ev,
      er_reason = ae_reason ev, er_correlation_id = ae_correlation_id ev, er_created_at = ae_created_at ev\<rparr>"
  using assms row_by_Some [OF assms(1)] row_by_Some [OF assms(2)]
  by (auto simp: audit_event_to_response_def about_entitlement_def)

text \<open>A successful change of access, whichever of the two it is.\<close>

definition access_changed :: "string \<Rightarrow> int \<Rightarrow> int \<Rightarrow> user \<Rightarrow> world \<Rightarrow> world \<Rightarrow> bool" where
  "access_changed action u e actor s t \<longleftrightarrow>
     (action = ''grant'' \<and> (\<exists>resp. grant_access u e actor s = (Inr resp, t))) \<or>
     (action = ''revoke'' \<and> (\<exists>resp. revoke_access u e actor s = (Inr resp, t)))"

lemma access_changed_audits:
  assumes "access_changed action u e actor s t" and "fresh_keys (w_env s)"
  shows "\<exists>en ap evs ev. row_by ent_id e (db_entitlements (w_db s)) = Some en \<and>
     row_by app_id (ent_application_id en) (db_applications (w_db s)) = Some ap \<and>
     db_audit (w_db t) = db_audit (w_db s) @ evs @ [ev] \<and> db_applications (w_db t) = db_applications (w_db s) \<and>
     db_entitlements (w_db t) = db_entitlements (w_db s) \<and> delegation_audits evs \<and>
     about_entitlement en (evs @ [ev]) \<and> ae_requester_id ev = u_id actor \<and> ae_target_user_id ev = u \<and>
     ae_action ev = action \<and> ae_result ev = ''succeeded''"
proof -
  let ?s = "s\<lparr>w_pending := []\<rparr>"
  from assms(1) show ?thesis
    unfolding access_changed_def
  proof (elim disjE conjE exE)
    fix resp assume a: "action = ''grant''" and "grant_access u e actor s = (Inr resp, t)"
    then have run: "grant_access_handler u e actor ?s = (Inr resp, t)"
      by (auto simp: grant_access_def dest: request_end_okD)
    show ?thesis
    proof (rule grant_handler_run [of ?s u e actor])
      fix resp' t' en ap row evs ev
      assume "grant_access_handler u e actor ?s = (Inr resp', t')"
        "row_by ent_id e (db_entitlements (w_db ?s)) = Some en"
        "row_by app_id (ent_application_id en) (db_applications (w_db ?s)) = Some ap"
        "w_db t' = (w_db ?s)\<lparr>db_access := db_access (w_db ?s) @ [row], db_audit := db_audit (w_db ?s) @ evs @ [ev]\<rparr>"
        "delegation_audits evs" "ae_requester_id ev = u_id actor" "ae_target_user_id ev = u"
        "ae_action ev = ''grant''" "ae_result ev = ''succeeded''" "about_entitlement en (evs @ [ev])"
      with run a show ?thesis
        by (intro exI [of _ en] exI [of _ ap] exI [of _ evs] exI [of _ ev]) simp
    qed (use run assms(2) in simp_all)
  next
    fix resp assume a: "action = ''revoke''" and "revoke_access u e actor s = (Inr resp, t)"
    then have run: "revoke_access_handler u e actor ?s = (Inr resp, t)"
      by (auto simp: revoke_access_def dest: request_end_okD)
    show ?thesis
    proof (rule revoke_handler_run [of u e actor ?s])
      fix resp' t' en ap row evs ev
      assume "revoke_access_handler u e actor ?s = (Inr resp', t')"
        "row_by ent_id e (db_entitlements (w_db ?s)) = Some en"
        "row_by app_id (ent_application_id en) (db_applications (w_db ?s)) = Some ap"
        "w_db t' = (w_db ?s)\<lparr>db_access := filter (\<lambda>a. aa_id a \<noteq> aa_id row) (db_access (w_db ?s)),
                          db_audit := db_audit (w_db ?s) @ evs @ [ev]\<rparr>"
        "delegation_audits evs" "ae_requester_id ev = u_id actor" "ae_target_user_id ev = u"
        "ae_action ev = ''revoke''" "ae_result ev = ''succeeded''" "about_entitlement en (evs @ [ev])"
      with run a show ?thesis
        by (intro exI [of _ en] exI [of _ ap] exI [of _ evs] exI [of _ ev]) simp
    qed (use run in simp_all)
  qed
qed


text \<open>
  C36. The audit listing accounts for every change of access.  Take any filters and a reader who
  could list the events before a successful grant or revoke: afterwards the reader's listing
  succeeds, newest first, and of the events with the action of the change it shows those it
  showed before and, exactly when each of the filters given fits the change, one more, which
  names who changed what for whom.  Readers without one of the three roles are refused, and
  listing changes no table.
\<close>

theorem audit_listing_accounts_for_changes:
  assumes "access_changed action u e actor s t" and "fresh_keys (w_env s)"
    and "list_audit_events f reader s = (Inr before, s')"
  shows "normalize_operator_role (u_operator_role reader) \<in> {''security_admin'', ''iam_admin'', ''auditor''} \<and>
     (\<exists>after t' en ap entry.
        list_audit_events f reader t = (Inr after, t') \<and> w_db t' = w_db t \<and>
        sorted_wrt (\<lambda>x y. (er_created_at y, er_id y) \<le> (er_created_at x, er_id x)) after \<and>
        row_by ent_id e (db_entitlements (w_db s)) = Some en \<and>
        row_by app_id (ent_application_id en) (db_applications (w_db s)) = Some ap \<and>
        er_requester_id entry = u_id actor \<and> er_target_user_id entry = u \<and> er_action entry = action \<and>
        er_application_id entry = app_id ap \<and> er_application entry = app_name ap \<and>
        er_entitlement_id entry = e \<and> er_entitlement entry = ent_name en \<and> er_result entry = ''succeeded'' \<and>
        mset (filter (\<lambda>x. er_action x = action) after) =
          mset (filter (\<lambda>x. er_action x = action) before) +
          (if (case af_requester_id f of None \<Rightarrow> True | Some i \<Rightarrow> i = u_id actor) \<and>
              (case af_target_user_id f of None \<Rightarrow> True | Some i \<Rightarrow> i = u) \<and>
              (case af_result f of None \<Rightarrow> True | Some r \<Rightarrow> r = ''succeeded'') \<and>
              (case af_action f of None \<Rightarrow> True | Some a \<Rightarrow> a = action) \<and>
              (case af_correlation_id f of None \<Rightarrow> True | Some c \<Rightarrow> er_correlation_id entry = Some c)
           then {#entry#} else {#})) \<and>
     (\<forall>other. normalize_operator_role (u_operator_role other) \<notin> {''security_admin'', ''iam_admin'', ''auditor''} \<longrightarrow>
        fst (list_audit_events f other t) = Inl forbidden_exception)"
proof -
  from access_changed_audits [OF assms(1,2)] obtain en ap evs ev where
    en: "row_by ent_id e (db_entitlements (w_db s)) = Some en"
      "row_by app_id (ent_application_id en) (db_applications (w_db s)) = Some ap"
    and t: "db_audit (w_db t) = db_audit (w_db s) @ evs @ [ev]" "db_applications (w_db t) = db_applications (w_db s)"
      "db_entitlements (w_db t) = db_entitlements (w_db s)"
    and evs: "delegation_audits evs" "about_entitlement en (evs @ [ev])"
    and ev: "ae_requester_id ev = u_id actor" "ae_target_user_id ev = u" "ae_action ev = action" "ae_result ev = ''succeeded''"
    by blast
  let ?g = "\<lambda>ev. the (audit_event_to_response (w_db s) ev)" and ?m = "matches_audit_filters f"
  note known = about_known [OF en evs(2)]
  have before: "fst (list_audit_events f reader s) = Inr before" using assms(3) by simp
  then have reader: "normalize_operator_role (u_operator_role reader) \<in> {''security_admin'', ''iam_admin'', ''auditor''}"
    by (auto simp: list_audit_events_run split: if_splits)
  from listing_grows [OF before t] known obtain after where
    after: "fst (list_audit_events f reader t) = Inr after"
      "mset after = mset before + mset (map ?g (filter ?m (evs @ [ev])))"
      "sorted_wrt (\<lambda>x y. (er_created_at y, er_id y) \<le> (er_created_at x, er_id x)) after" by blast
  have "action = ''grant'' \<or> action = ''revoke''" using assms(1) by (auto simp: access_changed_def)
  then have "action \<noteq> ACTION_DELEGATED_ACTION_ALLOWED" "action \<noteq> ACTION_DELEGATED_ACTION_DENIED"
    by (auto simp: ACTION_DELEGATED_ACTION_ALLOWED_def ACTION_DELEGATED_ACTION_DENIED_def)
  then have "filter (\<lambda>x. er_action x = action) (map ?g (filter ?m evs)) = []"
    using evs(1) known by (auto simp: filter_empty_conv delegation_audits_def)
  then have new: "filter (\<lambda>x. er_action x = action) (map ?g (filter ?m (evs @ [ev]))) = (if ?m ev then [?g ev] else [])"
    using known ev(3) by (simp only: filter_append map_append append_Nil) simp
  have "mset (filter (\<lambda>x. er_action x = action) after) = mset (filter (\<lambda>x. er_action x = action) before) +
      mset (filter (\<lambda>x. er_action x = action) (map ?g (filter ?m (evs @ [ev]))))"
    by (simp only: mset_filter after(2) filter_union_mset)
  then have "mset (filter (\<lambda>x. er_action x = action) after) =
      mset (filter (\<lambda>x. er_action x = action) before) + (if ?m ev then {#?g ev#} else {#})"
    unfolding new by simp
  moreover have "?m ev \<longleftrightarrow> (case af_requester_id f of None \<Rightarrow> True | Some i \<Rightarrow> i = u_id actor) \<and>
      (case af_target_user_id f of None \<Rightarrow> True | Some i \<Rightarrow> i = u) \<and>
      (case af_result f of None \<Rightarrow> True | Some r \<Rightarrow> r = ''succeeded'') \<and>
      (case af_action f of None \<Rightarrow> True | Some a \<Rightarrow> a = action) \<and>
      (case af_correlation_id f of None \<Rightarrow> True | Some c \<Rightarrow> er_correlation_id (?g ev) = Some c)"
    using known ev by (auto simp: matches_audit_filters_def wanted_def split: option.splits)
  ultimately have shown: "mset (filter (\<lambda>x. er_action x = action) after) =
      mset (filter (\<lambda>x. er_action x = action) before) +
      (if (case af_requester_id f of None \<Rightarrow> True | Some i \<Rightarrow> i = u_id actor) \<and>
          (case af_target_user_id f of None \<Rightarrow> True | Some i \<Rightarrow> i = u) \<and>
          (case af_result f of None \<Rightarrow> True | Some r \<Rightarrow> r = ''succeeded'') \<and>
          (case af_action f of None \<Rightarrow> True | Some a \<Rightarrow> a = action) \<and>
          (case af_correlation_id f of None \<Rightarrow> True | Some c \<Rightarrow> er_correlation_id (?g ev) = Some c)
       then {#?g ev#} else {#})" by (simp only:)
  have run: "list_audit_events f reader t = (Inr after, snd (list_audit_events f reader t))"
    using after(1) by (simp add: prod_eq_iff)
  have entry: "er_requester_id (?g ev) = u_id actor" "er_target_user_id (?g ev) = u" "er_action (?g ev) = action"
    "er_application_id (?g ev) = app_id ap" "er_application (?g ev) = app_name ap" "er_entitlement_id (?g ev) = e"
    "er_entitlement (?g ev) = ent_name en" "er_result (?g ev) = ''succeeded''"
    using known ev by simp_all
  have "\<forall>other. normalize_operator_role (u_operator_role other) \<notin> {''security_admin'', ''iam_admin'', ''auditor''} \<longrightarrow>
        fst (list_audit_events f other t) = Inl forbidden_exception"
    by (simp add: list_audit_events_run(1))
  then show ?thesis
    by (intro conjI reader exI [of _ after] exI [of _ "snd (list_audit_events f reader t)"] exI [of _ en] exI [of _ ap]
        exI [of _ "?g ev"] run list_audit_events_run(2) after(3) en entry shown)
qed

lemma audit_listing_accounts_for_changes_witness:
  "\<exists>after t' entry. list_audit_events \<lparr>af_requester_id = None, af_target_user_id = Some 4, af_result = None,
       af_action = Some ''grant'', af_correlation_id = None\<rparr> root_admin
       (snd (grant_access 4 1 root_admin sample_world)) = (Inr after, t') \<and>
     entry \<in> set after \<and> er_target_user_id entry = 4 \<and> er_entitlement_id entry = 1"
proof -
  let ?f = "\<lparr>af_requester_id = None, af_target_user_id = Some 4, af_result = None,
       af_action = Some ''grant'', af_correlation_id = None\<rparr>"
  let ?t = "snd (grant_access 4 1 root_admin sample_world)"
  obtain resp where "grant_access 4 1 root_admin sample_world = (Inr resp, ?t)"
    using sample_grant by (blast elim: returnedE)
  then have change: "access_changed ''grant'' 4 1 root_admin sample_world ?t" by (auto simp: access_changed_def)
  have "returned (list_audit_events ?f root_admin sample_world)" by code_simp
  then obtain before s' where "list_audit_events ?f root_admin sample_world = (Inr before, s')" by (auto elim: returnedE)
  from audit_listing_accounts_for_changes [OF change sample_wf(3) this] obtain after t' entry where
    a: "list_audit_events ?f root_admin ?t = (Inr after, t')" "er_target_user_id entry = 4" "er_entitlement_id entry = 1"
    and m: "mset (filter (\<lambda>x. er_action x = ''grant'') after) =
      mset (filter (\<lambda>x. er_action x = ''grant'') before) + {#entry#}" by auto
  from m have "entry \<in># mset (filter (\<lambda>x. er_action x = ''grant'') after)" by simp
  then have "entry \<in> set after" by simp
  with a show ?thesis by blast
qed

end
