(* ===== verification/Governance.thy ===== *)
theory Governance
  imports Http Listing Sample
begin

text \<open>
  Access certification, \<open>app/governance\<close>: campaigns, their review items and decisions
  (\<open>services.py\<close>), the campaign life cycle (\<open>validation.py\<close>) and the routes
  (\<open>routes.py\<close>).  A campaign object that a service has looked up is a value of the model; the
  service writes it back at each \<open>flush\<close>.
\<close>

section \<open>The life cycle\<close>

fun VALID_CAMPAIGN_TRANSITIONS :: "campaign_status \<Rightarrow> campaign_status list" where
  "VALID_CAMPAIGN_TRANSITIONS Campaign_DRAFT = [Campaign_ACTIVE, Campaign_CANCELLED]"
| "VALID_CAMPAIGN_TRANSITIONS Campaign_ACTIVE = [Campaign_COMPLETED, Campaign_CANCELLED]"
| "VALID_CAMPAIGN_TRANSITIONS Campaign_COMPLETED = []"
| "VALID_CAMPAIGN_TRANSITIONS Campaign_CANCELLED = []"

definition validate_campaign_transition :: "string \<Rightarrow> campaign_status \<Rightarrow> exn + unit" where
  "validate_campaign_transition current_status next_status =
     (case parse_enum campaign_status_members campaign_status_value current_status of
        None \<Rightarrow> Inl (ValueError (''Unknown campaign status: '' @ current_status))
      | Some current \<Rightarrow>
          if next_status \<notin> set (VALID_CAMPAIGN_TRANSITIONS current)
          then Inl (ValueError (''Cannot transition campaign from '' @ campaign_status_value current @
                 '' to '' @ campaign_status_value next_status))
          else Inr ())"

text \<open>\<open>CampaignService._validate_transition\<close> turns a \<open>ValueError\<close> into its own error.\<close>

definition validate_transition :: "certification_campaign \<Rightarrow> campaign_status \<Rightarrow> unit wop" where
  "validate_transition campaign next_status =
     (case validate_campaign_transition (cc_status campaign) next_status of
        Inl e \<Rightarrow> raise (GovernanceExn (InvalidCampaignTransitionError (exn_message e)))
      | Inr _ \<Rightarrow> ret ())"

section \<open>Shared helpers\<close>

definition ACTION_CAMPAIGN_CREATED :: string where "ACTION_CAMPAIGN_CREATED = ''certification_campaign_created''"
definition ACTION_CAMPAIGN_STARTED :: string where "ACTION_CAMPAIGN_STARTED = ''certification_campaign_started''"
definition ACTION_CAMPAIGN_CANCELLED :: string where
  "ACTION_CAMPAIGN_CANCELLED = ''certification_campaign_cancelled''"
definition ACTION_CAMPAIGN_COMPLETED :: string where
  "ACTION_CAMPAIGN_COMPLETED = ''certification_campaign_completed''"
definition ACTION_REVIEW_APPROVED :: string where "ACTION_REVIEW_APPROVED = ''certification_review_approved''"
definition ACTION_REVIEW_REVOKED :: string where "ACTION_REVIEW_REVOKED = ''certification_review_revoked''"
definition ACTION_REVIEW_ABSTAINED :: string where "ACTION_REVIEW_ABSTAINED = ''certification_review_abstained''"
definition ACTION_DECISION_UPDATED :: string where "ACTION_DECISION_UPDATED = ''certification_decision_updated''"

fun decision_audit_action :: "certification_decision_value \<Rightarrow> string" where
  "decision_audit_action APPROVE = ACTION_REVIEW_APPROVED"
| "decision_audit_action REVOKE = ACTION_REVIEW_REVOKED"
| "decision_audit_action ABSTAIN = ACTION_REVIEW_ABSTAINED"

definition normalize_optional_text :: "string option \<Rightarrow> string option" where
  "normalize_optional_text text =
     (case text of None \<Rightarrow> None | Some t \<Rightarrow> if strip t = '''' then None else Some (strip t))"

definition get_governance_audit_entitlement :: "entitlement wop" where
  "get_governance_audit_entitlement =
     and_then (query (\<lambda>d. find (\<lambda>e. ent_slug e = ''access-review-certification'' \<and>
        (\<exists>p \<in> set (db_applications d). app_id p = ent_application_id e \<and> app_slug p = ''governance''))
        (db_entitlements d))) (\<lambda>found.
     from_option (RuntimeError ''Governance audit entitlement is not seeded'') found)"

definition record_governance_audit ::
  "user \<Rightarrow> int \<Rightarrow> string \<Rightarrow> string \<Rightarrow> string \<Rightarrow> unit wop" where
  "record_governance_audit actor target_user_id action result reason =
     and_then get_governance_audit_entitlement (\<lambda>entitlement.
     and_then (create_audit_event (u_id actor) target_user_id action (ent_application_id entitlement)
       (ent_id entitlement) result reason None) (\<lambda>_.
     ret ()))"

definition count_campaign :: "certification_campaign \<Rightarrow> string option \<Rightarrow> (world, 'e, unit) op" where
  "count_campaign campaign description =
     metric_increment ''accessiq_review_campaigns_total'' 1
       (Some [(''status'', Some (cc_status campaign))]) description"

definition save_campaign :: "certification_campaign \<Rightarrow> (world, 'e, unit) op" where
  "save_campaign campaign = update_db (\<lambda>d. d\<lparr>db_campaigns := put_row cc_id campaign (db_campaigns d)\<rparr>)"

definition save_item :: "certification_review_item \<Rightarrow> (world, 'e, unit) op" where
  "save_item item = update_db (\<lambda>d. d\<lparr>db_items := put_row ri_id item (db_items d)\<rparr>)"

definition save_decision :: "certification_decision \<Rightarrow> (world, 'e, unit) op" where
  "save_decision decision = update_db (\<lambda>d. d\<lparr>db_decisions := put_row cd_id decision (db_decisions d)\<rparr>)"

section \<open>Counts\<close>

definition items_of :: "int \<Rightarrow> certification_review_item list \<Rightarrow> certification_review_item list" where
  "items_of campaign_id items = filter (\<lambda>i. ri_campaign_id i = campaign_id) items"

definition count_items :: "int \<Rightarrow> certification_review_item list \<Rightarrow> nat" where
  "count_items campaign_id items = length (items_of campaign_id items)"

definition count_completed :: "int \<Rightarrow> certification_review_item list \<Rightarrow> nat" where
  "count_completed campaign_id items =
     length (filter (\<lambda>i. ri_status i = review_item_status_value Item_COMPLETED) (items_of campaign_id items))"

definition count_decisions :: "int \<Rightarrow> certification_decision_value \<Rightarrow> certification_decision list \<Rightarrow> nat" where
  "count_decisions campaign_id v decisions =
     length (filter (\<lambda>c. cd_campaign_id c = campaign_id \<and>
       cd_decision c = certification_decision_value_value v) decisions)"

definition recounted :: "db \<Rightarrow> certification_campaign \<Rightarrow> certification_campaign" where
  "recounted d c = c\<lparr>cc_total_items := count_items (cc_id c) (db_items d),
     cc_completed_items := count_completed (cc_id c) (db_items d),
     cc_approval_count := count_decisions (cc_id c) APPROVE (db_decisions d),
     cc_revocation_count := count_decisions (cc_id c) REVOKE (db_decisions d),
     cc_abstain_count := count_decisions (cc_id c) ABSTAIN (db_decisions d)\<rparr>"

definition recalculate_campaign_counts :: "certification_campaign \<Rightarrow> certification_campaign wop" where
  "recalculate_campaign_counts campaign =
     and_then (query (\<lambda>d. recounted d campaign)) (\<lambda>campaign.
     and_then (save_campaign campaign) (\<lambda>_.
     ret campaign))"

section \<open>Campaigns\<close>

definition lookup_campaign :: "int \<Rightarrow> certification_campaign wop" where
  "lookup_campaign campaign_id =
     and_then (query (\<lambda>d. row_by cc_id campaign_id (db_campaigns d))) (\<lambda>found.
     from_option (GovernanceExn (CampaignNotFoundError campaign_id)) found)"

definition check_duplicate_campaign_name :: "string \<Rightarrow> unit wop" where
  "check_duplicate_campaign_name name =
     and_then (query (\<lambda>d. \<exists>c \<in> set (db_campaigns d). lower (cc_name c) = lower (strip name))) (\<lambda>existing.
     guard (\<not> existing) (GovernanceExn (DuplicateCampaignNameError name)))"

definition create_campaign :: "string \<Rightarrow> string option \<Rightarrow> int \<Rightarrow> user \<Rightarrow> certification_campaign wop" where
  "create_campaign name description reviewer_id actor =
     and_then (check_duplicate_campaign_name name) (\<lambda>_.
     and_then (query (\<lambda>d. row_by u_id reviewer_id (db_users d))) (\<lambda>found.
     and_then (from_option (GovernanceExn (MissingReviewerError reviewer_id)) found) (\<lambda>reviewer.
     and_then utc_now (\<lambda>now.
     and_then (query db_campaigns) (\<lambda>rows.
     and_then (new_key (map cc_id rows)) (\<lambda>key.
     let campaign = \<lparr>cc_id = key, cc_name = strip name,
           cc_description = normalize_optional_text description,
           cc_status = campaign_status_value Campaign_DRAFT, cc_created_by = u_id actor,
           cc_default_reviewer_id = u_id reviewer, cc_created_at = now, cc_started_at = None,
           cc_completed_at = None, cc_cancelled_at = None, cc_total_items = 0, cc_completed_items = 0,
           cc_approval_count = 0, cc_revocation_count = 0, cc_abstain_count = 0\<rparr>
     in and_then (block [
       unique_constraint (cc_name campaign \<notin> cc_name ` set rows),
       update_db (\<lambda>d. d\<lparr>db_campaigns := db_campaigns d @ [campaign]\<rparr>),
       record_governance_audit actor (u_id actor) ACTION_CAMPAIGN_CREATED ''succeeded''
         (''Certification campaign '' @ str_int (cc_id campaign) @ '' created''),
       append_pending (GovernanceEvent (CertificationCampaignCreated (cc_id campaign) (cc_name campaign))),
       count_campaign campaign (Some ''Access review campaigns grouped by lifecycle status.'')]) (\<lambda>_.
     ret campaign)))))))"

text \<open>
  The items of a campaign: first one object per access assignment, in the order of their ids,
  then one \<open>flush\<close> that inserts them.
\<close>

definition draft_item ::
  "certification_campaign \<Rightarrow> access_assignment \<Rightarrow> (int \<Rightarrow> int \<Rightarrow> certification_review_item) wop" where
  "draft_item campaign assignment =
     and_then (query (\<lambda>d. row_by ent_id (aa_entitlement_id assignment) (db_entitlements d))) (\<lambda>found.
     and_then (from_option (AttributeError ''NoneType object has no attribute application_id'') found) (\<lambda>entitlement.
     ret (\<lambda>key now. \<lparr>ri_id = key, ri_campaign_id = cc_id campaign,
       ri_access_assignment_id = aa_id assignment, ri_user_id = aa_user_id assignment,
       ri_application_id = ent_application_id entitlement,
       ri_entitlement_id = aa_entitlement_id assignment, ri_group_id = None,
       ri_reviewer_id = cc_default_reviewer_id campaign,
       ri_status = review_item_status_value Item_PENDING, ri_reviewed_at = None, ri_created_at = now\<rparr>)))"

definition ri_unique_key :: "certification_review_item \<Rightarrow> int \<times> int" where
  "ri_unique_key i = (ri_campaign_id i, ri_access_assignment_id i)"

definition insert_item :: "(int \<Rightarrow> int \<Rightarrow> certification_review_item) \<Rightarrow> certification_review_item wop" where
  "insert_item draft =
     and_then utc_now (\<lambda>now.
     and_then (query db_items) (\<lambda>rows.
     and_then (new_key (map ri_id rows)) (\<lambda>key.
     let item = draft key now in
     and_then (unique_constraint (ri_unique_key item \<notin> ri_unique_key ` set rows)) (\<lambda>_.
     and_then (update_db (\<lambda>d. d\<lparr>db_items := db_items d @ [item]\<rparr>)) (\<lambda>_.
     ret item)))))"

definition generate_review_items ::
  "certification_campaign \<Rightarrow> (certification_campaign \<times> certification_review_item list) wop" where
  "generate_review_items campaign =
     and_then (query (\<lambda>d. items_of (cc_id campaign) (db_items d))) (\<lambda>existing.
     if existing \<noteq> [] then ret (campaign, existing)
     else
     and_then (query (\<lambda>d. sort_key aa_id (db_access d))) (\<lambda>assignments.
     and_then (for_each assignments (draft_item campaign)) (\<lambda>drafts.
     and_then (for_each drafts insert_item) (\<lambda>items.
     and_then (recalculate_campaign_counts campaign) (\<lambda>campaign.
     ret (campaign, items))))))"

definition start_campaign :: "int \<Rightarrow> user \<Rightarrow> certification_campaign wop" where
  "start_campaign campaign_id actor =
     and_then (lookup_campaign campaign_id) (\<lambda>campaign.
     and_then (validate_transition campaign Campaign_ACTIVE) (\<lambda>_.
     and_then (generate_review_items campaign) (\<lambda>(campaign, items).
     and_then utc_now (\<lambda>now.
     let campaign = campaign\<lparr>cc_status := campaign_status_value Campaign_ACTIVE, cc_started_at := Some now\<rparr>;
         labels = [(''campaign_id'', Some (str_int (cc_id campaign))), (''status'', Some (cc_status campaign))]
     in and_then (block [
       save_campaign campaign,
       record_governance_audit actor (u_id actor) ACTION_CAMPAIGN_STARTED ''succeeded''
         (''Certification campaign '' @ str_int (cc_id campaign) @ '' started with '' @
          str_int (int (cc_total_items campaign)) @ '' review items''),
       append_pending (GovernanceEvent (CertificationCampaignStarted (cc_id campaign)
         (int (cc_total_items campaign)))),
       count_campaign campaign None,
       metric_set_gauge ''accessiq_review_campaign_items'' (int (cc_total_items campaign)) (Some labels)
         (Some ''Current review item count for a campaign.'')]) (\<lambda>_.
     ret campaign)))))"

definition complete_campaign :: "int \<Rightarrow> user \<Rightarrow> certification_campaign wop" where
  "complete_campaign campaign_id actor =
     and_then (lookup_campaign campaign_id) (\<lambda>campaign.
     and_then (validate_transition campaign Campaign_COMPLETED) (\<lambda>_.
     and_then (recalculate_campaign_counts campaign) (\<lambda>campaign.
     and_then (guard (\<not> cc_completed_items campaign < cc_total_items campaign)
       (GovernanceExn (IncompleteCampaignError campaign))) (\<lambda>_.
     and_then utc_now (\<lambda>now.
     let campaign = campaign\<lparr>cc_status := campaign_status_value Campaign_COMPLETED,
                             cc_completed_at := Some now\<rparr>
     in and_then (block [
       save_campaign campaign,
       record_governance_audit actor (u_id actor) ACTION_CAMPAIGN_COMPLETED ''succeeded''
         (''Certification campaign '' @ str_int (cc_id campaign) @ '' completed''),
       append_pending (GovernanceEvent (CertificationCampaignCompleted (cc_id campaign)
         (int (cc_approval_count campaign)) (int (cc_revocation_count campaign))
         (int (cc_abstain_count campaign)))),
       count_campaign campaign None]) (\<lambda>_.
     ret campaign))))))"

definition cancel_campaign :: "int \<Rightarrow> user \<Rightarrow> certification_campaign wop" where
  "cancel_campaign campaign_id actor =
     and_then (lookup_campaign campaign_id) (\<lambda>campaign.
     and_then (validate_transition campaign Campaign_CANCELLED) (\<lambda>_.
     and_then utc_now (\<lambda>now.
     let campaign = campaign\<lparr>cc_status := campaign_status_value Campaign_CANCELLED,
                             cc_cancelled_at := Some now\<rparr>
     in and_then (block [
       save_campaign campaign,
       record_governance_audit actor (u_id actor) ACTION_CAMPAIGN_CANCELLED ''succeeded''
         (''Certification campaign '' @ str_int (cc_id campaign) @ '' cancelled''),
       append_pending (GovernanceEvent (CertificationCampaignCancelled (cc_id campaign))),
       count_campaign campaign None]) (\<lambda>_.
     ret campaign))))"

definition summarize_campaign :: "int \<Rightarrow> certification_campaign wop" where
  "summarize_campaign campaign_id =
     and_then (lookup_campaign campaign_id) (\<lambda>campaign. recalculate_campaign_counts campaign)"

section \<open>Decisions\<close>

definition lookup_review_item :: "int \<Rightarrow> certification_review_item wop" where
  "lookup_review_item item_id =
     and_then (query (\<lambda>d. row_by ri_id item_id (db_items d))) (\<lambda>found.
     from_option (GovernanceExn (ReviewItemNotFoundError item_id)) found)"

text \<open>The relationships \<open>item.campaign\<close> and \<open>item.decision_record\<close>.\<close>

definition campaign_of_item :: "certification_review_item \<Rightarrow> certification_campaign wop" where
  "campaign_of_item item =
     and_then (query (\<lambda>d. row_by cc_id (ri_campaign_id item) (db_campaigns d))) (\<lambda>found.
     from_option (AttributeError ''NoneType object has no attribute status'') found)"

definition decision_of :: "int \<Rightarrow> certification_decision list \<Rightarrow> certification_decision option" where
  "decision_of item_id decisions = find (\<lambda>c. cd_review_item_id c = item_id) decisions"

definition decision_value_of :: "string \<Rightarrow> exn + certification_decision_value" where
  "decision_value_of text =
     (case parse_enum certification_decision_value_members certification_decision_value_value text of
        None \<Rightarrow> Inl (ValueError (str_repr text @ '' is not a valid CertificationDecisionValue''))
      | Some v \<Rightarrow> Inr v)"

text \<open>
  The two branches of \<open>record_decision\<close>: a first decision, and a change of an earlier one.
  Each returns the decision object to be flushed with the item (a new object gets its key and
  its time stamps at the flush), and the audit action and reason.
\<close>

datatype unflushed_decision = AddDecision certification_decision | ChangeDecision certification_decision

fun flush_decision :: "unflushed_decision \<Rightarrow> unit wop" where
  "flush_decision (AddDecision x) =
     and_then utc_now (\<lambda>created_at.
     and_then utc_now (\<lambda>updated_at.
     and_then (query db_decisions) (\<lambda>rows.
     and_then (new_key (map cd_id rows)) (\<lambda>key.
     and_then (unique_constraint (cd_review_item_id x \<notin> cd_review_item_id ` set rows)) (\<lambda>_.
     update_db (\<lambda>d. d\<lparr>db_decisions := db_decisions d @
       [x\<lparr>cd_id := key, cd_created_at := created_at, cd_updated_at := updated_at\<rparr>]\<rparr>))))))"
| "flush_decision (ChangeDecision x) = save_decision x"

definition first_decision ::
  "certification_campaign \<Rightarrow> certification_review_item \<Rightarrow> certification_decision_value \<Rightarrow> string option \<Rightarrow> user \<Rightarrow>
   (unflushed_decision \<times> string \<times> string) wop" where
  "first_decision campaign item decision comments actor =
     and_then (append_pending (GovernanceEvent (CertificationDecisionRecorded (cc_id campaign) (ri_id item)
       (u_id actor) (ri_user_id item) (ri_entitlement_id item) (certification_decision_value_value decision)))) (\<lambda>_.
     ret (AddDecision \<lparr>cd_id = 0, cd_campaign_id = cc_id campaign, cd_review_item_id = ri_id item,
            cd_reviewer_id = u_id actor, cd_decision = certification_decision_value_value decision,
            cd_comments = comments, cd_created_at = 0, cd_updated_at = 0\<rparr>,
          decision_audit_action decision,
          ''Review item '' @ str_int (ri_id item) @ '' recorded as '' @
          certification_decision_value_value decision))"

definition changed_decision ::
  "certification_campaign \<Rightarrow> certification_review_item \<Rightarrow> certification_decision \<Rightarrow> certification_decision_value \<Rightarrow>
   string option \<Rightarrow> user \<Rightarrow> int \<Rightarrow> (unflushed_decision \<times> string \<times> string) wop" where
  "changed_decision campaign item existing decision comments actor now =
     and_then (lift_sum (decision_value_of (cd_decision existing))) (\<lambda>previous.
     and_then (append_pending (GovernanceEvent (CertificationDecisionUpdated (cc_id campaign) (ri_id item)
       (u_id actor) (ri_user_id item) (ri_entitlement_id item)
       (Some (certification_decision_value_value previous)) (certification_decision_value_value decision)))) (\<lambda>_.
     ret (ChangeDecision (existing\<lparr>cd_reviewer_id := u_id actor,
            cd_decision := certification_decision_value_value decision,
            cd_comments := comments, cd_updated_at := now\<rparr>),
          ACTION_DECISION_UPDATED,
          ''Review item '' @ str_int (ri_id item) @ '' updated from '' @
          certification_decision_value_value previous @ '' to '' @ certification_decision_value_value decision)))"

definition decide_item ::
  "certification_campaign \<Rightarrow> certification_review_item \<Rightarrow> certification_decision_value \<Rightarrow> string option \<Rightarrow> user \<Rightarrow>
   int \<Rightarrow> (unflushed_decision \<times> string \<times> string) wop" where
  "decide_item campaign item decision comments actor now =
     and_then (query (\<lambda>d. decision_of (ri_id item) (db_decisions d))) (\<lambda>existing.
     case existing of
       None \<Rightarrow> first_decision campaign item decision (normalize_optional_text comments) actor
     | Some c \<Rightarrow> changed_decision campaign item c decision (normalize_optional_text comments) actor now)"

definition finish_decision ::
  "certification_campaign \<Rightarrow> certification_review_item \<Rightarrow> int \<Rightarrow> certification_decision_value \<Rightarrow> user \<Rightarrow> string \<Rightarrow>
   string \<Rightarrow> certification_review_item wop" where
  "finish_decision campaign item item_id decision actor audit_action audit_reason =
     and_then (recalculate_campaign_counts campaign) (\<lambda>_.
     and_then (create_audit_event (u_id actor) (ri_user_id item) audit_action (ri_application_id item)
       (ri_entitlement_id item) ''succeeded'' audit_reason None) (\<lambda>_.
     and_then (block [
       metric_increment ''review_decisions_total'' 1 None None,
       metric_increment ''accessiq_review_decisions_total'' 1
         (Some [(''decision'', Some (certification_decision_value_value decision))])
         (Some ''Access review decisions grouped by decision value.'')]) (\<lambda>_.
     lookup_review_item item_id)))"

definition record_decision ::
  "int \<Rightarrow> certification_decision_value \<Rightarrow> string option \<Rightarrow> user \<Rightarrow> certification_review_item wop" where
  "record_decision item_id decision comments actor =
     and_then (lookup_review_item item_id) (\<lambda>item.
     and_then (campaign_of_item item) (\<lambda>campaign.
     and_then (guard (cc_status campaign = campaign_status_value Campaign_ACTIVE)
       (GovernanceExn (InvalidCampaignTransitionError
          ''Decisions can only be recorded for active campaigns''))) (\<lambda>_.
     and_then utc_now (\<lambda>now.
     and_then (decide_item campaign item decision comments actor now)
       (\<lambda>(pending, audit_action, audit_reason).
     let item = item\<lparr>ri_status := review_item_status_value Item_COMPLETED, ri_reviewer_id := u_id actor,
                     ri_reviewed_at := Some now\<rparr>
     in and_then (flush_decision pending) (\<lambda>_.
     and_then (save_item item) (\<lambda>_.
     finish_decision campaign item item_id decision actor audit_action audit_reason)))))))"

section \<open>Listing\<close>

record campaign_filters =
  cf_status :: "string option"
  cf_created_by :: "int option"
  cf_reviewer_id :: "int option"

record review_item_filters =
  rf_status :: "string option"
  rf_reviewer_id :: "int option"
  rf_decision :: "string option"

definition campaign_sort_fields :: "(string \<times> (certification_campaign \<Rightarrow> sort_value)) list" where
  "campaign_sort_fields =
     [(''id'', \<lambda>c. SInt (cc_id c)), (''name'', \<lambda>c. SStr (lower (cc_name c))),
      (''status'', \<lambda>c. SStr (cc_status c)), (''created_at'', \<lambda>c. SInt (cc_created_at c)),
      (''started_at'', \<lambda>c. SOptInt (cc_started_at c)), (''completed_at'', \<lambda>c. SOptInt (cc_completed_at c))]"

definition review_item_sort_fields :: "(string \<times> (certification_review_item \<Rightarrow> sort_value)) list" where
  "review_item_sort_fields =
     [(''id'', \<lambda>i. SInt (ri_id i)), (''status'', \<lambda>i. SStr (ri_status i)),
      (''created_at'', \<lambda>i. SInt (ri_created_at i)), (''reviewed_at'', \<lambda>i. SOptInt (ri_reviewed_at i)),
      (''user_id'', \<lambda>i. SInt (ri_user_id i)), (''application_id'', \<lambda>i. SInt (ri_application_id i))]"

text \<open>
  The statement orders by one key alone: \<open>tie\<close> is the order in which the database returns
  rows that agree in it.
\<close>

definition governance_sorting ::
  "(string \<times> ('r \<Rightarrow> sort_value)) list \<Rightarrow> ('r \<Rightarrow> int) \<Rightarrow> string \<Rightarrow> string \<Rightarrow> exn + ('r list \<Rightarrow> 'r list)" where
  "governance_sorting sort_fields tie sort_by sort_order =
     (if sort_order \<notin> set SUPPORTED_SORT_ORDERS
      then Inl (GovernanceExn (UnsupportedGovernanceSortOrderError sort_order))
      else case map_of sort_fields sort_by of
             None \<Rightarrow> Inl (GovernanceExn (UnsupportedGovernanceSortFieldError sort_by))
           | Some key \<Rightarrow> Inr (order_rows key tie (sort_order = ''descending'')))"

definition or_default :: "string \<Rightarrow> string option \<Rightarrow> string" where
  "or_default dflt text = (case text of None \<Rightarrow> dflt | Some t \<Rightarrow> if t = '''' then dflt else t)"

definition matches_campaign_filters :: "campaign_filters \<Rightarrow> certification_campaign \<Rightarrow> bool" where
  "matches_campaign_filters f c \<longleftrightarrow> wanted (cf_status f) (cc_status c) \<and>
     wanted (cf_created_by f) (cc_created_by c) \<and> wanted (cf_reviewer_id f) (cc_default_reviewer_id c)"

definition list_campaigns ::
  "(certification_campaign \<Rightarrow> int) \<Rightarrow> campaign_filters \<Rightarrow> nat \<Rightarrow> nat \<Rightarrow> string option \<Rightarrow> string \<Rightarrow>
   certification_campaign list wop" where
  "list_campaigns tie filters offset limit sort_by sort_order =
     and_then (lift_sum (governance_sorting campaign_sort_fields tie (or_default ''created_at'' sort_by) sort_order)) (\<lambda>order.
     query (\<lambda>d. page offset limit (order (filter (matches_campaign_filters filters) (db_campaigns d)))))"

definition matches_item_filters ::
  "review_item_filters \<Rightarrow> certification_decision list \<Rightarrow> certification_review_item \<Rightarrow> bool" where
  "matches_item_filters f decisions i \<longleftrightarrow> wanted (rf_status f) (ri_status i) \<and>
     wanted (rf_reviewer_id f) (ri_reviewer_id i) \<and>
     (case rf_decision f of None \<Rightarrow> True
      | Some v \<Rightarrow> \<exists>c \<in> set decisions. cd_review_item_id c = ri_id i \<and> cd_decision c = v)"

definition list_review_items ::
  "(certification_review_item \<Rightarrow> int) \<Rightarrow> int \<Rightarrow> review_item_filters \<Rightarrow> nat \<Rightarrow> nat \<Rightarrow> string option \<Rightarrow> string \<Rightarrow>
   certification_review_item list wop" where
  "list_review_items tie campaign_id filters offset limit sort_by sort_order =
     and_then (lookup_campaign campaign_id) (\<lambda>_.
     and_then (lift_sum (governance_sorting review_item_sort_fields tie (or_default ''id'' sort_by) sort_order)) (\<lambda>order.
     query (\<lambda>d. page offset limit (order (filter (matches_item_filters filters (db_decisions d))
       (items_of campaign_id (db_items d)))))))"

section \<open>Routes\<close>

fun governance_http_error :: "exn \<Rightarrow> http_error" where
  "governance_http_error (GovernanceExn e) =
     (case e of
        DuplicateCampaignNameError _ \<Rightarrow> HTTPException 409 ''Certification campaign already exists''
      | CampaignNotFoundError _ \<Rightarrow> HTTPException 404 (governance_message e)
      | ReviewItemNotFoundError _ \<Rightarrow> HTTPException 404 (governance_message e)
      | MissingReviewerError _ \<Rightarrow> HTTPException 404 ''Reviewer not found''
      | InvalidCampaignTransitionError _ \<Rightarrow> HTTPException 409 (governance_message e)
      | IncompleteCampaignError _ \<Rightarrow> HTTPException 409 (governance_message e)
      | UnsupportedGovernanceSortFieldError _ \<Rightarrow> HTTPException 400 (governance_message e)
      | UnsupportedGovernanceSortOrderError _ \<Rightarrow> HTTPException 400 (governance_message e))"
| "governance_http_error (IntegrityError _) = database_error"
| "governance_http_error _ = internal_server_error"

definition GOVERNANCE_READ_ROLES :: "string list" where
  "GOVERNANCE_READ_ROLES = [''security_admin'', ''iam_admin'', ''auditor'']"

definition GOVERNANCE_WRITE_ROLES :: "string list" where
  "GOVERNANCE_WRITE_ROLES = [''security_admin'', ''iam_admin'']"

definition create_campaign_route ::
  "string \<Rightarrow> string option \<Rightarrow> int \<Rightarrow> user \<Rightarrow> (world, http_error, certification_campaign) op" where
  "create_campaign_route name description reviewer_id current_user =
     mutating_route GOVERNANCE_WRITE_ROLES current_user governance_http_error
       (create_campaign name description reviewer_id current_user)"

definition start_campaign_route :: "int \<Rightarrow> user \<Rightarrow> (world, http_error, certification_campaign) op" where
  "start_campaign_route campaign_id current_user =
     mutating_route GOVERNANCE_WRITE_ROLES current_user governance_http_error
       (start_campaign campaign_id current_user)"

definition cancel_campaign_route :: "int \<Rightarrow> user \<Rightarrow> (world, http_error, certification_campaign) op" where
  "cancel_campaign_route campaign_id current_user =
     mutating_route GOVERNANCE_WRITE_ROLES current_user governance_http_error
       (cancel_campaign campaign_id current_user)"

definition complete_campaign_route :: "int \<Rightarrow> user \<Rightarrow> (world, http_error, certification_campaign) op" where
  "complete_campaign_route campaign_id current_user =
     mutating_route GOVERNANCE_WRITE_ROLES current_user governance_http_error
       (complete_campaign campaign_id current_user)"

definition record_decision_route ::
  "int \<Rightarrow> certification_decision_value \<Rightarrow> string option \<Rightarrow> user \<Rightarrow>
   (world, http_error, certification_review_item) op" where
  "record_decision_route item_id decision comments current_user =
     mutating_route GOVERNANCE_READ_ROLES current_user governance_http_error
       (record_decision item_id decision comments current_user)"

text \<open>
  \<open>round(completed / total * 100, 2)\<close>, in hundredths of a percent; the quotient is taken
  exactly, ties go to the even neighbour.
\<close>

definition round_half_even :: "nat \<Rightarrow> nat \<Rightarrow> nat" where
  "round_half_even a b =
     (let q = a div b; r = a mod b in if 2 * r < b \<or> (2 * r = b \<and> even q) then q else q + 1)"

definition campaign_completion_percentage :: "certification_campaign \<Rightarrow> nat" where
  "campaign_completion_percentage campaign =
     (if cc_total_items campaign = 0 then 0
      else round_half_even (10000 * cc_completed_items campaign) (cc_total_items campaign))"

record campaign_summary =
  cs_campaign_id :: int
  cs_status :: string
  cs_total_items :: nat
  cs_pending_items :: int
  cs_completed_items :: nat
  cs_approval_count :: nat
  cs_revocation_count :: nat
  cs_abstain_count :: nat
  cs_completion_percentage :: nat

definition campaign_to_summary_response :: "certification_campaign \<Rightarrow> exn + campaign_summary" where
  "campaign_to_summary_response campaign =
     (case parse_enum campaign_status_members campaign_status_value (cc_status campaign) of
        None \<Rightarrow> Inl (ValueError (str_repr (cc_status campaign) @ '' is not a valid CampaignStatus''))
      | Some status \<Rightarrow> Inr \<lparr>cs_campaign_id = cc_id campaign, cs_status = campaign_status_value status,
          cs_total_items = cc_total_items campaign,
          cs_pending_items = int (cc_total_items campaign) - int (cc_completed_items campaign),
          cs_completed_items = cc_completed_items campaign,
          cs_approval_count = cc_approval_count campaign,
          cs_revocation_count = cc_revocation_count campaign,
          cs_abstain_count = cc_abstain_count campaign,
          cs_completion_percentage = campaign_completion_percentage campaign\<rparr>)"

definition get_campaign_summary_route :: "int \<Rightarrow> user \<Rightarrow> (world, http_error, campaign_summary) op" where
  "get_campaign_summary_route campaign_id current_user =
     reading_route GOVERNANCE_READ_ROLES current_user governance_http_error
       (and_then (summarize_campaign campaign_id) (\<lambda>campaign.
        lift_sum (campaign_to_summary_response campaign)))"

definition get_campaign_route :: "int \<Rightarrow> user \<Rightarrow> (world, http_error, certification_campaign) op" where
  "get_campaign_route campaign_id current_user =
     reading_route GOVERNANCE_READ_ROLES current_user governance_http_error (lookup_campaign campaign_id)"

definition get_review_item_route :: "int \<Rightarrow> user \<Rightarrow> (world, http_error, certification_review_item) op" where
  "get_review_item_route item_id current_user =
     reading_route GOVERNANCE_READ_ROLES current_user governance_http_error (lookup_review_item item_id)"

definition list_campaigns_route ::
  "(certification_campaign \<Rightarrow> int) \<Rightarrow> campaign_filters \<Rightarrow> nat \<Rightarrow> nat \<Rightarrow> string option \<Rightarrow> string \<Rightarrow> user \<Rightarrow>
   (world, http_error, certification_campaign list) op" where
  "list_campaigns_route tie filters start_index how_many sort_by sort_order current_user =
     reading_route GOVERNANCE_READ_ROLES current_user governance_http_error
       (list_campaigns tie filters (start_index - 1) how_many sort_by sort_order)"

definition list_review_items_route ::
  "(certification_review_item \<Rightarrow> int) \<Rightarrow> int \<Rightarrow> review_item_filters \<Rightarrow> nat \<Rightarrow> nat \<Rightarrow> string option \<Rightarrow> string \<Rightarrow> user \<Rightarrow>
   (world, http_error, certification_review_item list) op" where
  "list_review_items_route tie campaign_id filters start_index how_many sort_by sort_order current_user =
     reading_route GOVERNANCE_READ_ROLES current_user governance_http_error
       (list_review_items tie campaign_id filters (start_index - 1) how_many sort_by sort_order)"

section \<open>What the operations do\<close>

lemma run_record_governance_audit:
  "record_governance_audit actor u ac rs rn s = (r, t) \<Longrightarrow> r = Inr v \<Longrightarrow>
   \<exists>ev. t = audit_post ev s \<and> ae_requester_id ev = u_id actor \<and> ae_target_user_id ev = u \<and> ae_action ev = ac"
  by (auto simp: record_governance_audit_def get_governance_audit_entitlement_def run_ops from_option_def
      split: option.splits)

lemma record_governance_audit_okE:
  assumes "record_governance_audit actor u ac rs rn s = (Inr v, t)"
  obtains ev where "t = audit_post ev s" "ae_requester_id ev = u_id actor" "ae_target_user_id ev = u" "ae_action ev = ac"
  using run_record_governance_audit [OF assms refl] by blast

text \<open>The tables of access certification.\<close>

definition gov :: "db \<Rightarrow> certification_campaign list \<times> certification_review_item list \<times> certification_decision list" where
  "gov d = (db_campaigns d, db_items d, db_decisions d)"

lemma recalculate_run:
  "recalculate_campaign_counts c s = (Inr (recounted (w_db s) c),
     s\<lparr>w_db := (w_db s)\<lparr>db_campaigns := put_row cc_id (recounted (w_db s) c) (db_campaigns (w_db s))\<rparr>\<rparr>)"
  by (simp add: recalculate_campaign_counts_def save_campaign_def run_ops)

lemma validate_transition_okE:
  assumes "validate_transition c st s = (Inr v, t)"
  obtains current where "t = s" "cc_status c = campaign_status_value current"
    "st \<in> set (VALID_CAMPAIGN_TRANSITIONS current)"
  using assms by (auto simp: validate_transition_def validate_campaign_transition_def enum_parse_iff
      split: option.splits if_splits sum.splits)

lemma lookup_campaign_okE:
  assumes "lookup_campaign i s = (Inr c, t)"
  obtains "t = s" "row_by cc_id i (db_campaigns (w_db s)) = Some c"
  using assms by (auto simp: lookup_campaign_def elim!: and_then_okE from_option_okE)

lemmas gov_elims = and_then_okE from_option_okE guard_okE validate_transition_okE lookup_campaign_okE
  record_governance_audit_okE

lemmas gov_simps = gov_def Let_def save_campaign_def count_campaign_def metric_increment_def metric_set_gauge_def
  recalculate_run

lemma create_campaign_ok:
  assumes "create_campaign name description reviewer_id actor s = (Inr c, t)"
  shows "\<forall>c' \<in> set (db_campaigns (w_db s)). lower (cc_name c') \<noteq> lower (cc_name c)"
    and "gov (w_db t) = (db_campaigns (w_db s) @ [c], db_items (w_db s), db_decisions (w_db s))"
    and "cc_id c = env_key (w_env s) (map cc_id (db_campaigns (w_db s)))" "cc_name c = strip name"
    and "cc_status c = campaign_status_value Campaign_DRAFT" "cc_default_reviewer_id c = reviewer_id"
    and "cc_total_items c = 0" "cc_completed_items c = 0" "cc_approval_count c = 0" "cc_revocation_count c = 0"
        "cc_abstain_count c = 0"
  using assms
  by (auto simp: create_campaign_def check_duplicate_campaign_name_def gov_def run_ops Let_def from_option_def
      count_campaign_def metric_increment_def
      split: option.splits if_splits prod.splits sum.splits dest: row_by_Some elim!: record_governance_audit_okE)

lemma cancel_campaign_ok:
  assumes "cancel_campaign i actor s = (Inr c, t)"
  obtains c0 now where "row_by cc_id i (db_campaigns (w_db s)) = Some c0"
    "cc_status c0 \<in> campaign_status_value ` {Campaign_DRAFT, Campaign_ACTIVE}"
    "c = c0\<lparr>cc_status := campaign_status_value Campaign_CANCELLED, cc_cancelled_at := Some now\<rparr>"
    "gov (w_db t) = (put_row cc_id c (db_campaigns (w_db s)), db_items (w_db s), db_decisions (w_db s))"
proof -
  have "Campaign_CANCELLED \<in> set (VALID_CAMPAIGN_TRANSITIONS st) \<longleftrightarrow> st \<in> {Campaign_DRAFT, Campaign_ACTIVE}" for st
    by (cases st) auto
  with assms that show thesis
    unfolding cancel_campaign_def by (auto elim!: gov_elims simp: gov_simps)
qed

lemma complete_campaign_ok:
  assumes "complete_campaign i actor s = (Inr c, t)"
  obtains c0 now where "row_by cc_id i (db_campaigns (w_db s)) = Some c0"
    "cc_status c0 = campaign_status_value Campaign_ACTIVE"
    "c = (recounted (w_db s) c0)\<lparr>cc_status := campaign_status_value Campaign_COMPLETED, cc_completed_at := Some now\<rparr>"
    "cc_total_items c \<le> cc_completed_items c"
    "gov (w_db t) = (put_row cc_id c (db_campaigns (w_db s)), db_items (w_db s), db_decisions (w_db s))"
proof -
  have "Campaign_COMPLETED \<in> set (VALID_CAMPAIGN_TRANSITIONS st) \<longleftrightarrow> st = Campaign_ACTIVE" for st
    by (cases st) auto
  moreover have "put_row cc_id (recounted d c0\<lparr>cc_status := x, cc_completed_at := n\<rparr>) (put_row cc_id (recounted d c0) rows)
      = put_row cc_id (recounted d c0\<lparr>cc_status := x, cc_completed_at := n\<rparr>) rows" for d c0 x n rows
    by (auto simp: put_row_def recounted_def)
  ultimately show thesis
    using assms that unfolding complete_campaign_def by (auto elim!: gov_elims simp: gov_simps)
qed

text \<open>The review item of an access assignment.\<close>

definition item_for ::
  "certification_campaign \<Rightarrow> access_assignment \<Rightarrow> certification_review_item \<Rightarrow> bool" where
  "item_for c a i \<longleftrightarrow> ri_campaign_id i = cc_id c \<and> ri_access_assignment_id i = aa_id a \<and>
     ri_user_id i = aa_user_id a \<and> ri_entitlement_id i = aa_entitlement_id a \<and>
     ri_reviewer_id i = cc_default_reviewer_id c \<and> ri_status i = review_item_status_value Item_PENDING"

lemma draft_items_ok:
  "for_each as (draft_item c) s = (Inr fs, t) \<Longrightarrow>
   t = s \<and> list_all2 (\<lambda>a f. \<forall>k n. item_for c a (f k n) \<and> ri_id (f k n) = k) as fs"
proof (induction as arbitrary: fs s)
  case (Cons a as)
  from Cons.prems obtain f fs' s' where f: "draft_item c a s = (Inr f, s')"
    and r: "for_each as (draft_item c) s' = (Inr fs', t)" and fs: "fs = f # fs'"
    by (auto elim!: and_then_okE)
  have "s' = s" "\<forall>k n. item_for c a (f k n) \<and> ri_id (f k n) = k"
    using f by (auto simp: draft_item_def item_for_def elim!: gov_elims)
  with Cons.IH r fs show ?case by auto
qed simp

definition item_keys :: "certification_review_item list \<Rightarrow> bool" where
  "item_keys is \<longleftrightarrow> distinct (map ri_id is) \<and> distinct (map ri_unique_key is)"

lemma insert_items_ok:
  "for_each fs insert_item s = (Inr is, t) \<Longrightarrow> fresh_keys (w_env s) \<Longrightarrow>
   list_all2 (\<lambda>a f. \<forall>k n. item_for c a (f k n) \<and> ri_id (f k n) = k) as fs \<Longrightarrow>
   item_keys (db_items (w_db s)) \<Longrightarrow>
   list_all2 (item_for c) as is \<and> w_db t = (w_db s)\<lparr>db_items := db_items (w_db s) @ is\<rparr> \<and>
   item_keys (db_items (w_db s) @ is)"
proof (induction fs arbitrary: s "is" as)
  case (Cons f fs)
  from Cons.prems(1) obtain i is' s' where f: "insert_item f s = (Inr i, s')"
    and r: "for_each fs insert_item s' = (Inr is', t)" and i: "is = i # is'"
    by (auto elim!: and_then_okE)
  from Cons.prems(3) obtain a as' where a: "as = a # as'"
    "\<forall>k n. item_for c a (f k n) \<and> ri_id (f k n) = k"
    "list_all2 (\<lambda>a f. \<forall>k n. item_for c a (f k n) \<and> ri_id (f k n) = k) as' fs"
    by (cases as) auto
  from f fresh_keys_map [OF Cons.prems(2), of ri_id "db_items (w_db s)"] a(2) Cons.prems(4)
  have s': "w_db s' = (w_db s)\<lparr>db_items := db_items (w_db s) @ [i]\<rparr>" "w_env s' = w_env s"
    "item_keys (db_items (w_db s) @ [i])" "item_for c a i"
    by (auto simp: insert_item_def run_ops Let_def item_keys_def split: if_splits)
  from Cons.IH [OF r _ a(3)] Cons.prems(2,4) s' show ?case by (simp add: i a(1))
qed simp

lemma generate_items_ok:
  assumes "generate_review_items c0 s = (Inr (c1, new), s1)" and "items_of (cc_id c0) (db_items (w_db s)) = []"
    and "fresh_keys (w_env s)" and "item_keys (db_items (w_db s))"
  shows "list_all2 (item_for c0) (sort_key aa_id (db_access (w_db s))) new \<and>
    gov (w_db s1) = (put_row cc_id c1 (db_campaigns (w_db s)), db_items (w_db s) @ new, db_decisions (w_db s)) \<and>
    c1 = recounted ((w_db s)\<lparr>db_items := db_items (w_db s) @ new\<rparr>) c0 \<and>
    item_keys (db_items (w_db s) @ new)"
proof -
  from assms(1,2) obtain fs s2 s3 where
    d: "for_each (sort_key aa_id (db_access (w_db s))) (draft_item c0) s = (Inr fs, s2)"
    and ins: "for_each fs insert_item s2 = (Inr new, s3)"
    and re: "recalculate_campaign_counts c0 s3 = (Inr c1, s1)"
    by (auto simp: generate_review_items_def elim!: and_then_okE)
  from draft_items_ok [OF d] have s2: "s2 = s"
    and fs: "list_all2 (\<lambda>a f. \<forall>k n. item_for c0 a (f k n) \<and> ri_id (f k n) = k)
        (sort_key aa_id (db_access (w_db s))) fs" by auto
  from insert_items_ok [OF ins [unfolded s2] assms(3) fs assms(4)] re
  show ?thesis by (auto simp: recalculate_run gov_def)
qed

lemma put_row_put_row: "key r = key r' \<Longrightarrow> put_row key r (put_row key r' rows) = put_row key r rows"
  by (auto simp: put_row_def)

lemma start_campaign_ok:
  assumes "start_campaign i actor s = (Inr c, t)" and "fresh_keys (w_env s)"
    and "item_keys (db_items (w_db s))" and "items_of i (db_items (w_db s)) = []"
  obtains c0 now new where "row_by cc_id i (db_campaigns (w_db s)) = Some c0"
    "cc_status c0 = campaign_status_value Campaign_DRAFT"
    "list_all2 (item_for c0) (sort_key aa_id (db_access (w_db s))) new"
    "c = (recounted ((w_db s)\<lparr>db_items := db_items (w_db s) @ new\<rparr>) c0)
           \<lparr>cc_status := campaign_status_value Campaign_ACTIVE, cc_started_at := Some now\<rparr>"
    "gov (w_db t) = (put_row cc_id c (db_campaigns (w_db s)), db_items (w_db s) @ new, db_decisions (w_db s))"
    "item_keys (db_items (w_db s) @ new)"
proof -
  have active: "Campaign_ACTIVE \<in> set (VALID_CAMPAIGN_TRANSITIONS st) \<longleftrightarrow> st = Campaign_DRAFT" for st
    by (cases st) auto
  from assms(1) obtain c0 c1 new s1 now where
    c0: "row_by cc_id i (db_campaigns (w_db s)) = Some c0" "cc_status c0 = campaign_status_value Campaign_DRAFT"
    and g: "generate_review_items c0 s = (Inr (c1, new), s1)"
    and rest: "c = c1\<lparr>cc_status := campaign_status_value Campaign_ACTIVE, cc_started_at := Some now\<rparr>"
      "gov (w_db t) = (put_row cc_id c (db_campaigns (w_db s1)), db_items (w_db s1), db_decisions (w_db s1))"
    unfolding start_campaign_def by (auto elim!: gov_elims simp: gov_simps active)
  have i: "cc_id c0 = i" using row_by_Some [OF c0(1)] by simp
  from generate_items_ok [OF g _ assms(2,3)] assms(4) i rest c0 show thesis
    by (intro that [of c0 new now]) (auto simp: gov_def put_row_put_row)
qed

text \<open>What recording a decision does to the decision table.\<close>

definition decided ::
  "certification_campaign \<Rightarrow> int \<Rightarrow> certification_decision_value \<Rightarrow> user \<Rightarrow> int \<Rightarrow> certification_decision list \<Rightarrow>
   certification_decision list \<Rightarrow> bool" where
  "decided c i v actor key ds ds' \<longleftrightarrow>
     (case decision_of i ds of
        None \<Rightarrow> \<exists>x. ds' = ds @ [x] \<and> cd_id x = key \<and> cd_campaign_id x = cc_id c \<and> cd_review_item_id x = i \<and>
          cd_reviewer_id x = u_id actor \<and> cd_decision x = certification_decision_value_value v
      | Some x \<Rightarrow> \<exists>x'. ds' = put_row cd_id x' ds \<and> cd_id x' = cd_id x \<and> cd_campaign_id x' = cd_campaign_id x \<and>
          cd_review_item_id x' = cd_review_item_id x \<and> cd_reviewer_id x' = u_id actor \<and>
          cd_decision x' = certification_decision_value_value v)"

lemma first_decision_ok:
  assumes "first_decision c item v cm actor s = (Inr (x, ac, rn), t)"
  shows "w_db t = w_db s \<and> w_env t = w_env s"
    and "flush_decision x u = (Inr w, u') \<Longrightarrow> decision_of (ri_id item) (db_decisions (w_db u)) = None \<Longrightarrow>
      \<exists>ds. w_db u' = (w_db u)\<lparr>db_decisions := ds\<rparr> \<and>
        decided c (ri_id item) v actor (env_key (w_env u) (map cd_id (db_decisions (w_db u)))) (db_decisions (w_db u)) ds"
proof -
  let ?x = "\<lambda>cr up. \<lparr>cd_id = env_key (w_env u) (map cd_id (db_decisions (w_db u))), cd_campaign_id = cc_id c,
    cd_review_item_id = ri_id item, cd_reviewer_id = u_id actor,
    cd_decision = certification_decision_value_value v, cd_comments = cm, cd_created_at = cr, cd_updated_at = up\<rparr>"
  show "w_db t = w_db s \<and> w_env t = w_env s"
    using assms by (auto simp: first_decision_def elim!: and_then_okE)
  assume run: "flush_decision x u = (Inr w, u')" and none: "decision_of (ri_id item) (db_decisions (w_db u)) = None"
  have "\<exists>cr up. w_db u' = (w_db u)\<lparr>db_decisions := db_decisions (w_db u) @ [?x cr up]\<rparr>"
    using assms run by (auto simp: first_decision_def elim!: and_then_okE split: if_splits) (intro exI, rule refl)
  then obtain cr up where u': "w_db u' = (w_db u)\<lparr>db_decisions := db_decisions (w_db u) @ [?x cr up]\<rparr>" by blast
  moreover have "decided c (ri_id item) v actor (env_key (w_env u) (map cd_id (db_decisions (w_db u))))
      (db_decisions (w_db u)) (db_decisions (w_db u) @ [?x cr up])"
    unfolding decided_def none option.case by (rule exI [of _ "?x cr up"]) simp
  ultimately show "\<exists>ds. w_db u' = (w_db u)\<lparr>db_decisions := ds\<rparr> \<and>
        decided c (ri_id item) v actor (env_key (w_env u) (map cd_id (db_decisions (w_db u)))) (db_decisions (w_db u)) ds"
    by blast
qed

lemma changed_decision_ok:
  assumes "changed_decision c item x v cm actor now s = (Inr (y, ac, rn), t)"
  shows "w_db t = w_db s \<and> w_env t = w_env s"
    and "flush_decision y u = (Inr w, u') \<Longrightarrow> decision_of (ri_id item) (db_decisions (w_db u)) = Some x \<Longrightarrow>
      \<exists>ds. w_db u' = (w_db u)\<lparr>db_decisions := ds\<rparr> \<and>
        decided c (ri_id item) v actor (env_key (w_env u) (map cd_id (db_decisions (w_db u)))) (db_decisions (w_db u)) ds"
proof -
  let ?x = "x\<lparr>cd_reviewer_id := u_id actor, cd_decision := certification_decision_value_value v,
    cd_comments := cm, cd_updated_at := now\<rparr>"
  show "w_db t = w_db s \<and> w_env t = w_env s"
    using assms by (auto simp: changed_decision_def elim!: and_then_okE lift_sum_okE)
  assume run: "flush_decision y u = (Inr w, u')"
    and found: "decision_of (ri_id item) (db_decisions (w_db u)) = Some x"
  have "y = ChangeDecision ?x"
    using assms by (auto simp: changed_decision_def elim!: and_then_okE lift_sum_okE)
  with run have "w_db u' = (w_db u)\<lparr>db_decisions := put_row cd_id ?x (db_decisions (w_db u))\<rparr>"
    by (auto simp: save_decision_def)
  moreover have "decided c (ri_id item) v actor (env_key (w_env u) (map cd_id (db_decisions (w_db u))))
      (db_decisions (w_db u)) (put_row cd_id ?x (db_decisions (w_db u)))"
    unfolding decided_def found option.case by (rule exI [of _ ?x]) simp
  ultimately show "\<exists>ds. w_db u' = (w_db u)\<lparr>db_decisions := ds\<rparr> \<and>
        decided c (ri_id item) v actor (env_key (w_env u) (map cd_id (db_decisions (w_db u)))) (db_decisions (w_db u)) ds"
    by blast
qed

lemma decide_item_ok:
  assumes "decide_item c item v cm actor now s = (Inr (x, ac, rn), t)"
  shows "w_db t = w_db s \<and> w_env t = w_env s"
    and "flush_decision x t = (Inr w, u) \<Longrightarrow> \<exists>ds. w_db u = (w_db s)\<lparr>db_decisions := ds\<rparr> \<and>
        decided c (ri_id item) v actor (env_key (w_env s) (map cd_id (db_decisions (w_db s)))) (db_decisions (w_db s)) ds"
proof -
  show db: "w_db t = w_db s \<and> w_env t = w_env s"
    using assms first_decision_ok(1) changed_decision_ok(1)
    by (auto simp: decide_item_def elim!: and_then_okE split: option.splits)
  assume run: "flush_decision x t = (Inr w, u)"
  show "\<exists>ds. w_db u = (w_db s)\<lparr>db_decisions := ds\<rparr> \<and>
      decided c (ri_id item) v actor (env_key (w_env s) (map cd_id (db_decisions (w_db s)))) (db_decisions (w_db s)) ds"
  proof (cases "decision_of (ri_id item) (db_decisions (w_db s))")
    case None
    with assms have "first_decision c item v (normalize_optional_text cm) actor s = (Inr (x, ac, rn), t)"
      by (auto simp: decide_item_def elim!: and_then_okE)
    from first_decision_ok(2) [OF this run] None db show ?thesis by simp
  next
    case (Some y)
    with assms have "changed_decision c item y v (normalize_optional_text cm) actor now s = (Inr (x, ac, rn), t)"
      by (auto simp: decide_item_def elim!: and_then_okE)
    from changed_decision_ok(2) [OF this run] Some db show ?thesis by simp
  qed
qed

lemma record_decision_ok:
  assumes "record_decision i v comments actor s = (Inr item, t)"
  obtains item0 c0 ds now where "row_by ri_id i (db_items (w_db s)) = Some item0"
    "row_by cc_id (ri_campaign_id item0) (db_campaigns (w_db s)) = Some c0"
    "cc_status c0 = campaign_status_value Campaign_ACTIVE"
    "item = item0\<lparr>ri_status := review_item_status_value Item_COMPLETED, ri_reviewer_id := u_id actor,
       ri_reviewed_at := Some now\<rparr>"
    "decided c0 i v actor (env_key (w_env s) (map cd_id (db_decisions (w_db s)))) (db_decisions (w_db s)) ds"
    "gov (w_db t) = (put_row cc_id (recounted ((w_db s)\<lparr>db_decisions := ds,
         db_items := put_row ri_id item (db_items (w_db s))\<rparr>) c0) (db_campaigns (w_db s)),
       put_row ri_id item (db_items (w_db s)), ds)"
proof -
  let ?done = "\<lambda>item0 now. item0\<lparr>ri_status := review_item_status_value Item_COMPLETED,
      ri_reviewer_id := u_id actor, ri_reviewed_at := Some now\<rparr>"
  from assms obtain item0 c0 x ac rn s0 s1 s2 now where
    f: "decide_item c0 item0 v comments actor now s0 = (Inr (x, ac, rn), s1)"
    and item0: "row_by ri_id i (db_items (w_db s)) = Some item0"
    and c0: "row_by cc_id (ri_campaign_id item0) (db_campaigns (w_db s)) = Some c0"
      "cc_status c0 = campaign_status_value Campaign_ACTIVE"
    and s0: "w_db s0 = w_db s" "w_env s0 = w_env s"
    and fl: "flush_decision x s1 = (Inr (), s2)"
    and tail: "finish_decision c0 (?done item0 now) i v actor ac rn
        (s2\<lparr>w_db := (w_db s2)\<lparr>db_items := put_row ri_id (?done item0 now) (db_items (w_db s2))\<rparr>\<rparr>) = (Inr item, t)"
    unfolding record_decision_def lookup_review_item_def campaign_of_item_def
    by (auto simp: Let_def save_item_def elim!: gov_elims)
  from tail have item: "row_by ri_id i (put_row ri_id (?done item0 now) (db_items (w_db s2))) = Some item"
    and t: "gov (w_db t) = (put_row cc_id (recounted ((w_db s2)\<lparr>db_items := put_row ri_id (?done item0 now)
        (db_items (w_db s2))\<rparr>) c0) (db_campaigns (w_db s2)), put_row ri_id (?done item0 now) (db_items (w_db s2)),
        db_decisions (w_db s2))"
    unfolding finish_decision_def lookup_review_item_def by (auto simp: gov_simps elim!: gov_elims)
  have i: "ri_id item0 = i" using row_by_Some [OF item0] by simp
  obtain ds where ds: "w_db s2 = (w_db s)\<lparr>db_decisions := ds\<rparr>"
    "decided c0 i v actor (env_key (w_env s) (map cd_id (db_decisions (w_db s)))) (db_decisions (w_db s)) ds"
    using decide_item_ok(2) [OF f fl] s0 i by auto
  from item have "item = ?done item0 now"
    using ds(1) i item0 by (auto simp: row_by_put_row split: if_splits)
  with item0 c0 ds t show thesis by (intro that) auto
qed

section \<open>The invariant\<close>

text \<open>
  What the three tables satisfy.  Primary and unique keys differ, campaign names differ up to
  case; an item belongs to a campaign that is no longer a draft, and is completed exactly when
  it has a decision; a decision belongs to an item of its campaign; all items of a completed
  campaign are completed; and the counts in a campaign are those of its items and decisions.
\<close>

definition completed :: "certification_review_item \<Rightarrow> bool" where
  "completed i \<longleftrightarrow> ri_status i = review_item_status_value Item_COMPLETED"

definition in_status :: "campaign_status \<Rightarrow> certification_campaign \<Rightarrow> bool" where
  "in_status st c \<longleftrightarrow> cc_status c = campaign_status_value st"

definition wf_campaigns :: "certification_campaign list \<Rightarrow> bool" where
  "wf_campaigns cs \<longleftrightarrow> distinct (map cc_id cs) \<and> distinct (map (\<lambda>c. lower (cc_name c)) cs) \<and>
     (\<forall>c \<in> set cs. \<exists>st. in_status st c)"

definition wf_items :: "certification_campaign list \<Rightarrow> certification_review_item list \<Rightarrow> bool" where
  "wf_items cs is \<longleftrightarrow> item_keys is \<and>
     (\<forall>i \<in> set is. (\<exists>c \<in> set cs. cc_id c = ri_campaign_id i \<and> \<not> in_status Campaign_DRAFT c) \<and>
        (completed i \<or> ri_status i = review_item_status_value Item_PENDING)) \<and>
     (\<forall>c \<in> set cs. in_status Campaign_COMPLETED c \<longrightarrow> (\<forall>i \<in> set (items_of (cc_id c) is). completed i))"

definition wf_decisions :: "certification_review_item list \<Rightarrow> certification_decision list \<Rightarrow> bool" where
  "wf_decisions is ds \<longleftrightarrow> distinct (map cd_id ds) \<and> distinct (map cd_review_item_id ds) \<and>
     (\<forall>x \<in> set ds. cd_decision x \<in> range certification_decision_value_value \<and>
        (\<exists>i \<in> set is. ri_id i = cd_review_item_id x \<and> ri_campaign_id i = cd_campaign_id x \<and> completed i)) \<and>
     (\<forall>i \<in> set is. completed i \<longrightarrow> ri_id i \<in> cd_review_item_id ` set ds)"

definition wf_governance :: "db \<Rightarrow> bool" where
  "wf_governance d \<longleftrightarrow> wf_campaigns (db_campaigns d) \<and> wf_items (db_campaigns d) (db_items d) \<and>
     wf_decisions (db_items d) (db_decisions d) \<and> (\<forall>c \<in> set (db_campaigns d). recounted d c = c)"

lemma recounted_gov: "gov d' = gov d \<Longrightarrow> recounted d' = recounted d"
  by (intro ext) (simp add: gov_def recounted_def)

lemma wf_governance_gov: "gov d' = gov d \<Longrightarrow> wf_governance d' = wf_governance d"
  using recounted_gov [of d' d] by (simp add: wf_governance_def gov_def)

lemma recounted_sel [simp]:
  "cc_id (recounted d c) = cc_id c" "cc_name (recounted d c) = cc_name c"
  "cc_status (recounted d c) = cc_status c" "recounted d (recounted d c) = recounted d c"
  "cc_default_reviewer_id (recounted d c) = cc_default_reviewer_id c"
  by (simp_all add: recounted_def)

lemma recounted_fixed:
  "recounted d c = c \<longleftrightarrow> cc_total_items c = count_items (cc_id c) (db_items d) \<and>
     cc_completed_items c = count_completed (cc_id c) (db_items d) \<and>
     cc_approval_count c = count_decisions (cc_id c) APPROVE (db_decisions d) \<and>
     cc_revocation_count c = count_decisions (cc_id c) REVOKE (db_decisions d) \<and>
     cc_abstain_count c = count_decisions (cc_id c) ABSTAIN (db_decisions d)"
  by (cases c) (auto simp: recounted_def)

lemma in_status_unique: "in_status st c \<Longrightarrow> in_status st' c \<longleftrightarrow> st' = st"
  by (auto simp: in_status_def enum_value_eq)

lemma wf_campaigns_put:
  assumes "wf_campaigns cs" and "row_by cc_id (cc_id c) cs = Some c0"
    and "cc_name c = cc_name c0" and "in_status st c"
  shows "wf_campaigns (put_row cc_id c cs)"
proof -
  have "c0 \<in> set cs" "cc_id c0 = cc_id c" using row_by_Some [OF assms(2)] by auto
  then have "\<forall>r \<in> set cs. cc_id r = cc_id c \<longrightarrow> r = c0"
    using assms(1) by (auto simp: wf_campaigns_def distinct_map inj_on_def)
  then have "map (\<lambda>c. lower (cc_name c)) (put_row cc_id c cs) = map (\<lambda>c. lower (cc_name c)) cs"
    using assms(3) by (intro map_put_row_other) auto
  with assms(1,4) show ?thesis by (auto simp: wf_campaigns_def put_row_iff)
qed

lemma wf_items_put:
  assumes "wf_items cs is" and "row_by cc_id (cc_id c) cs = Some c0" and "\<not> in_status Campaign_DRAFT c"
    and "in_status Campaign_COMPLETED c \<Longrightarrow> \<forall>i \<in> set (items_of (cc_id c) is). completed i"
  shows "wf_items (put_row cc_id c cs) is"
proof -
  have "c0 \<in> set cs" "cc_id c0 = cc_id c" using row_by_Some [OF assms(2)] by auto
  then have "cc_id c \<in> cc_id ` set cs" by (metis imageI)
  then have "c \<in> set (put_row cc_id c cs)" by (simp add: put_row_iff)
  moreover have "c' \<in> set (put_row cc_id c cs)" if "c' \<in> set cs" "cc_id c' \<noteq> cc_id c" for c'
    using that by (simp add: put_row_iff)
  ultimately have "\<exists>c1 \<in> set (put_row cc_id c cs). cc_id c1 = ri_campaign_id i \<and> \<not> in_status Campaign_DRAFT c1"
    if "i \<in> set is" for i
    using that assms(1,3) unfolding wf_items_def by (metis)
  with assms(1,4) show ?thesis by (auto simp: wf_items_def put_row_iff)
qed

lemma create_campaign_wf:
  assumes "wf_governance (w_db s)" and "fresh_keys (w_env s)"
    and "create_campaign name description reviewer_id actor s = (Inr c, t)"
  shows "wf_governance (w_db t)"
proof -
  note c = create_campaign_ok [OF assms(3)]
  let ?d = "(w_db s)\<lparr>db_campaigns := db_campaigns (w_db s) @ [c]\<rparr>"
  have new: "cc_id c \<notin> cc_id ` set (db_campaigns (w_db s))"
    unfolding c(3) by (rule fresh_keys_map [OF assms(2)])
  from assms(1) have wf: "wf_campaigns (db_campaigns (w_db s))" "wf_items (db_campaigns (w_db s)) (db_items (w_db s))"
    "wf_decisions (db_items (w_db s)) (db_decisions (w_db s))"
    and counts: "\<forall>c \<in> set (db_campaigns (w_db s)). recounted (w_db s) c = c" by (auto simp: wf_governance_def)
  have none: "\<forall>i \<in> set (db_items (w_db s)). ri_campaign_id i \<noteq> cc_id c"
    using wf(2) new unfolding wf_items_def by (metis imageI)
  then have "\<forall>x \<in> set (db_decisions (w_db s)). cd_campaign_id x \<noteq> cc_id c"
    using wf(3) unfolding wf_decisions_def by metis
  with none have counted: "recounted ?d c = c"
    by (auto simp: recounted_fixed count_items_def count_completed_def items_of_def count_decisions_def
        filter_empty_conv c)
  have "wf_campaigns (db_campaigns ?d)"
    using wf(1) new c(1,5) by (auto simp: wf_campaigns_def in_status_def image_iff)
  moreover have "wf_items (db_campaigns ?d) (db_items ?d)"
    using wf(2) c(5) by (auto simp: wf_items_def in_status_def)
  moreover have "\<forall>c \<in> set (db_campaigns ?d). recounted ?d c = c"
  proof -
    have "recounted ?d = recounted (w_db s)" by (intro ext) (simp add: recounted_def)
    with counts counted show ?thesis by simp
  qed
  ultimately have "wf_governance ?d" using wf(3) by (simp add: wf_governance_def)
  with c(2) show ?thesis using wf_governance_gov [of "w_db t" ?d] by (simp add: gov_def)
qed

text \<open>The operations that change one campaign and no item or decision.\<close>

lemma put_campaign_wf:
  assumes "wf_governance d" and "row_by cc_id (cc_id c) (db_campaigns d) = Some c0" and "cc_name c = cc_name c0"
    and "in_status st c" and "st \<noteq> Campaign_DRAFT" and "recounted d c = c"
    and "st = Campaign_COMPLETED \<Longrightarrow> \<forall>i \<in> set (items_of (cc_id c) (db_items d)). completed i"
  shows "wf_governance (d\<lparr>db_campaigns := put_row cc_id c (db_campaigns d)\<rparr>)"
proof -
  let ?d = "d\<lparr>db_campaigns := put_row cc_id c (db_campaigns d)\<rparr>"
  have "recounted ?d = recounted d" by (intro ext) (simp add: recounted_def)
  moreover have "wf_campaigns (db_campaigns ?d)"
    using assms wf_campaigns_put [of "db_campaigns d" c c0 st] by (simp add: wf_governance_def)
  moreover have "wf_items (db_campaigns ?d) (db_items ?d)"
    using assms in_status_unique [OF assms(4)] wf_items_put [of "db_campaigns d" "db_items d" c c0]
    by (simp add: wf_governance_def)
  ultimately show ?thesis using assms(1,6) by (auto simp: wf_governance_def put_row_iff)
qed

lemma cancel_campaign_wf:
  assumes "wf_governance (w_db s)" and "cancel_campaign i actor s = (Inr c, t)"
  shows "wf_governance (w_db t)"
proof -
  from assms(2) obtain c0 now where c: "row_by cc_id i (db_campaigns (w_db s)) = Some c0"
    "c = c0\<lparr>cc_status := campaign_status_value Campaign_CANCELLED, cc_cancelled_at := Some now\<rparr>"
    "gov (w_db t) = (put_row cc_id c (db_campaigns (w_db s)), db_items (w_db s), db_decisions (w_db s))"
    by (rule cancel_campaign_ok)
  from row_by_Some [OF c(1)] have c0: "c0 \<in> set (db_campaigns (w_db s))" "cc_id c0 = i" by auto
  then have "recounted (w_db s) c0 = c0" using assms(1) by (simp add: wf_governance_def)
  then have "recounted (w_db s) c = c" by (simp add: c(2) recounted_fixed)
  then have "wf_governance ((w_db s)\<lparr>db_campaigns := put_row cc_id c (db_campaigns (w_db s))\<rparr>)"
    using c(1,2) c0(2) by (intro put_campaign_wf [OF assms(1), of _ c0 Campaign_CANCELLED]) (auto simp: in_status_def)
  then show ?thesis by (rule wf_governance_gov [THEN iffD2, rotated]) (simp add: c(3), simp add: gov_def)
qed

lemma all_if_count: "length xs \<le> length (filter P xs) \<Longrightarrow> \<forall>x \<in> set xs. P x"
  by (metis filter_id_conv length_filter_less linorder_not_le)

lemma complete_campaign_wf:
  assumes "wf_governance (w_db s)" and "complete_campaign i actor s = (Inr c, t)"
  shows "wf_governance (w_db t)"
proof -
  from assms(2) obtain c0 now where c: "row_by cc_id i (db_campaigns (w_db s)) = Some c0"
    "c = (recounted (w_db s) c0)\<lparr>cc_status := campaign_status_value Campaign_COMPLETED, cc_completed_at := Some now\<rparr>"
    "cc_total_items c \<le> cc_completed_items c"
    "gov (w_db t) = (put_row cc_id c (db_campaigns (w_db s)), db_items (w_db s), db_decisions (w_db s))"
    by (rule complete_campaign_ok)
  have i: "cc_id c0 = i" "cc_id c = i" using row_by_Some [OF c(1)] by (auto simp: c(2))
  have fixed: "recounted (w_db s) c = c" by (simp add: c(2) recounted_fixed) (simp add: recounted_def)
  then have "count_items i (db_items (w_db s)) \<le> count_completed i (db_items (w_db s))"
    using c(3) i by (simp add: recounted_fixed)
  then have "\<forall>x \<in> set (items_of (cc_id c) (db_items (w_db s))). completed x"
    by (auto simp: count_items_def count_completed_def completed_def i dest: all_if_count)
  then have "wf_governance ((w_db s)\<lparr>db_campaigns := put_row cc_id c (db_campaigns (w_db s))\<rparr>)"
    using c(1,2) i fixed
    by (intro put_campaign_wf [OF assms(1), of _ c0 Campaign_COMPLETED]) (auto simp: in_status_def)
  then show ?thesis by (rule wf_governance_gov [THEN iffD2, rotated]) (simp add: c(4), simp add: gov_def)
qed

lemma wf_items_append:
  assumes "wf_items cs is" and "item_keys (is @ new)" and "distinct (map cc_id cs)" and "c \<in> set cs"
    and "in_status Campaign_ACTIVE c"
    and "\<forall>i \<in> set new. ri_campaign_id i = cc_id c \<and> ri_status i = review_item_status_value Item_PENDING"
  shows "wf_items cs (is @ new)"
proof -
  have status: "\<not> in_status Campaign_DRAFT c" "\<not> in_status Campaign_COMPLETED c"
    using in_status_unique [OF assms(5)] by auto
  have "items_of (cc_id c') new = []" if "c' \<in> set cs" "in_status Campaign_COMPLETED c'" for c'
  proof -
    have "cc_id c' \<noteq> cc_id c"
      using that status(2) assms(3,4) by (auto simp: distinct_map inj_on_def)
    with assms(6) show ?thesis by (auto simp: items_of_def filter_empty_conv)
  qed
  then have "\<forall>c' \<in> set cs. in_status Campaign_COMPLETED c' \<longrightarrow> (\<forall>i \<in> set (items_of (cc_id c') (is @ new)). completed i)"
    using assms(1) by (auto simp: wf_items_def items_of_def)
  moreover have "\<forall>i \<in> set (is @ new). (\<exists>c \<in> set cs. cc_id c = ri_campaign_id i \<and> \<not> in_status Campaign_DRAFT c) \<and>
      (completed i \<or> ri_status i = review_item_status_value Item_PENDING)"
    using assms(1,4,6) status(1) unfolding wf_items_def by auto
  ultimately show ?thesis using assms(2) by (simp add: wf_items_def)
qed

lemma item_for_all2: "list_all2 (item_for c) as is \<Longrightarrow>
  \<forall>i \<in> set is. ri_campaign_id i = cc_id c \<and> ri_status i = review_item_status_value Item_PENDING"
  by (induction rule: list_all2_induct) (auto simp: item_for_def)

lemma draft_has_no_items:
  assumes "wf_governance d" and "row_by cc_id i (db_campaigns d) = Some c0" and "in_status Campaign_DRAFT c0"
    and "x \<in> set (db_items d)"
  shows "ri_campaign_id x \<noteq> i"
proof
  note m = row_by_Some [OF assms(2)]
  assume "ri_campaign_id x = i"
  with assms(1,4) obtain c1 where "c1 \<in> set (db_campaigns d)" "cc_id c1 = i" "\<not> in_status Campaign_DRAFT c1"
    unfolding wf_governance_def wf_items_def by blast
  with m assms(1,3) show False
    by (auto simp: wf_governance_def wf_campaigns_def distinct_map inj_on_def)
qed

lemma start_campaign_no_items:
  assumes "wf_governance (w_db s)" and "start_campaign i actor s = (Inr c, t)"
  shows "items_of i (db_items (w_db s)) = []"
proof -
  have "Campaign_ACTIVE \<in> set (VALID_CAMPAIGN_TRANSITIONS st) \<longleftrightarrow> st = Campaign_DRAFT" for st
    by (cases st) auto
  with assms(2) obtain c0 where c0: "row_by cc_id i (db_campaigns (w_db s)) = Some c0" "in_status Campaign_DRAFT c0"
    unfolding start_campaign_def by (auto elim!: gov_elims simp: in_status_def)
  from draft_has_no_items [OF assms(1) c0] show ?thesis by (auto simp: items_of_def filter_empty_conv)
qed

lemma start_campaign_wf:
  assumes "wf_governance (w_db s)" and "fresh_keys (w_env s)" and "start_campaign i actor s = (Inr c, t)"
  shows "wf_governance (w_db t)"
proof -
  let ?d = "w_db s"
  from assms(1) have wf: "wf_campaigns (db_campaigns ?d)" "wf_items (db_campaigns ?d) (db_items ?d)"
    "wf_decisions (db_items ?d) (db_decisions ?d)" "\<forall>c \<in> set (db_campaigns ?d). recounted ?d c = c"
    unfolding wf_governance_def by blast+
  have keys: "item_keys (db_items ?d)" using wf(2) by (simp add: wf_items_def)
  have ids: "distinct (map cc_id (db_campaigns ?d))" using wf(1) by (simp add: wf_campaigns_def)
  have none: "items_of i (db_items ?d) = []" by (rule start_campaign_no_items [OF assms(1,3)])
  from assms(3,2) keys none obtain c0 now new where
    c0: "row_by cc_id i (db_campaigns ?d) = Some c0" "cc_status c0 = campaign_status_value Campaign_DRAFT"
    and new: "list_all2 (item_for c0) (sort_key aa_id (db_access ?d)) new"
    and c: "c = (recounted (?d\<lparr>db_items := db_items ?d @ new\<rparr>) c0)
           \<lparr>cc_status := campaign_status_value Campaign_ACTIVE, cc_started_at := Some now\<rparr>"
    and t: "gov (w_db t) = (put_row cc_id c (db_campaigns ?d), db_items ?d @ new, db_decisions ?d)"
    and new_keys: "item_keys (db_items ?d @ new)" by (rule start_campaign_ok)
  have i: "cc_id c0 = i" "cc_id c = i" using row_by_Some [OF c0(1)] by (auto simp: c)
  have active: "in_status Campaign_ACTIVE c" by (simp add: c in_status_def)
  have pending: "\<forall>x \<in> set new. ri_campaign_id x = cc_id c \<and> ri_status x = review_item_status_value Item_PENDING"
    using item_for_all2 [OF new] i by simp
  let ?cs = "put_row cc_id c (db_campaigns ?d)"
  let ?d' = "?d\<lparr>db_campaigns := ?cs, db_items := db_items ?d @ new\<rparr>"
  have row: "row_by cc_id (cc_id c) (db_campaigns ?d) = Some c0" using c0(1) i by simp
  have "wf_campaigns ?cs" by (rule wf_campaigns_put [OF wf(1) row _ active]) (simp add: c)
  moreover have "wf_items ?cs (db_items ?d @ new)"
  proof (rule wf_items_append [OF wf_items_put [OF wf(2) row] new_keys _ _ active pending])
    show "\<not> in_status Campaign_DRAFT c" using in_status_unique [OF active] by simp
    show "\<forall>x \<in> set (items_of (cc_id c) (db_items ?d)). completed x" using none i by simp
    show "distinct (map cc_id ?cs)" using ids by simp
    have "cc_id c \<in> cc_id ` set (db_campaigns ?d)" using row_by_Some [OF row] by (metis imageI)
    then show "c \<in> set ?cs" by (simp add: put_row_iff)
  qed
  moreover have "wf_decisions (db_items ?d @ new) (db_decisions ?d)"
  proof -
    have "\<forall>x \<in> set new. \<not> completed x" using pending by (simp add: completed_def)
    with wf(3) show ?thesis unfolding wf_decisions_def by auto
  qed
  moreover have "\<forall>c' \<in> set ?cs. recounted ?d' c' = c'"
  proof
    fix c' assume c': "c' \<in> set ?cs"
    show "recounted ?d' c' = c'"
    proof (cases "cc_id c' = cc_id c")
      case True
      with c' have "c' = c" by (auto simp: put_row_iff)
      then show ?thesis by (simp add: c recounted_fixed) (simp add: recounted_def)
    next
      case False
      with c' have "recounted ?d c' = c'" using wf(4) by (auto simp: put_row_iff)
      moreover have "items_of (cc_id c') (db_items ?d @ new) = items_of (cc_id c') (db_items ?d)"
        using False pending by (auto simp: items_of_def filter_empty_conv)
      ultimately show ?thesis by (simp add: recounted_def count_items_def count_completed_def)
    qed
  qed
  ultimately have "wf_governance ?d'" by (simp add: wf_governance_def)
  then show ?thesis by (rule wf_governance_gov [THEN iffD2, rotated]) (simp add: t, simp add: gov_def)
qed

lemma filter_put_row_other:
  "\<not> P r \<Longrightarrow> (\<And>r'. r' \<in> set rows \<Longrightarrow> key r' = key r \<Longrightarrow> \<not> P r') \<Longrightarrow>
   filter P (put_row key r rows) = filter P rows"
  by (induction rows) (auto simp: put_row_def)

lemma decision_of_Some: "decision_of i ds = Some x \<Longrightarrow> x \<in> set ds \<and> cd_review_item_id x = i"
  by (auto simp: decision_of_def find_Some_iff)

lemma decision_of_None: "decision_of i ds = None \<longleftrightarrow> i \<notin> cd_review_item_id ` set ds"
  by (auto simp: decision_of_def find_None_iff)

text \<open>The decision tables before and after a decision on item \<open>i\<close>.\<close>

lemma decided_keys:
  assumes "decided c i v actor key ds ds'" and "key \<notin> cd_id ` set ds"
    and "distinct (map cd_id ds)" and "distinct (map cd_review_item_id ds)"
  shows "distinct (map cd_id ds')" "distinct (map cd_review_item_id ds')"
    and "cd_review_item_id ` set ds' = insert i (cd_review_item_id ` set ds)"
proof -
  have "distinct (map cd_id ds') \<and> distinct (map cd_review_item_id ds') \<and>
      cd_review_item_id ` set ds' = insert i (cd_review_item_id ` set ds)"
  proof (cases "decision_of i ds")
    case None
    with assms show ?thesis by (auto simp: decided_def decision_of_None)
  next
    case (Some x)
    note x = decision_of_Some [OF Some]
    from assms(1) Some obtain x' where x': "ds' = put_row cd_id x' ds" "cd_id x' = cd_id x"
      "cd_review_item_id x' = cd_review_item_id x" by (auto simp: decided_def)
    have "\<forall>r \<in> set ds. cd_id r = cd_id x' \<longrightarrow> r = x"
      using assms(3) x x'(2) by (auto simp: distinct_map inj_on_def)
    then have "map cd_review_item_id ds' = map cd_review_item_id ds"
      unfolding x'(1) using x'(3) by (intro map_put_row_other) auto
    moreover from this have "cd_review_item_id ` set ds' = cd_review_item_id ` set ds"
      by (metis set_map)
    ultimately show ?thesis using assms(3,4) x x'(1) by auto
  qed
  then show "distinct (map cd_id ds')" "distinct (map cd_review_item_id ds')"
    "cd_review_item_id ` set ds' = insert i (cd_review_item_id ` set ds)" by auto
qed

lemma decided_rows:
  assumes "decided c i v actor key ds ds'" and "x \<in> set ds'"
    and "\<forall>y \<in> set ds. cd_review_item_id y = i \<longrightarrow> cd_campaign_id y = cc_id c"
  shows "x \<in> set ds \<or> (cd_review_item_id x = i \<and> cd_campaign_id x = cc_id c \<and>
     cd_decision x = certification_decision_value_value v)"
proof (cases "decision_of i ds")
  case None
  with assms show ?thesis by (auto simp: decided_def)
next
  case (Some y)
  with assms decision_of_Some [OF Some] show ?thesis by (auto simp: decided_def put_row_iff)
qed

definition decisions_of :: "int \<Rightarrow> certification_decision list \<Rightarrow> certification_decision list" where
  "decisions_of m ds = filter (\<lambda>x. cd_campaign_id x = m) ds"

lemma count_decisions_of:
  "count_decisions m w ds = length (filter (\<lambda>x. cd_decision x = certification_decision_value_value w) (decisions_of m ds))"
  by (simp add: count_decisions_def decisions_of_def conj_commute)

lemma decided_other_campaigns:
  assumes "decided c i v actor key ds ds'" and "distinct (map cd_id ds)" and "m \<noteq> cc_id c"
    and "\<forall>y \<in> set ds. cd_review_item_id y = i \<longrightarrow> cd_campaign_id y = cc_id c"
  shows "decisions_of m ds' = decisions_of m ds"
proof (cases "decision_of i ds")
  case None
  with assms show ?thesis by (auto simp: decided_def decisions_of_def)
next
  case (Some y)
  note y = decision_of_Some [OF Some]
  from assms(1) Some obtain x' where x': "ds' = put_row cd_id x' ds" "cd_id x' = cd_id y"
      "cd_campaign_id x' = cd_campaign_id y" by (auto simp: decided_def)
  have "\<forall>r \<in> set ds. cd_id r = cd_id x' \<longrightarrow> r = y"
    using assms(2) y x'(2) by (auto simp: distinct_map inj_on_def)
  with assms(3,4) x' y show ?thesis
    unfolding decisions_of_def by (auto intro!: filter_put_row_other)
qed

lemma wf_items_complete:
  assumes "wf_items cs is" and "item0 \<in> set is" and "ri_id item = ri_id item0"
    and "ri_unique_key item = ri_unique_key item0" and "completed item"
  shows "wf_items cs (put_row ri_id item is)"
proof -
  have same: "r = item0" if "r \<in> set is" "ri_id r = ri_id item" for r
    using that assms(1-3) by (auto simp: wf_items_def item_keys_def distinct_map inj_on_def)
  have "map ri_unique_key (put_row ri_id item is) = map ri_unique_key is"
    using same assms(4) by (intro map_put_row_other) auto
  moreover have "ri_campaign_id item = ri_campaign_id item0" using assms(4) by (simp add: ri_unique_key_def)
  then have "\<exists>c \<in> set cs. cc_id c = ri_campaign_id item \<and> \<not> in_status Campaign_DRAFT c"
    using assms(1,2) unfolding wf_items_def by metis
  ultimately show ?thesis
    using assms(1,5) by (auto simp: wf_items_def item_keys_def put_row_iff items_of_def)
qed

lemma record_decision_wf:
  assumes "wf_governance (w_db s)" and "fresh_keys (w_env s)"
    and "record_decision i v comments actor s = (Inr item, t)"
  shows "wf_governance (w_db t)"
proof -
  let ?d = "w_db s"
  from assms(1) have wf: "wf_campaigns (db_campaigns ?d)" "wf_items (db_campaigns ?d) (db_items ?d)"
    "wf_decisions (db_items ?d) (db_decisions ?d)" "\<forall>c \<in> set (db_campaigns ?d). recounted ?d c = c"
    unfolding wf_governance_def by blast+
  have ids: "distinct (map cc_id (db_campaigns ?d))" using wf(1) by (simp add: wf_campaigns_def)
  from assms(3) obtain item0 c0 ds now where
    item0: "row_by ri_id i (db_items ?d) = Some item0"
    and c0: "row_by cc_id (ri_campaign_id item0) (db_campaigns ?d) = Some c0"
      "cc_status c0 = campaign_status_value Campaign_ACTIVE"
    and item: "item = item0\<lparr>ri_status := review_item_status_value Item_COMPLETED, ri_reviewer_id := u_id actor,
       ri_reviewed_at := Some now\<rparr>"
    and ds: "decided c0 i v actor (env_key (w_env s) (map cd_id (db_decisions ?d))) (db_decisions ?d) ds"
    and t: "gov (w_db t) = (put_row cc_id (recounted (?d\<lparr>db_decisions := ds,
         db_items := put_row ri_id item (db_items ?d)\<rparr>) c0) (db_campaigns ?d), put_row ri_id item (db_items ?d), ds)"
    by (rule record_decision_ok)
  let ?is = "put_row ri_id item (db_items ?d)"
  define c where "c = recounted (?d\<lparr>db_decisions := ds, db_items := ?is\<rparr>) c0"
  let ?cs = "put_row cc_id c (db_campaigns ?d)"
  let ?d' = "?d\<lparr>db_campaigns := ?cs, db_items := ?is, db_decisions := ds\<rparr>"
  have m: "item0 \<in> set (db_items ?d)" "ri_id item0 = i" using row_by_Some [OF item0] by auto
  have mc: "c0 \<in> set (db_campaigns ?d)" "cc_id c0 = ri_campaign_id item0" using row_by_Some [OF c0(1)] by auto
  have c: "cc_id c = cc_id c0" "in_status Campaign_ACTIVE c" using c0(2) by (simp_all add: c_def in_status_def)
  have row: "row_by cc_id (cc_id c) (db_campaigns ?d) = Some c0" using c0(1) c(1) mc(2) by simp
  have same: "r = item0" if "r \<in> set (db_items ?d)" "ri_id r = i" for r
    using that m wf(2) by (auto simp: wf_items_def item_keys_def distinct_map inj_on_def)
  have it: "ri_id item = i" "ri_campaign_id item = cc_id c0" "ri_unique_key item = ri_unique_key item0" "completed item"
    using m mc(2) by (simp_all add: item ri_unique_key_def completed_def)
  have owner: "\<forall>y \<in> set (db_decisions ?d). cd_review_item_id y = i \<longrightarrow> cd_campaign_id y = cc_id c0"
    using wf(3) same mc(2) unfolding wf_decisions_def by metis
  have dkeys: "distinct (map cd_id (db_decisions ?d))" "distinct (map cd_review_item_id (db_decisions ?d))"
    using wf(3) by (simp_all add: wf_decisions_def)
  note keys = decided_keys [OF ds fresh_keys_map [OF assms(2)] dkeys]
  have "wf_campaigns ?cs" by (rule wf_campaigns_put [OF wf(1) row _ c(2)]) (simp add: c_def)
  moreover have "wf_items ?cs ?is"
  proof -
    have "wf_items ?cs (db_items ?d)"
      using in_status_unique [OF c(2)] by (intro wf_items_put [OF wf(2) row]) auto
    then show ?thesis using m it by (intro wf_items_complete [of _ _ item0]) auto
  qed
  moreover have "wf_decisions ?is ds"
  proof -
    have present: "item \<in> set ?is" using m it(1) by (auto simp: put_row_iff intro: rev_image_eqI)
    have "cd_decision x \<in> range certification_decision_value_value \<and>
        (\<exists>j \<in> set ?is. ri_id j = cd_review_item_id x \<and> ri_campaign_id j = cd_campaign_id x \<and> completed j)"
      if x: "x \<in> set ds" for x
    proof (cases "cd_review_item_id x = i")
      case True
      with decided_rows [OF ds x owner] owner wf(3) present it show ?thesis
        unfolding wf_decisions_def by (metis rangeI)
    next
      case False
      with decided_rows [OF ds x owner] have "x \<in> set (db_decisions ?d)" by blast
      with wf(3) obtain j where j: "j \<in> set (db_items ?d)" "ri_id j = cd_review_item_id x"
          "ri_campaign_id j = cd_campaign_id x" "completed j"
        and v: "cd_decision x \<in> range certification_decision_value_value"
        unfolding wf_decisions_def by blast
      have "j \<in> set ?is" using j(1,2) False it(1) by (simp add: put_row_iff)
      with j v show ?thesis by blast
    qed
    moreover have "ri_id j \<in> cd_review_item_id ` set ds" if "j \<in> set ?is" "completed j" for j
      using that wf(3) it(1) keys(3) unfolding wf_decisions_def put_row_iff by auto
    ultimately show ?thesis using keys by (simp add: wf_decisions_def)
  qed
  moreover have "\<forall>c' \<in> set ?cs. recounted ?d' c' = c'"
  proof
    fix c' assume c': "c' \<in> set ?cs"
    show "recounted ?d' c' = c'"
    proof (cases "cc_id c' = cc_id c0")
      case True
      with c' c(1) have "c' = c" by (auto simp: put_row_iff)
      then show ?thesis by (simp add: c_def recounted_fixed) (simp add: recounted_def)
    next
      case False
      with c' c(1) have "recounted ?d c' = c'" using wf(4) by (auto simp: put_row_iff)
      moreover have "items_of (cc_id c') ?is = items_of (cc_id c') (db_items ?d)"
        unfolding items_of_def
        using False it same mc(2) by (intro filter_put_row_other) auto
      moreover have "count_decisions (cc_id c') w ds = count_decisions (cc_id c') w (db_decisions ?d)" for w
        by (simp add: count_decisions_of decided_other_campaigns [OF ds dkeys(1) False owner])
      ultimately show ?thesis by (simp add: recounted_def count_items_def count_completed_def)
    qed
  qed
  ultimately have "wf_governance ?d'" by (simp add: wf_governance_def)
  then show ?thesis by (rule wf_governance_gov [THEN iffD2, rotated]) (simp add: t c_def, simp add: gov_def)
qed

section \<open>Requests\<close>

text \<open>The tables that access certification never writes.\<close>

definition beside_review :: "db \<Rightarrow> db" where
  "beside_review d = d\<lparr>db_campaigns := [], db_items := [], db_decisions := [], db_audit := []\<rparr>"

lemma beside_review_simps [simp]:
  "beside_review (d\<lparr>db_campaigns := cs\<rparr>) = beside_review d"
  "beside_review (d\<lparr>db_items := is\<rparr>) = beside_review d"
  "beside_review (d\<lparr>db_decisions := ds\<rparr>) = beside_review d"
  "beside_review (d\<lparr>db_audit := a\<rparr>) = beside_review d"
  by (simp_all add: beside_review_def)

lemma keeps_flush_decision [op_intro]:
  "(\<And>s n. f (s\<lparr>w_clock_reads := n\<rparr>) = f s) \<Longrightarrow> (\<And>s ds. f (s\<lparr>w_db := (w_db s)\<lparr>db_decisions := ds\<rparr>\<rparr>) = f s) \<Longrightarrow>
   keeps (same f) (flush_decision x)"
  by (cases x) (auto simp: save_decision_def intro!: op_intro)

lemmas governance_operation_defs = create_campaign_def check_duplicate_campaign_name_def
  record_governance_audit_def get_governance_audit_entitlement_def count_campaign_def save_campaign_def
  start_campaign_def lookup_campaign_def validate_transition_def generate_review_items_def draft_item_def
  insert_item_def recalculate_campaign_counts_def complete_campaign_def cancel_campaign_def
  record_decision_def lookup_review_item_def campaign_of_item_def decide_item_def first_decision_def
  changed_decision_def save_item_def finish_decision_def Let_def

lemma keeps_governance_operations:
  assumes "\<And>s n. f (s\<lparr>w_clock_reads := n\<rparr>) = f s" and "\<And>s m. f (s\<lparr>w_metrics := m\<rparr>) = f s"
    and "\<And>s p. f (s\<lparr>w_pending := p\<rparr>) = f s"
    and "\<And>s cs. f (s\<lparr>w_db := (w_db s)\<lparr>db_campaigns := cs\<rparr>\<rparr>) = f s"
    and "\<And>s is. f (s\<lparr>w_db := (w_db s)\<lparr>db_items := is\<rparr>\<rparr>) = f s"
    and "\<And>s ds. f (s\<lparr>w_db := (w_db s)\<lparr>db_decisions := ds\<rparr>\<rparr>) = f s"
    and "\<And>s a. f (s\<lparr>w_db := (w_db s)\<lparr>db_audit := a\<rparr>\<rparr>) = f s"
  shows "keeps (same f) (create_campaign nm ds rv actor)" "keeps (same f) (start_campaign i actor)"
    "keeps (same f) (cancel_campaign i actor)" "keeps (same f) (complete_campaign i actor)"
    "keeps (same f) (record_decision i v cm actor)"
  using assms by (auto simp: governance_operation_defs intro!: op_intro split: sum.splits option.splits)

inductive governance_request :: "world \<Rightarrow> world \<Rightarrow> bool" where
  created: "create_campaign_route name description reviewer_id u s = (r, t) \<Longrightarrow> governance_request s t"
| started: "start_campaign_route i u s = (r, t) \<Longrightarrow> governance_request s t"
| cancelled: "cancel_campaign_route i u s = (r, t) \<Longrightarrow> governance_request s t"
| completed: "complete_campaign_route i u s = (r, t) \<Longrightarrow> governance_request s t"
| decided: "record_decision_route i v comments u s = (r', t) \<Longrightarrow> governance_request s t"

lemmas governance_routes = create_campaign_route_def start_campaign_route_def cancel_campaign_route_def
  complete_campaign_route_def record_decision_route_def

text \<open>What every successful service call keeps, every request keeps.\<close>

lemma governance_request_invariant:
  assumes "governance_request s t" and "I (w_db s)"
    and "\<And>a b c d s' x t'. w_db s' = w_db s \<Longrightarrow> w_env s' = w_env s \<Longrightarrow> create_campaign a b c d s' = (Inr x, t') \<Longrightarrow> I (w_db t')"
    and "\<And>a b s' x t'. w_db s' = w_db s \<Longrightarrow> w_env s' = w_env s \<Longrightarrow> start_campaign a b s' = (Inr x, t') \<Longrightarrow> I (w_db t')"
    and "\<And>a b s' x t'. w_db s' = w_db s \<Longrightarrow> w_env s' = w_env s \<Longrightarrow> cancel_campaign a b s' = (Inr x, t') \<Longrightarrow> I (w_db t')"
    and "\<And>a b s' x t'. w_db s' = w_db s \<Longrightarrow> w_env s' = w_env s \<Longrightarrow> complete_campaign a b s' = (Inr x, t') \<Longrightarrow> I (w_db t')"
    and "\<And>a b c d s' x t'. w_db s' = w_db s \<Longrightarrow> w_env s' = w_env s \<Longrightarrow> record_decision a b c d s' = (Inr x, t') \<Longrightarrow> I (w_db t')"
  shows "I (w_db t) \<and> w_env t = w_env s"
  using assms(1)
proof cases
  case (created name description reviewer_id u r)
  from this(1) [unfolded governance_routes] assms(2) show ?thesis
    by (rule mutating_route_invariant [where I = I]) (auto intro!: keeps_governance_operations assms(3))
next
  case (started i u r)
  from this(1) [unfolded governance_routes] assms(2) show ?thesis
    by (rule mutating_route_invariant [where I = I]) (auto intro!: keeps_governance_operations assms(4))
next
  case (cancelled i u r)
  from this(1) [unfolded governance_routes] assms(2) show ?thesis
    by (rule mutating_route_invariant [where I = I]) (auto intro!: keeps_governance_operations assms(5))
next
  case (completed i u r)
  from this(1) [unfolded governance_routes] assms(2) show ?thesis
    by (rule mutating_route_invariant [where I = I]) (auto intro!: keeps_governance_operations assms(6))
next
  case (decided i v comments u r')
  from this(1) [unfolded governance_routes] assms(2) show ?thesis
    by (rule mutating_route_invariant [where I = I]) (auto intro!: keeps_governance_operations assms(7))
qed

lemma governance_request_wf:
  assumes "governance_request s t" and "fresh_keys (w_env s)" and "wf_governance (w_db s)"
  shows "wf_governance (w_db t) \<and> w_env t = w_env s"
  using assms(1,3)
  by (rule governance_request_invariant)
     (use assms(2,3) create_campaign_wf start_campaign_wf cancel_campaign_wf complete_campaign_wf record_decision_wf
       in metis)+

lemma governance_request_frame:
  assumes "governance_request s t"
  shows "beside_review (w_db t) = beside_review (w_db s)"
proof -
  have "beside_review (w_db t) = beside_review (w_db s) \<and> w_env t = w_env s"
    using assms refl
    by (rule governance_request_invariant [where I = "\<lambda>d. beside_review d = beside_review (w_db s)"])
       (drule keeps_same_result [rotated, where f = "\<lambda>s. beside_review (w_db s)"]; auto intro!: keeps_governance_operations)+
  then show ?thesis ..
qed

section \<open>Closed campaigns\<close>

definition closed :: "certification_campaign \<Rightarrow> bool" where
  "closed c \<longleftrightarrow> in_status Campaign_COMPLETED c \<or> in_status Campaign_CANCELLED c"

text \<open>In \<open>d'\<close> the campaign \<open>c\<close> is as it was in \<open>d\<close>, with its items and decisions.\<close>

definition preserved :: "certification_campaign \<Rightarrow> db \<Rightarrow> db \<Rightarrow> bool" where
  "preserved c d d' \<longleftrightarrow> c \<in> set (db_campaigns d') \<and>
     items_of (cc_id c) (db_items d') = items_of (cc_id c) (db_items d) \<and>
     decisions_of (cc_id c) (db_decisions d') = decisions_of (cc_id c) (db_decisions d)"

lemma open_campaign_other:
  assumes "wf_governance d" and "c \<in> set (db_campaigns d)" and "closed c"
    and "row_by cc_id i (db_campaigns d) = Some c0" and "in_status Campaign_DRAFT c0 \<or> in_status Campaign_ACTIVE c0"
  shows "cc_id c \<noteq> i"
proof
  assume "cc_id c = i"
  then have "c = c0"
    using assms(1,2) row_by_Some [OF assms(4)]
    by (auto simp: wf_governance_def wf_campaigns_def distinct_map inj_on_def)
  with assms(3,5) show False by (auto simp: closed_def dest: in_status_unique)
qed

lemma put_preserved:
  assumes "c \<in> set (db_campaigns d)" and "cc_id c \<noteq> cc_id c'"
    and "gov d' = (put_row cc_id c' (db_campaigns d), db_items d, db_decisions d)"
  shows "preserved c d d'"
  using assms by (simp add: preserved_def gov_def put_row_iff)

lemma campaign_step_preserved:
  assumes "wf_governance (w_db s)" and "fresh_keys (w_env s)"
    and c: "c \<in> set (db_campaigns (w_db s))" "closed c"
  shows "create_campaign nm ds rv u s = (Inr x, t) \<Longrightarrow> preserved c (w_db s) (w_db t)"
    and "start_campaign i u s = (Inr x, t) \<Longrightarrow> preserved c (w_db s) (w_db t)"
    and "cancel_campaign i u s = (Inr x, t) \<Longrightarrow> preserved c (w_db s) (w_db t)"
    and "complete_campaign i u s = (Inr x, t) \<Longrightarrow> preserved c (w_db s) (w_db t)"
    and "record_decision i v cm u s = (Inr y, t) \<Longrightarrow> preserved c (w_db s) (w_db t)"
proof -
  note other = open_campaign_other [OF assms(1) c]
  {
    assume "create_campaign nm ds rv u s = (Inr x, t)"
    from create_campaign_ok(2) [OF this] c show "preserved c (w_db s) (w_db t)"
      by (simp add: preserved_def gov_def)
  next
    assume run: "start_campaign i u s = (Inr x, t)"
    from assms(1) have keys: "item_keys (db_items (w_db s))" by (simp add: wf_governance_def wf_items_def)
    obtain c0 now new where c0: "row_by cc_id i (db_campaigns (w_db s)) = Some c0" "in_status Campaign_DRAFT c0"
      and new: "list_all2 (item_for c0) (sort_key aa_id (db_access (w_db s))) new"
      and x: "cc_id x = cc_id c0"
        "gov (w_db t) = (put_row cc_id x (db_campaigns (w_db s)), db_items (w_db s) @ new, db_decisions (w_db s))"
      by (rule start_campaign_ok [OF run assms(2) keys start_campaign_no_items [OF assms(1) run]])
         (auto simp: in_status_def)
    have i: "cc_id c0 = i" using row_by_Some [OF c0(1)] by simp
    have "items_of (cc_id c) new = []"
      using item_for_all2 [OF new] other [OF c0(1)] c0(2) i by (auto simp: items_of_def filter_empty_conv)
    with x c(1) other [OF c0(1)] c0(2) i show "preserved c (w_db s) (w_db t)"
      by (simp add: preserved_def gov_def put_row_iff items_of_def)
  next
    assume "cancel_campaign i u s = (Inr x, t)"
    then obtain c0 now where c0: "row_by cc_id i (db_campaigns (w_db s)) = Some c0"
      "in_status Campaign_DRAFT c0 \<or> in_status Campaign_ACTIVE c0" "cc_id x = cc_id c0"
      "gov (w_db t) = (put_row cc_id x (db_campaigns (w_db s)), db_items (w_db s), db_decisions (w_db s))"
      by (rule cancel_campaign_ok) (auto simp: in_status_def)
    have "cc_id x = i" using row_by_Some [OF c0(1)] c0(3) by simp
    with other [OF c0(1,2)] show "preserved c (w_db s) (w_db t)"
      by (intro put_preserved [OF c(1) _ c0(4)]) simp
  next
    assume "complete_campaign i u s = (Inr x, t)"
    then obtain c0 now where c0: "row_by cc_id i (db_campaigns (w_db s)) = Some c0"
      "in_status Campaign_ACTIVE c0" "cc_id x = cc_id c0"
      "gov (w_db t) = (put_row cc_id x (db_campaigns (w_db s)), db_items (w_db s), db_decisions (w_db s))"
      by (rule complete_campaign_ok) (auto simp: in_status_def)
    have "cc_id x = i" using row_by_Some [OF c0(1)] c0(3) by simp
    with other [OF c0(1)] c0(2) show "preserved c (w_db s) (w_db t)"
      by (intro put_preserved [OF c(1) _ c0(4)]) simp
  next
    assume run: "record_decision i v cm u s = (Inr y, t)"
    then obtain item0 c0 ds' now where
      item0: "row_by ri_id i (db_items (w_db s)) = Some item0"
      and c0: "row_by cc_id (ri_campaign_id item0) (db_campaigns (w_db s)) = Some c0" "in_status Campaign_ACTIVE c0"
      and y: "ri_id y = ri_id item0" "ri_campaign_id y = ri_campaign_id item0"
      and dec: "decided c0 i v u (env_key (w_env s) (map cd_id (db_decisions (w_db s)))) (db_decisions (w_db s)) ds'"
      and t: "gov (w_db t) = (put_row cc_id (recounted ((w_db s)\<lparr>db_decisions := ds',
         db_items := put_row ri_id y (db_items (w_db s))\<rparr>) c0) (db_campaigns (w_db s)),
         put_row ri_id y (db_items (w_db s)), ds')"
      by (rule record_decision_ok) (auto simp: in_status_def)
    note m = row_by_Some [OF item0] row_by_Some [OF c0(1)]
    have same: "r = item0" if "r \<in> set (db_items (w_db s))" "ri_id r = i" for r
      using that m(1) assms(1) by (auto simp: wf_governance_def wf_items_def item_keys_def distinct_map inj_on_def)
    have ne: "cc_id c \<noteq> ri_campaign_id item0" using other [OF c0(1)] c0(2) by simp
    have wd: "wf_decisions (db_items (w_db s)) (db_decisions (w_db s))" using assms(1) by (simp add: wf_governance_def)
    then have owner: "\<forall>z \<in> set (db_decisions (w_db s)). cd_review_item_id z = i \<longrightarrow> cd_campaign_id z = cc_id c0"
      using same m unfolding wf_decisions_def by metis
    have "decisions_of (cc_id c) ds' = decisions_of (cc_id c) (db_decisions (w_db s))"
      using ne m wd by (intro decided_other_campaigns [OF dec _ _ owner]) (auto simp: wf_decisions_def)
    moreover have "items_of (cc_id c) (put_row ri_id y (db_items (w_db s))) = items_of (cc_id c) (db_items (w_db s))"
      unfolding items_of_def
    proof (rule filter_put_row_other)
      show "\<not> ri_campaign_id y = cc_id c" using ne y by simp
      show "\<not> ri_campaign_id r = cc_id c" if "r \<in> set (db_items (w_db s))" "ri_id r = ri_id y" for r
        using same [OF that(1)] that(2) y m(1) ne by simp
    qed
    ultimately show "preserved c (w_db s) (w_db t)"
      using t c(1) ne m by (simp add: preserved_def gov_def put_row_iff)
  }
qed

lemma governance_request_preserved:
  assumes "governance_request s t" and "wf_governance (w_db s)" and "fresh_keys (w_env s)"
    and "c \<in> set (db_campaigns (w_db s))" and "closed c"
  shows "preserved c (w_db s) (w_db t)"
proof -
  have start: "preserved c (w_db s) (w_db s)" using assms(4) by (simp add: preserved_def)
  have "preserved c (w_db s) (w_db t) \<and> w_env t = w_env s"
    using assms(1) start
    by (rule governance_request_invariant) (metis assms(2-5) campaign_step_preserved)+
  then show ?thesis ..
qed

section \<open>Properties\<close>

lemma governance_requests_wf:
  assumes "governance_request\<^sup>*\<^sup>* s t" and "fresh_keys (w_env s)" and "wf_governance (w_db s)"
  shows "wf_governance (w_db t) \<and> w_env t = w_env s"
  using assms by (induction rule: rtranclp_induct) (auto dest: governance_request_wf)

end
