(* ===== verification/Jobs.thy ===== *)
theory Jobs
  imports Http Listing
begin

text \<open>
  Provisioning jobs and their history, \<open>app/services/provisioning_job_service.py\<close>.  A job is
  a mutable row: an operation takes the row, writes the changed row back under its key and
  returns it.  History rows are only ever added.
\<close>

section \<open>Writing rows\<close>

definition save_job :: "provisioning_job \<Rightarrow> (world, 'e, unit) op" where
  "save_job job = update_db (\<lambda>d. d\<lparr>db_jobs := put_row pj_id job (db_jobs d)\<rparr>)"

definition serialize_details :: "payload option \<Rightarrow> string option" where
  "serialize_details details = map_option (\<lambda>d. json_dumps (JObj d)) details"

definition record_history ::
  "provisioning_job \<Rightarrow> history_event_type \<Rightarrow> string \<Rightarrow> string \<Rightarrow> int \<Rightarrow> bool \<Rightarrow> int option \<Rightarrow>
   payload option \<Rightarrow> (world, 'e, provisioning_history) op" where
  "record_history job event_type status message attempt retryable duration_ms details =
     and_then utc_now (\<lambda>now.
     and_then (query db_history) (\<lambda>rows.
     and_then (new_key (map ph_id rows)) (\<lambda>key.
     let history = \<lparr>ph_id = key, ph_job_id = pj_id job, ph_correlation_id = pj_correlation_id job,
           ph_connector = pj_connector job, ph_operation = pj_operation job,
           ph_event_type = history_event_type_value event_type, ph_status = status, ph_message = message,
           ph_attempt = attempt, ph_retryable = retryable, ph_duration_ms = duration_ms,
           ph_details = serialize_details details, ph_created_at = now\<rparr>
     in and_then (update_db (\<lambda>d. d\<lparr>db_history := db_history d @ [history]\<rparr>)) (\<lambda>_. ret history))))"

definition add_history ::
  "provisioning_job \<Rightarrow> history_event_type \<Rightarrow> string \<Rightarrow> string \<Rightarrow> int \<Rightarrow> bool \<Rightarrow> int option \<Rightarrow>
   payload option \<Rightarrow> (world, 'e, unit) op" where
  "add_history job event_type status message attempt retryable duration_ms details =
     and_then (record_history job event_type status message attempt retryable duration_ms details) (\<lambda>_. ret ())"

definition count_job :: "provisioning_job \<Rightarrow> string \<Rightarrow> string option \<Rightarrow> (world, 'e, unit) op" where
  "count_job job status description =
     metric_increment ''accessiq_provisioning_jobs_total'' 1
       (Some [(''connector'', Some (pj_connector job)), (''operation'', Some (pj_operation job)),
              (''status'', Some status)]) description"

definition observe_job :: "provisioning_job \<Rightarrow> int \<Rightarrow> string option \<Rightarrow> (world, 'e, unit) op" where
  "observe_job job duration_ms description =
     metric_observe ''accessiq_provisioning_job_duration_seconds'' duration_ms
       (Some [(''connector'', Some (pj_connector job)), (''operation'', Some (pj_operation job)),
              (''status'', Some (pj_status job))]) description"

section \<open>The life of a job\<close>

definition create_job ::
  "string \<Rightarrow> string \<Rightarrow> string \<Rightarrow> string \<Rightarrow> string option \<Rightarrow> int \<Rightarrow> (world, 'e, provisioning_job) op" where
  "create_job correlation_id connector operation target_type target_id max_attempts =
     and_then utc_now (\<lambda>now.
     and_then (query db_jobs) (\<lambda>rows.
     and_then (new_key (map pj_id rows)) (\<lambda>key.
     let job = \<lparr>pj_id = key, pj_correlation_id = correlation_id, pj_connector = connector,
           pj_operation = operation, pj_target_type = target_type, pj_target_id = target_id,
           pj_status = provisioning_job_status_value Job_PENDING, pj_attempt_count = 0,
           pj_retry_count = 0, pj_max_attempts = max_attempts, pj_retryable = False,
           pj_last_error = None, pj_created_at = now, pj_started_at = None, pj_completed_at = None,
           pj_duration_ms = None\<rparr>
     in and_then (block [
       update_db (\<lambda>d. d\<lparr>db_jobs := db_jobs d @ [job]\<rparr>),
       add_history job H_JOB_CREATED (provisioning_job_status_value Job_PENDING)
         ''Provisioning job created'' 0 False None None,
       append_job_pending (JobEvent (ProvisioningJobCreated (pj_id job) (pj_correlation_id job)
         (pj_connector job) (pj_operation job))),
       count_job job (pj_status job)
         (Some ''Provisioning jobs grouped by connector, operation, and status.'')]) (\<lambda>_.
     ret job))))"

definition start_job :: "provisioning_job \<Rightarrow> int \<Rightarrow> (world, 'e, provisioning_job) op" where
  "start_job job attempt =
     and_then (if pj_started_at job = None then and_then utc_now (\<lambda>now. ret (Some now))
               else ret (pj_started_at job)) (\<lambda>started_at.
     let job = job\<lparr>pj_started_at := started_at, pj_status := provisioning_job_status_value Job_RUNNING,
                   pj_attempt_count := max (pj_attempt_count job) attempt\<rparr>
     in and_then (block [
       save_job job,
       add_history job H_JOB_STARTED (provisioning_job_status_value Job_RUNNING)
         (''Provisioning job started attempt '' @ str_int attempt) attempt False None None,
       append_job_pending (JobEvent (ProvisioningJobStarted (pj_id job) (pj_correlation_id job)
         (pj_connector job) (pj_operation job))),
       count_job job (pj_status job) None]) (\<lambda>_.
     ret job))"

definition complete_job ::
  "provisioning_job \<Rightarrow> string \<Rightarrow> string \<Rightarrow> int \<Rightarrow> int \<Rightarrow> bool \<Rightarrow> payload option \<Rightarrow>
   (world, 'e, provisioning_job) op" where
  "complete_job job status message attempt duration_ms retryable details =
     and_then utc_now (\<lambda>completed_at.
     let job = job\<lparr>pj_status := status, pj_attempt_count := max (pj_attempt_count job) attempt,
                   pj_retryable := retryable, pj_last_error := None,
                   pj_completed_at := Some completed_at, pj_duration_ms := Some duration_ms\<rparr>
     in and_then (block [
       save_job job,
       add_history job H_CONNECTOR_RESULT status message attempt retryable (Some duration_ms) details,
       add_history job H_JOB_COMPLETED status ''Provisioning job completed'' attempt retryable
         (Some duration_ms) None,
       append_job_pending (JobEvent (ProvisioningJobCompleted (pj_id job) (pj_correlation_id job)
         (pj_connector job) (pj_operation job) (pj_status job))),
       count_job job (pj_status job) None,
       observe_job job duration_ms (Some ''Provisioning job duration in seconds.'')]) (\<lambda>_.
     ret job))"

definition fail_job ::
  "provisioning_job \<Rightarrow> string \<Rightarrow> string \<Rightarrow> int \<Rightarrow> int \<Rightarrow> bool \<Rightarrow> payload option \<Rightarrow>
   (world, 'e, provisioning_job) op" where
  "fail_job job status message attempt duration_ms retryable details =
     and_then utc_now (\<lambda>completed_at.
     let job = job\<lparr>pj_status := status, pj_attempt_count := max (pj_attempt_count job) attempt,
                   pj_retryable := retryable, pj_last_error := Some message,
                   pj_completed_at := Some completed_at, pj_duration_ms := Some duration_ms\<rparr>
     in and_then (block [
       save_job job,
       add_history job H_CONNECTOR_RESULT status message attempt retryable (Some duration_ms) details,
       add_history job H_JOB_FAILED status ''Provisioning job failed'' attempt retryable
         (Some duration_ms) None,
       append_job_pending (JobEvent (ProvisioningJobFailed (pj_id job) (pj_correlation_id job)
         (pj_connector job) (pj_operation job) retryable message)),
       count_job job (pj_status job) None,
       observe_job job duration_ms None]) (\<lambda>_.
     ret job))"

definition record_retry ::
  "provisioning_job \<Rightarrow> int \<Rightarrow> int \<Rightarrow> int \<Rightarrow> string \<Rightarrow> (world, 'e, provisioning_job) op" where
  "record_retry job attempt next_attempt delay_ms reason =
     (let job = job\<lparr>pj_retry_count := pj_retry_count job + 1,
                    pj_attempt_count := max (pj_attempt_count job) attempt,
                    pj_retryable := True, pj_last_error := Some reason\<rparr>
      in and_then (block [
        save_job job,
        add_history job H_RETRY_RECORDED (provisioning_job_status_value Job_RETRYABLE) reason attempt True
          None (Some [(''next_attempt'', JInt next_attempt), (''delay_ms'', JInt delay_ms)]),
        append_job_pending (JobEvent (ProvisioningRetryRecorded (pj_id job) (pj_correlation_id job)
          (pj_connector job) (pj_operation job) attempt next_attempt delay_ms)),
        count_job job (provisioning_job_status_value Job_RETRYABLE) None]) (\<lambda>_.
      ret job))"

section \<open>Reading\<close>

record job_filters =
  jf_connector :: "string option"
  jf_operation :: "string option"
  jf_status :: "string option"
  jf_correlation_id :: "string option"
  jf_target_type :: "string option"
  jf_target_id :: "string option"

record history_filters =
  hf_job_id :: "int option"
  hf_connector :: "string option"
  hf_operation :: "string option"
  hf_event_type :: "string option"
  hf_status :: "string option"
  hf_correlation_id :: "string option"

definition matches_job_filters :: "job_filters \<Rightarrow> provisioning_job \<Rightarrow> bool" where
  "matches_job_filters f j \<longleftrightarrow>
     wanted (jf_connector f) (pj_connector j) \<and> wanted (jf_operation f) (pj_operation j) \<and>
     wanted (jf_status f) (pj_status j) \<and> wanted (jf_correlation_id f) (pj_correlation_id j) \<and>
     wanted (jf_target_type f) (pj_target_type j) \<and>
     (jf_target_id f = None \<or> jf_target_id f = pj_target_id j)"

definition matches_history_filters :: "history_filters \<Rightarrow> provisioning_history \<Rightarrow> bool" where
  "matches_history_filters f h \<longleftrightarrow>
     wanted (hf_job_id f) (ph_job_id h) \<and> wanted (hf_connector f) (ph_connector h) \<and>
     wanted (hf_operation f) (ph_operation h) \<and> wanted (hf_event_type f) (ph_event_type h) \<and>
     wanted (hf_status f) (ph_status h) \<and> wanted (hf_correlation_id f) (ph_correlation_id h)"

definition job_sort_fields :: "(string \<times> (provisioning_job \<Rightarrow> sort_value)) list" where
  "job_sort_fields =
     [(''id'', \<lambda>j. SInt (pj_id j)), (''created_at'', \<lambda>j. SInt (pj_created_at j)),
      (''started_at'', \<lambda>j. SOptInt (pj_started_at j)), (''completed_at'', \<lambda>j. SOptInt (pj_completed_at j)),
      (''connector'', \<lambda>j. SStr (pj_connector j)), (''operation'', \<lambda>j. SStr (pj_operation j)),
      (''status'', \<lambda>j. SStr (pj_status j))]"

definition history_sort_fields :: "(string \<times> (provisioning_history \<Rightarrow> sort_value)) list" where
  "history_sort_fields =
     [(''id'', \<lambda>h. SInt (ph_id h)), (''created_at'', \<lambda>h. SInt (ph_created_at h)),
      (''connector'', \<lambda>h. SStr (ph_connector h)), (''operation'', \<lambda>h. SStr (ph_operation h)),
      (''event_type'', \<lambda>h. SStr (ph_event_type h)), (''status'', \<lambda>h. SStr (ph_status h))]"

definition lookup_job :: "int \<Rightarrow> provisioning_job wop" where
  "lookup_job job_id =
     and_then (query (\<lambda>d. row_by pj_id job_id (db_jobs d))) (\<lambda>found.
     from_option (ProvisioningJobExn (ProvisioningJobNotFoundError job_id)) found)"

text \<open>
  The queries order by the field alone: \<open>tie\<close> is the order the database gives to rows that
  agree in it.
\<close>

definition apply_sorting ::
  "(string \<times> ('r \<Rightarrow> sort_value)) list \<Rightarrow> ('r \<Rightarrow> int) \<Rightarrow> string option \<Rightarrow> string \<Rightarrow> exn + ('r list \<Rightarrow> 'r list)" where
  "apply_sorting sort_fields tie sort_by sort_order =
     (let field = (case sort_by of None \<Rightarrow> ''created_at'' | Some f \<Rightarrow> if f = '''' then ''created_at'' else f) in
      if sort_order \<notin> set SUPPORTED_SORT_ORDERS
      then Inl (ProvisioningJobExn (UnsupportedProvisioningSortOrderError sort_order))
      else case map_of sort_fields field of
             None \<Rightarrow> Inl (ProvisioningJobExn (UnsupportedProvisioningSortFieldError field))
           | Some key \<Rightarrow> Inr (order_rows key tie (sort_order = ''descending'')))"

definition list_jobs ::
  "(provisioning_job \<Rightarrow> int) \<Rightarrow> job_filters \<Rightarrow> nat \<Rightarrow> nat \<Rightarrow> string option \<Rightarrow> string \<Rightarrow> provisioning_job list wop" where
  "list_jobs tie filters offset limit sort_by sort_order =
     (case apply_sorting job_sort_fields tie sort_by sort_order of
        Inl e \<Rightarrow> raise e
      | Inr order \<Rightarrow> query (\<lambda>d. page offset limit (order (filter (matches_job_filters filters) (db_jobs d)))))"

definition list_history ::
  "(provisioning_history \<Rightarrow> int) \<Rightarrow> history_filters \<Rightarrow> nat \<Rightarrow> nat \<Rightarrow> string option \<Rightarrow> string \<Rightarrow>
   provisioning_history list wop" where
  "list_history tie filters offset limit sort_by sort_order =
     (case apply_sorting history_sort_fields tie sort_by sort_order of
        Inl e \<Rightarrow> raise e
      | Inr order \<Rightarrow> query (\<lambda>d. page offset limit (order (filter (matches_history_filters filters) (db_history d)))))"

section \<open>What the operations do\<close>

definition history_row ::
  "provisioning_job \<Rightarrow> history_event_type \<Rightarrow> string \<Rightarrow> string \<Rightarrow> int \<Rightarrow> bool \<Rightarrow> int option \<Rightarrow>
   payload option \<Rightarrow> world \<Rightarrow> provisioning_history" where
  "history_row job ty status message attempt retryable duration details s =
     \<lparr>ph_id = env_key (w_env s) (map ph_id (db_history (w_db s))), ph_job_id = pj_id job,
      ph_correlation_id = pj_correlation_id job, ph_connector = pj_connector job,
      ph_operation = pj_operation job, ph_event_type = history_event_type_value ty, ph_status = status,
      ph_message = message, ph_attempt = attempt, ph_retryable = retryable, ph_duration_ms = duration,
      ph_details = serialize_details details, ph_created_at = env_clock (w_env s) (w_clock_reads s)\<rparr>"

lemma history_row_sel [simp]:
  "ph_job_id (history_row j ty st m a r du de s) = pj_id j"
  "ph_event_type (history_row j ty st m a r du de s) = history_event_type_value ty"
  "ph_status (history_row j ty st m a r du de s) = st"
  "ph_attempt (history_row j ty st m a r du de s) = a"
  by (simp_all add: history_row_def)

lemma run_add_history [simp]:
  "add_history j ty st m a r du de s = (Inr (), s\<lparr>w_clock_reads := Suc (w_clock_reads s),
     w_db := (w_db s)\<lparr>db_history := db_history (w_db s) @ [history_row j ty st m a r du de s]\<rparr>\<rparr>)"
  by (simp add: add_history_def record_history_def history_row_def run_ops Let_def)

text \<open>What a history row tells: the kind of event, the status and the number of the attempt.\<close>

definition history_entry :: "provisioning_history \<Rightarrow> string \<times> string \<times> int" where
  "history_entry h = (ph_event_type h, ph_status h, ph_attempt h)"

lemma history_entry_row [simp]:
  "history_entry (history_row j ty st m a r du de s) = (history_event_type_value ty, st, a)"
  by (simp add: history_entry_def)

text \<open>
  \<open>tracks s0 j hs s\<close>: since \<open>s0\<close> the database has gained the job \<open>j\<close> (as it is now), the
  history rows \<open>hs\<close>, all of that job, and some audit events; nothing else has changed.
\<close>

definition quiet :: "db \<Rightarrow> db" where
  "quiet d = d\<lparr>db_jobs := [], db_history := [], db_audit := []\<rparr>"

definition tracks :: "world \<Rightarrow> provisioning_job \<Rightarrow> provisioning_history list \<Rightarrow> world \<Rightarrow> bool" where
  "tracks s0 j hs s \<longleftrightarrow>
     pj_id j \<notin> pj_id ` set (db_jobs (w_db s0)) \<and> (\<forall>h \<in> set hs. ph_job_id h = pj_id j) \<and>
     db_jobs (w_db s) = db_jobs (w_db s0) @ [j] \<and> db_history (w_db s) = db_history (w_db s0) @ hs \<and>
     prefix (db_audit (w_db s0)) (db_audit (w_db s)) \<and> quiet (w_db s) = quiet (w_db s0) \<and>
     w_env s = w_env s0 \<and> w_context s = w_context s0"

definition core :: "world \<Rightarrow> db \<times> environment \<times> request_context option" where
  "core s = (w_db s, w_env s, w_context s)"

lemma tracks_core: "core t = core s \<Longrightarrow> tracks s0 j hs s \<Longrightarrow> tracks s0 j hs t"
  by (simp add: tracks_def core_def)

lemma returns_tracks:
  "no_raise m \<Longrightarrow> keeps (same core) m \<Longrightarrow> tracks s0 j hs s \<Longrightarrow> returns m s (\<lambda>_. tracks s0 j hs)"
  by (rule returns_mono [OF returns_same]) (auto intro: tracks_core)

lemma put_row_snoc:
  "key r \<notin> key ` set rows \<Longrightarrow> key r' = key r \<Longrightarrow> put_row key r' (rows @ [r]) = rows @ [r']"
  by (induction rows) (auto simp: put_row_def)

lemma tracks_save:
  "tracks s0 j hs s \<Longrightarrow> pj_id j' = pj_id j \<Longrightarrow> returns (save_job j') s (\<lambda>_. tracks s0 j' hs)"
  by (simp add: tracks_def save_job_def returns_def put_row_snoc quiet_def)

lemma tracks_add_history:
  "tracks s0 j hs s \<Longrightarrow> pj_id j' = pj_id j \<Longrightarrow>
   returns (add_history j' ty st m a r du de) s
     (\<lambda>_ t. \<exists>h. tracks s0 j (hs @ [h]) t \<and> history_entry h = (history_event_type_value ty, st, a))"
  by (simp add: returns_def)
     (auto simp: tracks_def quiet_def intro!: exI [of _ "history_row j' ty st m a r du de s"])

lemma core_simps [simp]:
  "core (s\<lparr>w_clock_reads := n\<rparr>) = core s" "core (s\<lparr>w_perf_reads := n\<rparr>) = core s"
  "core (s\<lparr>w_metrics := m\<rparr>) = core s" "core (s\<lparr>w_job_pending := p\<rparr>) = core s"
  "core (s\<lparr>w_pending := p\<rparr>) = core s" "core (s\<lparr>w_published := p\<rparr>) = core s"
  "core (s\<lparr>w_connectors := r\<rparr>) = core s" "core (s\<lparr>w_uuid_reads := n\<rparr>) = core s"
  by (simp_all add: core_def)

lemma keeps_count_job [op_intro]:
  "keeps (same core) (count_job j st d)" "keeps (same core) (observe_job j n d)"
  by (auto simp: count_job_def observe_job_def intro!: op_intro)

lemma no_raise_count_job [op_intro]: "no_raise (count_job j st d)" "no_raise (observe_job j n d)"
  by (auto simp: count_job_def observe_job_def intro!: op_intro)

text \<open>
  The shape every operation has: the changed job is saved, one or two history rows are added,
  and then come statements that leave the database alone.
\<close>

lemma save_log_tracks:
  assumes "tracks s0 j hs s" and "pj_id j' = pj_id j"
    and "no_raise (block ms)" and "keeps (same core) (block ms)"
  shows "returns (block (save_job j' # add_history j' ty st m a r du de # ms)) s
     (\<lambda>_ t. \<exists>h. tracks s0 j' (hs @ [h]) t \<and> history_entry h = (history_event_type_value ty, st, a))"
proof (rule returns_block_Cons [OF tracks_save [OF assms(1,2)]])
  fix t assume t: "tracks s0 j' hs t"
  show "returns (block (add_history j' ty st m a r du de # ms)) t
     (\<lambda>_ t. \<exists>h. tracks s0 j' (hs @ [h]) t \<and> history_entry h = (history_event_type_value ty, st, a))"
    by (rule returns_block_Cons [OF tracks_add_history [OF t refl]])
       (blast intro: returns_mono [OF returns_tracks [OF assms(3,4)]])
qed

lemma save_log2_tracks:
  assumes "tracks s0 j hs s" and "pj_id j' = pj_id j"
    and "no_raise (block ms)" and "keeps (same core) (block ms)"
  shows "returns (block (save_job j' # add_history j' ty st m a r du de #
            add_history j' ty' st' m' a' r' du' de' # ms)) s
     (\<lambda>_ t. \<exists>h h'. tracks s0 j' (hs @ [h, h']) t \<and> history_entry h = (history_event_type_value ty, st, a) \<and>
        history_entry h' = (history_event_type_value ty', st', a'))"
proof (rule returns_block_Cons [OF tracks_save [OF assms(1,2)]])
  fix t assume t: "tracks s0 j' hs t"
  show "returns (block (add_history j' ty st m a r du de # add_history j' ty' st' m' a' r' du' de' # ms)) t
     (\<lambda>_ t. \<exists>h h'. tracks s0 j' (hs @ [h, h']) t \<and> history_entry h = (history_event_type_value ty, st, a) \<and>
        history_entry h' = (history_event_type_value ty', st', a'))"
  proof (rule returns_block_Cons [OF tracks_add_history [OF t refl]], elim exE conjE)
    fix u h assume u: "tracks s0 j' (hs @ [h]) u" "history_entry h = (history_event_type_value ty, st, a)"
    show "returns (block (add_history j' ty' st' m' a' r' du' de' # ms)) u
     (\<lambda>_ t. \<exists>h h'. tracks s0 j' (hs @ [h, h']) t \<and> history_entry h = (history_event_type_value ty, st, a) \<and>
        history_entry h' = (history_event_type_value ty', st', a'))"
    proof (rule returns_block_Cons [OF tracks_add_history [OF u(1) refl]], elim exE conjE)
      fix v h' assume v: "tracks s0 j' ((hs @ [h]) @ [h']) v" "history_entry h' = (history_event_type_value ty', st', a')"
      show "returns (block ms) v (\<lambda>_ t. \<exists>h h'. tracks s0 j' (hs @ [h, h']) t \<and>
          history_entry h = (history_event_type_value ty, st, a) \<and> history_entry h' = (history_event_type_value ty', st', a'))"
        by (rule returns_mono [OF returns_tracks [OF assms(3,4) v(1)]])
           (use u(2) v(2) in \<open>simp; blast\<close>)
    qed
  qed
qed

lemma start_job_tracks:
  assumes "tracks s0 j hs s"
  shows "returns (start_job j a) s (\<lambda>j' t. \<exists>h. tracks s0 j' (hs @ [h]) t \<and>
     history_entry h = (history_event_type_value H_JOB_STARTED, provisioning_job_status_value Job_RUNNING, a) \<and> pj_id j' = pj_id j \<and>
     pj_attempt_count j' = max (pj_attempt_count j) a \<and> pj_retry_count j' = pj_retry_count j \<and>
     pj_max_attempts j' = pj_max_attempts j \<and> pj_connector j' = pj_connector j)"
  unfolding start_job_def
proof (rule returns_and_then)
  show "returns (if pj_started_at j = None then and_then utc_now (\<lambda>now. ret (Some now))
               else ret (pj_started_at j)) s (\<lambda>_. tracks s0 j hs)"
    by (rule returns_tracks [OF _ _ assms]) (auto intro!: op_intro)
  fix st t assume "tracks s0 j hs t"
  then show "returns (let job = j\<lparr>pj_started_at := st, pj_status := provisioning_job_status_value Job_RUNNING,
        pj_attempt_count := max (pj_attempt_count j) a\<rparr>
     in and_then (block [save_job job,
          add_history job H_JOB_STARTED (provisioning_job_status_value Job_RUNNING)
            (''Provisioning job started attempt '' @ str_int a) a False None None,
          append_job_pending (JobEvent (ProvisioningJobStarted (pj_id job) (pj_correlation_id job)
            (pj_connector job) (pj_operation job))),
          count_job job (pj_status job) None]) (\<lambda>_. ret job)) t
     (\<lambda>j' t. \<exists>h. tracks s0 j' (hs @ [h]) t \<and>
     history_entry h = (history_event_type_value H_JOB_STARTED, provisioning_job_status_value Job_RUNNING, a) \<and> pj_id j' = pj_id j \<and>
     pj_attempt_count j' = max (pj_attempt_count j) a \<and> pj_retry_count j' = pj_retry_count j \<and>
     pj_max_attempts j' = pj_max_attempts j \<and> pj_connector j' = pj_connector j)"
    unfolding Let_def
    by (intro returns_and_then [OF save_log_tracks]) (auto intro!: op_intro simp del: block.simps)
qed

text \<open>What a finished job says: the status and the outcome of the attempt that ended it.\<close>

definition ended ::
  "provisioning_job \<Rightarrow> string \<Rightarrow> int \<Rightarrow> bool \<Rightarrow> string option \<Rightarrow> provisioning_job \<Rightarrow> bool" where
  "ended j status attempt retryable last_error j' \<longleftrightarrow>
     pj_id j' = pj_id j \<and> pj_status j' = status \<and> pj_attempt_count j' = max (pj_attempt_count j) attempt \<and>
     pj_retry_count j' = pj_retry_count j \<and> pj_max_attempts j' = pj_max_attempts j \<and>
     pj_connector j' = pj_connector j \<and> pj_retryable j' = retryable \<and> pj_last_error j' = last_error \<and>
     pj_completed_at j' \<noteq> None \<and> pj_duration_ms j' \<noteq> None"

lemma complete_job_tracks:
  assumes "tracks s0 j hs s"
  shows "returns (complete_job j st m a du r de) s (\<lambda>j' t. \<exists>h h'. tracks s0 j' (hs @ [h, h']) t \<and>
     history_entry h = (history_event_type_value H_CONNECTOR_RESULT, st, a) \<and>
     history_entry h' = (history_event_type_value H_JOB_COMPLETED, st, a) \<and> ended j st a r None j')"
  unfolding complete_job_def Let_def
  apply (rule returns_and_then [OF returns_tracks [OF _ _ assms]])
    apply (auto intro!: op_intro) [2]
  apply (erule returns_and_then [OF save_log2_tracks])
     apply (auto intro!: op_intro simp del: block.simps) [3]
  apply (auto simp: ended_def simp del: block.simps)
  done

lemma fail_job_tracks:
  assumes "tracks s0 j hs s"
  shows "returns (fail_job j st m a du r de) s (\<lambda>j' t. \<exists>h h'. tracks s0 j' (hs @ [h, h']) t \<and>
     history_entry h = (history_event_type_value H_CONNECTOR_RESULT, st, a) \<and>
     history_entry h' = (history_event_type_value H_JOB_FAILED, st, a) \<and> ended j st a r (Some m) j')"
  unfolding fail_job_def Let_def
  apply (rule returns_and_then [OF returns_tracks [OF _ _ assms]])
    apply (auto intro!: op_intro) [2]
  apply (erule returns_and_then [OF save_log2_tracks])
     apply (auto intro!: op_intro simp del: block.simps) [3]
  apply (auto simp: ended_def simp del: block.simps)
  done

lemma record_retry_tracks:
  assumes "tracks s0 j hs s"
  shows "returns (record_retry j a n d m) s (\<lambda>j' t. \<exists>h. tracks s0 j' (hs @ [h]) t \<and>
     history_entry h = (history_event_type_value H_RETRY_RECORDED, provisioning_job_status_value Job_RETRYABLE, a) \<and> pj_id j' = pj_id j \<and>
     pj_attempt_count j' = max (pj_attempt_count j) a \<and> pj_retry_count j' = pj_retry_count j + 1 \<and>
     pj_max_attempts j' = pj_max_attempts j \<and> pj_connector j' = pj_connector j)"
  unfolding record_retry_def Let_def
  by (intro returns_and_then [OF save_log_tracks [OF assms]]) (auto intro!: op_intro simp del: block.simps)

lemma create_job_tracks:
  assumes "fresh_keys (w_env s)"
  shows "returns (create_job co cn op' ty ti ma) s (\<lambda>j t. \<exists>h. tracks s j [h] t \<and>
     history_entry h = (history_event_type_value H_JOB_CREATED, provisioning_job_status_value Job_PENDING, 0) \<and> pj_attempt_count j = 0 \<and>
     pj_retry_count j = 0 \<and> pj_max_attempts j = ma \<and> pj_connector j = cn \<and>
     pj_status j = provisioning_job_status_value Job_PENDING)"
  using fresh_keys_map [OF assms, of pj_id "db_jobs (w_db s)"]
  by (simp add: create_job_def run_ops Let_def returns_def count_job_def metric_increment_def)
     (auto simp: tracks_def quiet_def)

end
