(* ===== verification/Connectors.thy ===== *)
theory Connectors
  imports Store
begin

text \<open>
  The connector framework of \<open>app/connectors\<close>: the calls of the abstract base class
  (\<open>base.py\<close>), results (\<open>results.py\<close>), the mock connector every shipped connector derives
  from (\<open>mock.py\<close>), the registry (\<open>registry.py\<close>) and the retry policy (\<open>retry.py\<close>).
  A connector object lives in the registry of the world under its normalised name; calling it
  changes only its attempt counters, the clocks and nothing else.
\<close>

section \<open>Calls and results\<close>

datatype connector_call =
    CreateUser payload
  | UpdateUser string payload
  | DisableUser string
  | DeleteUser string
  | CreateGroup payload
  | UpdateGroup string payload
  | DeleteGroup string
  | AddGroupMember string string
  | RemoveGroupMember string string
  | GrantEntitlement string payload
  | RevokeEntitlement string payload

record connector_result =
  cr_connector :: string
  cr_operation :: connector_operation
  cr_status :: connector_status
  cr_message :: string
  cr_timestamp :: int
  cr_duration_ms :: int
  cr_retryable :: bool
  cr_correlation_id :: "string option"
  cr_details :: payload

record connector_health =
  ch_connector :: string
  ch_status :: connector_health_status
  ch_message :: string
  ch_timestamp :: int
  ch_details :: payload

definition result_success ::
  "string \<Rightarrow> connector_operation \<Rightarrow> string \<Rightarrow> int \<Rightarrow> string option \<Rightarrow> payload \<Rightarrow> (world, 'e, connector_result) op" where
  "result_success connector operation message duration_ms correlation_id details =
     and_then utc_now (\<lambda>now. ret
       \<lparr>cr_connector = connector, cr_operation = operation, cr_status = Connector_SUCCESS,
        cr_message = message, cr_timestamp = now, cr_duration_ms = duration_ms, cr_retryable = False,
        cr_correlation_id = correlation_id, cr_details = details\<rparr>)"

definition result_skipped ::
  "string \<Rightarrow> connector_operation \<Rightarrow> string \<Rightarrow> string option \<Rightarrow> payload \<Rightarrow> (world, 'e, connector_result) op" where
  "result_skipped connector operation message correlation_id details =
     and_then utc_now (\<lambda>now. ret
       \<lparr>cr_connector = connector, cr_operation = operation, cr_status = Connector_SKIPPED,
        cr_message = message, cr_timestamp = now, cr_duration_ms = 0, cr_retryable = False,
        cr_correlation_id = correlation_id, cr_details = details\<rparr>)"

definition result_failed ::
  "string \<Rightarrow> connector_operation \<Rightarrow> string \<Rightarrow> bool \<Rightarrow> string option \<Rightarrow> int \<Rightarrow> payload \<Rightarrow>
   (world, 'e, connector_result) op" where
  "result_failed connector operation message retryable correlation_id duration_ms details =
     and_then utc_now (\<lambda>now. ret
       \<lparr>cr_connector = connector, cr_operation = operation,
        cr_status = (if retryable then Connector_RETRYABLE else Connector_FAILED),
        cr_message = message, cr_timestamp = now, cr_duration_ms = duration_ms, cr_retryable = retryable,
        cr_correlation_id = correlation_id, cr_details = details\<rparr>)"

section \<open>Exceptions of connectors\<close>

definition connector_exn ::
  "connector_error_class \<Rightarrow> string \<Rightarrow> string option \<Rightarrow> string option \<Rightarrow> payload \<Rightarrow> exn" where
  "connector_exn cls message connector operation details =
     ConnectorExn \<lparr>ce_class = cls, ce_message = message, ce_connector = connector,
       ce_operation = operation, ce_details = details\<rparr>"

text \<open>The class hierarchy below \<open>ConnectorError\<close>, and the class attribute \<open>retryable\<close>.\<close>

fun base_classes :: "connector_error_class \<Rightarrow> connector_error_class list" where
  "base_classes ConnectorError = [ConnectorError]"
| "base_classes RateLimitError = [RateLimitError, RetryableConnectorError, ConnectorError]"
| "base_classes TimeoutError = [TimeoutError, RetryableConnectorError, ConnectorError]"
| "base_classes UnknownConnectorError = [UnknownConnectorError, ConfigurationError, ConnectorError]"
| "base_classes c = [c, ConnectorError]"

definition retryable_class :: "connector_error_class \<Rightarrow> bool" where
  "retryable_class c \<longleftrightarrow> RetryableConnectorError \<in> set (base_classes c)"

fun exn_retryable :: "exn \<Rightarrow> bool" where
  "exn_retryable (ConnectorExn e) = retryable_class (ce_class e)"
| "exn_retryable _ = False"

fun exn_details :: "exn \<Rightarrow> payload" where
  "exn_details (ConnectorExn e) = ce_details e"
| "exn_details _ = []"

section \<open>Mock connectors\<close>

definition MUTATING_CONNECTOR_OPERATIONS :: "connector_operation list" where
  "MUTATING_CONNECTOR_OPERATIONS = filter (\<lambda>operation. operation \<noteq> Op_HEALTH_CHECK) connector_operation_members"

definition new_mock_connector ::
  "string \<Rightarrow> string \<Rightarrow> bool \<Rightarrow> simulation_mode \<Rightarrow> int \<Rightarrow> connector_operation list \<Rightarrow> exn + mock_connector" where
  "new_mock_connector name display_name enabled simulation_mode failures_before_success supported_operations =
     (if failures_before_success < 0
      then Inl (ValueError ''failures_before_success cannot be negative'')
      else Inr \<lparr>mk_name = name, mk_display_name = display_name, mk_enabled = enabled,
                mk_simulation_mode = simulation_mode, mk_failures_before_success = failures_before_success,
                mk_supported_operations = supported_operations, mk_attempts = []\<rparr>)"

definition health_check :: "mock_connector \<Rightarrow> (world, 'e, connector_health) op" where
  "health_check c = and_then utc_now (\<lambda>now.
     let mode = mk_simulation_mode c;
         health = (\<lambda>status message details.
           \<lparr>ch_connector = mk_name c, ch_status = status, ch_message = mk_display_name c @ message,
            ch_timestamp = now, ch_details = details\<rparr>)
     in ret (
       if \<not> mk_enabled c
       then health Health_UNAVAILABLE '' connector is disabled'' [(''enabled'', JBool False)]
       else if mode = Mode_DEGRADED
       then health Health_DEGRADED '' connector is degraded'' [(''simulation_mode'', JStr (simulation_mode_value mode))]
       else if mode \<in> {Mode_UNAVAILABLE, Mode_TIMEOUT}
       then health Health_UNAVAILABLE '' connector is unavailable'' [(''simulation_mode'', JStr (simulation_mode_value mode))]
       else health Health_HEALTHY '' connector is healthy'' [(''simulation_mode'', JStr (simulation_mode_value mode))]))"

text \<open>What each method passes to \<open>_execute\<close>.\<close>

fun call_operation :: "connector_call \<Rightarrow> connector_operation" where
  "call_operation (CreateUser user) = Op_CREATE_USER"
| "call_operation (UpdateUser user_id user) = Op_UPDATE_USER"
| "call_operation (DisableUser user_id) = Op_DISABLE_USER"
| "call_operation (DeleteUser user_id) = Op_DELETE_USER"
| "call_operation (CreateGroup grp) = Op_CREATE_GROUP"
| "call_operation (UpdateGroup group_id grp) = Op_UPDATE_GROUP"
| "call_operation (DeleteGroup group_id) = Op_DELETE_GROUP"
| "call_operation (AddGroupMember group_id user_id) = Op_ADD_GROUP_MEMBER"
| "call_operation (RemoveGroupMember group_id user_id) = Op_REMOVE_GROUP_MEMBER"
| "call_operation (GrantEntitlement user_id entitlement) = Op_GRANT_ENTITLEMENT"
| "call_operation (RevokeEntitlement user_id entitlement) = Op_REVOKE_ENTITLEMENT"

fun call_payload :: "connector_call \<Rightarrow> payload" where
  "call_payload (CreateUser user) = user"
| "call_payload (UpdateUser user_id user) = [(''user_id'', JStr user_id), (''user'', JObj user)]"
| "call_payload (DisableUser user_id) = [(''user_id'', JStr user_id)]"
| "call_payload (DeleteUser user_id) = [(''user_id'', JStr user_id)]"
| "call_payload (CreateGroup grp) = grp"
| "call_payload (UpdateGroup group_id grp) = [(''group_id'', JStr group_id), (''group'', JObj grp)]"
| "call_payload (DeleteGroup group_id) = [(''group_id'', JStr group_id)]"
| "call_payload (AddGroupMember group_id user_id) = [(''group_id'', JStr group_id), (''user_id'', JStr user_id)]"
| "call_payload (RemoveGroupMember group_id user_id) = [(''group_id'', JStr group_id), (''user_id'', JStr user_id)]"
| "call_payload (GrantEntitlement user_id entitlement) =
     [(''user_id'', JStr user_id), (''entitlement'', JObj entitlement)]"
| "call_payload (RevokeEntitlement user_id entitlement) =
     [(''user_id'', JStr user_id), (''entitlement'', JObj entitlement)]"

definition attempt_key :: "connector_operation \<Rightarrow> string option \<Rightarrow> string" where
  "attempt_key operation correlation_id =
     connector_operation_value operation @ '':'' @
     (case correlation_id of None \<Rightarrow> ''default'' | Some c \<Rightarrow> if c = '''' then ''default'' else c)"

definition recorded_attempt :: "mock_connector \<Rightarrow> connector_operation \<Rightarrow> string option \<Rightarrow> int" where
  "recorded_attempt c operation correlation_id =
     dict_get 0 (mk_attempts c) (attempt_key operation correlation_id) + 1"

text \<open>\<open>key\<close> is the registry name of the connector object.\<close>

definition record_attempt ::
  "string \<Rightarrow> mock_connector \<Rightarrow> connector_operation \<Rightarrow> string option \<Rightarrow> (world, 'e, int) op" where
  "record_attempt key c operation correlation_id =
     (let attempt = recorded_attempt c operation correlation_id;
          c' = c\<lparr>mk_attempts := dict_set (attempt_key operation correlation_id) attempt (mk_attempts c)\<rparr>
      in and_then (modify (\<lambda>s. s\<lparr>w_connectors := dict_set key c' (w_connectors s)\<rparr>)) (\<lambda>_. ret attempt))"

definition raise_for_simulation :: "mock_connector \<Rightarrow> connector_operation \<Rightarrow> exn option" where
  "raise_for_simulation c operation =
     (let exn = (\<lambda>cls message details.
            connector_exn cls message (Some (mk_name c)) (Some (connector_operation_value operation)) details)
      in case mk_simulation_mode c of
           Mode_VALIDATION_FAILURE \<Rightarrow> Some (exn ValidationError ''Simulated validation failure'' [])
         | Mode_TIMEOUT \<Rightarrow> Some (exn TimeoutError ''Simulated connector timeout'' [])
         | Mode_RATE_LIMIT \<Rightarrow>
             Some (exn RateLimitError ''Simulated connector rate limit'' [(''retry_after_ms'', JInt 1000)])
         | Mode_RETRYABLE_FAILURE \<Rightarrow> Some (exn RetryableConnectorError ''Simulated retryable failure'' [])
         | Mode_NON_RETRYABLE_FAILURE \<Rightarrow> Some (exn ConnectorError ''Simulated non-retryable failure'' [])
         | Mode_UNAVAILABLE \<Rightarrow> Some (exn RetryableConnectorError ''Simulated connector unavailable'' [])
         | _ \<Rightarrow> None)"

definition mock_execute ::
  "string \<Rightarrow> mock_connector \<Rightarrow> connector_operation \<Rightarrow> payload \<Rightarrow> string option \<Rightarrow> connector_result wop" where
  "mock_execute key c operation payload correlation_id =
     (if operation \<notin> set (mk_supported_operations c)
      then raise (connector_exn UnsupportedConnectorOperationError
             (''Connector '' @ str_repr (mk_name c) @ '' does not support operation '' @
              str_repr (connector_operation_value operation))
             (Some (mk_name c)) (Some (connector_operation_value operation)) [])
      else if \<not> mk_enabled c
      then result_skipped (mk_name c) operation (mk_display_name c @ '' connector is disabled'')
             correlation_id [(''enabled'', JBool False)]
      else
      and_then perf_counter (\<lambda>started_at.
      and_then (record_attempt key c operation correlation_id) (\<lambda>attempt.
      if attempt \<le> mk_failures_before_success c
      then raise (connector_exn RetryableConnectorError ''Simulated retryable failure before success''
             (Some (mk_name c)) (Some (connector_operation_value operation)) [(''attempt'', JInt attempt)])
      else case raise_for_simulation c operation of
        Some e \<Rightarrow> raise e
      | None \<Rightarrow>
        and_then perf_counter (\<lambda>finished_at.
        result_success (mk_name c) operation
          (mk_display_name c @ '' '' @ connector_operation_value operation @ '' simulated successfully'')
          (finished_at - started_at) correlation_id
          [(''payload'', JObj payload), (''attempt'', JInt attempt),
           (''simulation_mode'', JStr (simulation_mode_value (mk_simulation_mode c)))]))))"

section \<open>The registry\<close>

definition normalize_connector_name :: "string \<Rightarrow> string" where
  "normalize_connector_name name = lower (strip name)"

definition registry_register ::
  "mock_connector \<Rightarrow> (string \<times> mock_connector) list \<Rightarrow> exn + (string \<times> mock_connector) list" where
  "registry_register c r =
     (let name = normalize_connector_name (mk_name c) in
      if map_of r name \<noteq> None
      then Inl (connector_exn ConfigurationError
             (''Connector '' @ str_repr name @ '' is already registered'') None None [])
      else Inr (dict_set name c r))"

definition unknown_connector :: "string \<Rightarrow> exn" where
  "unknown_connector name =
     connector_exn UnknownConnectorError (''Unknown connector: '' @ name) (Some name) None []"

definition registry_get :: "string \<Rightarrow> (string \<times> mock_connector) list \<Rightarrow> exn + mock_connector" where
  "registry_get name r =
     (case map_of r (normalize_connector_name name) of
        None \<Rightarrow> Inl (unknown_connector name)
      | Some c \<Rightarrow> Inr c)"

definition registry_list :: "(string \<times> mock_connector) list \<Rightarrow> mock_connector list" where
  "registry_list r = map (\<lambda>name. the (map_of r name)) (sort (map fst r))"

definition registry_exists :: "string \<Rightarrow> (string \<times> mock_connector) list \<Rightarrow> bool" where
  "registry_exists name r \<longleftrightarrow> normalize_connector_name name \<in> set (map fst r)"

fun register_all ::
  "mock_connector list \<Rightarrow> (string \<times> mock_connector) list \<Rightarrow> exn + (string \<times> mock_connector) list" where
  "register_all [] r = Inr r"
| "register_all (c # cs) r =
     (case registry_register c r of Inl e \<Rightarrow> Inl e | Inr r' \<Rightarrow> register_all cs r')"

text \<open>The four connectors of the settings, each a mock connector with its defaults.\<close>

record connector_settings =
  enable_salesforce_connector :: bool
  enable_github_connector :: bool
  enable_zendesk_connector :: bool
  enable_finance_connector :: bool

definition shipped_connector :: "string \<Rightarrow> string \<Rightarrow> mock_connector" where
  "shipped_connector name display_name =
     \<lparr>mk_name = name, mk_display_name = display_name, mk_enabled = True,
      mk_simulation_mode = Mode_SUCCESS, mk_failures_before_success = 0,
      mk_supported_operations = MUTATING_CONNECTOR_OPERATIONS, mk_attempts = []\<rparr>"

definition build_connector_registry :: "connector_settings \<Rightarrow> exn + (string \<times> mock_connector) list" where
  "build_connector_registry settings = register_all
     ((if enable_salesforce_connector settings then [shipped_connector ''salesforce'' ''Salesforce''] else []) @
      (if enable_github_connector settings then [shipped_connector ''github'' ''GitHub''] else []) @
      (if enable_zendesk_connector settings then [shipped_connector ''zendesk'' ''Zendesk''] else []) @
      (if enable_finance_connector settings then [shipped_connector ''finance'' ''Finance''] else [])) []"

text \<open>A method call on the connector object registered under a name.\<close>

definition mock_invoke :: "string \<Rightarrow> connector_call \<Rightarrow> string option \<Rightarrow> connector_result wop" where
  "mock_invoke key call correlation_id =
     and_then (gets (\<lambda>s. map_of (w_connectors s) key)) (\<lambda>found.
     and_then (from_option (unknown_connector key) found) (\<lambda>c.
     mock_execute key c (call_operation call) (call_payload call) correlation_id))"

section \<open>The retry policy\<close>

record retry_policy =
  rp_max_attempts :: int
  rp_base_delay_ms :: int
  rp_max_delay_ms :: int
  rp_retryable_exception_types :: "connector_error_class list"

record retry_decision =
  rd_should_retry :: bool
  rd_attempt :: int
  rd_next_attempt :: "int option"
  rd_delay_ms :: int
  rd_reason :: string

definition new_retry_policy ::
  "int \<Rightarrow> int \<Rightarrow> int \<Rightarrow> connector_error_class list \<Rightarrow> exn + retry_policy" where
  "new_retry_policy max_attempts base_delay_ms max_delay_ms types =
     (if max_attempts < 1 then Inl (ValueError ''max_attempts must be at least 1'')
      else if base_delay_ms < 0 then Inl (ValueError ''base_delay_ms cannot be negative'')
      else if max_delay_ms < base_delay_ms
        then Inl (ValueError ''max_delay_ms must be greater than base_delay_ms'')
      else Inr \<lparr>rp_max_attempts = max_attempts, rp_base_delay_ms = base_delay_ms,
                rp_max_delay_ms = max_delay_ms, rp_retryable_exception_types = types\<rparr>)"

definition default_retry_policy :: retry_policy where
  "default_retry_policy = \<lparr>rp_max_attempts = 3, rp_base_delay_ms = 100, rp_max_delay_ms = 1000,
     rp_retryable_exception_types = [RetryableConnectorError]\<rparr>"

fun isinstance :: "exn \<Rightarrow> connector_error_class list \<Rightarrow> bool" where
  "isinstance (ConnectorExn e) types = (\<exists>t \<in> set types. t \<in> set (base_classes (ce_class e)))"
| "isinstance _ types = False"

definition is_retryable_exception :: "retry_policy \<Rightarrow> exn \<Rightarrow> bool" where
  "is_retryable_exception p e \<longleftrightarrow> isinstance e (rp_retryable_exception_types p) \<or> exn_retryable e"

definition should_retry :: "retry_policy \<Rightarrow> exn \<Rightarrow> int \<Rightarrow> bool" where
  "should_retry p e attempt \<longleftrightarrow> is_retryable_exception p e \<and> attempt < rp_max_attempts p"

definition next_delay_ms :: "retry_policy \<Rightarrow> int \<Rightarrow> exn + int" where
  "next_delay_ms p attempt =
     (if attempt < 1 then Inl (ValueError ''attempt must be at least 1'')
      else Inr (min (rp_base_delay_ms p * 2 ^ nat (attempt - 1)) (rp_max_delay_ms p)))"

definition decide_retry :: "retry_policy \<Rightarrow> exn \<Rightarrow> int \<Rightarrow> exn + retry_decision" where
  "decide_retry p e attempt =
     (if should_retry p e attempt
      then (case next_delay_ms p attempt of
              Inl err \<Rightarrow> Inl err
            | Inr delay \<Rightarrow> Inr \<lparr>rd_should_retry = True, rd_attempt = attempt,
                rd_next_attempt = Some (attempt + 1), rd_delay_ms = delay, rd_reason = exn_message e\<rparr>)
      else Inr \<lparr>rd_should_retry = False, rd_attempt = attempt, rd_next_attempt = None,
             rd_delay_ms = 0, rd_reason = exn_message e\<rparr>)"

section \<open>The interface of a connector\<close>

text \<open>
  What the orchestrator relies on when it calls a connector: a call touches neither the
  database nor the request nor the pending or published events, and a call that returns
  reports the operation it was asked for, as a success or as skipped.
\<close>

definition outside_connectors ::
  "world \<Rightarrow> environment \<times> request_context option \<times> db \<times> timed_event list \<times> timed_event list \<times> timed_event list" where
  "outside_connectors s = (w_env s, w_context s, w_db s, w_published s, w_pending s, w_job_pending s)"

lemma outside_connectors_simps [simp]:
  "outside_connectors (s\<lparr>w_clock_reads := n\<rparr>) = outside_connectors s"
  "outside_connectors (s\<lparr>w_perf_reads := n\<rparr>) = outside_connectors s"
  "outside_connectors (s\<lparr>w_connectors := r\<rparr>) = outside_connectors s"
  by (simp_all add: outside_connectors_def)

locale identity_connector =
  fixes invoke :: "string \<Rightarrow> connector_call \<Rightarrow> string option \<Rightarrow> connector_result wop"
  assumes invoke_frame: "keeps (same outside_connectors) (invoke key call c)"
    and invoke_result: "invoke key call c s = (Inr r, t) \<Longrightarrow>
          cr_operation r = call_operation call \<and> \<not> cr_retryable r \<and>
          cr_status r \<in> {Connector_SUCCESS, Connector_SKIPPED}"
begin

lemma invoke_outside: "invoke key call c s = (r, t) \<Longrightarrow> outside_connectors t = outside_connectors s"
  by (rule keeps_same_result [OF invoke_frame])

lemma invoke_db: "invoke key call c s = (r, t) \<Longrightarrow> w_db t = w_db s \<and> w_env t = w_env s"
  by (drule invoke_outside) (simp add: outside_connectors_def)

end

lemma mock_execute_frame: "keeps (same outside_connectors) (mock_execute key c op' p i)"
  by (auto simp: mock_execute_def result_skipped_def result_success_def record_attempt_def Let_def
      intro!: op_intro split: option.splits)

interpretation mock: identity_connector mock_invoke
proof
  show "keeps (same outside_connectors) (mock_invoke key call c)" for key call c
    by (auto simp: mock_invoke_def intro!: op_intro mock_execute_frame)
next
  fix key call c s r t
  assume "mock_invoke key call c s = (Inr r, t)"
  then show "cr_operation r = call_operation call \<and> \<not> cr_retryable r \<and>
      cr_status r \<in> {Connector_SUCCESS, Connector_SKIPPED}"
    by (auto simp: mock_invoke_def mock_execute_def result_skipped_def result_success_def
        record_attempt_def Let_def elim!: and_then_okE from_option_okE split: if_splits option.splits)
qed

section \<open>Properties\<close>

lemma normalize_connector_name_idem:
  "normalize_connector_name (normalize_connector_name n) = normalize_connector_name n"
  by (simp add: normalize_connector_name_def lower_def strip_map)

text \<open>
  Registering a connector makes it the one found under its name, in whatever case and with
  whatever surrounding blanks the name is written, leaves the connectors under other names
  as they were, and is refused exactly when that name is taken already.
\<close>

theorem registry_get_after_register:
  "(case registry_register c r of
      Inl e \<Rightarrow> registry_exists (mk_name c) r
    | Inr r' \<Rightarrow> \<not> registry_exists (mk_name c) r \<and>
        (\<forall>name. registry_get name r' =
           (if normalize_connector_name name = normalize_connector_name (mk_name c) then Inr c
            else registry_get name r)))"
  by (auto simp: registry_register_def registry_exists_def registry_get_def Let_def
      dom_map_of_conv_image_fst [symmetric] split: option.splits dest: map_of_SomeD)

text \<open>
  Every retry policy the constructor accepts schedules delays that never fall below zero
  nor exceed the maximum, that start at the base delay, never decrease from one attempt to the
  next and at most double.
\<close>

theorem retry_delays_bounded:
  assumes "new_retry_policy m base cap types = Inr p" and "1 \<le> attempt"
  shows "\<exists>d d'. next_delay_ms p attempt = Inr d \<and> next_delay_ms p (attempt + 1) = Inr d' \<and>
     0 \<le> d \<and> d \<le> cap \<and> d \<le> d' \<and> d' \<le> 2 * d \<and> next_delay_ms p 1 = Inr base"
proof -
  from assms have p: "rp_base_delay_ms p = base" "rp_max_delay_ms p = cap" "0 \<le> base" "base \<le> cap"
    by (auto simp: new_retry_policy_def split: if_splits)
  have "nat (attempt + 1 - 1) = Suc (nat (attempt - 1))" using assms(2) by simp
  then have double: "base * 2 ^ nat (attempt + 1 - 1) = 2 * (base * 2 ^ nat (attempt - 1))" by simp
  have nonneg: "0 \<le> base * 2 ^ nat (attempt - 1)" using p(3) by simp
  show ?thesis
    using assms(2) p nonneg double by (auto simp: next_delay_ms_def min_def)
qed

lemma retry_delays_bounded_witness:
  "\<exists>d. next_delay_ms default_retry_policy 5 = Inr d \<and> d \<le> 1000"
proof -
  have "new_retry_policy 3 100 1000 [RetryableConnectorError] = Inr default_retry_policy"
    by (simp add: new_retry_policy_def default_retry_policy_def)
  from retry_delays_bounded [OF this, of 5] show ?thesis by auto
qed

end
