(* ===== verification/Orchestrator.thy ===== *)
theory Orchestrator
  imports Jobs Connectors
begin

text \<open>
  The provisioning orchestrator, \<open>app/connectors/orchestrator.py\<close>: one call of
  \<open>execute\<close> runs an operation on a connector, retrying under the retry policy, and keeps the
  provisioning job, its history, the audit trail, the metrics and the domain events in step.

  The connector is an argument \<open>invoke\<close> of the definitions, with the contract
  \<open>identity_connector\<close>; the service uses \<open>mock_invoke\<close>.  The local list \<open>events\<close> is an
  argument of the loop.
\<close>

section \<open>Constants and payload helpers\<close>

definition ACTION_CONNECTOR_INVOCATION :: string where "ACTION_CONNECTOR_INVOCATION = ''connector_invocation''"
definition ACTION_CONNECTOR_SUCCESS :: string where "ACTION_CONNECTOR_SUCCESS = ''connector_success''"
definition ACTION_CONNECTOR_FAILURE :: string where "ACTION_CONNECTOR_FAILURE = ''connector_failure''"
definition ACTION_CONNECTOR_RETRY_SCHEDULED :: string where
  "ACTION_CONNECTOR_RETRY_SCHEDULED = ''connector_retry_scheduled''"
definition ACTION_PROVISIONING_COMPLETED :: string where
  "ACTION_PROVISIONING_COMPLETED = ''connector_provisioning_completed''"
definition ACTION_PROVISIONING_JOB_CREATED :: string where
  "ACTION_PROVISIONING_JOB_CREATED = ''provisioning_job_created''"
definition ACTION_PROVISIONING_JOB_COMPLETED :: string where
  "ACTION_PROVISIONING_JOB_COMPLETED = ''provisioning_job_completed''"
definition ACTION_PROVISIONING_JOB_FAILED :: string where
  "ACTION_PROVISIONING_JOB_FAILED = ''provisioning_job_failed''"
definition ACTION_PROVISIONING_RETRY_RECORDED :: string where
  "ACTION_PROVISIONING_RETRY_RECORDED = ''provisioning_retry_recorded''"

definition validation_error :: "string \<Rightarrow> exn" where
  "validation_error message = connector_exn ValidationError message None None []"

definition optional_payload_value :: "payload \<Rightarrow> string \<Rightarrow> string option" where
  "optional_payload_value payload key =
     (case map_of payload key of
        None \<Rightarrow> None
      | Some JNull \<Rightarrow> None
      | Some v \<Rightarrow> if strip (py_str v) = '''' then None else Some (py_str v))"

definition require_payload_value :: "payload \<Rightarrow> string \<Rightarrow> exn + string" where
  "require_payload_value payload key =
     (case map_of payload key of
        None \<Rightarrow> Inl (validation_error (''Provisioning payload requires '' @ key))
      | Some JNull \<Rightarrow> Inl (validation_error (''Provisioning payload requires '' @ key))
      | Some v \<Rightarrow> if strip (py_str v) = '''' then Inl (validation_error (''Provisioning payload requires '' @ key))
                  else Inr (py_str v))"

definition require_mapping :: "payload \<Rightarrow> string \<Rightarrow> exn + payload" where
  "require_mapping payload key =
     (case map_of payload key of
        Some (JObj m) \<Rightarrow> Inr m
      | _ \<Rightarrow> Inl (validation_error (''Provisioning payload requires object '' @ key)))"

fun infer_target_type :: "connector_operation \<Rightarrow> string" where
  "infer_target_type Op_CREATE_USER = ''user''"
| "infer_target_type Op_UPDATE_USER = ''user''"
| "infer_target_type Op_DISABLE_USER = ''user''"
| "infer_target_type Op_DELETE_USER = ''user''"
| "infer_target_type Op_CREATE_GROUP = ''group''"
| "infer_target_type Op_UPDATE_GROUP = ''group''"
| "infer_target_type Op_DELETE_GROUP = ''group''"
| "infer_target_type Op_ADD_GROUP_MEMBER = ''group''"
| "infer_target_type Op_REMOVE_GROUP_MEMBER = ''group''"
| "infer_target_type Op_GRANT_ENTITLEMENT = ''entitlement''"
| "infer_target_type Op_REVOKE_ENTITLEMENT = ''entitlement''"
| "infer_target_type Op_HEALTH_CHECK = ''connector''"

fun infer_target_id :: "connector_operation \<Rightarrow> payload \<Rightarrow> string option" where
  "infer_target_id Op_CREATE_USER p = optional_payload_value p ''email''"
| "infer_target_id Op_CREATE_GROUP p = optional_payload_value p ''display_name''"
| "infer_target_id Op_UPDATE_USER p = optional_payload_value p ''user_id''"
| "infer_target_id Op_DISABLE_USER p = optional_payload_value p ''user_id''"
| "infer_target_id Op_DELETE_USER p = optional_payload_value p ''user_id''"
| "infer_target_id Op_GRANT_ENTITLEMENT p = optional_payload_value p ''user_id''"
| "infer_target_id Op_REVOKE_ENTITLEMENT p = optional_payload_value p ''user_id''"
| "infer_target_id Op_UPDATE_GROUP p = optional_payload_value p ''group_id''"
| "infer_target_id Op_DELETE_GROUP p = optional_payload_value p ''group_id''"
| "infer_target_id Op_ADD_GROUP_MEMBER p = optional_payload_value p ''group_id''"
| "infer_target_id Op_REMOVE_GROUP_MEMBER p = optional_payload_value p ''group_id''"
| "infer_target_id Op_HEALTH_CHECK p = None"

definition bind_sum :: "exn + 'a \<Rightarrow> ('a \<Rightarrow> exn + 'b) \<Rightarrow> exn + 'b" where
  "bind_sum r f = (case r of Inl e \<Rightarrow> Inl e | Inr x \<Rightarrow> f x)"

text \<open>The dispatch of \<open>_call_connector\<close>: which method is called with which arguments.\<close>

fun connector_call_of :: "connector_operation \<Rightarrow> payload \<Rightarrow> exn + connector_call" where
  "connector_call_of Op_CREATE_USER p = Inr (CreateUser p)"
| "connector_call_of Op_UPDATE_USER p =
     bind_sum (require_payload_value p ''user_id'') (\<lambda>u. Inr (UpdateUser u p))"
| "connector_call_of Op_DISABLE_USER p =
     bind_sum (require_payload_value p ''user_id'') (\<lambda>u. Inr (DisableUser u))"
| "connector_call_of Op_DELETE_USER p =
     bind_sum (require_payload_value p ''user_id'') (\<lambda>u. Inr (DeleteUser u))"
| "connector_call_of Op_CREATE_GROUP p = Inr (CreateGroup p)"
| "connector_call_of Op_UPDATE_GROUP p =
     bind_sum (require_payload_value p ''group_id'') (\<lambda>g. Inr (UpdateGroup g p))"
| "connector_call_of Op_DELETE_GROUP p =
     bind_sum (require_payload_value p ''group_id'') (\<lambda>g. Inr (DeleteGroup g))"
| "connector_call_of Op_ADD_GROUP_MEMBER p =
     bind_sum (require_payload_value p ''group_id'') (\<lambda>g.
     bind_sum (require_payload_value p ''user_id'') (\<lambda>u. Inr (AddGroupMember g u)))"
| "connector_call_of Op_REMOVE_GROUP_MEMBER p =
     bind_sum (require_payload_value p ''group_id'') (\<lambda>g.
     bind_sum (require_payload_value p ''user_id'') (\<lambda>u. Inr (RemoveGroupMember g u)))"
| "connector_call_of Op_GRANT_ENTITLEMENT p =
     bind_sum (require_payload_value p ''user_id'') (\<lambda>u.
     bind_sum (require_mapping p ''entitlement'') (\<lambda>e. Inr (GrantEntitlement u e)))"
| "connector_call_of Op_REVOKE_ENTITLEMENT p =
     bind_sum (require_payload_value p ''user_id'') (\<lambda>u.
     bind_sum (require_mapping p ''entitlement'') (\<lambda>e. Inr (RevokeEntitlement u e)))"
| "connector_call_of Op_HEALTH_CHECK p =
     Inl (validation_error (''Unsupported provisioning operation: '' @ connector_operation_value Op_HEALTH_CHECK))"

section \<open>One execution\<close>

text \<open>The local variables of \<open>execute\<close> that do not change in its loop.\<close>

record execution =
  ex_policy :: retry_policy
  ex_with_db :: bool
  ex_requester_id :: "int option"
  ex_target_user_id :: "int option"
  ex_key :: string
  ex_connector :: string
  ex_operation :: connector_operation
  ex_payload :: payload
  ex_correlation_id :: string
  ex_started_at :: int

definition ex_operation_value :: "execution \<Rightarrow> string" where
  "ex_operation_value x = connector_operation_value (ex_operation x)"

type_synonym invoke = "string \<Rightarrow> connector_call \<Rightarrow> string option \<Rightarrow> connector_result wop"

definition connector_audit_entitlement :: "db \<Rightarrow> entitlement option" where
  "connector_audit_entitlement d =
     find (\<lambda>e. ent_slug e = ''connector-execution'' \<and>
               (\<exists>p \<in> set (db_applications d). app_id p = ent_application_id e \<and>
                  app_slug p = ''connector-framework'')) (db_entitlements d)"

definition record_audit :: "execution \<Rightarrow> string \<Rightarrow> string \<Rightarrow> string \<Rightarrow> unit wop" where
  "record_audit x action result reason =
     (case (ex_requester_id x, ex_target_user_id x) of
        (Some requester_id, Some target_user_id) \<Rightarrow>
          if \<not> ex_with_db x then ret ()
          else and_then (query connector_audit_entitlement) (\<lambda>found.
               and_then (from_option (RuntimeError ''Connector audit entitlement is not seeded'') found) (\<lambda>e.
               and_then (create_audit_event requester_id target_user_id action (ent_application_id e)
                  (ent_id e) result reason (Some (ex_correlation_id x))) (\<lambda>_. ret ())))
      | _ \<Rightarrow> ret ())"

definition with_job ::
  "provisioning_job option \<Rightarrow> (provisioning_job \<Rightarrow> provisioning_job wop) \<Rightarrow> provisioning_job option wop" where
  "with_job job f = (case job of None \<Rightarrow> ret None | Some j \<Rightarrow> and_then (f j) (\<lambda>j'. ret (Some j')))"

definition stamp :: "connector_event \<Rightarrow> (world, 'e, timed_event) op" where
  "stamp event = and_then utc_now (\<lambda>now. ret (now, ConnectorEvent event))"

definition count_execution :: "execution \<Rightarrow> string \<Rightarrow> string option \<Rightarrow> (world, 'e, unit) op" where
  "count_execution x status description =
     metric_increment ''accessiq_connector_executions_total'' 1
       (Some [(''connector'', Some (ex_connector x)), (''operation'', Some (ex_operation_value x)),
              (''status'', Some status)]) description"

definition observe_execution :: "execution \<Rightarrow> connector_result \<Rightarrow> string option \<Rightarrow> (world, 'e, unit) op" where
  "observe_execution x result description =
     metric_observe ''accessiq_connector_duration_seconds'' (cr_duration_ms result)
       (Some [(''connector'', Some (ex_connector x)), (''operation'', Some (ex_operation_value x)),
              (''status'', Some (connector_status_value (cr_status result)))]) description"

definition call_connector :: "invoke \<Rightarrow> execution \<Rightarrow> connector_result wop" where
  "call_connector invoke x =
     and_then (lift_sum (connector_call_of (ex_operation x) (ex_payload x))) (\<lambda>call.
     invoke (ex_key x) call (Some (ex_correlation_id x)))"

definition result_from_exception :: "execution \<Rightarrow> exn \<Rightarrow> int \<Rightarrow> (world, 'e, connector_result) op" where
  "result_from_exception x e duration_ms =
     result_failed (ex_connector x) (ex_operation x) (exn_message e) (exn_retryable e)
       (Some (ex_correlation_id x)) duration_ms
       (dict_set ''exception_type'' (JStr (exn_class_name e)) (exn_details e))"

text \<open>The beginning of a round: the job starts, the call is recorded.\<close>

definition begin_attempt ::
  "execution \<Rightarrow> provisioning_job option \<Rightarrow> int \<Rightarrow> (provisioning_job option \<times> timed_event) wop" where
  "begin_attempt x job attempt =
     and_then (with_job job (\<lambda>j.
       and_then (start_job j attempt) (\<lambda>j.
       and_then (add_history j H_CONNECTOR_INVOCATION (provisioning_job_status_value Job_RUNNING)
         (''Connector '' @ ex_connector x @ '' called for '' @ ex_operation_value x) attempt False None None) (\<lambda>_.
       ret j)))) (\<lambda>job.
     and_then (stamp (ConnectorCalled (ex_connector x) (ex_operation_value x) (ex_correlation_id x) attempt)) (\<lambda>event.
     and_then (block [
       metric_increment ''connector_invocations_total'' 1 None None,
       count_execution x ''started'' (Some ''Connector execution attempts grouped by result.''),
       record_audit x ACTION_CONNECTOR_INVOCATION ''succeeded''
         (''Connector '' @ ex_connector x @ '' called for '' @ ex_operation_value x)]) (\<lambda>_.
     ret (job, event))))"

definition schedule_retry ::
  "execution \<Rightarrow> provisioning_job option \<Rightarrow> int \<Rightarrow> retry_decision \<Rightarrow> (provisioning_job option \<times> timed_event) wop" where
  "schedule_retry x job attempt decision =
     (let next_attempt = (case rd_next_attempt decision of
            Some n \<Rightarrow> if n = 0 then attempt + 1 else n | None \<Rightarrow> attempt + 1);
          what = ex_connector x @ '' '' @ ex_operation_value x @ '': '' @ rd_reason decision in
     and_then (metric_increment ''connector_retries_total'' 1 None None) (\<lambda>_.
     and_then (with_job job (\<lambda>j. record_retry j attempt next_attempt (rd_delay_ms decision) (rd_reason decision))) (\<lambda>job.
     and_then (stamp (ConnectorRetryScheduled (ex_connector x) (ex_operation_value x) (ex_correlation_id x)
                 attempt next_attempt (rd_delay_ms decision) (rd_reason decision))) (\<lambda>event.
     and_then (block [
       record_audit x ACTION_CONNECTOR_RETRY_SCHEDULED ''succeeded'' (''Retry scheduled for '' @ what),
       record_audit x ACTION_PROVISIONING_RETRY_RECORDED ''succeeded'' (''Retry recorded for '' @ what)]) (\<lambda>_.
     ret (job, event))))))"

definition give_up ::
  "execution \<Rightarrow> provisioning_job option \<Rightarrow> timed_event list \<Rightarrow> int \<Rightarrow> exn \<Rightarrow> connector_result wop" where
  "give_up x job events attempt e =
     and_then perf_counter (\<lambda>finished_at.
     and_then (result_from_exception x e (finished_at - ex_started_at x)) (\<lambda>result.
     and_then (stamp (ConnectorFailed (ex_connector x) (ex_operation_value x) (ex_correlation_id x) attempt
                 (cr_retryable result) (cr_message result))) (\<lambda>failed.
     and_then (stamp (ProvisioningFailed (ex_connector x) (ex_operation_value x) (ex_correlation_id x)
                 (cr_message result))) (\<lambda>provisioning_failed.
     and_then (block [
       metric_increment ''connector_failures_total'' 1 None None,
       count_execution x ''failed'' None,
       metric_increment ''accessiq_connector_failures_total'' 1
         (Some [(''connector'', Some (ex_connector x)), (''operation'', Some (ex_operation_value x)),
                (''retryable'', Some (if cr_retryable result then ''true'' else ''false''))])
         (Some ''Connector failures grouped by connector.''),
       observe_execution x result (Some ''Connector execution duration in seconds.''),
       record_audit x ACTION_CONNECTOR_FAILURE ''denied'' (cr_message result)]) (\<lambda>_.
     and_then (with_job job (\<lambda>j.
       and_then (fail_job j (connector_status_value (cr_status result)) (cr_message result) attempt
         (cr_duration_ms result) (cr_retryable result) (Some (cr_details result))) (\<lambda>j.
       and_then (block [
         record_audit x ACTION_PROVISIONING_JOB_FAILED ''denied''
           (''Provisioning job '' @ str_int (pj_id j) @ '' failed: '' @ cr_message result),
         publish_job_pending_events]) (\<lambda>_. ret j)))) (\<lambda>_.
     and_then (publish_domain_events (events @ [failed, provisioning_failed])) (\<lambda>_.
     ret result)))))))"

definition finish ::
  "execution \<Rightarrow> provisioning_job option \<Rightarrow> timed_event list \<Rightarrow> int \<Rightarrow> connector_result \<Rightarrow> connector_result wop" where
  "finish x job events attempt result =
     (let status = connector_status_value (cr_status result);
          what = ex_connector x @ '' '' @ ex_operation_value x in
     and_then (with_job job (\<lambda>j. complete_job j status (cr_message result) attempt (cr_duration_ms result)
                 (cr_retryable result) (Some (cr_details result)))) (\<lambda>job.
     and_then (stamp (ConnectorSucceeded (ex_connector x) (ex_operation_value x) (ex_correlation_id x) attempt
                 (cr_duration_ms result))) (\<lambda>succeeded.
     and_then (stamp (ProvisioningCompleted (ex_connector x) (ex_operation_value x) (ex_correlation_id x)
                 status)) (\<lambda>completed.
     and_then (block [
       metric_increment ''connector_success_total'' 1 None None,
       count_execution x status None,
       observe_execution x result None,
       record_audit x ACTION_CONNECTOR_SUCCESS ''succeeded'' (cr_message result),
       record_audit x ACTION_PROVISIONING_COMPLETED ''succeeded'' (''Provisioning completed for '' @ what)]) (\<lambda>_.
     and_then (with_job job (\<lambda>j. and_then (block [
         record_audit x ACTION_PROVISIONING_JOB_COMPLETED ''succeeded''
           (''Provisioning job '' @ str_int (pj_id j) @ '' completed for '' @ what),
         publish_job_pending_events]) (\<lambda>_. ret j))) (\<lambda>_.
     and_then (publish_domain_events (events @ [succeeded, completed])) (\<lambda>_.
     ret result)))))))"

text \<open>
  One round of the \<open>while True\<close> loop: \<open>Inl\<close> the changed local variables to go round again
  with the next attempt, \<open>Inr\<close> the result that is returned.
\<close>

definition attempt_round ::
  "invoke \<Rightarrow> execution \<Rightarrow> int \<Rightarrow> provisioning_job option \<Rightarrow> timed_event list \<Rightarrow>
   ((provisioning_job option \<times> timed_event list) + connector_result) wop" where
  "attempt_round invoke x attempt job events =
     and_then (begin_attempt x job attempt) (\<lambda>(job, called).
     and_then (capture (call_connector invoke x)) (\<lambda>outcome.
     case outcome of
       Inl e \<Rightarrow>
         and_then (lift_sum (decide_retry (ex_policy x) e attempt)) (\<lambda>decision.
         if rd_should_retry decision
         then and_then (schedule_retry x job attempt decision) (\<lambda>(job, event).
              ret (Inl (job, events @ [called, event])))
         else and_then (give_up x job (events @ [called]) attempt e) (\<lambda>result. ret (Inr result)))
     | Inr result \<Rightarrow>
         and_then (finish x job (events @ [called]) attempt result) (\<lambda>result. ret (Inr result))))"

lemma decide_retry_retry:
  "decide_retry p e attempt = Inr d \<Longrightarrow> rd_should_retry d \<Longrightarrow>
     should_retry p e attempt \<and> attempt < rp_max_attempts p \<and> rd_next_attempt d = Some (attempt + 1)"
  by (auto simp: decide_retry_def should_retry_def split: if_splits sum.splits)

lemma attempt_round_again:
  assumes "attempt_round invoke x attempt job events s = (Inr (Inl (job', events')), t)"
  shows "attempt < rp_max_attempts (ex_policy x)"
  using assms
  by (auto simp: attempt_round_def elim!: and_then_okE lift_sum_okE
      dest!: decide_retry_retry split: sum.splits if_splits prod.splits)

function attempt_loop ::
  "invoke \<Rightarrow> execution \<Rightarrow> int \<Rightarrow> provisioning_job option \<Rightarrow> timed_event list \<Rightarrow> connector_result wop" where
  "attempt_loop invoke x attempt job events s =
     (case attempt_round invoke x attempt job events s of
        (Inl e, t) \<Rightarrow> (Inl e, t)
      | (Inr (Inr result), t) \<Rightarrow> (Inr result, t)
      | (Inr (Inl (job', events')), t) \<Rightarrow> attempt_loop invoke x (attempt + 1) job' events' t)"
  by pat_completeness auto
termination
  by (relation "measure (\<lambda>(invoke, x, attempt, job, events, s). nat (rp_max_attempts (ex_policy x) - attempt))")
     (auto dest: attempt_round_again [OF sym])

declare attempt_loop.simps [simp del]

section \<open>The entry point\<close>

definition operation_of :: "string \<Rightarrow> exn + connector_operation" where
  "operation_of text =
     (case parse_enum connector_operation_members connector_operation_value text of
        None \<Rightarrow> Inl (ValueError (str_repr text @ '' is not a valid ConnectorOperation''))
      | Some operation \<Rightarrow> Inr operation)"

text \<open>\<open>a or b or str(uuid4())\<close>: an empty text counts as absent.\<close>

definition truthy :: "string option \<Rightarrow> string option" where
  "truthy text = (case text of None \<Rightarrow> None | Some c \<Rightarrow> if c = '''' then None else Some c)"

definition resolve_correlation_id :: "string option \<Rightarrow> (world, 'e, string) op" where
  "resolve_correlation_id correlation_id =
     and_then (gets w_context) (\<lambda>context.
     case truthy correlation_id of
       Some c \<Rightarrow> ret c
     | None \<Rightarrow> (case truthy (map_option rc_correlation_id context) of
         Some c \<Rightarrow> ret c
       | None \<Rightarrow> uuid4))"

definition open_job :: "execution \<Rightarrow> provisioning_job option wop" where
  "open_job x =
     (if \<not> ex_with_db x then ret None
      else and_then (modify (\<lambda>s. s\<lparr>w_job_pending := []\<rparr>)) (\<lambda>_.
           and_then (create_job (ex_correlation_id x) (ex_connector x) (ex_operation_value x)
             (infer_target_type (ex_operation x)) (infer_target_id (ex_operation x) (ex_payload x))
             (rp_max_attempts (ex_policy x))) (\<lambda>job.
           and_then (record_audit x ACTION_PROVISIONING_JOB_CREATED ''succeeded''
             (''Provisioning job '' @ str_int (pj_id job) @ '' created for '' @ ex_connector x @ '' '' @
              ex_operation_value x)) (\<lambda>_.
           ret (Some job)))))"

definition execute ::
  "invoke \<Rightarrow> retry_policy \<Rightarrow> string \<Rightarrow> string \<Rightarrow> payload option \<Rightarrow> string option \<Rightarrow> bool \<Rightarrow> int option \<Rightarrow>
   int option \<Rightarrow> connector_result wop" where
  "execute invoke policy connector_name operation payload correlation_id with_db requester_id target_user_id =
     and_then (lift_sum (operation_of operation)) (\<lambda>resolved_operation.
     and_then (resolve_correlation_id correlation_id) (\<lambda>resolved_correlation_id.
     and_then (gets w_connectors) (\<lambda>registry.
     and_then (lift_sum (registry_get connector_name registry)) (\<lambda>connector.
     let x = \<lparr>ex_policy = policy, ex_with_db = with_db, ex_requester_id = requester_id,
              ex_target_user_id = target_user_id, ex_key = normalize_connector_name connector_name,
              ex_connector = mk_name connector, ex_operation = resolved_operation,
              ex_payload = (case payload of None \<Rightarrow> [] | Some p \<Rightarrow> p),
              ex_correlation_id = resolved_correlation_id, ex_started_at = 0\<rparr> in
     and_then (open_job x) (\<lambda>job.
     and_then (stamp (ProvisioningStarted (ex_connector x) (ex_operation_value x) (ex_correlation_id x))) (\<lambda>started.
     and_then perf_counter (\<lambda>started_at.
     attempt_loop invoke (x\<lparr>ex_started_at := started_at\<rparr>) 1 job [started])))))))"

end
