(* ===== verification/Remediation.thy ===== *)
theory Remediation
  imports Governance Orchestrator
begin

text \<open>
  Remediation, \<open>app/remediation\<close>: the revoke decisions of a completed campaign become
  remediation jobs, each carried out by the orchestrator (\<open>services.py\<close>), with the mapping of
  applications to connectors (\<open>validation.py\<close>) and the routes (\<open>routes.py\<close>).  Names that the
  provisioning job service has too carry the suffix \<open>remediation\<close>.
\<close>

section \<open>Validation\<close>

definition APPLICATION_CONNECTOR_NAMES :: "(string \<times> string) list" where
  "APPLICATION_CONNECTOR_NAMES =
     [(''salesforce'', ''salesforce''), (''github'', ''github''), (''zendesk'', ''zendesk''),
      (''finance-portal'', ''finance'')]"

definition connector_name_for_application :: "string \<Rightarrow> exn + string" where
  "connector_name_for_application application_slug =
     (case map_of APPLICATION_CONNECTOR_NAMES application_slug of
        None \<Rightarrow> Inl (ValueError (''No enabled remediation connector mapping for application '' @
                  str_repr application_slug))
      | Some name \<Rightarrow> Inr name)"

definition validate_remediation_type :: "string \<Rightarrow> exn + remediation_type" where
  "validate_remediation_type text =
     (case parse_enum remediation_type_members remediation_type_value text of
        None \<Rightarrow> Inl (ValueError (''Unsupported remediation type: '' @ text))
      | Some ty \<Rightarrow> Inr ty)"

section \<open>Shared helpers\<close>

definition ACTION_REMEDIATION_CREATED :: string where "ACTION_REMEDIATION_CREATED = ''remediation_created''"
definition ACTION_REMEDIATION_STARTED :: string where "ACTION_REMEDIATION_STARTED = ''remediation_started''"
definition ACTION_REMEDIATION_COMPLETED :: string where "ACTION_REMEDIATION_COMPLETED = ''remediation_completed''"
definition ACTION_REMEDIATION_FAILED :: string where "ACTION_REMEDIATION_FAILED = ''remediation_failed''"

definition remediation_review_item :: "int \<Rightarrow> certification_review_item wop" where
  "remediation_review_item review_item_id =
     and_then (query (\<lambda>d. row_by ri_id review_item_id (db_items d))) (\<lambda>found.
     from_option (RemediationExn (RemediationReviewItemNotFoundError review_item_id)) found)"

definition find_job_by_review_item :: "int \<Rightarrow> remediation_job option wop" where
  "find_job_by_review_item review_item_id =
     query (\<lambda>d. row_by rj_review_item_id review_item_id (db_rjobs d))"

definition prevent_duplicate_jobs :: "int \<Rightarrow> unit wop" where
  "prevent_duplicate_jobs review_item_id =
     and_then (find_job_by_review_item review_item_id) (\<lambda>existing.
     guard (existing = None) (RemediationExn (DuplicateRemediationJobError review_item_id)))"

definition save_remediation :: "remediation_job \<Rightarrow> (world, 'e, unit) op" where
  "save_remediation job = update_db (\<lambda>d. d\<lparr>db_rjobs := put_row rj_id job (db_rjobs d)\<rparr>)"

definition record_job_audit :: "remediation_job \<Rightarrow> user \<Rightarrow> string \<Rightarrow> string \<Rightarrow> string \<Rightarrow> unit wop" where
  "record_job_audit job actor action result reason =
     and_then (remediation_review_item (rj_review_item_id job)) (\<lambda>item.
     and_then (create_audit_event (u_id actor) (ri_user_id item) action (ri_application_id item)
       (ri_entitlement_id item) result reason (Some (rj_correlation_id job))) (\<lambda>_.
     ret ()))"

definition count_remediation :: "remediation_job \<Rightarrow> string option \<Rightarrow> (world, 'e, unit) op" where
  "count_remediation job description =
     metric_increment ''accessiq_remediation_jobs_total'' 1
       (Some [(''remediation_type'', Some (rj_remediation_type job)), (''status'', Some (rj_status job))])
       description"

section \<open>The life of a job\<close>

definition insert_remediation_job ::
  "certification_review_item \<Rightarrow> string \<Rightarrow> remediation_type \<Rightarrow> user \<Rightarrow> remediation_job wop" where
  "insert_remediation_job item correlation_id remediation_type actor =
     and_then utc_now (\<lambda>now.
     and_then (query db_rjobs) (\<lambda>rows.
     and_then (new_key (map rj_id rows)) (\<lambda>key.
     let job = \<lparr>rj_id = key, rj_campaign_id = ri_campaign_id item, rj_review_item_id = ri_id item,
           rj_provisioning_job_id = None, rj_correlation_id = correlation_id,
           rj_remediation_type = remediation_type_value remediation_type,
           rj_status = remediation_status_value Remediation_PENDING, rj_created_at = now,
           rj_started_at = None, rj_completed_at = None, rj_last_error = None, rj_initiated_by = u_id actor\<rparr>
     in and_then (unique_constraint (rj_review_item_id job \<notin> rj_review_item_id ` set rows)) (\<lambda>_.
        and_then (update_db (\<lambda>d. d\<lparr>db_rjobs := db_rjobs d @ [job]\<rparr>)) (\<lambda>_.
        ret job)))))"

definition create_remediation_job ::
  "int \<Rightarrow> remediation_type \<Rightarrow> user \<Rightarrow> string option \<Rightarrow> remediation_job wop" where
  "create_remediation_job review_item_id remediation_type actor correlation_id =
     and_then (remediation_review_item review_item_id) (\<lambda>item.
     and_then (query (\<lambda>d. decision_of (ri_id item) (db_decisions d))) (\<lambda>decision_record.
     and_then (from_option (RemediationExn (UnsupportedRemediationDecisionError (ri_id item))) decision_record) (\<lambda>decision.
     and_then (guard (cd_decision decision = certification_decision_value_value REVOKE)
       (RemediationExn (UnsupportedRemediationDecisionError (ri_id item)))) (\<lambda>_.
     and_then (prevent_duplicate_jobs (ri_id item)) (\<lambda>_.
     and_then (resolve_correlation_id correlation_id) (\<lambda>resolved_correlation_id.
     and_then (insert_remediation_job item resolved_correlation_id remediation_type actor) (\<lambda>job.
     and_then (block [
       record_job_audit job actor ACTION_REMEDIATION_CREATED ''succeeded''
         (''Remediation job '' @ str_int (rj_id job) @ '' created''),
       metric_increment ''remediation_jobs_total'' 1 None None,
       count_remediation job (Some ''Remediation jobs grouped by type and lifecycle status.''),
       append_pending (RemediationEvent (RemediationCreated (rj_id job) (rj_campaign_id job)
         (rj_review_item_id job) (rj_remediation_type job) (rj_correlation_id job)))]) (\<lambda>_.
     ret job))))))))"

definition start_remediation :: "remediation_job \<Rightarrow> user \<Rightarrow> remediation_job wop" where
  "start_remediation job actor =
     and_then utc_now (\<lambda>now.
     let job = job\<lparr>rj_status := remediation_status_value Remediation_RUNNING, rj_started_at := Some now,
                   rj_last_error := None\<rparr>
     in and_then (block [
       save_remediation job,
       record_job_audit job actor ACTION_REMEDIATION_STARTED ''succeeded''
         (''Remediation job '' @ str_int (rj_id job) @ '' started''),
       append_pending (RemediationEvent (RemediationStarted (rj_id job) (rj_campaign_id job)
         (rj_review_item_id job) (rj_remediation_type job) (rj_correlation_id job))),
       count_remediation job None]) (\<lambda>_.
     ret job))"

definition complete_remediation ::
  "remediation_job \<Rightarrow> user \<Rightarrow> remediation_status \<Rightarrow> string option \<Rightarrow> remediation_job wop" where
  "complete_remediation job actor status message =
     and_then utc_now (\<lambda>now.
     let job = job\<lparr>rj_status := remediation_status_value status, rj_completed_at := Some now,
                   rj_last_error := None\<rparr>
     in and_then (block [
       save_remediation job,
       record_job_audit job actor ACTION_REMEDIATION_COMPLETED ''succeeded''
         (or_default (''Remediation job '' @ str_int (rj_id job) @ '' completed'') message),
       append_pending (RemediationEvent (RemediationCompleted (rj_id job) (rj_campaign_id job)
         (rj_review_item_id job) (rj_remediation_type job) (rj_status job) (rj_provisioning_job_id job)
         (rj_correlation_id job))),
       count_remediation job None]) (\<lambda>_.
     ret job))"

text \<open>
  \<open>_link_provisioning_job\<close>: the newest provisioning job that has the correlation id of the
  remediation job.
\<close>

definition newest_job :: "string \<Rightarrow> provisioning_job list \<Rightarrow> provisioning_job option" where
  "newest_job correlation_id jobs =
     (case rev (sort_key pj_id (filter (\<lambda>j. pj_correlation_id j = correlation_id) jobs)) of
        [] \<Rightarrow> None | j # _ \<Rightarrow> Some j)"

definition link_provisioning_job :: "remediation_job \<Rightarrow> remediation_job wop" where
  "link_provisioning_job job =
     and_then (query (\<lambda>d. newest_job (rj_correlation_id job) (db_jobs d))) (\<lambda>found.
     case found of
       None \<Rightarrow> ret job
     | Some provisioning_job \<Rightarrow>
         let job = job\<lparr>rj_provisioning_job_id := Some (pj_id provisioning_job)\<rparr>
         in and_then (save_remediation job) (\<lambda>_. ret job))"

definition fail_remediation :: "remediation_job \<Rightarrow> user \<Rightarrow> string \<Rightarrow> remediation_job wop" where
  "fail_remediation job actor message =
     and_then (link_provisioning_job job) (\<lambda>job.
     and_then utc_now (\<lambda>now.
     let job = job\<lparr>rj_status := remediation_status_value Remediation_FAILED, rj_completed_at := Some now,
                   rj_last_error := Some message\<rparr>
     in and_then (block [
       save_remediation job,
       record_job_audit job actor ACTION_REMEDIATION_FAILED ''denied''
         (''Remediation job '' @ str_int (rj_id job) @ '' failed: '' @ message),
       append_pending (RemediationEvent (RemediationFailed (rj_id job) (rj_campaign_id job)
         (rj_review_item_id job) (rj_remediation_type job) message (rj_correlation_id job))),
       count_remediation job None]) (\<lambda>_.
     ret job)))"

section \<open>Execution\<close>

definition entitlement_payload :: "entitlement \<Rightarrow> payload" where
  "entitlement_payload e =
     [(''id'', JInt (ent_id e)), (''slug'', JStr (ent_slug e)), (''name'', JStr (ent_name e)),
      (''application_id'', JInt (ent_application_id e))]"

text \<open>The relationships \<open>item.application\<close> and \<open>item.entitlement\<close>.\<close>

definition application_of_item :: "certification_review_item \<Rightarrow> application wop" where
  "application_of_item item =
     and_then (query (\<lambda>d. row_by app_id (ri_application_id item) (db_applications d))) (\<lambda>found.
     from_option (AttributeError ''NoneType object has no attribute slug'') found)"

definition entitlement_of_item :: "certification_review_item \<Rightarrow> entitlement wop" where
  "entitlement_of_item item =
     and_then (query (\<lambda>d. row_by ent_id (ri_entitlement_id item) (db_entitlements d))) (\<lambda>found.
     from_option (AttributeError ''NoneType object has no attribute id'') found)"

definition remediation_type_of :: "string \<Rightarrow> exn + remediation_type" where
  "remediation_type_of text =
     (case parse_enum remediation_type_members remediation_type_value text of
        None \<Rightarrow> Inl (ValueError (str_repr text @ '' is not a valid RemediationType''))
      | Some ty \<Rightarrow> Inr ty)"

definition operation_for_job ::
  "remediation_job \<Rightarrow> certification_review_item \<Rightarrow> (string \<times> connector_operation \<times> payload) wop" where
  "operation_for_job job item =
     and_then (application_of_item item) (\<lambda>app.
     and_then (case connector_name_for_application (app_slug app) of
         Inl _ \<Rightarrow> raise (RemediationExn (UnsupportedRemediationConnectorError (app_slug app)))
       | Inr name \<Rightarrow> ret name) (\<lambda>connector_name.
     and_then (lift_sum (remediation_type_of (rj_remediation_type job))) (\<lambda>remediation_type.
     case remediation_type of
       Remediate_REVOKE_ENTITLEMENT \<Rightarrow>
         and_then (entitlement_of_item item) (\<lambda>e.
         ret (connector_name, Op_REVOKE_ENTITLEMENT,
           [(''user_id'', JStr (str_int (ri_user_id item))), (''entitlement'', JObj (entitlement_payload e))]))
     | Remediate_REMOVE_GROUP_MEMBER \<Rightarrow>
         (case ri_group_id item of
            None \<Rightarrow> raise (ValueError ''Review item does not reference a group'')
          | Some group_id \<Rightarrow>
              ret (connector_name, Op_REMOVE_GROUP_MEMBER,
                [(''group_id'', JStr (str_int group_id)), (''user_id'', JStr (str_int (ri_user_id item)))]))
     | Remediate_DISABLE_USER \<Rightarrow>
         ret (connector_name, Op_DISABLE_USER, [(''user_id'', JStr (str_int (ri_user_id item)))]))))"

text \<open>
  The handler sees the job object with the changes the \<open>try\<close> block made to it; every change is
  flushed before anything can raise, so they are in its row.
\<close>

definition reload_job :: "remediation_job \<Rightarrow> remediation_job wop" where
  "reload_job job = query (\<lambda>d. case row_by rj_id (rj_id job) (db_rjobs d) of None \<Rightarrow> job | Some j \<Rightarrow> j)"

definition conclude_job :: "connector_result \<Rightarrow> remediation_job \<Rightarrow> user \<Rightarrow> remediation_job wop" where
  "conclude_job result job actor =
     and_then (link_provisioning_job job) (\<lambda>job.
     if cr_status result = Connector_SUCCESS
     then complete_remediation job actor Remediation_COMPLETED None
     else if cr_status result = Connector_SKIPPED
     then complete_remediation job actor Remediation_SKIPPED (Some (cr_message result))
     else fail_remediation job actor (cr_message result))"

definition carry_out_job ::
  "invoke \<Rightarrow> retry_policy \<Rightarrow> remediation_job \<Rightarrow> certification_review_item \<Rightarrow> user \<Rightarrow> remediation_job wop" where
  "carry_out_job invoke policy job item actor =
     and_then (operation_for_job job item) (\<lambda>(connector_name, operation, payload).
     and_then (execute invoke policy connector_name (connector_operation_value operation) (Some payload)
       (Some (rj_correlation_id job)) True (Some (u_id actor)) (Some (ri_user_id item))) (\<lambda>result.
     conclude_job result job actor))"

definition execute_remediation_job ::
  "invoke \<Rightarrow> retry_policy \<Rightarrow> remediation_job \<Rightarrow> user \<Rightarrow> remediation_job wop" where
  "execute_remediation_job invoke policy job actor =
     and_then (remediation_review_item (rj_review_item_id job)) (\<lambda>item.
     and_then (start_remediation job actor) (\<lambda>job.
     try_except (carry_out_job invoke policy job item actor)
       (\<lambda>e. and_then (reload_job job) (\<lambda>job. fail_remediation job actor (exn_message e)))))"

section \<open>Campaigns\<close>

record campaign_remediation_result =
  crr_campaign_id :: int
  crr_created_jobs :: nat
  crr_executed_jobs :: nat
  crr_skipped_decisions :: nat
  crr_jobs :: "remediation_job list"

definition validate_campaign :: "int \<Rightarrow> certification_campaign wop" where
  "validate_campaign campaign_id =
     and_then (query (\<lambda>d. row_by cc_id campaign_id (db_campaigns d))) (\<lambda>found.
     and_then (from_option (RemediationExn (RemediationCampaignNotFoundError campaign_id)) found) (\<lambda>campaign.
     and_then (guard (cc_status campaign = campaign_status_value Campaign_COMPLETED)
       (RemediationExn (InvalidRemediationCampaignStateError campaign))) (\<lambda>_.
     ret campaign)))"

text \<open>The join of items and decisions: an item comes once for each of its revoke decisions.\<close>

definition remediable_review_items :: "int \<Rightarrow> db \<Rightarrow> certification_review_item list" where
  "remediable_review_items campaign_id d =
     concat (map (\<lambda>i. map (\<lambda>_. i) (filter (\<lambda>c. cd_review_item_id c = ri_id i \<and>
         cd_decision c = certification_decision_value_value REVOKE) (db_decisions d)))
       (sort_key ri_id (filter (\<lambda>i. ri_campaign_id i = campaign_id) (db_items d))))"

definition non_remediable_decision_count :: "int \<Rightarrow> db \<Rightarrow> nat" where
  "non_remediable_decision_count campaign_id d =
     length (filter (\<lambda>c. cd_campaign_id c = campaign_id \<and>
       cd_decision c \<noteq> certification_decision_value_value REVOKE) (db_decisions d))"

definition remediation_type_for_item :: "certification_review_item \<Rightarrow> remediation_type" where
  "remediation_type_for_item item =
     (if ri_group_id item \<noteq> None then Remediate_REMOVE_GROUP_MEMBER else Remediate_REVOKE_ENTITLEMENT)"

text \<open>One round of the loop: whether a job was created, and the job.\<close>

definition remediate_item ::
  "invoke \<Rightarrow> retry_policy \<Rightarrow> user \<Rightarrow> certification_review_item \<Rightarrow> (bool \<times> remediation_job) wop" where
  "remediate_item invoke policy actor item =
     and_then (find_job_by_review_item (ri_id item)) (\<lambda>existing_job.
     case existing_job of
       Some job \<Rightarrow> ret (False, job)
     | None \<Rightarrow>
         and_then (create_remediation_job (ri_id item) (remediation_type_for_item item) actor None) (\<lambda>job.
         and_then (execute_remediation_job invoke policy job actor) (\<lambda>job.
         ret (True, job))))"

definition execute_campaign ::
  "invoke \<Rightarrow> retry_policy \<Rightarrow> int \<Rightarrow> user \<Rightarrow> campaign_remediation_result wop" where
  "execute_campaign invoke policy campaign_id actor =
     and_then (validate_campaign campaign_id) (\<lambda>campaign.
     and_then (query (remediable_review_items (cc_id campaign))) (\<lambda>items.
     and_then (query (non_remediable_decision_count (cc_id campaign))) (\<lambda>skipped_decisions.
     and_then (for_each items (remediate_item invoke policy actor)) (\<lambda>jobs.
     let created_jobs = length (filter fst jobs)
     in ret \<lparr>crr_campaign_id = cc_id campaign, crr_created_jobs = created_jobs,
             crr_executed_jobs = created_jobs, crr_skipped_decisions = skipped_decisions,
             crr_jobs = map snd jobs\<rparr>))))"

section \<open>Listing\<close>

record remediation_job_filters =
  mf_campaign_id :: "int option"
  mf_review_item_id :: "int option"
  mf_status :: "string option"
  mf_remediation_type :: "string option"
  mf_correlation_id :: "string option"

definition remediation_sort_fields :: "(string \<times> (remediation_job \<Rightarrow> sort_value)) list" where
  "remediation_sort_fields =
     [(''id'', \<lambda>j. SInt (rj_id j)), (''created_at'', \<lambda>j. SInt (rj_created_at j)),
      (''started_at'', \<lambda>j. SOptInt (rj_started_at j)), (''completed_at'', \<lambda>j. SOptInt (rj_completed_at j)),
      (''status'', \<lambda>j. SStr (rj_status j)), (''remediation_type'', \<lambda>j. SStr (rj_remediation_type j))]"

definition matches_remediation_filters :: "remediation_job_filters \<Rightarrow> remediation_job \<Rightarrow> bool" where
  "matches_remediation_filters f j \<longleftrightarrow> wanted (mf_campaign_id f) (rj_campaign_id j) \<and>
     wanted (mf_review_item_id f) (rj_review_item_id j) \<and> wanted (mf_status f) (rj_status j) \<and>
     wanted (mf_remediation_type f) (rj_remediation_type j) \<and>
     wanted (mf_correlation_id f) (rj_correlation_id j)"

definition remediation_sorting :: "string \<Rightarrow> string \<Rightarrow> exn + (remediation_job list \<Rightarrow> remediation_job list)" where
  "remediation_sorting sort_by sort_order =
     (if sort_order \<notin> set SUPPORTED_SORT_ORDERS
      then Inl (RemediationExn (UnsupportedRemediationSortOrderError sort_order))
      else case map_of remediation_sort_fields sort_by of
             None \<Rightarrow> Inl (RemediationExn (UnsupportedRemediationSortFieldError sort_by))
           | Some key \<Rightarrow> Inr (order_rows key rj_id (sort_order = ''descending'')))"

definition list_remediation_jobs ::
  "remediation_job_filters \<Rightarrow> nat \<Rightarrow> nat \<Rightarrow> string option \<Rightarrow> string \<Rightarrow> remediation_job list wop" where
  "list_remediation_jobs filters offset limit sort_by sort_order =
     and_then (lift_sum (remediation_sorting (or_default ''created_at'' sort_by) sort_order)) (\<lambda>order.
     query (\<lambda>d. page offset limit (order (filter (matches_remediation_filters filters) (db_rjobs d)))))"

definition lookup_remediation_job :: "int \<Rightarrow> remediation_job wop" where
  "lookup_remediation_job job_id =
     and_then (query (\<lambda>d. row_by rj_id job_id (db_rjobs d))) (\<lambda>found.
     from_option (RemediationExn (RemediationJobNotFoundError job_id)) found)"

section \<open>Routes\<close>

definition REMEDIATION_ROLES :: "string list" where
  "REMEDIATION_ROLES = [''security_admin'', ''iam_admin'']"

fun remediation_http_error :: "exn \<Rightarrow> http_error" where
  "remediation_http_error (RemediationExn e) =
     (case e of
        RemediationCampaignNotFoundError _ \<Rightarrow> HTTPException 404 (remediation_message e)
      | RemediationReviewItemNotFoundError _ \<Rightarrow> HTTPException 404 (remediation_message e)
      | RemediationJobNotFoundError _ \<Rightarrow> HTTPException 404 (remediation_message e)
      | DuplicateRemediationJobError _ \<Rightarrow> HTTPException 409 (remediation_message e)
      | InvalidRemediationCampaignStateError _ \<Rightarrow> HTTPException 409 (remediation_message e)
      | UnsupportedRemediationDecisionError _ \<Rightarrow> HTTPException 409 (remediation_message e)
      | UnsupportedRemediationConnectorError _ \<Rightarrow> HTTPException 409 (remediation_message e)
      | UnsupportedRemediationSortFieldError _ \<Rightarrow> HTTPException 400 (remediation_message e)
      | UnsupportedRemediationSortOrderError _ \<Rightarrow> HTTPException 400 (remediation_message e))"
| "remediation_http_error (IntegrityError _) = database_error"
| "remediation_http_error _ = internal_server_error"

text \<open>Every request gets a service with a registry of its own, built from the settings.\<close>

definition fresh_registry :: "connector_settings \<Rightarrow> unit wop" where
  "fresh_registry settings =
     and_then (lift_sum (build_connector_registry settings)) (\<lambda>registry.
     modify (\<lambda>s. s\<lparr>w_connectors := registry\<rparr>))"

definition remediate_campaign_route ::
  "connector_settings \<Rightarrow> int \<Rightarrow> user \<Rightarrow> (world, http_error, campaign_remediation_result) op" where
  "remediate_campaign_route settings campaign_id current_user =
     mutating_route REMEDIATION_ROLES current_user remediation_http_error
       (and_then (fresh_registry settings) (\<lambda>_.
        execute_campaign mock_invoke default_retry_policy campaign_id current_user))"

definition list_remediation_jobs_route ::
  "remediation_job_filters \<Rightarrow> nat \<Rightarrow> nat \<Rightarrow> string option \<Rightarrow> string \<Rightarrow> user \<Rightarrow>
   (world, http_error, remediation_job list) op" where
  "list_remediation_jobs_route filters start_index how_many sort_by sort_order current_user =
     reading_route REMEDIATION_ROLES current_user remediation_http_error
       (list_remediation_jobs filters (start_index - 1) how_many sort_by sort_order)"

definition get_remediation_job_route :: "int \<Rightarrow> user \<Rightarrow> (world, http_error, remediation_job) op" where
  "get_remediation_job_route job_id current_user =
     reading_route REMEDIATION_ROLES current_user remediation_http_error (lookup_remediation_job job_id)"

end
