(* ===== verification/Certification.thy ===== *)
theory Certification
  imports Governance
begin

text \<open>
  Certification campaigns as a whole: the properties of sequences of governance requests
  (src/app/governance), and what starting, deciding and completing do, on top of the operations
  and the invariant of Governance.
\<close>

text \<open>The sample installation with the governance application seeded, and one draft campaign.\<close>

definition sample_campaign :: certification_campaign where
  "sample_campaign = \<lparr>cc_id = 7, cc_name = ''Q3 Review'', cc_description = None, cc_status = ''DRAFT'',
     cc_created_by = 1, cc_default_reviewer_id = 2, cc_created_at = 0, cc_started_at = None,
     cc_completed_at = None, cc_cancelled_at = None, cc_total_items = 0, cc_completed_items = 0,
     cc_approval_count = 0, cc_revocation_count = 0, cc_abstain_count = 0\<rparr>"

definition sample_governance :: world where
  "sample_governance = sample_world\<lparr>w_db := sample_db\<lparr>
     db_applications := db_applications sample_db @ [\<lparr>app_id = 9, app_name = ''Governance'', app_slug = ''governance''\<rparr>],
     db_entitlements := db_entitlements sample_db @
       [\<lparr>ent_id = 9, ent_name = ''Certification'', ent_slug = ''access-review-certification'', ent_application_id = 9\<rparr>],
     db_campaigns := [sample_campaign]\<rparr>\<rparr>"

lemma sample_governance_wf:
  "wf_governance (w_db sample_governance)" "fresh_keys (w_env sample_governance)"
proof -
  have "in_status Campaign_DRAFT sample_campaign"
    by (simp add: in_status_def sample_campaign_def campaign_status_value.simps)
  then show "wf_governance (w_db sample_governance)"
    by (auto simp: wf_governance_def wf_campaigns_def wf_items_def wf_decisions_def item_keys_def
        sample_governance_def sample_db_def recounted_fixed sample_campaign_def count_items_def items_of_def
        count_completed_def count_decisions_def in_status_def)
  show "fresh_keys (w_env sample_governance)"
    by (simp add: sample_governance_def sample_fresh)
qed

text \<open>
  C6. However requests to create, start, complete and cancel campaigns and to decide review items
  follow each other, successful or not: keys and campaign names (up to case) stay distinct; no
  draft has items; an item is completed exactly when it has a decision, and then exactly one;
  all items of a completed campaign are completed; and the counts kept in every campaign are
  the numbers of its items, completed items and decisions of each kind.
\<close>

theorem governance_invariant:
  assumes "governance_request\<^sup>*\<^sup>* s t" and "fresh_keys (w_env s)" and "wf_governance (w_db s)"
  shows "wf_governance (w_db t)"
  using governance_requests_wf [OF assms] ..

lemma governance_invariant_witness:
  "wf_governance (w_db (snd (start_campaign_route 7 root_admin sample_governance)))"
proof -
  have "governance_request\<^sup>*\<^sup>* sample_governance (snd (start_campaign_route 7 root_admin sample_governance))"
    by (intro r_into_rtranclp) (metis governance_request.started prod.collapse)
  then show ?thesis by (rule governance_invariant) (rule sample_governance_wf)+
qed

lemma length_completed_decisions:
  assumes "wf_governance d"
  shows "length (decisions_of i (db_decisions d)) = count_completed i (db_items d)"
proof -
  let ?done = "filter completed (items_of i (db_items d))"
  have wf: "wf_decisions (db_items d) (db_decisions d)" "item_keys (db_items d)"
    using assms by (auto simp: wf_governance_def wf_items_def)
  have "cd_review_item_id ` set (decisions_of i (db_decisions d)) = ri_id ` set ?done"
  proof (intro equalityI subsetI)
    fix k assume "k \<in> cd_review_item_id ` set (decisions_of i (db_decisions d))"
    then obtain x where x: "x \<in> set (db_decisions d)" "cd_campaign_id x = i" "k = cd_review_item_id x"
      by (auto simp: decisions_of_def)
    then obtain j where "j \<in> set (db_items d)" "ri_id j = k" "ri_campaign_id j = i" "completed j"
      using wf(1) unfolding wf_decisions_def by metis
    then show "k \<in> ri_id ` set ?done" by (auto simp: items_of_def)
  next
    fix k assume "k \<in> ri_id ` set ?done"
    then obtain j where j: "j \<in> set (db_items d)" "ri_campaign_id j = i" "completed j" "k = ri_id j"
      by (auto simp: items_of_def)
    then obtain x where x: "x \<in> set (db_decisions d)" "cd_review_item_id x = k"
      using wf(1) unfolding wf_decisions_def by (metis imageE)
    then obtain j' where "j' \<in> set (db_items d)" "ri_id j' = k" "ri_campaign_id j' = cd_campaign_id x"
      using wf(1) unfolding wf_decisions_def by metis
    with j wf(2) have "cd_campaign_id x = i"
      by (auto simp: item_keys_def distinct_map inj_on_def)
    with x show "k \<in> cd_review_item_id ` set (decisions_of i (db_decisions d))"
      by (auto simp: decisions_of_def)
  qed
  moreover have "distinct (map cd_review_item_id (decisions_of i (db_decisions d)))"
    using wf(1) by (simp add: wf_decisions_def decisions_of_def distinct_map_filter)
  moreover have "distinct (map ri_id ?done)"
    using wf(2) by (simp add: item_keys_def items_of_def distinct_map_filter)
  ultimately have "length (map cd_review_item_id (decisions_of i (db_decisions d))) = length (map ri_id ?done)"
    by (metis distinct_card set_map)
  then show ?thesis by (simp add: count_completed_def completed_def [abs_def])
qed

lemma length_by_decision:
  assumes "wf_governance d"
  shows "length (decisions_of i (db_decisions d)) =
     count_decisions i APPROVE (db_decisions d) + count_decisions i REVOKE (db_decisions d) +
     count_decisions i ABSTAIN (db_decisions d)"
proof -
  have "\<forall>x \<in> set ds. cd_decision x \<in> range certification_decision_value_value \<Longrightarrow>
    length ds = length (filter (\<lambda>x. cd_decision x = certification_decision_value_value APPROVE) ds) +
      length (filter (\<lambda>x. cd_decision x = certification_decision_value_value REVOKE) ds) +
      length (filter (\<lambda>x. cd_decision x = certification_decision_value_value ABSTAIN) ds)" for ds
  proof (induction ds)
    case (Cons x ds)
    then obtain v where "cd_decision x = certification_decision_value_value v" by auto
    with Cons show ?case by (cases v) simp_all
  qed simp
  from this [of "decisions_of i (db_decisions d)"] assms show ?thesis
    by (auto simp: count_decisions_of wf_governance_def wf_decisions_def decisions_of_def)
qed

lemma round_half_even_bound: "a \<le> k * b \<Longrightarrow> 0 < b \<Longrightarrow> round_half_even a b \<le> k"
proof -
  assume a: "a \<le> k * b" and b: "0 < b"
  have "a div b < k \<or> (a div b = k \<and> a mod b = 0)"
  proof (cases "a = k * b")
    case False
    with a have "a < k * b" by simp
    then show ?thesis using b by (simp add: less_mult_imp_div_less)
  qed (use b in simp)
  then show ?thesis using b by (auto simp: round_half_even_def Let_def)
qed

text \<open>
  C33. After any sequence of requests the numbers in a campaign fit together: the decisions of the three
  kinds add up to the completed items, these do not exceed the items, the completion
  percentage lies between 0 and 100, and in a completed campaign nothing is pending.
\<close>

theorem campaign_counts_add_up:
  assumes "governance_request\<^sup>*\<^sup>* s t" and "fresh_keys (w_env s)" and "wf_governance (w_db s)"
    and "c \<in> set (db_campaigns (w_db t))"
  shows "cc_approval_count c + cc_revocation_count c + cc_abstain_count c = cc_completed_items c \<and>
     cc_completed_items c \<le> cc_total_items c \<and> campaign_completion_percentage c \<le> 10000 \<and>
     (cc_status c = campaign_status_value Campaign_COMPLETED \<longrightarrow> cc_completed_items c = cc_total_items c)"
proof -
  let ?d = "w_db t"
  have wf: "wf_governance ?d" using governance_requests_wf [OF assms(1-3)] ..
  then have "recounted ?d c = c" using assms(4) by (simp add: wf_governance_def)
  then have counts: "cc_total_items c = count_items (cc_id c) (db_items ?d)"
    "cc_completed_items c = count_completed (cc_id c) (db_items ?d)"
    "cc_approval_count c = count_decisions (cc_id c) APPROVE (db_decisions ?d)"
    "cc_revocation_count c = count_decisions (cc_id c) REVOKE (db_decisions ?d)"
    "cc_abstain_count c = count_decisions (cc_id c) ABSTAIN (db_decisions ?d)"
    unfolding recounted_fixed by blast+
  have le: "cc_completed_items c \<le> cc_total_items c"
    unfolding counts by (simp add: count_items_def count_completed_def)
  moreover have "campaign_completion_percentage c \<le> 10000"
    using le round_half_even_bound [of "10000 * cc_completed_items c" 10000 "cc_total_items c"]
    by (simp add: campaign_completion_percentage_def)
  moreover have "cc_completed_items c = cc_total_items c" if "cc_status c = campaign_status_value Campaign_COMPLETED"
  proof -
    have "\<forall>i \<in> set (items_of (cc_id c) (db_items ?d)). completed i"
      using wf assms(4) that by (simp add: wf_governance_def wf_items_def in_status_def)
    then show ?thesis
      unfolding counts count_items_def count_completed_def by (simp add: completed_def cong: filter_cong)
  qed
  moreover have "cc_approval_count c + cc_revocation_count c + cc_abstain_count c = cc_completed_items c"
    unfolding counts using length_by_decision [OF wf] length_completed_decisions [OF wf] by simp
  ultimately show ?thesis by blast
qed

lemma campaign_counts_add_up_witness:
  "list_all (\<lambda>c. cc_completed_items c \<le> cc_total_items c)
     (db_campaigns (w_db (snd (cancel_campaign_route 7 root_admin sample_governance))))"
proof -
  have "governance_request\<^sup>*\<^sup>* sample_governance (snd (cancel_campaign_route 7 root_admin sample_governance))"
    by (intro r_into_rtranclp) (metis governance_request.cancelled prod.collapse)
  then show ?thesis unfolding list_all_iff using campaign_counts_add_up sample_governance_wf by metis
qed

text \<open>
  C9. Closed campaigns are final: once a campaign is completed or cancelled, no sequence of requests
  changes its row, its review items or the decisions recorded in it.
\<close>

theorem closed_campaigns_are_final:
  assumes "governance_request\<^sup>*\<^sup>* s t" and "fresh_keys (w_env s)" and "wf_governance (w_db s)"
    and "c \<in> set (db_campaigns (w_db s))"
    and "cc_status c \<in> campaign_status_value ` {Campaign_COMPLETED, Campaign_CANCELLED}"
  shows "c \<in> set (db_campaigns (w_db t)) \<and>
     items_of (cc_id c) (db_items (w_db t)) = items_of (cc_id c) (db_items (w_db s)) \<and>
     decisions_of (cc_id c) (db_decisions (w_db t)) = decisions_of (cc_id c) (db_decisions (w_db s))"
proof -
  have closed: "closed c" using assms(5) by (auto simp: closed_def in_status_def)
  from assms(1) have "preserved c (w_db s) (w_db t)"
  proof (induction rule: rtranclp_induct)
    case base
    show ?case using assms(4) by (simp add: preserved_def)
  next
    case (step t u)
    have wf: "wf_governance (w_db t)" "w_env t = w_env s"
      using governance_requests_wf [OF step.hyps(1) assms(2,3)] by auto
    have "preserved c (w_db t) (w_db u)"
      by (rule governance_request_preserved [OF step.hyps(2) wf(1)])
         (use wf(2) assms(2) step.IH closed in \<open>auto simp: preserved_def\<close>)
    with step.IH show ?case by (simp add: preserved_def)
  qed
  then show ?thesis by (simp add: preserved_def)
qed

lemma closed_campaigns_are_final_witness:
  "let c = sample_campaign\<lparr>cc_status := ''CANCELLED''\<rparr>;
       s = sample_governance\<lparr>w_db := (w_db sample_governance)\<lparr>db_campaigns := [c]\<rparr>\<rparr>
   in c \<in> set (db_campaigns (w_db (snd (start_campaign_route 7 root_admin s))))"
proof -
  let ?c = "sample_campaign\<lparr>cc_status := ''CANCELLED''\<rparr>"
  let ?s = "sample_governance\<lparr>w_db := (w_db sample_governance)\<lparr>db_campaigns := [?c]\<rparr>\<rparr>"
  have st: "in_status Campaign_CANCELLED ?c"
    by (simp add: in_status_def campaign_status_value.simps)
  have "wf_governance (w_db ?s)" "fresh_keys (w_env ?s)"
    using sample_governance_wf st
    by (auto simp: wf_governance_def wf_campaigns_def wf_items_def wf_decisions_def item_keys_def
        sample_governance_def sample_db_def recounted_fixed sample_campaign_def count_items_def items_of_def
        count_completed_def count_decisions_def)
  moreover have "governance_request\<^sup>*\<^sup>* ?s (snd (start_campaign_route 7 root_admin ?s))"
    by (intro r_into_rtranclp) (metis governance_request.started prod.collapse)
  moreover have "?c \<in> set (db_campaigns (w_db ?s))" by simp
  moreover have "cc_status ?c \<in> campaign_status_value ` {Campaign_COMPLETED, Campaign_CANCELLED}"
    using st by (auto simp: in_status_def)
  ultimately show ?thesis using closed_campaigns_are_final [of ?s "snd (start_campaign_route 7 root_admin ?s)" ?c]
    by (simp add: Let_def)
qed

text \<open>
  C19. Starting a campaign succeeds only on a draft; it makes the campaign active and adds exactly one
  pending review item for every access assignment, in the order of their ids, for the default
  reviewer; the campaign counts them all and none as completed, and no other table than the
  audit trail changes.
\<close>

theorem start_campaign_effect:
  assumes "start_campaign_route i u s = (Inr c, t)" and "fresh_keys (w_env s)" and "wf_governance (w_db s)"
  shows "\<exists>c0 new. row_by cc_id i (db_campaigns (w_db s)) = Some c0 \<and>
     cc_status c0 = campaign_status_value Campaign_DRAFT \<and> cc_status c = campaign_status_value Campaign_ACTIVE \<and>
     cc_name c = cc_name c0 \<and> row_by cc_id i (db_campaigns (w_db t)) = Some c \<and>
     db_items (w_db t) = db_items (w_db s) @ new \<and>
     map (\<lambda>x. (ri_access_assignment_id x, ri_user_id x, ri_entitlement_id x)) new =
       map (\<lambda>a. (aa_id a, aa_user_id a, aa_entitlement_id a)) (sort_key aa_id (db_access (w_db s))) \<and>
     (\<forall>x \<in> set new. ri_campaign_id x = i \<and> ri_reviewer_id x = cc_default_reviewer_id c0 \<and>
        ri_status x = review_item_status_value Item_PENDING) \<and>
     cc_total_items c = length (db_access (w_db s)) \<and> cc_completed_items c = 0 \<and>
     beside_review (w_db t) = beside_review (w_db s)"
proof -
  from assms(1) [unfolded start_campaign_route_def] obtain s1 s2 where
    g: "require_roles_gate GOVERNANCE_WRITE_ROLES u s = (Inr u, s1)"
    and m: "start_campaign i u (s1\<lparr>w_pending := []\<rparr>) = (Inr c, s2)"
    and db: "w_db s1 = w_db s" "w_db t = w_db s2" by (rule mutating_route_ok)
  have env: "w_env s1 = w_env s" using keeps_same_result [OF keeps_require_roles_gate g, of w_env] by simp
  have keys: "item_keys (db_items (w_db s))" using assms(3) by (simp add: wf_governance_def wf_items_def)
  have none: "items_of i (db_items (w_db s)) = []"
    using start_campaign_no_items [OF _ m] assms(3) db(1) by simp
  have pre: "fresh_keys (w_env (s1\<lparr>w_pending := []\<rparr>))" "item_keys (db_items (w_db (s1\<lparr>w_pending := []\<rparr>)))"
    "items_of i (db_items (w_db (s1\<lparr>w_pending := []\<rparr>))) = []"
    using keys none assms(2) env db(1) by simp_all
  obtain c0 now new where
    c0: "row_by cc_id i (db_campaigns (w_db s)) = Some c0" "cc_status c0 = campaign_status_value Campaign_DRAFT"
    and new: "list_all2 (item_for c0) (sort_key aa_id (db_access (w_db s))) new"
    and c: "c = (recounted ((w_db s)\<lparr>db_items := db_items (w_db s) @ new\<rparr>) c0)
           \<lparr>cc_status := campaign_status_value Campaign_ACTIVE, cc_started_at := Some now\<rparr>"
    and t: "gov (w_db s2) = (put_row cc_id c (db_campaigns (w_db s)), db_items (w_db s) @ new, db_decisions (w_db s))"
    by (rule start_campaign_ok [OF m pre], rule that) (simp_all add: db(1))
  have i: "cc_id c0 = i" "cc_id c = i" using row_by_Some [OF c0(1)] by (auto simp: c)
  have maps: "map (\<lambda>x. (ri_access_assignment_id x, ri_user_id x, ri_entitlement_id x)) new =
      map (\<lambda>a. (aa_id a, aa_user_id a, aa_entitlement_id a)) (sort_key aa_id (db_access (w_db s)))"
    using new by (induction rule: list_all2_induct) (auto simp: item_for_def)
  have items: "\<forall>x \<in> set new. ri_campaign_id x = i \<and> ri_reviewer_id x = cc_default_reviewer_id c0 \<and>
        ri_status x = review_item_status_value Item_PENDING"
    using new unfolding i(1) [symmetric] by (induction rule: list_all2_induct) (auto simp: item_for_def)
  have "items_of i (db_items (w_db s) @ new) = new"
    using none items by (auto simp: items_of_def)
  then have "cc_total_items c = length new \<and> cc_completed_items c = 0"
    using items i by (simp add: c recounted_def count_items_def count_completed_def filter_empty_conv)
  moreover have "length new = length (db_access (w_db s))"
    using list_all2_lengthD [OF new] by simp
  moreover have "beside_review (w_db t) = beside_review (w_db s)"
    by (rule governance_request_frame [OF governance_request.started [OF assms(1)]])
  moreover have "row_by cc_id i (db_campaigns (w_db t)) = Some c"
    using t c0(1) i by (simp add: db(2) gov_def row_by_put_row)
  ultimately show ?thesis using c0 maps items t
    by (intro exI [of _ c0] exI [of _ new]) (simp add: c db(2) gov_def)
qed

lemma admin_gate:
  assumes "normalize_operator_role (u_operator_role u) \<in> {''security_admin'', ''iam_admin''}"
  shows "require_roles_gate [''security_admin'', ''iam_admin''] u s = (Inr u, s)"
proof (rule require_roles_gate_ok)
  show "require_roles [''security_admin'', ''iam_admin''] = Inr [''security_admin'', ''iam_admin'']" by code_simp
  show "validate_operator_role (u_operator_role u) = Inr (normalize_operator_role (u_operator_role u))"
    using assms by (auto simp: validate_operator_role_def Let_def CANONICAL_OPERATOR_ROLES_def)
qed (use assms in auto)

text \<open>Whether the entitlement that governance audit events name has been seeded.\<close>

definition governance_seeded :: "db \<Rightarrow> bool" where
  "governance_seeded d \<longleftrightarrow> (\<exists>e \<in> set (db_entitlements d). ent_slug e = ''access-review-certification'' \<and>
     (\<exists>p \<in> set (db_applications d). app_id p = ent_application_id e \<and> app_slug p = ''governance''))"

lemma governance_seeded_campaigns [simp]: "governance_seeded (d\<lparr>db_campaigns := cs\<rparr>) = governance_seeded d"
  by (simp add: governance_seeded_def)

lemma run_governance_audit:
  assumes "governance_seeded (w_db s)"
  shows "\<exists>ev. record_governance_audit actor u ac rs rn s = (Inr (), audit_post ev s)"
proof -
  have "find (\<lambda>e. ent_slug e = ''access-review-certification'' \<and>
        (\<exists>p \<in> set (db_applications (w_db s)). app_id p = ent_application_id e \<and> app_slug p = ''governance''))
        (db_entitlements (w_db s)) \<noteq> None"
    using assms by (auto simp: governance_seeded_def find_None_iff)
  then show ?thesis
    by (auto simp: record_governance_audit_def get_governance_audit_entitlement_def run_ops)
qed

definition completion_answer :: "db \<Rightarrow> int \<Rightarrow> int \<Rightarrow> exn + certification_campaign" where
  "completion_answer d i now =
     (case row_by cc_id i (db_campaigns d) of
        None \<Rightarrow> Inl (GovernanceExn (CampaignNotFoundError i))
      | Some c \<Rightarrow>
          if cc_status c \<noteq> campaign_status_value Campaign_ACTIVE
          then Inl (GovernanceExn (InvalidCampaignTransitionError (''Cannot transition campaign from '' @ cc_status c @
                  '' to '' @ campaign_status_value Campaign_COMPLETED)))
          else if \<exists>x \<in> set (items_of i (db_items d)). \<not> completed x
          then Inl (GovernanceExn (IncompleteCampaignError c))
          else Inr (c\<lparr>cc_status := campaign_status_value Campaign_COMPLETED, cc_completed_at := Some now\<rparr>))"

lemma complete_campaign_run:
  assumes "wf_governance (w_db s)" and "governance_seeded (w_db s)"
  shows "\<exists>now t. complete_campaign i u s = (completion_answer (w_db s) i now, t)"
proof (cases "row_by cc_id i (db_campaigns (w_db s))")
  case None
  then show ?thesis by (simp add: complete_campaign_def lookup_campaign_def run_ops completion_answer_def)
next
  case (Some c)
  have c: "c \<in> set (db_campaigns (w_db s))" "cc_id c = i" using row_by_Some [OF Some] by auto
  then obtain st where st: "cc_status c = campaign_status_value st"
    using assms(1) by (auto simp: wf_governance_def wf_campaigns_def in_status_def)
  have fixed: "recounted (w_db s) c = c" using assms(1) c by (simp add: wf_governance_def)
  then have counts: "cc_total_items c = length (items_of i (db_items (w_db s)))"
    "cc_completed_items c = length (filter completed (items_of i (db_items (w_db s))))"
    unfolding recounted_fixed using c(2) by (simp_all add: count_items_def count_completed_def completed_def [abs_def])
  then have all: "cc_completed_items c < cc_total_items c \<longleftrightarrow> (\<exists>x \<in> set (items_of i (db_items (w_db s))). \<not> completed x)"
    by (auto simp: length_filter_less dest: all_if_count intro!: filter_True) (metis filter_True less_irrefl)
  have lookup: "lookup_campaign i s = (Inr c, s)" by (simp add: lookup_campaign_def Some)
  show ?thesis
  proof (cases "st = Campaign_ACTIVE")
    case False
    then have "\<exists>m. validate_transition c Campaign_COMPLETED s =
        (Inl (GovernanceExn (InvalidCampaignTransitionError (''Cannot transition campaign from '' @ cc_status c @
                  '' to '' @ campaign_status_value Campaign_COMPLETED))), s)"
      by (cases st) (simp_all add: validate_transition_def validate_campaign_transition_def st enum_parse
          exn_message.simps)
    with False st Some lookup show ?thesis by (simp add: complete_campaign_def completion_answer_def)
  next
    case True
    then have ok: "validate_transition c Campaign_COMPLETED s = (Inr (), s)"
      by (simp add: validate_transition_def validate_campaign_transition_def st enum_parse)
    let ?pending = "\<exists>x \<in> set (items_of i (db_items (w_db s))). \<not> completed x"
    have re: "recalculate_campaign_counts c s = (Inr c, s\<lparr>w_db := (w_db s)\<lparr>db_campaigns := put_row cc_id c (db_campaigns (w_db s))\<rparr>\<rparr>)"
      using fixed by (simp add: recalculate_run)
    show ?thesis
    proof (cases ?pending)
      case True
      with lookup ok re all st Some \<open>st = Campaign_ACTIVE\<close> show ?thesis
        by (simp add: complete_campaign_def completion_answer_def run_guard)
    next
      case False
      let ?now = "env_clock (w_env s) (w_clock_reads s)"
      let ?c = "c\<lparr>cc_status := campaign_status_value Campaign_COMPLETED, cc_completed_at := Some ?now\<rparr>"
      let ?s = "s\<lparr>w_clock_reads := Suc (w_clock_reads s), w_db := (w_db s)\<lparr>db_campaigns := put_row cc_id ?c
        (put_row cc_id c (db_campaigns (w_db s)))\<rparr>\<rparr>"
      obtain ev where ev: "record_governance_audit u (u_id u) ACTION_CAMPAIGN_COMPLETED ''succeeded''
          (''Certification campaign '' @ str_int (cc_id c) @ '' completed'') ?s = (Inr (), audit_post ev ?s)"
        using run_governance_audit [of ?s] assms(2) by fastforce
      have "\<exists>t. complete_campaign i u s = (Inr ?c, t)"
        using lookup ok re all False ev
        by (simp add: complete_campaign_def run_guard save_campaign_def count_campaign_def metric_increment_def Let_def)
      with False st Some True show ?thesis by (auto simp: completion_answer_def)
    qed
  qed
qed

text \<open>
  C34. The answer of a request of an administrator to complete a campaign: 404 when there is no such
  campaign; 409 naming the two states when it is not active; 409 while one of its review items
  is pending; otherwise the campaign, completed.  A refused request changes no table.
\<close>

theorem complete_campaign_answer:
  assumes "wf_governance (w_db s)" and "governance_seeded (w_db s)"
    and "normalize_operator_role (u_operator_role u) \<in> {''security_admin'', ''iam_admin''}"
    and "complete_campaign_route i u s = (r, t)"
  shows "(\<exists>now. r = (case row_by cc_id i (db_campaigns (w_db s)) of
        None \<Rightarrow> Inl (HTTPException 404 (''Certification campaign '' @ str_int i @ '' was not found''))
      | Some c \<Rightarrow>
          if cc_status c \<noteq> campaign_status_value Campaign_ACTIVE
          then Inl (HTTPException 409 (''Cannot transition campaign from '' @ cc_status c @ '' to '' @
                 campaign_status_value Campaign_COMPLETED))
          else if \<exists>x \<in> set (items_of i (db_items (w_db s))). \<not> completed x
          then Inl (HTTPException 409 ''Campaign cannot be completed while review items are pending'')
          else Inr (c\<lparr>cc_status := campaign_status_value Campaign_COMPLETED, cc_completed_at := Some now\<rparr>))) \<and>
    (\<forall>e. r = Inl e \<longrightarrow> w_db t = w_db s)"
proof (intro conjI allI impI)
  show "w_db t = w_db s" if "r = Inl e" for e
    using assms(4) unfolding that complete_campaign_route_def by (rule mutating_route_failed)
  have gate: "require_roles_gate GOVERNANCE_WRITE_ROLES u s = (Inr u, s)"
    unfolding GOVERNANCE_WRITE_ROLES_def by (rule admin_gate [OF assms(3)])
  have publish: "fst ((and_then publish_pending_events (\<lambda>_. ret x) :: (world, http_error, 'b) op) s') = Inr x"
    for x :: 'b and s'
    by (rule no_raiseE [of "publish_pending_events :: (world, http_error, unit) op" s']) (auto intro!: op_intro)
  let ?s = "s\<lparr>w_pending := []\<rparr>"
  obtain now t' where run: "complete_campaign i u ?s = (completion_answer (w_db s) i now, t')"
    using complete_campaign_run [of ?s i u] assms(1,2) by auto
  have r: "r = fst (complete_campaign_route i u s)" using assms(4) by simp
  show "\<exists>now. r = (case row_by cc_id i (db_campaigns (w_db s)) of
        None \<Rightarrow> Inl (HTTPException 404 (''Certification campaign '' @ str_int i @ '' was not found''))
      | Some c \<Rightarrow>
          if cc_status c \<noteq> campaign_status_value Campaign_ACTIVE
          then Inl (HTTPException 409 (''Cannot transition campaign from '' @ cc_status c @ '' to '' @
                 campaign_status_value Campaign_COMPLETED))
          else if \<exists>x \<in> set (items_of i (db_items (w_db s))). \<not> completed x
          then Inl (HTTPException 409 ''Campaign cannot be completed while review items are pending'')
          else Inr (c\<lparr>cc_status := campaign_status_value Campaign_COMPLETED, cc_completed_at := Some now\<rparr>))"
    unfolding r complete_campaign_route_def mutating_route_def new_service_def transaction_def
    by (rule exI [of _ now])
       (simp add: gate run publish completion_answer_def governance_message.simps split: option.splits)
qed

lemma filter_put_row:
  "\<forall>r \<in> set rows. key r = key x \<longrightarrow> P r = P x \<Longrightarrow>
   filter P (put_row key x rows) = put_row key x (filter P rows)"
  by (induction rows) (auto simp: put_row_def)

lemma distinct_singleton_list: "distinct xs \<Longrightarrow> set xs = {x} \<Longrightarrow> xs = [x]"
  by (cases xs; cases "tl xs") auto

text \<open>The decision table after a decision on item \<open>i\<close>: a new row, or the changed row of an earlier one.\<close>

definition redecided ::
  "certification_decision_value \<Rightarrow> string option \<Rightarrow> user \<Rightarrow> int \<Rightarrow> certification_decision \<Rightarrow> certification_decision" where
  "redecided v comments actor now y = y\<lparr>cd_reviewer_id := u_id actor,
     cd_decision := certification_decision_value_value v, cd_comments := comments, cd_updated_at := now\<rparr>"

definition decision_written ::
  "int \<Rightarrow> int \<Rightarrow> certification_decision_value \<Rightarrow> string option \<Rightarrow> user \<Rightarrow> int \<Rightarrow> certification_decision list \<Rightarrow>
   certification_decision list \<Rightarrow> bool" where
  "decision_written campaign_id i v comments actor now ds ds' \<longleftrightarrow>
     (case decision_of i ds of
        None \<Rightarrow> \<exists>key created updated. ds' = ds @ [\<lparr>cd_id = key, cd_campaign_id = campaign_id,
          cd_review_item_id = i, cd_reviewer_id = u_id actor, cd_decision = certification_decision_value_value v,
          cd_comments = comments, cd_created_at = created, cd_updated_at = updated\<rparr>]
      | Some y \<Rightarrow> ds' = put_row cd_id (redecided v comments actor now y) ds)"

lemma decide_item_written:
  assumes "decide_item c item v comments actor now s = (Inr (x, ac, rn), t)" and "flush_decision x t = (Inr w, u)"
  shows "\<exists>ds. w_db u = (w_db s)\<lparr>db_decisions := ds\<rparr> \<and> w_env u = w_env s \<and>
     decision_written (cc_id c) (ri_id item) v (normalize_optional_text comments) actor now (db_decisions (w_db s)) ds \<and>
     ac = (case decision_of (ri_id item) (db_decisions (w_db s)) of
             None \<Rightarrow> decision_audit_action v | Some y \<Rightarrow> ACTION_DECISION_UPDATED)"
proof (cases "decision_of (ri_id item) (db_decisions (w_db s))")
  case None
  with assms show ?thesis
    by (auto simp: decide_item_def first_decision_def decision_written_def split: if_splits elim!: and_then_okE)
      (intro exI, rule conjI [OF refl], blast)
next
  case (Some y)
  with assms show ?thesis
    by (auto simp: decide_item_def changed_decision_def decision_written_def redecided_def save_decision_def
        elim!: and_then_okE lift_sum_okE)
qed

lemma decision_written_effect:
  assumes "decision_written campaign_id i v comments actor now ds ds'" and "distinct (map cd_id ds)"
    and "distinct (map cd_review_item_id ds)"
  shows "\<exists>x. filter (\<lambda>x. cd_review_item_id x = i) ds' = [x] \<and>
     filter (\<lambda>x. cd_review_item_id x \<noteq> i) ds' = filter (\<lambda>x. cd_review_item_id x \<noteq> i) ds \<and>
     cd_decision x = certification_decision_value_value v \<and> cd_reviewer_id x = u_id actor \<and>
     cd_comments x = comments \<and>
     (case decision_of i ds of None \<Rightarrow> cd_campaign_id x = campaign_id | Some y \<Rightarrow> x = redecided v comments actor now y)"
proof (cases "decision_of i ds")
  case None
  then have "filter (\<lambda>x. cd_review_item_id x = i) ds = []"
    unfolding decision_of_None by (auto simp: filter_empty_conv)
  with assms(1) None show ?thesis by (auto simp: decision_written_def)
next
  case (Some y)
  note y = decision_of_Some [OF Some]
  define x where "x = redecided v comments actor now y"
  have x: "ds' = put_row cd_id x ds" "cd_id x = cd_id y" "cd_review_item_id x = cd_review_item_id y"
    using assms(1) Some by (simp_all add: decision_written_def x_def redecided_def)
  have only: "\<forall>r \<in> set ds. cd_id r = cd_id x \<longrightarrow> r = y"
    using assms(2) y x(2) by (auto simp: distinct_map inj_on_def)
  have "filter (\<lambda>x. cd_review_item_id x = i) (put_row cd_id x ds) =
      put_row cd_id x (filter (\<lambda>x. cd_review_item_id x = i) ds)"
    using only y x(3) by (intro filter_put_row) auto
  moreover have "filter (\<lambda>x. cd_review_item_id x = i) ds = [y]"
  proof -
    have "\<forall>r \<in> set ds. cd_review_item_id r = i \<longrightarrow> r = y"
      using assms(3) y by (auto simp: distinct_map inj_on_def)
    then have "set (filter (\<lambda>x. cd_review_item_id x = i) ds) = {y}" using y by auto
    moreover have "distinct (filter (\<lambda>x. cd_review_item_id x = i) ds)"
      using assms(3) by (simp add: distinct_map)
    ultimately show ?thesis by (metis distinct_singleton_list)
  qed
  moreover have "filter (\<lambda>x. cd_review_item_id x \<noteq> i) (put_row cd_id x ds) = filter (\<lambda>x. cd_review_item_id x \<noteq> i) ds"
    using only y x(3) by (intro filter_put_row_other) auto
  ultimately show ?thesis
    using x Some by (intro exI [of _ x]) (simp add: put_row_def, simp add: x_def redecided_def)
qed

lemma record_decision_writes:
  assumes "record_decision i v comments actor s = (Inr item, t)"
  obtains item0 c0 ds now ev where "row_by ri_id i (db_items (w_db s)) = Some item0"
    "row_by cc_id (ri_campaign_id item0) (db_campaigns (w_db s)) = Some c0"
    "cc_status c0 = campaign_status_value Campaign_ACTIVE"
    "item = item0\<lparr>ri_status := review_item_status_value Item_COMPLETED, ri_reviewer_id := u_id actor,
       ri_reviewed_at := Some now\<rparr>"
    "decision_written (cc_id c0) i v (normalize_optional_text comments) actor now (db_decisions (w_db s)) ds"
    "w_db t = (w_db s)\<lparr>db_decisions := ds, db_items := put_row ri_id item (db_items (w_db s)),
       db_campaigns := put_row cc_id (recounted (w_db t) c0) (db_campaigns (w_db s)),
       db_audit := db_audit (w_db s) @ [ev]\<rparr>"
    "ae_requester_id ev = u_id actor" "ae_target_user_id ev = ri_user_id item0"
    "ae_entitlement_id ev = ri_entitlement_id item0" "ae_result ev = ''succeeded''"
    "ae_action ev = (case decision_of i (db_decisions (w_db s)) of
       None \<Rightarrow> decision_audit_action v | Some y \<Rightarrow> ACTION_DECISION_UPDATED)"
proof -
  let ?done = "\<lambda>item0 now. item0\<lparr>ri_status := review_item_status_value Item_COMPLETED,
      ri_reviewer_id := u_id actor, ri_reviewed_at := Some now\<rparr>"
  from assms obtain item0 c0 x ac rn s0 s1 s2 now where
    f: "decide_item c0 item0 v comments actor now s0 = (Inr (x, ac, rn), s1)"
    and item0: "row_by ri_id i (db_items (w_db s)) = Some item0"
    and c0: "row_by cc_id (ri_campaign_id item0) (db_campaigns (w_db s)) = Some c0"
      "cc_status c0 = campaign_status_value Campaign_ACTIVE"
    and s0: "w_db s0 = w_db s"
    and fl: "flush_decision x s1 = (Inr (), s2)"
    and tail: "finish_decision c0 (?done item0 now) i v actor ac rn
        (s2\<lparr>w_db := (w_db s2)\<lparr>db_items := put_row ri_id (?done item0 now) (db_items (w_db s2))\<rparr>\<rparr>) = (Inr item, t)"
    unfolding record_decision_def lookup_review_item_def campaign_of_item_def
    by (auto simp: Let_def save_item_def elim!: gov_elims)
  have i: "ri_id item0 = i" using row_by_Some [OF item0] by simp
  obtain ds where ds: "w_db s2 = (w_db s)\<lparr>db_decisions := ds\<rparr>"
    "decision_written (cc_id c0) i v (normalize_optional_text comments) actor now (db_decisions (w_db s)) ds"
    "ac = (case decision_of i (db_decisions (w_db s)) of
       None \<Rightarrow> decision_audit_action v | Some y \<Rightarrow> ACTION_DECISION_UPDATED)"
    using decide_item_written [OF f fl] s0 i by auto
  from tail have row: "row_by ri_id i (put_row ri_id (?done item0 now) (db_items (w_db s2))) = Some item"
    unfolding finish_decision_def lookup_review_item_def by (auto simp: gov_simps elim!: gov_elims)
  then have item: "item = ?done item0 now"
    using ds(1) i item0 by (auto simp: row_by_put_row split: if_splits)
  from tail obtain ev where ev: "w_db t = (w_db s)\<lparr>db_decisions := ds, db_items := put_row ri_id item (db_items (w_db s)),
       db_campaigns := put_row cc_id (recounted ((w_db s)\<lparr>db_decisions := ds,
         db_items := put_row ri_id item (db_items (w_db s))\<rparr>) c0) (db_campaigns (w_db s)),
       db_audit := db_audit (w_db s) @ [ev]\<rparr>"
    "ae_requester_id ev = u_id actor" "ae_target_user_id ev = ri_user_id item0"
    "ae_entitlement_id ev = ri_entitlement_id item0" "ae_result ev = ''succeeded''" "ae_action ev = ac"
    unfolding finish_decision_def lookup_review_item_def
    by (auto simp: gov_simps item ds(1) audit_row_def elim!: gov_elims)
  moreover have "recounted ((w_db s)\<lparr>db_decisions := ds, db_items := put_row ri_id item (db_items (w_db s))\<rparr>) c0 =
      recounted (w_db t) c0" unfolding ev(1) by (simp add: recounted_def)
  ultimately show thesis using item0 c0 ds item by (intro that) auto
qed

text \<open>
  C20. A decision is accepted only on an item of an active campaign, and writes exactly this:
  the item keeps all its columns but becomes completed, with the reviewer who decided and the
  time; it has exactly one decision, the one just given, with its comment, and an earlier
  decision on it is changed in place; the decisions on other items and the other items are as
  before; of the campaigns only the one of the item changes, and of its columns only the five
  counts, which are what the tables then hold; one audit record says who decided about whose
  entitlement; no other table changes.
\<close>

theorem record_decision_effect:
  assumes "record_decision_route i v comments u s = (Inr item, t)" and "wf_governance (w_db s)"
  shows "\<exists>item0 c0 c1 now ds x ev.
     row_by ri_id i (db_items (w_db s)) = Some item0 \<and>
     row_by cc_id (ri_campaign_id item0) (db_campaigns (w_db s)) = Some c0 \<and> cc_status c0 = ''ACTIVE'' \<and>
     item = item0\<lparr>ri_status := ''COMPLETED'', ri_reviewer_id := u_id u, ri_reviewed_at := Some now\<rparr> \<and>
     filter (\<lambda>x. cd_review_item_id x = i) ds = [x] \<and>
     filter (\<lambda>x. cd_review_item_id x \<noteq> i) ds = filter (\<lambda>x. cd_review_item_id x \<noteq> i) (db_decisions (w_db s)) \<and>
     cd_decision x = certification_decision_value_value v \<and> cd_reviewer_id x = u_id u \<and>
     cd_comments x = normalize_optional_text comments \<and>
     (case decision_of i (db_decisions (w_db s)) of
        None \<Rightarrow> cd_campaign_id x = cc_id c0
      | Some y \<Rightarrow> x = y\<lparr>cd_reviewer_id := u_id u, cd_decision := certification_decision_value_value v,
          cd_comments := normalize_optional_text comments, cd_updated_at := now\<rparr>) \<and>
     c1 = c0\<lparr>
       cc_total_items := length (filter (\<lambda>r. ri_campaign_id r = cc_id c0) (db_items (w_db t))),
       cc_completed_items :=
         length (filter (\<lambda>r. ri_campaign_id r = cc_id c0 \<and> ri_status r = ''COMPLETED'') (db_items (w_db t))),
       cc_approval_count := length (filter (\<lambda>r. cd_campaign_id r = cc_id c0 \<and> cd_decision r = ''APPROVE'') ds),
       cc_revocation_count := length (filter (\<lambda>r. cd_campaign_id r = cc_id c0 \<and> cd_decision r = ''REVOKE'') ds),
       cc_abstain_count := length (filter (\<lambda>r. cd_campaign_id r = cc_id c0 \<and> cd_decision r = ''ABSTAIN'') ds)\<rparr> \<and>
     w_db t = (w_db s)\<lparr>db_decisions := ds, db_items := put_row ri_id item (db_items (w_db s)),
       db_campaigns := put_row cc_id c1 (db_campaigns (w_db s)), db_audit := db_audit (w_db s) @ [ev]\<rparr> \<and>
     ae_requester_id ev = u_id u \<and> ae_target_user_id ev = ri_user_id item0 \<and>
     ae_entitlement_id ev = ri_entitlement_id item0 \<and> ae_result ev = ''succeeded'' \<and>
     ae_action ev = (case decision_of i (db_decisions (w_db s)) of
       None \<Rightarrow> decision_audit_action v | Some y \<Rightarrow> ''certification_decision_updated'')"
proof -
  from assms(1) [unfolded record_decision_route_def] obtain s1 s2 where
    m: "record_decision i v comments u (s1\<lparr>w_pending := []\<rparr>) = (Inr item, s2)"
    and db: "w_db s1 = w_db s" "w_db t = w_db s2" by (rule mutating_route_ok)
  have start: "w_db (s1\<lparr>w_pending := []\<rparr>) = w_db s" by (simp add: db(1))
  note writes = record_decision_writes [OF m, unfolded start db(2) [symmetric] campaign_status_value.simps
    review_item_status_value.simps ACTION_DECISION_UPDATED_def]
  obtain item0 c0 ds now ev where
    item0: "row_by ri_id i (db_items (w_db s)) = Some item0"
    and c0: "row_by cc_id (ri_campaign_id item0) (db_campaigns (w_db s)) = Some c0" "cc_status c0 = ''ACTIVE''"
    and item: "item = item0\<lparr>ri_status := ''COMPLETED'', ri_reviewer_id := u_id u, ri_reviewed_at := Some now\<rparr>"
    and ds: "decision_written (cc_id c0) i v (normalize_optional_text comments) u now (db_decisions (w_db s)) ds"
    and t: "w_db t = (w_db s)\<lparr>db_decisions := ds, db_items := put_row ri_id item (db_items (w_db s)),
       db_campaigns := put_row cc_id (recounted (w_db t) c0) (db_campaigns (w_db s)),
       db_audit := db_audit (w_db s) @ [ev]\<rparr>"
    and ev: "ae_requester_id ev = u_id u" "ae_target_user_id ev = ri_user_id item0"
      "ae_entitlement_id ev = ri_entitlement_id item0" "ae_result ev = ''succeeded''"
      "ae_action ev = (case decision_of i (db_decisions (w_db s)) of
         None \<Rightarrow> decision_audit_action v | Some y \<Rightarrow> ''certification_decision_updated'')"
    by (rule writes) (rule that)
  have keys: "distinct (map cd_id (db_decisions (w_db s)))" "distinct (map cd_review_item_id (db_decisions (w_db s)))"
    using assms(2) by (auto simp: wf_governance_def wf_decisions_def)
  have counts: "recounted (w_db t) c0 = c0\<lparr>
       cc_total_items := length (filter (\<lambda>r. ri_campaign_id r = cc_id c0) (db_items (w_db t))),
       cc_completed_items :=
         length (filter (\<lambda>r. ri_campaign_id r = cc_id c0 \<and> ri_status r = ''COMPLETED'') (db_items (w_db t))),
       cc_approval_count := length (filter (\<lambda>r. cd_campaign_id r = cc_id c0 \<and> cd_decision r = ''APPROVE'') ds),
       cc_revocation_count := length (filter (\<lambda>r. cd_campaign_id r = cc_id c0 \<and> cd_decision r = ''REVOKE'') ds),
       cc_abstain_count := length (filter (\<lambda>r. cd_campaign_id r = cc_id c0 \<and> cd_decision r = ''ABSTAIN'') ds)\<rparr>"
    by (subst (1) t, subst (1 2) t) (simp add: recounted_def count_items_def count_completed_def count_decisions_def
        items_of_def filter_filter review_item_status_value.simps certification_decision_value_value.simps conj_commute)
  from decision_written_effect [OF ds keys] obtain x where x: "filter (\<lambda>x. cd_review_item_id x = i) ds = [x]"
    "filter (\<lambda>x. cd_review_item_id x \<noteq> i) ds = filter (\<lambda>x. cd_review_item_id x \<noteq> i) (db_decisions (w_db s))"
    "cd_decision x = certification_decision_value_value v" "cd_reviewer_id x = u_id u"
    "cd_comments x = normalize_optional_text comments"
    "case decision_of i (db_decisions (w_db s)) of None \<Rightarrow> cd_campaign_id x = cc_id c0
      | Some y \<Rightarrow> x = y\<lparr>cd_reviewer_id := u_id u, cd_decision := certification_decision_value_value v,
          cd_comments := normalize_optional_text comments, cd_updated_at := now\<rparr>"
    unfolding redecided_def by blast
  show ?thesis
    by (rule exI [of _ item0], rule exI [of _ c0], rule exI [of _ "recounted (w_db t) c0"], rule exI [of _ now],
        rule exI [of _ ds], rule exI [of _ x], rule exI [of _ ev])
      (intro conjI item0 c0 item x counts t ev)
qed

text \<open>Concrete requests: starting the sample campaign, deciding an item, completing too early.\<close>

lemma mutating_route_returned:
  assumes "require_roles_gate roles u s = (Inr u, s)" and "returned (m (s\<lparr>w_pending := []\<rparr>))"
  shows "returned (mutating_route roles u h m s)"
proof -
  from assms(2) obtain x s' where m: "m (s\<lparr>w_pending := []\<rparr>) = (Inr x, s')"
    by (metis returnedE)
  obtain t where "(publish_pending_events :: (world, http_error, unit) op) s' = (Inr (), t)"
    by (rule no_raiseE [of publish_pending_events]) (auto intro!: op_intro)
  moreover from m have "transaction m h (s\<lparr>w_pending := []\<rparr>) = (Inr x, s')"
    by (simp add: transaction_def)
  ultimately show ?thesis
    using assms(1) by (simp add: mutating_route_def new_service_def returned_def)
qed

text \<open>A draft can always be started, when the entitlements of all assignments exist.\<close>

lemma draft_items_return:
  "\<forall>a \<in> set as. \<exists>e \<in> set (db_entitlements (w_db s)). ent_id e = aa_entitlement_id a \<Longrightarrow>
   \<exists>fs. for_each as (draft_item c) s = (Inr fs, s)"
proof (induction as)
  case (Cons a as)
  then obtain e where "row_by ent_id (aa_entitlement_id a) (db_entitlements (w_db s)) = Some e"
    by (cases "row_by ent_id (aa_entitlement_id a) (db_entitlements (w_db s))") (auto simp: row_by_None)
  with Cons show ?case by (auto simp: draft_item_def)
qed simp

lemma insert_items_return:
  "list_all2 (\<lambda>a f. \<forall>k n. item_for c a (f k n) \<and> ri_id (f k n) = k) as fs \<Longrightarrow> distinct (map aa_id as) \<Longrightarrow>
   \<forall>a \<in> set as. (cc_id c, aa_id a) \<notin> ri_unique_key ` set (db_items (w_db s)) \<Longrightarrow>
   \<exists>is t. for_each fs insert_item s = (Inr is, t) \<and> w_db t = (w_db s)\<lparr>db_items := db_items (w_db s) @ is\<rparr>"
proof (induction as fs arbitrary: s rule: list_all2_induct)
  case (Cons a as f fs)
  let ?i = "f (env_key (w_env s) (map ri_id (db_items (w_db s)))) (env_clock (w_env s) (w_clock_reads s))"
  let ?s = "s\<lparr>w_clock_reads := Suc (w_clock_reads s), w_db := (w_db s)\<lparr>db_items := db_items (w_db s) @ [?i]\<rparr>\<rparr>"
  have key: "ri_unique_key ?i = (cc_id c, aa_id a)"
    using Cons.hyps(1) by (simp add: item_for_def ri_unique_key_def)
  have ins: "insert_item f s = (Inr ?i, ?s)"
    using Cons.prems(2) by (simp add: insert_item_def Let_def key)
  have "\<forall>b \<in> set as. (cc_id c, aa_id b) \<notin> ri_unique_key ` set (db_items (w_db ?s))"
    using Cons.prems key by (auto simp: image_iff)
  with Cons.IH [of ?s] Cons.prems(1) obtain is' t where "for_each fs insert_item ?s = (Inr is', t)"
      "w_db t = (w_db ?s)\<lparr>db_items := db_items (w_db ?s) @ is'\<rparr>" by auto
  with ins show ?case by auto
next
  case Nil
  have "for_each [] insert_item s = (Inr [], s) \<and> w_db s = (w_db s)\<lparr>db_items := db_items (w_db s) @ []\<rparr>" by simp
  then show ?case by blast
qed

lemma start_campaign_returns:
  assumes "wf_governance (w_db s)" and "governance_seeded (w_db s)"
    and "distinct (map aa_id (db_access (w_db s)))"
    and "\<forall>a \<in> set (db_access (w_db s)). \<exists>e \<in> set (db_entitlements (w_db s)). ent_id e = aa_entitlement_id a"
    and "row_by cc_id i (db_campaigns (w_db s)) = Some c0" and "in_status Campaign_DRAFT c0"
  shows "returned (start_campaign i u s)"
proof -
  have c0: "c0 \<in> set (db_campaigns (w_db s))" "cc_id c0 = i" using row_by_Some [OF assms(5)] by auto
  have other: "ri_campaign_id x \<noteq> i" if x: "x \<in> set (db_items (w_db s))" for x
    by (rule draft_has_no_items [OF assms(1,5,6) x])
  then have none: "items_of i (db_items (w_db s)) = []" by (auto simp: items_of_def filter_empty_conv)
  have lookup: "lookup_campaign i s = (Inr c0, s)" using assms(5) by (simp add: lookup_campaign_def)
  have valid: "validate_transition c0 Campaign_ACTIVE = ret ()"
    using assms(6) by (simp add: validate_transition_def validate_campaign_transition_def in_status_def)
  obtain fs where fs: "for_each (sort_key aa_id (db_access (w_db s))) (draft_item c0) s = (Inr fs, s)"
    using draft_items_return [of "sort_key aa_id (db_access (w_db s))" s c0] assms(4) by auto
  have "distinct (map aa_id (sort_key aa_id (db_access (w_db s))))"
    using assms(3) by (metis distinct_map distinct_sort set_sort)
  moreover have "\<forall>a \<in> set (sort_key aa_id (db_access (w_db s))).
      (cc_id c0, aa_id a) \<notin> ri_unique_key ` set (db_items (w_db s))"
    using other c0(2) by (fastforce simp: ri_unique_key_def)
  ultimately obtain "is" t where ins: "for_each fs insert_item s = (Inr is, t)"
      "w_db t = (w_db s)\<lparr>db_items := db_items (w_db s) @ is\<rparr>"
    using insert_items_return [OF conjunct2 [OF draft_items_ok [OF fs]]] by blast
  obtain c1 t1 where gen: "generate_review_items c0 s = (Inr (c1, is), t1)"
    "governance_seeded (w_db t1)"
    using none fs ins assms(2) c0(2)
    by (auto simp: generate_review_items_def recalculate_run governance_seeded_def)
  let ?now = "env_clock (w_env t1) (w_clock_reads t1)"
  let ?c = "c1\<lparr>cc_status := campaign_status_value Campaign_ACTIVE, cc_started_at := Some ?now\<rparr>"
  let ?t = "t1\<lparr>w_clock_reads := Suc (w_clock_reads t1),
    w_db := (w_db t1)\<lparr>db_campaigns := put_row cc_id ?c (db_campaigns (w_db t1))\<rparr>\<rparr>"
  obtain ev where "record_governance_audit u (u_id u) ACTION_CAMPAIGN_STARTED ''succeeded''
         (''Certification campaign '' @ str_int (cc_id c1) @ '' started with '' @
          str_int (int (cc_total_items c1)) @ '' review items'') ?t = (Inr (), audit_post ev ?t)"
    using run_governance_audit [of ?t] gen(2) by fastforce
  with lookup valid gen(1) show ?thesis
    by (simp add: start_campaign_def save_campaign_def count_campaign_def metric_increment_def metric_set_gauge_def
        Let_def returned_def)
qed

lemma sample_governance_ready:
  "governance_seeded (w_db sample_governance)" "distinct (map aa_id (db_access (w_db sample_governance)))"
  "\<forall>a \<in> set (db_access (w_db sample_governance)).
     \<exists>e \<in> set (db_entitlements (w_db sample_governance)). ent_id e = aa_entitlement_id a"
  "row_by cc_id 7 (db_campaigns (w_db sample_governance)) = Some sample_campaign"
  "cc_status sample_campaign = campaign_status_value Campaign_DRAFT"
  by (simp_all add: governance_seeded_def sample_governance_def sample_campaign_def campaign_status_value.simps
      sample_simps)

lemma root_admin_may_write: "normalize_operator_role (u_operator_role root_admin) \<in> {''security_admin'', ''iam_admin''}"
  by code_simp

lemma sample_started: "returned (start_campaign_route 7 root_admin sample_governance)"
  unfolding start_campaign_route_def GOVERNANCE_WRITE_ROLES_def
  by (intro mutating_route_returned admin_gate start_campaign_returns [where ?c0.0 = sample_campaign])
     (use root_admin_may_write in \<open>simp_all add: sample_governance_ready sample_governance_wf in_status_def\<close>)

lemma start_campaign_effect_witness:
  "\<exists>c. row_by cc_id 7 (db_campaigns (w_db (snd (start_campaign_route 7 root_admin sample_governance)))) = Some c \<and>
     cc_status c = ''ACTIVE'' \<and> cc_total_items c = 2"
proof -
  obtain c where "start_campaign_route 7 root_admin sample_governance =
      (Inr c, snd (start_campaign_route 7 root_admin sample_governance))"
    using sample_started by (rule returnedE)
  from start_campaign_effect [OF this sample_governance_wf(2,1)] show ?thesis
    by (auto simp: campaign_status_value.simps sample_governance_def sample_db_def)
qed

lemma complete_campaign_answer_witness:
  "fst (complete_campaign_route 7 root_admin sample_governance) =
     Inl (HTTPException 409 ''Cannot transition campaign from DRAFT to COMPLETED'')"
  using complete_campaign_answer [OF sample_governance_wf(1) sample_governance_ready(1) root_admin_may_write, of 7]
  by (cases "complete_campaign_route 7 root_admin sample_governance")
     (auto simp: sample_governance_ready(4,5) campaign_status_value.simps)

text \<open>A campaign under review, with one pending item.\<close>

definition sample_item :: certification_review_item where
  "sample_item = \<lparr>ri_id = 3, ri_campaign_id = 7, ri_access_assignment_id = 1, ri_user_id = 5,
     ri_application_id = 2, ri_entitlement_id = 3, ri_group_id = None, ri_reviewer_id = 2, ri_status = ''PENDING'',
     ri_reviewed_at = None, ri_created_at = 0\<rparr>"

definition sample_review :: world where
  "sample_review = sample_governance\<lparr>w_db := (w_db sample_governance)\<lparr>
     db_campaigns := [sample_campaign\<lparr>cc_status := ''ACTIVE'', cc_total_items := 1\<rparr>],
     db_items := [sample_item]\<rparr>\<rparr>"

lemma sample_review_wf:
  "wf_governance (w_db sample_review)" "fresh_keys (w_env sample_review)"
proof -
  have "\<exists>st. ''ACTIVE'' = campaign_status_value st"
    by (rule exI [of _ Campaign_ACTIVE]) (simp add: campaign_status_value.simps)
  then show "wf_governance (w_db sample_review)"
    by (auto simp: wf_governance_def wf_campaigns_def wf_items_def wf_decisions_def item_keys_def sample_item_def
        sample_review_def sample_governance_def sample_db_def recounted_fixed sample_campaign_def count_items_def
        items_of_def count_completed_def count_decisions_def in_status_def completed_def review_item_status_value.simps
        campaign_status_value.simps ri_unique_key_def)
  show "fresh_keys (w_env sample_review)"
    by (simp add: sample_review_def sample_governance_def sample_fresh)
qed

text \<open>
  An administrator can start every draft: when the entitlements of all access assignments exist
  and the governance entitlement is seeded, the request succeeds.
\<close>

theorem draft_campaign_can_start:
  assumes "wf_governance (w_db s)" and "governance_seeded (w_db s)"
    and "distinct (map aa_id (db_access (w_db s)))"
    and "\<forall>a \<in> set (db_access (w_db s)). \<exists>e \<in> set (db_entitlements (w_db s)). ent_id e = aa_entitlement_id a"
    and "row_by cc_id i (db_campaigns (w_db s)) = Some c0" and "cc_status c0 = campaign_status_value Campaign_DRAFT"
    and "normalize_operator_role (u_operator_role u) \<in> {''security_admin'', ''iam_admin''}"
  shows "\<exists>c t. start_campaign_route i u s = (Inr c, t)"
proof -
  have "returned (start_campaign_route i u s)"
    unfolding start_campaign_route_def GOVERNANCE_WRITE_ROLES_def
    using assms by (intro mutating_route_returned admin_gate start_campaign_returns [where ?c0.0 = c0])
      (auto simp: in_status_def)
  then show ?thesis by (metis returnedE)
qed

lemma draft_campaign_can_start_witness:
  "\<exists>c t. start_campaign_route 7 root_admin sample_governance = (Inr c, t)"
  by (rule draft_campaign_can_start [OF sample_governance_wf(1) sample_governance_ready root_admin_may_write])

text \<open>A decision on an item of an active campaign is always accepted.\<close>

lemma flush_decision_returns:
  assumes "decide_item c i v cm u now s = (Inr (x, ac, rn), t)"
  shows "\<exists>t'. flush_decision x t = (Inr (), t') \<and> db_items (w_db t') = db_items (w_db s)"
proof (cases "decision_of (ri_id i) (db_decisions (w_db s))")
  case None
  with assms show ?thesis
    by (auto simp: decide_item_def first_decision_def run_ops append_pending_def decision_of_None)
next
  case (Some y)
  with assms show ?thesis
    by (auto simp: decide_item_def changed_decision_def run_ops append_pending_def save_decision_def lift_sum_def
        split: sum.splits)
qed

lemma record_decision_returns:
  assumes "wf_governance (w_db s)" and "row_by ri_id i (db_items (w_db s)) = Some item"
    and "row_by cc_id (ri_campaign_id item) (db_campaigns (w_db s)) = Some c" and "in_status Campaign_ACTIVE c"
  shows "returned (record_decision i v cm u s)"
proof -
  let ?s = "s\<lparr>w_clock_reads := Suc (w_clock_reads s)\<rparr>" and ?now = "env_clock (w_env s) (w_clock_reads s)"
  have "\<exists>x ac rn t. decide_item c item v cm u ?now ?s = (Inr (x, ac, rn), t)"
  proof (cases "decision_of (ri_id item) (db_decisions (w_db s))")
    case None
    then show ?thesis by (simp add: decide_item_def first_decision_def run_ops append_pending_def)
  next
    case (Some y)
    then have "y \<in> set (db_decisions (w_db s))" using decision_of_Some [OF Some] by simp
    then obtain v' where "decision_value_of (cd_decision y) = Inr v'"
      using assms(1) by (auto simp: wf_governance_def wf_decisions_def decision_value_of_def)
    with Some show ?thesis by (simp add: decide_item_def changed_decision_def run_ops append_pending_def lift_sum_def)
  qed
  then obtain x ac rn t where d: "decide_item c item v cm u ?now ?s = (Inr (x, ac, rn), t)" by blast
  from flush_decision_returns [OF this] obtain t' where t': "flush_decision x t = (Inr (), t')"
    "db_items (w_db t') = db_items (w_db s)" by auto
  show ?thesis
    using assms(2-4) d t'
    by (simp add: record_decision_def lookup_review_item_def campaign_of_item_def run_ops in_status_def Let_def
        save_item_def finish_decision_def recalculate_run returned_def metric_increment_def row_by_put_row)
qed

lemma reader_gate: "require_roles_gate GOVERNANCE_READ_ROLES root_admin s = (Inr root_admin, s)"
proof (rule require_roles_gate_ok)
  show "require_roles GOVERNANCE_READ_ROLES = Inr GOVERNANCE_READ_ROLES" by code_simp
  show "validate_operator_role (u_operator_role root_admin) = Inr ''security_admin''" by code_simp
  show "''security_admin'' \<in> set GOVERNANCE_READ_ROLES" by (simp add: GOVERNANCE_READ_ROLES_def)
qed

lemma record_decision_effect_witness:
  "\<exists>x. db_decisions (w_db (snd (record_decision_route 3 REVOKE None root_admin sample_review))) = [x] \<and>
     cd_decision x = ''REVOKE''"
proof -
  let ?c = "sample_campaign\<lparr>cc_status := ''ACTIVE'', cc_total_items := 1\<rparr>"
  let ?ds = "db_decisions (w_db (snd (record_decision_route 3 REVOKE None root_admin sample_review)))"
  have "returned (record_decision 3 REVOKE None root_admin (sample_review\<lparr>w_pending := []\<rparr>))"
    using sample_review_wf(1)
    by (intro record_decision_returns [where item = sample_item and c = ?c])
       (simp_all add: sample_review_def sample_item_def sample_campaign_def row_by_def in_status_def
          campaign_status_value.simps)
  then have "returned (record_decision_route 3 REVOKE None root_admin sample_review)"
    unfolding record_decision_route_def by (intro mutating_route_returned reader_gate)
  then obtain item t where run: "record_decision_route 3 REVOKE None root_admin sample_review = (Inr item, t)"
    by (auto elim: returnedE)
  from record_decision_effect [OF run sample_review_wf(1)]
  obtain x ds i' cs au where x: "filter (\<lambda>x. cd_review_item_id x = 3) ds = [x]"
    "filter (\<lambda>x. cd_review_item_id x \<noteq> 3) ds = filter (\<lambda>x. cd_review_item_id x \<noteq> 3) (db_decisions (w_db sample_review))"
    "cd_decision x = certification_decision_value_value REVOKE"
    and t: "w_db t = (w_db sample_review)\<lparr>db_decisions := ds, db_items := i', db_campaigns := cs, db_audit := au\<rparr>"
    by blast
  have "filter (\<lambda>x. cd_review_item_id x \<noteq> 3) ds = []"
    using x(2) by (simp add: sample_review_def sample_governance_def sample_db_def)
  then have "filter (\<lambda>x. cd_review_item_id x = 3) ds = ds" by (simp add: filter_id_conv filter_empty_conv)
  with x(1,3) show ?thesis by (simp add: run t certification_decision_value_value.simps)
qed

end
