(* ===== verification/Orchestration.thy ===== *)
theory Orchestration
  imports Orchestrator Sample
begin

text \<open>
  What one call of \<open>execute\<close> does.  An abstract specification \<open>attempts_spec\<close> of retrying is
  refined by the loop on every connector whose calls follow a script (the locale
  \<open>scripted_connector\<close>, interpreted on the mock connector), and the job, its history and the
  audit trail are followed through all rounds with the predicate \<open>tracks\<close>.
\<close>

lemma preserves_quiet:
  "no_raise m \<Longrightarrow> keeps (same core) m \<Longrightarrow> preserves (tracks s0 j hs) m"
  by (simp add: preserves_def returns_tracks)

section \<open>The audit trail of an execution\<close>

definition seeded :: "execution \<Rightarrow> world \<Rightarrow> bool" where
  "seeded x s \<longleftrightarrow> (ex_with_db x \<and> ex_requester_id x \<noteq> None \<and> ex_target_user_id x \<noteq> None \<longrightarrow>
     connector_audit_entitlement (w_db s) \<noteq> None)"

lemma connector_audit_entitlement_quiet:
  "connector_audit_entitlement (quiet d) = connector_audit_entitlement d"
  by (simp add: connector_audit_entitlement_def quiet_def)

lemma tracks_seeded: "tracks s0 j hs s \<Longrightarrow> seeded x s0 \<Longrightarrow> seeded x s"
  unfolding seeded_def tracks_def by (metis connector_audit_entitlement_quiet)

lemma tracks_audit: "tracks s0 j hs s \<Longrightarrow> tracks s0 j hs (audit_post ev s)"
  by (auto simp: tracks_def quiet_def)

lemma record_audit_tracks [op_intro]:
  assumes "seeded x s0"
  shows "preserves (tracks s0 j hs) (record_audit x ac rs rn)"
  unfolding preserves_def
proof (intro allI impI)
  fix s assume t: "tracks s0 j hs s"
  show "returns (record_audit x ac rs rn) s (\<lambda>_. tracks s0 j hs)"
    using tracks_seeded [OF t assms] tracks_audit [OF t] t
    by (auto simp: record_audit_def seeded_def returns_def run_ops split: option.splits)
qed

lemma keeps_record_audit [op_intro]:
  "(\<And>s n. f (s\<lparr>w_clock_reads := n\<rparr>) = f s) \<Longrightarrow> (\<And>s m. f (s\<lparr>w_metrics := m\<rparr>) = f s) \<Longrightarrow>
   (\<And>s a. f (s\<lparr>w_db := (w_db s)\<lparr>db_audit := a\<rparr>\<rparr>) = f s) \<Longrightarrow> keeps (same f) (record_audit x ac rs rn)"
  by (auto simp: record_audit_def intro!: op_intro split: option.splits)

lemma keeps_count_execution [op_intro]:
  "(\<And>s m. f (s\<lparr>w_metrics := m\<rparr>) = f s) \<Longrightarrow> keeps (same f) (count_execution x st d)"
  "(\<And>s m. f (s\<lparr>w_metrics := m\<rparr>) = f s) \<Longrightarrow> keeps (same f) (observe_execution x r d)"
  "(\<And>s n. f (s\<lparr>w_clock_reads := n\<rparr>) = f s) \<Longrightarrow> keeps (same f) (stamp ev)"
  "(\<And>s n. f (s\<lparr>w_clock_reads := n\<rparr>) = f s) \<Longrightarrow> keeps (same f) (result_from_exception x e n)"
  by (auto simp: count_execution_def observe_execution_def stamp_def result_from_exception_def
      result_failed_def intro!: op_intro)

lemma no_raise_count_execution [op_intro]:
  "no_raise (count_execution x st d)" "no_raise (observe_execution x r d)" "no_raise (stamp ev)"
  "no_raise (result_from_exception x e n)"
  by (auto simp: count_execution_def observe_execution_def stamp_def result_from_exception_def
      result_failed_def intro!: op_intro)

lemma preserves_tracks_quiet [op_intro]:
  "preserves (tracks s0 j hs) (stamp ev)"
  "preserves (tracks s0 j hs) (count_execution x st d)"
  "preserves (tracks s0 j hs) (observe_execution x r d)"
  "preserves (tracks s0 j hs) (metric_increment n a l dd)"
  "preserves (tracks s0 j hs) (publish_domain_events evs)"
  "preserves (tracks s0 j hs) publish_job_pending_events"
  "preserves (tracks s0 j hs) perf_counter"
  "preserves (tracks s0 j hs) utc_now"
  by (auto intro!: preserves_quiet op_intro)

section \<open>The history of a job in order\<close>

text \<open>
  What the history of a job tells, row by row: its creation; for each attempt a start and an
  invocation; a retry between two attempts; at the end the result and the outcome.
\<close>

definition created_entry :: "string \<times> string \<times> int" where
  "created_entry = (history_event_type_value H_JOB_CREATED, provisioning_job_status_value Job_PENDING, 0)"

definition attempt_entries :: "int \<Rightarrow> (string \<times> string \<times> int) list" where
  "attempt_entries a =
     [(history_event_type_value H_JOB_STARTED, provisioning_job_status_value Job_RUNNING, a),
      (history_event_type_value H_CONNECTOR_INVOCATION, provisioning_job_status_value Job_RUNNING, a)]"

definition retried_entries :: "int \<Rightarrow> (string \<times> string \<times> int) list" where
  "retried_entries n = concat (map (\<lambda>a. attempt_entries a @
     [(history_event_type_value H_RETRY_RECORDED, provisioning_job_status_value Job_RETRYABLE, a)]) [1..n])"

definition outcome_entries :: "int \<Rightarrow> string \<Rightarrow> bool \<Rightarrow> (string \<times> string \<times> int) list" where
  "outcome_entries a status succeeded =
     [(history_event_type_value H_CONNECTOR_RESULT, status, a),
      (history_event_type_value (if succeeded then H_JOB_COMPLETED else H_JOB_FAILED), status, a)]"

lemma retried_entries_next:
  "1 \<le> a \<Longrightarrow> retried_entries a = retried_entries (a - 1) @ attempt_entries a @
     [(history_event_type_value H_RETRY_RECORDED, provisioning_job_status_value Job_RETRYABLE, a)]"
  by (simp add: retried_entries_def upto_rec2)

lemma retried_entries_0 [simp]: "retried_entries 0 = []"
  by (simp add: retried_entries_def)

text \<open>
  \<open>phase x n a j hs\<close>: the job has counted \<open>n\<close> attempts and is in round \<open>a\<close>; its history tells
  the rounds before and, when the attempt of this round is counted, its start and invocation.
\<close>

definition phase :: "execution \<Rightarrow> int \<Rightarrow> int \<Rightarrow> provisioning_job \<Rightarrow> provisioning_history list \<Rightarrow> bool" where
  "phase x n a j hs \<longleftrightarrow> pj_attempt_count j = n \<and> pj_retry_count j = a - 1 \<and> 1 \<le> a \<and>
     pj_max_attempts j = rp_max_attempts (ex_policy x) \<and> pj_connector j = ex_connector x \<and>
     map history_entry hs =
       created_entry # retried_entries (a - 1) @ (if n = a then attempt_entries a else [])"

lemma start_invocation_tracks:
  assumes "tracks s0 j hs s" and "phase x (a - 1) a j hs"
  shows "returns (and_then (start_job j a) (\<lambda>j.
       and_then (add_history j H_CONNECTOR_INVOCATION (provisioning_job_status_value Job_RUNNING) m a False None None)
       (\<lambda>_. ret j))) s
     (\<lambda>j' t. \<exists>hs'. tracks s0 j' hs' t \<and> phase x a a j' hs')"
  apply (rule returns_and_then [OF start_job_tracks [OF assms(1)]])
  apply (elim exE conjE)
  apply (erule returns_and_then [OF tracks_add_history], rule refl)
  apply (elim exE conjE)
  apply (unfold returns_ret)
  apply (rule exI, rule conjI, assumption)
  using assms(2) apply (simp add: phase_def attempt_entries_def)
  done

lemma returns_quietly:
  "tracks s0 j hs s \<Longrightarrow> preserves (tracks s0 j hs) m \<Longrightarrow>
   (\<And>x t. tracks s0 j hs t \<Longrightarrow> returns (f x) t Q) \<Longrightarrow> returns (and_then m f) s Q"
  by (blast intro: returns_and_then preservesD)

lemma returns_with_job:
  "returns (f j) s P \<Longrightarrow> (\<And>j' t. P j' t \<Longrightarrow> returns (g (Some j')) t Q) \<Longrightarrow>
   returns (and_then (with_job (Some j) f) g) s Q"
  by (auto simp: with_job_def returns_def and_then_def)

lemma begin_attempt_tracks:
  assumes "seeded x s0" and "tracks s0 j hs s" and "phase x (a - 1) a j hs"
  shows "returns (begin_attempt x (Some j) a) s (\<lambda>q t. case q of (job, called) \<Rightarrow> \<exists>j' hs'.
     job = Some j' \<and> tracks s0 j' hs' t \<and> phase x a a j' hs')"
  unfolding begin_attempt_def
  apply (rule returns_with_job, rule start_invocation_tracks [OF assms(2,3)])
  apply (elim exE conjE)
  apply (erule returns_quietly, rule op_intro)
  apply (erule returns_quietly)
   apply (intro op_intro assms(1))
  apply auto
  done

lemma schedule_retry_tracks:
  assumes "seeded x s0" and "tracks s0 j hs s" and "phase x a a j hs"
  shows "returns (schedule_retry x (Some j) a d) s (\<lambda>q t. case q of (job, called) \<Rightarrow> \<exists>j' hs'.
     job = Some j' \<and> tracks s0 j' hs' t \<and> phase x a (a + 1) j' hs')"
  unfolding schedule_retry_def Let_def
  apply (rule returns_quietly [OF assms(2)], rule op_intro)
  apply (rule returns_with_job, erule record_retry_tracks)
  apply (elim exE conjE)
  apply (erule returns_quietly, rule op_intro)
  apply (erule returns_quietly)
   apply (intro op_intro assms(1))
  using assms(3) apply (auto simp: phase_def retried_entries_next)
  done

text \<open>How a job ends: what is in its row, in its history and in the result that is returned.\<close>

definition outcome_of :: "execution \<Rightarrow> int \<Rightarrow> exn option \<Rightarrow> connector_result \<Rightarrow> bool" where
  "outcome_of x a failure r \<longleftrightarrow>
     cr_operation r = ex_operation x \<and>
     (case failure of
        None \<Rightarrow> cr_status r \<in> {Connector_SUCCESS, Connector_SKIPPED} \<and> \<not> cr_retryable r
      | Some e \<Rightarrow> cr_status r = (if exn_retryable e then Connector_RETRYABLE else Connector_FAILED) \<and>
          cr_retryable r = exn_retryable e \<and> cr_message r = exn_message e)"

definition over ::
  "execution \<Rightarrow> int \<Rightarrow> exn option \<Rightarrow> provisioning_job \<Rightarrow> provisioning_history list \<Rightarrow> connector_result \<Rightarrow> bool" where
  "over x a failure j hs r \<longleftrightarrow>
     outcome_of x a failure r \<and>
     pj_status j = connector_status_value (cr_status r) \<and> pj_attempt_count j = a \<and>
     pj_retry_count j = a - 1 \<and> pj_max_attempts j = rp_max_attempts (ex_policy x) \<and>
     pj_connector j = ex_connector x \<and> pj_retryable j = cr_retryable r \<and>
     pj_last_error j = map_option exn_message failure \<and>
     pj_completed_at j \<noteq> None \<and> pj_duration_ms j \<noteq> None \<and>
     map history_entry hs = created_entry # retried_entries (a - 1) @ attempt_entries a @
       outcome_entries a (pj_status j) (failure = None)"

lemma over_ended:
  assumes "phase x a a j hs" and "outcome_of x a failure r"
    and "ended j (connector_status_value (cr_status r)) a (cr_retryable r) (map_option exn_message failure) j'"
    and "history_entry h = (history_event_type_value H_CONNECTOR_RESULT, connector_status_value (cr_status r), a)"
    and "history_entry h' = (history_event_type_value (if failure = None then H_JOB_COMPLETED else H_JOB_FAILED),
      connector_status_value (cr_status r), a)"
  shows "over x a failure j' (hs @ [h, h']) r"
  using assms by (cases failure) (auto simp: phase_def outcome_entries_def over_def ended_def)

lemma over_failed:
  assumes "phase x a a j hs" and "outcome_of x a (Some e) r"
    and "history_entry h = (history_event_type_value H_CONNECTOR_RESULT, connector_status_value (cr_status r), a)"
    and "history_entry h' = (history_event_type_value H_JOB_FAILED, connector_status_value (cr_status r), a)"
    and "ended j (connector_status_value (cr_status r)) a (cr_retryable r) (Some (cr_message r)) j'"
  shows "over x a (Some e) j' (hs @ [h, h']) r"
  using assms by (intro over_ended [OF assms(1,2)]) (simp_all add: outcome_of_def)

lemma close_job_tracks:
  assumes "seeded x s0" and "tracks s0 j hs s"
  shows "returns (and_then (block [record_audit x ac rs rn, publish_job_pending_events]) (\<lambda>_. ret j)) s
     (\<lambda>j' t. j' = j \<and> tracks s0 j hs t)"
  by (rule returns_quietly [OF assms(2)]) (auto intro!: op_intro assms(1) simp del: block.simps)

lemma finish_tracks:
  assumes "seeded x s0" and "tracks s0 j hs s" and "phase x a a j hs" and "outcome_of x a None r"
  shows "returns (finish x (Some j) evs a r) s (\<lambda>r' t. r' = r \<and> (\<exists>j' hs'. tracks s0 j' hs' t \<and> over x a None j' hs' r))"
  unfolding finish_def Let_def
  apply (rule returns_with_job, rule complete_job_tracks [OF assms(2)])
  apply (elim exE conjE)
  apply (erule returns_quietly, rule op_intro)
  apply (erule returns_quietly, rule op_intro)
  apply (erule returns_quietly)
   apply (intro op_intro assms(1))
  apply (rule returns_with_job, erule close_job_tracks [OF assms(1)], elim conjE)
  apply (erule returns_quietly, rule op_intro)
  apply (unfold returns_ret)
  apply (intro exI conjI refl, assumption)
  apply (rule over_ended [OF assms(3,4)], simp_all)
  done

lemma fail_and_close_tracks:
  assumes "seeded x s0" and "tracks s0 j hs s"
  shows "returns (and_then (fail_job j st m a du r de) (\<lambda>j. and_then (block [
       record_audit x ac rs (rn j), publish_job_pending_events]) (\<lambda>_. ret j))) s
     (\<lambda>j' t. \<exists>h h'. tracks s0 j' (hs @ [h, h']) t \<and>
        history_entry h = (history_event_type_value H_CONNECTOR_RESULT, st, a) \<and>
        history_entry h' = (history_event_type_value H_JOB_FAILED, st, a) \<and> ended j st a r (Some m) j')"
  apply (rule returns_and_then [OF fail_job_tracks [OF assms(2)]])
  apply (elim exE conjE)
  apply (rule returns_mono, erule close_job_tracks [OF assms(1)])
  apply blast
  done

lemma give_up_tracks:
  assumes "seeded x s0" and "tracks s0 j hs s" and "phase x a a j hs"
  shows "returns (give_up x (Some j) evs a e) s (\<lambda>r t. \<exists>j' hs'. tracks s0 j' hs' t \<and> over x a (Some e) j' hs' r)"
proof -
  have r: "returns (result_from_exception x e d) t (\<lambda>r t. tracks s0 j hs t \<and> outcome_of x a (Some e) r)"
    if "tracks s0 j hs t" for d t
    using that by (simp add: result_from_exception_def result_failed_def returns_def run_ops outcome_of_def
        tracks_def)
  show ?thesis
    unfolding give_up_def
    apply (rule returns_quietly [OF assms(2)], rule op_intro)
    apply (rule returns_and_then, erule r, elim conjE)
    apply (erule returns_quietly, rule op_intro)
    apply (erule returns_quietly, rule op_intro)
    apply (erule returns_quietly)
     apply (intro op_intro assms(1))
    apply (rule returns_with_job, erule fail_and_close_tracks [OF assms(1)])
    apply (elim exE conjE)
    apply (erule returns_quietly, rule op_intro)
    apply (unfold returns_ret)
    apply (intro exI conjI, assumption)
    apply (erule (3) over_failed [OF assms(3)])
    done
qed
section \<open>The specification of retrying\<close>

text \<open>
  \<open>attempts_spec p script a\<close>: attempts from number \<open>a\<close> on, where \<open>script\<close> says which exception an
  attempt raises, if any: the number of the last attempt and the exception it ended with.
\<close>

function attempts_spec :: "retry_policy \<Rightarrow> (int \<Rightarrow> exn option) \<Rightarrow> int \<Rightarrow> int \<times> exn option" where
  "attempts_spec p script a =
     (case script a of
        None \<Rightarrow> (a, None)
      | Some e \<Rightarrow> if should_retry p e a then attempts_spec p script (a + 1) else (a, Some e))"
  by pat_completeness auto
termination
  by (relation "measure (\<lambda>(p, script, a). nat (rp_max_attempts p - a))") (auto simp: should_retry_def)

declare attempts_spec.simps [simp del]

lemma attempts_spec_bounds:
  "a \<le> rp_max_attempts p \<Longrightarrow> attempts_spec p script a = (n, failure) \<Longrightarrow>
   a \<le> n \<and> n \<le> rp_max_attempts p \<and> script n = failure"
proof (induction p script a rule: attempts_spec.induct)
  case (1 p script a)
  show ?case
  proof (cases "script a")
    case None
    with 1(2,3) show ?thesis by (simp add: attempts_spec.simps)
  next
    case (Some e)
    show ?thesis
    proof (cases "should_retry p e a")
      case True
      then have "a + 1 \<le> rp_max_attempts p" by (simp add: should_retry_def)
      with 1(1) [OF Some True] 1(3) Some True show ?thesis by (simp add: attempts_spec.simps [of p script a])
    next
      case False
      with 1(2,3) Some show ?thesis by (simp add: attempts_spec.simps)
    qed
  qed
qed

section \<open>Connectors that follow a script\<close>

text \<open>
  \<open>ready key call c n r\<close>: in the registry \<open>r\<close> the next execution of the call is its \<open>n\<close>-th.
\<close>

lemma keeps_save_job [op_intro]:
  "(\<And>s js. f (s\<lparr>w_db := (w_db s)\<lparr>db_jobs := js\<rparr>\<rparr>) = f s) \<Longrightarrow> keeps (same f) (save_job j)"
  by (auto simp: save_job_def intro!: op_intro)

lemma keeps_connectors [op_intro]:
  "keeps (same w_connectors) (begin_attempt x job a)"
  "keeps (same w_connectors) (schedule_retry x job a d)"
  "keeps (same w_connectors) (open_job x)"
  by (auto simp: begin_attempt_def schedule_retry_def open_job_def with_job_def start_job_def record_retry_def
      create_job_def add_history_def record_history_def count_job_def Let_def
      intro!: op_intro split: option.splits)

lemma decide_retry_iff:
  "1 \<le> a \<Longrightarrow> \<exists>d. decide_retry p e a = Inr d \<and> (rd_should_retry d \<longleftrightarrow> should_retry p e a)"
  by (auto simp: decide_retry_def next_delay_ms_def)

locale scripted_connector = identity_connector +
  fixes script :: "connector_call \<Rightarrow> int \<Rightarrow> exn option"
    and ready :: "string \<Rightarrow> connector_call \<Rightarrow> string option \<Rightarrow> int \<Rightarrow> (string \<times> mock_connector) list \<Rightarrow> bool"
  assumes script_result: "ready key call c n (w_connectors s) \<Longrightarrow> invoke key call c s = (r, t) \<Longrightarrow>
      script call n = (case r of Inl e \<Rightarrow> Some e | Inr _ \<Rightarrow> None)"
    and script_next: "ready key call c n (w_connectors s) \<Longrightarrow> invoke key call c s = (r, t) \<Longrightarrow>
      ready key call c (n + 1) (w_connectors t)"
begin

definition script_of :: "execution \<Rightarrow> int \<Rightarrow> exn option" where
  "script_of x n = (case connector_call_of (ex_operation x) (ex_payload x) of
     Inl e \<Rightarrow> Some e | Inr call \<Rightarrow> script call n)"

definition ready_for :: "execution \<Rightarrow> int \<Rightarrow> world \<Rightarrow> bool" where
  "ready_for x n s \<longleftrightarrow> (case connector_call_of (ex_operation x) (ex_payload x) of
     Inl e \<Rightarrow> True | Inr call \<Rightarrow> ready (ex_key x) call (Some (ex_correlation_id x)) n (w_connectors s))"

lemma ready_for_same: "w_connectors t = w_connectors s \<Longrightarrow> ready_for x n s \<Longrightarrow> ready_for x n t"
  by (simp add: ready_for_def split: sum.splits)

lemma call_connector_script:
  assumes "call_connector invoke x s = (r, t)" and "ready_for x n s"
  shows "script_of x n = (case r of Inl e \<Rightarrow> Some e | Inr _ \<Rightarrow> None) \<and> ready_for x (n + 1) t \<and>
     core t = core s \<and> (\<forall>v. r = Inr v \<longrightarrow> outcome_of x n None v)"
proof (cases "connector_call_of (ex_operation x) (ex_payload x)")
  case (Inl e)
  with assms show ?thesis
    by (auto simp: call_connector_def lift_sum_def and_then_def script_of_def ready_for_def)
next
  case (Inr call)
  then have i: "invoke (ex_key x) call (Some (ex_correlation_id x)) s = (r, t)"
    using assms(1) by (auto simp: call_connector_def lift_sum_def and_then_def)
  have "outside_connectors t = outside_connectors s" by (rule invoke_outside [OF i])
  moreover have "call_operation call = ex_operation x"
    using Inr by (cases "ex_operation x") (auto simp: bind_sum_def split: sum.splits)
  moreover have "ready (ex_key x) call (Some (ex_correlation_id x)) n (w_connectors s)"
    using assms(2) Inr by (simp add: ready_for_def)
  ultimately show ?thesis
    using i script_result [OF _ i] script_next [OF _ i] invoke_result [of "ex_key x" call _ s _ t]
    by (auto simp: script_of_def ready_for_def Inr core_def outside_connectors_def outcome_of_def)
qed

lemma attempt_round_tracks:
  assumes "seeded x s0" and "tracks s0 j hs s" and "phase x (a - 1) a j hs" and "ready_for x a s" and "1 \<le> a"
  shows "returns (attempt_round invoke x a (Some j) evs) s (\<lambda>q t. case q of
      Inl (job', evs') \<Rightarrow> \<exists>e j' hs'. script_of x a = Some e \<and> should_retry (ex_policy x) e a \<and>
        job' = Some j' \<and> tracks s0 j' hs' t \<and> phase x a (a + 1) j' hs' \<and> ready_for x (a + 1) t
    | Inr r \<Rightarrow> (\<exists>j' hs'. tracks s0 j' hs' t \<and> over x a (script_of x a) j' hs' r) \<and>
        (\<forall>e. script_of x a = Some e \<longrightarrow> \<not> should_retry (ex_policy x) e a))"
    (is "returns _ s ?Q")
proof -
  have start_spec: "returns (begin_attempt x (Some j) a) s (\<lambda>q t. (case q of (job, called) \<Rightarrow> \<exists>j' hs'.
     job = Some j' \<and> tracks s0 j' hs' t \<and> phase x a a j' hs') \<and> w_connectors t = w_connectors s)"
    by (rule returns_keeps [OF begin_attempt_tracks [OF assms(1,2,3)]]) (rule op_intro)
  from start_spec obtain j1 hs1 called t where
    b: "begin_attempt x (Some j) a s = (Inr (Some j1, called), t)" "tracks s0 j1 hs1 t" "phase x a a j1 hs1"
      "w_connectors t = w_connectors s"
    by (auto elim!: returnsE)
  obtain r u where c: "call_connector invoke x t = (r, u)" by fastforce
  note script = call_connector_script [OF c ready_for_same [OF b(4) assms(4)]]
  then have u: "tracks s0 j1 hs1 u" using tracks_core b(2) by blast
  have start: "attempt_round invoke x a (Some j) evs s =
      (case r of
         Inl e \<Rightarrow> and_then (lift_sum (decide_retry (ex_policy x) e a)) (\<lambda>decision.
           if rd_should_retry decision
           then and_then (schedule_retry x (Some j1) a decision) (\<lambda>(job, event).
                ret (Inl (job, evs @ [called, event])))
           else and_then (give_up x (Some j1) (evs @ [called]) a e) (\<lambda>result. ret (Inr result)))
       | Inr result \<Rightarrow> and_then (finish x (Some j1) (evs @ [called]) a result) (\<lambda>result. ret (Inr result))) u"
    using b(1) c by (simp add: attempt_round_def split: sum.splits)
  show ?thesis
  proof (cases r)
    case (Inr v)
    from finish_tracks [OF assms(1) u b(3), of v "evs @ [called]"] script Inr
    obtain w j' hs' where "finish x (Some j1) (evs @ [called]) a v u = (Inr v, w)"
        "tracks s0 j' hs' w" "over x a None j' hs' v"
      by (auto elim!: returnsE)
    with script Inr show ?thesis unfolding returns_def start by auto
  next
    case (Inl e)
    obtain d where d: "decide_retry (ex_policy x) e a = Inr d" "rd_should_retry d \<longleftrightarrow> should_retry (ex_policy x) e a"
      using decide_retry_iff [OF assms(5)] by blast
    show ?thesis
    proof (cases "should_retry (ex_policy x) e a")
      case True
      have "returns (schedule_retry x (Some j1) a d) u (\<lambda>q t. (case q of (job, called) \<Rightarrow> \<exists>j' hs'.
          job = Some j' \<and> tracks s0 j' hs' t \<and> phase x a (a + 1) j' hs') \<and> w_connectors t = w_connectors u)"
        by (rule returns_keeps [OF schedule_retry_tracks [OF assms(1) u b(3)]]) (rule op_intro)
      then obtain j2 hs2 ev w where "schedule_retry x (Some j1) a d u = (Inr (Some j2, ev), w)"
          "tracks s0 j2 hs2 w" "phase x a (a + 1) j2 hs2" "w_connectors w = w_connectors u"
        by (auto elim!: returnsE)
      with script Inl d True show ?thesis unfolding returns_def start by (auto intro: ready_for_same)
    next
      case False
      from give_up_tracks [OF assms(1) u b(3), of "evs @ [called]" e]
      obtain w j' hs' v where "give_up x (Some j1) (evs @ [called]) a e u = (Inr v, w)"
          "tracks s0 j' hs' w" "over x a (Some e) j' hs' v"
        by (auto elim!: returnsE)
      with script Inl d False show ?thesis unfolding returns_def start by auto
    qed
  qed
qed

lemma attempt_loop_tracks:
  assumes "seeded x s0"
  shows "tracks s0 j hs s \<Longrightarrow> phase x (a - 1) a j hs \<Longrightarrow> ready_for x a s \<Longrightarrow> 1 \<le> a \<Longrightarrow>
    returns (attempt_loop invoke x a (Some j) evs) s (\<lambda>r t. \<exists>j' hs'. tracks s0 j' hs' t \<and>
      (case attempts_spec (ex_policy x) (script_of x) a of (n, failure) \<Rightarrow> over x n failure j' hs' r))"
proof (induction "ex_policy x" "script_of x" a arbitrary: j hs s evs rule: attempts_spec.induct)
  case (1 a)
  from attempt_round_tracks [OF assms 1(2-5), of evs]
  obtain q t where r: "attempt_round invoke x a (Some j) evs s = (Inr q, t)"
    and q: "case q of
      Inl (job', evs') \<Rightarrow> \<exists>e j' hs'. script_of x a = Some e \<and> should_retry (ex_policy x) e a \<and>
        job' = Some j' \<and> tracks s0 j' hs' t \<and> phase x a (a + 1) j' hs' \<and> ready_for x (a + 1) t
    | Inr r \<Rightarrow> (\<exists>j' hs'. tracks s0 j' hs' t \<and> over x a (script_of x a) j' hs' r) \<and>
        (\<forall>e. script_of x a = Some e \<longrightarrow> \<not> should_retry (ex_policy x) e a)"
    by (rule returnsE)
  show ?case
  proof (cases q)
    case (Inr v)
    with q r show ?thesis
      by (cases "script_of x a")
        (auto simp: returns_def attempt_loop.simps [of invoke x a] attempts_spec.simps [of _ _ a])
  next
    case (Inl p)
    then obtain job' evs' where p: "q = Inl (job', evs')" by (cases p) auto
    with q obtain e j' hs' where e: "script_of x a = Some e" "should_retry (ex_policy x) e a"
        "job' = Some j'" "tracks s0 j' hs' t" "phase x a (a + 1) j' hs'" "ready_for x (a + 1) t"
      by auto
    from 1(1) [OF e(1,2,4) _ e(6), of evs'] e(5) 1(5)
    show ?thesis using r p e(1,2,3)
      by (simp add: returns_def attempt_loop.simps [of invoke x a] attempts_spec.simps [of _ _ a])
  qed
qed

end

text \<open>The mock connector: what its \<open>n\<close>-th execution of an operation does.\<close>

definition mock_script :: "mock_connector \<Rightarrow> connector_call \<Rightarrow> int \<Rightarrow> exn option" where
  "mock_script c call n =
     (let operation = call_operation call in
      if operation \<notin> set (mk_supported_operations c)
      then Some (connector_exn UnsupportedConnectorOperationError
             (''Connector '' @ str_repr (mk_name c) @ '' does not support operation '' @
              str_repr (connector_operation_value operation))
             (Some (mk_name c)) (Some (connector_operation_value operation)) [])
      else if \<not> mk_enabled c then None
      else if n \<le> mk_failures_before_success c
      then Some (connector_exn RetryableConnectorError ''Simulated retryable failure before success''
             (Some (mk_name c)) (Some (connector_operation_value operation)) [(''attempt'', JInt n)])
      else raise_for_simulation c operation)"

definition mock_ready ::
  "mock_connector \<Rightarrow> string \<Rightarrow> connector_call \<Rightarrow> string option \<Rightarrow> int \<Rightarrow> (string \<times> mock_connector) list \<Rightarrow> bool" where
  "mock_ready c key call corr n r \<longleftrightarrow> (\<exists>attempts. map_of r key = Some (c\<lparr>mk_attempts := attempts\<rparr>) \<and>
     (call_operation call \<in> set (mk_supported_operations c) \<and> mk_enabled c \<longrightarrow>
        dict_get 0 attempts (attempt_key (call_operation call) corr) = n - 1))"

lemma raise_for_simulation_attempts [simp]:
  "raise_for_simulation (c\<lparr>mk_attempts := a\<rparr>) = raise_for_simulation c"
  by (rule ext) (simp add: raise_for_simulation_def)

interpretation scripted_mock: scripted_connector mock_invoke "mock_script c" "mock_ready c" for c
proof
  fix key call corr n s r t
  assume ready: "mock_ready c key call corr n (w_connectors s)" and call: "mock_invoke key call corr s = (r, t)"
  from ready obtain at where at: "map_of (w_connectors s) key = Some (c\<lparr>mk_attempts := at\<rparr>)"
    and n: "call_operation call \<in> set (mk_supported_operations c) \<Longrightarrow> mk_enabled c \<Longrightarrow>
        dict_get 0 at (attempt_key (call_operation call) corr) = n - 1"
    by (auto simp: mock_ready_def)
  have run: "mock_execute key (c\<lparr>mk_attempts := at\<rparr>) (call_operation call) (call_payload call) corr s = (r, t)"
    using call at by (simp add: mock_invoke_def run_ops)
  show "mock_script c call n = (case r of Inl e \<Rightarrow> Some e | Inr _ \<Rightarrow> None)"
    using run n by (auto simp: mock_execute_def mock_script_def result_skipped_def result_success_def
        record_attempt_def recorded_attempt_def perf_counter_def run_ops Let_def split: if_splits option.splits)
  show "mock_ready c key call corr (n + 1) (w_connectors t)"
    using run n at by (auto simp: mock_execute_def mock_ready_def result_skipped_def result_success_def
        record_attempt_def recorded_attempt_def perf_counter_def run_ops Let_def split: if_splits option.splits)
qed

section \<open>The whole call\<close>

text \<open>
  What the attempts of an execution raise, by number: the payload may not fit the operation,
  in which case the connector is never called.
\<close>

definition execution_script :: "mock_connector \<Rightarrow> connector_operation \<Rightarrow> payload \<Rightarrow> int \<Rightarrow> exn option" where
  "execution_script c operation payload n =
     (case connector_call_of operation payload of
        Inl e \<Rightarrow> Some e | Inr call \<Rightarrow> mock_script c call n)"

lemma script_of_mock:
  "scripted_connector.script_of (mock_script c) x = execution_script c (ex_operation x) (ex_payload x)"
  by (rule ext) (simp add: scripted_mock.script_of_def execution_script_def split: sum.splits)

lemma keeps_resolve_correlation_id [op_intro]:
  "(\<And>s n. f (s\<lparr>w_uuid_reads := n\<rparr>) = f s) \<Longrightarrow> keeps (same f) (resolve_correlation_id corr)"
  by (auto simp: resolve_correlation_id_def intro!: op_intro split: option.splits)

lemma no_raise_resolve_correlation_id [op_intro]: "no_raise (resolve_correlation_id corr)"
  by (auto simp: resolve_correlation_id_def intro!: op_intro split: option.splits)

lemma tracks_start: "core s' = core s \<Longrightarrow> tracks s' = tracks s"
  by (intro ext) (simp add: tracks_def core_def)

lemma open_job_tracks:
  assumes "ex_with_db x" and "seeded x s" and "fresh_keys (w_env s)"
  shows "returns (open_job x) s (\<lambda>job t. \<exists>j hs. job = Some j \<and> tracks s j hs t \<and> phase x 0 1 j hs)"
proof -
  let ?s = "s\<lparr>w_job_pending := []\<rparr>"
  have "returns (create_job co cn op' ty ti (rp_max_attempts (ex_policy x))) ?s
      (\<lambda>j t. tracks s j (drop (length (db_history (w_db s))) (db_history (w_db t))) t \<and>
         (cn = ex_connector x \<longrightarrow> phase x 0 1 j (drop (length (db_history (w_db s))) (db_history (w_db t)))))"
    for co cn op' ty ti
    using assms(3)
    by (intro returns_mono [OF create_job_tracks]) (auto simp: tracks_start [of ?s s] tracks_def phase_def created_entry_def)
  note create = this
  show ?thesis
    using assms(1) unfolding open_job_def
    apply simp
    apply (rule returns_and_then [where P = "\<lambda>_ t. t = ?s"])
     apply (simp add: returns_def)
    apply hypsubst
    apply (rule returns_and_then, rule create)
    apply (elim conjE)
    apply (erule returns_quietly)
     apply (intro op_intro assms(2))
    apply auto
    done
qed

lemma execute_tracks:
  assumes "operation_of operation = Inr op'"
    and "map_of (w_connectors s) (normalize_connector_name name) = Some c" and "mk_attempts c = []"
    and "fresh_keys (w_env s)"
    and "requester \<noteq> None \<and> target \<noteq> None \<longrightarrow> connector_audit_entitlement (w_db s) \<noteq> None"
  shows "returns (execute mock_invoke p name operation payload corr True requester target) s
     (\<lambda>r t. \<exists>x j hs. tracks s j hs t \<and> ex_policy x = p \<and> ex_operation x = op' \<and> ex_connector x = mk_name c \<and>
        (case attempts_spec p (execution_script c op' (case payload of None \<Rightarrow> [] | Some d \<Rightarrow> d)) 1 of
          (n, failure) \<Rightarrow> over x n failure j hs r))"
proof -
  define y where "y cid st = \<lparr>ex_policy = p, ex_with_db = True, ex_requester_id = requester,
              ex_target_user_id = target, ex_key = normalize_connector_name name,
              ex_connector = mk_name c, ex_operation = op',
              ex_payload = (case payload of None \<Rightarrow> [] | Some p \<Rightarrow> p),
              ex_correlation_id = cid, ex_started_at = st\<rparr>" for cid st
  have seeded: "core t = core s \<Longrightarrow> seeded (y cid st) t" for cid st t
    using assms(5) by (simp add: seeded_def y_def core_def)
  have resolve: "returns (resolve_correlation_id corr :: string wop) s (\<lambda>_ t. core t = core s \<and> w_connectors t = w_connectors s)"
    by (rule returns_keeps [OF returns_same]) (auto intro!: op_intro)
  have rest: "returns (attempt_loop mock_invoke (y cid st) 1 (Some j) evs) u
     (\<lambda>r t. \<exists>j' hs'. tracks s j' hs' t \<and>
        (case attempts_spec p (execution_script c op' (case payload of None \<Rightarrow> [] | Some d \<Rightarrow> d)) 1 of
          (n, failure) \<Rightarrow> over (y cid st) n failure j' hs' r))"
    if u: "tracks s j hs u" "phase (y cid 0) 0 1 j hs" "w_connectors u = w_connectors s" for cid st j hs u evs
  proof -
    have ready: "scripted_connector.ready_for (mock_ready c) (y cid st) 1 u"
      using assms(2,3) u(3) by (auto simp: scripted_mock.ready_for_def mock_ready_def y_def dict_get_def
          split: sum.splits intro!: exI [of _ "[]"])
    have phase: "phase (y cid st) (1 - 1) 1 j hs"
      using u(2) by (simp add: phase_def y_def)
    have "(case payload of None \<Rightarrow> [] | Some d \<Rightarrow> d) = ex_payload (y cid st)" "p = ex_policy (y cid st)"
        "op' = ex_operation (y cid st)"
      by (simp_all add: y_def)
    then show ?thesis
      using scripted_mock.attempt_loop_tracks [OF seeded [OF refl] u(1) phase ready, of evs]
      by (simp add: script_of_mock)
  qed
  obtain cid s1 where s1: "(resolve_correlation_id corr :: string wop) s = (Inr cid, s1)" "core s1 = core s"
      "w_connectors s1 = w_connectors s"
    using resolve by (auto elim!: returnsE)
  have "returns (open_job (y cid 0)) s1 (\<lambda>job t. (\<exists>j hs. job = Some j \<and> tracks s1 j hs t \<and>
      phase (y cid 0) 0 1 j hs) \<and> w_connectors t = w_connectors s1)"
    using assms(4) s1(2)
    by (intro returns_keeps [OF open_job_tracks] op_intro seeded) (simp_all add: y_def core_def)
  then obtain j hs s2 where s2: "open_job (y cid 0) s1 = (Inr (Some j), s2)" "tracks s j hs s2"
      "phase (y cid 0) 0 1 j hs" "w_connectors s2 = w_connectors s"
    using s1(3) tracks_start [OF s1(2)] by (auto elim!: returnsE)
  let ?ev = "ProvisioningStarted (mk_name c) (connector_operation_value op') cid"
  have "returns (and_then (stamp ?ev) (\<lambda>ev. and_then perf_counter (\<lambda>st. ret (ev, st))) :: (timed_event \<times> int) wop) s2
      (\<lambda>_ t. tracks s j hs t \<and> w_connectors t = w_connectors s2)"
    by (rule returns_keeps [OF preservesD]) (auto intro!: op_intro s2(2))
  then obtain ev st s4 where s4: "(and_then (stamp ?ev) (\<lambda>ev. and_then perf_counter (\<lambda>st. ret (ev, st))) :: (timed_event \<times> int) wop) s2
        = (Inr (ev, st), s4)" "tracks s j hs s4" "w_connectors s4 = w_connectors s"
    using s2(4) by (auto elim!: returnsE)
  then obtain s3 where s3: "(stamp ?ev :: timed_event wop) s2 = (Inr ev, s3)" "(perf_counter :: int wop) s3 = (Inr st, s4)"
    by (auto elim!: and_then_okE)
  have "execute mock_invoke p name operation payload corr True requester target s =
      attempt_loop mock_invoke (y cid st) 1 (Some j) [ev] s4"
    using s1 s2 s3 assms(1,2)
    by (simp add: execute_def registry_get_def y_def ex_operation_value_def)
  with rest [OF s4(2) s2(3) s4(3), of st "[ev]"]
  have "returns (execute mock_invoke p name operation payload corr True requester target) s
     (\<lambda>r t. \<exists>j' hs'. tracks s j' hs' t \<and>
        (case attempts_spec p (execution_script c op' (case payload of None \<Rightarrow> [] | Some d \<Rightarrow> d)) 1 of
          (n, failure) \<Rightarrow> over (y cid st) n failure j' hs' r))"
    by (simp add: returns_def)
  then show ?thesis
    by (rule returns_mono) (rule exI [of _ "y cid st"], simp add: y_def)
qed

section \<open>Properties\<close>

text \<open>
  When a call can be carried out: the connector is in the registry, as the registry of a request
  has it before its first call; keys are fresh; and if the call is to be audited, the
  entitlement that its audit events name has been seeded.
\<close>

definition execution_ready ::
  "world \<Rightarrow> string \<Rightarrow> mock_connector \<Rightarrow> int option \<Rightarrow> int option \<Rightarrow> bool" where
  "execution_ready s name c requester target \<longleftrightarrow>
     map_of (w_connectors s) (normalize_connector_name name) = Some c \<and> mk_attempts c = [] \<and>
     fresh_keys (w_env s) \<and>
     (requester \<noteq> None \<and> target \<noteq> None \<longrightarrow> connector_audit_entitlement (w_db s) \<noteq> None)"

abbreviation given_payload :: "payload option \<Rightarrow> payload" where
  "given_payload payload \<equiv> (case payload of None \<Rightarrow> [] | Some p \<Rightarrow> p)"

definition sample_connected :: "int \<Rightarrow> world" where
  "sample_connected k = sample_world\<lparr>w_connectors :=
     [(''github'', (shipped_connector ''github'' ''GitHub'')\<lparr>mk_failures_before_success := k\<rparr>)]\<rparr>"

lemma sample_execution:
  "execution_ready (sample_connected k) '' GitHub '' ((shipped_connector ''github'' ''GitHub'')\<lparr>mk_failures_before_success := k\<rparr>) None None"
  "operation_of ''create_user'' = Inr Op_CREATE_USER"
  "new_retry_policy 3 100 1000 [RetryableConnectorError] = Inr default_retry_policy"
proof -
  have "normalize_connector_name '' GitHub '' = ''github''" by code_simp
  then show "execution_ready (sample_connected k) '' GitHub ''
      ((shipped_connector ''github'' ''GitHub'')\<lparr>mk_failures_before_success := k\<rparr>) None None"
    using sample_fresh by (simp add: execution_ready_def sample_connected_def shipped_connector_def)
  show "operation_of ''create_user'' = Inr Op_CREATE_USER" by code_simp
  show "new_retry_policy 3 100 1000 [RetryableConnectorError] = Inr default_retry_policy"
    by (simp add: new_retry_policy_def default_retry_policy_def)
qed

lemma new_retry_policy_max: "new_retry_policy m base cap types = Inr p \<Longrightarrow> rp_max_attempts p = m \<and> 1 \<le> m"
  by (auto simp: new_retry_policy_def split: if_splits)

lemma execute_ready_tracks:
  assumes "operation_of operation = Inr op'" and "execution_ready s name c requester target"
    and "attempts_spec p (execution_script c op' (given_payload payload)) 1 = (n, failure)"
  obtains r t x j hs where
    "execute mock_invoke p name operation payload corr True requester target s = (Inr r, t)"
    "tracks s j hs t" "ex_policy x = p" "over x n failure j hs r"
proof -
  from assms(2) have ready: "map_of (w_connectors s) (normalize_connector_name name) = Some c"
    "mk_attempts c = []" "fresh_keys (w_env s)"
    "requester \<noteq> None \<and> target \<noteq> None \<longrightarrow> connector_audit_entitlement (w_db s) \<noteq> None"
    unfolding execution_ready_def by blast+
  show thesis
    using execute_tracks [OF assms(1) ready, of p payload corr] assms(3) that
    by (auto elim!: returnsE)
qed

text \<open>
  C5. A call of the orchestrator with an operation that exists and a connector that is ready always
  returns, and what it leaves in the job it created is what the specification of retrying says
  for this connector and payload: the number of attempts, the last error and the status, which
  is final; the attempts lie between one and the maximum of the policy, and all but the last
  are counted as retries.
\<close>

theorem execute_refines_attempts_spec:
  assumes "operation_of operation = Inr op'" and "execution_ready s name c requester target"
    and "new_retry_policy m base cap types = Inr p"
  shows "\<exists>r t j n failure.
     execute mock_invoke p name operation payload corr True requester target s = (Inr r, t) \<and>
     attempts_spec p (execution_script c op' (given_payload payload)) 1 = (n, failure) \<and>
     db_jobs (w_db t) = db_jobs (w_db s) @ [j] \<and> pj_id j \<notin> pj_id ` set (db_jobs (w_db s)) \<and>
     pj_attempt_count j = n \<and> pj_retry_count j = n - 1 \<and> 1 \<le> n \<and> n \<le> m \<and> pj_max_attempts j = m \<and>
     pj_last_error j = map_option exn_message failure \<and>
     pj_status j = connector_status_value (cr_status r) \<and> pj_retryable j = cr_retryable r \<and>
     (case failure of
        None \<Rightarrow> cr_status r \<in> {Connector_SUCCESS, Connector_SKIPPED}
      | Some e \<Rightarrow> cr_status r = (if exn_retryable e then Connector_RETRYABLE else Connector_FAILED) \<and>
          cr_message r = exn_message e) \<and>
     pj_completed_at j \<noteq> None"
proof -
  obtain n failure where spec: "attempts_spec p (execution_script c op' (given_payload payload)) 1 = (n, failure)"
    by fastforce
  from execute_ready_tracks [OF assms(1,2) spec]
  obtain r t x j hs where run: "execute mock_invoke p name operation payload corr True requester target s = (Inr r, t)"
    and x: "tracks s j hs t" "ex_policy x = p" "over x n failure j hs r" by metis
  from new_retry_policy_max [OF assms(3)] attempts_spec_bounds [OF _ spec]
  have "1 \<le> n" "n \<le> m" "rp_max_attempts p = m" by auto
  with run spec x show ?thesis
    by (intro exI [of _ r] exI [of _ t] exI [of _ j] exI [of _ n] exI [of _ failure])
       (auto simp: tracks_def over_def outcome_of_def split: option.splits)
qed

lemma execute_refines_attempts_spec_witness:
  "\<exists>r t j. execute mock_invoke default_retry_policy '' GitHub '' ''create_user'' None None True None None
       (sample_connected 1) = (Inr r, t) \<and>
     db_jobs (w_db t) = [j] \<and> pj_attempt_count j = 2 \<and> cr_status r \<in> {Connector_SUCCESS, Connector_SKIPPED}"
proof -
  let ?c = "(shipped_connector ''github'' ''GitHub'')\<lparr>mk_failures_before_success := 1\<rparr>"
  have "attempts_spec default_retry_policy (execution_script ?c Op_CREATE_USER []) 1 = (2, None)"
    by code_simp
  with execute_refines_attempts_spec [OF sample_execution(2,1,3), of None None 1]
  show ?thesis by (auto simp: sample_connected_def sample_world_def sample_db_def)
qed

text \<open>
  C31. The history that a call writes tells what happened, in order.  Its rows are appended and
  belong to the new job; read by kind of event, status and attempt number they are: the pending
  creation; for each attempt before the last, its start, its invocation and the retry; for the
  last attempt its start, its invocation, the result with the final status of the job, and the
  end, which is a completion exactly when the call succeeded.  The number of attempts and the
  success are those of the specification of retrying.  Earlier jobs and history rows stay, the
  audit trail only grows, and every other table is untouched.
\<close>

theorem execute_writes_history:
  assumes "operation_of operation = Inr op'" and "execution_ready s name c requester target"
    and "attempts_spec p (execution_script c op' (given_payload payload)) 1 = (n, failure)"
  shows "\<exists>r t j hs.
     execute mock_invoke p name operation payload corr True requester target s = (Inr r, t) \<and>
     db_jobs (w_db t) = db_jobs (w_db s) @ [j] \<and> pj_status j = connector_status_value (cr_status r) \<and>
     db_history (w_db t) = db_history (w_db s) @ hs \<and> (\<forall>h \<in> set hs. ph_job_id h = pj_id j) \<and>
     map (\<lambda>h. (ph_event_type h, ph_status h, ph_attempt h)) hs =
       (''job_created'', ''PENDING'', 0) #
       concat (map (\<lambda>a. [(''job_started'', ''RUNNING'', a), (''connector_invocation'', ''RUNNING'', a),
                         (''retry_recorded'', ''RETRYABLE'', a)]) [1..n - 1]) @
       [(''job_started'', ''RUNNING'', n), (''connector_invocation'', ''RUNNING'', n),
        (''connector_result'', pj_status j, n),
        (if failure = None then ''job_completed'' else ''job_failed'', pj_status j, n)] \<and>
     prefix (db_audit (w_db s)) (db_audit (w_db t)) \<and> quiet (w_db t) = quiet (w_db s)"
proof -
  from execute_ready_tracks [OF assms]
  obtain r t x j hs where run: "execute mock_invoke p name operation payload corr True requester target s = (Inr r, t)"
    and x: "tracks s j hs t" "over x n failure j hs r" by metis
  have entry: "history_entry = (\<lambda>h. (ph_event_type h, ph_status h, ph_attempt h))"
    by (rule ext) (simp add: history_entry_def)
  from x(2) have "pj_status j = connector_status_value (cr_status r)"
    and told: "map history_entry hs = created_entry # retried_entries (n - 1) @ attempt_entries n @
       outcome_entries n (pj_status j) (failure = None)" by (simp_all add: over_def)
  with run x(1) show ?thesis
    unfolding entry
    by (intro exI [of _ r] exI [of _ t] exI [of _ j] exI [of _ hs])
      (cases failure; simp add: tracks_def created_entry_def retried_entries_def attempt_entries_def
        outcome_entries_def enum_values)
qed

lemma execute_writes_history_witness:
  "\<exists>r t. execute mock_invoke default_retry_policy '' GitHub '' ''create_user'' None None True None None
       (sample_connected 1) = (Inr r, t) \<and>
     map ph_event_type (db_history (w_db t)) =
       [''job_created'', ''job_started'', ''connector_invocation'', ''retry_recorded'',
        ''job_started'', ''connector_invocation'', ''connector_result'', ''job_completed'']"
proof -
  let ?c = "(shipped_connector ''github'' ''GitHub'')\<lparr>mk_failures_before_success := 1\<rparr>"
  have spec: "attempts_spec default_retry_policy (execution_script ?c Op_CREATE_USER (given_payload None)) 1 = (2, None)"
    by code_simp
  obtain r t hs where run: "execute mock_invoke default_retry_policy '' GitHub '' ''create_user'' None None True None None
       (sample_connected 1) = (Inr r, t)" "db_history (w_db t) = hs"
    and told: "map (fst \<circ> (\<lambda>h. (ph_event_type h, ph_status h, ph_attempt h))) hs =
       [''job_created'', ''job_started'', ''connector_invocation'', ''retry_recorded'',
        ''job_started'', ''connector_invocation'', ''connector_result'', ''job_completed'']"
    using execute_writes_history [OF sample_execution(2,1) spec, of None]
    by (auto simp: sample_connected_def sample_world_def sample_db_def simp flip: map_map)
  then show ?thesis by (auto simp: o_def)
qed

lemma attempts_spec_flaky:
  "\<forall>n. script n = (if n \<le> k then Some (fail n) else None) \<Longrightarrow> \<forall>n. exn_retryable (fail n) \<Longrightarrow>
   a \<le> rp_max_attempts p \<Longrightarrow> a \<le> k + 1 \<Longrightarrow>
   attempts_spec p script a = (if k < rp_max_attempts p then (k + 1, None)
       else (rp_max_attempts p, Some (fail (rp_max_attempts p))))"
proof (induction p script a rule: attempts_spec.induct)
  case (1 p script a)
  show ?case
  proof (cases "a \<le> k")
    case True
    then have fails: "script a = Some (fail a)" using 1(2) by simp
    show ?thesis
    proof (cases "a < rp_max_attempts p")
      case again: True
      then have retry: "should_retry p (fail a) a"
        using 1(3) by (simp add: should_retry_def is_retryable_exception_def)
      from 1(1) [OF fails retry 1(2,3)] again True
      have "attempts_spec p script (a + 1) = (if k < rp_max_attempts p then (k + 1, None)
          else (rp_max_attempts p, Some (fail (rp_max_attempts p))))" by simp
      with fails retry show ?thesis by (simp add: attempts_spec.simps [of p script a])
    next
      case False
      with 1(4) True fails show ?thesis
        unfolding attempts_spec.simps [of p script a] by (simp add: should_retry_def)
    qed
  next
    case False
    then have "script a = None" using 1(2) by simp
    with False 1(4,5) show ?thesis by (simp add: attempts_spec.simps [of p script a])
  qed
qed

lemma execution_script_flaky:
  assumes "mk_enabled c" and "mk_simulation_mode c = Mode_SUCCESS" and "op' \<in> set (mk_supported_operations c)"
    and "connector_call_of op' payload = Inr call"
  shows "execution_script c op' payload n = (if n \<le> mk_failures_before_success c
     then Some (connector_exn RetryableConnectorError ''Simulated retryable failure before success''
             (Some (mk_name c)) (Some (connector_operation_value op')) [(''attempt'', JInt n)])
     else None)"
proof -
  have "call_operation call = op'"
    using assms(4) by (cases op') (auto simp: bind_sum_def split: sum.splits)
  with assms show ?thesis
    by (simp add: execution_script_def mock_script_def raise_for_simulation_def Let_def)
qed

text \<open>
  C32. A connector that fails a number of times before it succeeds is called once more than that, but
  never more often than the policy allows: the call succeeds exactly when the maximum exceeds
  the failures, and otherwise it reports a failure that can be retried.
\<close>

theorem execute_flaky_connector:
  assumes "operation_of operation = Inr op'" and "execution_ready s name c requester target"
    and "new_retry_policy m base cap types = Inr p" and "0 \<le> mk_failures_before_success c"
    and "mk_enabled c" and "mk_simulation_mode c = Mode_SUCCESS" and "op' \<in> set (mk_supported_operations c)"
    and "connector_call_of op' (given_payload payload) = Inr call"
  shows "\<exists>r t j. execute mock_invoke p name operation payload corr True requester target s = (Inr r, t) \<and>
     db_jobs (w_db t) = db_jobs (w_db s) @ [j] \<and> pj_attempt_count j = min m (mk_failures_before_success c + 1) \<and>
     (if mk_failures_before_success c < m then cr_status r \<in> {Connector_SUCCESS, Connector_SKIPPED} \<and> pj_last_error j = None
      else cr_status r = Connector_RETRYABLE \<and>
        pj_last_error j = Some ''Simulated retryable failure before success'')"
proof -
  let ?k = "mk_failures_before_success c"
  define fail where "fail n = connector_exn RetryableConnectorError ''Simulated retryable failure before success''
      (Some (mk_name c)) (Some (connector_operation_value op')) [(''attempt'', JInt n)]" for n
  have m: "rp_max_attempts p = m" "1 \<le> m" using new_retry_policy_max [OF assms(3)] by auto
  have retryable: "\<forall>n. exn_retryable (fail n)"
    by (simp add: fail_def connector_exn_def retryable_class_def)
  have message: "exn_message (fail n) = ''Simulated retryable failure before success''" for n
    by (simp add: fail_def connector_exn_def exn_message.simps)
  have script: "\<forall>n. execution_script c op' (given_payload payload) n = (if n \<le> ?k then Some (fail n) else None)"
    using execution_script_flaky [OF assms(5-8)] by (simp add: fail_def)
  have spec: "attempts_spec p (execution_script c op' (given_payload payload)) 1 =
      (if ?k < m then (?k + 1, None) else (m, Some (fail m)))"
    using attempts_spec_flaky [OF script retryable, of 1 p] m assms(4) by simp
  obtain n failure where nf: "(n, failure) = (if ?k < m then (?k + 1, None) else (m, Some (fail m)))"
    by (metis surj_pair)
  from execute_ready_tracks [OF assms(1,2) spec [folded nf]]
  obtain r t x j hs where run: "execute mock_invoke p name operation payload corr True requester target s = (Inr r, t)"
    and x: "tracks s j hs t" "over x n failure j hs r" by metis
  with nf retryable message show ?thesis
    by (intro exI [of _ r] exI [of _ t] exI [of _ j])
       (auto simp: tracks_def over_def outcome_of_def split: if_splits)
qed

lemma execute_flaky_connector_witness:
  "(\<exists>r t j. execute mock_invoke default_retry_policy '' GitHub '' ''create_user'' None None True None None
       (sample_connected 2) = (Inr r, t) \<and> db_jobs (w_db t) = [j] \<and> pj_attempt_count j = 3) \<and>
   (\<exists>r t j. execute mock_invoke default_retry_policy '' GitHub '' ''create_user'' None None True None None
       (sample_connected 9) = (Inr r, t) \<and> db_jobs (w_db t) = [j] \<and> pj_attempt_count j = 3 \<and>
       cr_status r = Connector_RETRYABLE)"
proof -
  let ?c = "\<lambda>k. (shipped_connector ''github'' ''GitHub'')\<lparr>mk_failures_before_success := k\<rparr>"
  have mutating: "Op_CREATE_USER \<in> set MUTATING_CONNECTOR_OPERATIONS" by code_simp
  have "mk_enabled (?c k)" "mk_simulation_mode (?c k) = Mode_SUCCESS"
    "Op_CREATE_USER \<in> set (mk_supported_operations (?c k))" "mk_failures_before_success (?c k) = k"
    "connector_call_of Op_CREATE_USER (given_payload None) = Inr (CreateUser [])" for k
    using mutating by (simp_all add: shipped_connector_def)
  note c = this
  have "db_jobs (w_db (sample_connected k)) = []" for k
    by (simp add: sample_connected_def sample_world_def sample_db_def)
  then show ?thesis
    using execute_flaky_connector [OF sample_execution(2,1,3) _ c(1-3,5), of 2 None]
      execute_flaky_connector [OF sample_execution(2,1,3) _ c(1-3,5), of 9 None]
    by (auto simp: c(4))
qed

text \<open>
  A call for an operation that does not exist, or for a connector that is not registered, is
  refused before anything happens: no job is created, no table and no published event changes,
  and no connector is called.
\<close>

theorem execute_refuses_unknown:
  assumes "operation \<notin> connector_operation_value ` set connector_operation_members \<or>
     normalize_connector_name name \<notin> fst ` set (w_connectors s)"
  shows "\<exists>e t. execute invoke p name operation payload corr with_db requester target s = (Inl e, t) \<and>
     (e = ValueError (str_repr operation @ '' is not a valid ConnectorOperation'') \<or> e = unknown_connector name) \<and>
     w_db t = w_db s \<and> w_published t = w_published s \<and> w_connectors t = w_connectors s"
proof (cases "operation_of operation")
  case (Inl e)
  then show ?thesis
    by (auto simp: execute_def operation_of_def run_ops split: option.splits)
next
  case (Inr op')
  then have "operation \<in> connector_operation_value ` set connector_operation_members"
    by (auto simp: operation_of_def connector_operation.parse_Some_iff connector_operation.members
        split: option.splits)
  with assms have none: "map_of (w_connectors s) (normalize_connector_name name) = None"
    by (simp add: map_of_eq_None_iff)
  obtain cid t where r: "(resolve_correlation_id corr :: string wop) s = (Inr cid, t)"
    by (rule no_raiseE [OF no_raise_resolve_correlation_id])
  have "w_db t = w_db s" "w_published t = w_published s" "w_connectors t = w_connectors s"
    by (rule keeps_same_result [OF keeps_resolve_correlation_id r]; simp)+
  with Inr r none show ?thesis
    by (simp add: execute_def run_ops registry_get_def)
qed

lemma execute_refuses_unknown_witness:
  "\<exists>e t. execute mock_invoke default_retry_policy ''github'' ''reboot'' None None True None None sample_world
     = (Inl e, t) \<and> w_db t = sample_db"
  using execute_refuses_unknown [of "''reboot''" "''github''" sample_world mock_invoke default_retry_policy]
  by (force simp: sample_world_def)

end
