(* ===== verification/Revocation.thy ===== *)
theory Revocation
  imports Remediation Certification Orchestration
begin

text \<open>
  What remediation does: every revoke decision of a completed campaign gets exactly one
  remediation job, which ends completed, skipped or failed; nothing beside the jobs, their
  history and the audit trail is written; and doing it again does nothing.
\<close>

section \<open>What an execution leaves alone\<close>

definition aside :: "world \<Rightarrow> db \<times> environment \<times> request_context option" where
  "aside s = (quiet (w_db s), w_env s, w_context s)"

lemma aside_simps [simp]:
  "aside (s\<lparr>w_clock_reads := n\<rparr>) = aside s" "aside (s\<lparr>w_perf_reads := n\<rparr>) = aside s"
  "aside (s\<lparr>w_metrics := m\<rparr>) = aside s" "aside (s\<lparr>w_job_pending := p\<rparr>) = aside s"
  "aside (s\<lparr>w_pending := p\<rparr>) = aside s" "aside (s\<lparr>w_published := p\<rparr>) = aside s"
  "aside (s\<lparr>w_connectors := r\<rparr>) = aside s" "aside (s\<lparr>w_uuid_reads := n\<rparr>) = aside s"
  "aside (s\<lparr>w_db := (w_db s)\<lparr>db_jobs := js\<rparr>\<rparr>) = aside s"
  "aside (s\<lparr>w_db := (w_db s)\<lparr>db_history := hs\<rparr>\<rparr>) = aside s"
  "aside (s\<lparr>w_db := (w_db s)\<lparr>db_audit := as\<rparr>\<rparr>) = aside s"
  by (simp_all add: aside_def quiet_def)

lemma keeps_aside_jobs [op_intro]:
  "keeps (same aside) (add_history j ty st m a r du de)" "keeps (same aside) (start_job j a)"
  "keeps (same aside) (create_job co cn op' tt ti ma)"
  "keeps (same aside) (count_job j st d)" "keeps (same aside) (observe_job j n d)"
  by (auto simp: add_history_def record_history_def start_job_def create_job_def count_job_def observe_job_def Let_def
      intro!: op_intro)

lemma keeps_aside_complete [op_intro]:
  "keeps (same aside) (complete_job j st m a du r de)" "keeps (same aside) (fail_job j st m a du r de)"
  "keeps (same aside) (record_retry j a nx dl m)"
  by (auto simp: complete_job_def fail_job_def record_retry_def Let_def intro!: op_intro)

lemma keeps_with_job [op_intro]:
  "(\<And>j. keeps (same f) (m j)) \<Longrightarrow> keeps (same f) (with_job job m)"
  by (auto simp: with_job_def intro!: op_intro)

lemma keeps_aside_rounds [op_intro]:
  "keeps (same aside) (begin_attempt x job a)" "keeps (same aside) (schedule_retry x job a d)"
  "keeps (same aside) (open_job x)"
  by (auto simp: begin_attempt_def schedule_retry_def open_job_def Let_def intro!: op_intro)

lemma keeps_aside_ends [op_intro]:
  "keeps (same aside) (give_up x job evs a e)" "keeps (same aside) (finish x job evs a r)"
  by (auto simp: give_up_def finish_def Let_def intro!: op_intro)

lemma outside_connectors_aside: "outside_connectors t = outside_connectors s \<Longrightarrow> aside t = aside s"
  by (simp add: outside_connectors_def aside_def)

lemma attempt_loop_frame:
  assumes "\<And>x a job evs. keeps (same f) (attempt_round invoke x a job evs)"
    and "attempt_loop invoke x a job evs s = (r, t)"
  shows "f t = f s"
  using assms
proof (induction invoke x a job evs s rule: attempt_loop.induct)
  case (1 invoke x a job evs s)
  obtain q u where q: "attempt_round invoke x a job evs s = (q, u)" by fastforce
  have u: "f u = f s" by (rule keeps_same_result [OF "1.prems"(1) q])
  show ?case
  proof (cases "\<exists>job' evs'. q = Inr (Inl (job', evs'))")
    case True
    then obtain job' evs' where q': "attempt_round invoke x a job evs s = (Inr (Inl (job', evs')), u)"
      using q by auto
    with "1.prems"(2) have "attempt_loop invoke x (a + 1) job' evs' u = (r, t)"
      by (simp add: attempt_loop.simps [of invoke x a])
    from "1.IH" [OF q' [symmetric] refl refl refl "1.prems"(1) this] u show ?thesis by simp
  next
    case False
    with "1.prems"(2) q have "t = u"
      by (auto simp: attempt_loop.simps [of invoke x a] split: sum.splits)
    with u show ?thesis by simp
  qed
qed

context identity_connector
begin

lemma keeps_aside_call [op_intro]: "keeps (same aside) (call_connector invoke x)"
proof -
  have "keeps (same aside) (invoke key call c)" for key call c
    using invoke_frame outside_connectors_aside unfolding keeps_def by blast
  then show ?thesis by (auto simp: call_connector_def intro!: op_intro)
qed

lemma keeps_aside_round: "keeps (same aside) (attempt_round invoke x a job evs)"
  by (auto simp: attempt_round_def intro!: op_intro)

lemma keeps_aside_execute: "keeps (same aside) (execute invoke p cn op' pl co b rq tu)"
proof -
  have loop: "keeps (same aside) (attempt_loop invoke x a job evs)" for x a job evs
    unfolding keeps_def using attempt_loop_frame [OF keeps_aside_round] by (metis prod.collapse)
  show ?thesis by (auto simp: execute_def Let_def intro!: op_intro loop)
qed

end

section \<open>A job and what surrounds it\<close>

definition beside_work :: "db \<Rightarrow> db" where
  "beside_work d = (quiet d)\<lparr>db_rjobs := []\<rparr>"

definition beyond :: "world \<Rightarrow> db \<times> environment \<times> request_context option" where
  "beyond s = (beside_work (w_db s), w_env s, w_context s)"

text \<open>Since \<open>s0\<close> the database has gained the remediation job as it is now, and records of the work on it.\<close>

definition holding :: "world \<Rightarrow> remediation_job \<Rightarrow> world \<Rightarrow> bool" where
  "holding s0 job s \<longleftrightarrow> rj_id job \<notin> rj_id ` set (db_rjobs (w_db s0)) \<and>
     db_rjobs (w_db s) = db_rjobs (w_db s0) @ [job] \<and> beyond s = beyond s0"

definition origin :: "remediation_job \<Rightarrow> int \<times> int \<times> int \<times> string \<times> string \<times> int" where
  "origin j = (rj_id j, rj_campaign_id j, rj_review_item_id j, rj_correlation_id j, rj_remediation_type j,
     rj_initiated_by j)"

lemma origin_simps [simp]:
  "origin (j\<lparr>rj_status := a\<rparr>) = origin j" "origin (j\<lparr>rj_started_at := b\<rparr>) = origin j"
  "origin (j\<lparr>rj_completed_at := b\<rparr>) = origin j" "origin (j\<lparr>rj_last_error := c\<rparr>) = origin j"
  "origin (j\<lparr>rj_provisioning_job_id := d\<rparr>) = origin j"
  by (simp_all add: origin_def)

lemma originD:
  "origin j = origin k \<Longrightarrow> rj_id j = rj_id k \<and> rj_review_item_id j = rj_review_item_id k \<and>
     rj_campaign_id j = rj_campaign_id k \<and> rj_initiated_by j = rj_initiated_by k"
  by (simp add: origin_def)

lemma quiet_sel:
  "db_items (quiet d) = db_items d" "db_decisions (quiet d) = db_decisions d" "db_rjobs (quiet d) = db_rjobs d"
  "db_campaigns (quiet d) = db_campaigns d" "db_access (quiet d) = db_access d"
  by (simp_all add: quiet_def)

lemma beyond_sel:
  "db_items (fst (beyond s)) = db_items (w_db s)" "db_decisions (fst (beyond s)) = db_decisions (w_db s)"
  "db_campaigns (fst (beyond s)) = db_campaigns (w_db s)" "db_access (fst (beyond s)) = db_access (w_db s)"
  "fst (snd (beyond s)) = w_env s"
  by (simp_all add: beyond_def beside_work_def quiet_sel)

lemma beyond_tables:
  assumes "beyond t = beyond s"
  shows "db_items (w_db t) = db_items (w_db s)" "db_decisions (w_db t) = db_decisions (w_db s)"
    "db_campaigns (w_db t) = db_campaigns (w_db s)" "db_access (w_db t) = db_access (w_db s)"
    "w_env t = w_env s"
  using assms beyond_sel [of s] beyond_sel [of t] by metis+

lemma aside_beyond: "aside t = aside s \<Longrightarrow> beyond t = beyond s \<and> db_rjobs (w_db t) = db_rjobs (w_db s)"
  unfolding aside_def beyond_def beside_work_def by (metis Pair_inject quiet_sel(3))

lemma holding_aside: "aside t = aside s \<Longrightarrow> holding s0 job s \<Longrightarrow> holding s0 job t"
  by (drule aside_beyond) (simp add: holding_def)

lemma holding_items: "holding s0 job s \<Longrightarrow> db_items (w_db s) = db_items (w_db s0)"
  unfolding holding_def by (elim conjE) (rule beyond_tables(1))

lemma preserves_holding: "no_raise m \<Longrightarrow> keeps (same aside) m \<Longrightarrow> preserves (holding s0 job) m"
  unfolding preserves_def by (blast intro: returns_mono [OF returns_same] holding_aside)

definition known_item :: "int \<Rightarrow> world \<Rightarrow> bool" where
  "known_item i s \<longleftrightarrow> row_by ri_id i (db_items (w_db s)) \<noteq> None"

lemma record_job_audit_holding:
  assumes "known_item (rj_review_item_id j) s0"
  shows "preserves (holding s0 job) (record_job_audit j u ac rs rn)"
proof (unfold preserves_def, intro allI impI)
  fix s assume h: "holding s0 job s"
  then have "db_items (w_db s) = db_items (w_db s0)" by (rule holding_items)
  with assms obtain item where "row_by ri_id (rj_review_item_id j) (db_items (w_db s)) = Some item"
    by (auto simp: known_item_def)
  moreover have "holding s0 job (audit_post ev s)" for ev
    by (rule holding_aside [OF _ h]) (simp add: aside_def quiet_def)
  ultimately show "returns (record_job_audit j u ac rs rn) s (\<lambda>_. holding s0 job)"
    by (simp add: record_job_audit_def remediation_review_item_def returns_def run_ops)
qed

lemma save_remediation_holding:
  "holding s0 job s \<Longrightarrow> rj_id job' = rj_id job \<Longrightarrow> returns (save_remediation job' :: unit wop) s (\<lambda>_. holding s0 job')"
  by (simp add: holding_def save_remediation_def returns_def put_row_snoc beyond_def beside_work_def quiet_def)

text \<open>The shape of the operations: the changed job is saved, then logged.\<close>

lemma save_and_log:
  assumes "holding s0 job s" and "known_item (rj_review_item_id job) s0" and "origin job' = origin job"
  shows "returns (block [save_remediation job', record_job_audit job' u ac rs rn, append_pending ev,
     count_remediation job' d]) s (\<lambda>_. holding s0 job')"
proof (rule returns_block_Cons [OF save_remediation_holding [OF assms(1)]])
  show "rj_id job' = rj_id job" using originD [OF assms(3)] by simp
  fix t assume t: "holding s0 job' t"
  have "known_item (rj_review_item_id job') s0" using assms(2) originD [OF assms(3)] by simp
  then have "preserves (holding s0 job') (block [record_job_audit job' u ac rs rn, append_pending ev,
      count_remediation job' d])"
    by (intro op_intro record_job_audit_holding preserves_holding) (auto simp: count_remediation_def intro!: op_intro)
  with t show "returns (block [record_job_audit job' u ac rs rn, append_pending ev, count_remediation job' d]) t
      (\<lambda>_. holding s0 job')"
    by (simp add: preserves_def)
qed

text \<open>How a job is when its execution is over.\<close>

definition settled :: "remediation_job \<Rightarrow> bool" where
  "settled j \<longleftrightarrow> rj_completed_at j \<noteq> None \<and>
     rj_status j \<in> remediation_status_value ` {Remediation_COMPLETED, Remediation_SKIPPED, Remediation_FAILED} \<and>
     (rj_status j = remediation_status_value Remediation_FAILED \<longleftrightarrow> rj_last_error j \<noteq> None)"

lemma returns_after_clock:
  assumes "holding s0 job s" and "\<And>now t. holding s0 job t \<Longrightarrow> returns (f now) t Q"
  shows "returns (and_then utc_now f) s Q"
proof (rule returns_and_then)
  show "returns utc_now s (\<lambda>_. holding s0 job)"
    by (rule preservesD [OF preserves_holding assms(1)]) (auto intro!: op_intro)
qed (rule assms(2))

lemma start_remediation_holding:
  assumes "holding s0 job s" and "known_item (rj_review_item_id job) s0"
  shows "returns (start_remediation job u) s (\<lambda>j t. holding s0 j t \<and> origin j = origin job)"
  unfolding start_remediation_def Let_def
  by (rule returns_after_clock [OF assms(1)], rule returns_and_then, erule save_and_log)
     (use assms(2) in simp_all)

lemma complete_remediation_holding:
  assumes "holding s0 job s" and "known_item (rj_review_item_id job) s0"
    and "st \<in> {Remediation_COMPLETED, Remediation_SKIPPED}"
  shows "returns (complete_remediation job u st m) s
     (\<lambda>j t. holding s0 j t \<and> origin j = origin job \<and> settled j)"
  unfolding complete_remediation_def Let_def
  by (rule returns_after_clock [OF assms(1)], rule returns_and_then, erule save_and_log)
     (use assms(2,3) in \<open>auto simp: settled_def remediation_status_value.simps\<close>)

lemma link_provisioning_job_holding:
  assumes "holding s0 job s"
  shows "returns (link_provisioning_job job) s (\<lambda>j t. holding s0 j t \<and> origin j = origin job)"
proof (cases "newest_job (rj_correlation_id job) (db_jobs (w_db s))")
  case None
  with assms show ?thesis by (simp add: link_provisioning_job_def returns_def run_ops)
next
  case (Some pj)
  with save_remediation_holding [OF assms, of "job\<lparr>rj_provisioning_job_id := Some (pj_id pj)\<rparr>"]
  show ?thesis by (auto simp: link_provisioning_job_def returns_def Let_def and_then_def)
qed

lemma fail_remediation_holding:
  assumes "holding s0 job s" and "known_item (rj_review_item_id job) s0"
  shows "returns (fail_remediation job u m) s (\<lambda>j t. holding s0 j t \<and> origin j = origin job \<and> settled j)"
  unfolding fail_remediation_def
proof (rule returns_and_then [OF link_provisioning_job_holding [OF assms(1)]], elim conjE)
  fix j t assume j: "holding s0 j t" "origin j = origin job"
  then have known: "known_item (rj_review_item_id j) s0" using assms(2) originD by metis
  show "returns (and_then utc_now (\<lambda>now.
     let job = j\<lparr>rj_status := remediation_status_value Remediation_FAILED, rj_completed_at := Some now,
                   rj_last_error := Some m\<rparr>
     in and_then (block [
       save_remediation job,
       record_job_audit job u ACTION_REMEDIATION_FAILED ''denied''
         (''Remediation job '' @ str_int (rj_id job) @ '' failed: '' @ m),
       append_pending (RemediationEvent (RemediationFailed (rj_id job) (rj_campaign_id job)
         (rj_review_item_id job) (rj_remediation_type job) m (rj_correlation_id job))),
       count_remediation job None]) (\<lambda>_.
     ret job))) t (\<lambda>j t. holding s0 j t \<and> origin j = origin job \<and> settled j)"
    unfolding Let_def
    by (rule returns_after_clock [OF j(1)], rule returns_and_then, erule save_and_log [OF _ known])
       (use j(2) in \<open>auto simp: settled_def remediation_status_value.simps\<close>)
qed

lemma keeps_operation_for_job: "operation_for_job job item s = (r, t) \<Longrightarrow> t = s"
  by (auto simp: operation_for_job_def application_of_item_def entitlement_of_item_def and_then_def from_option_def
      lift_sum_def split: sum.splits option.splits remediation_type.splits)

lemma conclude_job_holding:
  assumes "holding s0 job s" and "known_item (rj_review_item_id job) s0"
  shows "returns (conclude_job r job u) s (\<lambda>j t. holding s0 j t \<and> origin j = origin job \<and> settled j)"
  unfolding conclude_job_def
proof (rule returns_and_then [OF link_provisioning_job_holding [OF assms(1)]], elim conjE)
  fix j t assume j: "holding s0 j t" "origin j = origin job"
  then have k: "known_item (rj_review_item_id j) s0" using assms(2) originD by metis
  show "returns (if cr_status r = Connector_SUCCESS
     then complete_remediation j u Remediation_COMPLETED None
     else if cr_status r = Connector_SKIPPED
     then complete_remediation j u Remediation_SKIPPED (Some (cr_message r))
     else fail_remediation j u (cr_message r)) t (\<lambda>j t. holding s0 j t \<and> origin j = origin job \<and> settled j)"
    using complete_remediation_holding [OF j(1) k] fail_remediation_holding [OF j(1) k] j(2) by simp
qed

text \<open>The \<open>try\<close> block: the job is settled, or the exception finds it as it was.\<close>

lemma carry_out_job_holding:
  assumes "holding s0 job s" and "known_item (rj_review_item_id job) s0"
    and "carry_out_job mock_invoke p job item u s = (r, t)"
  shows "case r of Inl _ \<Rightarrow> holding s0 job t
     | Inr j \<Rightarrow> holding s0 j t \<and> origin j = origin job \<and> settled j"
proof (cases "operation_for_job job item s")
  case (Pair q s1)
  with keeps_operation_for_job have op': "operation_for_job job item s = (q, s)" by metis
  show ?thesis
  proof (cases q)
    case (Inl e)
    with op' assms show ?thesis by (auto simp: carry_out_job_def)
  next
    case (Inr x)
    obtain cn operation pl where x: "x = (cn, operation, pl)" by (cases x)
    let ?ex = "execute mock_invoke p cn (connector_operation_value operation) (Some pl) (Some (rj_correlation_id job))
        True (Some (u_id u)) (Some (ri_user_id item))"
    obtain res s2 where ex: "?ex s = (res, s2)" by fastforce
    have h: "holding s0 job s2"
      using keeps_same_result [OF mock.keeps_aside_execute ex] assms(1) by (rule holding_aside)
    have run: "carry_out_job mock_invoke p job item u s = and_then ?ex (\<lambda>result. conclude_job result job u) s"
      using op' by (simp add: carry_out_job_def Inr x)
    show ?thesis
    proof (cases res)
      case (Inl e)
      with ex run h assms(3) show ?thesis by simp
    next
      case (Inr v)
      with ex run assms(3) have "conclude_job v job u s2 = (r, t)" by simp
      with conclude_job_holding [OF h assms(2), of v u] show ?thesis by (auto simp: returns_def)
    qed
  qed
qed

lemma execute_remediation_job_holding:
  assumes "holding s0 job s" and "known_item (rj_review_item_id job) s0"
  shows "returns (execute_remediation_job mock_invoke p job u) s
     (\<lambda>j t. holding s0 j t \<and> origin j = origin job \<and> settled j)"
proof -
  obtain item where "row_by ri_id (rj_review_item_id job) (db_items (w_db s)) = Some item"
    using assms holding_items [OF assms(1)] by (auto simp: known_item_def)
  then have run: "execute_remediation_job mock_invoke p job u s =
      and_then (start_remediation job u) (\<lambda>job. try_except (carry_out_job mock_invoke p job item u)
        (\<lambda>e. and_then (reload_job job) (\<lambda>job. fail_remediation job u (exn_message e)))) s"
    by (simp add: execute_remediation_job_def remediation_review_item_def run_ops)
  have "returns (and_then (start_remediation job u) (\<lambda>job. try_except (carry_out_job mock_invoke p job item u)
        (\<lambda>e. and_then (reload_job job) (\<lambda>job. fail_remediation job u (exn_message e))))) s
     (\<lambda>j t. holding s0 j t \<and> origin j = origin job \<and> settled j)"
  proof (rule returns_and_then [OF start_remediation_holding [OF assms]], elim conjE)
    fix j t assume j: "holding s0 j t" "origin j = origin job"
    then have k: "known_item (rj_review_item_id j) s0" using assms(2) originD by metis
    obtain r t' where c: "carry_out_job mock_invoke p j item u t = (r, t')" by fastforce
    note h = carry_out_job_holding [OF j(1) k c]
    show "returns (try_except (carry_out_job mock_invoke p j item u)
        (\<lambda>e. and_then (reload_job j) (\<lambda>job. fail_remediation job u (exn_message e)))) t
     (\<lambda>j t. holding s0 j t \<and> origin j = origin job \<and> settled j)"
    proof (cases r)
      case (Inr v)
      with c h j(2) show ?thesis by (simp add: returns_def)
    next
      case (Inl e)
      then have t': "holding s0 j t'" using h by simp
      then have "row_by rj_id (rj_id j) (db_rjobs (w_db t')) = Some j"
        by (simp add: holding_def row_by_snoc)
      with c Inl fail_remediation_holding [OF t' k, of u "exn_message e"] j(2)
      show ?thesis by (simp add: returns_def reload_job_def run_ops)
    qed
  qed
  with run show ?thesis by (simp add: returns_def)
qed

section \<open>Creating jobs\<close>

definition remediable :: "certification_review_item \<Rightarrow> world \<Rightarrow> bool" where
  "remediable x s \<longleftrightarrow> row_by ri_id (ri_id x) (db_items (w_db s)) = Some x \<and>
     (\<exists>c. decision_of (ri_id x) (db_decisions (w_db s)) = Some c \<and>
        cd_decision c = certification_decision_value_value REVOKE)"

definition job_for :: "user \<Rightarrow> certification_review_item \<Rightarrow> remediation_job \<Rightarrow> bool" where
  "job_for u x j \<longleftrightarrow> rj_review_item_id j = ri_id x \<and> rj_campaign_id j = ri_campaign_id x \<and>
     rj_remediation_type j = remediation_type_value (remediation_type_for_item x) \<and> rj_initiated_by j = u_id u"

lemma job_for_origin: "origin j = origin k \<Longrightarrow> job_for u x j = job_for u x k"
  by (simp add: origin_def job_for_def)

lemma insert_remediation_job_holding:
  assumes "fresh_keys (w_env s)" and "ri_id x \<notin> rj_review_item_id ` set (db_rjobs (w_db s))"
  shows "returns (insert_remediation_job x co (remediation_type_for_item x) u) s (\<lambda>j t. holding s j t \<and> job_for u x j)"
proof -
  have "env_key (w_env s) (map rj_id (db_rjobs (w_db s))) \<notin> rj_id ` set (db_rjobs (w_db s))"
    using assms(1) by (metis fresh_keys_def set_map)
  with assms(2) show ?thesis
    by (simp add: insert_remediation_job_def returns_def run_ops Let_def holding_def job_for_def beyond_def beside_work_def quiet_def)
qed

lemma holding_start:
  assumes "aside s = aside s0" and "holding s j t"
  shows "holding s0 j t"
  using assms(2) aside_beyond [OF assms(1)] by (simp add: holding_def)

lemma create_remediation_job_holding:
  assumes "fresh_keys (w_env s)" and "remediable x s" and "ri_id x \<notin> rj_review_item_id ` set (db_rjobs (w_db s))"
  shows "returns (create_remediation_job (ri_id x) (remediation_type_for_item x) u co) s
     (\<lambda>j t. holding s j t \<and> job_for u x j)"
proof -
  from assms(2) have known: "known_item (ri_id x) s" by (simp add: remediable_def known_item_def)
  let ?log = "\<lambda>job. block [
       record_job_audit job u ACTION_REMEDIATION_CREATED ''succeeded''
         (''Remediation job '' @ str_int (rj_id job) @ '' created''),
       metric_increment ''remediation_jobs_total'' 1 None None,
       count_remediation job (Some ''Remediation jobs grouped by type and lifecycle status.''),
       append_pending (RemediationEvent (RemediationCreated (rj_id job) (rj_campaign_id job)
         (rj_review_item_id job) (rj_remediation_type job) (rj_correlation_id job)))]"
  have none: "row_by rj_review_item_id (ri_id x) (db_rjobs (w_db s)) = None"
    using assms(3) by (simp add: row_by_absent)
  have "create_remediation_job (ri_id x) (remediation_type_for_item x) u co s =
      and_then (resolve_correlation_id co) (\<lambda>co.
      and_then (insert_remediation_job x co (remediation_type_for_item x) u) (\<lambda>job.
      and_then (?log job) (\<lambda>_. ret job))) s"
    using assms(2) none
    by (auto simp: create_remediation_job_def remediable_def remediation_review_item_def prevent_duplicate_jobs_def
        find_job_by_review_item_def and_then_def simp del: block.simps)
  moreover have "returns (and_then (resolve_correlation_id co) (\<lambda>co.
      and_then (insert_remediation_job x co (remediation_type_for_item x) u) (\<lambda>job.
      and_then (?log job) (\<lambda>_. ret job)))) s (\<lambda>j t. holding s j t \<and> job_for u x j)"
  proof (rule returns_and_then)
    show "returns (resolve_correlation_id co) s (\<lambda>_ t. aside t = aside s)"
      by (rule returns_same) (auto intro!: op_intro)
    fix co t assume t: "aside t = aside s"
    then have "fresh_keys (w_env t)" "ri_id x \<notin> rj_review_item_id ` set (db_rjobs (w_db t))"
      using assms(1,3) aside_beyond [OF t] by (simp_all add: aside_def)
    then show "returns (and_then (insert_remediation_job x co (remediation_type_for_item x) u) (\<lambda>job.
        and_then (?log job) (\<lambda>_. ret job))) t (\<lambda>j t. holding s j t \<and> job_for u x j)"
    proof (rule returns_and_then [OF insert_remediation_job_holding], elim conjE)
      fix j t' assume j: "holding t j t'" "job_for u x j"
      then have h: "holding s j t'" using t by (blast intro: holding_start)
      have "known_item (rj_review_item_id j) s" using known j(2) by (simp add: job_for_def)
      then have "preserves (holding s j) (?log j)"
        by (intro op_intro record_job_audit_holding preserves_holding) (auto simp: count_remediation_def intro!: op_intro)
      from preservesD [OF this h] j(2)
      show "returns (and_then (?log j) (\<lambda>_. ret j)) t' (\<lambda>j t. holding s j t \<and> job_for u x j)"
        by (auto simp: returns_def and_then_def simp del: block.simps)
    qed
  qed
  ultimately show ?thesis by (simp add: returns_def)
qed

lemma remediate_item_new:
  assumes "fresh_keys (w_env s)" and "remediable x s" and "ri_id x \<notin> rj_review_item_id ` set (db_rjobs (w_db s))"
  shows "returns (remediate_item mock_invoke p u x) s
     (\<lambda>r t. \<exists>j. r = (True, j) \<and> holding s j t \<and> job_for u x j \<and> settled j)"
proof -
  from assms(3) have "row_by rj_review_item_id (ri_id x) (db_rjobs (w_db s)) = None"
    by (simp add: row_by_absent)
  then have "remediate_item mock_invoke p u x s =
      and_then (create_remediation_job (ri_id x) (remediation_type_for_item x) u None) (\<lambda>job.
      and_then (execute_remediation_job mock_invoke p job u) (\<lambda>job. ret (True, job))) s"
    by (simp add: remediate_item_def find_job_by_review_item_def run_ops)
  moreover have "returns (and_then (create_remediation_job (ri_id x) (remediation_type_for_item x) u None) (\<lambda>job.
      and_then (execute_remediation_job mock_invoke p job u) (\<lambda>job. ret (True, job)))) s
     (\<lambda>r t. \<exists>j. r = (True, j) \<and> holding s j t \<and> job_for u x j \<and> settled j)"
  proof (rule returns_and_then [OF create_remediation_job_holding [OF assms]], elim conjE)
    fix j t assume j: "holding s j t" "job_for u x j"
    then have k: "known_item (rj_review_item_id j) s"
      using assms(2) by (simp add: remediable_def known_item_def job_for_def)
    show "returns (and_then (execute_remediation_job mock_invoke p j u) (\<lambda>job. ret (True, job))) t
     (\<lambda>r t. \<exists>j. r = (True, j) \<and> holding s j t \<and> job_for u x j \<and> settled j)"
      by (rule returns_and_then [OF execute_remediation_job_holding [OF j(1) k]])
         (auto simp: j(2) job_for_origin [of _ j])
  qed
  ultimately show ?thesis by (simp add: returns_def)
qed

lemma remediate_item_old:
  assumes "row_by rj_review_item_id (ri_id x) (db_rjobs (w_db s)) = Some j"
  shows "remediate_item mock_invoke p u x s = (Inr (False, j), s)"
  using assms by (simp add: remediate_item_def find_job_by_review_item_def run_ops)

section \<open>A campaign\<close>

text \<open>The items without a remediation job.\<close>

definition missing :: "world \<Rightarrow> certification_review_item list \<Rightarrow> certification_review_item list" where
  "missing s items = filter (\<lambda>x. ri_id x \<notin> rj_review_item_id ` set (db_rjobs (w_db s))) items"

definition remediated ::
  "user \<Rightarrow> certification_review_item list \<Rightarrow> world \<Rightarrow> (bool \<times> remediation_job) list \<Rightarrow> world \<Rightarrow> bool" where
  "remediated u items s jobs t \<longleftrightarrow>
     db_rjobs (w_db t) = db_rjobs (w_db s) @ map snd (filter fst jobs) \<and> beyond t = beyond s \<and>
     map (rj_review_item_id \<circ> snd) jobs = map ri_id items \<and> snd ` set jobs \<subseteq> set (db_rjobs (w_db t)) \<and>
     list_all2 (\<lambda>x j. job_for u x j \<and> settled j) (missing s items) (map snd (filter fst jobs))"

lemma remediated_old:
  assumes "row_by rj_review_item_id (ri_id x) (db_rjobs (w_db s)) = Some j" and "remediated u items s jobs t"
  shows "remediated u (x # items) s ((False, j) # jobs) t"
proof -
  have j: "j \<in> set (db_rjobs (w_db s))" "rj_review_item_id j = ri_id x" using row_by_Some [OF assms(1)] by auto
  then have "ri_id x \<in> rj_review_item_id ` set (db_rjobs (w_db s))" by (metis imageI)
  then have "missing s (x # items) = missing s items" by (simp add: missing_def)
  with assms(2) j show ?thesis by (auto simp: remediated_def)
qed

lemma missing_after:
  assumes "holding s j t" and "job_for u x j" and "ri_id x \<notin> ri_id ` set items"
  shows "missing t items = missing s items"
  unfolding missing_def
proof (rule filter_cong [OF refl])
  fix y assume "y \<in> set items"
  then have "ri_id y \<noteq> ri_id x" using assms(3) by (metis imageI)
  then show "(ri_id y \<notin> rj_review_item_id ` set (db_rjobs (w_db t))) =
      (ri_id y \<notin> rj_review_item_id ` set (db_rjobs (w_db s)))"
    using assms(1,2) by (simp add: holding_def job_for_def)
qed

lemma remediated_new:
  assumes "holding s j t" and "job_for u x j" and "settled j" and "ri_id x \<notin> ri_id ` set items"
    and "ri_id x \<notin> rj_review_item_id ` set (db_rjobs (w_db s))" and "remediated u items t jobs t'"
  shows "remediated u (x # items) s ((True, j) # jobs) t'"
proof -
  have "missing s (x # items) = x # missing t items"
    using assms(5) missing_after [OF assms(1,2,4)] by (simp add: missing_def)
  with assms(1-3,6) show ?thesis by (auto simp: remediated_def holding_def job_for_def)
qed

lemma remediable_beyond:
  assumes "beyond t = beyond s"
  shows "remediable x t = remediable x s"
  unfolding remediable_def beyond_tables(1) [OF assms] beyond_tables(2) [OF assms] ..

lemma remediate_items:
  assumes "fresh_keys (w_env s)" and "\<forall>x \<in> set items. remediable x s" and "distinct (map ri_id items)"
  shows "returns (for_each items (remediate_item mock_invoke p u)) s (remediated u items s)"
  using assms
proof (induction items arbitrary: s)
  case Nil
  show ?case unfolding for_each.simps returns_ret by (simp add: remediated_def missing_def)
next
  case (Cons x items)
  show ?case
  proof (cases "row_by rj_review_item_id (ri_id x) (db_rjobs (w_db s))")
    case (Some j)
    from Cons.prems obtain jobs t where "for_each items (remediate_item mock_invoke p u) s = (Inr jobs, t)"
      "remediated u items s jobs t" using returnsE [OF Cons.IH [of s]] by auto
    with remediate_item_old [OF Some, of p u] remediated_old [OF Some] show ?thesis
      by (simp add: returns_def)
  next
    case None
    then have new: "ri_id x \<notin> rj_review_item_id ` set (db_rjobs (w_db s))" by (simp add: row_by_absent)
    from Cons.prems remediate_item_new [OF _ _ new, of p u] obtain j t where
      run: "remediate_item mock_invoke p u x s = (Inr (True, j), t)" and j: "holding s j t" "job_for u x j" "settled j"
      by (auto elim!: returnsE)
    have b: "beyond t = beyond s" using j(1) by (simp add: holding_def)
    have "\<forall>y \<in> set items. remediable y t" using Cons.prems(2) remediable_beyond [OF b] by simp
    moreover have "fresh_keys (w_env t)" using Cons.prems(1) beyond_tables(5) [OF b] by simp
    ultimately obtain jobs t' where "for_each items (remediate_item mock_invoke p u) t = (Inr jobs, t')"
      "remediated u items t jobs t'" using Cons.prems(3) returnsE [OF Cons.IH [of t]] by auto
    with run remediated_new [OF j _ new] Cons.prems(3) show ?thesis by (simp add: returns_def)
  qed
qed

text \<open>The items of a campaign that were decided to be revoked.\<close>

definition revoked_items :: "int \<Rightarrow> db \<Rightarrow> certification_review_item list" where
  "revoked_items i d = sort_key ri_id (filter (\<lambda>x. ri_campaign_id x = i \<and>
     (\<exists>c \<in> set (db_decisions d). cd_review_item_id c = ri_id x \<and> cd_decision c = ''REVOKE'')) (db_items d))"

lemma filter_unique_key:
  "distinct (map f xs) \<Longrightarrow> filter (\<lambda>c. f c = k \<and> P c) xs =
     (case find (\<lambda>c. f c = k) xs of None \<Rightarrow> [] | Some c \<Rightarrow> if P c then [c] else [])"
proof (induction xs)
  case (Cons x xs)
  have none: "filter (\<lambda>c. f c = f x \<and> P c) xs = []" using Cons.prems by (auto simp: filter_empty_conv image_iff)
  show ?case
  proof (cases "f x = k")
    case True
    with none show ?thesis by auto
  qed (use Cons in auto)
qed simp

lemma concat_if: "concat (map (\<lambda>x. if P x then [x] else []) xs) = filter P xs"
  by (induction xs) auto

lemma decision_of_iff:
  assumes "distinct (map cd_review_item_id ds)"
  shows "decision_of i ds = Some c \<longleftrightarrow> c \<in> set ds \<and> cd_review_item_id c = i"
proof
  assume c: "c \<in> set ds \<and> cd_review_item_id c = i"
  then obtain c' where c': "decision_of i ds = Some c'"
    using decision_of_None [of i ds] by (cases "decision_of i ds") auto
  with decision_of_Some [OF c'] c assms show "decision_of i ds = Some c"
    by (auto simp: distinct_map inj_on_def)
qed (rule decision_of_Some)

lemma remediable_review_items_eq:
  assumes "distinct (map cd_review_item_id (db_decisions d))"
  shows "remediable_review_items i d = revoked_items i d"
proof -
  let ?P = "\<lambda>x. \<exists>c \<in> set (db_decisions d). cd_review_item_id c = ri_id x \<and> cd_decision c = ''REVOKE''"
  have one: "map (\<lambda>_. x) (filter (\<lambda>c. cd_review_item_id c = ri_id x \<and>
      cd_decision c = certification_decision_value_value REVOKE) (db_decisions d)) = (if ?P x then [x] else [])" for x
  proof (cases "decision_of (ri_id x) (db_decisions d)")
    case None
    then have "\<forall>c \<in> set (db_decisions d). cd_review_item_id c \<noteq> ri_id x"
      unfolding decision_of_None by (metis imageI)
    with None show ?thesis
      unfolding filter_unique_key [OF assms, of "ri_id x"] decision_of_def by auto
  next
    case (Some c)
    have c: "c \<in> set (db_decisions d)" "cd_review_item_id c = ri_id x" using decision_of_Some [OF Some] by auto
    have "c' = c" if "c' \<in> set (db_decisions d)" "cd_review_item_id c' = ri_id x" for c'
      using that Some decision_of_iff [OF assms, of "ri_id x" c'] by simp
    with c have "?P x \<longleftrightarrow> cd_decision c = ''REVOKE''" by blast
    with Some show ?thesis
      unfolding filter_unique_key [OF assms, of "ri_id x"] decision_of_def
      by (simp add: certification_decision_value_value.simps)
  qed
  have "remediable_review_items i d = filter ?P (sort_key ri_id (filter (\<lambda>x. ri_campaign_id x = i) (db_items d)))"
    unfolding remediable_review_items_def one by (rule concat_if)
  then show ?thesis by (simp add: revoked_items_def filter_sort conj_commute)
qed

lemma revoked_items_remediable:
  assumes "wf_governance (w_db s)" and "x \<in> set (revoked_items i (w_db s))"
  shows "remediable x s"
proof -
  let ?d = "w_db s"
  have keys: "distinct (map ri_id (db_items ?d))" "distinct (map cd_review_item_id (db_decisions ?d))"
    using assms(1) by (auto simp: wf_governance_def wf_items_def item_keys_def wf_decisions_def)
  from assms(2) obtain c where x: "x \<in> set (db_items ?d)"
    and c: "c \<in> set (db_decisions ?d)" "cd_review_item_id c = ri_id x" "cd_decision c = ''REVOKE''"
    by (auto simp: revoked_items_def)
  have "row_by ri_id (ri_id x) (db_items ?d) = Some x"
    using row_by_unique [OF keys(1) x] by simp
  moreover have "decision_of (ri_id x) (db_decisions ?d) = Some c"
    using c decision_of_iff [OF keys(2)] by simp
  ultimately show ?thesis using c(3) by (simp add: remediable_def certification_decision_value_value.simps)
qed

lemma distinct_revoked_items:
  assumes "wf_governance d"
  shows "distinct (map ri_id (revoked_items i d))"
proof -
  have "distinct (map ri_id (db_items d))"
    using assms by (auto simp: wf_governance_def wf_items_def item_keys_def)
  then show ?thesis by (auto simp: revoked_items_def distinct_map inj_on_def)
qed

section \<open>The request\<close>

lemma shipped_names:
  "normalize_connector_name ''salesforce'' = ''salesforce''" "normalize_connector_name ''github'' = ''github''"
  "normalize_connector_name ''zendesk'' = ''zendesk''" "normalize_connector_name ''finance'' = ''finance''"
  by code_simp+

lemma build_connector_registry_ok: "\<exists>r. build_connector_registry settings = Inr r"
  by (simp add: build_connector_registry_def registry_register_def shipped_connector_def shipped_names Let_def)

lemma returns_fresh_registry: "returns (fresh_registry settings) s (\<lambda>_ t. aside t = aside s)"
  using build_connector_registry_ok [of settings]
  by (auto simp: fresh_registry_def returns_def and_then_def)

definition campaign_done ::
  "user \<Rightarrow> int \<Rightarrow> world \<Rightarrow> campaign_remediation_result \<Rightarrow> world \<Rightarrow> bool" where
  "campaign_done u i s r t \<longleftrightarrow> (\<exists>jobs. remediated u (revoked_items i (w_db s)) s jobs t \<and>
     crr_campaign_id r = i \<and> crr_created_jobs r = length (filter fst jobs) \<and>
     crr_executed_jobs r = crr_created_jobs r \<and> crr_jobs r = map snd jobs)"

lemma execute_campaign_returns:
  assumes "wf_governance (w_db s)" and "fresh_keys (w_env s)"
    and "row_by cc_id i (db_campaigns (w_db s)) = Some c" and "in_status Campaign_COMPLETED c"
  shows "returns (execute_campaign mock_invoke p i u) s (campaign_done u i s)"
proof -
  have i: "cc_id c = i" using row_by_Some [OF assms(3)] by simp
  have items: "remediable_review_items i (w_db s) = revoked_items i (w_db s)"
    using assms(1) by (intro remediable_review_items_eq) (auto simp: wf_governance_def wf_decisions_def)
  obtain jobs t where "for_each (revoked_items i (w_db s)) (remediate_item mock_invoke p u) s = (Inr jobs, t)"
    "remediated u (revoked_items i (w_db s)) s jobs t"
    using remediate_items [OF assms(2) _ distinct_revoked_items [OF assms(1)]] revoked_items_remediable [OF assms(1)]
    by (metis returnsE)
  then show ?thesis
    using assms(3,4) i items
    by (auto simp: execute_campaign_def validate_campaign_def returns_def run_ops in_status_def campaign_done_def Let_def)
qed

lemma remediated_aside:
  assumes "aside s' = aside s" and "aside t' = aside t" and "remediated u items s' jobs t"
  shows "remediated u items s jobs t'"
  using assms(3) aside_beyond [OF assms(1)] aside_beyond [OF assms(2)] by (auto simp: remediated_def missing_def)

lemma beyond_gov: "beyond t = beyond s \<Longrightarrow> gov (w_db t) = gov (w_db s)"
proof -
  assume b: "beyond t = beyond s"
  show ?thesis unfolding gov_def beyond_tables(1) [OF b] beyond_tables(2) [OF b] beyond_tables(3) [OF b] ..
qed

lemma beyond_revoked: "beyond t = beyond s \<Longrightarrow> revoked_items i (w_db t) = revoked_items i (w_db s)"
proof -
  assume b: "beyond t = beyond s"
  show ?thesis unfolding revoked_items_def beyond_tables(1) [OF b] beyond_tables(2) [OF b] ..
qed

lemma campaign_done_aside:
  assumes "aside s' = aside s" and "aside t' = aside t" and "campaign_done u i s' r t"
  shows "campaign_done u i s r t'"
  using assms(3) remediated_aside [OF assms(1,2)] beyond_revoked [of s' s i] aside_beyond [OF assms(1)]
  unfolding campaign_done_def by metis

lemma returns_aside:
  "no_raise m \<Longrightarrow> keeps (same aside) m \<Longrightarrow> returns m s (\<lambda>_ t. aside t = aside s)"
  by (rule returns_same)

lemma in_statusI: "cc_status c = campaign_status_value st \<Longrightarrow> in_status st c"
  by (simp add: in_status_def)

lemma mutating_route_returns:
  assumes "require_roles_gate roles u s = (Inr u, s)" and "returns m (s\<lparr>w_pending := []\<rparr>) Q"
    and "\<And>x t t'. Q x t \<Longrightarrow> aside t' = aside t \<Longrightarrow> P x t'"
  shows "returns (mutating_route roles u h m) s P"
proof -
  from assms(2) obtain x t where m: "m (s\<lparr>w_pending := []\<rparr>) = (Inr x, t)" and q: "Q x t" by (rule returnsE)
  obtain t' where p: "(publish_pending_events :: (world, http_error, unit) op) t = (Inr (), t')"
    by (rule no_raiseE [of publish_pending_events]) (auto intro!: op_intro)
  have "aside t' = aside t" by (rule keeps_same_result [where f = aside, rotated], rule p) (auto intro!: op_intro)
  with m p q assms(1,3) show ?thesis
    by (simp add: returns_def mutating_route_def new_service_def transaction_def)
qed

lemma remediate_campaign_returns:
  assumes "wf_governance (w_db s)" and "fresh_keys (w_env s)"
    and "normalize_operator_role (u_operator_role u) \<in> {''security_admin'', ''iam_admin''}"
    and "row_by cc_id i (db_campaigns (w_db s)) = Some c" and "in_status Campaign_COMPLETED c"
  shows "returns (remediate_campaign_route settings i u) s (campaign_done u i s)"
  unfolding remediate_campaign_route_def REMEDIATION_ROLES_def
proof (rule mutating_route_returns [OF admin_gate [OF assms(3)]])
  show "returns (and_then (fresh_registry settings) (\<lambda>_. execute_campaign mock_invoke default_retry_policy i u))
      (s\<lparr>w_pending := []\<rparr>) (campaign_done u i s)"
  proof (rule returns_and_then [OF returns_fresh_registry])
    fix t :: world assume "aside t = aside (s\<lparr>w_pending := []\<rparr>)"
    then have t: "aside t = aside s" by simp
    have g: "gov (w_db t) = gov (w_db s)" using beyond_gov aside_beyond [OF t] by blast
    have "wf_governance (w_db t)" using assms(1) by (rule wf_governance_gov [OF g, THEN iffD2])
    moreover have "row_by cc_id i (db_campaigns (w_db t)) = Some c" using assms(4) g by (simp add: gov_def)
    moreover have "fresh_keys (w_env t)" using assms(2) t by (simp add: aside_def)
    ultimately have "returns (execute_campaign mock_invoke default_retry_policy i u) t (campaign_done u i t)"
      using assms(5) by (intro execute_campaign_returns)
    then show "returns (execute_campaign mock_invoke default_retry_policy i u) t (campaign_done u i s)"
      by (rule returns_mono) (rule campaign_done_aside [OF t refl])
  qed
qed (rule campaign_done_aside [OF refl])

text \<open>
  C4. An administrator's request to remediate a completed campaign always succeeds.  It adds exactly
  one remediation job for every revoked item that had none, in the order of the items; each
  names its item, campaign and initiator and is settled: completed, skipped, or failed, with an
  error exactly when it failed.  The answer lists a job for every revoked item.  Access
  assignments, reviews and every other table but jobs, history and audit trail stay as they are.
\<close>

theorem remediation_effect:
  assumes "wf_governance (w_db s)" and "fresh_keys (w_env s)"
    and "normalize_operator_role (u_operator_role u) \<in> {''security_admin'', ''iam_admin''}"
    and "row_by cc_id i (db_campaigns (w_db s)) = Some c" and "cc_status c = campaign_status_value Campaign_COMPLETED"
  shows "\<exists>r t new. remediate_campaign_route settings i u s = (Inr r, t) \<and>
     db_rjobs (w_db t) = db_rjobs (w_db s) @ new \<and>
     list_all2 (\<lambda>x j. rj_review_item_id j = ri_id x \<and> rj_campaign_id j = ri_campaign_id x \<and>
         rj_initiated_by j = u_id u \<and> rj_status j \<in> {''COMPLETED'', ''SKIPPED'', ''FAILED''} \<and>
         (rj_status j = ''FAILED'' \<longleftrightarrow> rj_last_error j \<noteq> None))
       (filter (\<lambda>x. ri_id x \<notin> rj_review_item_id ` set (db_rjobs (w_db s))) (revoked_items i (w_db s))) new \<and>
     crr_created_jobs r = length new \<and>
     map rj_review_item_id (crr_jobs r) = map ri_id (revoked_items i (w_db s)) \<and>
     set (crr_jobs r) \<subseteq> set (db_rjobs (w_db t)) \<and> beside_work (w_db t) = beside_work (w_db s)"
proof -
  obtain r t where run: "remediate_campaign_route settings i u s = (Inr r, t)" and d: "campaign_done u i s r t"
    using returnsE [OF remediate_campaign_returns [OF assms(1-4) in_statusI [OF assms(5)]]] .
  then obtain jobs where jobs: "remediated u (revoked_items i (w_db s)) s jobs t"
    "crr_created_jobs r = length (filter fst jobs)" "crr_jobs r = map snd jobs"
    unfolding campaign_done_def by blast
  then have "list_all2 (\<lambda>x j. rj_review_item_id j = ri_id x \<and> rj_campaign_id j = ri_campaign_id x \<and>
         rj_initiated_by j = u_id u \<and> rj_status j \<in> {''COMPLETED'', ''SKIPPED'', ''FAILED''} \<and>
         (rj_status j = ''FAILED'' \<longleftrightarrow> rj_last_error j \<noteq> None))
       (missing s (revoked_items i (w_db s))) (map snd (filter fst jobs))"
    unfolding remediated_def
    by (elim conjE, elim list_all2_mono) (auto simp: job_for_def settled_def remediation_status_value.simps)
  with run jobs show ?thesis
    by (intro exI [of _ r] exI [of _ t] exI [of _ "map snd (filter fst jobs)"])
       (auto simp: remediated_def missing_def beyond_def)
qed

section \<open>Doing it again\<close>

lemma remediate_items_again:
  "\<forall>x \<in> set items. ri_id x \<in> rj_review_item_id ` set (db_rjobs (w_db s)) \<Longrightarrow>
   \<exists>jobs. for_each items (remediate_item mock_invoke p u) s = (Inr jobs, s) \<and> filter fst jobs = [] \<and>
     map (rj_review_item_id \<circ> snd) jobs = map ri_id items"
proof (induction items)
  case (Cons x items)
  then obtain j where j: "row_by rj_review_item_id (ri_id x) (db_rjobs (w_db s)) = Some j"
    using row_by_absent [of rj_review_item_id "ri_id x" "db_rjobs (w_db s)"] by auto
  with Cons obtain jobs where "for_each items (remediate_item mock_invoke p u) s = (Inr jobs, s)"
    "filter fst jobs = []" "map (rj_review_item_id \<circ> snd) jobs = map ri_id items" by (auto simp: o_def)
  with remediate_item_old [OF j, of p u] row_by_Some [OF j] show ?case by (auto simp: o_def)
qed simp

lemma remediated_all:
  assumes "remediated u items s jobs t" and "x \<in> set items"
  shows "ri_id x \<in> rj_review_item_id ` set (db_rjobs (w_db t))"
proof -
  from assms have "ri_id x \<in> set (map (rj_review_item_id \<circ> snd) jobs)" by (simp add: remediated_def)
  then obtain b where "b \<in> set jobs" "ri_id x = rj_review_item_id (snd b)" by auto
  with assms(1) show ?thesis by (auto simp: remediated_def)
qed

lemma run_fresh_registry:
  obtains registry where "fresh_registry settings s = (Inr (), s\<lparr>w_connectors := registry\<rparr>)"
  using build_connector_registry_ok [of settings] by (auto simp: fresh_registry_def and_then_def)

lemma remediation_refusal:
  assumes "normalize_operator_role (u_operator_role u) \<in> {''security_admin'', ''iam_admin''}"
    and "\<forall>c. row_by cc_id i (db_campaigns (w_db s)) = Some c \<longrightarrow> \<not> in_status Campaign_COMPLETED c"
  shows "\<exists>t. remediate_campaign_route settings i u s =
     (Inl (case row_by cc_id i (db_campaigns (w_db s)) of
        None \<Rightarrow> HTTPException 404 (''Certification campaign '' @ str_int i @ '' was not found'')
      | Some c \<Rightarrow> HTTPException 409 (''Campaign '' @ str_int i @ '' must be COMPLETED before remediation'')), t) \<and>
     w_db t = w_db s \<and> w_published t = w_published s"
proof -
  obtain registry where reg: "fresh_registry settings (s\<lparr>w_pending := []\<rparr>) =
      (Inr (), s\<lparr>w_pending := [], w_connectors := registry\<rparr>)" by (rule run_fresh_registry)
  let ?s = "s\<lparr>w_pending := [], w_connectors := registry\<rparr>"
  let ?e = "case row_by cc_id i (db_campaigns (w_db s)) of
     None \<Rightarrow> RemediationExn (RemediationCampaignNotFoundError i)
   | Some c \<Rightarrow> RemediationExn (InvalidRemediationCampaignStateError c)"
  have "execute_campaign mock_invoke default_retry_policy i u ?s = (Inl ?e, ?s)"
    using assms(2) by (auto simp: execute_campaign_def validate_campaign_def run_ops in_status_def split: option.splits)
  with reg have "and_then (fresh_registry settings) (\<lambda>_. execute_campaign mock_invoke default_retry_policy i u)
      (s\<lparr>w_pending := []\<rparr>) = (Inl ?e, ?s)" by simp
  then have "remediate_campaign_route settings i u s = (Inl (remediation_http_error ?e), ?s\<lparr>w_db := w_db s\<rparr>)"
    unfolding remediate_campaign_route_def REMEDIATION_ROLES_def
    by (rule mutating_route_raises [where s = s, OF admin_gate [OF assms(1)]])
  then show ?thesis
    by (auto simp: remediation_message.simps dest: row_by_Some split: option.splits)
qed

lemma remediation_again:
  assumes "normalize_operator_role (u_operator_role v) \<in> {''security_admin'', ''iam_admin''}"
    and "row_by cc_id i (db_campaigns (w_db t)) = Some c" and "in_status Campaign_COMPLETED c"
    and "wf_governance (w_db t)"
    and "\<forall>x \<in> set (revoked_items i (w_db t)). ri_id x \<in> rj_review_item_id ` set (db_rjobs (w_db t))"
  shows "\<exists>r' t'. remediate_campaign_route settings i v t = (Inr r', t') \<and> crr_created_jobs r' = 0 \<and>
     map rj_review_item_id (crr_jobs r') = map ri_id (revoked_items i (w_db t)) \<and> w_db t' = w_db t"
proof -
  obtain registry where reg: "fresh_registry settings (t\<lparr>w_pending := []\<rparr>) =
      (Inr (), t\<lparr>w_pending := [], w_connectors := registry\<rparr>)" by (rule run_fresh_registry)
  let ?t = "t\<lparr>w_pending := [], w_connectors := registry\<rparr>"
  have i: "cc_id c = i" using row_by_Some [OF assms(2)] by simp
  have items: "remediable_review_items i (w_db t) = revoked_items i (w_db t)"
    using assms(4) by (intro remediable_review_items_eq) (auto simp: wf_governance_def wf_decisions_def)
  obtain jobs where jobs: "for_each (revoked_items i (w_db t)) (remediate_item mock_invoke default_retry_policy v) ?t =
      (Inr jobs, ?t)" "filter fst jobs = []" "map (rj_review_item_id \<circ> snd) jobs = map ri_id (revoked_items i (w_db t))"
    using remediate_items_again [of "revoked_items i (w_db t)" ?t default_retry_policy v] assms(5) by auto
  then obtain r' where "execute_campaign mock_invoke default_retry_policy i v ?t = (Inr r', ?t)"
    "crr_created_jobs r' = 0" "map rj_review_item_id (crr_jobs r') = map ri_id (revoked_items i (w_db t))"
    using assms(2,3) i items
    by (auto simp: execute_campaign_def validate_campaign_def run_ops in_status_def Let_def)
  then show ?thesis
    using reg admin_gate [OF assms(1), of t]
    by (simp add: remediate_campaign_route_def REMEDIATION_ROLES_def mutating_route_def new_service_def transaction_def
        publish_pending_events_def publish_domain_events_def metric_increment_def and_then_def)
qed

text \<open>
  C11. Remediating a campaign a second time, by whomever and with whatever connectors, creates no
  job and leaves every table as it is; it answers with jobs for the same items.
\<close>

theorem remediation_idempotent:
  assumes "wf_governance (w_db s)" and "fresh_keys (w_env s)"
    and "remediate_campaign_route settings i u s = (Inr r, t)"
    and "normalize_operator_role (u_operator_role u) \<in> {''security_admin'', ''iam_admin''}"
    and "normalize_operator_role (u_operator_role v) \<in> {''security_admin'', ''iam_admin''}"
  shows "\<exists>r' t'. remediate_campaign_route settings' i v t = (Inr r', t') \<and> crr_created_jobs r' = 0 \<and>
     map rj_review_item_id (crr_jobs r') = map rj_review_item_id (crr_jobs r) \<and> w_db t' = w_db t"
proof -
  obtain c where c: "row_by cc_id i (db_campaigns (w_db s)) = Some c" "in_status Campaign_COMPLETED c"
    using remediation_refusal [OF assms(4), of i s settings] assms(3) by fastforce
  have "campaign_done u i s r t"
    using returnsD [OF remediate_campaign_returns [OF assms(1,2,4) c] assms(3)] .
  then obtain jobs where jobs: "remediated u (revoked_items i (w_db s)) s jobs t" "crr_jobs r = map snd jobs"
    unfolding campaign_done_def by blast
  then have b: "beyond t = beyond s" by (simp add: remediated_def)
  have "wf_governance (w_db t)" using assms(1) by (rule wf_governance_gov [OF beyond_gov [OF b], THEN iffD2])
  moreover have "row_by cc_id i (db_campaigns (w_db t)) = Some c" using c(1) unfolding beyond_tables(3) [OF b] .
  moreover have "\<forall>x \<in> set (revoked_items i (w_db t)). ri_id x \<in> rj_review_item_id ` set (db_rjobs (w_db t))"
    unfolding beyond_revoked [OF b] using remediated_all [OF jobs(1)] by blast
  ultimately have "\<exists>r' t'. remediate_campaign_route settings' i v t = (Inr r', t') \<and> crr_created_jobs r' = 0 \<and>
     map rj_review_item_id (crr_jobs r') = map ri_id (revoked_items i (w_db t)) \<and> w_db t' = w_db t"
    using c(2) by (intro remediation_again [OF assms(5)])
  then show ?thesis
    using jobs unfolding beyond_revoked [OF b] by (auto simp: remediated_def)
qed

text \<open>
  A campaign that does not exist, or is not completed, is not remediated: the answer is 404 or 409,
  nothing is written and nothing is published.
\<close>

theorem remediation_refused:
  assumes "normalize_operator_role (u_operator_role u) \<in> {''security_admin'', ''iam_admin''}"
    and "\<forall>c. row_by cc_id i (db_campaigns (w_db s)) = Some c \<longrightarrow> cc_status c \<noteq> campaign_status_value Campaign_COMPLETED"
  shows "\<exists>t. remediate_campaign_route settings i u s =
     (Inl (case row_by cc_id i (db_campaigns (w_db s)) of
        None \<Rightarrow> HTTPException 404 (''Certification campaign '' @ str_int i @ '' was not found'')
      | Some c \<Rightarrow> HTTPException 409 (''Campaign '' @ str_int i @ '' must be COMPLETED before remediation'')), t) \<and>
     w_db t = w_db s \<and> w_published t = w_published s"
  using assms(2) by (intro remediation_refusal [OF assms(1)]) (simp add: in_status_def)

section \<open>The provisioning job a remediation job is linked to\<close>

definition linked :: "remediation_job \<Rightarrow> provisioning_job list \<Rightarrow> int option" where
  "linked job jobs = (case newest_job (rj_correlation_id job) jobs of
     None \<Rightarrow> rj_provisioning_job_id job | Some p \<Rightarrow> Some (pj_id p))"

lemma start_remediation_run:
  assumes "row_by ri_id (rj_review_item_id job) (db_items (w_db s)) = Some item"
  shows "\<exists>now t. start_remediation job u s = (Inr (job\<lparr>rj_status := ''RUNNING'', rj_started_at := Some now,
       rj_last_error := None\<rparr>), t) \<and>
     db_jobs (w_db t) = db_jobs (w_db s) \<and> db_items (w_db t) = db_items (w_db s) \<and>
     db_applications (w_db t) = db_applications (w_db s) \<and>
     db_rjobs (w_db t) = put_row rj_id (job\<lparr>rj_status := ''RUNNING'', rj_started_at := Some now,
       rj_last_error := None\<rparr>) (db_rjobs (w_db s))"
  using assms
  by (intro exI [of _ "env_clock (w_env s) (w_clock_reads s)"])
     (simp add: start_remediation_def save_remediation_def record_job_audit_def remediation_review_item_def run_ops
      Let_def count_remediation_def metric_increment_def remediation_status_value.simps)

lemma fail_remediation_run:
  assumes "row_by ri_id (rj_review_item_id job) (db_items (w_db s)) = Some item"
  shows "\<exists>j t. fail_remediation job u m s = (Inr j, t) \<and> rj_status j = ''FAILED'' \<and> rj_last_error j = Some m \<and>
     rj_provisioning_job_id j = linked job (db_jobs (w_db s)) \<and> db_jobs (w_db t) = db_jobs (w_db s)"
  using assms
  by (cases "newest_job (rj_correlation_id job) (db_jobs (w_db s))")
     (simp_all add: fail_remediation_def link_provisioning_job_def linked_def save_remediation_def record_job_audit_def
       remediation_review_item_def run_ops Let_def count_remediation_def metric_increment_def
       remediation_status_value.simps)

text \<open>
  C39. A job for an application that no connector is mapped to fails without being provisioned: no
  provisioning job is created for it.  Yet it is linked to one: the newest provisioning job that
  carries the same correlation id, if there is any, such as that of an earlier item remediated
  by the same request.
\<close>

theorem unmapped_application_fails:
  assumes "row_by ri_id (rj_review_item_id job) (db_items (w_db s)) = Some item"
    and "row_by app_id (ri_application_id item) (db_applications (w_db s)) = Some app"
    and "map_of APPLICATION_CONNECTOR_NAMES (app_slug app) = None"
  shows "\<exists>j t. execute_remediation_job invoke p job u s = (Inr j, t) \<and> rj_status j = ''FAILED'' \<and>
     rj_last_error j = Some (''No remediation connector is available for application '' @ str_repr (app_slug app)) \<and>
     db_jobs (w_db t) = db_jobs (w_db s) \<and>
     rj_provisioning_job_id j = (case newest_job (rj_correlation_id job) (db_jobs (w_db s)) of
        None \<Rightarrow> rj_provisioning_job_id job | Some p \<Rightarrow> Some (pj_id p))"
proof -
  let ?e = "RemediationExn (UnsupportedRemediationConnectorError (app_slug app))"
  define m where "m = exn_message ?e"
  have m: "m = ''No remediation connector is available for application '' @ str_repr (app_slug app)"
    by (simp add: m_def exn_message.simps remediation_message.simps)
  obtain now t where st: "start_remediation job u s =
      (Inr (job\<lparr>rj_status := ''RUNNING'', rj_started_at := Some now, rj_last_error := None\<rparr>), t)"
    and db: "db_jobs (w_db t) = db_jobs (w_db s)" "db_items (w_db t) = db_items (w_db s)"
      "db_applications (w_db t) = db_applications (w_db s)"
    and rj: "db_rjobs (w_db t) = put_row rj_id (job\<lparr>rj_status := ''RUNNING'', rj_started_at := Some now,
       rj_last_error := None\<rparr>) (db_rjobs (w_db s))"
    using start_remediation_run [OF assms(1)] by blast
  let ?job = "job\<lparr>rj_status := ''RUNNING'', rj_started_at := Some now, rj_last_error := None\<rparr>"
  have op': "carry_out_job invoke p ?job item u t = (Inl ?e, t)"
    using assms(2,3) db by (simp add: carry_out_job_def operation_for_job_def application_of_item_def
        connector_name_for_application_def run_ops)
  have reload: "reload_job ?job t = (Inr ?job, t)"
    by (auto simp: reload_job_def rj row_by_put_row split: option.splits)
  have run: "execute_remediation_job invoke p job u s = fail_remediation ?job u m t"
    using assms(1) st op' reload by (simp add: execute_remediation_job_def remediation_review_item_def run_ops m_def)
  have item: "row_by ri_id (rj_review_item_id ?job) (db_items (w_db t)) = Some item" using assms(1) db by simp
  have link: "linked ?job (db_jobs (w_db s)) = linked job (db_jobs (w_db s))"
    by (simp add: linked_def split: option.split)
  from fail_remediation_run [OF item, of u m] obtain j t' where
    "execute_remediation_job invoke p job u s = (Inr j, t')" "rj_status j = ''FAILED''" "rj_last_error j = Some m"
    "rj_provisioning_job_id j = linked job (db_jobs (w_db s))" "db_jobs (w_db t') = db_jobs (w_db s)"
    unfolding run db(1) link by blast
  then show ?thesis unfolding m linked_def by blast
qed

section \<open>Witnesses\<close>

text \<open>The sample campaign completed, its item revoked.\<close>

definition sample_closed :: world where
  "sample_closed = sample_governance\<lparr>w_db := (w_db sample_governance)\<lparr>
     db_campaigns := [sample_campaign\<lparr>cc_status := ''COMPLETED'', cc_total_items := 1, cc_completed_items := 1,
       cc_revocation_count := 1\<rparr>],
     db_items := [sample_item\<lparr>ri_status := ''COMPLETED''\<rparr>],
     db_decisions := [\<lparr>cd_id = 1, cd_campaign_id = 7, cd_review_item_id = 3, cd_reviewer_id = 2,
       cd_decision = ''REVOKE'', cd_comments = None, cd_created_at = 0, cd_updated_at = 0\<rparr>]\<rparr>\<rparr>"

lemma sample_closed_wf:
  "wf_governance (w_db sample_closed)" "fresh_keys (w_env sample_closed)"
  "row_by cc_id 7 (db_campaigns (w_db sample_closed)) = Some (sample_campaign\<lparr>cc_status := ''COMPLETED'',
     cc_total_items := 1, cc_completed_items := 1, cc_revocation_count := 1\<rparr>)"
proof -
  have "\<exists>st. ''COMPLETED'' = campaign_status_value st"
    by (rule exI [of _ Campaign_COMPLETED]) (simp add: campaign_status_value.simps)
  moreover have "''REVOKE'' \<in> range certification_decision_value_value"
    by (rule image_eqI [of _ _ REVOKE]) (simp_all add: certification_decision_value_value.simps)
  ultimately show "wf_governance (w_db sample_closed)"
    by (auto simp: wf_governance_def wf_campaigns_def wf_items_def wf_decisions_def item_keys_def sample_item_def
        sample_closed_def sample_governance_def sample_db_def recounted_fixed sample_campaign_def count_items_def
        items_of_def count_completed_def count_decisions_def in_status_def completed_def review_item_status_value.simps
        campaign_status_value.simps ri_unique_key_def certification_decision_value_value.simps)
  show "fresh_keys (w_env sample_closed)"
    by (simp add: sample_closed_def sample_governance_def sample_fresh)
  show "row_by cc_id 7 (db_campaigns (w_db sample_closed)) = Some (sample_campaign\<lparr>cc_status := ''COMPLETED'',
     cc_total_items := 1, cc_completed_items := 1, cc_revocation_count := 1\<rparr>)"
    by (simp add: sample_closed_def row_by_def sample_campaign_def)
qed

lemma sample_revoked:
  "revoked_items 7 (w_db sample_closed) = [sample_item\<lparr>ri_status := ''COMPLETED''\<rparr>]"
  "db_rjobs (w_db sample_closed) = []"
  by (simp_all add: revoked_items_def sample_closed_def sample_item_def sample_governance_def sample_db_def)

lemma sample_roles: "in_status Campaign_COMPLETED (sample_campaign\<lparr>cc_status := ''COMPLETED'',
     cc_total_items := 1, cc_completed_items := 1, cc_revocation_count := 1\<rparr>)"
  by (simp add: in_status_def campaign_status_value.simps)

definition all_connectors :: connector_settings where
  "all_connectors = \<lparr>enable_salesforce_connector = True, enable_github_connector = True,
     enable_zendesk_connector = True, enable_finance_connector = True\<rparr>"

lemma remediation_effect_witness:
  "\<exists>r t j. remediate_campaign_route all_connectors 7 root_admin sample_closed = (Inr r, t) \<and>
     db_rjobs (w_db t) = [j] \<and> rj_review_item_id j = 3 \<and> crr_created_jobs r = 1"
proof -
  have "cc_status (sample_campaign\<lparr>cc_status := ''COMPLETED'', cc_total_items := 1, cc_completed_items := 1,
      cc_revocation_count := 1\<rparr>) = campaign_status_value Campaign_COMPLETED"
    by (simp add: campaign_status_value.simps)
  from remediation_effect [OF sample_closed_wf(1,2) root_admin_may_write sample_closed_wf(3) this, of all_connectors]
  show ?thesis by (auto simp: sample_revoked sample_item_def list_all2_Cons1)
qed

lemma remediation_idempotent_witness:
  "\<exists>r' t'. remediate_campaign_route all_connectors 7 root_admin
       (snd (remediate_campaign_route all_connectors 7 root_admin sample_closed)) = (Inr r', t') \<and>
     crr_created_jobs r' = 0 \<and>
     w_db t' = w_db (snd (remediate_campaign_route all_connectors 7 root_admin sample_closed))"
proof -
  obtain r t where "remediate_campaign_route all_connectors 7 root_admin sample_closed = (Inr r, t)"
    using returnsE [OF remediate_campaign_returns [OF sample_closed_wf(1,2) root_admin_may_write sample_closed_wf(3)
        sample_roles]] .
  from remediation_idempotent [OF sample_closed_wf(1,2) this root_admin_may_write root_admin_may_write, of all_connectors]
    this show ?thesis by auto
qed

lemma seven: "str_int 7 = ''7''"
  by code_simp

lemma remediation_refused_witness:
  "fst (remediate_campaign_route all_connectors 7 root_admin sample_review) =
     Inl (HTTPException 409 ''Campaign 7 must be COMPLETED before remediation'')"
proof -
  have "row_by cc_id 7 (db_campaigns (w_db sample_review)) =
      Some (sample_campaign\<lparr>cc_status := ''ACTIVE'', cc_total_items := 1\<rparr>)"
    by (simp add: sample_review_def row_by_def sample_campaign_def)
  with remediation_refused [OF root_admin_may_write, of 7 sample_review all_connectors]
  show ?thesis by (auto simp: campaign_status_value.simps seven)
qed

text \<open>A job for an application without connector, beside a provisioning job of the same request.\<close>

definition stray_job :: remediation_job where
  "stray_job = \<lparr>rj_id = 1, rj_campaign_id = 7, rj_review_item_id = 3, rj_provisioning_job_id = None,
     rj_correlation_id = ''request-1'', rj_remediation_type = ''REVOKE_ENTITLEMENT'', rj_status = ''PENDING'',
     rj_created_at = 0, rj_started_at = None, rj_completed_at = None, rj_last_error = None, rj_initiated_by = 1\<rparr>"

definition sample_stray :: world where
  "sample_stray = sample_closed\<lparr>w_db := (w_db sample_closed)\<lparr>
     db_applications := [\<lparr>app_id = 2, app_name = ''Okta'', app_slug = ''okta''\<rparr>],
     db_rjobs := [stray_job],
     db_jobs := [\<lparr>pj_id = 5, pj_correlation_id = ''request-1'', pj_connector = ''zendesk'',
       pj_operation = ''revoke_entitlement'', pj_target_type = ''entitlement'', pj_target_id = None,
       pj_status = ''SUCCESS'', pj_attempt_count = 1, pj_retry_count = 0, pj_max_attempts = 3,
       pj_retryable = False, pj_last_error = None, pj_created_at = 0, pj_started_at = Some 0,
       pj_completed_at = Some 0, pj_duration_ms = Some 0\<rparr>]\<rparr>\<rparr>"

lemma unmapped_application_fails_witness:
  "\<exists>j t. execute_remediation_job mock_invoke default_retry_policy stray_job root_admin sample_stray = (Inr j, t) \<and>
     rj_status j = ''FAILED'' \<and> rj_provisioning_job_id j = Some 5 \<and> db_jobs (w_db t) = db_jobs (w_db sample_stray)"
proof -
  have "row_by ri_id (rj_review_item_id stray_job) (db_items (w_db sample_stray)) =
      Some (sample_item\<lparr>ri_status := ''COMPLETED''\<rparr>)"
    "row_by app_id (ri_application_id (sample_item\<lparr>ri_status := ''COMPLETED''\<rparr>)) (db_applications (w_db sample_stray)) =
      Some \<lparr>app_id = 2, app_name = ''Okta'', app_slug = ''okta''\<rparr>"
    "map_of APPLICATION_CONNECTOR_NAMES (app_slug \<lparr>app_id = 2, app_name = ''Okta'', app_slug = ''okta''\<rparr>) = None"
    by (simp_all add: sample_stray_def stray_job_def sample_closed_def sample_item_def row_by_def
        APPLICATION_CONNECTOR_NAMES_def)
  from unmapped_application_fails [OF this, of mock_invoke default_retry_policy root_admin]
  show ?thesis by (auto simp: newest_job_def stray_job_def sample_stray_def)
qed

end
