(* ===== verification/Scim.thy ===== *)
theory Scim
  imports Http Listing
begin

text \<open>
  The SCIM 2.0 protocol layer of \<open>app/scim\<close>: errors (\<open>errors.py\<close>), pagination, sorting,
  filters and attribute projection of list requests, and the JSON resources of users and
  groups (\<open>users.py\<close>, \<open>groups.py\<close>).  The helpers are pure: they raise
  \<open>ScimHTTPException\<close> or return.
\<close>

section \<open>Constants and errors\<close>

definition SCIM_BASE_PATH :: string where
  "SCIM_BASE_PATH = ''/scim/v2''"

definition SCIM_SCHEMA_ERROR :: string where
  "SCIM_SCHEMA_ERROR = ''urn:ietf:params:scim:api:messages:2.0:Error''"

definition SCIM_SCHEMA_LIST_RESPONSE :: string where
  "SCIM_SCHEMA_LIST_RESPONSE = ''urn:ietf:params:scim:api:messages:2.0:ListResponse''"

definition SCIM_SCHEMA_USER :: string where
  "SCIM_SCHEMA_USER = ''urn:ietf:params:scim:schemas:core:2.0:User''"

definition SCIM_SCHEMA_GROUP :: string where
  "SCIM_SCHEMA_GROUP = ''urn:ietf:params:scim:schemas:core:2.0:Group''"

definition SCIM_SCHEMA_ENTERPRISE_USER :: string where
  "SCIM_SCHEMA_ENTERPRISE_USER = ''urn:ietf:params:scim:schemas:extension:enterprise:2.0:User''"

definition scim_http_exception :: "int \<Rightarrow> string \<Rightarrow> string option \<Rightarrow> scim_http_exception" where
  "scim_http_exception code detail scim_type =
     \<lparr>se_status_code = code, se_detail = detail, se_scim_type = scim_type\<rparr>"

definition raise_scim_error :: "int \<Rightarrow> string \<Rightarrow> string option \<Rightarrow> exn + 'a" where
  "raise_scim_error code detail scim_type = Inl (ScimExn (scim_http_exception code detail scim_type))"

text \<open>\<open>scim_error_response\<close>: the body of an error, without the absent \<open>scimType\<close>.\<close>

definition scim_error_response :: "scim_http_exception \<Rightarrow> int \<times> json" where
  "scim_error_response exc =
     (se_status_code exc,
      JObj ([(''schemas'', JList [JStr SCIM_SCHEMA_ERROR]), (''detail'', JStr (se_detail exc)),
             (''status'', JStr (str_int (se_status_code exc)))] @
            (case se_scim_type exc of None \<Rightarrow> [] | Some t \<Rightarrow> [(''scimType'', JStr t)])))"

text \<open>Sequencing of computations that raise.\<close>

definition sum_then :: "'e + 'a \<Rightarrow> ('a \<Rightarrow> 'e + 'b) \<Rightarrow> 'e + 'b" where
  "sum_then r f = (case r of Inl e \<Rightarrow> Inl e | Inr x \<Rightarrow> f x)"

primrec sum_map :: "('a \<Rightarrow> 'e + 'b) \<Rightarrow> 'a list \<Rightarrow> 'e + 'b list" where
  "sum_map f [] = Inr []"
| "sum_map f (x # xs) = sum_then (f x) (\<lambda>y. sum_then (sum_map f xs) (\<lambda>ys. Inr (y # ys)))"

lemma sum_then_simps [simp]: "sum_then (Inl e) f = Inl e" "sum_then (Inr x) f = f x"
  by (simp_all add: sum_then_def)

lemma sum_then_InrE:
  assumes "sum_then r f = Inr y"
  obtains x where "r = Inr x" and "f x = Inr y"
  using assms by (cases r) auto

lemma sum_then_InlE:
  assumes "sum_then r f = Inl e"
  obtains (first) "r = Inl e" | (second) x where "r = Inr x" and "f x = Inl e"
  using assms by (cases r) auto

section \<open>\<open>int(text)\<close> of Python\<close>

definition digit_char :: "char \<Rightarrow> bool" where
  "digit_char c = (let n = (of_char c :: nat) in 48 \<le> n \<and> n \<le> 57)"

definition is_letter :: "char \<Rightarrow> bool" where
  "is_letter c = (let n = (of_char c :: nat) in (65 \<le> n \<and> n \<le> 90) \<or> (97 \<le> n \<and> n \<le> 122))"

text \<open>
  Decimal digits with single underscores between them; the flag says that the previous
  character was a digit.
\<close>

fun int_digits :: "nat \<Rightarrow> bool \<Rightarrow> string \<Rightarrow> nat option" where
  "int_digits acc d [] = (if d then Some acc else None)"
| "int_digits acc d (c # cs) =
     (if digit_char c then int_digits (10 * acc + (of_char c - 48)) True cs
      else if c = CHR ''_'' \<and> d then int_digits acc False cs
      else None)"

text \<open>Surrounding whitespace and a sign are accepted; more than 4300 digits are a \<open>ValueError\<close>.\<close>

definition parse_unsigned :: "string \<Rightarrow> nat option" where
  "parse_unsigned s = (if 4300 < length (filter digit_char s) then None else int_digits 0 False s)"

text \<open>\<open>int\<close> passes over the white space of C, which is less than what \<open>strip\<close> removes.\<close>

definition is_c_space :: "char \<Rightarrow> bool" where
  "is_c_space c = (let n = (of_char c :: nat) in (9 \<le> n \<and> n \<le> 13) \<or> n = 32)"

definition strip_c :: "string \<Rightarrow> string" where
  "strip_c s = rev (dropWhile is_c_space (rev (dropWhile is_c_space s)))"

definition parse_int :: "string \<Rightarrow> int option" where
  "parse_int text =
     (case strip_c text of
        [] \<Rightarrow> None
      | c # cs \<Rightarrow>
          (if c = CHR ''-'' then map_option (\<lambda>n. - int n) (parse_unsigned cs)
           else if c = CHR ''+'' then map_option int (parse_unsigned cs)
           else map_option int (parse_unsigned (c # cs))))"

section \<open>Pagination\<close>

definition DEFAULT_SCIM_COUNT :: int where
  "DEFAULT_SCIM_COUNT = 100"

record scim_pagination =
  sp_start_index :: int
  sp_count :: int

definition pagination_offset :: "scim_pagination \<Rightarrow> nat" where
  "pagination_offset p = nat (sp_start_index p - 1)"

definition parse_integer_query_parameter :: "string \<Rightarrow> string option \<Rightarrow> int \<Rightarrow> int \<Rightarrow> exn + int" where
  "parse_integer_query_parameter name text_value dflt minimum =
     (case text_value of
        None \<Rightarrow> Inr dflt
      | Some text \<Rightarrow>
          (case parse_int text of
             None \<Rightarrow> raise_scim_error 400 (name @ '' must be an integer'') (Some ''invalidValue'')
           | Some parsed_value \<Rightarrow>
               (if parsed_value < minimum
                then raise_scim_error 400
                  (name @ '' must be greater than or equal to '' @ str_int minimum) (Some ''invalidValue'')
                else Inr parsed_value)))"

definition parse_pagination_parameters :: "string option \<Rightarrow> string option \<Rightarrow> exn + scim_pagination" where
  "parse_pagination_parameters start_index count_text =
     sum_then (parse_integer_query_parameter ''startIndex'' start_index 1 1) (\<lambda>i.
     sum_then (parse_integer_query_parameter ''count'' count_text DEFAULT_SCIM_COUNT 0) (\<lambda>n.
     Inr \<lparr>sp_start_index = i, sp_count = n\<rparr>))"

section \<open>Sorting\<close>

definition USER_SORT_FIELDS :: "(string \<times> (user \<Rightarrow> sort_value)) list" where
  "USER_SORT_FIELDS =
     [(''id'', \<lambda>u. SInt (u_id u)), (''userName'', \<lambda>u. SStr (lower (u_email u))),
      (''displayName'', \<lambda>u. SStr (lower (u_name u)))]"

definition GROUP_SORT_FIELDS :: "(string \<times> (group \<Rightarrow> sort_value)) list" where
  "GROUP_SORT_FIELDS =
     [(''id'', \<lambda>g. SInt (g_id g)), (''displayName'', \<lambda>g. SStr (lower (g_display_name g)))]"

definition sort_order_or_default :: "string option \<Rightarrow> string" where
  "sort_order_or_default sort_order =
     (case sort_order of None \<Rightarrow> ''ascending'' | Some t \<Rightarrow> if t = '''' then ''ascending'' else t)"

definition apply_scim_sorting ::
  "string option \<Rightarrow> string option \<Rightarrow> (string \<times> ('r \<Rightarrow> sort_value)) list \<Rightarrow> ('r \<Rightarrow> int) \<Rightarrow>
   'r list \<Rightarrow> exn + 'r list" where
  "apply_scim_sorting sort_by sort_order supported_sort_fields tie_breaker rows =
     (let normalized_sort_order = sort_order_or_default sort_order in
      if normalized_sort_order \<notin> set SUPPORTED_SORT_ORDERS
      then raise_scim_error 400 ''sortOrder must be ascending or descending'' (Some ''invalidValue'')
      else sum_then
        (case sort_by of
           None \<Rightarrow> Inr (\<lambda>r. SInt (tie_breaker r))
         | Some field \<Rightarrow>
             (case map_of supported_sort_fields field of
                None \<Rightarrow> raise_scim_error 400 (''Unsupported sortBy field: '' @ field) (Some ''invalidPath'')
              | Some key \<Rightarrow> Inr key))
        (\<lambda>key. Inr (order_rows key tie_breaker (normalized_sort_order = ''descending'') rows)))"

section \<open>Filters\<close>

datatype filter_value = FText string | FBool bool

record scim_filter =
  sf_attribute :: string
  sf_operator :: string
  sf_value :: filter_value

definition USER_FILTER_OPERATORS :: "(string \<times> string list) list" where
  "USER_FILTER_OPERATORS =
     [(''userName'', [''eq'']), (''id'', [''eq'']), (''displayName'', [''co'']), (''active'', [''eq''])]"

definition GROUP_FILTER_OPERATORS :: "(string \<times> string list) list" where
  "GROUP_FILTER_OPERATORS = [(''displayName'', [''eq'', ''co'']), (''id'', [''eq''])]"

definition raise_invalid_filter :: "string \<Rightarrow> exn + 'a" where
  "raise_invalid_filter detail = raise_scim_error 400 detail (Some ''invalidFilter'')"

text \<open>
  \<open>FILTER_PATTERN\<close>: leading space, an attribute, space, an operator, space, a value, trailing
  space.  Only the space before the value can be given back by the matcher: \<open>lazy_value\<close> is
  the group \<open>.+?\<close> followed by \<open>\s*$\<close>, and \<open>spaced_value\<close> the greedy \<open>\s+\<close> in front of it.
\<close>

definition newline :: char where
  "newline = CHR 0x0A"

fun lazy_value :: "string \<Rightarrow> string option" where
  "lazy_value [] = None"
| "lazy_value (c # cs) =
     (if c = newline then None
      else if list_all is_space cs then Some [c]
      else map_option (Cons c) (lazy_value cs))"

fun spaced_value :: "string \<Rightarrow> string option" where
  "spaced_value [] = None"
| "spaced_value (c # cs) =
     (if is_space c then (case spaced_value cs of Some v \<Rightarrow> Some v | None \<Rightarrow> lazy_value cs) else None)"

definition attribute_char :: "char \<Rightarrow> bool" where
  "attribute_char c = (is_letter c \<or> digit_char c \<or> c \<in> set ''_.:-'')"

definition match_filter :: "string \<Rightarrow> (string \<times> string \<times> string) option" where
  "match_filter text =
     (let s = dropWhile is_space text;
          attribute = takeWhile attribute_char s;
          r = dropWhile attribute_char s;
          r' = dropWhile is_space r;
          operator = takeWhile is_letter r';
          r'' = dropWhile is_letter r'
      in if attribute = [] \<or> \<not> is_letter (hd attribute) \<or> r = r' \<or> operator = [] then None
         else map_option (\<lambda>v. (attribute, operator, v)) (spaced_value r''))"

text \<open>
  \<open>json.loads\<close> of a string literal: \<open>None\<close> for everything else.  Characters are ASCII in this
  development, so an escape of another code point is not covered.
\<close>

definition hex_value :: "char \<Rightarrow> nat option" where
  "hex_value c = (let n = (of_char c :: nat) in
     if digit_char c then Some (n - 48)
     else if 97 \<le> n \<and> n \<le> 102 then Some (n - 87)
     else if 65 \<le> n \<and> n \<le> 70 then Some (n - 55)
     else None)"

definition simple_escape :: "char \<Rightarrow> char option" where
  "simple_escape c = map_of
     [(CHR 0x22, CHR 0x22), (CHR 0x5C, CHR 0x5C),
      (CHR ''/'', CHR ''/''), (CHR ''b'', CHR 0x08), (CHR ''f'', CHR 0x0C),
      (CHR ''n'', CHR 0x0A), (CHR ''r'', CHR 0x0D), (CHR ''t'', CHR 0x09)] c"

fun hex_code :: "string \<Rightarrow> nat option" where
  "hex_code [] = Some 0"
| "hex_code (c # cs) =
     (case (hex_value c, hex_code cs) of
        (Some h, Some n) \<Rightarrow> Some (h * 16 ^ length cs + n) | _ \<Rightarrow> None)"

fun json_string_rest :: "string \<Rightarrow> string option" where
  "json_string_rest [] = None"
| "json_string_rest (c # cs) =
     (if c = CHR 0x22 then (if list_all is_space cs then Some [] else None)
      else if of_char c < (32 :: nat) then None
      else if c = CHR 0x5C then
        (case cs of
           [] \<Rightarrow> None
         | e # ds \<Rightarrow>
             (if e = CHR ''u'' then
                (case ds of
                   a # b # c' # d # es \<Rightarrow>
                     (case hex_code [a, b, c', d] of
                        Some n \<Rightarrow> if n < 128 then map_option (Cons (char_of n)) (json_string_rest es) else None
                      | None \<Rightarrow> None)
                 | _ \<Rightarrow> None)
              else (case simple_escape e of
                      Some x \<Rightarrow> map_option (Cons x) (json_string_rest ds)
                    | None \<Rightarrow> None)))
      else map_option (Cons c) (json_string_rest cs))"

definition parse_quoted_string :: "string \<Rightarrow> exn + string" where
  "parse_quoted_string raw_value =
     (case dropWhile is_space raw_value of
        c # cs \<Rightarrow>
          (if c = CHR 0x22
           then (case json_string_rest cs of
                   Some v \<Rightarrow> Inr v
                 | None \<Rightarrow> raise_invalid_filter ''String filter values must be quoted'')
           else raise_invalid_filter ''String filter values must be quoted'')
      | [] \<Rightarrow> raise_invalid_filter ''String filter values must be quoted'')"

definition parse_scim_filter ::
  "(string \<times> string list) list \<Rightarrow> string option \<Rightarrow> exn + scim_filter option" where
  "parse_scim_filter supported_operators_by_attribute filter_text =
     (case filter_text of
        None \<Rightarrow> Inr None
      | Some text \<Rightarrow>
          (case match_filter text of
             None \<Rightarrow> raise_invalid_filter ''Malformed SCIM filter''
           | Some (attribute, raw_operator, raw_value) \<Rightarrow>
               (let operator = lower raw_operator in
                case map_of supported_operators_by_attribute attribute of
                  None \<Rightarrow> raise_invalid_filter (''Unsupported filter attribute: '' @ attribute)
                | Some supported_operators \<Rightarrow>
                    (if operator \<notin> set supported_operators
                     then raise_invalid_filter (attribute @ '' does not support the '' @ operator @ '' operator'')
                     else if attribute = ''active'' then
                       (let lowered_value = lower raw_value in
                        if lowered_value \<notin> {''true'', ''false''}
                        then raise_invalid_filter ''active filters must compare to true or false''
                        else Inr (Some \<lparr>sf_attribute = attribute, sf_operator = operator,
                               sf_value = FBool (lowered_value = ''true'')\<rparr>))
                     else sum_then (parse_quoted_string raw_value) (\<lambda>v.
                       Inr (Some \<lparr>sf_attribute = attribute, sf_operator = operator, sf_value = FText v\<rparr>))))))"

definition parse_user_filter :: "string option \<Rightarrow> exn + scim_filter option" where
  "parse_user_filter = parse_scim_filter USER_FILTER_OPERATORS"

definition parse_group_filter :: "string option \<Rightarrow> exn + scim_filter option" where
  "parse_group_filter = parse_scim_filter GROUP_FILTER_OPERATORS"

definition escape_like_char :: "char \<Rightarrow> string" where
  "escape_like_char c =
     (if c = CHR 0x5C \<or> c = CHR ''%'' \<or> c = CHR ''_'' then [CHR 0x5C, c] else [c])"

definition escape_like_pattern :: "string \<Rightarrow> string" where
  "escape_like_pattern value = concat (map escape_like_char value)"

text \<open>SQL \<open>LIKE\<close> with the escape character \<open>\\<close>; \<open>ILIKE\<close> compares in lower case.\<close>

function like :: "string \<Rightarrow> string \<Rightarrow> bool" where
  "like [] s = (s = [])"
| "like (p # ps) s =
     (if p = CHR 0x5C then
        (case (ps, s) of (q # qs, c # cs) \<Rightarrow> c = q \<and> like qs cs | _ \<Rightarrow> False)
      else if p = CHR ''%'' then
        like ps s \<or> (case s of [] \<Rightarrow> False | c # cs \<Rightarrow> like (p # ps) cs)
      else (case s of [] \<Rightarrow> False | c # cs \<Rightarrow> (p = CHR ''_'' \<or> c = p) \<and> like ps cs))"
  by pat_completeness auto
termination by (relation "measure (\<lambda>(p, s). length p + length s)") auto

definition ilike :: "string \<Rightarrow> string \<Rightarrow> bool" where
  "ilike pattern s = like (lower pattern) (lower s)"

definition filter_text :: "scim_filter \<Rightarrow> string" where
  "filter_text f = (case sf_value f of FText t \<Rightarrow> t | FBool b \<Rightarrow> if b then ''True'' else ''False'')"

text \<open>The \<open>WHERE\<close> clause a filter becomes; \<open>None\<close> is no clause.\<close>

definition build_user_filter_expression :: "scim_filter option \<Rightarrow> exn + (user \<Rightarrow> bool) option" where
  "build_user_filter_expression scim_filter =
     (case scim_filter of
        None \<Rightarrow> Inr None
      | Some f \<Rightarrow>
          (if sf_attribute f = ''userName''
           then Inr (Some (\<lambda>u. lower (u_email u) = lower (filter_text f)))
           else if sf_attribute f = ''id''
           then Inr (Some (\<lambda>u. parse_int (filter_text f) = Some (u_id u)))
           else if sf_attribute f = ''displayName''
           then Inr (Some (\<lambda>u. ilike (''%'' @ escape_like_pattern (filter_text f) @ ''%'') (u_name u)))
           else if sf_attribute f = ''active''
           then Inr (Some (\<lambda>u. FBool (u_active u) = sf_value f))
           else raise_invalid_filter (''Unsupported filter attribute: '' @ sf_attribute f)))"

definition build_group_filter_expression :: "scim_filter option \<Rightarrow> exn + (group \<Rightarrow> bool) option" where
  "build_group_filter_expression scim_filter =
     (case scim_filter of
        None \<Rightarrow> Inr None
      | Some f \<Rightarrow>
          (if sf_attribute f = ''id''
           then Inr (Some (\<lambda>g. parse_int (filter_text f) = Some (g_id g)))
           else if sf_attribute f = ''displayName''
           then (if sf_operator f = ''eq''
                 then Inr (Some (\<lambda>g. lower (g_display_name g) = lower (filter_text f)))
                 else Inr (Some (\<lambda>g. ilike (''%'' @ escape_like_pattern (filter_text f) @ ''%'')
                                            (g_display_name g))))
           else raise_invalid_filter (''Unsupported filter attribute: '' @ sf_attribute f)))"

section \<open>Attribute projection\<close>

definition ALWAYS_RETURNED_ATTRIBUTES :: "string list" where
  "ALWAYS_RETURNED_ATTRIBUTES = [''schemas'', ''id'']"

record scim_projection =
  pr_attributes :: "string list option"
  pr_excluded_attributes :: "string list"

text \<open>\<open>text.split(c)\<close>.\<close>

fun split_on :: "char \<Rightarrow> string \<Rightarrow> string list" where
  "split_on c [] = [[]]"
| "split_on c (d # s) =
     (if d = c then [] # split_on c s
      else (case split_on c s of [] \<Rightarrow> [[d]] | w # ws \<Rightarrow> (d # w) # ws))"

definition path_char :: "char \<Rightarrow> bool" where
  "path_char c = (is_letter c \<or> digit_char c \<or> c \<in> set ''_.:$-'')"

definition parse_attribute_path :: "string \<Rightarrow> string \<Rightarrow> exn + string" where
  "parse_attribute_path query_name raw_attribute =
     (let attribute = strip raw_attribute in
      if attribute = '''' then
        raise_scim_error 400 (query_name @ '' contains an empty attribute path'') (Some ''invalidPath'')
      else if \<not> is_letter (hd attribute) \<or> \<not> list_all path_char attribute then
        raise_scim_error 400 (query_name @ '' contains an invalid attribute path'') (Some ''invalidPath'')
      else Inr attribute)"

definition parse_attribute_list :: "string \<Rightarrow> string option \<Rightarrow> exn + string list option" where
  "parse_attribute_list query_name raw_value =
     (case raw_value of
        None \<Rightarrow> Inr None
      | Some text \<Rightarrow>
          (if text = '''' then Inr (Some [])
           else sum_then (sum_map (parse_attribute_path query_name) (split_on (CHR '','') text))
                  (\<lambda>attributes. Inr (Some (remdups attributes)))))"

definition parse_attribute_projection :: "string option \<Rightarrow> string option \<Rightarrow> exn + scim_projection" where
  "parse_attribute_projection attributes excluded_attributes =
     sum_then (parse_attribute_list ''attributes'' attributes) (\<lambda>wanted.
     sum_then (parse_attribute_list ''excludedAttributes'' excluded_attributes) (\<lambda>excluded.
     Inr \<lparr>pr_attributes = wanted,
          pr_excluded_attributes = (case excluded of None \<Rightarrow> [] | Some names \<Rightarrow> names)\<rparr>))"

definition top_level_attribute :: "string \<Rightarrow> string" where
  "top_level_attribute attribute = takeWhile (\<lambda>c. c \<noteq> CHR ''.'') attribute"

definition canonical_keys :: "payload \<Rightarrow> (string \<times> string) list" where
  "canonical_keys resource = fold (\<lambda>k d. dict_set (lower k) k d) (map fst resource) []"

definition resolve_resource_key :: "string \<Rightarrow> payload \<Rightarrow> string option" where
  "resolve_resource_key attribute resource =
     map_of (canonical_keys resource) (lower (top_level_attribute attribute))"

definition selected_keys :: "scim_projection \<Rightarrow> payload \<Rightarrow> string list" where
  "selected_keys projection resource =
     (let start = (case pr_attributes projection of
             None \<Rightarrow> map fst resource
           | Some attributes \<Rightarrow>
               List.map_filter (\<lambda>a. resolve_resource_key a resource)
                 (attributes @ ALWAYS_RETURNED_ATTRIBUTES));
          excluded = List.map_filter (\<lambda>a. resolve_resource_key a resource)
             (filter (\<lambda>a. top_level_attribute a \<notin> set ALWAYS_RETURNED_ATTRIBUTES)
               (pr_excluded_attributes projection))
      in filter (\<lambda>k. k \<notin> set excluded) start)"

definition apply_attribute_projection :: "payload \<Rightarrow> scim_projection \<Rightarrow> payload" where
  "apply_attribute_projection resource projection =
     filter (\<lambda>(k, v). k \<in> set (selected_keys projection resource)) resource"

section \<open>List responses\<close>

record scim_list_response =
  sl_total_results :: int
  sl_start_index :: int
  sl_items_per_page :: int
  sl_resources :: "payload list"

text \<open>
  The common part of \<open>list_users\<close> and \<open>list_groups\<close>: count the matching rows, order them,
  cut the page, render and project each row.
\<close>

definition scim_list ::
  "scim_pagination \<Rightarrow> ('r \<Rightarrow> bool) option \<Rightarrow> ('r list \<Rightarrow> exn + 'r list) \<Rightarrow> ('r \<Rightarrow> payload) \<Rightarrow>
   scim_projection \<Rightarrow> 'r list \<Rightarrow> exn + scim_list_response" where
  "scim_list pagination expression order_by to_resource projection rows =
     (let matching = (case expression of None \<Rightarrow> rows | Some p \<Rightarrow> filter p rows) in
      sum_then (order_by matching) (\<lambda>ordered.
        let shown = page (pagination_offset pagination) (nat (sp_count pagination)) ordered;
            resources = map (\<lambda>r. apply_attribute_projection (to_resource r) projection) shown
        in Inr \<lparr>sl_total_results = int (length matching), sl_start_index = sp_start_index pagination,
             sl_items_per_page = int (length resources), sl_resources = resources\<rparr>))"

section \<open>Resources\<close>

definition profile_of :: "db \<Rightarrow> int \<Rightarrow> enterprise_user_profile option" where
  "profile_of d user_id = find (\<lambda>p. ep_user_id p = user_id) (db_profiles d)"

definition build_user_location :: "string \<Rightarrow> int \<Rightarrow> string" where
  "build_user_location base_url user_id =
     rstrip_char (CHR ''/'') base_url @ SCIM_BASE_PATH @ ''/Users/'' @ str_int user_id"

definition build_group_location :: "string \<Rightarrow> int \<Rightarrow> string" where
  "build_group_location base_url group_id =
     rstrip_char (CHR ''/'') base_url @ SCIM_BASE_PATH @ ''/Groups/'' @ str_int group_id"

definition optional_text :: "string \<Rightarrow> string option \<Rightarrow> payload" where
  "optional_text key text = (case text of None \<Rightarrow> [] | Some t \<Rightarrow> [(key, JStr t)])"

definition enterprise_profile_to_scim_extension ::
  "db \<Rightarrow> enterprise_user_profile option \<Rightarrow> string \<Rightarrow> payload option" where
  "enterprise_profile_to_scim_extension d profile base_url =
     (case profile of
        None \<Rightarrow> None
      | Some p \<Rightarrow>
          (let extension =
             optional_text ''employeeNumber'' (ep_employee_number p) @
             optional_text ''department'' (ep_department p) @
             optional_text ''division'' (ep_division p) @
             optional_text ''organization'' (ep_organization p) @
             optional_text ''costCenter'' (ep_cost_center p) @
             (case ep_manager_id p of
                None \<Rightarrow> []
              | Some m \<Rightarrow>
                  [(''manager'', JObj ([(''value'', JStr (str_int m)),
                      (''$ref'', JStr (build_user_location base_url m))] @
                      (case row_by u_id m (db_users d) of
                         None \<Rightarrow> [] | Some manager \<Rightarrow> [(''displayName'', JStr (u_name manager))])))])
           in if extension = [] then None else Some extension))"

definition user_to_scim_resource :: "db \<Rightarrow> user \<Rightarrow> string \<Rightarrow> payload" where
  "user_to_scim_resource d user base_url =
     (let extension = enterprise_profile_to_scim_extension d (profile_of d (u_id user)) base_url in
      [(''schemas'', JList (map JStr (case extension of
          None \<Rightarrow> [SCIM_SCHEMA_USER] | Some _ \<Rightarrow> [SCIM_SCHEMA_USER, SCIM_SCHEMA_ENTERPRISE_USER]))),
       (''id'', JStr (str_int (u_id user))),
       (''userName'', JStr (u_email user)),
       (''name'', JObj [(''formatted'', JStr (u_name user))]),
       (''displayName'', JStr (u_name user)),
       (''active'', JBool (u_active user)),
       (''emails'', JList [JObj [(''value'', JStr (u_email user)), (''type'', JStr ''work''),
                                (''primary'', JBool True)]]),
       (''meta'', JObj [(''resourceType'', JStr ''User''),
                        (''location'', JStr (build_user_location base_url (u_id user)))])] @
      (case extension of None \<Rightarrow> [] | Some x \<Rightarrow> [(SCIM_SCHEMA_ENTERPRISE_USER, JObj x)]))"

text \<open>\<open>datetime.isoformat()\<close> of a timestamp in microseconds since the epoch.\<close>

definition civil_date :: "int \<Rightarrow> int \<times> int \<times> int" where
  "civil_date days =
     (let z = days + 719468; era = z div 146097; doe = z mod 146097;
          yoe = (doe - doe div 1460 + doe div 36524 - doe div 146096) div 365;
          doy = doe - (365 * yoe + yoe div 4 - yoe div 100);
          mp = (5 * doy + 2) div 153;
          month = (if mp < 10 then mp + 3 else mp - 9)
      in (yoe + era * 400 + (if month \<le> 2 then 1 else 0), month, doy - (153 * mp + 2) div 5 + 1))"

definition padded :: "nat \<Rightarrow> int \<Rightarrow> string" where
  "padded width n = (let s = str_int n in replicate (width - length s) (CHR ''0'') @ s)"

definition isoformat :: "string \<Rightarrow> int \<Rightarrow> string" where
  "isoformat utc_offset micros =
     (let seconds = micros div 1000000; fraction = micros mod 1000000;
          time = seconds mod 86400;
          (year, month, day) = civil_date (seconds div 86400)
      in padded 4 year @ ''-'' @ padded 2 month @ ''-'' @ padded 2 day @ ''T'' @
         padded 2 (time div 3600) @ '':'' @ padded 2 (time div 60 mod 60) @ '':'' @ padded 2 (time mod 60) @
         (if fraction = 0 then '''' else ''.'' @ padded 6 fraction) @ utc_offset)"

definition group_members_of :: "db \<Rightarrow> int \<Rightarrow> group_member list" where
  "group_members_of d group_id =
     sort_key gm_user_id (filter (\<lambda>m. gm_group_id m = group_id) (db_group_members d))"

definition scim_member :: "db \<Rightarrow> string \<Rightarrow> group_member \<Rightarrow> json" where
  "scim_member d base_url m =
     JObj [(''value'', JStr (str_int (gm_user_id m))),
           (''$ref'', JStr (build_user_location base_url (gm_user_id m))),
           (''display'', (case row_by u_id (gm_user_id m) (db_users d) of
              None \<Rightarrow> JNull | Some u \<Rightarrow> JStr (u_name u)))]"

definition group_to_scim_resource :: "string \<Rightarrow> db \<Rightarrow> group \<Rightarrow> string \<Rightarrow> payload" where
  "group_to_scim_resource utc_offset d grp base_url =
     [(''schemas'', JList [JStr SCIM_SCHEMA_GROUP]),
      (''id'', JStr (str_int (g_id grp))),
      (''displayName'', JStr (g_display_name grp)),
      (''members'', JList (map (scim_member d base_url) (group_members_of d (g_id grp)))),
      (''meta'', JObj [(''resourceType'', JStr ''Group''),
                       (''location'', JStr (build_group_location base_url (g_id grp))),
                       (''lastModified'', JStr (isoformat utc_offset (g_updated_at grp)))])]"

end
