(* ===== verification/Profiles.thy ===== *)
theory Profiles
  imports Scim Sample
begin

text \<open>
  The Enterprise User extension: \<open>EnterpriseUserService\<close> of
  \<open>app/services/enterprise_user_service.py\<close>.  A mutation gives each attribute a new value,
  clears it, or leaves it unset.  The service works on the profile object of the session and
  writes it back when it flushes; the events it collects are returned with the changes.

  The main fact is that the manager relation stays acyclic: \<open>validate_manager\<close> walks up the
  chain of managers and its walk ends.
\<close>

section \<open>Mutations\<close>

text \<open>\<open>UNSET\<close> is \<open>None\<close>, a cleared attribute \<open>Some None\<close>.\<close>

record enterprise_profile_mutation =
  mu_employee_number :: "string option option"
  mu_department :: "string option option"
  mu_division :: "string option option"
  mu_organization :: "string option option"
  mu_cost_center :: "string option option"
  mu_manager_id :: "int option option"

definition empty_mutation :: enterprise_profile_mutation where
  "empty_mutation = \<lparr>mu_employee_number = None, mu_department = None, mu_division = None,
     mu_organization = None, mu_cost_center = None, mu_manager_id = None\<rparr>"

definition clear_enterprise_mutation :: enterprise_profile_mutation where
  "clear_enterprise_mutation = \<lparr>mu_employee_number = Some None, mu_department = Some None,
     mu_division = Some None, mu_organization = Some None, mu_cost_center = Some None,
     mu_manager_id = Some None\<rparr>"

definition has_changes :: "enterprise_profile_mutation \<Rightarrow> bool" where
  "has_changes m \<longleftrightarrow> mu_employee_number m \<noteq> None \<or> mu_department m \<noteq> None \<or> mu_division m \<noteq> None \<or>
     mu_organization m \<noteq> None \<or> mu_cost_center m \<noteq> None \<or> mu_manager_id m \<noteq> None"

definition desired_value :: "bool \<Rightarrow> 'a option option \<Rightarrow> 'a option option" where
  "desired_value replace value =
     (case value of None \<Rightarrow> if replace then Some None else None | Some v \<Rightarrow> Some v)"

definition desired_values :: "enterprise_profile_mutation \<Rightarrow> bool \<Rightarrow> enterprise_profile_mutation" where
  "desired_values m replace =
     \<lparr>mu_employee_number = desired_value replace (mu_employee_number m),
      mu_department = desired_value replace (mu_department m),
      mu_division = desired_value replace (mu_division m),
      mu_organization = desired_value replace (mu_organization m),
      mu_cost_center = desired_value replace (mu_cost_center m),
      mu_manager_id = desired_value replace (mu_manager_id m)\<rparr>"

text \<open>No desired value is other than null.\<close>

definition all_null :: "enterprise_profile_mutation \<Rightarrow> bool" where
  "all_null m \<longleftrightarrow> mu_employee_number m \<in> {None, Some None} \<and> mu_department m \<in> {None, Some None} \<and>
     mu_division m \<in> {None, Some None} \<and> mu_organization m \<in> {None, Some None} \<and>
     mu_cost_center m \<in> {None, Some None} \<and> mu_manager_id m \<in> {None, Some None}"

section \<open>Managers\<close>

text \<open>
  The loop of \<open>validate_manager\<close>: from \<open>current\<close> up the chain of managers; true when it comes
  to the user whose manager is being set.  Each round adds an identifier of the user table to
  the ones seen.
\<close>

function manager_cycle :: "db \<Rightarrow> int \<Rightarrow> int list \<Rightarrow> user \<Rightarrow> bool" where
  "manager_cycle d user_id seen_user_ids current_manager =
     (case profile_of d (u_id current_manager) of
        None \<Rightarrow> False
      | Some profile \<Rightarrow>
          (case ep_manager_id profile of
             None \<Rightarrow> False
           | Some next_manager_id \<Rightarrow>
               (if next_manager_id = user_id then True
                else if next_manager_id \<in> set seen_user_ids then False
                else (case row_by u_id next_manager_id (db_users d) of
                        None \<Rightarrow> False
                      | Some next_manager \<Rightarrow>
                          manager_cycle d user_id (next_manager_id # seen_user_ids) next_manager))))"
  by pat_completeness auto
termination
proof (relation "measure (\<lambda>(d, i, seen, m). card (u_id ` set (db_users d) - set seen))")
  fix d :: db and user_id :: int and seen :: "int list" and m p n and next_manager :: user
  assume "n \<notin> set seen" and "row_by u_id n (db_users d) = Some next_manager"
  then have "n \<in> u_id ` set (db_users d) - set seen" by (auto dest!: row_by_Some)
  then have "card (u_id ` set (db_users d) - set (n # seen)) < card (u_id ` set (db_users d) - set seen)"
    by (intro psubset_card_mono) auto
  then show "((d, user_id, n # seen, next_manager), d, user_id, seen, m)
      \<in> measure (\<lambda>(d, i, seen, m). card (u_id ` set (db_users d) - set seen))"
    by simp
qed simp

declare manager_cycle.simps [simp del]

definition validate_manager :: "user \<Rightarrow> int option \<Rightarrow> user option wop" where
  "validate_manager user manager_id =
     (case manager_id of
        None \<Rightarrow> ret None
      | Some i \<Rightarrow>
          and_then (query (\<lambda>d. row_by u_id i (db_users d))) (\<lambda>found.
          and_then (from_option (EnterpriseUserExn (UnknownManagerError i)) found) (\<lambda>manager.
          and_then (guard (u_id manager \<noteq> u_id user) (EnterpriseUserExn (SelfManagerError (u_id user)))) (\<lambda>_.
          and_then (query (\<lambda>d. manager_cycle d (u_id user) [u_id user] manager)) (\<lambda>cycle.
          and_then (guard (\<not> cycle) (EnterpriseUserExn (ManagerCycleError (u_id user) (u_id manager)))) (\<lambda>_.
          ret (Some manager)))))))"

definition find_manager :: "int option \<Rightarrow> user option wop" where
  "find_manager manager_id = query (\<lambda>d. case manager_id of
     None \<Rightarrow> None | Some i \<Rightarrow> row_by u_id i (db_users d))"

section \<open>Applying a mutation\<close>

definition DEFAULT_PROVISIONED_DEPARTMENT :: string where
  "DEFAULT_PROVISIONED_DEPARTMENT = ''SCIM Provisioned''"

definition ensure_employee_number_available :: "string \<Rightarrow> enterprise_user_profile \<Rightarrow> unit wop" where
  "ensure_employee_number_available employee_number current_profile =
     and_then (query (\<lambda>d. find (\<lambda>p. map_option lower (ep_employee_number p) = Some (lower employee_number))
       (db_profiles d))) (\<lambda>existing_profile.
     case existing_profile of
       None \<Rightarrow> ret ()
     | Some p \<Rightarrow>
         guard (ep_id p = ep_id current_profile)
           (EnterpriseUserExn (DuplicateEmployeeNumberError employee_number p)))"

text \<open>
  The session objects being changed: the profile, the department of the user, the changes and
  the events so far.
\<close>

record profile_draft =
  dr_profile :: enterprise_user_profile
  dr_department :: string
  dr_changes :: "string list"
  dr_events :: "timed_event list"

text \<open>\<open>ENTERPRISE_FIELDS\<close>: SCIM name, desired value, attribute of the profile, its event.\<close>

record enterprise_field =
  ef_name :: string
  ef_desired :: "enterprise_profile_mutation \<Rightarrow> string option option"
  ef_get :: "enterprise_user_profile \<Rightarrow> string option"
  ef_set :: "string option \<Rightarrow> enterprise_user_profile \<Rightarrow> enterprise_user_profile"
  ef_event :: "int \<Rightarrow> string option \<Rightarrow> identity_event"

definition ENTERPRISE_FIELDS :: "enterprise_field list" where
  "ENTERPRISE_FIELDS =
     [\<lparr>ef_name = ''employeeNumber'', ef_desired = mu_employee_number, ef_get = ep_employee_number,
       ef_set = (\<lambda>v. ep_employee_number_update (\<lambda>_. v)), ef_event = EmployeeNumberChanged\<rparr>,
      \<lparr>ef_name = ''department'', ef_desired = mu_department, ef_get = ep_department,
       ef_set = (\<lambda>v. ep_department_update (\<lambda>_. v)), ef_event = DepartmentChanged\<rparr>,
      \<lparr>ef_name = ''division'', ef_desired = mu_division, ef_get = ep_division,
       ef_set = (\<lambda>v. ep_division_update (\<lambda>_. v)), ef_event = DivisionChanged\<rparr>,
      \<lparr>ef_name = ''organization'', ef_desired = mu_organization, ef_get = ep_organization,
       ef_set = (\<lambda>v. ep_organization_update (\<lambda>_. v)), ef_event = OrganizationChanged\<rparr>,
      \<lparr>ef_name = ''costCenter'', ef_desired = mu_cost_center, ef_get = ep_cost_center,
       ef_set = (\<lambda>v. ep_cost_center_update (\<lambda>_. v)), ef_event = CostCenterChanged\<rparr>]"

definition department_or_default :: "string option \<Rightarrow> string" where
  "department_or_default value =
     (case value of None \<Rightarrow> DEFAULT_PROVISIONED_DEPARTMENT
      | Some v \<Rightarrow> if v = '''' then DEFAULT_PROVISIONED_DEPARTMENT else v)"

definition set_enterprise_field ::
  "user \<Rightarrow> enterprise_profile_mutation \<Rightarrow> enterprise_field \<Rightarrow> profile_draft \<Rightarrow> profile_draft wop" where
  "set_enterprise_field user desired field draft =
     (case ef_desired field desired of
        None \<Rightarrow> ret draft
      | Some new_value \<Rightarrow>
          (if ef_get field (dr_profile draft) = new_value then ret draft
           else and_then utc_now (\<lambda>now. ret
             \<lparr>dr_profile = ef_set field new_value (dr_profile draft),
              dr_department = (if ef_name field = ''department'' then department_or_default new_value
                               else dr_department draft),
              dr_changes = dr_changes draft @ [ef_name field],
              dr_events = dr_events draft @ [(now, IdentityEvent (ef_event field (u_id user) new_value))]\<rparr>)))"

primrec set_enterprise_fields ::
  "enterprise_field list \<Rightarrow> user \<Rightarrow> enterprise_profile_mutation \<Rightarrow> profile_draft \<Rightarrow> profile_draft wop" where
  "set_enterprise_fields [] user desired draft = ret draft"
| "set_enterprise_fields (f # fs) user desired draft =
     and_then (set_enterprise_field user desired f draft) (set_enterprise_fields fs user desired)"

definition set_manager :: "user \<Rightarrow> enterprise_profile_mutation \<Rightarrow> profile_draft \<Rightarrow> profile_draft wop" where
  "set_manager user desired draft =
     (case mu_manager_id desired of
        None \<Rightarrow> ret draft
      | Some new_manager_id \<Rightarrow>
          (if ep_manager_id (dr_profile draft) = new_manager_id then ret draft
           else and_then utc_now (\<lambda>now. ret (draft
             \<lparr>dr_profile := (dr_profile draft)\<lparr>ep_manager_id := new_manager_id\<rparr>,
              dr_changes := dr_changes draft @ [''manager''],
              dr_events := dr_events draft @ [(now, IdentityEvent (ManagerChanged (u_id user) new_manager_id))]\<rparr>))))"

text \<open>The flush: the rows of the user and of the profile, with \<open>onupdate\<close> of \<open>updated_at\<close>.\<close>

definition employee_number_free :: "enterprise_user_profile \<Rightarrow> db \<Rightarrow> bool" where
  "employee_number_free p d \<longleftrightarrow> ep_employee_number p = None \<or>
     \<not> list_ex (\<lambda>q. ep_id q \<noteq> ep_id p \<and> ep_employee_number q = ep_employee_number p) (db_profiles d)"

definition flush_profile :: "user \<Rightarrow> profile_draft \<Rightarrow> unit wop" where
  "flush_profile user draft =
     and_then utc_now (\<lambda>now.
     and_then (query (employee_number_free (dr_profile draft))) (\<lambda>free. block [
       unique_constraint free,
       update_db (\<lambda>d. d\<lparr>db_users := put_row u_id (user\<lparr>u_department := dr_department draft\<rparr>) (db_users d),
         db_profiles := put_row ep_id ((dr_profile draft)\<lparr>ep_updated_at := now\<rparr>) (db_profiles d)\<rparr>)]))"

definition apply_to_profile ::
  "user \<Rightarrow> enterprise_profile_mutation \<Rightarrow> enterprise_user_profile \<Rightarrow> bool \<Rightarrow>
   (string list \<times> timed_event list) wop" where
  "apply_to_profile user desired profile created =
     and_then (case mu_employee_number desired of
         Some (Some n) \<Rightarrow> ensure_employee_number_available n profile | _ \<Rightarrow> ret ()) (\<lambda>_.
     and_then (case mu_manager_id desired of
         Some m \<Rightarrow> validate_manager user m | None \<Rightarrow> ret None) (\<lambda>_.
     and_then (set_enterprise_fields ENTERPRISE_FIELDS user desired
       \<lparr>dr_profile = profile, dr_department = u_department user, dr_changes = [], dr_events = []\<rparr>) (\<lambda>draft.
     and_then (set_manager user desired draft) (\<lambda>draft'.
       if dr_changes draft' = [] then ret ([], dr_events draft')
       else and_then utc_now (\<lambda>now.
            and_then (flush_profile user draft') (\<lambda>_.
            ret (if created
                 then (''profile_created'' # dr_changes draft',
                       (now, IdentityEvent (EnterpriseProfileCreated (u_id user))) # dr_events draft')
                 else (''profile_updated'' # dr_changes draft',
                       (now, IdentityEvent (EnterpriseProfileUpdated (u_id user))) # dr_events draft'))))))))"

definition insert_profile :: "user \<Rightarrow> enterprise_user_profile wop" where
  "insert_profile user =
     and_then (query (\<lambda>d. map ep_id (db_profiles d))) (\<lambda>keys.
     and_then (new_key keys) (\<lambda>key.
     and_then utc_now (\<lambda>created_at.
     and_then utc_now (\<lambda>updated_at.
     and_then (query (\<lambda>d. profile_of d (u_id user))) (\<lambda>other.
       let profile = \<lparr>ep_id = key, ep_user_id = u_id user, ep_employee_number = None,
             ep_department = None, ep_division = None, ep_cost_center = None,
             ep_organization = None, ep_manager_id = None, ep_created_at = created_at,
             ep_updated_at = updated_at\<rparr>
       in and_then (unique_constraint (other = None)) (\<lambda>_.
          and_then (update_db (\<lambda>d. d\<lparr>db_profiles := db_profiles d @ [profile]\<rparr>)) (\<lambda>_.
          ret profile)))))))"

definition apply_profile_mutation ::
  "user \<Rightarrow> enterprise_profile_mutation \<Rightarrow> bool \<Rightarrow> (string list \<times> timed_event list) wop" where
  "apply_profile_mutation user mutation replace =
     (if \<not> has_changes mutation \<and> \<not> replace then ret ([], [])
      else
        let desired = desired_values mutation replace in
        if \<not> has_changes desired then ret ([], [])
        else
          and_then (query (\<lambda>d. profile_of d (u_id user))) (\<lambda>profile.
          case profile of
            Some p \<Rightarrow> apply_to_profile user desired p False
          | None \<Rightarrow>
              (if all_null desired then ret ([], [])
               else and_then (insert_profile user) (\<lambda>p. apply_to_profile user desired p True))))"

definition clear_enterprise_profile :: "user \<Rightarrow> (string list \<times> timed_event list) wop" where
  "clear_enterprise_profile user =
     and_then (query (\<lambda>d. profile_of d (u_id user))) (\<lambda>profile.
     case profile of
       None \<Rightarrow> ret ([], [])
     | Some _ \<Rightarrow> apply_profile_mutation user clear_enterprise_mutation False)"

definition create_enterprise_profile ::
  "user \<Rightarrow> enterprise_profile_mutation option \<Rightarrow> (string list \<times> timed_event list) wop" where
  "create_enterprise_profile user mutation =
     (case mutation of None \<Rightarrow> ret ([], []) | Some m \<Rightarrow> apply_profile_mutation user m False)"

definition patch_enterprise_profile ::
  "user \<Rightarrow> enterprise_profile_mutation option \<Rightarrow> (string list \<times> timed_event list) wop" where
  "patch_enterprise_profile user mutation =
     (case mutation of None \<Rightarrow> ret ([], []) | Some m \<Rightarrow> apply_profile_mutation user m False)"

definition replace_enterprise_profile ::
  "user \<Rightarrow> enterprise_profile_mutation option \<Rightarrow> (string list \<times> timed_event list) wop" where
  "replace_enterprise_profile user mutation =
     (case mutation of None \<Rightarrow> clear_enterprise_profile user | Some m \<Rightarrow> apply_profile_mutation user m True)"

end
