(* ===== verification/Managers.thy ===== *)
theory Managers
  imports Profiles
begin

text \<open>
  The enterprise directory stays well formed: one profile per user, employee numbers unique up
  to case, managers that exist, and no cycle of managers.
\<close>

section \<open>Names that are unique up to case\<close>

text \<open>
  Three services look a name up in lower case before they write it: addresses of users, names
  of groups, employee numbers.  What the look-ups establish is one fact about tables.
\<close>

definition same_name :: "('r \<Rightarrow> string option) \<Rightarrow> 'r \<Rightarrow> 'r \<Rightarrow> bool" where
  "same_name name r q \<longleftrightarrow> (\<exists>n k. name r = Some n \<and> name q = Some k \<and> lower n = lower k)"

definition unique_names :: "('r \<Rightarrow> int) \<Rightarrow> ('r \<Rightarrow> string option) \<Rightarrow> 'r list \<Rightarrow> bool" where
  "unique_names key name rows \<longleftrightarrow>
     (\<forall>r \<in> set rows. \<forall>q \<in> set rows. same_name name r q \<longrightarrow> key r = key q)"

definition name_free :: "('r \<Rightarrow> int) \<Rightarrow> ('r \<Rightarrow> string option) \<Rightarrow> 'r \<Rightarrow> 'r list \<Rightarrow> bool" where
  "name_free key name a rows \<longleftrightarrow> (\<forall>q \<in> set rows. same_name name a q \<longrightarrow> key q = key a)"

lemma same_name_sym: "same_name name r q \<longleftrightarrow> same_name name q r"
  by (auto simp: same_name_def)

lemma unique_names_insert:
  assumes "unique_names key name rows" and "name_free key name a rows" and "set rows' \<subseteq> insert a (set rows)"
  shows "unique_names key name rows'"
  unfolding unique_names_def
proof (intro ballI impI)
  fix r q assume "r \<in> set rows'" and "q \<in> set rows'" and n: "same_name name r q"
  with assms(3) have "r = a \<or> r \<in> set rows" and "q = a \<or> q \<in> set rows" by auto
  with n assms(1,2) show "key r = key q"
    unfolding unique_names_def name_free_def by (metis same_name_sym)
qed

lemma unique_names_put_row:
  "unique_names key name rows \<Longrightarrow> name_free key name a rows \<Longrightarrow> unique_names key name (put_row key a rows)"
  by (rule unique_names_insert) (auto simp: put_row_iff)

lemma unique_names_snoc:
  "unique_names key name rows \<Longrightarrow> name_free key name a rows \<Longrightarrow> unique_names key name (rows @ [a])"
  by (rule unique_names_insert) auto

lemma name_free_None: "name a = None \<Longrightarrow> name_free key name a rows"
  by (simp add: name_free_def same_name_def)

lemma old_name_free:
  assumes "unique_names key name rows" and "r \<in> set rows" and "key a = key r" and "name a = name r"
  shows "name_free key name a rows"
  using assms unfolding unique_names_def name_free_def same_name_def by metis

text \<open>The look-up: nobody else has the name if nobody is found, or the row itself is.\<close>

lemma lookup_name_free:
  assumes "unique_names key name rows" and "name a = Some n"
    and "case find (\<lambda>q. map_option lower (name q) = Some (lower n)) rows of
           None \<Rightarrow> True | Some q \<Rightarrow> key q = key a"
  shows "name_free key name a rows"
  unfolding name_free_def
proof (intro ballI impI)
  fix r assume r: "r \<in> set rows" and "same_name name a r"
  then have n: "map_option lower (name r) = Some (lower n)" using assms(2) by (auto simp: same_name_def)
  with r obtain q where q: "find (\<lambda>q. map_option lower (name q) = Some (lower n)) rows = Some q"
    by (cases "find (\<lambda>q. map_option lower (name q) = Some (lower n)) rows") (auto simp: find_None_iff)
  then have "q \<in> set rows" and "map_option lower (name q) = Some (lower n)" by (auto simp: find_Some_iff)
  with n have "same_name name r q" by (auto simp: same_name_def)
  with assms(1) r \<open>q \<in> set rows\<close> have "key r = key q" by (simp add: unique_names_def)
  with q assms(3) show "key r = key a" by simp
qed

section \<open>The manager relation\<close>

definition manager_edges :: "db \<Rightarrow> (int \<times> int) set" where
  "manager_edges d = {(ep_user_id p, m) | p m. p \<in> set (db_profiles d) \<and> ep_manager_id p = Some m}"

definition wf_profiles :: "db \<Rightarrow> bool" where
  "wf_profiles d \<longleftrightarrow>
     distinct (map u_id (db_users d)) \<and> distinct (map ep_id (db_profiles d)) \<and>
     distinct (map ep_user_id (db_profiles d)) \<and>
     (\<forall>p \<in> set (db_profiles d). ep_user_id p \<in> u_id ` set (db_users d) \<and>
        (\<forall>m. ep_manager_id p = Some m \<longrightarrow> m \<in> u_id ` set (db_users d))) \<and>
     unique_names ep_id ep_employee_number (db_profiles d) \<and>
     acyclic (manager_edges d)"

lemma profile_of_row: "profile_of d i = row_by ep_user_id i (db_profiles d)"
  by (simp add: profile_of_def row_by_def)

lemma profile_of_Some: "profile_of d i = Some p \<Longrightarrow> p \<in> set (db_profiles d) \<and> ep_user_id p = i"
  by (simp add: profile_of_row row_by_Some)

lemma manager_edges_iff:
  assumes "wf_profiles d"
  shows "(i, m) \<in> manager_edges d \<longleftrightarrow> (\<exists>p. profile_of d i = Some p \<and> ep_manager_id p = Some m)"
proof
  assume "(i, m) \<in> manager_edges d"
  then obtain p where "p \<in> set (db_profiles d)" "ep_user_id p = i" "ep_manager_id p = Some m"
    by (auto simp: manager_edges_def)
  then show "\<exists>p. profile_of d i = Some p \<and> ep_manager_id p = Some m"
    using row_by_unique [of ep_user_id "db_profiles d" p] assms by (auto simp: profile_of_row wf_profiles_def)
qed (auto simp: manager_edges_def dest: profile_of_Some)

lemma wf_managerE:
  assumes "wf_profiles d" and "profile_of d i = Some p" and "ep_manager_id p = Some m"
  obtains u where "row_by u_id m (db_users d) = Some u" and "u_id u = m" and "u \<in> set (db_users d)"
proof -
  have "m \<in> u_id ` set (db_users d)" using assms by (auto simp: wf_profiles_def dest!: profile_of_Some)
  then obtain u where "row_by u_id m (db_users d) = Some u"
    using row_by_absent [of u_id m "db_users d"] by (cases "row_by u_id m (db_users d)") auto
  with that show ?thesis using row_by_Some by metis
qed

text \<open>The walk is complete: if it finds no cycle, the manager's chain does not lead to the user.\<close>

lemma manager_walk_complete:
  assumes "wf_profiles d" and "\<not> manager_cycle d i seen m" and "u_id m \<noteq> i"
    and "\<forall>x \<in> set seen. x = i \<or> (x, u_id m) \<in> (manager_edges d)\<^sup>*"
  shows "(u_id m, i) \<notin> (manager_edges d)\<^sup>*"
  using assms
proof (induction d i seen m rule: manager_cycle.induct)
  case (1 d i seen m)
  note wf = "1.prems"(1)
  show ?case
  proof
    assume "(u_id m, i) \<in> (manager_edges d)\<^sup>*"
    with "1.prems"(3) obtain n where e: "(u_id m, n) \<in> manager_edges d" and r: "(n, i) \<in> (manager_edges d)\<^sup>*"
      by (meson converse_rtranclE)
    from e wf obtain p where p: "profile_of d (u_id m) = Some p" and n: "ep_manager_id p = Some n"
      by (auto simp: manager_edges_iff)
    from wf p n obtain u where u: "row_by u_id n (db_users d) = Some u" "u_id u = n" by (rule wf_managerE)
    have ni: "n \<noteq> i" using "1.prems"(2) p n by (subst (asm) manager_cycle.simps) auto
    have fresh: "n \<notin> set seen"
    proof
      assume "n \<in> set seen"
      with ni "1.prems"(4) have "(n, u_id m) \<in> (manager_edges d)\<^sup>*" by auto
      from this e have "(n, n) \<in> (manager_edges d)\<^sup>+" by (rule rtrancl_into_trancl1)
      with wf show False by (auto simp: wf_profiles_def acyclic_def)
    qed
    have step: "\<not> manager_cycle d i (n # seen) u"
      using "1.prems"(2) p n ni fresh u by (subst (asm) manager_cycle.simps) auto
    have "\<forall>x \<in> set (n # seen). x = i \<or> (x, u_id u) \<in> (manager_edges d)\<^sup>*"
      using "1.prems"(4) e u(2) by (auto intro: rtrancl_into_rtrancl)
    with "1.IH" [OF p n ni fresh u(1) wf step] ni u(2) r show False by auto
  qed
qed

lemma validate_manager_ok:
  assumes "validate_manager user manager_id s = (Inr r, t)" and wf: "wf_profiles (w_db s)"
  shows "t = s \<and> (\<forall>m. manager_id = Some m \<longrightarrow>
     m \<in> u_id ` set (db_users (w_db s)) \<and> m \<noteq> u_id user \<and> (m, u_id user) \<notin> (manager_edges (w_db s))\<^sup>*)"
proof (cases manager_id)
  case None
  with assms(1) show ?thesis by (simp add: validate_manager_def)
next
  case (Some m)
  with assms(1) obtain u where u: "row_by u_id m (db_users (w_db s)) = Some u"
    and ne: "u_id u \<noteq> u_id user" and walk: "\<not> manager_cycle (w_db s) (u_id user) [u_id user] u" and "t = s"
    by (auto simp: validate_manager_def run_ops from_option_def split: option.splits if_splits)
  moreover from u have "u_id u = m" "u \<in> set (db_users (w_db s))" by (auto dest: row_by_Some)
  moreover have "(u_id u, u_id user) \<notin> (manager_edges (w_db s))\<^sup>*"
    by (rule manager_walk_complete [OF wf walk ne]) simp
  ultimately show ?thesis using Some by auto
qed

section \<open>What a mutation does to a profile\<close>

definition apply_field :: "enterprise_profile_mutation \<Rightarrow> enterprise_field \<Rightarrow> enterprise_user_profile \<Rightarrow> enterprise_user_profile" where
  "apply_field desired f p = (case ef_desired f desired of None \<Rightarrow> p | Some v \<Rightarrow> ef_set f v p)"

definition field_changes :: "enterprise_profile_mutation \<Rightarrow> enterprise_user_profile \<Rightarrow> enterprise_field \<Rightarrow> bool" where
  "field_changes desired p f = (case ef_desired f desired of None \<Rightarrow> False | Some v \<Rightarrow> ef_get f p \<noteq> v)"

definition manager_changes :: "enterprise_profile_mutation \<Rightarrow> enterprise_user_profile \<Rightarrow> bool" where
  "manager_changes desired p = (case mu_manager_id desired of None \<Rightarrow> False | Some m \<Rightarrow> ep_manager_id p \<noteq> m)"

definition new_department :: "enterprise_profile_mutation \<Rightarrow> enterprise_user_profile \<Rightarrow> enterprise_field list \<Rightarrow> string \<Rightarrow> string" where
  "new_department desired p fs = fold (\<lambda>f dep.
     if field_changes desired p f \<and> ef_name f = ''department''
     then department_or_default (the (ef_desired f desired)) else dep) fs"

text \<open>Fields read back what was written, and writing one does not disturb the others.\<close>

definition lawful_fields :: "enterprise_field list \<Rightarrow> bool" where
  "lawful_fields fs \<longleftrightarrow> list_all (\<lambda>f. \<forall>p. ef_set f (ef_get f p) p = p) fs \<and>
     sorted_wrt (\<lambda>f g. \<forall>v p. ef_get g (ef_set f v p) = ef_get g p) fs"

lemma lawful_enterprise_fields: "lawful_fields ENTERPRISE_FIELDS"
  by (simp add: lawful_fields_def ENTERPRISE_FIELDS_def)

lemma set_enterprise_field_result:
  assumes "\<forall>p. ef_set f (ef_get f p) p = p"
  shows "returns (set_enterprise_field user desired f dr) s (\<lambda>dr' t.
     dr_profile dr' = apply_field desired f (dr_profile dr) \<and>
     dr_department dr' = new_department desired (dr_profile dr) [f] (dr_department dr) \<and>
     dr_changes dr' = dr_changes dr @ map ef_name (filter (field_changes desired (dr_profile dr)) [f]) \<and>
     map snd (dr_events dr') = map snd (dr_events dr) @
       map (\<lambda>f. IdentityEvent (ef_event f (u_id user) (the (ef_desired f desired))))
         (filter (field_changes desired (dr_profile dr)) [f]) \<and>
     w_db t = w_db s \<and> w_env t = w_env s)"
  using assms
  by (auto simp: set_enterprise_field_def returns_def apply_field_def field_changes_def new_department_def
      and_then_def split: option.split)

lemma set_enterprise_fields_result:
  assumes "lawful_fields fs"
  shows "returns (set_enterprise_fields fs user desired dr) s (\<lambda>dr' t.
     dr_profile dr' = fold (apply_field desired) fs (dr_profile dr) \<and>
     dr_department dr' = new_department desired (dr_profile dr) fs (dr_department dr) \<and>
     dr_changes dr' = dr_changes dr @ map ef_name (filter (field_changes desired (dr_profile dr)) fs) \<and>
     map snd (dr_events dr') = map snd (dr_events dr) @
       map (\<lambda>f. IdentityEvent (ef_event f (u_id user) (the (ef_desired f desired))))
         (filter (field_changes desired (dr_profile dr)) fs) \<and>
     w_db t = w_db s \<and> w_env t = w_env s)"
  using assms
proof (induction fs arbitrary: dr s)
  case Nil
  then show ?case by (simp add: new_department_def returns_def)
next
  case (Cons f fs)
  have fs: "lawful_fields fs" and f: "\<forall>p. ef_set f (ef_get f p) p = p"
    and indep: "\<forall>g \<in> set fs. \<forall>v p. ef_get g (ef_set f v p) = ef_get g p"
    using Cons.prems by (auto simp: lawful_fields_def)
  have same: "field_changes desired (apply_field desired f p) g = field_changes desired p g" if "g \<in> set fs" for g p
    using indep that by (auto simp: field_changes_def apply_field_def split: option.split)
  have filt: "filter (field_changes desired (apply_field desired f p)) fs = filter (field_changes desired p) fs" for p
    using same by (intro filter_cong) auto
  have dep: "new_department desired (apply_field desired f p) fs = new_department desired p fs" for p
    unfolding new_department_def by (intro ext fold_cong) (auto simp: same)
  show ?case
    unfolding set_enterprise_fields.simps
    apply (rule returns_and_then [OF set_enterprise_field_result [OF f]])
    apply (rule returns_mono [OF Cons.IH [OF fs]])
    apply (simp add: filt dep)
    apply (simp add: new_department_def)
    done
qed

definition overlay :: "'a option option \<Rightarrow> 'a option \<Rightarrow> 'a option" where
  "overlay v old = (case v of None \<Rightarrow> old | Some x \<Rightarrow> x)"

definition overlay_profile :: "enterprise_profile_mutation \<Rightarrow> enterprise_user_profile \<Rightarrow> enterprise_user_profile" where
  "overlay_profile desired p = p\<lparr>ep_employee_number := overlay (mu_employee_number desired) (ep_employee_number p),
     ep_department := overlay (mu_department desired) (ep_department p),
     ep_division := overlay (mu_division desired) (ep_division p),
     ep_organization := overlay (mu_organization desired) (ep_organization p),
     ep_cost_center := overlay (mu_cost_center desired) (ep_cost_center p),
     ep_manager_id := overlay (mu_manager_id desired) (ep_manager_id p)\<rparr>"

definition change_kinds :: "enterprise_profile_mutation \<Rightarrow> enterprise_user_profile \<Rightarrow> string list" where
  "change_kinds desired p = map ef_name (filter (field_changes desired p) ENTERPRISE_FIELDS) @
     (if manager_changes desired p then [''manager''] else [])"

definition change_events :: "int \<Rightarrow> enterprise_profile_mutation \<Rightarrow> enterprise_user_profile \<Rightarrow> domain_event list" where
  "change_events i desired p =
     map (\<lambda>f. IdentityEvent (ef_event f i (the (ef_desired f desired))))
       (filter (field_changes desired p) ENTERPRISE_FIELDS) @
     (if manager_changes desired p then [IdentityEvent (ManagerChanged i (the (mu_manager_id desired)))] else [])"

definition department_after :: "enterprise_profile_mutation \<Rightarrow> enterprise_user_profile \<Rightarrow> user \<Rightarrow> string" where
  "department_after desired p user =
     (case mu_department desired of
        None \<Rightarrow> u_department user
      | Some v \<Rightarrow> if ep_department p = v then u_department user else department_or_default v)"

lemma overlay_fields:
  "(fold (apply_field desired) ENTERPRISE_FIELDS p)
     \<lparr>ep_manager_id := overlay (mu_manager_id desired) (ep_manager_id p)\<rparr> = overlay_profile desired p"
  by (auto simp: ENTERPRISE_FIELDS_def apply_field_def overlay_profile_def overlay_def split: option.split)

lemma fields_keep_manager: "ep_manager_id (fold (apply_field desired) ENTERPRISE_FIELDS p) = ep_manager_id p"
  by (auto simp: ENTERPRISE_FIELDS_def apply_field_def split: option.split)

lemma department_fields:
  "new_department desired p ENTERPRISE_FIELDS (u_department user) = department_after desired p user"
  by (auto simp: ENTERPRISE_FIELDS_def new_department_def department_after_def field_changes_def split: option.split)

lemma set_manager_result:
  "returns (set_manager user desired dr) s (\<lambda>dr' t.
     dr_profile dr' = (dr_profile dr)\<lparr>ep_manager_id := overlay (mu_manager_id desired) (ep_manager_id (dr_profile dr))\<rparr> \<and>
     dr_department dr' = dr_department dr \<and>
     dr_changes dr' = dr_changes dr @ (if manager_changes desired (dr_profile dr) then [''manager''] else []) \<and>
     map snd (dr_events dr') = map snd (dr_events dr) @
       (if manager_changes desired (dr_profile dr)
        then [IdentityEvent (ManagerChanged (u_id user) (the (mu_manager_id desired)))] else []) \<and>
     w_db t = w_db s \<and> w_env t = w_env s)"
  by (auto simp: set_manager_def returns_def overlay_def manager_changes_def and_then_def split: option.split)

lemma manager_changes_cong: "ep_manager_id q = ep_manager_id p \<Longrightarrow> manager_changes desired q = manager_changes desired p"
  by (simp add: manager_changes_def split: option.split)

text \<open>The draft after the loop over the fields and the manager.\<close>

lemma draft_result:
  "returns (and_then (set_enterprise_fields ENTERPRISE_FIELDS user desired
       \<lparr>dr_profile = p, dr_department = u_department user, dr_changes = [], dr_events = []\<rparr>)
     (set_manager user desired)) s (\<lambda>dr t.
     dr_profile dr = overlay_profile desired p \<and> dr_department dr = department_after desired p user \<and>
     dr_changes dr = change_kinds desired p \<and> map snd (dr_events dr) = change_events (u_id user) desired p \<and>
     w_db t = w_db s \<and> w_env t = w_env s)"
  apply (rule returns_and_then [OF set_enterprise_fields_result [OF lawful_enterprise_fields]])
  apply (rule returns_mono [OF set_manager_result])
  apply (simp add: overlay_fields fields_keep_manager department_fields change_kinds_def change_events_def
      manager_changes_cong [OF fields_keep_manager])
  done

lemma unchanged_profile:
  assumes "change_kinds desired p = []"
  shows "overlay_profile desired p = p \<and> department_after desired p user = u_department user"
  using assms
  by (cases p) (auto simp: change_kinds_def overlay_profile_def overlay_def department_after_def ENTERPRISE_FIELDS_def
      field_changes_def manager_changes_def split: option.splits if_splits)

section \<open>The tables after a mutation\<close>

definition profile_written :: "user \<Rightarrow> enterprise_profile_mutation \<Rightarrow> enterprise_user_profile \<Rightarrow> int \<Rightarrow> db \<Rightarrow> db" where
  "profile_written user desired p now d =
     d\<lparr>db_users := put_row u_id (user\<lparr>u_department := department_after desired p user\<rparr>) (db_users d),
       db_profiles := put_row ep_id ((overlay_profile desired p)\<lparr>ep_updated_at := now\<rparr>) (db_profiles d)\<rparr>"

lemma overlay_profile_keys [simp]:
  "ep_id (overlay_profile desired p) = ep_id p" "ep_user_id (overlay_profile desired p) = ep_user_id p"
  "ep_employee_number (overlay_profile desired p) = overlay (mu_employee_number desired) (ep_employee_number p)"
  "ep_manager_id (overlay_profile desired p) = overlay (mu_manager_id desired) (ep_manager_id p)"
  by (simp_all add: overlay_profile_def)

lemma wf_profile_written:
  assumes wf: "wf_profiles d" and p: "p \<in> set (db_profiles d)" and i: "ep_user_id p = u_id user"
    and user: "u_id user \<in> u_id ` set (db_users d)"
    and number: "name_free ep_id ep_employee_number (overlay_profile desired p) (db_profiles d)"
    and manager: "\<And>m. mu_manager_id desired = Some (Some m) \<Longrightarrow>
      m \<in> u_id ` set (db_users d) \<and> (m, u_id user) \<notin> (manager_edges d)\<^sup>*"
  shows "wf_profiles (profile_written user desired p now d)"
proof -
  let ?q = "(overlay_profile desired p)\<lparr>ep_updated_at := now\<rparr>"
  let ?d = "profile_written user desired p now d"
  have rows: "q \<in> set (db_profiles ?d) \<Longrightarrow> q = ?q \<or> (q \<in> set (db_profiles d) \<and> ep_id q \<noteq> ep_id p)" for q
    by (auto simp: profile_written_def put_row_iff)
  have same: "ep_id q = ep_id p \<Longrightarrow> q \<in> set (db_profiles d) \<Longrightarrow> q = p" for q
    using wf p by (auto simp: wf_profiles_def distinct_map inj_on_def)
  have ids: "map u_id (db_users ?d) = map u_id (db_users d)" by (simp add: profile_written_def)
  have users: "u_id ` set (db_users ?d) = u_id ` set (db_users d)"
    using ids by (metis list.set_map)
  have owners: "map ep_user_id (db_profiles ?d) = map ep_user_id (db_profiles d)"
    unfolding profile_written_def
    by (simp, rule map_put_row_other) (use same in auto)
  have edges: "manager_edges ?d \<subseteq> manager_edges d \<union>
      {(u_id user, m) | m. mu_manager_id desired = Some (Some m)}"
  proof
    fix e assume "e \<in> manager_edges ?d"
    then obtain q m where q: "q \<in> set (db_profiles ?d)" "ep_manager_id q = Some m" "e = (ep_user_id q, m)"
      by (auto simp: manager_edges_def)
    from rows [OF q(1)] show "e \<in> manager_edges d \<union> {(u_id user, m) | m. mu_manager_id desired = Some (Some m)}"
    proof
      assume new: "q = ?q"
      show ?thesis
      proof (cases "mu_manager_id desired")
        case None
        then have "ep_manager_id p = Some m" and "e = (ep_user_id p, m)"
          using new q by (auto simp: overlay_def)
        then show ?thesis unfolding manager_edges_def using p by blast
      next
        case (Some v)
        then show ?thesis using new q i by (auto simp: overlay_def)
      qed
    qed (use q in \<open>auto simp: manager_edges_def\<close>)
  qed
  have acyc: "acyclic (manager_edges ?d)"
  proof (cases "\<exists>m. mu_manager_id desired = Some (Some m)")
    case True
    then obtain m where m: "mu_manager_id desired = Some (Some m)" by auto
    with edges have "manager_edges ?d \<subseteq> insert (u_id user, m) (manager_edges d)" by auto
    moreover have "acyclic (insert (u_id user, m) (manager_edges d))"
      using wf manager [OF m] by (simp add: wf_profiles_def acyclic_insert)
    ultimately show ?thesis by (rule acyclic_subset [rotated])
  next
    case False
    with edges have "manager_edges ?d \<subseteq> manager_edges d" by auto
    with wf show ?thesis by (auto simp: wf_profiles_def intro: acyclic_subset)
  qed
  have refs: "ep_user_id q \<in> u_id ` set (db_users d) \<and>
      (\<forall>m. ep_manager_id q = Some m \<longrightarrow> m \<in> u_id ` set (db_users d))" if "q \<in> set (db_profiles ?d)" for q
    using rows [OF that] wf p i user manager
    by (auto simp: wf_profiles_def overlay_def split: option.splits)
  have "unique_names ep_id ep_employee_number (db_profiles ?d)"
    unfolding profile_written_def using wf number
    by (simp, intro unique_names_put_row) (auto simp: wf_profiles_def name_free_def same_name_def)
  then show ?thesis
    using wf acyc refs users ids owners
    unfolding wf_profiles_def by (simp add: profile_written_def)
qed

lemma ensure_employee_number_ok:
  assumes "ensure_employee_number_available n p s = (Inr r, t)"
    and "unique_names ep_id ep_employee_number (db_profiles (w_db s))"
    and "ep_id q = ep_id p" and "ep_employee_number q = Some n"
  shows "t = s \<and> name_free ep_id ep_employee_number q (db_profiles (w_db s))"
proof
  show "t = s" using assms(1)
    by (auto simp: ensure_employee_number_available_def run_ops split: option.splits if_splits)
  have "case find (\<lambda>q. map_option lower (ep_employee_number q) = Some (lower n)) (db_profiles (w_db s)) of
      None \<Rightarrow> True | Some r \<Rightarrow> ep_id r = ep_id q"
    using assms(1,3)
    by (auto simp: ensure_employee_number_available_def run_ops split: option.splits if_splits)
  with assms(2,4) show "name_free ep_id ep_employee_number q (db_profiles (w_db s))"
    by (rule lookup_name_free)
qed

lemma old_number_free:
  assumes "wf_profiles d" and "p \<in> set (db_profiles d)" and "ep_id q = ep_id p"
    and "ep_employee_number q = ep_employee_number p"
  shows "name_free ep_id ep_employee_number q (db_profiles d)"
  using assms by (intro old_name_free [of _ _ _ p]) (simp_all add: wf_profiles_def)

lemma apply_to_profile_effect:
  assumes run: "apply_to_profile user desired p created s = (Inr (changes, events), t)"
    and wf: "wf_profiles (w_db s)" and p: "profile_of (w_db s) (u_id user) = Some p"
    and user: "u_id user \<in> u_id ` set (db_users (w_db s))"
  shows "w_env t = w_env s \<and> wf_profiles (w_db t) \<and>
    (if change_kinds desired p = [] then changes = [] \<and> events = [] \<and> w_db t = w_db s
     else changes = (if created then ''profile_created'' else ''profile_updated'') # change_kinds desired p \<and>
       map snd events = IdentityEvent ((if created then EnterpriseProfileCreated else EnterpriseProfileUpdated)
         (u_id user)) # change_events (u_id user) desired p \<and>
       (\<exists>now. w_db t = profile_written user desired p now (w_db s)))"
proof -
  from p have pin: "p \<in> set (db_profiles (w_db s))" "ep_user_id p = u_id user" by (auto dest: profile_of_Some)
  from run obtain s1 r2 s2 where
    number: "(case mu_employee_number desired of
         Some (Some n) \<Rightarrow> ensure_employee_number_available n p | _ \<Rightarrow> ret ()) s = (Inr (), s1)"
    and manager: "(case mu_manager_id desired of
         Some m \<Rightarrow> validate_manager user m | None \<Rightarrow> ret None) s1 = (Inr r2, s2)"
    and rest: "and_then (set_enterprise_fields ENTERPRISE_FIELDS user desired
       \<lparr>dr_profile = p, dr_department = u_department user, dr_changes = [], dr_events = []\<rparr>) (\<lambda>draft.
     and_then (set_manager user desired draft) (\<lambda>draft'.
       if dr_changes draft' = [] then ret ([], dr_events draft')
       else and_then utc_now (\<lambda>now.
            and_then (flush_profile user draft') (\<lambda>_.
            ret (if created
                 then (''profile_created'' # dr_changes draft',
                       (now, IdentityEvent (EnterpriseProfileCreated (u_id user))) # dr_events draft')
                 else (''profile_updated'' # dr_changes draft',
                       (now, IdentityEvent (EnterpriseProfileUpdated (u_id user))) # dr_events draft')))))) s2
       = (Inr (changes, events), t)"
    unfolding apply_to_profile_def by (auto elim!: and_then_okE)
  have n: "s1 = s \<and> name_free ep_id ep_employee_number (overlay_profile desired p) (db_profiles (w_db s))"
  proof (cases "\<exists>n. mu_employee_number desired = Some (Some n)")
    case True
    then obtain n where n: "mu_employee_number desired = Some (Some n)" by auto
    with number have "ensure_employee_number_available n p s = (Inr (), s1)" by simp
    then show ?thesis
      by (rule ensure_employee_number_ok) (use wf n in \<open>simp_all add: wf_profiles_def overlay_def\<close>)
  next
    case False
    with number have "s1 = s" by (auto split: option.splits)
    moreover have "name_free ep_id ep_employee_number (overlay_profile desired p) (db_profiles (w_db s))"
    proof (cases "mu_employee_number desired")
      case None
      then show ?thesis by (intro old_number_free [OF wf pin(1)]) (simp_all add: overlay_def)
    next
      case (Some v)
      with False show ?thesis by (intro name_free_None) (auto simp: overlay_def)
    qed
    ultimately show ?thesis by simp
  qed
  have m: "s2 = s \<and> (\<forall>m. mu_manager_id desired = Some (Some m) \<longrightarrow>
      m \<in> u_id ` set (db_users (w_db s)) \<and> (m, u_id user) \<notin> (manager_edges (w_db s))\<^sup>*)"
  proof (cases "mu_manager_id desired")
    case (Some v)
    with manager n have "validate_manager user v s = (Inr r2, s2)" by simp
    from validate_manager_ok [OF this wf] Some show ?thesis by auto
  qed (use manager n in auto)
  have "returns (and_then (set_enterprise_fields ENTERPRISE_FIELDS user desired
       \<lparr>dr_profile = p, dr_department = u_department user, dr_changes = [], dr_events = []\<rparr>)
     (set_manager user desired)) s (\<lambda>dr t.
     dr_profile dr = overlay_profile desired p \<and> dr_department dr = department_after desired p user \<and>
     dr_changes dr = change_kinds desired p \<and> map snd (dr_events dr) = change_events (u_id user) desired p \<and>
     w_db t = w_db s \<and> w_env t = w_env s)"
    by (rule draft_result)
  then obtain dr0 s3 dr s4 where fields: "set_enterprise_fields ENTERPRISE_FIELDS user desired
       \<lparr>dr_profile = p, dr_department = u_department user, dr_changes = [], dr_events = []\<rparr> s = (Inr dr0, s3)"
    and mgr: "set_manager user desired dr0 s3 = (Inr dr, s4)"
    and dr: "dr_profile dr = overlay_profile desired p" "dr_department dr = department_after desired p user"
      "dr_changes dr = change_kinds desired p" "map snd (dr_events dr) = change_events (u_id user) desired p"
    and s4: "w_db s4 = w_db s" "w_env s4 = w_env s"
    by (auto elim!: returnsE and_then_okE)
  show ?thesis
  proof (cases "change_kinds desired p = []")
    case True
    then have "change_events (u_id user) desired p = []"
      by (auto simp: change_kinds_def change_events_def split: if_splits)
    with rest m n fields mgr dr s4 True wf show ?thesis by auto
  next
    case False
    with rest m fields mgr dr
    have "and_then utc_now (\<lambda>now. and_then (flush_profile user dr) (\<lambda>_.
            ret (if created
                 then (''profile_created'' # dr_changes dr,
                       (now, IdentityEvent (EnterpriseProfileCreated (u_id user))) # dr_events dr)
                 else (''profile_updated'' # dr_changes dr,
                       (now, IdentityEvent (EnterpriseProfileUpdated (u_id user))) # dr_events dr)))) s4
        = (Inr (changes, events), t)" by simp
    then have "w_env t = w_env s" and w: "\<exists>now. w_db t = profile_written user desired p now (w_db s)"
      and "changes = (if created then ''profile_created'' else ''profile_updated'') # change_kinds desired p"
      and "map snd events = IdentityEvent ((if created then EnterpriseProfileCreated else EnterpriseProfileUpdated)
         (u_id user)) # change_events (u_id user) desired p"
      using s4 dr by (auto simp: flush_profile_def run_ops profile_written_def split: if_splits)
    moreover have "wf_profiles (w_db t)"
      using w wf_profile_written [OF wf pin user] n m by auto
    ultimately show ?thesis using False by simp
  qed
qed

section \<open>The operations of the service\<close>

definition blank_profile :: "int \<Rightarrow> enterprise_user_profile \<Rightarrow> bool" where
  "blank_profile i p \<longleftrightarrow> ep_user_id p = i \<and> ep_employee_number p = None \<and> ep_department p = None \<and>
     ep_division p = None \<and> ep_cost_center p = None \<and> ep_organization p = None \<and> ep_manager_id p = None"

lemma insert_profile_effect:
  assumes run: "insert_profile user s = (Inr p, t)" and wf: "wf_profiles (w_db s)"
    and env: "fresh_keys (w_env s)" and user: "u_id user \<in> u_id ` set (db_users (w_db s))"
  shows "w_db t = (w_db s)\<lparr>db_profiles := db_profiles (w_db s) @ [p]\<rparr> \<and> w_env t = w_env s \<and>
     blank_profile (u_id user) p \<and> wf_profiles (w_db t) \<and> profile_of (w_db t) (u_id user) = Some p"
proof -
  from run have db: "w_db t = (w_db s)\<lparr>db_profiles := db_profiles (w_db s) @ [p]\<rparr>" and "w_env t = w_env s"
    and p: "blank_profile (u_id user) p" and key: "ep_id p = env_key (w_env s) (map ep_id (db_profiles (w_db s)))"
    and none: "profile_of (w_db s) (u_id user) = None"
    by (auto simp: insert_profile_def run_ops Let_def blank_profile_def split: if_splits)
  have fresh: "ep_id p \<notin> ep_id ` set (db_profiles (w_db s))" using fresh_keys_map [OF env] key by metis
  have owner: "ep_user_id p \<notin> ep_user_id ` set (db_profiles (w_db s))"
    using none p by (auto simp: profile_of_row row_by_None blank_profile_def)
  have edges: "manager_edges (w_db t) = manager_edges (w_db s)"
    using p by (auto simp: db manager_edges_def blank_profile_def)
  have "wf_profiles (w_db t)"
    using wf fresh owner p user edges unfolding wf_profiles_def
    by (auto simp: db blank_profile_def intro!: unique_names_snoc name_free_None)
  moreover have "profile_of (w_db t) (u_id user) = Some p"
    using row_by_snoc [OF owner] p by (simp add: db profile_of_row blank_profile_def)
  ultimately show ?thesis using db \<open>w_env t = w_env s\<close> p by simp
qed

text \<open>
  What \<open>_apply_profile_mutation\<close> leaves behind, for the desired values: nothing when there is
  nothing to change, otherwise the profile (a new blank one if the user had none) overlaid with
  the desired values, and the department of the user.
\<close>

definition mutation_outcome ::
  "user \<Rightarrow> enterprise_profile_mutation \<Rightarrow> string list \<Rightarrow> domain_event list \<Rightarrow> db \<Rightarrow> db \<Rightarrow> bool" where
  "mutation_outcome user desired changes events d d' \<longleftrightarrow>
     (case profile_of d (u_id user) of
        Some p \<Rightarrow>
          if change_kinds desired p = [] then changes = [] \<and> events = [] \<and> d' = d
          else changes = ''profile_updated'' # change_kinds desired p \<and>
            events = IdentityEvent (EnterpriseProfileUpdated (u_id user)) # change_events (u_id user) desired p \<and>
            (\<exists>now. d' = profile_written user desired p now d)
      | None \<Rightarrow>
          if all_null desired then changes = [] \<and> events = [] \<and> d' = d
          else \<exists>p. blank_profile (u_id user) p \<and>
            changes = ''profile_created'' # change_kinds desired p \<and>
            events = IdentityEvent (EnterpriseProfileCreated (u_id user)) # change_events (u_id user) desired p \<and>
            (\<exists>now. d' = profile_written user desired p now (d\<lparr>db_profiles := db_profiles d @ [p]\<rparr>)))"

lemma blank_profile_changes:
  assumes "blank_profile i p" and "\<not> all_null desired"
  shows "change_kinds desired p \<noteq> []"
  using assms
  by (auto simp: blank_profile_def all_null_def change_kinds_def ENTERPRISE_FIELDS_def field_changes_def
      manager_changes_def split: option.splits)

lemma apply_profile_mutation_effect:
  assumes run: "apply_profile_mutation user mutation replace s = (Inr (changes, events), t)"
    and wf: "wf_profiles (w_db s)" and env: "fresh_keys (w_env s)"
    and user: "u_id user \<in> u_id ` set (db_users (w_db s))"
  shows "w_env t = w_env s \<and> wf_profiles (w_db t) \<and>
     mutation_outcome user (desired_values mutation replace) changes (map snd events) (w_db s) (w_db t)"
proof -
  let ?desired = "desired_values mutation replace"
  have none: "change_kinds ?desired p = [] \<and> all_null ?desired" if "\<not> has_changes ?desired" for p
    using that by (auto simp: has_changes_def change_kinds_def field_changes_def manager_changes_def
        ENTERPRISE_FIELDS_def all_null_def)
  show ?thesis
  proof (cases "\<not> has_changes mutation \<and> \<not> replace \<or> \<not> has_changes ?desired")
    case True
    have "desired_values m False = m" for m
      by (simp add: desired_values_def desired_value_def option.case_eq_if)
    with True have "\<not> has_changes ?desired" by auto
    moreover from True run have "changes = []" "events = []" "t = s"
      by (auto simp: apply_profile_mutation_def Let_def split: if_splits)
    ultimately show ?thesis using wf none by (auto simp: mutation_outcome_def split: option.split)
  next
    case changes: False
    show ?thesis
    proof (cases "profile_of (w_db s) (u_id user)")
      case (Some p)
      with run changes have "apply_to_profile user ?desired p False s = (Inr (changes, events), t)"
        by (auto simp: apply_profile_mutation_def Let_def run_ops)
      from apply_to_profile_effect [OF this wf Some user] Some show ?thesis
        by (auto simp: mutation_outcome_def)
    next
      case None
      show ?thesis
      proof (cases "all_null ?desired")
        case True
        with None run changes have "changes = []" "events = []" "t = s"
          by (auto simp: apply_profile_mutation_def Let_def run_ops)
        then show ?thesis using None True wf by (simp add: mutation_outcome_def)
      next
        case False
        with None run changes have "and_then (insert_profile user) (\<lambda>p. apply_to_profile user ?desired p True) s =
            (Inr (changes, events), t)"
          unfolding apply_profile_mutation_def Let_def by (auto simp del: not_None_eq split: if_splits)
        then obtain p s1 where ins: "insert_profile user s = (Inr p, s1)"
          and app: "apply_to_profile user ?desired p True s1 = (Inr (changes, events), t)"
          by (rule and_then_okE)
        from insert_profile_effect [OF ins wf env user] have
          s1: "w_db s1 = (w_db s)\<lparr>db_profiles := db_profiles (w_db s) @ [p]\<rparr>" "w_env s1 = w_env s"
            "blank_profile (u_id user) p" "wf_profiles (w_db s1)" "profile_of (w_db s1) (u_id user) = Some p"
          by auto
        have "u_id user \<in> u_id ` set (db_users (w_db s1))" using user s1(1) by simp
        from apply_to_profile_effect [OF app s1(4,5) this] blank_profile_changes [OF s1(3) False]
        show ?thesis using None False s1 by (auto simp: mutation_outcome_def)
      qed
    qed
  qed
qed

end
