(* ===== verification/Filtering.thy ===== *)
theory Filtering
  imports Scim Sample
begin

text \<open>
  What the query parameters of SCIM list requests mean: a \<open>co\<close> filter is a substring test,
  printing a filter and parsing it gives it back, \<open>int\<close> inverts \<open>str\<close>, projection keeps the
  identifying attributes, and pages tile the result.
\<close>

section \<open>Substring filters\<close>

lemma like_percent: "like (CHR ''%'' # ps) s \<longleftrightarrow> (\<exists>p t. s = p @ t \<and> like ps t)"
proof (induction s)
  case (Cons c s)
  have "like (CHR ''%'' # ps) (c # s) \<longleftrightarrow> like ps (c # s) \<or> like (CHR ''%'' # ps) s"
    by simp
  also have "\<dots> \<longleftrightarrow> (\<exists>p t. c # s = p @ t \<and> like ps t)"
    unfolding Cons.IH by (metis append_Cons append_Nil neq_Nil_conv list.inject)
  finally show ?case .
qed simp

lemma like_literal:
  "p \<noteq> CHR 0x5C \<Longrightarrow> p \<noteq> CHR ''%'' \<Longrightarrow> p \<noteq> CHR ''_'' \<Longrightarrow>
   like (p # ps) s \<longleftrightarrow> (\<exists>t. s = p # t \<and> like ps t)"
  by (cases s) auto

lemma like_escaped: "like (escape_like_pattern v @ ps) s \<longleftrightarrow> (\<exists>t. s = v @ t \<and> like ps t)"
proof (induction v arbitrary: s)
  case (Cons c v)
  have step: "like (escape_like_char c @ qs) s \<longleftrightarrow> (\<exists>t. s = c # t \<and> like qs t)" for qs
  proof (cases "c = CHR 0x5C \<or> c = CHR ''%'' \<or> c = CHR ''_''")
    case True
    then have "escape_like_char c = [CHR 0x5C, c]" by (simp add: escape_like_char_def)
    then show ?thesis by (cases s) auto
  next
    case False
    then have "escape_like_char c = [c]" by (simp add: escape_like_char_def)
    with False show ?thesis by (simp add: like_literal del: like.simps)
  qed
  have "like (escape_like_pattern (c # v) @ ps) s = like (escape_like_char c @ escape_like_pattern v @ ps) s"
    by (simp add: escape_like_pattern_def)
  also have "\<dots> \<longleftrightarrow> (\<exists>t. s = c # t \<and> (\<exists>t'. t = v @ t' \<and> like ps t'))"
    by (simp only: step Cons.IH)
  finally show ?case by auto
qed (simp add: escape_like_pattern_def)

lemma of_char_lower:
  "(of_char (lower_char c) :: nat) =
     (if 65 \<le> (of_char c :: nat) \<and> (of_char c :: nat) \<le> 90 then of_char c + 32 else of_char c)"
  by (simp add: lower_char_def Let_def)

lemma lower_char_other:
  "(of_char x :: nat) \<notin> {65..90} \<union> {97..122} \<Longrightarrow> (lower_char c = x) = (c = x)"
proof -
  assume x: "(of_char x :: nat) \<notin> {65..90} \<union> {97..122}"
  have "(lower_char c = x) = ((of_char (lower_char c) :: nat) = of_char x)" by simp
  also have "\<dots> = ((of_char c :: nat) = of_char x)"
  proof (cases "65 \<le> (of_char c :: nat) \<and> (of_char c :: nat) \<le> 90")
    case True
    then have "(of_char c :: nat) + 32 \<noteq> of_char x" and "(of_char c :: nat) \<noteq> of_char x" using x by auto
    with True show ?thesis by (simp only: of_char_lower if_True simp_thms)
  next
    case False
    then show ?thesis by (simp only: of_char_lower if_False)
  qed
  finally show ?thesis by simp
qed

lemma lower_escape_like: "lower (escape_like_pattern v) = escape_like_pattern (lower v)"
proof -
  have "lower (escape_like_char c) = escape_like_char (lower_char c)" for c
    by (simp add: escape_like_char_def lower_char_other lower_def)
  then show ?thesis
    by (induction v) (auto simp: escape_like_pattern_def lower_def)
qed

lemma ilike_contains: "ilike (''%'' @ escape_like_pattern v @ ''%'') s \<longleftrightarrow> sublist (lower v) (lower s)"
proof -
  have "lower (''%'' @ escape_like_pattern v @ ''%'') = CHR ''%'' # escape_like_pattern (lower v) @ ''%''"
    by (simp add: lower_escape_like [unfolded lower_def] lower_def) (simp add: lower_char_def)
  moreover have "like ''%'' t" for t by (simp add: like_percent del: like.simps) simp
  ultimately show ?thesis
    by (auto simp: ilike_def like_percent like_escaped sublist_def simp del: like.simps)
qed

section \<open>Printing a filter and parsing it\<close>

lemma of_char_iff: "k < 256 \<Longrightarrow> (of_char c :: nat) = k \<longleftrightarrow> c = char_of k"
  by (metis char_of_char mod_less of_char_of)

lemma control_chars:
  "char_of (34 :: nat) = CHR 0x22" "char_of (92 :: nat) = CHR 0x5C" "char_of (10 :: nat) = CHR 0x0A"
  "char_of (13 :: nat) = CHR 0x0D" "char_of (9 :: nat) = CHR 0x09" "char_of (12 :: nat) = CHR 0x0C"
  "char_of (8 :: nat) = CHR 0x08"
  by code_simp+

lemma hex_value_digit: "k < 16 \<Longrightarrow> hex_value (hex_digit k) = Some k"
  by (auto simp: hex_value_def hex_digit_def digit_char_def Let_def)

lemma json_escape_control:
  assumes "(of_char c :: nat) < 128"
  shows "hex_code [CHR ''0'', CHR ''0'', hex_digit (of_char c div 16), hex_digit (of_char c mod 16)] = Some (of_char c)"
proof -
  have "(of_char c :: nat) div 16 < 16" and "(of_char c :: nat) mod 16 < 16" using assms by auto
  then show ?thesis
    by (simp add: hex_value_digit) (simp add: hex_value_def digit_char_def)
qed

lemma json_string_rest_simple:
  assumes "e \<noteq> CHR ''u''" and "simple_escape e = Some x"
  shows "json_string_rest (CHR 0x5C # e # ds) = map_option (Cons x) (json_string_rest ds)"
  using assms by simp

lemma simple_escapes:
  "simple_escape (CHR 0x22) = Some (CHR 0x22)" "simple_escape (CHR 0x5C) = Some (CHR 0x5C)"
  "simple_escape (CHR ''n'') = Some (CHR 0x0A)" "simple_escape (CHR ''r'') = Some (CHR 0x0D)"
  "simple_escape (CHR ''t'') = Some (CHR 0x09)" "simple_escape (CHR ''f'') = Some (CHR 0x0C)"
  "simple_escape (CHR ''b'') = Some (CHR 0x08)"
  by code_simp+

lemmas json_string_escapes = simple_escapes [THEN json_string_rest_simple [rotated]]

lemma json_escapes:
  "json_escape_char (CHR 0x22) = [CHR 0x5C, CHR 0x22]" "json_escape_char (CHR 0x5C) = [CHR 0x5C, CHR 0x5C]"
  "json_escape_char (CHR 0x0A) = [CHR 0x5C, CHR ''n'']" "json_escape_char (CHR 0x0D) = [CHR 0x5C, CHR ''r'']"
  "json_escape_char (CHR 0x09) = [CHR 0x5C, CHR ''t'']" "json_escape_char (CHR 0x0C) = [CHR 0x5C, CHR ''f'']"
  "json_escape_char (CHR 0x08) = [CHR 0x5C, CHR ''b'']"
  by code_simp+

lemma json_string_rest_escape:
  assumes "(of_char c :: nat) < 128"
  shows "json_string_rest (json_escape_char c @ r) = map_option (Cons c) (json_string_rest r)"
proof (cases "(of_char c :: nat) \<in> {34, 92, 10, 13, 9, 12, 8}")
  case True
  then have "c \<in> {CHR 0x22, CHR 0x5C, CHR 0x0A, CHR 0x0D, CHR 0x09, CHR 0x0C, CHR 0x08}"
    by (simp add: of_char_iff control_chars)
  then show ?thesis
    by - (elim insertE emptyE; simp add: json_escapes json_string_escapes del: json_string_rest.simps(2))
next
  case special: False
  then have c: "c \<noteq> CHR 0x22" "c \<noteq> CHR 0x5C" by (auto simp: of_char_iff control_chars)
  show ?thesis
  proof (cases "(of_char c :: nat) < 32 \<or> 126 < (of_char c :: nat)")
    case True
    with special have "json_escape_char c = [CHR 0x5C, CHR ''u'', CHR ''0'', CHR ''0'',
        hex_digit (of_char c div 16), hex_digit (of_char c mod 16)]"
      by (simp add: json_escape_char_def Let_def control_chars)
    with assms show ?thesis by (simp add: json_escape_control del: hex_code.simps)
  next
    case False
    with special have "json_escape_char c = [c]" by (simp add: json_escape_char_def Let_def)
    with False c show ?thesis by simp
  qed
qed

definition ascii :: "string \<Rightarrow> bool" where
  "ascii s = list_all (\<lambda>c. of_char c < (128 :: nat)) s"

lemma json_string_rest_quote:
  "ascii v \<Longrightarrow> json_string_rest (concat (map json_escape_char v) @ [CHR 0x22]) = Some v"
proof (induction v)
  case (Cons c v)
  then show ?case by (simp add: ascii_def json_string_rest_escape del: json_string_rest.simps(2))
qed simp

lemma of_char_newline: "(of_char (CHR 0x0A) :: nat) = 10"
  by code_simp

lemma hex_digit_visible: "k < 16 \<Longrightarrow> hex_digit k \<noteq> CHR 0x0A"
proof -
  assume "k < 16"
  then have "48 \<le> (of_char (hex_digit k) :: nat)" by (auto simp: hex_digit_def)
  then show ?thesis using of_char_newline by auto
qed

lemma no_newline_escape: "CHR 0x0A \<notin> set (json_escape_char c)"
proof (cases "c = CHR 0x0A")
  case True
  then show ?thesis by (simp add: json_escapes)
next
  case False
  have "(of_char c :: nat) div 16 < 16" using nat_of_char_less_256 [of c] by linarith
  with False show ?thesis
    by (auto simp: json_escape_char_def Let_def control_chars hex_digit_visible [symmetric] hex_digit_visible)
qed

lemma lazy_value_all:
  "v \<noteq> [] \<Longrightarrow> CHR 0x0A \<notin> set v \<Longrightarrow> \<not> is_space (last v) \<Longrightarrow> lazy_value v = Some v"
proof (induction v)
  case (Cons c v)
  show ?case
  proof (cases "v = []")
    case False
    then have "\<not> list_all is_space v" using Cons.prems(3) by (auto simp: list_all_iff)
    with False Cons show ?thesis by (auto simp: newline_def)
  qed (use Cons.prems in \<open>auto simp: newline_def\<close>)
qed simp

lemma letters_are_not_spaces: "is_letter c \<Longrightarrow> \<not> is_space c"
  by (auto simp: is_letter_def is_space_def Let_def)

lemma space_chars: "is_space (CHR '' '')" "\<not> attribute_char (CHR '' '')" "\<not> is_letter (CHR '' '')"
  "\<not> is_space (CHR 0x22)"
  by code_simp+

lemma takeWhile_stop: "list_all P xs \<Longrightarrow> \<not> P y \<Longrightarrow> takeWhile P (xs @ y # ys) = xs"
  and dropWhile_stop: "list_all P xs \<Longrightarrow> \<not> P y \<Longrightarrow> dropWhile P (xs @ y # ys) = y # ys"
  by (induction xs) auto

lemma dropWhile_nonspace: "s \<noteq> [] \<Longrightarrow> is_letter (hd s) \<Longrightarrow> dropWhile is_space (s @ t) = s @ t"
  by (cases s) (auto simp: letters_are_not_spaces)

lemma match_printed_filter:
  assumes a: "a \<noteq> []" "is_letter (hd a)" "list_all attribute_char a"
    and opr: "opr \<noteq> []" "list_all is_letter opr"
    and v: "v \<noteq> []" "CHR 0x0A \<notin> set v" "\<not> is_space (hd v)" "\<not> is_space (last v)"
  shows "match_filter (a @ CHR '' '' # opr @ CHR '' '' # v) = Some (a, opr, v)"
proof -
  have hd_opr: "is_letter (hd opr)" using opr by (cases opr) auto
  have "spaced_value v = None" using v by (cases v) auto
  then have sp: "spaced_value (CHR '' '' # v) = Some v"
    using v by (simp add: space_chars lazy_value_all)
  show ?thesis
    unfolding match_filter_def Let_def
    using a opr hd_opr sp
    by (simp add: dropWhile_nonspace takeWhile_stop dropWhile_stop space_chars)
qed

definition print_filter :: "string \<Rightarrow> string \<Rightarrow> string \<Rightarrow> string" where
  "print_filter attribute operator value =
     attribute @ CHR '' '' # operator @ CHR '' '' # json_quote value"

lemma json_quote_parts:
  "json_quote v = CHR 0x22 # concat (map json_escape_char v) @ [CHR 0x22]"
  by (simp add: json_quote_def control_chars)

lemma parse_printed_filter:
  assumes a: "a \<noteq> []" "is_letter (hd a)" "list_all attribute_char a" "a \<noteq> ''active''"
    and opr: "opr \<noteq> []" "list_all is_letter opr" "lower opr = opr"
    and oprs: "map_of ops a = Some oprs" "opr \<in> set oprs" and v: "ascii v"
  shows "parse_scim_filter ops (Some (print_filter a opr v)) =
     Inr (Some \<lparr>sf_attribute = a, sf_operator = opr, sf_value = FText v\<rparr>)"
proof -
  have "CHR 0x0A \<notin> set (json_quote v)"
    by (auto simp: json_quote_parts no_newline_escape)
  then have "match_filter (print_filter a opr v) = Some (a, opr, json_quote v)"
    unfolding print_filter_def
    by (intro match_printed_filter a opr) (simp_all add: json_quote_parts space_chars)
  moreover have "parse_quoted_string (json_quote v) = Inr v"
    using json_string_rest_quote [OF v]
    by (simp add: parse_quoted_string_def json_quote_parts space_chars)
  ultimately show ?thesis
    using a(4) opr(3) oprs by (simp add: parse_scim_filter_def)
qed

definition user_selection :: "string \<Rightarrow> exn + (user \<Rightarrow> bool) option" where
  "user_selection text = sum_then (parse_user_filter (Some text)) build_user_filter_expression"

lemmas word_chars = attribute_char_def is_letter_def digit_char_def Let_def lower_def lower_char_def

text \<open>
  C21. A list request with a text filter selects exactly the users it describes, for every
  filter text: \<open>displayName co\<close> those whose name contains the text whatever the case (no
  character of the text acts as a wildcard), \<open>userName eq\<close> those whose address equals it up
  to case, \<open>id eq\<close> the one whose identifier the text writes.
\<close>

theorem user_filter_exact:
  assumes "ascii v"
  shows
    "user_selection (print_filter ''displayName'' ''co'' v) =
       Inr (Some (\<lambda>u. sublist (lower v) (lower (u_name u)))) \<and>
     user_selection (print_filter ''userName'' ''eq'' v) =
       Inr (Some (\<lambda>u. lower (u_email u) = lower v)) \<and>
     user_selection (print_filter ''id'' ''eq'' v) =
       Inr (Some (\<lambda>u. parse_int v = Some (u_id u)))"
proof -
  have p: "parse_user_filter (Some (print_filter a opr v)) =
      Inr (Some \<lparr>sf_attribute = a, sf_operator = opr, sf_value = FText v\<rparr>)"
    if "(a, opr) \<in> {(''displayName'', ''co''), (''userName'', ''eq''), (''id'', ''eq'')}" for a opr
    unfolding parse_user_filter_def using that assms
    by (elim insertE emptyE) (auto intro!: parse_printed_filter simp: word_chars USER_FILTER_OPERATORS_def)
  show ?thesis
    by (simp add: user_selection_def p build_user_filter_expression_def filter_text_def)
       (simp add: ilike_contains [simplified])
qed

theorem user_filter_exact_witness:
  "\<exists>p. user_selection (print_filter ''displayName'' ''co'' ''50%_O'') = Inr (Some p) \<and>
       p (sample_user 9 ''Bob 50%_off'' ''Sales'' ''employee'') \<and>
       \<not> p (sample_user 8 ''Bob 50 off'' ''Sales'' ''employee'')"
proof -
  have "ascii ''50%_O''" by code_simp
  moreover have "sublist (lower ''50%_O'') (lower ''Bob 50%_off'')" by code_simp
  moreover have "\<not> sublist (lower ''50%_O'') (lower ''Bob 50 off'')" by code_simp
  ultimately show ?thesis using user_filter_exact [of "''50%_O''"] by (simp add: sample_user_def)
qed

section \<open>\<open>int(str(n))\<close>\<close>

lemma int_digits_append:
  "list_all digit_char ds \<Longrightarrow> ds \<noteq> [] \<Longrightarrow> int_digits acc d (ds @ r) = int_digits (fold (\<lambda>c a. 10 * a + (of_char c - 48)) ds acc) True r"
proof (induction ds arbitrary: acc d)
  case (Cons c ds)
  show ?case
  proof (cases "ds = []")
    case False
    with Cons.prems have "list_all digit_char ds" by simp
    from Cons.IH [OF this False] Cons.prems show ?thesis by simp
  qed (use Cons.prems in simp)
qed simp

lemma digits_are_digits: "list_all digit_char (digits n)" and digits_nonempty: "digits n \<noteq> []"
proof -
  have "list_all digit_char (digits n) \<and> digits n \<noteq> []"
  proof (induction n rule: digits.induct)
    case (1 n)
    then show ?case by (auto simp: digits.simps [of n] digit_char_def Let_def)
  qed
  then show "list_all digit_char (digits n)" and "digits n \<noteq> []" by auto
qed

lemma fold_digits: "fold (\<lambda>c a. 10 * a + (of_char c - 48)) (digits n) 0 = n"
proof (induction n rule: digits.induct)
  case (1 n)
  then show ?case by (auto simp: digits.simps [of n])
qed

lemma parse_unsigned_digits: "length (digits n) \<le> 4300 \<Longrightarrow> parse_unsigned (digits n) = Some n"
proof -
  assume l: "length (digits n) \<le> 4300"
  have "filter digit_char (digits n) = digits n"
    using digits_are_digits [of n] by (simp add: filter_id_conv list_all_iff)
  with l show ?thesis
    using int_digits_append [OF digits_are_digits digits_nonempty, of 0 False n "[]"]
    by (simp add: parse_unsigned_def fold_digits)
qed

lemma digit_not_space: "digit_char c \<Longrightarrow> \<not> is_space c"
  by (auto simp: digit_char_def is_space_def Let_def)

lemma c_space_is_space: "is_c_space c \<Longrightarrow> is_space c"
  by (auto simp: is_c_space_def is_space_def Let_def)

lemma strip_c_same: "s \<noteq> [] \<Longrightarrow> \<not> is_space (hd s) \<Longrightarrow> \<not> is_space (last s) \<Longrightarrow> strip_c s = s"
proof -
  assume s: "s \<noteq> []" "\<not> is_space (hd s)" "\<not> is_space (last s)"
  then have "dropWhile is_c_space s = s" and "dropWhile is_c_space (rev s) = rev s"
    using c_space_is_space by (auto simp: dropWhile_eq_self_iff hd_rev)
  then show ?thesis by (simp add: strip_c_def)
qed

lemma parse_int_str_int:
  assumes "length (str_int i) \<le> 4300"
  shows "parse_int (str_int i) = Some i"
proof -
  have d: "\<not> is_space (last (digits n))" "\<not> is_space (hd (digits n))" "hd (digits n) \<noteq> CHR ''-''"
    "hd (digits n) \<noteq> CHR ''+''" for n
  proof -
    have "digit_char c" if "c \<in> set (digits n)" for c
      using that digits_are_digits [of n] by (simp add: list_all_iff)
    then have d: "digit_char (hd (digits n))" "digit_char (last (digits n))"
      using digits_nonempty [of n] by simp_all
    have "\<not> digit_char (CHR ''-'')" "\<not> digit_char (CHR ''+'')" by code_simp+
    then show "\<not> is_space (last (digits n))" "\<not> is_space (hd (digits n))"
      "hd (digits n) \<noteq> CHR ''-''" "hd (digits n) \<noteq> CHR ''+''"
      using d by (auto simp: digit_not_space)
  qed
  show ?thesis
  proof (cases "i < 0")
    case True
    have "strip_c (CHR ''-'' # digits (nat (- i))) = CHR ''-'' # digits (nat (- i))"
      by (rule strip_c_same) (simp_all add: d digits_nonempty, simp add: is_space_def)
    with True assms show ?thesis
      by (simp add: parse_int_def str_int_def parse_unsigned_digits)
  next
    case False
    have "strip_c (digits (nat i)) = digits (nat i)"
      by (rule strip_c_same) (simp_all add: d digits_nonempty)
    moreover obtain c cs where "digits (nat i) = c # cs" using digits_nonempty by (cases "digits (nat i)") auto
    moreover have "c \<noteq> CHR ''-''" "c \<noteq> CHR ''+''" using d(3,4) [of "nat i"] calculation(2) by auto
    ultimately show ?thesis
      using False assms parse_unsigned_digits [of "nat i"] by (simp add: parse_int_def str_int_def)
  qed
qed

section \<open>What a projection returns\<close>

lemma canonical_fold:
  "map_of (fold (\<lambda>k d. dict_set (f k) k d) ks d) x = Some k \<Longrightarrow>
   (k \<in> set ks \<and> f k = x) \<or> map_of d x = Some k"
proof (induction ks arbitrary: d)
  case (Cons a ks)
  from Cons.IH [of "dict_set (f a) a d"] Cons.prems show ?case by (auto split: if_splits)
qed simp

lemma canonical_fold_other:
  "x \<notin> f ` set ks \<Longrightarrow> map_of (fold (\<lambda>k d. dict_set (f k) k d) ks d) x = map_of d x"
  by (induction ks arbitrary: d) auto

lemma canonical_fold_distinct:
  "inj_on f (set ks) \<Longrightarrow> k \<in> set ks \<Longrightarrow> map_of (fold (\<lambda>k d. dict_set (f k) k d) ks d) (f k) = Some k"
proof (induction ks arbitrary: d)
  case (Cons a ks)
  show ?case
  proof (cases "k \<in> set ks")
    case True
    with Cons show ?thesis by (simp add: inj_on_def)
  next
    case False
    with Cons.prems have "k = a" by simp
    with False Cons.prems have "f k \<notin> f ` set ks" by (auto simp: inj_on_def)
    with \<open>k = a\<close> show ?thesis by (simp add: canonical_fold_other)
  qed
qed simp

lemma resolve_resource_key:
  assumes "resolve_resource_key a resource = Some k"
  shows "k \<in> fst ` set resource \<and> lower k = lower (top_level_attribute a)"
  using canonical_fold [of lower "map fst resource" "[]" "lower (top_level_attribute a)" k] assms
  by (auto simp: resolve_resource_key_def canonical_keys_def)

lemma resolve_resource_key_iff:
  assumes "distinct (map (\<lambda>kv. lower (fst kv)) resource)" and "k \<in> fst ` set resource"
  shows "resolve_resource_key a resource = Some k \<longleftrightarrow> lower (top_level_attribute a) = lower k"
proof
  assume "lower (top_level_attribute a) = lower k"
  moreover have "inj_on lower (set (map fst resource))"
    using assms(1) by (auto simp: distinct_map inj_on_def)
  ultimately show "resolve_resource_key a resource = Some k"
    using canonical_fold_distinct [of lower "map fst resource" k "[]"] assms(2)
    by (simp add: resolve_resource_key_def canonical_keys_def)
qed (use resolve_resource_key in fastforce)

lemma in_map_filter: "y \<in> set (List.map_filter f xs) \<longleftrightarrow> (\<exists>x \<in> set xs. f x = Some y)"
  by (induction xs) (auto simp: List.map_filter_simps split: option.splits)

text \<open>Which keys of a resource a projection shows, when no two keys differ in case only.\<close>

lemma projected_key_iff:
  assumes "distinct (map (\<lambda>kv. lower (fst kv)) resource)" and "k \<in> fst ` set resource"
  shows "k \<in> fst ` set (apply_attribute_projection resource projection) \<longleftrightarrow>
     (pr_attributes projection = None \<or>
      (\<exists>a \<in> set (the (pr_attributes projection) @ ALWAYS_RETURNED_ATTRIBUTES).
         lower (top_level_attribute a) = lower k)) \<and>
     \<not> (\<exists>a \<in> set (pr_excluded_attributes projection).
         top_level_attribute a \<notin> set ALWAYS_RETURNED_ATTRIBUTES \<and> lower (top_level_attribute a) = lower k)"
proof -
  note iff = resolve_resource_key_iff [OF assms]
  have "k \<in> fst ` set (apply_attribute_projection resource projection) \<longleftrightarrow>
      k \<in> set (selected_keys projection resource)"
    using assms(2) by (force simp: apply_attribute_projection_def image_iff split_def)
  also have "\<dots> \<longleftrightarrow> (pr_attributes projection = None \<or>
      (\<exists>a \<in> set (the (pr_attributes projection) @ ALWAYS_RETURNED_ATTRIBUTES).
         resolve_resource_key a resource = Some k)) \<and>
     \<not> (\<exists>a \<in> set (pr_excluded_attributes projection).
         top_level_attribute a \<notin> set ALWAYS_RETURNED_ATTRIBUTES \<and> resolve_resource_key a resource = Some k)"
    using assms(2) by (auto simp: selected_keys_def Let_def in_map_filter split: option.splits)
  finally show ?thesis by (simp only: iff)
qed

definition user_resource_keys :: "string list" where
  "user_resource_keys = [''schemas'', ''id'', ''userName'', ''name'', ''displayName'', ''active'', ''emails'', ''meta'']"

lemma user_resource_keys:
  "map fst (user_to_scim_resource d u base_url) = user_resource_keys @
     (if enterprise_profile_to_scim_extension d (profile_of d (u_id u)) base_url = None then []
      else [SCIM_SCHEMA_ENTERPRISE_USER])"
  by (simp add: user_to_scim_resource_def user_resource_keys_def Let_def split: option.split)

lemma distinct_resource_keys: "distinct (map lower (user_resource_keys @ [SCIM_SCHEMA_ENTERPRISE_USER]))"
  by code_simp

lemma distinct_user_resource: "distinct (map (\<lambda>kv. lower (fst kv)) (user_to_scim_resource d u base_url))"
proof -
  have "map (\<lambda>kv. lower (fst kv)) (user_to_scim_resource d u base_url) =
      map lower (map fst (user_to_scim_resource d u base_url))" by simp
  also have "distinct \<dots>" using distinct_resource_keys by (simp only: user_resource_keys) auto
  finally show ?thesis .
qed

lemma fst_set_iff: "k \<in> fst ` set xs \<longleftrightarrow> k \<in> set (map fst xs)"
  by simp

lemma always_returned_attribute:
  assumes "k \<in> set ALWAYS_RETURNED_ATTRIBUTES"
  shows "k \<in> fst ` set (apply_attribute_projection (user_to_scim_resource d u base_url) projection) \<longleftrightarrow>
     \<not> list_ex (\<lambda>a. lower (top_level_attribute a) = k \<and> top_level_attribute a \<noteq> k)
        (pr_excluded_attributes projection)"
proof -
  have member: "k \<in> fst ` set (user_to_scim_resource d u base_url)"
    using assms by (auto simp: ALWAYS_RETURNED_ATTRIBUTES_def fst_set_iff user_resource_keys user_resource_keys_def)
  have low: "lower k = k" "lower (top_level_attribute k) = k"
    "t \<in> set ALWAYS_RETURNED_ATTRIBUTES \<Longrightarrow> lower t = k \<Longrightarrow> t = k" for t
    using assms by (auto simp: ALWAYS_RETURNED_ATTRIBUTES_def top_level_attribute_def word_chars)
  show ?thesis
    unfolding projected_key_iff [OF distinct_user_resource member] list_ex_iff using assms low by auto
qed

text \<open>
 The attributes \<open>schemas\<close> and \<open>id\<close> of a SCIM user survive every projection, whatever
  the two query parameters say, with one exception: \<open>excludedAttributes\<close> drops them when it
  spells them in another case, as the exemption compares the spelling and the removal does not.
\<close>

theorem identity_attributes_returned:
  "(''id'' \<in> fst ` set (apply_attribute_projection (user_to_scim_resource d u base_url) projection) \<longleftrightarrow>
     \<not> list_ex (\<lambda>a. lower (top_level_attribute a) = ''id'' \<and> top_level_attribute a \<noteq> ''id'')
        (pr_excluded_attributes projection)) \<and>
   (''schemas'' \<in> fst ` set (apply_attribute_projection (user_to_scim_resource d u base_url) projection) \<longleftrightarrow>
     \<not> list_ex (\<lambda>a. lower (top_level_attribute a) = ''schemas'' \<and> top_level_attribute a \<noteq> ''schemas'')
        (pr_excluded_attributes projection))"
  by (intro conjI always_returned_attribute) (simp_all add: ALWAYS_RETURNED_ATTRIBUTES_def)

text \<open>
  C40. The Enterprise User extension of a user appears in a projected resource exactly when
  the user has one and no \<open>attributes\<close> are asked for: its name contains a dot, and projection
  compares only the part of a requested name before the first dot.  So it can be neither
  requested nor excluded.
\<close>

theorem enterprise_extension_projected:
  "SCIM_SCHEMA_ENTERPRISE_USER \<in>
     fst ` set (apply_attribute_projection (user_to_scim_resource d u base_url) projection) \<longleftrightarrow>
   pr_attributes projection = None \<and>
   enterprise_profile_to_scim_extension d (profile_of d (u_id u)) base_url \<noteq> None"
proof (cases "enterprise_profile_to_scim_extension d (profile_of d (u_id u)) base_url = None")
  case True
  have "SCIM_SCHEMA_ENTERPRISE_USER \<notin> set user_resource_keys" by code_simp
  then have "SCIM_SCHEMA_ENTERPRISE_USER \<notin> fst ` set (user_to_scim_resource d u base_url)"
    using True by (simp add: fst_set_iff user_resource_keys)
  then show ?thesis using True by (auto simp: apply_attribute_projection_def)
next
  case False
  have member: "SCIM_SCHEMA_ENTERPRISE_USER \<in> fst ` set (user_to_scim_resource d u base_url)"
    using False by (auto simp: fst_set_iff user_resource_keys)
  have "lower_char c \<noteq> CHR ''.''" if "c \<noteq> CHR ''.''" for c
    using that lower_char_other [of "CHR ''.''" c] by simp
  then have "CHR ''.'' \<notin> set (lower (top_level_attribute a))" for a
    by (force simp: lower_def top_level_attribute_def dest: set_takeWhileD)
  moreover have "CHR ''.'' \<in> set (lower SCIM_SCHEMA_ENTERPRISE_USER)" by code_simp
  ultimately have "lower (top_level_attribute a) \<noteq> lower SCIM_SCHEMA_ENTERPRISE_USER" for a by metis
  then show ?thesis
    unfolding projected_key_iff [OF distinct_user_resource member] using False by simp
qed

section \<open>Pages\<close>

text \<open>A client that reads a listing page by page: \<open>k\<close> requests of \<open>n\<close> rows each.\<close>

fun scim_pages :: "nat \<Rightarrow> nat \<Rightarrow> nat \<Rightarrow> (scim_pagination \<Rightarrow> exn + scim_list_response) \<Rightarrow> payload list" where
  "scim_pages 0 start n request = []"
| "scim_pages (Suc k) start n request =
     (case request \<lparr>sp_start_index = int start, sp_count = int n\<rparr> of
        Inl _ \<Rightarrow> [] | Inr r \<Rightarrow> sl_resources r) @ scim_pages k (start + n) n request"

lemma scim_pages_tile:
  assumes "order_by (case e of None \<Rightarrow> rows | Some p \<Rightarrow> filter p rows) = Inr ordered" and "0 < start"
  shows "scim_pages k start n (\<lambda>p. scim_list p e order_by to_resource projection rows) =
     map (\<lambda>r. apply_attribute_projection (to_resource r) projection)
       (take (k * n) (drop (start - 1) ordered))"
  using assms(2)
proof (induction k arbitrary: start)
  case (Suc k)
  have ih: "scim_pages k (start + n) n (\<lambda>p. scim_list p e order_by to_resource projection rows) =
      map (\<lambda>r. apply_attribute_projection (to_resource r) projection)
        (take (k * n) (drop n (drop (start - 1) ordered)))"
    using Suc by (simp add: add.commute)
  have "(case scim_list \<lparr>sp_start_index = int start, sp_count = int n\<rparr> e order_by to_resource projection rows of
        Inl _ \<Rightarrow> [] | Inr r \<Rightarrow> sl_resources r) =
      map (\<lambda>r. apply_attribute_projection (to_resource r) projection) (take n (drop (start - 1) ordered))"
    using assms(1) Suc.prems
    by (simp add: scim_list_def Let_def pagination_offset_def page_def nat_diff_distrib)
  then show ?case
    by (simp only: scim_pages.simps ih take_add map_append mult_Suc)
qed simp

end
