(* ===== verification/ScimUsers.thy ===== *)
theory ScimUsers
  imports Managers Filtering
begin

text \<open>
  SCIM users: \<open>UserService\<close> of \<open>app/services/user_service.py\<close>, the payload and PATCH parsers
  and the three mutations of \<open>app/scim/provisioning.py\<close>, and the user routes of
  \<open>app/scim/routes.py\<close>.

  A mutation runs in one transaction.  When it raises, the transaction is rolled back and a
  denied audit event is committed on its own before the SCIM error is raised.
\<close>

section \<open>The user service\<close>

record user_mutation =
  um_user_name :: "string option"
  um_display_name :: "string option"
  um_active :: "bool option"

definition DEFAULT_PROVISIONED_OPERATOR_ROLE :: string where
  "DEFAULT_PROVISIONED_OPERATOR_ROLE = ''employee''"

definition find_user :: "string \<Rightarrow> db \<Rightarrow> user option" where
  "find_user user_id d =
     (case parse_int user_id of
        None \<Rightarrow> None
      | Some i \<Rightarrow> if i < 1 then None else row_by u_id i (db_users d))"

definition find_user_by_user_name :: "string \<Rightarrow> db \<Rightarrow> user option" where
  "find_user_by_user_name user_name d =
     find (\<lambda>u. map_option lower (Some (u_email u)) = Some (lower user_name)) (db_users d)"

definition email_free :: "user \<Rightarrow> db \<Rightarrow> bool" where
  "email_free u d \<longleftrightarrow> \<not> list_ex (\<lambda>q. u_id q \<noteq> u_id u \<and> u_email q = u_email u) (db_users d)"

definition require_user :: "string \<Rightarrow> user wop" where
  "require_user user_id =
     and_then (query (find_user user_id)) (from_option (UserServiceExn (UserNotFoundError user_id)))"

definition ensure_user_name_available :: "string \<Rightarrow> user option \<Rightarrow> unit wop" where
  "ensure_user_name_available user_name current_user =
     and_then (query (find_user_by_user_name user_name)) (\<lambda>existing_user.
     case existing_user of
       None \<Rightarrow> ret ()
     | Some e \<Rightarrow>
         guard (case current_user of None \<Rightarrow> False | Some u \<Rightarrow> u_id e = u_id u)
           (UserServiceExn (DuplicateUserNameError user_name e)))"

text \<open>The flush of a changed user.\<close>

definition flush_user :: "user \<Rightarrow> user wop" where
  "flush_user user =
     and_then (query (email_free user)) (\<lambda>free.
     and_then (unique_constraint free) (\<lambda>_.
     and_then (update_db (\<lambda>d. d\<lparr>db_users := put_row u_id user (db_users d)\<rparr>)) (\<lambda>_.
     ret user)))"

definition create_user :: "string \<Rightarrow> string \<Rightarrow> bool \<Rightarrow> user wop" where
  "create_user user_name display_name active =
     and_then (query (find_user_by_user_name user_name)) (\<lambda>existing_user.
     case existing_user of
       Some e \<Rightarrow> raise (UserServiceExn (DuplicateUserNameError user_name e))
     | None \<Rightarrow>
         and_then uuid4 (\<lambda>uuid.
         and_then (gets (\<lambda>s. env_hash_password (w_env s) (''scim-'' @ uuid))) (\<lambda>password_hash.
         and_then (query (\<lambda>d. map u_id (db_users d))) (\<lambda>keys.
         and_then (new_key keys) (\<lambda>key.
           let user = \<lparr>u_id = key, u_name = display_name, u_email = lower user_name,
                 u_department = DEFAULT_PROVISIONED_DEPARTMENT, u_active = active,
                 u_operator_role = DEFAULT_PROVISIONED_OPERATOR_ROLE, u_password_hash = password_hash\<rparr>
           in and_then (query (email_free user)) (\<lambda>free.
              and_then (unique_constraint free) (\<lambda>_.
              and_then (update_db (\<lambda>d. d\<lparr>db_users := db_users d @ [user]\<rparr>)) (\<lambda>_.
              and_then (append_pending (IdentityEvent (UserProvisioned key (lower user_name)))) (\<lambda>_.
              ret user)))))))))"

definition replace_user :: "string \<Rightarrow> string \<Rightarrow> string \<Rightarrow> bool \<Rightarrow> user wop" where
  "replace_user user_id user_name display_name active =
     and_then (require_user user_id) (\<lambda>user.
     and_then (ensure_user_name_available user_name (Some user)) (\<lambda>_.
     flush_user (user\<lparr>u_email := lower user_name, u_name := display_name, u_active := active\<rparr>)))"

definition patch_user :: "string \<Rightarrow> user_mutation \<Rightarrow> user wop" where
  "patch_user user_id mutation =
     and_then (require_user user_id) (\<lambda>user.
     and_then (case um_user_name mutation of
         None \<Rightarrow> ret user
       | Some n \<Rightarrow> and_then (ensure_user_name_available n (Some user)) (\<lambda>_. ret (user\<lparr>u_email := lower n\<rparr>)))
       (\<lambda>user1.
     let user2 = (case um_display_name mutation of None \<Rightarrow> user1 | Some n \<Rightarrow> user1\<lparr>u_name := n\<rparr>);
         user3 = (case um_active mutation of None \<Rightarrow> user2 | Some b \<Rightarrow> user2\<lparr>u_active := b\<rparr>)
     in flush_user user3))"

definition deactivate_user :: "string \<Rightarrow> user wop" where
  "deactivate_user user_id =
     and_then (require_user user_id) (\<lambda>user. flush_user (user\<lparr>u_active := False\<rparr>))"

section \<open>Payloads\<close>

definition raise_invalid_payload :: "string \<Rightarrow> exn + 'a" where
  "raise_invalid_payload detail = raise_scim_error 400 detail (Some ''invalidValue'')"

definition raise_invalid_path :: "string \<Rightarrow> exn + 'a" where
  "raise_invalid_path detail = raise_scim_error 400 detail (Some ''invalidPath'')"

text \<open>\<open>payload.get(key)\<close>: \<open>None\<close> for a missing key is JSON null.\<close>

definition get_item :: "string \<Rightarrow> payload \<Rightarrow> json" where
  "get_item key obj = (case map_of obj key of None \<Rightarrow> JNull | Some v \<Rightarrow> v)"

record scim_user_payload =
  sup_user_name :: string
  sup_display_name :: string
  sup_active :: bool
  sup_enterprise_profile :: "enterprise_profile_mutation option"

record scim_user_patch =
  spt_user_mutation :: user_mutation
  spt_enterprise_profile :: "enterprise_profile_mutation option"

definition parse_enterprise_string :: "json \<Rightarrow> string \<Rightarrow> exn + string option" where
  "parse_enterprise_string v attribute_name =
     (case v of
        JNull \<Rightarrow> Inr None
      | JStr text \<Rightarrow>
          (let parsed_value = strip text in
           if parsed_value = '''' then raise_invalid_payload (attribute_name @ '' must not be empty'')
           else if 100 < length parsed_value
           then raise_invalid_payload (attribute_name @ '' must be 100 characters or fewer'')
           else Inr (Some parsed_value))
      | _ \<Rightarrow> raise_invalid_payload (attribute_name @ '' must be a string or null''))"

text \<open>\<open>int(value)\<close>, which also accepts booleans; \<open>None\<close> is a \<open>TypeError\<close> or \<open>ValueError\<close>.\<close>

definition json_int :: "json \<Rightarrow> int option" where
  "json_int v = (case v of
       JInt i \<Rightarrow> Some i | JBool b \<Rightarrow> Some (if b then 1 else 0) | JStr text \<Rightarrow> parse_int text | _ \<Rightarrow> None)"

definition parse_manager_id :: "json \<Rightarrow> exn + int option" where
  "parse_manager_id v =
     (case json_int v of
        None \<Rightarrow> raise_invalid_payload ''manager.value must be a positive user id''
      | Some i \<Rightarrow>
          if i < 1 then raise_invalid_payload ''manager.value must be a positive user id'' else Inr (Some i))"

definition parse_manager_value :: "json \<Rightarrow> exn + int option" where
  "parse_manager_value v =
     (case v of
        JNull \<Rightarrow> Inr None
      | JObj kvs \<Rightarrow>
          (case map_of kvs ''value'' of
             None \<Rightarrow> raise_invalid_payload ''manager.value is required''
           | Some x \<Rightarrow> parse_manager_id x)
      | _ \<Rightarrow> parse_manager_id v)"

definition parse_if_present :: "string \<Rightarrow> payload \<Rightarrow> (json \<Rightarrow> exn + 'a option) \<Rightarrow> exn + 'a option option" where
  "parse_if_present key obj parse =
     (case map_of obj key of None \<Rightarrow> Inr None | Some v \<Rightarrow> sum_then (parse v) (\<lambda>x. Inr (Some x)))"

definition parse_enterprise_profile_payload :: "json option \<Rightarrow> exn + enterprise_profile_mutation option" where
  "parse_enterprise_profile_payload payload =
     (case payload of
        None \<Rightarrow> Inr None
      | Some (JObj kvs) \<Rightarrow>
          sum_then (parse_if_present ''employeeNumber'' kvs (\<lambda>v. parse_enterprise_string v ''employeeNumber'')) (\<lambda>n.
          sum_then (parse_if_present ''department'' kvs (\<lambda>v. parse_enterprise_string v ''department'')) (\<lambda>dep.
          sum_then (parse_if_present ''division'' kvs (\<lambda>v. parse_enterprise_string v ''division'')) (\<lambda>dvn.
          sum_then (parse_if_present ''organization'' kvs (\<lambda>v. parse_enterprise_string v ''organization'')) (\<lambda>org.
          sum_then (parse_if_present ''costCenter'' kvs (\<lambda>v. parse_enterprise_string v ''costCenter'')) (\<lambda>cc.
          sum_then (parse_if_present ''manager'' kvs parse_manager_value) (\<lambda>m.
          Inr (Some \<lparr>mu_employee_number = n, mu_department = dep, mu_division = dvn,
                 mu_organization = org, mu_cost_center = cc, mu_manager_id = m\<rparr>)))))))
      | Some _ \<Rightarrow> raise_invalid_payload ''Enterprise User extension must be an object'')"

definition parse_user_name :: "(string \<Rightarrow> string option) \<Rightarrow> json \<Rightarrow> exn + string" where
  "parse_user_name email v =
     (case v of
        JStr text \<Rightarrow>
          (if strip text = '''' then raise_invalid_payload ''userName is required''
           else case email (strip text) of
                  Some address \<Rightarrow> Inr (lower address)
                | None \<Rightarrow> raise_invalid_payload ''userName must be a valid email address'')
      | _ \<Rightarrow> raise_invalid_payload ''userName is required'')"

definition parse_display_name_value :: "json \<Rightarrow> exn + string" where
  "parse_display_name_value v =
     (case v of
        JStr text \<Rightarrow>
          (let display_name = strip text in
           if display_name = '''' then raise_invalid_payload ''displayName must be a non-empty string''
           else if 100 < length display_name
           then raise_invalid_payload ''displayName must be 100 characters or fewer''
           else Inr display_name)
      | _ \<Rightarrow> raise_invalid_payload ''displayName must be a non-empty string'')"

definition parse_display_name :: "payload \<Rightarrow> exn + string" where
  "parse_display_name payload =
     (if get_item ''displayName'' payload \<noteq> JNull
      then parse_display_name_value (get_item ''displayName'' payload)
      else case get_item ''name'' payload of
             JObj kvs \<Rightarrow>
               (if get_item ''formatted'' kvs \<noteq> JNull then parse_display_name_value (get_item ''formatted'' kvs)
                else raise_invalid_payload ''displayName is required'')
           | _ \<Rightarrow> raise_invalid_payload ''displayName is required'')"

definition parse_active :: "json \<Rightarrow> exn + bool" where
  "parse_active v = (case v of JBool b \<Rightarrow> Inr b | _ \<Rightarrow> raise_invalid_payload ''active must be a boolean'')"

definition parse_user_payload :: "(string \<Rightarrow> string option) \<Rightarrow> json \<Rightarrow> exn + scim_user_payload" where
  "parse_user_payload email payload =
     (case payload of
        JObj kvs \<Rightarrow>
          sum_then (parse_user_name email (get_item ''userName'' kvs)) (\<lambda>user_name.
          sum_then (parse_display_name kvs) (\<lambda>display_name.
          sum_then (parse_active (case map_of kvs ''active'' of None \<Rightarrow> JBool True | Some v \<Rightarrow> v)) (\<lambda>active.
          sum_then (parse_enterprise_profile_payload (map_of kvs SCIM_SCHEMA_ENTERPRISE_USER)) (\<lambda>profile.
          Inr \<lparr>sup_user_name = user_name, sup_display_name = display_name, sup_active = active,
               sup_enterprise_profile = profile\<rparr>))))
      | _ \<Rightarrow> raise_invalid_payload ''SCIM User payload must be a JSON object'')"

section \<open>PATCH operations\<close>

definition PATCH_PATHS :: "(string \<times> string) list" where
  "PATCH_PATHS = [(''username'', ''userName''), (''displayname'', ''displayName''), (''active'', ''active'')]"

definition ENTERPRISE_PATCH_PATHS :: "(string \<times> string) list" where
  "ENTERPRISE_PATCH_PATHS =
     [(''employeenumber'', ''employeeNumber''), (''department'', ''department''),
      (''division'', ''division''), (''organization'', ''organization''),
      (''costcenter'', ''costCenter''), (''manager'', ''manager''), (''manager.value'', ''manager'')]"

definition remove_attribute :: "user_mutation \<Rightarrow> string \<Rightarrow> user \<Rightarrow> exn + user_mutation" where
  "remove_attribute mutation path current_user =
     (if path = ''userName'' then raise_invalid_payload ''userName is required and cannot be removed''
      else if path = ''displayName'' then Inr (mutation\<lparr>um_display_name := Some (u_email current_user)\<rparr>)
      else Inr (mutation\<lparr>um_active := Some False\<rparr>))"

definition merged :: "'a option option \<Rightarrow> 'a option option \<Rightarrow> 'a option option" where
  "merged new current = (if new = None then current else new)"

definition merge_enterprise_mutation ::
  "scim_user_patch \<Rightarrow> enterprise_profile_mutation option \<Rightarrow> scim_user_patch" where
  "merge_enterprise_mutation patch mutation =
     (case mutation of
        None \<Rightarrow> patch
      | Some m \<Rightarrow>
          (let current = (case spt_enterprise_profile patch of None \<Rightarrow> empty_mutation | Some c \<Rightarrow> c)
           in patch\<lparr>spt_enterprise_profile := Some
             \<lparr>mu_employee_number = merged (mu_employee_number m) (mu_employee_number current),
              mu_department = merged (mu_department m) (mu_department current),
              mu_division = merged (mu_division m) (mu_division current),
              mu_organization = merged (mu_organization m) (mu_organization current),
              mu_cost_center = merged (mu_cost_center m) (mu_cost_center current),
              mu_manager_id = merged (mu_manager_id m) (mu_manager_id current)\<rparr>\<rparr>))"

definition enterprise_mutation_for_path :: "string \<Rightarrow> string option \<Rightarrow> exn + enterprise_profile_mutation" where
  "enterprise_mutation_for_path path v =
     (if path = ''employeeNumber'' then Inr (empty_mutation\<lparr>mu_employee_number := Some v\<rparr>)
      else if path = ''department'' then Inr (empty_mutation\<lparr>mu_department := Some v\<rparr>)
      else if path = ''division'' then Inr (empty_mutation\<lparr>mu_division := Some v\<rparr>)
      else if path = ''organization'' then Inr (empty_mutation\<lparr>mu_organization := Some v\<rparr>)
      else if path = ''costCenter'' then Inr (empty_mutation\<lparr>mu_cost_center := Some v\<rparr>)
      else raise_invalid_path (''Unsupported PATCH path: '' @ path))"

definition apply_enterprise_attribute_patch ::
  "scim_user_patch \<Rightarrow> string \<Rightarrow> string \<Rightarrow> json \<Rightarrow> exn + scim_user_patch" where
  "apply_enterprise_attribute_patch patch opr path v =
     (if path = SCIM_SCHEMA_ENTERPRISE_USER then
        (if opr = ''remove'' then Inr (merge_enterprise_mutation patch (Some clear_enterprise_mutation))
         else case v of
                JObj kvs \<Rightarrow> sum_then (parse_enterprise_profile_payload (Some v))
                  (\<lambda>m. Inr (merge_enterprise_mutation patch m))
              | _ \<Rightarrow> raise_invalid_payload ''Enterprise User extension value must be an object'')
      else if path = ''manager'' then
        sum_then (if opr = ''remove'' then Inr None else parse_manager_value v) (\<lambda>m.
        Inr (merge_enterprise_mutation patch (Some (empty_mutation\<lparr>mu_manager_id := Some m\<rparr>))))
      else
        sum_then (if opr = ''remove'' then Inr None else parse_enterprise_string v path) (\<lambda>text.
        sum_then (enterprise_mutation_for_path path text) (\<lambda>m.
        Inr (merge_enterprise_mutation patch (Some m)))))"

definition normalize_enterprise_patch_path :: "string \<Rightarrow> string option" where
  "normalize_enterprise_patch_path path =
     (if lower path = lower SCIM_SCHEMA_ENTERPRISE_USER then Some SCIM_SCHEMA_ENTERPRISE_USER
      else
        let enterprise_prefix = SCIM_SCHEMA_ENTERPRISE_USER @ '':'';
            attribute = (if prefix (lower enterprise_prefix) (lower path)
                         then drop (length enterprise_prefix) path else path)
        in map_of ENTERPRISE_PATCH_PATHS (lower attribute))"

definition apply_attribute_patch ::
  "(string \<Rightarrow> string option) \<Rightarrow> user \<Rightarrow> string \<Rightarrow> string \<times> json \<Rightarrow> scim_user_patch \<Rightarrow> exn + scim_user_patch" where
  "apply_attribute_patch email current_user opr attribute patch =
     (let (path, v) = attribute; mutation = spt_user_mutation patch in
      case normalize_enterprise_patch_path path of
        Some enterprise_path \<Rightarrow> apply_enterprise_attribute_patch patch opr enterprise_path v
      | None \<Rightarrow>
          (case map_of PATCH_PATHS (lower path) of
             None \<Rightarrow> raise_invalid_path (''Unsupported PATCH path: '' @ path)
           | Some normalized_path \<Rightarrow>
               (if opr = ''remove'' then
                  sum_then (remove_attribute mutation normalized_path current_user) (\<lambda>m.
                  Inr (patch\<lparr>spt_user_mutation := m\<rparr>))
                else if normalized_path = ''userName'' then
                  sum_then (parse_user_name email v) (\<lambda>n.
                  Inr (patch\<lparr>spt_user_mutation := mutation\<lparr>um_user_name := Some n\<rparr>\<rparr>))
                else if normalized_path = ''displayName'' then
                  sum_then (parse_display_name_value v) (\<lambda>n.
                  Inr (patch\<lparr>spt_user_mutation := mutation\<lparr>um_display_name := Some n\<rparr>\<rparr>))
                else
                  sum_then (parse_active v) (\<lambda>b.
                  Inr (patch\<lparr>spt_user_mutation := mutation\<lparr>um_active := Some b\<rparr>\<rparr>)))))"

primrec sum_fold :: "('b \<Rightarrow> 'a \<Rightarrow> 'e + 'a) \<Rightarrow> 'b list \<Rightarrow> 'a \<Rightarrow> 'e + 'a" where
  "sum_fold f [] a = Inr a"
| "sum_fold f (x # xs) a = sum_then (f x a) (sum_fold f xs)"

definition apply_patch_operation ::
  "(string \<Rightarrow> string option) \<Rightarrow> user \<Rightarrow> json \<Rightarrow> scim_user_patch \<Rightarrow> exn + scim_user_patch" where
  "apply_patch_operation email current_user operation patch =
     (case operation of
        JObj kvs \<Rightarrow>
          (case get_item ''op'' kvs of
             JStr raw_op \<Rightarrow>
               (let opr = lower raw_op in
                if opr \<notin> {''add'', ''replace'', ''remove''}
                then raise_invalid_payload (''Unsupported PATCH operation: '' @ raw_op)
                else case get_item ''path'' kvs of
                  JNull \<Rightarrow>
                    (if opr = ''remove'' then raise_invalid_payload ''PATCH remove requires a path''
                     else case get_item ''value'' kvs of
                            JObj attributes \<Rightarrow>
                              sum_fold (apply_attribute_patch email current_user opr) attributes patch
                          | _ \<Rightarrow> raise_invalid_payload ''PATCH operation without path requires object value'')
                | JStr raw_path \<Rightarrow>
                    (if opr \<in> {''add'', ''replace''} \<and> map_of kvs ''value'' = None
                     then raise_invalid_payload ''PATCH add and replace operations require value''
                     else apply_attribute_patch email current_user opr
                       (raw_path, get_item ''value'' kvs) patch)
                | _ \<Rightarrow> raise_invalid_path ''PATCH path must be a string'')
           | _ \<Rightarrow> raise_invalid_payload ''Each PATCH operation requires an op'')
      | _ \<Rightarrow> raise_invalid_payload ''Each PATCH operation must be an object'')"

definition parse_patch_payload ::
  "(string \<Rightarrow> string option) \<Rightarrow> user \<Rightarrow> json \<Rightarrow> exn + scim_user_patch" where
  "parse_patch_payload email current_user payload =
     (case payload of
        JObj kvs \<Rightarrow>
          (case get_item ''Operations'' kvs of
             JList operations \<Rightarrow>
               (if operations = [] then raise_invalid_payload ''SCIM PATCH requires a non-empty Operations array''
                else sum_fold (apply_patch_operation email current_user) operations
                  \<lparr>spt_user_mutation = \<lparr>um_user_name = None, um_display_name = None, um_active = None\<rparr>,
                   spt_enterprise_profile = None\<rparr>)
           | _ \<Rightarrow> raise_invalid_payload ''SCIM PATCH requires a non-empty Operations array'')
      | _ \<Rightarrow> raise_invalid_payload ''SCIM PATCH payload must be a JSON object'')"

end
