(* ===== verification/ScimProvisioning.thy ===== *)
theory ScimProvisioning
  imports ScimUsers
begin

text \<open>
  The three SCIM user mutations of \<open>app/scim/provisioning.py\<close> with their audit trail and error
  handling, and the user routes.
\<close>

section \<open>Audit events of SCIM requests\<close>

definition SCIM_AUDIT_APPLICATION_SLUG :: string where
  "SCIM_AUDIT_APPLICATION_SLUG = ''scim-provisioning''"

definition SCIM_AUDIT_ENTITLEMENT_SLUG :: string where
  "SCIM_AUDIT_ENTITLEMENT_SLUG = ''user-lifecycle''"

definition SCIM_ENTERPRISE_AUDIT_ENTITLEMENT_SLUG :: string where
  "SCIM_ENTERPRISE_AUDIT_ENTITLEMENT_SLUG = ''enterprise-user-extension''"

definition ENTERPRISE_CHANGE_AUDIT :: "(string \<times> string \<times> string) list" where
  "ENTERPRISE_CHANGE_AUDIT =
     [(''profile_created'', ''scim_enterprise_profile_create'', ''Enterprise profile created''),
      (''profile_updated'', ''scim_enterprise_profile_update'', ''Enterprise profile updated''),
      (''employeeNumber'', ''scim_enterprise_employee_number_change'', ''Employee number changed''),
      (''department'', ''scim_enterprise_department_change'', ''Department changed''),
      (''division'', ''scim_enterprise_division_change'', ''Division changed''),
      (''organization'', ''scim_enterprise_organization_change'', ''Organization changed''),
      (''costCenter'', ''scim_enterprise_cost_center_change'', ''Cost center changed''),
      (''manager'', ''scim_enterprise_manager_change'', ''Manager changed'')]"

text \<open>The audit entitlement with a slug, joined with its application.\<close>

definition find_audit_entitlement :: "string \<Rightarrow> db \<Rightarrow> entitlement option" where
  "find_audit_entitlement entitlement_slug d =
     find (\<lambda>e. ent_slug e = entitlement_slug \<and>
       (case row_by app_id (ent_application_id e) (db_applications d) of
          None \<Rightarrow> False | Some a \<Rightarrow> app_slug a = SCIM_AUDIT_APPLICATION_SLUG)) (db_entitlements d)"

definition get_scim_audit_entitlement :: "string \<Rightarrow> entitlement wop" where
  "get_scim_audit_entitlement entitlement_slug =
     and_then (query (find_audit_entitlement entitlement_slug))
       (from_option (RuntimeError ''SCIM audit entitlement is not seeded''))"

definition record_provisioning_audit ::
  "user \<Rightarrow> user \<Rightarrow> string \<Rightarrow> string \<Rightarrow> string \<Rightarrow> string \<Rightarrow> unit wop" where
  "record_provisioning_audit actor target_user action result reason entitlement_slug =
     and_then (get_scim_audit_entitlement entitlement_slug) (\<lambda>e.
     and_then (create_audit_event (u_id actor) (u_id target_user) action (ent_application_id e)
       (ent_id e) result reason None) (\<lambda>_. ret ()))"

text \<open>One event per change; the lookup of a kind that is not in the table would be a \<open>KeyError\<close>.\<close>

primrec record_enterprise_audits :: "user \<Rightarrow> user \<Rightarrow> string list \<Rightarrow> unit wop" where
  "record_enterprise_audits actor target_user [] = ret ()"
| "record_enterprise_audits actor target_user (change # changes) =
     and_then (from_option (RuntimeError change) (map_of ENTERPRISE_CHANGE_AUDIT change)) (\<lambda>(action, reason).
     and_then (record_provisioning_audit actor target_user action ''succeeded'' reason
       SCIM_ENTERPRISE_AUDIT_ENTITLEMENT_SLUG) (\<lambda>_.
     record_enterprise_audits actor target_user changes))"

definition scim_database_error :: exn where
  "scim_database_error = ScimExn (scim_http_exception 500 ''SCIM provisioning operation failed'' None)"

text \<open>\<open>_audit_and_raise\<close>: the denied event is committed, then the SCIM error is raised.\<close>

definition audit_and_raise ::
  "user \<Rightarrow> user option \<Rightarrow> string \<Rightarrow> string \<Rightarrow> int \<Rightarrow> string option \<Rightarrow> string \<Rightarrow> 'a wop" where
  "audit_and_raise actor target_user action reason status_code scim_type entitlement_slug =
     and_then (try_except
       (record_provisioning_audit actor (case target_user of None \<Rightarrow> actor | Some u \<Rightarrow> u)
         action ''denied'' reason entitlement_slug)
       (\<lambda>e. case e of IntegrityError _ \<Rightarrow> raise scim_database_error | _ \<Rightarrow> raise e)) (\<lambda>_.
     raise (ScimExn (scim_http_exception status_code reason scim_type)))"

definition ACTION_FAILURE :: string where
  "ACTION_FAILURE = ''scim_user_provisioning_failure''"

definition ACTION_ENTERPRISE_FAILURE :: string where
  "ACTION_ENTERPRISE_FAILURE = ''scim_enterprise_provisioning_failure''"

definition audit_scim_exception_and_raise :: "user \<Rightarrow> user option \<Rightarrow> scim_http_exception \<Rightarrow> 'a wop" where
  "audit_scim_exception_and_raise actor target_user exc =
     audit_and_raise actor target_user ACTION_FAILURE (se_detail exc) (se_status_code exc)
       (se_scim_type exc) SCIM_AUDIT_ENTITLEMENT_SLUG"

definition audit_enterprise_error_and_raise ::
  "user \<Rightarrow> user option \<Rightarrow> enterprise_user_error \<Rightarrow> 'a wop" where
  "audit_enterprise_error_and_raise actor target_user exc =
     (case exc of
        DuplicateEmployeeNumberError _ existing_profile \<Rightarrow>
          and_then (query (\<lambda>d. row_by u_id (ep_user_id existing_profile) (db_users d))) (\<lambda>owner.
          audit_and_raise actor owner ACTION_ENTERPRISE_FAILURE ''Duplicate employeeNumber'' 409
            (Some ''uniqueness'') SCIM_ENTERPRISE_AUDIT_ENTITLEMENT_SLUG)
      | UnknownManagerError _ \<Rightarrow>
          audit_and_raise actor target_user ACTION_ENTERPRISE_FAILURE ''Unknown manager'' 400
            (Some ''invalidValue'') SCIM_ENTERPRISE_AUDIT_ENTITLEMENT_SLUG
      | SelfManagerError _ \<Rightarrow>
          audit_and_raise actor target_user ACTION_ENTERPRISE_FAILURE ''Self manager is not allowed'' 400
            (Some ''invalidValue'') SCIM_ENTERPRISE_AUDIT_ENTITLEMENT_SLUG
      | ManagerCycleError _ _ \<Rightarrow>
          audit_and_raise actor target_user ACTION_ENTERPRISE_FAILURE ''Manager cycle detected'' 400
            (Some ''invalidValue'') SCIM_ENTERPRISE_AUDIT_ENTITLEMENT_SLUG)"

section \<open>The mutations\<close>

text \<open>\<open>db.rollback()\<close> in every handler, or the closed session when nothing handles the exception.\<close>

definition rollback_on_error :: "'a wop \<Rightarrow> 'a wop" where
  "rollback_on_error m = (\<lambda>s. case m s of
       (Inl e, t) \<Rightarrow> (Inl e, t\<lparr>w_db := w_db s\<rparr>)
     | (Inr x, t) \<Rightarrow> (Inr x, t))"

type_synonym scim_result = "payload \<times> string"

definition user_result :: "int \<Rightarrow> string \<Rightarrow> scim_result wop" where
  "user_result i base_url =
     and_then (query (\<lambda>d. row_by u_id i (db_users d))) (\<lambda>row.
     and_then (from_option (RuntimeError ''Could not refresh instance'') row) (\<lambda>user.
     and_then (query (\<lambda>d. user_to_scim_resource d user base_url)) (\<lambda>resource.
     ret (resource, build_user_location base_url i))))"

text \<open>The \<open>except\<close> clauses; \<open>user_id\<close> is the identifier in the path, if the request has one.\<close>

definition user_mutation_failed :: "user \<Rightarrow> string option \<Rightarrow> exn \<Rightarrow> 'a wop" where
  "user_mutation_failed actor user_id e =
     (case e of
        UserServiceExn (DuplicateUserNameError _ existing_user) \<Rightarrow>
          audit_and_raise actor (Some existing_user) ACTION_FAILURE ''Duplicate userName'' 409
            (Some ''uniqueness'') SCIM_AUDIT_ENTITLEMENT_SLUG
      | UserServiceExn (UserNotFoundError _) \<Rightarrow>
          (case user_id of
             None \<Rightarrow> raise e
           | Some i \<Rightarrow>
               audit_and_raise actor None ACTION_FAILURE (''User '' @ i @ '' not found'') 404
                 None SCIM_AUDIT_ENTITLEMENT_SLUG)
      | EnterpriseUserExn x \<Rightarrow>
          and_then (query (\<lambda>d. case user_id of None \<Rightarrow> None | Some i \<Rightarrow> find_user i d)) (\<lambda>target_user.
          audit_enterprise_error_and_raise actor target_user x)
      | IntegrityError _ \<Rightarrow> raise scim_database_error
      | _ \<Rightarrow> raise e)"

definition create_scim_user :: "user \<Rightarrow> json \<Rightarrow> string \<Rightarrow> scim_result wop" where
  "create_scim_user actor payload base_url =
     and_then (gets (\<lambda>s. env_email_address (w_env s))) (\<lambda>email.
     case parse_user_payload email payload of
       Inl (ScimExn exc) \<Rightarrow> audit_scim_exception_and_raise actor None exc
     | Inl e \<Rightarrow> raise e
     | Inr user_data \<Rightarrow>
         and_then (try_except (rollback_on_error
           (and_then (create_user (sup_user_name user_data) (sup_display_name user_data) (sup_active user_data)) (\<lambda>user.
            and_then (create_enterprise_profile user (sup_enterprise_profile user_data)) (\<lambda>(changes, events).
            and_then (block [
              record_provisioning_audit actor user ''scim_user_create'' ''succeeded'' ''User created''
                SCIM_AUDIT_ENTITLEMENT_SLUG,
              record_enterprise_audits actor user changes,
              publish_pending_events,
              publish_domain_events events]) (\<lambda>_. ret (u_id user))))))
           (user_mutation_failed actor None)) (\<lambda>i.
         user_result i base_url))"

definition successful_update_action :: "user \<Rightarrow> string" where
  "successful_update_action user = (if u_active user then ''scim_user_update'' else ''scim_user_deactivate'')"

definition successful_update_reason :: "user \<Rightarrow> string" where
  "successful_update_reason user = (if u_active user then ''User updated'' else ''User deactivated'')"

text \<open>What \<open>replace_scim_user\<close> and \<open>patch_scim_user\<close> do once the service has changed the user.\<close>

definition finish_user_update :: "user \<Rightarrow> user \<Rightarrow> string list \<times> timed_event list \<Rightarrow> int wop" where
  "finish_user_update actor user outcome =
     and_then (block [
       record_provisioning_audit actor user (successful_update_action user) ''succeeded''
         (successful_update_reason user) SCIM_AUDIT_ENTITLEMENT_SLUG,
       record_enterprise_audits actor user (fst outcome),
       publish_domain_events (snd outcome)]) (\<lambda>_. ret (u_id user))"

definition replace_scim_user :: "user \<Rightarrow> string \<Rightarrow> json \<Rightarrow> string \<Rightarrow> scim_result wop" where
  "replace_scim_user actor user_id payload base_url =
     and_then (gets (\<lambda>s. env_email_address (w_env s))) (\<lambda>email.
     case parse_user_payload email payload of
       Inl (ScimExn exc) \<Rightarrow> audit_scim_exception_and_raise actor None exc
     | Inl e \<Rightarrow> raise e
     | Inr user_data \<Rightarrow>
         and_then (try_except (rollback_on_error
           (and_then (replace_user user_id (sup_user_name user_data) (sup_display_name user_data)
              (sup_active user_data)) (\<lambda>user.
            and_then (replace_enterprise_profile user (sup_enterprise_profile user_data))
              (finish_user_update actor user))))
           (user_mutation_failed actor (Some user_id))) (\<lambda>i.
         user_result i base_url))"

definition patch_scim_user :: "user \<Rightarrow> string \<Rightarrow> json \<Rightarrow> string \<Rightarrow> scim_result wop" where
  "patch_scim_user actor user_id payload base_url =
     and_then (gets (\<lambda>s. env_email_address (w_env s))) (\<lambda>email.
     and_then (query (find_user user_id)) (\<lambda>found.
     case found of
       None \<Rightarrow> user_mutation_failed actor (Some user_id) (UserServiceExn (UserNotFoundError user_id))
     | Some current_user \<Rightarrow>
         (case parse_patch_payload email current_user payload of
            Inl (ScimExn exc) \<Rightarrow> audit_scim_exception_and_raise actor (Some current_user) exc
          | Inl e \<Rightarrow> raise e
          | Inr patch \<Rightarrow>
              and_then (try_except (rollback_on_error
                (and_then (patch_user user_id (spt_user_mutation patch)) (\<lambda>user.
                 and_then (patch_enterprise_profile user (spt_enterprise_profile patch))
                   (finish_user_update actor user))))
                (user_mutation_failed actor (Some user_id))) (\<lambda>i.
              user_result i base_url))))"

section \<open>Routes\<close>

text \<open>
  Every SCIM route depends on \<open>require_scim_admin\<close>.  An exception that is not an HTTP error
  ends the request with 500.
\<close>

definition scim_gate :: "user \<Rightarrow> (world, http_error, user) op" where
  "scim_gate = require_roles_gate [''security_admin'', ''iam_admin'']"

definition scim_response_error :: "exn \<Rightarrow> scim_http_exception" where
  "scim_response_error e =
     (case e of ScimExn exc \<Rightarrow> exc | _ \<Rightarrow> scim_http_exception 500 ''Internal Server Error'' None)"

definition map_error :: "('e \<Rightarrow> 'f) \<Rightarrow> ('s, 'e, 'a) op \<Rightarrow> ('s, 'f, 'a) op" where
  "map_error f m = (\<lambda>s. case m s of (Inl e, t) \<Rightarrow> (Inl (f e), t) | (Inr x, t) \<Rightarrow> (Inr x, t))"

definition scim_route :: "user \<Rightarrow> 'a wop \<Rightarrow> (world, scim_http_exception, 'a) op" where
  "scim_route current_user m =
     and_then (map_error (\<lambda>e. scim_http_exception (he_status_code e) (he_detail e) None)
       (scim_gate current_user)) (\<lambda>_.
     and_then new_service (\<lambda>_.
     map_error scim_response_error m))"

record scim_query =
  sq_start_index :: "string option"
  sq_count :: "string option"
  sq_filter :: "string option"
  sq_attributes :: "string option"
  sq_excluded_attributes :: "string option"
  sq_sort_by :: "string option"
  sq_sort_order :: "string option"

definition list_scim_users :: "scim_query \<Rightarrow> string \<Rightarrow> db \<Rightarrow> exn + scim_list_response" where
  "list_scim_users q base_url d =
     sum_then (parse_pagination_parameters (sq_start_index q) (sq_count q)) (\<lambda>pagination.
     sum_then (parse_user_filter (sq_filter q)) (\<lambda>scim_filter.
     sum_then (build_user_filter_expression scim_filter) (\<lambda>filter_expression.
     sum_then (parse_attribute_projection (sq_attributes q) (sq_excluded_attributes q)) (\<lambda>projection.
     scim_list pagination filter_expression
       (apply_scim_sorting (sq_sort_by q) (sq_sort_order q) USER_SORT_FIELDS u_id)
       (\<lambda>u. user_to_scim_resource d u base_url) projection (db_users d)))))"

definition get_scim_user ::
  "string \<Rightarrow> string option \<Rightarrow> string option \<Rightarrow> string \<Rightarrow> db \<Rightarrow> exn + payload" where
  "get_scim_user user_id attributes excluded_attributes base_url d =
     (case find_user user_id d of
        None \<Rightarrow> raise_scim_error 404 ''User not found'' None
      | Some user \<Rightarrow>
          sum_then (parse_attribute_projection attributes excluded_attributes) (\<lambda>projection.
          Inr (apply_attribute_projection (user_to_scim_resource d user base_url) projection)))"

definition scim_read :: "(db \<Rightarrow> exn + 'a) \<Rightarrow> 'a wop" where
  "scim_read f = and_then (query f) lift_sum"

definition list_users_route ::
  "user \<Rightarrow> scim_query \<Rightarrow> string \<Rightarrow> (world, scim_http_exception, scim_list_response) op" where
  "list_users_route current_user q base_url = scim_route current_user (scim_read (list_scim_users q base_url))"

definition get_user_route ::
  "user \<Rightarrow> string \<Rightarrow> string option \<Rightarrow> string option \<Rightarrow> string \<Rightarrow> (world, scim_http_exception, payload) op" where
  "get_user_route current_user user_id attributes excluded_attributes base_url =
     scim_route current_user (scim_read (get_scim_user user_id attributes excluded_attributes base_url))"

definition create_user_route ::
  "user \<Rightarrow> json \<Rightarrow> string \<Rightarrow> (world, scim_http_exception, scim_result) op" where
  "create_user_route current_user payload base_url =
     scim_route current_user (create_scim_user current_user payload base_url)"

definition replace_user_route ::
  "user \<Rightarrow> string \<Rightarrow> json \<Rightarrow> string \<Rightarrow> (world, scim_http_exception, payload) op" where
  "replace_user_route current_user user_id payload base_url =
     scim_route current_user
       (and_then (replace_scim_user current_user user_id payload base_url) (\<lambda>r. ret (fst r)))"

definition patch_user_route ::
  "user \<Rightarrow> string \<Rightarrow> json \<Rightarrow> string \<Rightarrow> (world, scim_http_exception, payload) op" where
  "patch_user_route current_user user_id payload base_url =
     scim_route current_user
       (and_then (patch_scim_user current_user user_id payload base_url) (\<lambda>r. ret (fst r)))"

end
