(* ===== verification/ScimGroups.thy ===== *)
theory ScimGroups
  imports ScimProvisioning
begin

text \<open>
  SCIM groups: \<open>GroupService\<close> of \<open>app/services/group_service.py\<close>, the mutations of
  \<open>app/scim/group_provisioning.py\<close> and the group routes.

  The session has \<open>autoflush=False\<close>: the service changes the group object and its list of
  memberships in memory and looks names and users up in the tables.  The flush writes the
  renamed group, then inserts the new memberships, then deletes the removed ones: SQLAlchemy's
  unit of work saves the rows of a table before it deletes from it.
\<close>

section \<open>The group object of the session\<close>

datatype membership = Stored group_member | Added int

fun membership_user :: "membership \<Rightarrow> int" where
  "membership_user (Stored m) = gm_user_id m"
| "membership_user (Added i) = i"

record group_session =
  gs_group :: group
  gs_memberships :: "membership list"

definition find_group :: "string \<Rightarrow> db \<Rightarrow> group option" where
  "find_group group_id d =
     (case parse_int group_id of
        None \<Rightarrow> None
      | Some i \<Rightarrow> if i < 1 then None else row_by g_id i (db_groups d))"

definition require_group :: "string \<Rightarrow> group_session wop" where
  "require_group group_id =
     and_then (query (find_group group_id)) (\<lambda>found.
     and_then (from_option (GroupExn (GroupNotFoundError group_id)) found) (\<lambda>g.
     query (\<lambda>d. \<lparr>gs_group = g, gs_memberships =
       map Stored (filter (\<lambda>m. gm_group_id m = g_id g) (db_group_members d))\<rparr>)))"

definition check_duplicate_group :: "string \<Rightarrow> group option \<Rightarrow> unit wop" where
  "check_duplicate_group display_name current_group =
     and_then (query (\<lambda>d. find (\<lambda>g. map_option lower (Some (g_display_name g)) = Some (lower display_name))
       (db_groups d))) (\<lambda>existing_group.
     case existing_group of
       None \<Rightarrow> ret ()
     | Some e \<Rightarrow>
         guard (case current_group of None \<Rightarrow> False | Some g \<Rightarrow> g_id e = g_id g)
           (GroupExn (DuplicateGroupError display_name e)))"

fun first_repeated :: "int list \<Rightarrow> int list \<Rightarrow> int option" where
  "first_repeated seen [] = None"
| "first_repeated seen (i # ids) = (if i \<in> set seen then Some i else first_repeated (i # seen) ids)"

definition require_distinct_users :: "int list \<Rightarrow> user list wop" where
  "require_distinct_users user_ids =
     (case first_repeated [] user_ids of
        Some i \<Rightarrow> raise (GroupExn (DuplicateGroupMemberError (str_int i)))
      | None \<Rightarrow>
          for_each user_ids (\<lambda>i.
            and_then (query (\<lambda>d. row_by u_id i (db_users d)))
              (from_option (GroupExn (UnknownGroupMemberError (str_int i))))))"

definition require_group_user :: "int \<Rightarrow> user wop" where
  "require_group_user user_id =
     and_then (query (\<lambda>d. row_by u_id user_id (db_users d)))
       (from_option (GroupExn (UnknownGroupMemberError (str_int user_id))))"

definition find_membership :: "group_session \<Rightarrow> int \<Rightarrow> membership option" where
  "find_membership g user_id = find (\<lambda>m. membership_user m = user_id) (gs_memberships g)"

definition rename_group :: "string \<Rightarrow> group_session \<Rightarrow> group_session wop" where
  "rename_group display_name g =
     (if g_display_name (gs_group g) = display_name then ret g
      else
        and_then (check_duplicate_group display_name (Some (gs_group g))) (\<lambda>_.
        and_then (append_pending (IdentityEvent (GroupUpdated (g_id (gs_group g)) display_name))) (\<lambda>_.
        ret (g\<lparr>gs_group := (gs_group g)\<lparr>g_display_name := display_name\<rparr>\<rparr>))))"

definition add_member :: "int \<Rightarrow> group_session \<Rightarrow> group_session wop" where
  "add_member user_id g =
     and_then (require_group_user user_id) (\<lambda>user.
     and_then (guard (find_membership g (u_id user) = None)
       (GroupExn (DuplicateGroupMemberError (str_int (u_id user))))) (\<lambda>_.
     and_then (append_pending (IdentityEvent (GroupMembershipAdded (g_id (gs_group g)) (u_id user)))) (\<lambda>_.
     ret (g\<lparr>gs_memberships := gs_memberships g @ [Added (u_id user)]\<rparr>))))"

definition remove_member :: "int \<Rightarrow> group_session \<Rightarrow> group_session wop" where
  "remove_member user_id g =
     and_then (require_group_user user_id) (\<lambda>user.
     and_then (from_option (GroupExn (UnknownGroupMemberError (str_int (u_id user))))
       (find_membership g (u_id user))) (\<lambda>m.
     and_then (append_pending (IdentityEvent (GroupMembershipRemoved (g_id (gs_group g)) (u_id user)))) (\<lambda>_.
     ret (g\<lparr>gs_memberships := remove1 m (gs_memberships g)\<rparr>))))"

definition replace_members :: "int list \<Rightarrow> group_session \<Rightarrow> group_session wop" where
  "replace_members member_ids g =
     and_then (require_distinct_users member_ids) (\<lambda>members.
     and_then (append_pending (IdentityEvent
       (GroupMembershipReplaced (g_id (gs_group g)) (map u_id members)))) (\<lambda>_.
     ret (g\<lparr>gs_memberships := map (\<lambda>u. Added (u_id u)) members\<rparr>)))"

section \<open>The flush\<close>

definition group_name_free :: "group \<Rightarrow> db \<Rightarrow> bool" where
  "group_name_free g d \<longleftrightarrow>
     \<not> list_ex (\<lambda>q. g_id q \<noteq> g_id g \<and> g_display_name q = g_display_name g) (db_groups d)"

definition write_group :: "group \<Rightarrow> unit wop" where
  "write_group g =
     and_then (query (\<lambda>d. row_by g_id (g_id g) (db_groups d))) (\<lambda>old.
     if old = Some g then ret ()
     else
       and_then utc_now (\<lambda>now.
       and_then (query (group_name_free g)) (\<lambda>free. block [
         unique_constraint free,
         update_db (\<lambda>d. d\<lparr>db_groups := put_row g_id (g\<lparr>g_updated_at := now\<rparr>) (db_groups d)\<rparr>)])))"

definition insert_membership :: "int \<Rightarrow> int \<Rightarrow> unit wop" where
  "insert_membership group_id user_id =
     and_then (query (\<lambda>d. map gm_id (db_group_members d))) (\<lambda>keys.
     and_then (new_key keys) (\<lambda>key.
     and_then utc_now (\<lambda>now.
     and_then (query (\<lambda>d. list_ex (\<lambda>m. gm_group_id m = group_id \<and> gm_user_id m = user_id)
       (db_group_members d))) (\<lambda>taken. block [
       unique_constraint (\<not> taken),
       update_db (\<lambda>d. d\<lparr>db_group_members := db_group_members d @
         [\<lparr>gm_id = key, gm_group_id = group_id, gm_user_id = user_id, gm_created_at = now\<rparr>]\<rparr>)]))))"

primrec insert_memberships :: "int \<Rightarrow> membership list \<Rightarrow> unit wop" where
  "insert_memberships group_id [] = ret ()"
| "insert_memberships group_id (m # ms) =
     and_then (case m of Stored _ \<Rightarrow> ret () | Added i \<Rightarrow> insert_membership group_id i) (\<lambda>_.
     insert_memberships group_id ms)"

definition delete_memberships :: "group_member list \<Rightarrow> unit wop" where
  "delete_memberships removed =
     update_db (\<lambda>d. d\<lparr>db_group_members := filter (\<lambda>m. m \<notin> set removed) (db_group_members d)\<rparr>)"

definition removed_memberships :: "group_session \<Rightarrow> db \<Rightarrow> group_member list" where
  "removed_memberships g d =
     filter (\<lambda>m. gm_group_id m = g_id (gs_group g) \<and> Stored m \<notin> set (gs_memberships g)) (db_group_members d)"

definition flush_group :: "group_session \<Rightarrow> group wop" where
  "flush_group g =
     and_then (query (removed_memberships g)) (\<lambda>removed.
     and_then (block [
       write_group (gs_group g),
       insert_memberships (g_id (gs_group g)) (gs_memberships g),
       delete_memberships removed]) (\<lambda>_. ret (gs_group g)))"

section \<open>The operations of the service\<close>

definition create_group :: "string \<Rightarrow> int list \<Rightarrow> group wop" where
  "create_group display_name member_ids =
     and_then (check_duplicate_group display_name None) (\<lambda>_.
     and_then (require_distinct_users member_ids) (\<lambda>members.
     and_then (query (\<lambda>d. map g_id (db_groups d))) (\<lambda>keys.
     and_then (new_key keys) (\<lambda>key.
     and_then utc_now (\<lambda>created_at.
     and_then utc_now (\<lambda>updated_at.
       let g = \<lparr>g_id = key, g_display_name = display_name, g_created_at = created_at,
                g_updated_at = updated_at\<rparr>
       in and_then (query (group_name_free g)) (\<lambda>free.
          and_then (unique_constraint free) (\<lambda>_.
          and_then (update_db (\<lambda>d. d\<lparr>db_groups := db_groups d @ [g]\<rparr>)) (\<lambda>_.
          and_then (flush_group \<lparr>gs_group = g, gs_memberships = map (\<lambda>u. Added (u_id u)) members\<rparr>) (\<lambda>_.
          and_then (append_pending (IdentityEvent (GroupCreated key display_name))) (\<lambda>_.
          and_then (only_if (members \<noteq> []) (append_pending (IdentityEvent
            (GroupMembershipReplaced key (map u_id members))))) (\<lambda>_.
          ret g))))))))))))"

definition replace_group :: "string \<Rightarrow> string \<Rightarrow> int list \<Rightarrow> group wop" where
  "replace_group group_id display_name member_ids =
     and_then (require_group group_id) (\<lambda>g.
     and_then (check_duplicate_group display_name (Some (gs_group g))) (\<lambda>_.
     and_then (only_if (g_display_name (gs_group g) \<noteq> display_name)
       (append_pending (IdentityEvent (GroupUpdated (g_id (gs_group g)) display_name)))) (\<lambda>_.
     and_then (replace_members member_ids (g\<lparr>gs_group := (gs_group g)\<lparr>g_display_name := display_name\<rparr>\<rparr>))
       flush_group)))"

datatype group_patch_operation =
    DisplayNamePatch string string
  | MembersPatch string "int list"

primrec each_member :: "(int \<Rightarrow> group_session \<Rightarrow> group_session wop) \<Rightarrow> int list \<Rightarrow> group_session \<Rightarrow> group_session wop" where
  "each_member f [] g = ret g"
| "each_member f (i # ids) g = and_then (f i g) (each_member f ids)"

fun patch_group_operation :: "group_patch_operation \<Rightarrow> group_session \<Rightarrow> group_session wop" where
  "patch_group_operation (DisplayNamePatch opr name) g =
     (if opr = ''remove'' then raise (ValueError ''displayName is required and cannot be removed'')
      else rename_group name g)"
| "patch_group_operation (MembersPatch opr ids) g =
     (if opr = ''replace'' then replace_members ids g
      else if opr = ''add'' then each_member add_member ids g
      else each_member remove_member ids g)"

primrec patch_group_operations :: "group_patch_operation list \<Rightarrow> group_session \<Rightarrow> group_session wop" where
  "patch_group_operations [] g = ret g"
| "patch_group_operations (p # ps) g = and_then (patch_group_operation p g) (patch_group_operations ps)"

definition patch_group :: "string \<Rightarrow> group_patch_operation list \<Rightarrow> group wop" where
  "patch_group group_id operations =
     and_then (require_group group_id) (\<lambda>g.
     and_then (patch_group_operations operations g) flush_group)"

definition add_group_member :: "string \<Rightarrow> int \<Rightarrow> group wop" where
  "add_group_member group_id user_id =
     and_then (require_group group_id) (\<lambda>g. and_then (add_member user_id g) flush_group)"

definition remove_group_member :: "string \<Rightarrow> int \<Rightarrow> group wop" where
  "remove_group_member group_id user_id =
     and_then (require_group group_id) (\<lambda>g. and_then (remove_member user_id g) flush_group)"

definition replace_group_members :: "string \<Rightarrow> int list \<Rightarrow> group wop" where
  "replace_group_members group_id member_ids =
     and_then (require_group group_id) (\<lambda>g. and_then (replace_members member_ids g) flush_group)"

definition list_members :: "int \<Rightarrow> db \<Rightarrow> user list" where
  "list_members group_id d =
     List.map_filter (\<lambda>m. row_by u_id (gm_user_id m) (db_users d)) (group_members_of d group_id)"

definition group_sorting :: "string option \<Rightarrow> string option \<Rightarrow> group list \<Rightarrow> exn + group list" where
  "group_sorting sort_by sort_order rows =
     (let normalized_sort_order = sort_order_or_default sort_order in
      if normalized_sort_order \<notin> set SUPPORTED_SORT_ORDERS
      then Inl (GroupExn (UnsupportedGroupSortOrderError normalized_sort_order))
      else sum_then
        (case sort_by of
           None \<Rightarrow> Inr (\<lambda>g. SInt (g_id g))
         | Some field \<Rightarrow>
             (case map_of GROUP_SORT_FIELDS field of
                None \<Rightarrow> Inl (GroupExn (UnsupportedGroupSortFieldError field))
              | Some key \<Rightarrow> Inr key))
        (\<lambda>key. Inr (order_rows key g_id (normalized_sort_order = ''descending'') rows)))"

end
