(* ===== verification/ScimGroupProvisioning.thy ===== *)
theory ScimGroupProvisioning
  imports ScimGroups
begin

text \<open>
  The SCIM group mutations of \<open>app/scim/group_provisioning.py\<close> and the group routes, and all
  SCIM mutations as one type of requests.
\<close>

section \<open>Payloads\<close>

record scim_group_payload =
  sgp_display_name :: string
  sgp_member_ids :: "int list"

definition parse_group_display_name :: "json \<Rightarrow> exn + string" where
  "parse_group_display_name v =
     (case v of
        JStr text \<Rightarrow>
          (let display_name = strip text in
           if display_name = '''' then raise_invalid_payload ''displayName is required''
           else if 100 < length display_name
           then raise_invalid_payload ''displayName must be 100 characters or fewer''
           else Inr display_name)
      | _ \<Rightarrow> raise_invalid_payload ''displayName is required'')"

definition parse_member_id :: "json \<Rightarrow> exn + int" where
  "parse_member_id member =
     (case member of
        JObj kvs \<Rightarrow>
          (case get_item ''value'' kvs of
             JStr raw_value \<Rightarrow>
               (if strip raw_value = '''' then raise_invalid_payload ''Each group member requires a value''
                else case parse_int raw_value of
                  None \<Rightarrow> raise_invalid_payload ''Group member value must be a user id''
                | Some member_id \<Rightarrow>
                    (if member_id < 1 then raise_invalid_payload ''Group member value must be a positive user id''
                     else Inr member_id))
           | _ \<Rightarrow> raise_invalid_payload ''Each group member requires a value'')
      | _ \<Rightarrow> raise_invalid_payload ''Each group member must be an object'')"

definition parse_member_list :: "json \<Rightarrow> exn + int list" where
  "parse_member_list v =
     (case v of
        JList members \<Rightarrow> sum_map parse_member_id members
      | _ \<Rightarrow> raise_invalid_payload ''members must be an array'')"

definition parse_member_patch_value :: "json \<Rightarrow> exn + int list" where
  "parse_member_patch_value v =
     (case v of
        JList _ \<Rightarrow> parse_member_list v
      | JObj _ \<Rightarrow> sum_then (parse_member_id v) (\<lambda>i. Inr [i])
      | _ \<Rightarrow> raise_invalid_payload ''members value must be an object or array'')"

definition parse_group_payload :: "json \<Rightarrow> exn + scim_group_payload" where
  "parse_group_payload payload =
     (case payload of
        JObj kvs \<Rightarrow>
          sum_then (parse_group_display_name (get_item ''displayName'' kvs)) (\<lambda>display_name.
          sum_then (parse_member_list (case map_of kvs ''members'' of None \<Rightarrow> JList [] | Some v \<Rightarrow> v)) (\<lambda>ids.
          Inr \<lparr>sgp_display_name = display_name, sgp_member_ids = ids\<rparr>))
      | _ \<Rightarrow> raise_invalid_payload ''SCIM Group payload must be a JSON object'')"

text \<open>
  \<open>MEMBER_FILTER_PATH_PATTERN\<close>: the text between the quotes of \<open>members[value eq "..."]\<close>,
  whatever the case and the spaces.
\<close>

definition skip_word :: "string \<Rightarrow> string \<Rightarrow> string option" where
  "skip_word word text =
     (if prefix (lower word) (lower text) then Some (drop (length word) text) else None)"

definition skip_spaces :: "string \<Rightarrow> string" where
  "skip_spaces text = dropWhile is_space text"

definition option_then :: "'a option \<Rightarrow> ('a \<Rightarrow> 'b option) \<Rightarrow> 'b option" where
  "option_then x f = (case x of None \<Rightarrow> None | Some v \<Rightarrow> f v)"

definition match_member_path :: "string \<Rightarrow> string option" where
  "match_member_path path =
     option_then (skip_word ''members'' (skip_spaces path)) (\<lambda>r1.
     option_then (skip_word ''['' (skip_spaces r1)) (\<lambda>r2.
     option_then (skip_word ''value'' (skip_spaces r2)) (\<lambda>r3.
     option_then (if skip_spaces r3 = r3 then None else skip_word ''eq'' (skip_spaces r3)) (\<lambda>r4.
     option_then (if skip_spaces r4 = r4 then None else skip_word [CHR 0x22] (skip_spaces r4)) (\<lambda>r5.
     let v = takeWhile (\<lambda>c. c \<noteq> CHR 0x22) r5; r6 = dropWhile (\<lambda>c. c \<noteq> CHR 0x22) r5 in
     option_then (if v = '''' then None else skip_word [CHR 0x22] r6) (\<lambda>r7.
     option_then (skip_word '']'' (skip_spaces r7)) (\<lambda>r8.
     if skip_spaces r8 = '''' then Some v else None)))))))"

text \<open>The message of the \<open>ValueError\<close> of \<open>int\<close>.\<close>

definition int_error_message :: "string \<Rightarrow> string" where
  "int_error_message text =
     (let unsigned = (case strip text of [] \<Rightarrow> [] | c # cs \<Rightarrow> if c \<in> set ''+-'' then cs else c # cs);
          n = length (filter digit_char unsigned)
      in if int_digits 0 False unsigned \<noteq> None \<and> 4300 < n
         then ''Exceeds the limit (4300 digits) for integer string conversion: value has '' @
           str_int (int n) @ '' digits; use sys.set_int_max_str_digits() to increase the limit''
         else ''invalid literal for int() with base 10: '' @ str_repr text)"

definition parse_group_patch_without_path :: "string \<Rightarrow> payload \<Rightarrow> exn + group_patch_operation" where
  "parse_group_patch_without_path opr operation =
     (if opr = ''remove'' then raise_invalid_payload ''PATCH remove requires a path''
      else case get_item ''value'' operation of
        JObj kvs \<Rightarrow>
          (case map_of kvs ''displayName'' of
             Some v \<Rightarrow> sum_then (parse_group_display_name v) (\<lambda>n. Inr (DisplayNamePatch opr n))
           | None \<Rightarrow>
               (case map_of kvs ''members'' of
                  Some v \<Rightarrow> sum_then (parse_member_patch_value v) (\<lambda>ids. Inr (MembersPatch opr ids))
                | None \<Rightarrow> raise_invalid_path ''PATCH value contains no supported Group attributes''))
      | _ \<Rightarrow> raise_invalid_payload ''PATCH operation without path requires object value'')"

definition parse_group_patch_path :: "string \<Rightarrow> string \<Rightarrow> payload \<Rightarrow> exn + group_patch_operation" where
  "parse_group_patch_path opr raw_path operation =
     (case match_member_path raw_path of
        Some text \<Rightarrow>
          (if opr \<noteq> ''remove'' then raise_invalid_path ''Filtered members path is supported only for remove''
           else case parse_int text of
             None \<Rightarrow> Inl (ValueError (int_error_message text))
           | Some i \<Rightarrow> Inr (MembersPatch opr [i]))
      | None \<Rightarrow>
          (if lower raw_path = ''displayname'' then
             (if opr = ''remove'' then raise_invalid_payload ''displayName is required and cannot be removed''
              else if map_of operation ''value'' = None
              then raise_invalid_payload ''PATCH add and replace operations require value''
              else sum_then (parse_group_display_name (get_item ''value'' operation)) (\<lambda>n.
                Inr (DisplayNamePatch opr n)))
           else if lower raw_path = ''members'' then
             (if opr \<in> {''add'', ''replace''} \<and> map_of operation ''value'' = None
              then raise_invalid_payload ''PATCH add and replace operations require value''
              else sum_then (parse_member_patch_value (get_item ''value'' operation)) (\<lambda>ids.
                Inr (MembersPatch opr ids)))
           else raise_invalid_path (''Unsupported PATCH path: '' @ raw_path)))"

definition parse_group_patch_operation :: "json \<Rightarrow> exn + group_patch_operation" where
  "parse_group_patch_operation operation =
     (case operation of
        JObj kvs \<Rightarrow>
          (case get_item ''op'' kvs of
             JStr raw_op \<Rightarrow>
               (let opr = lower raw_op in
                if opr \<notin> {''add'', ''remove'', ''replace''}
                then raise_invalid_payload (''Unsupported PATCH operation: '' @ raw_op)
                else case get_item ''path'' kvs of
                  JNull \<Rightarrow> parse_group_patch_without_path opr kvs
                | JStr raw_path \<Rightarrow> parse_group_patch_path opr raw_path kvs
                | _ \<Rightarrow> raise_invalid_path ''PATCH path must be a string'')
           | _ \<Rightarrow> raise_invalid_payload ''Each PATCH operation requires an op'')
      | _ \<Rightarrow> raise_invalid_payload ''Each PATCH operation must be an object'')"

definition parse_group_patch_payload :: "json \<Rightarrow> exn + group_patch_operation list" where
  "parse_group_patch_payload payload =
     (case payload of
        JObj kvs \<Rightarrow>
          (case get_item ''Operations'' kvs of
             JList operations \<Rightarrow>
               (if operations = [] then raise_invalid_payload ''SCIM PATCH requires a non-empty Operations array''
                else sum_map parse_group_patch_operation operations)
           | _ \<Rightarrow> raise_invalid_payload ''SCIM PATCH requires a non-empty Operations array'')
      | _ \<Rightarrow> raise_invalid_payload ''SCIM PATCH payload must be a JSON object'')"

section \<open>Audit events\<close>

definition SCIM_GROUP_AUDIT_ENTITLEMENT_SLUG :: string where
  "SCIM_GROUP_AUDIT_ENTITLEMENT_SLUG = ''group-lifecycle''"

fun is_members_patch :: "string \<Rightarrow> group_patch_operation \<Rightarrow> bool" where
  "is_members_patch opr (MembersPatch opr' _) = (opr' = opr)"
| "is_members_patch opr (DisplayNamePatch _ _) = False"

fun is_display_name_patch :: "group_patch_operation \<Rightarrow> bool" where
  "is_display_name_patch (DisplayNamePatch _ _) = True"
| "is_display_name_patch (MembersPatch _ _) = False"

definition audit_action_for_patch :: "group_patch_operation list \<Rightarrow> string" where
  "audit_action_for_patch operations =
     (if list_ex (is_members_patch ''replace'') operations then ''scim_group_members_replace''
      else if list_ex (is_members_patch ''add'') operations then ''scim_group_member_add''
      else if list_ex (is_members_patch ''remove'') operations then ''scim_group_member_remove''
      else if list_ex is_display_name_patch operations then ''scim_group_rename''
      else ''scim_group_update'')"

definition audit_reason_for_patch :: "group_patch_operation list \<Rightarrow> string" where
  "audit_reason_for_patch operations =
     dict_get ''Group updated''
       [(''scim_group_members_replace'', ''Group members replaced''),
        (''scim_group_member_add'', ''Group member added''),
        (''scim_group_member_remove'', ''Group member removed''),
        (''scim_group_rename'', ''Group renamed'')] (audit_action_for_patch operations)"

definition record_group_audit :: "user \<Rightarrow> string \<Rightarrow> string \<Rightarrow> string \<Rightarrow> unit wop" where
  "record_group_audit actor action result reason =
     and_then (query (find_audit_entitlement SCIM_GROUP_AUDIT_ENTITLEMENT_SLUG)) (\<lambda>found.
     and_then (from_option (RuntimeError ''SCIM group audit entitlement is not seeded'') found) (\<lambda>e.
     and_then (create_audit_event (u_id actor) (u_id actor) action (ent_application_id e) (ent_id e)
       result reason None) (\<lambda>_. ret ())))"

definition scim_group_database_error :: exn where
  "scim_group_database_error =
     ScimExn (scim_http_exception 500 ''SCIM group provisioning operation failed'' None)"

definition ACTION_GROUP_FAILURE :: string where
  "ACTION_GROUP_FAILURE = ''scim_group_provisioning_failure''"

definition group_audit_and_raise :: "user \<Rightarrow> string \<Rightarrow> int \<Rightarrow> string option \<Rightarrow> 'a wop" where
  "group_audit_and_raise actor reason status_code scim_type =
     and_then (try_except (record_group_audit actor ACTION_GROUP_FAILURE ''denied'' reason)
       (\<lambda>e. case e of IntegrityError _ \<Rightarrow> raise scim_group_database_error | _ \<Rightarrow> raise e)) (\<lambda>_.
     raise (ScimExn (scim_http_exception status_code reason scim_type)))"

definition group_mutation_failed :: "user \<Rightarrow> exn \<Rightarrow> 'a wop" where
  "group_mutation_failed actor e =
     (case e of
        GroupExn (GroupNotFoundError i) \<Rightarrow>
          group_audit_and_raise actor (''Group '' @ i @ '' not found'') 404 None
      | GroupExn (DuplicateGroupError _ _) \<Rightarrow>
          group_audit_and_raise actor ''Duplicate displayName'' 409 (Some ''uniqueness'')
      | GroupExn (DuplicateGroupMemberError i) \<Rightarrow>
          group_audit_and_raise actor (''Duplicate group member '' @ i) 409 (Some ''uniqueness'')
      | GroupExn (UnknownGroupMemberError i) \<Rightarrow>
          group_audit_and_raise actor (''Group member '' @ i @ '' not found'') 400 (Some ''invalidValue'')
      | IntegrityError _ \<Rightarrow> raise scim_group_database_error
      | _ \<Rightarrow> raise e)"

section \<open>The mutations\<close>

definition group_result :: "int \<Rightarrow> string \<Rightarrow> scim_result wop" where
  "group_result i base_url =
     and_then (query (\<lambda>d. row_by g_id i (db_groups d))) (\<lambda>row.
     and_then (from_option (RuntimeError ''Could not refresh instance'') row) (\<lambda>g.
     and_then (gets (\<lambda>s. group_to_scim_resource (env_utc_offset (w_env s)) (w_db s) g base_url)) (\<lambda>resource.
     ret (resource, build_group_location base_url i))))"

definition finish_group_mutation :: "user \<Rightarrow> string \<Rightarrow> string \<Rightarrow> group \<Rightarrow> int wop" where
  "finish_group_mutation actor action reason g =
     and_then (block [
       record_group_audit actor action ''succeeded'' reason,
       publish_pending_events]) (\<lambda>_. ret (g_id g))"

definition create_scim_group :: "user \<Rightarrow> json \<Rightarrow> string \<Rightarrow> scim_result wop" where
  "create_scim_group actor payload base_url =
     (case parse_group_payload payload of
        Inl (ScimExn exc) \<Rightarrow>
          group_audit_and_raise actor (se_detail exc) (se_status_code exc) (se_scim_type exc)
      | Inl e \<Rightarrow> raise e
      | Inr group_data \<Rightarrow>
          and_then (try_except (rollback_on_error
            (and_then (create_group (sgp_display_name group_data) (sgp_member_ids group_data))
              (finish_group_mutation actor ''scim_group_create'' ''Group created'')))
            (group_mutation_failed actor)) (\<lambda>i.
          group_result i base_url))"

definition replace_scim_group :: "user \<Rightarrow> string \<Rightarrow> json \<Rightarrow> string \<Rightarrow> scim_result wop" where
  "replace_scim_group actor group_id payload base_url =
     (case parse_group_payload payload of
        Inl (ScimExn exc) \<Rightarrow>
          group_audit_and_raise actor (se_detail exc) (se_status_code exc) (se_scim_type exc)
      | Inl e \<Rightarrow> raise e
      | Inr group_data \<Rightarrow>
          and_then (try_except (rollback_on_error
            (and_then (replace_group group_id (sgp_display_name group_data) (sgp_member_ids group_data))
              (finish_group_mutation actor ''scim_group_update'' ''Group updated'')))
            (group_mutation_failed actor)) (\<lambda>i.
          group_result i base_url))"

definition patch_scim_group :: "user \<Rightarrow> string \<Rightarrow> json \<Rightarrow> string \<Rightarrow> scim_result wop" where
  "patch_scim_group actor group_id payload base_url =
     and_then (try_except (rollback_on_error
       (and_then (lift_sum (parse_group_patch_payload payload)) (\<lambda>operations.
        and_then (patch_group group_id operations)
          (finish_group_mutation actor (audit_action_for_patch operations) (audit_reason_for_patch operations)))))
       (\<lambda>e. case e of
          ScimExn exc \<Rightarrow> group_audit_and_raise actor (se_detail exc) (se_status_code exc) (se_scim_type exc)
        | ValueError message \<Rightarrow> group_audit_and_raise actor message 400 (Some ''invalidValue'')
        | _ \<Rightarrow> group_mutation_failed actor e)) (\<lambda>i.
     group_result i base_url)"

section \<open>Routes\<close>

definition list_groups ::
  "(group \<Rightarrow> bool) option \<Rightarrow> string option \<Rightarrow> string option \<Rightarrow> nat \<Rightarrow> nat \<Rightarrow> db \<Rightarrow> exn + int \<times> group list" where
  "list_groups filter_expression sort_by sort_order offset limit d =
     (let matching = (case filter_expression of None \<Rightarrow> db_groups d | Some p \<Rightarrow> filter p (db_groups d)) in
      sum_then (group_sorting sort_by sort_order matching) (\<lambda>ordered.
      Inr (int (length matching), page offset limit ordered)))"

definition list_groups_failed :: "exn \<Rightarrow> exn" where
  "list_groups_failed e =
     (case e of
        GroupExn (UnsupportedGroupSortOrderError _) \<Rightarrow>
          ScimExn (scim_http_exception 400 ''sortOrder must be ascending or descending'' (Some ''invalidValue''))
      | GroupExn (UnsupportedGroupSortFieldError field) \<Rightarrow>
          ScimExn (scim_http_exception 400 (''Unsupported sortBy field: '' @ field) (Some ''invalidPath''))
      | _ \<Rightarrow> e)"

definition list_scim_groups :: "scim_query \<Rightarrow> string \<Rightarrow> string \<Rightarrow> db \<Rightarrow> exn + scim_list_response" where
  "list_scim_groups q utc_offset base_url d =
     sum_then (parse_pagination_parameters (sq_start_index q) (sq_count q)) (\<lambda>pagination.
     sum_then (parse_group_filter (sq_filter q)) (\<lambda>group_filter.
     sum_then (parse_attribute_projection (sq_attributes q) (sq_excluded_attributes q)) (\<lambda>projection.
     sum_then (build_group_filter_expression group_filter) (\<lambda>expression.
     case list_groups expression (sq_sort_by q) (sq_sort_order q) (pagination_offset pagination)
            (nat (sp_count pagination)) d of
       Inl e \<Rightarrow> Inl (list_groups_failed e)
     | Inr (total_results, groups) \<Rightarrow>
         (let resources = map (\<lambda>g. apply_attribute_projection (group_to_scim_resource utc_offset d g base_url)
                projection) groups
          in Inr \<lparr>sl_total_results = total_results, sl_start_index = sp_start_index pagination,
               sl_items_per_page = int (length resources), sl_resources = resources\<rparr>)))))"

definition get_scim_group ::
  "string \<Rightarrow> string option \<Rightarrow> string option \<Rightarrow> string \<Rightarrow> string \<Rightarrow> db \<Rightarrow> exn + payload" where
  "get_scim_group group_id attributes excluded_attributes utc_offset base_url d =
     (case find_group group_id d of
        None \<Rightarrow> raise_scim_error 404 (''Group '' @ group_id @ '' not found'') None
      | Some g \<Rightarrow>
          sum_then (parse_attribute_projection attributes excluded_attributes) (\<lambda>projection.
          Inr (apply_attribute_projection (group_to_scim_resource utc_offset d g base_url) projection)))"

definition list_groups_route ::
  "user \<Rightarrow> scim_query \<Rightarrow> string \<Rightarrow> (world, scim_http_exception, scim_list_response) op" where
  "list_groups_route current_user q base_url =
     scim_route current_user (and_then (gets (\<lambda>s. env_utc_offset (w_env s))) (\<lambda>utc_offset.
       scim_read (list_scim_groups q utc_offset base_url)))"

definition get_group_route ::
  "user \<Rightarrow> string \<Rightarrow> string option \<Rightarrow> string option \<Rightarrow> string \<Rightarrow> (world, scim_http_exception, payload) op" where
  "get_group_route current_user group_id attributes excluded_attributes base_url =
     scim_route current_user (and_then (gets (\<lambda>s. env_utc_offset (w_env s))) (\<lambda>utc_offset.
       scim_read (get_scim_group group_id attributes excluded_attributes utc_offset base_url)))"

definition create_group_route ::
  "user \<Rightarrow> json \<Rightarrow> string \<Rightarrow> (world, scim_http_exception, scim_result) op" where
  "create_group_route current_user payload base_url =
     scim_route current_user (create_scim_group current_user payload base_url)"

definition replace_group_route ::
  "user \<Rightarrow> string \<Rightarrow> json \<Rightarrow> string \<Rightarrow> (world, scim_http_exception, payload) op" where
  "replace_group_route current_user group_id payload base_url =
     scim_route current_user
       (and_then (replace_scim_group current_user group_id payload base_url) (\<lambda>r. ret (fst r)))"

definition patch_group_route ::
  "user \<Rightarrow> string \<Rightarrow> json \<Rightarrow> string \<Rightarrow> (world, scim_http_exception, payload) op" where
  "patch_group_route current_user group_id payload base_url =
     scim_route current_user
       (and_then (patch_scim_group current_user group_id payload base_url) (\<lambda>r. ret (fst r)))"

end
