(* ===== verification/ScimRequests.thy ===== *)
theory ScimRequests
  imports ScimGroupProvisioning
begin

text \<open>
  SCIM mutations as requests: a request either fails, and then leaves at most a denied audit
  event behind, or its body ran to its end.
\<close>

datatype scim_request =
    CreateUser json
  | ReplaceUser string json
  | PatchUser string json
  | CreateGroup json
  | ReplaceGroup string json
  | PatchGroup string json

fun scim_request_op :: "scim_request \<Rightarrow> user \<Rightarrow> string \<Rightarrow> scim_result wop" where
  "scim_request_op (CreateUser payload) actor base_url = create_scim_user actor payload base_url"
| "scim_request_op (ReplaceUser i payload) actor base_url = replace_scim_user actor i payload base_url"
| "scim_request_op (PatchUser i payload) actor base_url = patch_scim_user actor i payload base_url"
| "scim_request_op (CreateGroup payload) actor base_url = create_scim_group actor payload base_url"
| "scim_request_op (ReplaceGroup i payload) actor base_url = replace_scim_group actor i payload base_url"
| "scim_request_op (PatchGroup i payload) actor base_url = patch_scim_group actor i payload base_url"

definition run_scim_request ::
  "scim_request \<Rightarrow> user \<Rightarrow> string \<Rightarrow> (world, scim_http_exception, scim_result) op" where
  "run_scim_request r actor base_url = scim_route actor (scim_request_op r actor base_url)"

section \<open>Failures\<close>

text \<open>
  What a failing operation leaves: nothing, when the error is a 500, and otherwise one denied
  audit event that carries the detail of the error.
\<close>

definition denied_event :: "user \<Rightarrow> string \<Rightarrow> audit_event \<Rightarrow> bool" where
  "denied_event actor detail ev \<longleftrightarrow>
     ae_result ev = ''denied'' \<and> ae_requester_id ev = u_id actor \<and> ae_reason ev = detail"

definition only_denied :: "user \<Rightarrow> scim_http_exception \<Rightarrow> world \<Rightarrow> world \<Rightarrow> bool" where
  "only_denied actor exc s t \<longleftrightarrow> w_published t = w_published s \<and> w_env t = w_env s \<and>
     (w_db t = w_db s \<and> se_status_code exc \<in> {403, 500} \<or>
      (\<exists>ev. denied_event actor (se_detail exc) ev \<and>
         w_db t = (w_db s)\<lparr>db_audit := db_audit (w_db s) @ [ev]\<rparr>))"

definition failed_with :: "user \<Rightarrow> world \<Rightarrow> (exn + 'a) \<times> world \<Rightarrow> bool" where
  "failed_with actor s res \<longleftrightarrow>
     (\<exists>e. fst res = Inl e \<and> only_denied actor (scim_response_error e) s (snd res))"

lemma scim_response_error_simps [simp]:
  "scim_response_error (ScimExn x) = x"
  "scim_response_error (RuntimeError m) = scim_http_exception 500 ''Internal Server Error'' None"
  "scim_response_error (IntegrityError m) = scim_http_exception 500 ''Internal Server Error'' None"
  by (simp_all add: scim_response_error_def)

lemma scim_http_exception_sel [simp]:
  "se_status_code (scim_http_exception c d ty) = c" "se_detail (scim_http_exception c d ty) = d"
  "se_scim_type (scim_http_exception c d ty) = ty"
  by (simp_all add: scim_http_exception_def)

lemma failed_raise_500: "se_status_code (scim_response_error e) = 500 \<Longrightarrow> failed_with actor s (raise e s)"
  by (simp add: failed_with_def only_denied_def)

lemma only_denied_audit_post:
  "rs = se_detail exc \<Longrightarrow>
   only_denied actor exc s (audit_post (audit_row (u_id actor) tu ac ap en ''denied'' rs co s) s)"
  by (auto simp: only_denied_def denied_event_def
      intro!: exI [where x = "audit_row (u_id actor) tu ac ap en ''denied'' rs co s"])

lemma failed_audit_and_raise:
  "failed_with actor s (audit_and_raise actor tu ac rs sc ty slug s)"
proof (cases "find_audit_entitlement slug (w_db s)")
  case None
  then show ?thesis
    by (simp add: audit_and_raise_def record_provisioning_audit_def get_scim_audit_entitlement_def
        run_ops try_except_def failed_with_def only_denied_def)
next
  case (Some e)
  then show ?thesis
    by (simp add: audit_and_raise_def record_provisioning_audit_def get_scim_audit_entitlement_def
        run_ops try_except_def failed_with_def only_denied_audit_post)
qed

lemma failed_group_audit_and_raise: "failed_with actor s (group_audit_and_raise actor rs sc ty s)"
proof (cases "find_audit_entitlement SCIM_GROUP_AUDIT_ENTITLEMENT_SLUG (w_db s)")
  case None
  then show ?thesis
    by (simp add: group_audit_and_raise_def record_group_audit_def run_ops try_except_def
        failed_with_def only_denied_def)
next
  case (Some e)
  then show ?thesis
    by (simp add: group_audit_and_raise_def record_group_audit_def
        run_ops try_except_def failed_with_def only_denied_audit_post)
qed

lemma failed_enterprise: "failed_with actor s (audit_enterprise_error_and_raise actor tu x s)"
  by (cases x) (simp_all add: audit_enterprise_error_and_raise_def failed_audit_and_raise run_ops)

text \<open>The exceptions a body may raise are those its handler expects, or end in 500.\<close>

lemma failed_Inl_500:
  "se_status_code (scim_response_error e) = 500 \<Longrightarrow> failed_with actor s (Inl e, s)"
  by (simp add: failed_with_def only_denied_def)

lemma not_scim_500: "(\<And>x. e \<noteq> ScimExn x) \<Longrightarrow> se_status_code (scim_response_error e) = 500"
  by (cases e) (auto simp: scim_response_error_def)

lemma failed_user_mutation:
  assumes "\<And>x. e \<noteq> ScimExn x"
  shows "failed_with actor s (user_mutation_failed actor i e s)"
  using assms not_scim_500 [OF assms]
  by (cases e) (auto simp: user_mutation_failed_def failed_audit_and_raise failed_enterprise run_ops
      scim_database_error_def failed_Inl_500 split: user_service_error.split option.split)

lemma failed_group_mutation:
  assumes "\<And>x. e \<noteq> ScimExn x"
  shows "failed_with actor s (group_mutation_failed actor e s)"
  using assms not_scim_500 [OF assms]
  by (cases e) (auto simp: group_mutation_failed_def failed_group_audit_and_raise run_ops
      scim_group_database_error_def failed_Inl_500 split: group_error.split)

section \<open>Services publish nothing by themselves\<close>

named_theorems unpublished_intro \<open>operations that publish nothing and raise no SCIM error\<close>

definition unpublished :: "'a wop \<Rightarrow> bool" where
  "unpublished m \<longleftrightarrow> (\<forall>s r t. m s = (r, t) \<longrightarrow>
     w_published t = w_published s \<and> w_env t = w_env s \<and> (\<forall>x. r \<noteq> Inl (ScimExn x)))"

lemma unpublished_basic [unpublished_intro]:
  "unpublished (ret x)" "unpublished (Pair (Inr x))" "unpublished (gets f)" "unpublished (query g)" "unpublished utc_now"
  "unpublished uuid4" "unpublished (new_key ks)" "unpublished (update_db h)" "unpublished (append_pending ev)"
  "unpublished (unique_constraint b)" "unpublished (create_audit_event rq tu ac ap en rs rn co)"
  by (auto simp: unpublished_def uuid4_def split: if_splits)

lemma unpublished_raises [unpublished_intro]:
  assumes "\<And>x. e \<noteq> ScimExn x"
  shows "unpublished (raise e)" and "unpublished (guard b e)" and "unpublished (from_option e v)"
  using assms by (auto simp: unpublished_def run_guard from_option_def split: option.splits if_splits)

lemma unpublished_and_then [unpublished_intro]:
  assumes m: "unpublished m" and f: "\<And>x. unpublished (f x)"
  shows "unpublished (and_then m f)"
  unfolding unpublished_def
proof (intro allI impI)
  fix s r t assume run: "and_then m f s = (r, t)"
  show "w_published t = w_published s \<and> w_env t = w_env s \<and> (\<forall>x. r \<noteq> Inl (ScimExn x))"
  proof (cases "fst (m s)")
    case (Inl e)
    then have ms: "m s = (Inl e, snd (m s))" by (cases "m s") auto
    with run have "r = Inl e" "t = snd (m s)" by auto
    with m ms show ?thesis unfolding unpublished_def by auto
  next
    case (Inr x)
    then have ms: "m s = (Inr x, snd (m s))" by (cases "m s") auto
    with run have "f x (snd (m s)) = (r, t)" by simp
    then have "w_published t = w_published (snd (m s)) \<and> w_env t = w_env (snd (m s)) \<and> (\<forall>x. r \<noteq> Inl (ScimExn x))"
      using f [of x] unfolding unpublished_def by blast
    moreover have "w_published (snd (m s)) = w_published s \<and> w_env (snd (m s)) = w_env s"
      using m ms unfolding unpublished_def by blast
    ultimately show ?thesis by simp
  qed
qed

lemma unpublished_if [unpublished_intro]: "unpublished m \<Longrightarrow> unpublished n \<Longrightarrow> unpublished (if b then m else n)"
  and unpublished_only_if [unpublished_intro]: "unpublished k \<Longrightarrow> unpublished (only_if b k)"
  by (auto simp: only_if_def unpublished_basic)

lemma unpublished_case_option [unpublished_intro]:
  "unpublished m \<Longrightarrow> (\<And>v. unpublished (f v)) \<Longrightarrow> unpublished (case x of None \<Rightarrow> m | Some v \<Rightarrow> f v)"
  by (cases x) auto

lemma unpublished_case_prod [unpublished_intro]:
  "(\<And>a b. unpublished (f a b)) \<Longrightarrow> unpublished (case x of (a, b) \<Rightarrow> f a b)"
  by (cases x) auto

lemma unpublished_block [unpublished_intro]:
  "unpublished (block [])" "unpublished m \<Longrightarrow> unpublished (block ms) \<Longrightarrow> unpublished (block (m # ms))"
  by (auto intro!: unpublished_intro)

lemma unpublished_for_each [unpublished_intro]: "(\<And>x. unpublished (f x)) \<Longrightarrow> unpublished (for_each xs f)"
  by (induction xs) (auto intro!: unpublished_intro)

lemma unpublished_users [unpublished_intro]:
  "unpublished (require_user i)" "unpublished (ensure_user_name_available n cu)" "unpublished (flush_user u)"
  "unpublished (create_user n dn a)"
  by (auto simp: require_user_def ensure_user_name_available_def flush_user_def create_user_def Let_def
      intro!: unpublished_intro)

lemma unpublished_user_updates [unpublished_intro]:
  "unpublished (replace_user i n dn a)" "unpublished (patch_user i m)"
  by (auto simp: replace_user_def patch_user_def Let_def intro!: unpublished_intro)

lemma unpublished_fields [unpublished_intro]:
  "unpublished (set_enterprise_fields fs u m dr)" "unpublished (set_manager u m dr)"
proof -
  show "unpublished (set_enterprise_fields fs u m dr)"
    by (induction fs arbitrary: dr) (auto simp: set_enterprise_field_def intro!: unpublished_intro)
qed (auto simp: set_manager_def intro!: unpublished_intro)

lemma unpublished_profiles [unpublished_intro]:
  "unpublished (ensure_employee_number_available n p)" "unpublished (validate_manager u m)"
  "unpublished (flush_profile u dr)" "unpublished (insert_profile u)"
  by (auto simp: ensure_employee_number_available_def validate_manager_def flush_profile_def
      insert_profile_def Let_def intro!: unpublished_intro)

lemma unpublished_apply [unpublished_intro]: "unpublished (apply_to_profile u m p c)"
  by (auto simp: apply_to_profile_def intro!: unpublished_intro split: option.split)

lemma unpublished_mutation [unpublished_intro]: "unpublished (apply_profile_mutation u m r)"
  by (auto simp: apply_profile_mutation_def Let_def intro!: unpublished_intro)

lemma unpublished_enterprise [unpublished_intro]:
  "unpublished (create_enterprise_profile u mu)" "unpublished (patch_enterprise_profile u mu)"
  "unpublished (replace_enterprise_profile u mu)"
  by (auto simp: create_enterprise_profile_def patch_enterprise_profile_def replace_enterprise_profile_def
      clear_enterprise_profile_def intro!: unpublished_intro)

lemma unpublished_audits [unpublished_intro]:
  "unpublished (record_provisioning_audit a tu ac rs rn slug)" "unpublished (record_enterprise_audits a tu cs)"
  "unpublished (record_group_audit a ac rs rn)"
proof -
  show r: "unpublished (record_provisioning_audit a tu ac rs rn slug)" for ac rs rn slug
    by (auto simp: record_provisioning_audit_def get_scim_audit_entitlement_def intro!: unpublished_intro)
  show "unpublished (record_enterprise_audits a tu cs)"
    by (induction cs) (auto intro!: unpublished_intro r)
qed (auto simp: record_group_audit_def intro!: unpublished_intro)

lemma unpublished_group_lookups [unpublished_intro]:
  "unpublished (require_group i)" "unpublished (check_duplicate_group n cg)"
  "unpublished (require_distinct_users ids)" "unpublished (require_group_user j)"
  by (auto simp: require_group_def check_duplicate_group_def require_distinct_users_def require_group_user_def
      intro!: unpublished_intro)

lemma unpublished_group_changes [unpublished_intro]:
  "unpublished (rename_group n g)" "unpublished (add_member i g)" "unpublished (remove_member i g)"
  "unpublished (replace_members ids g)" "unpublished (write_group gg)" "unpublished (delete_memberships rm)"
  "unpublished (insert_membership gi i)"
  by (auto simp: rename_group_def add_member_def remove_member_def replace_members_def write_group_def
      delete_memberships_def insert_membership_def intro!: unpublished_intro)

lemma unpublished_flush_group [unpublished_intro]: "unpublished (flush_group g)"
proof -
  have "unpublished (insert_memberships gi ms)" for gi ms
    by (induction ms) (auto intro!: unpublished_intro split: membership.split)
  then show ?thesis by (auto simp: flush_group_def intro!: unpublished_intro)
qed

lemma unpublished_group_operations [unpublished_intro]: "unpublished (patch_group_operations ps g)"
proof -
  have e: "unpublished (each_member f ids g)" if "\<And>i g. unpublished (f i g)" for f ids g
    by (induction ids arbitrary: g) (auto intro!: unpublished_intro that)
  have "unpublished (patch_group_operation p g)" for p g
    by (cases p) (auto intro!: unpublished_intro e)
  then show ?thesis by (induction ps arbitrary: g) (auto intro!: unpublished_intro)
qed

lemma unpublished_groups [unpublished_intro]:
  "unpublished (create_group n ids)" "unpublished (replace_group i n ids)" "unpublished (patch_group i ps)"
  by (auto simp: create_group_def replace_group_def patch_group_def Let_def intro!: unpublished_intro)

section \<open>A request fails quietly or its body ran\<close>

definition quiet_failure :: "'a wop \<Rightarrow> bool" where
  "quiet_failure m \<longleftrightarrow> (\<forall>s e t. m s = (Inl e, t) \<longrightarrow>
     w_published t = w_published s \<and> w_env t = w_env s \<and> (\<forall>x. e \<noteq> ScimExn x))"

lemma quiet_failure_unpublished [unpublished_intro]: "unpublished m \<Longrightarrow> quiet_failure m"
  unfolding unpublished_def quiet_failure_def by blast

lemma quiet_failure_no_raise: "no_raise m \<Longrightarrow> quiet_failure m"
  unfolding no_raise_def quiet_failure_def by (metis Pair_inject sum.distinct(1))

lemma quiet_failure_and_then:
  assumes m: "unpublished m" and f: "\<And>x. quiet_failure (f x)"
  shows "quiet_failure (and_then m f)"
  unfolding quiet_failure_def
proof (intro allI impI)
  fix s e t assume "and_then m f s = (Inl e, t)"
  then show "w_published t = w_published s \<and> w_env t = w_env s \<and> (\<forall>x. e \<noteq> ScimExn x)"
  proof (rule and_then_errE)
    assume "m s = (Inl e, t)"
    with m show ?thesis unfolding unpublished_def by blast
  next
    fix x s' assume "m s = (Inr x, s')" and "f x s' = (Inl e, t)"
    with m f [of x] show ?thesis unfolding unpublished_def quiet_failure_def by metis
  qed
qed

lemma quiet_failure_then_no_raise:
  assumes "quiet_failure m" and "\<And>x. no_raise (f x)"
  shows "quiet_failure (and_then m f)"
  using assms unfolding quiet_failure_def no_raise_def
  by (metis Pair_inject and_then_errE sum.distinct(1))

lemma quiet_failure_block:
  "unpublished m \<Longrightarrow> quiet_failure (block ms) \<Longrightarrow> quiet_failure (block (m # ms))"
  by (simp add: quiet_failure_and_then)

lemma attempt_result:
  assumes run: "try_except (rollback_on_error m) h s = (r, t)" and body: "quiet_failure m"
    and handler: "\<And>e s'. (\<And>x. e \<noteq> ScimExn x) \<Longrightarrow> failed_with actor s' (h e s')"
  shows "case r of Inl e \<Rightarrow> only_denied actor (scim_response_error e) s t | Inr x \<Rightarrow> m s = (Inr x, t)"
proof (cases "m s")
  case (Pair q s')
  show ?thesis
  proof (cases q)
    case (Inr x)
    with Pair run have "r = Inr x" and "t = s'" by (auto simp: try_except_def rollback_on_error_def)
    with Pair Inr show ?thesis by simp
  next
    case (Inl e)
    with Pair run have h: "h e (s'\<lparr>w_db := w_db s\<rparr>) = (r, t)" by (simp add: try_except_def rollback_on_error_def)
    from body Pair Inl have s': "w_published s' = w_published s" "w_env s' = w_env s" "\<And>x. e \<noteq> ScimExn x"
      unfolding quiet_failure_def by blast+
    from handler [OF s'(3), of "s'\<lparr>w_db := w_db s\<rparr>"] h obtain e' where "r = Inl e'"
      and "only_denied actor (scim_response_error e') (s'\<lparr>w_db := w_db s\<rparr>) t"
      by (auto simp: failed_with_def)
    with s' show ?thesis by (simp add: only_denied_def)
  qed
qed

lemma no_raise_user_result: "row_by u_id i (db_users (w_db s)) \<noteq> None \<Longrightarrow> \<exists>x. user_result i base_url s = (Inr x, s)"
  by (auto simp: user_result_def run_ops)

lemma no_raise_group_result: "row_by g_id i (db_groups (w_db s)) \<noteq> None \<Longrightarrow> \<exists>x. group_result i base_url s = (Inr x, s)"
  by (auto simp: group_result_def run_ops)

section \<open>What the user service does\<close>

lemma create_user_effect:
  assumes "create_user n dn a s = (Inr u, t)"
  shows "u = \<lparr>u_id = env_key (w_env s) (map u_id (db_users (w_db s))), u_name = dn, u_email = lower n,
       u_department = DEFAULT_PROVISIONED_DEPARTMENT, u_active = a,
       u_operator_role = DEFAULT_PROVISIONED_OPERATOR_ROLE,
       u_password_hash = env_hash_password (w_env s) (''scim-'' @ env_uuid (w_env s) (w_uuid_reads s))\<rparr> \<and>
     find_user_by_user_name n (w_db s) = None \<and>
     w_db t = (w_db s)\<lparr>db_users := db_users (w_db s) @ [u]\<rparr> \<and> w_env t = w_env s \<and>
     map snd (w_pending t) = map snd (w_pending s) @ [IdentityEvent (UserProvisioned (u_id u) (u_email u))]"
  using assms
  by (auto simp: create_user_def run_ops uuid4_def Let_def split: option.splits if_splits)

lemma require_user_ok:
  assumes "require_user i s = (Inr u, t)"
  shows "t = s \<and> find_user i (w_db s) = Some u"
  using assms by (auto simp: require_user_def run_ops from_option_def split: option.splits)

lemma find_user_row: "find_user i d = Some u \<Longrightarrow> u \<in> set (db_users d) \<and> row_by u_id (u_id u) (db_users d) = Some u"
  by (auto simp: find_user_def row_by_Some split: option.splits if_splits)

definition email_name :: "user \<Rightarrow> string option" where
  "email_name u = Some (u_email u)"

lemma ensure_user_name_available_ok:
  assumes "ensure_user_name_available n (Some u) s = (Inr r, t)"
    and "unique_names u_id email_name (db_users (w_db s))" and "u_id v = u_id u" and "u_email v = lower n"
  shows "t = s \<and> name_free u_id email_name v (db_users (w_db s))"
proof
  show "t = s" using assms(1)
    by (auto simp: ensure_user_name_available_def run_ops split: option.splits if_splits)
  have look: "case find (\<lambda>q. map_option lower (email_name q) = Some (lower (lower n))) (db_users (w_db s)) of
      None \<Rightarrow> True | Some q \<Rightarrow> u_id q = u_id v"
    using assms(1,3)
    by (auto simp: ensure_user_name_available_def find_user_by_user_name_def email_name_def run_ops
        split: option.splits if_splits)
  have "email_name v = Some (lower n)" using assms(4) by (simp add: email_name_def)
  from assms(2) this look show "name_free u_id email_name v (db_users (w_db s))"
    by (rule lookup_name_free)
qed

lemma flush_user_effect:
  assumes "flush_user u s = (Inr v, t)"
  shows "v = u \<and> w_db t = (w_db s)\<lparr>db_users := put_row u_id u (db_users (w_db s))\<rparr> \<and> w_env t = w_env s \<and>
     w_pending t = w_pending s"
  using assms by (auto simp: flush_user_def run_ops split: if_splits)

lemma replace_user_effect:
  assumes run: "replace_user i n dn a s = (Inr u, t)"
    and wf: "unique_names u_id email_name (db_users (w_db s))"
  shows "\<exists>old. find_user i (w_db s) = Some old \<and> u = old\<lparr>u_email := lower n, u_name := dn, u_active := a\<rparr> \<and>
     name_free u_id email_name u (db_users (w_db s)) \<and>
     w_db t = (w_db s)\<lparr>db_users := put_row u_id u (db_users (w_db s))\<rparr> \<and> w_env t = w_env s"
proof -
  from run obtain old s1 r2 s2 where r1: "require_user i s = (Inr old, s1)"
    and r2: "ensure_user_name_available n (Some old) s1 = (Inr r2, s2)"
    and r3: "flush_user (old\<lparr>u_email := lower n, u_name := dn, u_active := a\<rparr>) s2 = (Inr u, t)"
    unfolding replace_user_def by (elim and_then_okE)
  from require_user_ok [OF r1] have s1: "s1 = s" "find_user i (w_db s) = Some old" by auto
  from flush_user_effect [OF r3] have u: "u = old\<lparr>u_email := lower n, u_name := dn, u_active := a\<rparr>"
    and db: "w_db t = (w_db s2)\<lparr>db_users := put_row u_id u (db_users (w_db s2))\<rparr>" "w_env t = w_env s2" by auto
  have "s2 = s1 \<and> name_free u_id email_name u (db_users (w_db s1))"
    by (rule ensure_user_name_available_ok [OF r2]) (use wf s1 u in simp_all)
  with s1 u db show ?thesis by auto
qed

definition patched_user :: "user_mutation \<Rightarrow> user \<Rightarrow> user" where
  "patched_user m u =
     (let u1 = (case um_user_name m of None \<Rightarrow> u | Some n \<Rightarrow> u\<lparr>u_email := lower n\<rparr>);
          u2 = (case um_display_name m of None \<Rightarrow> u1 | Some n \<Rightarrow> u1\<lparr>u_name := n\<rparr>)
      in case um_active m of None \<Rightarrow> u2 | Some b \<Rightarrow> u2\<lparr>u_active := b\<rparr>)"

lemma patched_user_sel [simp]:
  "u_id (patched_user m u) = u_id u" "u_operator_role (patched_user m u) = u_operator_role u"
  "u_password_hash (patched_user m u) = u_password_hash u" "u_department (patched_user m u) = u_department u"
  "u_email (patched_user m u) = (case um_user_name m of None \<Rightarrow> u_email u | Some n \<Rightarrow> lower n)"
  by (simp_all add: patched_user_def Let_def split: option.split)

lemma patch_user_effect:
  assumes run: "patch_user i m s = (Inr u, t)"
    and wf: "unique_names u_id email_name (db_users (w_db s))"
  shows "\<exists>old. find_user i (w_db s) = Some old \<and> u = patched_user m old \<and>
     name_free u_id email_name u (db_users (w_db s)) \<and>
     w_db t = (w_db s)\<lparr>db_users := put_row u_id u (db_users (w_db s))\<rparr> \<and> w_env t = w_env s"
proof -
  from run obtain old s1 u1 s2 where r1: "require_user i s = (Inr old, s1)"
    and r2: "(case um_user_name m of None \<Rightarrow> ret old
       | Some n \<Rightarrow> and_then (ensure_user_name_available n (Some old)) (\<lambda>_. ret (old\<lparr>u_email := lower n\<rparr>))) s1 = (Inr u1, s2)"
    and r3: "(let user2 = (case um_display_name m of None \<Rightarrow> u1 | Some n \<Rightarrow> u1\<lparr>u_name := n\<rparr>);
         user3 = (case um_active m of None \<Rightarrow> user2 | Some b \<Rightarrow> user2\<lparr>u_active := b\<rparr>)
       in flush_user user3) s2 = (Inr u, t)"
    unfolding patch_user_def by (elim and_then_okE)
  from require_user_ok [OF r1] have s1: "s1 = s" "find_user i (w_db s) = Some old" by auto
  have u1: "u1 = (case um_user_name m of None \<Rightarrow> old | Some n \<Rightarrow> old\<lparr>u_email := lower n\<rparr>)"
    using r2 by (auto elim!: and_then_okE split: option.splits)
  have u: "(let user2 = (case um_display_name m of None \<Rightarrow> u1 | Some n \<Rightarrow> u1\<lparr>u_name := n\<rparr>)
      in case um_active m of None \<Rightarrow> user2 | Some b \<Rightarrow> user2\<lparr>u_active := b\<rparr>) = patched_user m old"
    by (simp only: u1 patched_user_def Let_def)
  from r3 u have "flush_user (patched_user m old) s2 = (Inr u, t)" by (simp add: Let_def)
  from flush_user_effect [OF this] have v: "u = patched_user m old"
    and db: "w_db t = (w_db s2)\<lparr>db_users := put_row u_id u (db_users (w_db s2))\<rparr>" "w_env t = w_env s2" by auto
  have "s2 = s \<and> name_free u_id email_name u (db_users (w_db s))"
  proof (cases "um_user_name m")
    case None
    have "old \<in> set (db_users (w_db s))" using find_user_row [OF s1(2)] by simp
    then have "name_free u_id email_name u (db_users (w_db s))"
      by (rule old_name_free [OF wf]) (simp_all add: v email_name_def None)
    with None r2 s1 show ?thesis by simp
  next
    case (Some n)
    with r2 s1(1) obtain r where "ensure_user_name_available n (Some old) s = (Inr r, s2)"
      by (auto elim!: and_then_okE)
    then show ?thesis by (rule ensure_user_name_available_ok) (use wf v Some in simp_all)
  qed
  with s1 v db show ?thesis by auto
qed

end
