(* ===== verification/ScimDirectory.thy ===== *)
theory ScimDirectory
  imports ScimRequests
begin

text \<open>
  What the SCIM requests on users do to the directory: the effect of each request that
  succeeds, the well-formedness it preserves, and what a failing one leaves.
\<close>

section \<open>Well-formed directories\<close>

definition group_name :: "group \<Rightarrow> string option" where
  "group_name g = Some (g_display_name g)"

definition wf_users :: "db \<Rightarrow> bool" where
  "wf_users d \<longleftrightarrow> unique_names u_id email_name (db_users d)"

definition wf_groups :: "db \<Rightarrow> bool" where
  "wf_groups d \<longleftrightarrow>
     distinct (map g_id (db_groups d)) \<and> unique_names g_id group_name (db_groups d) \<and>
     distinct (map gm_id (db_group_members d)) \<and>
     distinct (map (\<lambda>m. (gm_group_id m, gm_user_id m)) (db_group_members d)) \<and>
     (\<forall>m \<in> set (db_group_members d).
        gm_group_id m \<in> g_id ` set (db_groups d) \<and> gm_user_id m \<in> u_id ` set (db_users d))"

definition wf_directory :: "db \<Rightarrow> bool" where
  "wf_directory d \<longleftrightarrow> wf_profiles d \<and> wf_users d \<and> wf_groups d"

section \<open>The routes\<close>

lemma scim_gate_result:
  assumes "scim_gate u s = (r, t)"
  shows "w_db t = w_db s \<and> w_env t = w_env s \<and> w_published t = w_published s \<and>
     (\<forall>e. r = Inl e \<longrightarrow> he_status_code e \<in> {403, 500})"
proof -
  have "keeps (same w_db) (scim_gate u)" "keeps (same w_env) (scim_gate u)" "keeps (same w_published) (scim_gate u)"
    by (auto simp: scim_gate_def intro!: op_intro)
  with assms have "w_db t = w_db s \<and> w_env t = w_env s \<and> w_published t = w_published s"
    by (blast dest: keeps_same_result)
  moreover have "\<forall>e. r = Inl e \<longrightarrow> he_status_code e \<in> {403, 500}" using assms
    by (auto simp: scim_gate_def require_roles_gate_def role_dependency_def internal_server_error_def
        HTTPException_def forbidden_exception_def run_ops record_rbac_denial_def metric_increment_def
        split: sum.splits if_splits)
  ultimately show ?thesis by blast
qed

lemma scim_route_ok:
  assumes "scim_route u m s = (Inr x, t)"
  obtains s1 where "m s1 = (Inr x, t)" and "w_db s1 = w_db s" and "w_env s1 = w_env s"
    and "w_published s1 = w_published s" and "w_pending s1 = []"
proof -
  from assms obtain v s0 where gate: "scim_gate u s = (Inr v, s0)"
    and m: "m (s0\<lparr>w_pending := []\<rparr>) = (Inr x, t)"
    by (auto simp: scim_route_def map_error_def new_service_def run_ops split: prod.splits sum.splits)
  with scim_gate_result [OF gate] that [of "s0\<lparr>w_pending := []\<rparr>"] show ?thesis by simp
qed

lemma scim_route_err:
  assumes run: "scim_route u m s = (Inl e, t)"
    and m: "\<And>s1 x. m s1 = (Inl x, t) \<Longrightarrow> w_db s1 = w_db s \<Longrightarrow> w_env s1 = w_env s \<Longrightarrow>
      only_denied u (scim_response_error x) s1 t"
  shows "only_denied u e s t"
proof (cases "scim_gate u s")
  case (Pair r s0)
  note gate = scim_gate_result [OF Pair]
  show ?thesis
  proof (cases r)
    case (Inl g)
    with run Pair have "e = scim_http_exception (he_status_code g) (he_detail g) None" and "t = s0"
      by (auto simp: scim_route_def map_error_def run_ops)
    with gate Inl show ?thesis by (auto simp: only_denied_def)
  next
    case (Inr v)
    with run Pair obtain x where "m (s0\<lparr>w_pending := []\<rparr>) = (Inl x, t)" and "e = scim_response_error x"
      by (auto simp: scim_route_def map_error_def new_service_def run_ops split: prod.splits sum.splits)
    with m [of "s0\<lparr>w_pending := []\<rparr>" x] gate show ?thesis by (auto simp: only_denied_def)
  qed
qed

section \<open>Audit events\<close>

definition audits_added :: "user \<Rightarrow> int \<Rightarrow> string list \<Rightarrow> db \<Rightarrow> db \<Rightarrow> bool" where
  "audits_added actor target actions d d' \<longleftrightarrow>
     (\<exists>evs. d' = d\<lparr>db_audit := db_audit d @ evs\<rparr> \<and> map ae_action evs = actions \<and>
        list_all (\<lambda>ev. ae_result ev = ''succeeded'' \<and> ae_requester_id ev = u_id actor \<and>
          ae_target_user_id ev = target) evs)"

lemma audits_added_Nil: "audits_added actor i [] d d"
  unfolding audits_added_def by (rule exI [of _ "[]"]) simp

lemma audits_addedE:
  assumes "audits_added actor i as d d'"
  obtains evs where "d' = d\<lparr>db_audit := db_audit d @ evs\<rparr>" and "map ae_action evs = as"
    and "list_all (\<lambda>ev. ae_result ev = ''succeeded'' \<and> ae_requester_id ev = u_id actor \<and>
          ae_target_user_id ev = i) evs"
  using assms unfolding audits_added_def by (elim exE conjE) (rule that)

lemma audits_added_Cons:
  assumes "audits_added actor i [a] d d1" and "audits_added actor i as d1 d2"
  shows "audits_added actor i (a # as) d d2"
proof -
  from assms(1) obtain evs where 1: "d1 = d\<lparr>db_audit := db_audit d @ evs\<rparr>" "map ae_action evs = [a]"
    "list_all (\<lambda>ev. ae_result ev = ''succeeded'' \<and> ae_requester_id ev = u_id actor \<and> ae_target_user_id ev = i) evs"
    by (rule audits_addedE)
  from assms(2) obtain evs' where 2: "d2 = d1\<lparr>db_audit := db_audit d1 @ evs'\<rparr>" "map ae_action evs' = as"
    "list_all (\<lambda>ev. ae_result ev = ''succeeded'' \<and> ae_requester_id ev = u_id actor \<and> ae_target_user_id ev = i) evs'"
    by (rule audits_addedE)
  show ?thesis
    unfolding audits_added_def by (rule exI [of _ "evs @ evs'"]) (simp add: 1 2)
qed

lemma audits_added_sel:
  assumes "audits_added actor i as d d'"
  shows "db_users d' = db_users d" "db_profiles d' = db_profiles d" "db_groups d' = db_groups d"
    "db_group_members d' = db_group_members d" "prefix (db_audit d) (db_audit d')"
    "wf_directory d' = wf_directory d"
proof -
  from assms obtain evs where "d' = d\<lparr>db_audit := db_audit d @ evs\<rparr>" by (rule audits_addedE)
  then show "db_users d' = db_users d" "db_profiles d' = db_profiles d" "db_groups d' = db_groups d"
    "db_group_members d' = db_group_members d" "prefix (db_audit d) (db_audit d')"
    "wf_directory d' = wf_directory d"
    by (simp_all add: wf_directory_def wf_users_def wf_groups_def wf_profiles_def manager_edges_def)
qed

lemma record_provisioning_audit_ok:
  assumes "record_provisioning_audit actor u action ''succeeded'' reason slug s = (Inr r, t)"
  shows "audits_added actor (u_id u) [action] (w_db s) (w_db t) \<and> w_env t = w_env s \<and>
     w_published t = w_published s \<and> w_pending t = w_pending s"
proof -
  from assms obtain e where e: "find_audit_entitlement slug (w_db s) = Some e"
    by (cases "find_audit_entitlement slug (w_db s)")
      (auto simp: record_provisioning_audit_def get_scim_audit_entitlement_def run_ops)
  let ?ev = "audit_row (u_id actor) (u_id u) action (ent_application_id e) (ent_id e) ''succeeded'' reason None s"
  have "t = audit_post ?ev s"
    using assms by (simp add: record_provisioning_audit_def get_scim_audit_entitlement_def run_ops e)
  moreover have "audits_added actor (u_id u) [action] (w_db s) (w_db (audit_post ?ev s))"
    unfolding audits_added_def by (rule exI [of _ "[?ev]"]) simp
  ultimately show ?thesis by simp
qed

definition enterprise_actions :: "string list \<Rightarrow> string list" where
  "enterprise_actions changes = map (\<lambda>c. fst (the (map_of ENTERPRISE_CHANGE_AUDIT c))) changes"

lemma record_enterprise_audits_ok:
  assumes "record_enterprise_audits actor u changes s = (Inr r, t)"
  shows "audits_added actor (u_id u) (enterprise_actions changes) (w_db s) (w_db t) \<and> w_env t = w_env s \<and>
     w_published t = w_published s \<and> w_pending t = w_pending s"
  using assms
proof (induction changes arbitrary: s)
  case Nil
  then show ?case by (simp add: enterprise_actions_def audits_added_Nil)
next
  case (Cons c cs)
  then obtain a reason s1 r1 where c: "map_of ENTERPRISE_CHANGE_AUDIT c = Some (a, reason)"
    and 1: "record_provisioning_audit actor u a ''succeeded'' reason SCIM_ENTERPRISE_AUDIT_ENTITLEMENT_SLUG s = (Inr r1, s1)"
    and 2: "record_enterprise_audits actor u cs s1 = (Inr r, t)"
    by (auto simp: from_option_def elim!: and_then_okE split: option.splits)
  from record_provisioning_audit_ok [OF 1] Cons.IH [OF 2] c show ?case
    by (auto simp: enterprise_actions_def intro: audits_added_Cons)
qed

section \<open>The enterprise profile\<close>

definition enterprise_desired :: "bool \<Rightarrow> enterprise_profile_mutation option \<Rightarrow> enterprise_profile_mutation" where
  "enterprise_desired replace mutation =
     (case mutation of
        None \<Rightarrow> if replace then clear_enterprise_mutation else empty_mutation
      | Some m \<Rightarrow> desired_values m replace)"

lemma desired_values_False [simp]: "desired_values m False = m"
  by (simp add: desired_values_def desired_value_def option.case_eq_if)

lemma mutation_outcome_empty: "mutation_outcome u empty_mutation [] [] d d"
  by (simp add: mutation_outcome_def empty_mutation_def all_null_def change_kinds_def ENTERPRISE_FIELDS_def
      field_changes_def manager_changes_def split: option.split)

lemma patch_is_create: "patch_enterprise_profile = create_enterprise_profile"
  by (simp add: fun_eq_iff patch_enterprise_profile_def create_enterprise_profile_def)

lemma create_enterprise_profile_ok:
  assumes run: "create_enterprise_profile u m s = (Inr (changes, events), t)"
    and wf: "wf_profiles (w_db s)" and env: "fresh_keys (w_env s)" and u: "u_id u \<in> u_id ` set (db_users (w_db s))"
  shows "w_env t = w_env s \<and> wf_profiles (w_db t) \<and>
     mutation_outcome u (enterprise_desired False m) changes (map snd events) (w_db s) (w_db t)"
proof (cases m)
  case None
  with run wf show ?thesis by (simp add: create_enterprise_profile_def enterprise_desired_def mutation_outcome_empty)
next
  case (Some v)
  with run have "apply_profile_mutation u v False s = (Inr (changes, events), t)"
    by (simp add: create_enterprise_profile_def)
  from apply_profile_mutation_effect [OF this wf env u] Some show ?thesis by (simp add: enterprise_desired_def)
qed

lemma replace_enterprise_profile_ok:
  assumes run: "replace_enterprise_profile u m s = (Inr (changes, events), t)"
    and wf: "wf_profiles (w_db s)" and env: "fresh_keys (w_env s)" and u: "u_id u \<in> u_id ` set (db_users (w_db s))"
  shows "w_env t = w_env s \<and> wf_profiles (w_db t) \<and>
     mutation_outcome u (enterprise_desired True m) changes (map snd events) (w_db s) (w_db t)"
proof (cases m)
  case (Some v)
  with run have "apply_profile_mutation u v True s = (Inr (changes, events), t)"
    by (simp add: replace_enterprise_profile_def)
  from apply_profile_mutation_effect [OF this wf env u] Some show ?thesis by (simp add: enterprise_desired_def)
next
  case None
  show ?thesis
  proof (cases "profile_of (w_db s) (u_id u)")
    case no: None
    have "all_null clear_enterprise_mutation" by (simp add: all_null_def clear_enterprise_mutation_def)
    with run None no wf show ?thesis
      by (simp add: replace_enterprise_profile_def clear_enterprise_profile_def run_ops enterprise_desired_def
          mutation_outcome_def)
  next
    case (Some p)
    with run None have "apply_profile_mutation u clear_enterprise_mutation False s = (Inr (changes, events), t)"
      by (simp add: replace_enterprise_profile_def clear_enterprise_profile_def run_ops)
    from apply_profile_mutation_effect [OF this wf env u] None show ?thesis by (simp add: enterprise_desired_def)
  qed
qed

lemma keeps_pending_fields [op_intro]: "keeps (same w_pending) (set_enterprise_fields fs u m dr)"
  by (induction fs arbitrary: dr) (auto simp: set_enterprise_field_def intro!: op_intro)

lemma keeps_pending_enterprise [op_intro]: "keeps (same w_pending) (create_enterprise_profile u m)"
  by (auto simp: create_enterprise_profile_def apply_profile_mutation_def apply_to_profile_def insert_profile_def
      set_manager_def flush_profile_def ensure_employee_number_available_def validate_manager_def Let_def
      unique_constraint_def intro!: op_intro split: option.split)

text \<open>A mutation touches the row of the user, in its department only, and the profiles.\<close>

lemma mutation_outcome_frame:
  assumes "mutation_outcome u desired changes events d d'"
  shows "\<exists>users profiles. d' = d\<lparr>db_users := users, db_profiles := profiles\<rparr> \<and>
    (users = db_users d \<or> (\<exists>dep. users = put_row u_id (u\<lparr>u_department := dep\<rparr>) (db_users d)))"
proof (cases "d' = d")
  case True
  then have "d' = d\<lparr>db_users := db_users d, db_profiles := db_profiles d\<rparr>" by simp
  then show ?thesis by blast
next
  case False
  obtain p now rows where "d' = profile_written u desired p now (d\<lparr>db_profiles := rows\<rparr>)"
  proof (cases "profile_of d (u_id u)")
    case None
    with assms False obtain p now where
      "d' = profile_written u desired p now (d\<lparr>db_profiles := db_profiles d @ [p]\<rparr>)"
      by (auto simp: mutation_outcome_def split: if_splits)
    with that show thesis by blast
  next
    case (Some p)
    with assms False obtain now where "d' = profile_written u desired p now (d\<lparr>db_profiles := db_profiles d\<rparr>)"
      by (auto simp: mutation_outcome_def split: if_splits)
    with that show thesis by blast
  qed
  then show ?thesis by (auto simp: profile_written_def)
qed

lemma mutation_outcome_users:
  assumes out: "mutation_outcome u desired changes events d d'" and u: "u \<in> set (db_users d)"
  shows "wf_users d \<Longrightarrow> wf_users d'" and "wf_groups d \<Longrightarrow> wf_groups d'"
    and "map u_id (db_users d') = map u_id (db_users d)"
proof -
  from mutation_outcome_frame [OF out] obtain users profiles where
    d': "d' = d\<lparr>db_users := users, db_profiles := profiles\<rparr>"
    and users: "users = db_users d \<or> (\<exists>dep. users = put_row u_id (u\<lparr>u_department := dep\<rparr>) (db_users d))"
    by blast
  from users show ids: "map u_id (db_users d') = map u_id (db_users d)" by (auto simp: d')
  then have "u_id ` set (db_users d') = u_id ` set (db_users d)" by (metis list.set_map)
  then show "wf_groups d \<Longrightarrow> wf_groups d'" by (simp add: wf_groups_def d')
  show "wf_users d'" if wf: "wf_users d"
  proof -
    have "name_free u_id email_name (u\<lparr>u_department := dep\<rparr>) (db_users d)" for dep
      using wf u unfolding wf_users_def by (rule old_name_free) (simp_all add: email_name_def)
    with wf users show ?thesis by (auto simp: wf_users_def d' unique_names_put_row)
  qed
qed

section \<open>The bodies of the user requests\<close>

text \<open>
  An update of user \<open>i\<close>: the row becomes \<open>new old\<close>, the enterprise profile is overlaid with the
  desired values, one audit event is added for the update and one for each change, and the
  events of the changes are published.
\<close>

definition user_changed ::
  "user \<Rightarrow> string \<Rightarrow> (user \<Rightarrow> user) \<Rightarrow> enterprise_profile_mutation \<Rightarrow> world \<Rightarrow> world \<Rightarrow> int \<Rightarrow> bool" where
  "user_changed actor i new desired s t k \<longleftrightarrow>
     (\<exists>old changes events d1. find_user i (w_db s) = Some old \<and> k = u_id old \<and>
        mutation_outcome (new old) desired changes events
          ((w_db s)\<lparr>db_users := put_row u_id (new old) (db_users (w_db s))\<rparr>) d1 \<and>
        audits_added actor k (successful_update_action (new old) # enterprise_actions changes) d1 (w_db t) \<and>
        map snd (w_published t) = map snd (w_published s) @ events \<and> w_env t = w_env s)"

definition user_created ::
  "user \<Rightarrow> scim_user_payload \<Rightarrow> world \<Rightarrow> world \<Rightarrow> int \<Rightarrow> bool" where
  "user_created actor user_data s t k \<longleftrightarrow>
     (\<exists>u changes events d1. k = u_id u \<and> k \<notin> u_id ` set (db_users (w_db s)) \<and>
        k = env_key (w_env s) (map u_id (db_users (w_db s))) \<and>
        find_user_by_user_name (sup_user_name user_data) (w_db s) = None \<and>
        u_name u = sup_display_name user_data \<and> u_email u = lower (sup_user_name user_data) \<and>
        u_active u = sup_active user_data \<and> u_operator_role u = ''employee'' \<and>
        u_department u = ''SCIM Provisioned'' \<and>
        mutation_outcome u (enterprise_desired False (sup_enterprise_profile user_data)) changes events
          ((w_db s)\<lparr>db_users := db_users (w_db s) @ [u]\<rparr>) d1 \<and>
        audits_added actor k (''scim_user_create'' # enterprise_actions changes) d1 (w_db t) \<and>
        map snd (w_published t) = map snd (w_published s) @ IdentityEvent (UserProvisioned k (u_email u)) # events \<and>
        w_env t = w_env s)"

lemma publish_domain_events_ok:
  "publish_domain_events evs s = (Inr r, t) \<Longrightarrow>
     w_db t = w_db s \<and> w_env t = w_env s \<and> w_pending t = w_pending s \<and> w_published t = w_published s @ evs"
  by (auto simp: publish_domain_events_def metric_increment_def run_ops)

lemma publish_pending_events_ok:
  "publish_pending_events s = (Inr r, t) \<Longrightarrow>
     w_db t = w_db s \<and> w_env t = w_env s \<and> w_published t = w_published s @ w_pending s"
  by (auto simp: publish_pending_events_def publish_domain_events_def metric_increment_def run_ops)

lemma finish_user_update_ok:
  assumes "finish_user_update actor u outcome s = (Inr k, t)"
  shows "k = u_id u \<and>
     audits_added actor k (successful_update_action u # enterprise_actions (fst outcome)) (w_db s) (w_db t) \<and>
     w_env t = w_env s \<and> w_published t = w_published s @ snd outcome"
proof -
  from assms obtain s1 s2 where
    1: "record_provisioning_audit actor u (successful_update_action u) ''succeeded''
         (successful_update_reason u) SCIM_AUDIT_ENTITLEMENT_SLUG s = (Inr (), s1)"
    and 2: "record_enterprise_audits actor u (fst outcome) s1 = (Inr (), s2)"
    and 3: "(publish_domain_events (snd outcome) :: unit wop) s2 = (Inr (), t)" and k: "k = u_id u"
    by (auto simp: finish_user_update_def elim!: and_then_okE)
  from record_provisioning_audit_ok [OF 1] record_enterprise_audits_ok [OF 2] publish_domain_events_ok [OF 3] k
  show ?thesis by (auto intro: audits_added_Cons)
qed

lemma wf_directory_rest:
  assumes "wf_directory d" and "unique_names u_id email_name users" and "set (map u_id (db_users d)) \<subseteq> u_id ` set users"
  shows "wf_users (d\<lparr>db_users := users\<rparr>)" and "wf_groups (d\<lparr>db_users := users\<rparr>)"
  using assms by (auto simp: wf_directory_def wf_users_def wf_groups_def)

lemma wf_profiles_users:
  assumes "wf_profiles d" and "distinct (map u_id users)" and "u_id ` set (db_users d) \<subseteq> u_id ` set users"
  shows "wf_profiles (d\<lparr>db_users := users\<rparr>)"
  using assms by (auto simp: wf_profiles_def manager_edges_def subset_iff)

lemma outcome_directory:
  assumes out: "mutation_outcome u desired changes events d d1" and u: "u \<in> set (db_users d)"
    and wf: "wf_profiles d1" "wf_users d" "wf_groups d" and audits: "audits_added actor i acts d1 d'"
  shows "wf_directory d' \<and> map u_id (db_users d') = map u_id (db_users d)"
  using mutation_outcome_users [OF out u] wf audits_added_sel [OF audits] by (simp add: wf_directory_def)

lemma user_update_body:
  assumes run: "and_then m (\<lambda>u. and_then (enterprise u) (finish_user_update actor u)) s = (Inr k, t)"
    and m: "\<And>u s1. m s = (Inr u, s1) \<Longrightarrow> \<exists>old. find_user i (w_db s) = Some old \<and> u = new old \<and>
       name_free u_id email_name u (db_users (w_db s)) \<and>
       w_db s1 = (w_db s)\<lparr>db_users := put_row u_id u (db_users (w_db s))\<rparr> \<and> w_env s1 = w_env s"
    and ent: "\<And>u s1 changes events s2. enterprise u s1 = (Inr (changes, events), s2) \<Longrightarrow> wf_profiles (w_db s1) \<Longrightarrow>
       fresh_keys (w_env s1) \<Longrightarrow> u_id u \<in> u_id ` set (db_users (w_db s1)) \<Longrightarrow>
       w_env s2 = w_env s1 \<and> wf_profiles (w_db s2) \<and>
       mutation_outcome u desired changes (map snd events) (w_db s1) (w_db s2)"
    and quiet: "unpublished m" "\<And>u. unpublished (enterprise u)"
    and new: "\<And>u. u_id (new u) = u_id u"
    and wf: "wf_directory (w_db s)" and env: "fresh_keys (w_env s)"
  shows "user_changed actor i new desired s t k \<and> wf_directory (w_db t) \<and> k \<in> u_id ` set (db_users (w_db t))"
proof -
  from run obtain u s1 changes events s2 where 1: "m s = (Inr u, s1)"
    and 2: "enterprise u s1 = (Inr (changes, events), s2)"
    and 3: "finish_user_update actor u (changes, events) s2 = (Inr k, t)"
    by (auto elim!: and_then_okE)
  from m [OF 1] obtain old where old: "find_user i (w_db s) = Some old" "u = new old"
    and free: "name_free u_id email_name u (db_users (w_db s))"
    and s1: "w_db s1 = (w_db s)\<lparr>db_users := put_row u_id u (db_users (w_db s))\<rparr>" "w_env s1 = w_env s"
    by blast
  have uid: "u_id u \<in> u_id ` set (db_users (w_db s))"
    using find_user_row [OF old(1)] old(2) new by auto
  then have u: "u \<in> set (db_users (w_db s1))" by (simp add: s1 put_row_iff)
  have ids: "set (map u_id (db_users (w_db s))) \<subseteq> u_id ` set (put_row u_id u (db_users (w_db s)))"
    using map_key_put_row [of u_id u "db_users (w_db s)"] by (metis order_refl set_map)
  have wf1: "wf_profiles (w_db s1)" unfolding s1
    by (rule wf_profiles_users) (use wf ids in \<open>auto simp: wf_directory_def wf_profiles_def\<close>)
  have "unique_names u_id email_name (put_row u_id u (db_users (w_db s)))"
    using wf free by (intro unique_names_put_row) (simp_all add: wf_directory_def wf_users_def)
  then have wf2: "wf_users (w_db s1)" "wf_groups (w_db s1)"
    unfolding s1 by (simp_all only: wf_directory_rest [OF wf _ ids])
  from ent [OF 2 wf1] env s1 u have
    s2: "w_env s2 = w_env s1" "wf_profiles (w_db s2)"
      "mutation_outcome u desired changes (map snd events) (w_db s1) (w_db s2)" by auto
  from finish_user_update_ok [OF 3] have k: "k = u_id u"
    and t: "w_published t = w_published s2 @ events" "w_env t = w_env s2"
    and audits: "audits_added actor k (successful_update_action u # enterprise_actions changes) (w_db s2) (w_db t)"
    by auto
  from outcome_directory [OF s2(3) u s2(2) wf2 audits]
  have "wf_directory (w_db t)" and tids: "map u_id (db_users (w_db t)) = map u_id (db_users (w_db s1))" by auto
  moreover have "k \<in> u_id ` set (db_users (w_db t))"
  proof -
    have "k \<in> set (map u_id (db_users (w_db t)))" unfolding tids using u k by simp
    then show ?thesis by simp
  qed
  moreover have "w_published s2 = w_published s"
    using quiet 1 2 unfolding unpublished_def by metis
  ultimately show ?thesis
    using old k new s2 audits t s1 unfolding user_changed_def by auto
qed

lemma quiet_finish_user_update: "quiet_failure (finish_user_update actor u outcome)"
  unfolding finish_user_update_def
  by (intro quiet_failure_then_no_raise quiet_failure_block unpublished_intro quiet_failure_no_raise op_intro)

lemma quiet_user_update:
  "unpublished m \<Longrightarrow> (\<And>u. unpublished (enterprise u)) \<Longrightarrow>
   quiet_failure (and_then m (\<lambda>u. and_then (enterprise u) (finish_user_update actor u)))"
  by (intro quiet_failure_and_then quiet_finish_user_update)

section \<open>Results of the user requests\<close>

lemma failed_withD: "failed_with actor s res \<Longrightarrow> res = (r, t) \<Longrightarrow>
  \<exists>e. r = Inl e \<and> only_denied actor (scim_response_error e) s t"
  by (auto simp: failed_with_def)

lemma user_attempt:
  assumes run: "and_then (try_except (rollback_on_error m) (user_mutation_failed actor i)) (\<lambda>k. user_result k b) s = (r, t)"
    and body: "quiet_failure m" and row: "\<And>k t. m s = (Inr k, t) \<Longrightarrow> k \<in> u_id ` set (db_users (w_db t))"
  shows "case r of Inl e \<Rightarrow> only_denied actor (scim_response_error e) s t
    | Inr res \<Rightarrow> \<exists>k. m s = (Inr k, t) \<and> user_result k b t = (Inr res, t)"
proof (cases "try_except (rollback_on_error m) (user_mutation_failed actor i) s")
  case (Pair q s1)
  note res = attempt_result [OF Pair body failed_user_mutation]
  show ?thesis
  proof (cases q)
    case (Inl e)
    with Pair run res show ?thesis by auto
  next
    case (Inr k)
    with res have k: "m s = (Inr k, s1)" by simp
    have "row_by u_id k (db_users (w_db s1)) \<noteq> None" using row [OF k] by (simp add: row_by_absent)
    then obtain x where x: "user_result k b s1 = (Inr x, s1)" using no_raise_user_result by blast
    with Pair run Inr have "r = Inr x" and "t = s1" by auto
    with k x show ?thesis by auto
  qed
qed

lemma parse_failed:
  assumes "(case e of ScimExn exc \<Rightarrow> audit_scim_exception_and_raise actor target exc | _ \<Rightarrow> raise e) s = (r, t)"
  shows "\<exists>e. r = Inl e \<and> only_denied actor (scim_response_error e) s t"
proof (rule failed_withD [OF _ assms])
  show "failed_with actor s ((case e of ScimExn exc \<Rightarrow> audit_scim_exception_and_raise actor target exc | _ \<Rightarrow> raise e) s)"
    using not_scim_500 [of e]
    by (cases e) (auto simp: audit_scim_exception_and_raise_def failed_audit_and_raise failed_Inl_500)
qed

lemma replaced_user_new [simp]: "u_id (u\<lparr>u_email := e, u_name := n, u_active := a\<rparr>) = u_id u"
  by simp

lemma replace_scim_user_result:
  assumes run: "replace_scim_user actor i payload b s = (r, t)"
    and wf: "wf_directory (w_db s)" and env: "fresh_keys (w_env s)"
  shows "case r of Inl e \<Rightarrow> only_denied actor (scim_response_error e) s t
    | Inr res \<Rightarrow> \<exists>user_data k. parse_user_payload (env_email_address (w_env s)) payload = Inr user_data \<and>
        user_changed actor i (\<lambda>u. u\<lparr>u_email := lower (sup_user_name user_data), u_name := sup_display_name user_data,
            u_active := sup_active user_data\<rparr>)
          (enterprise_desired True (sup_enterprise_profile user_data)) s t k \<and>
        wf_directory (w_db t) \<and> user_result k b t = (Inr res, t)"
proof (cases "parse_user_payload (env_email_address (w_env s)) payload")
  case (Inl e)
  with run have "(case e of ScimExn exc \<Rightarrow> audit_scim_exception_and_raise actor None exc | _ \<Rightarrow> raise e) s = (r, t)"
    by (cases e) (simp_all add: replace_scim_user_def)
  from parse_failed [OF this] show ?thesis by auto
next
  case (Inr user_data)
  let ?m = "replace_user i (sup_user_name user_data) (sup_display_name user_data) (sup_active user_data)"
  let ?ent = "\<lambda>u. replace_enterprise_profile u (sup_enterprise_profile user_data)"
  let ?body = "and_then ?m (\<lambda>u. and_then (?ent u) (finish_user_update actor u))"
  have quiet: "unpublished ?m" "\<And>u. unpublished (?ent u)" by (intro unpublished_intro)+
  have body: "user_changed actor i (\<lambda>u. u\<lparr>u_email := lower (sup_user_name user_data),
        u_name := sup_display_name user_data, u_active := sup_active user_data\<rparr>)
      (enterprise_desired True (sup_enterprise_profile user_data)) s t k \<and> wf_directory (w_db t) \<and>
      k \<in> u_id ` set (db_users (w_db t))" if "?body s = (Inr k, t)" for k t
    by (rule user_update_body [OF that _ replace_enterprise_profile_ok quiet _ wf env])
      (use replace_user_effect wf in \<open>auto simp: wf_directory_def wf_users_def\<close>)
  from run Inr have "and_then (try_except (rollback_on_error ?body) (user_mutation_failed actor (Some i)))
      (\<lambda>k. user_result k b) s = (r, t)"
    by (simp add: replace_scim_user_def)
  from user_attempt [OF this quiet_user_update [OF quiet]] body Inr show ?thesis
    by (auto split: sum.splits)
qed

lemma patch_scim_user_result:
  assumes run: "patch_scim_user actor i payload b s = (r, t)"
    and wf: "wf_directory (w_db s)" and env: "fresh_keys (w_env s)"
  shows "case r of Inl e \<Rightarrow> only_denied actor (scim_response_error e) s t
    | Inr res \<Rightarrow> \<exists>old patch k. find_user i (w_db s) = Some old \<and>
        parse_patch_payload (env_email_address (w_env s)) old payload = Inr patch \<and>
        user_changed actor i (patched_user (spt_user_mutation patch))
          (enterprise_desired False (spt_enterprise_profile patch)) s t k \<and>
        wf_directory (w_db t) \<and> user_result k b t = (Inr res, t)"
proof (cases "find_user i (w_db s)")
  case None
  with run have "user_mutation_failed actor (Some i) (UserServiceExn (UserNotFoundError i)) s = (r, t)"
    by (simp add: patch_scim_user_def)
  from failed_withD [OF failed_user_mutation this] show ?thesis by auto
next
  case (Some old)
  show ?thesis
  proof (cases "parse_patch_payload (env_email_address (w_env s)) old payload")
    case (Inl e)
    with run Some have
      "(case e of ScimExn exc \<Rightarrow> audit_scim_exception_and_raise actor (Some old) exc | _ \<Rightarrow> raise e) s = (r, t)"
      by (cases e) (simp_all add: patch_scim_user_def)
    from parse_failed [OF this] show ?thesis by auto
  next
    case (Inr patch)
    let ?m = "patch_user i (spt_user_mutation patch)"
    let ?ent = "\<lambda>u. patch_enterprise_profile u (spt_enterprise_profile patch)"
    let ?body = "and_then ?m (\<lambda>u. and_then (?ent u) (finish_user_update actor u))"
    have quiet: "unpublished ?m" "\<And>u. unpublished (?ent u)" by (intro unpublished_intro)+
    have body: "user_changed actor i (patched_user (spt_user_mutation patch))
        (enterprise_desired False (spt_enterprise_profile patch)) s t k \<and> wf_directory (w_db t) \<and>
        k \<in> u_id ` set (db_users (w_db t))" if "?body s = (Inr k, t)" for k t
      by (rule user_update_body [OF that _ create_enterprise_profile_ok [folded patch_is_create] quiet _ wf env])
        (use patch_user_effect wf in \<open>auto simp: wf_directory_def wf_users_def\<close>)
    from run Some Inr have "and_then (try_except (rollback_on_error ?body) (user_mutation_failed actor (Some i)))
        (\<lambda>k. user_result k b) s = (r, t)"
      by (simp add: patch_scim_user_def)
    from user_attempt [OF this quiet_user_update [OF quiet]] body Some Inr show ?thesis
      by (auto split: sum.splits)
  qed
qed

text \<open>The body of the creation.\<close>

definition create_body :: "user \<Rightarrow> scim_user_payload \<Rightarrow> int wop" where
  "create_body actor user_data =
     and_then (create_user (sup_user_name user_data) (sup_display_name user_data) (sup_active user_data)) (\<lambda>user.
     and_then (create_enterprise_profile user (sup_enterprise_profile user_data)) (\<lambda>(changes, events).
     and_then (block [
       record_provisioning_audit actor user ''scim_user_create'' ''succeeded'' ''User created''
         SCIM_AUDIT_ENTITLEMENT_SLUG,
       record_enterprise_audits actor user changes,
       publish_pending_events,
       publish_domain_events events]) (\<lambda>_. ret (u_id user))))"

lemma quiet_finish_create:
  "quiet_failure (and_then (block [
     record_provisioning_audit actor u action ''succeeded'' reason slug, record_enterprise_audits actor u changes,
     publish_pending_events, publish_domain_events events]) (\<lambda>_. ret k))"
  by (intro quiet_failure_then_no_raise quiet_failure_block unpublished_intro quiet_failure_no_raise op_intro)

lemma quiet_failure_case_prod: "(\<And>a b. quiet_failure (f a b)) \<Longrightarrow> quiet_failure (case x of (a, b) \<Rightarrow> f a b)"
  by (cases x) simp

lemma quiet_create_body: "quiet_failure (create_body actor user_data)"
  unfolding create_body_def
  by (intro quiet_failure_and_then quiet_failure_case_prod quiet_finish_create unpublished_intro)

lemma create_body_ok:
  assumes run: "create_body actor user_data s = (Inr k, t)" and wf: "wf_directory (w_db s)"
    and env: "fresh_keys (w_env s)" and pending: "w_pending s = []"
  shows "user_created actor user_data s t k \<and> wf_directory (w_db t) \<and> k \<in> u_id ` set (db_users (w_db t))"
proof -
  let ?d = "w_db s"
  from run obtain u s1 changes events s2 s3 s4 s5 where
    1: "create_user (sup_user_name user_data) (sup_display_name user_data) (sup_active user_data) s = (Inr u, s1)"
    and 2: "create_enterprise_profile u (sup_enterprise_profile user_data) s1 = (Inr (changes, events), s2)"
    and 3: "record_provisioning_audit actor u ''scim_user_create'' ''succeeded'' ''User created''
         SCIM_AUDIT_ENTITLEMENT_SLUG s2 = (Inr (), s3)"
    and 4: "record_enterprise_audits actor u changes s3 = (Inr (), s4)"
    and 5: "(publish_pending_events :: unit wop) s4 = (Inr (), s5)"
    and 6: "(publish_domain_events events :: unit wop) s5 = (Inr (), t)"
    and k: "k = u_id u"
    unfolding create_body_def by (auto elim!: and_then_okE)
  note row = conjunct1 [OF create_user_effect [OF 1]] and cu = conjunct2 [OF create_user_effect [OF 1]]
  have key: "u_id u = env_key (w_env s) (map u_id (db_users ?d))" by (subst row) simp
  then have fresh: "u_id u \<notin> u_id ` set (db_users ?d)" using fresh_keys_map [OF env] by simp
  have name: "find_user_by_user_name (sup_user_name user_data) ?d = None" using cu by blast
  have u: "u_name u = sup_display_name user_data" "u_email u = lower (sup_user_name user_data)"
    "u_active u = sup_active user_data" "u_operator_role u = ''employee''" "u_department u = ''SCIM Provisioned''"
    by (subst row, simp add: DEFAULT_PROVISIONED_OPERATOR_ROLE_def DEFAULT_PROVISIONED_DEPARTMENT_def)+
  have s1: "w_db s1 = ?d\<lparr>db_users := db_users ?d @ [u]\<rparr>" "w_env s1 = w_env s"
    "map snd (w_pending s1) = [IdentityEvent (UserProvisioned (u_id u) (u_email u))]"
    using cu pending by auto
  have uin: "u \<in> set (db_users (w_db s1))" by (simp add: s1)
  have free: "name_free u_id email_name u (db_users ?d)"
    by (rule lookup_name_free [where n = "lower (sup_user_name user_data)"])
      (use wf name in \<open>simp_all add: wf_directory_def wf_users_def email_name_def u find_user_by_user_name_def\<close>)
  have wf1: "wf_profiles (w_db s1)" unfolding s1
    by (rule wf_profiles_users) (use wf fresh in \<open>auto simp: wf_directory_def wf_profiles_def\<close>)
  have "unique_names u_id email_name (db_users ?d @ [u])"
    using wf free by (intro unique_names_snoc) (simp_all add: wf_directory_def wf_users_def)
  moreover have "set (map u_id (db_users ?d)) \<subseteq> u_id ` set (db_users ?d @ [u])" by auto
  ultimately have wf2: "wf_users (w_db s1)" "wf_groups (w_db s1)"
    unfolding s1 by (simp_all only: wf_directory_rest [OF wf])
  from create_enterprise_profile_ok [OF 2 wf1] env s1 uin have
    s2: "w_env s2 = w_env s1" "wf_profiles (w_db s2)"
      "mutation_outcome u (enterprise_desired False (sup_enterprise_profile user_data)) changes (map snd events)
         (w_db s1) (w_db s2)" by auto
  have p2: "w_pending s2 = w_pending s1" using keeps_same_result [OF keeps_pending_enterprise 2] .
  have pub: "w_published s2 = w_published s" using unpublished_users(4) unpublished_enterprise(1) 1 2
    unfolding unpublished_def by metis
  note a = record_provisioning_audit_ok [OF 3] and b = record_enterprise_audits_ok [OF 4]
    and c = publish_pending_events_ok [OF 5] and e = publish_domain_events_ok [OF 6]
  have audits: "audits_added actor k (''scim_user_create'' # enterprise_actions changes) (w_db s2) (w_db t)"
    using a b c e k by (auto intro: audits_added_Cons)
  have published: "map snd (w_published t) =
      map snd (w_published s) @ IdentityEvent (UserProvisioned k (u_email u)) # map snd events"
    using a b c e k p2 pub s1 by simp
  have envt: "w_env t = w_env s" using a b c e s2(1) s1(2) by simp
  from outcome_directory [OF s2(3) uin s2(2) wf2 audits]
  have wft: "wf_directory (w_db t)" and tids: "map u_id (db_users (w_db t)) = map u_id (db_users (w_db s1))" by auto
  have "k \<in> set (map u_id (db_users (w_db t)))" unfolding tids using uin k by simp
  then have kin: "k \<in> u_id ` set (db_users (w_db t))" by simp
  have "user_created actor user_data s t k"
    unfolding user_created_def
    by (rule exI [of _ u], rule exI [of _ changes], rule exI [of _ "map snd events"], rule exI [of _ "w_db s2"])
      (use k key fresh name u s2(3) audits published s1 envt in simp)
  with wft kin show ?thesis by simp
qed

lemma create_scim_user_result:
  assumes run: "create_scim_user actor payload b s = (r, t)"
    and wf: "wf_directory (w_db s)" and env: "fresh_keys (w_env s)" and pending: "w_pending s = []"
  shows "case r of Inl e \<Rightarrow> only_denied actor (scim_response_error e) s t
    | Inr res \<Rightarrow> \<exists>user_data k. parse_user_payload (env_email_address (w_env s)) payload = Inr user_data \<and>
        user_created actor user_data s t k \<and> wf_directory (w_db t) \<and> user_result k b t = (Inr res, t)"
proof (cases "parse_user_payload (env_email_address (w_env s)) payload")
  case (Inl e)
  with run have "(case e of ScimExn exc \<Rightarrow> audit_scim_exception_and_raise actor None exc | _ \<Rightarrow> raise e) s = (r, t)"
    by (cases e) (simp_all add: create_scim_user_def)
  from parse_failed [OF this] show ?thesis by auto
next
  case (Inr user_data)
  with run have "and_then (try_except (rollback_on_error (create_body actor user_data))
      (user_mutation_failed actor None)) (\<lambda>k. user_result k b) s = (r, t)"
    by (simp add: create_scim_user_def create_body_def)
  note attempt = user_attempt [OF this quiet_create_body]
  have body: "user_created actor user_data s t k \<and> wf_directory (w_db t) \<and> k \<in> u_id ` set (db_users (w_db t))"
    if "create_body actor user_data s = (Inr k, t)" for k t
    using create_body_ok [OF that wf env pending] .
  from attempt body Inr show ?thesis by (auto split: sum.splits)
qed

end
