(* ===== verification/ScimMembers.thy ===== *)
theory ScimMembers
  imports ScimDirectory
begin

text \<open>
  What the SCIM requests on groups do: the session object, the flush, and the requests.  The
  flush inserts before it deletes, so a request that gives a group a member it already has in
  the table violates the unique constraint on memberships.
\<close>

section \<open>The session object\<close>

definition user_ids :: "db \<Rightarrow> int set" where
  "user_ids d = u_id ` set (db_users d)"

definition session_ok :: "db \<Rightarrow> group_session \<Rightarrow> bool" where
  "session_ok d g \<longleftrightarrow> g_id (gs_group g) \<in> g_id ` set (db_groups d) \<and>
     name_free g_id group_name (gs_group g) (db_groups d) \<and>
     (\<forall>i. Added i \<in> set (gs_memberships g) \<longrightarrow> i \<in> user_ids d)"

text \<open>A step of the service: the tables stay, the session object stays sound, the group is the same.\<close>

definition session_step :: "world \<Rightarrow> group_session \<Rightarrow> (exn + group_session) \<times> world \<Rightarrow> bool" where
  "session_step s g res \<longleftrightarrow> (\<forall>g' t. res = (Inr g', t) \<longrightarrow>
     w_db t = w_db s \<and> w_env t = w_env s \<and> session_ok (w_db s) g' \<and> g_id (gs_group g') = g_id (gs_group g))"

lemma check_duplicate_group_ok:
  assumes "check_duplicate_group n (Some c) s = (Inr r, t)"
    and "unique_names g_id group_name (db_groups (w_db s))" and "g_id g = g_id c" and "g_display_name g = n"
  shows "t = s \<and> name_free g_id group_name g (db_groups (w_db s))"
proof
  show "t = s" using assms(1)
    by (auto simp: check_duplicate_group_def run_ops split: option.splits if_splits)
  have look: "case find (\<lambda>q. map_option lower (group_name q) = Some (lower n)) (db_groups (w_db s)) of
      None \<Rightarrow> True | Some q \<Rightarrow> g_id q = g_id g"
    using assms(1,3)
    by (auto simp: check_duplicate_group_def group_name_def run_ops split: option.splits if_splits)
  have "group_name g = Some n" using assms(4) by (simp add: group_name_def)
  from assms(2) this look show "name_free g_id group_name g (db_groups (w_db s))"
    by (rule lookup_name_free)
qed

lemma new_group_name_ok:
  assumes "check_duplicate_group n None s = (Inr r, t)"
    and "unique_names g_id group_name (db_groups (w_db s))" and "g_display_name g = n"
  shows "t = s \<and> name_free g_id group_name g (db_groups (w_db s))"
proof
  show "t = s" using assms(1)
    by (auto simp: check_duplicate_group_def run_ops split: option.splits if_splits)
  have look: "case find (\<lambda>q. map_option lower (group_name q) = Some (lower n)) (db_groups (w_db s)) of
      None \<Rightarrow> True | Some q \<Rightarrow> g_id q = g_id g"
    using assms(1)
    by (auto simp: check_duplicate_group_def group_name_def run_ops split: option.splits if_splits)
  have "group_name g = Some n" using assms(3) by (simp add: group_name_def)
  from assms(2) this look show "name_free g_id group_name g (db_groups (w_db s))"
    by (rule lookup_name_free)
qed

lemma first_repeated_None: "first_repeated seen ids = None \<longleftrightarrow> distinct ids \<and> set ids \<inter> set seen = {}"
  by (induction seen ids rule: first_repeated.induct) auto

lemma require_group_user_ok:
  "require_group_user i s = (Inr u, t) \<Longrightarrow> t = s \<and> u_id u = i \<and> i \<in> user_ids (w_db s)"
  by (auto simp: require_group_user_def user_ids_def from_option_def run_ops dest: row_by_Some split: option.splits)

lemma require_each_user:
  "for_each ids require_group_user s = (Inr us, t) \<Longrightarrow> t = s \<and> map u_id us = ids \<and> set ids \<subseteq> user_ids (w_db s)"
proof (induction ids arbitrary: us s)
  case (Cons i ids)
  then obtain u s1 us' where u: "require_group_user i s = (Inr u, s1)"
    and rest: "for_each ids require_group_user s1 = (Inr us', t)" and us: "us = u # us'"
    by (auto elim!: and_then_okE)
  from Cons.IH [OF rest] require_group_user_ok [OF u] us show ?case by auto
qed simp

lemma require_distinct_users_ok:
  assumes "require_distinct_users ids s = (Inr us, t)"
  shows "t = s \<and> map u_id us = ids \<and> distinct ids \<and> set ids \<subseteq> user_ids (w_db s)"
proof -
  from assms have "distinct ids" and "for_each ids require_group_user s = (Inr us, t)"
    using first_repeated_None [of "[]" ids]
    by (auto simp: require_distinct_users_def require_group_user_def [abs_def] split: option.splits)
  with require_each_user show ?thesis by blast
qed

lemma rename_group_step:
  assumes "session_ok (w_db s) g" and "unique_names g_id group_name (db_groups (w_db s))"
  shows "session_step s g (rename_group n g s)"
  unfolding session_step_def
proof (intro allI impI)
  fix g' t assume run: "rename_group n g s = (Inr g', t)"
  show "w_db t = w_db s \<and> w_env t = w_env s \<and> session_ok (w_db s) g' \<and> g_id (gs_group g') = g_id (gs_group g)"
  proof (cases "g_display_name (gs_group g) = n")
    case True
    with run assms show ?thesis by (simp add: rename_group_def)
  next
    case False
    with run obtain s1 where check: "check_duplicate_group n (Some (gs_group g)) s = (Inr (), s1)"
      and rest: "and_then (append_pending (IdentityEvent (GroupUpdated (g_id (gs_group g)) n))) (\<lambda>_.
        ret (g\<lparr>gs_group := (gs_group g)\<lparr>g_display_name := n\<rparr>\<rparr>)) s1 = (Inr g', t)"
      by (auto simp: rename_group_def elim!: and_then_okE)
    have "s1 = s \<and> name_free g_id group_name ((gs_group g)\<lparr>g_display_name := n\<rparr>) (db_groups (w_db s))"
      by (rule check_duplicate_group_ok [OF check assms(2)]) simp_all
    with rest assms(1) show ?thesis by (auto simp: session_ok_def run_ops)
  qed
qed

lemma add_member_step: "session_ok (w_db s) g \<Longrightarrow> session_step s g (add_member i g s)"
  unfolding session_step_def add_member_def
  by (auto simp: session_ok_def run_guard dest!: require_group_user_ok elim!: and_then_okE split: if_splits)

lemma session_ok_remove1: "session_ok d g \<Longrightarrow> session_ok d (g\<lparr>gs_memberships := remove1 m (gs_memberships g)\<rparr>)"
  using set_remove1_subset [of m "gs_memberships g"] by (auto simp: session_ok_def)

lemma remove_member_step: "session_ok (w_db s) g \<Longrightarrow> session_step s g (remove_member i g s)"
  unfolding session_step_def remove_member_def
  by (auto simp: from_option_def session_ok_remove1 dest!: require_group_user_ok elim!: and_then_okE
      split: option.splits)

lemma replace_members_ok:
  assumes "replace_members ids g s = (Inr g', t)"
  shows "w_db t = w_db s \<and> w_env t = w_env s \<and> g' = g\<lparr>gs_memberships := map Added ids\<rparr> \<and> distinct ids \<and>
     set ids \<subseteq> user_ids (w_db s)"
proof -
  from assms obtain us s1 where us: "require_distinct_users ids s = (Inr us, s1)"
    and rest: "and_then (append_pending (IdentityEvent
       (GroupMembershipReplaced (g_id (gs_group g)) (map u_id us)))) (\<lambda>_.
     ret (g\<lparr>gs_memberships := map (\<lambda>u. Added (u_id u)) us\<rparr>)) s1 = (Inr g', t)"
    by (auto simp: replace_members_def elim!: and_then_okE)
  from require_distinct_users_ok [OF us] have "s1 = s" "map u_id us = ids" "distinct ids" "set ids \<subseteq> user_ids (w_db s)"
    by auto
  moreover have "map (\<lambda>u. Added (u_id u)) us = map Added (map u_id us)" by simp
  ultimately show ?thesis using rest by (auto simp: run_ops)
qed

lemma replace_members_step:
  assumes "session_ok (w_db s) g" shows "session_step s g (replace_members ids g s)"
  using assms by (auto simp: session_step_def session_ok_def dest!: replace_members_ok)

lemma session_step_and_then:
  assumes "session_step s g (m s)" and "\<And>g' t. session_ok (w_db t) g' \<Longrightarrow> w_db t = w_db s \<Longrightarrow> session_step t g' (f g' t)"
  shows "session_step s g (and_then m f s)"
  unfolding session_step_def
proof (intro allI impI)
  fix g' t assume "and_then m f s = (Inr g', t)"
  then obtain g1 s1 where 1: "m s = (Inr g1, s1)" and 2: "f g1 s1 = (Inr g', t)" by (rule and_then_okE)
  from assms(1) 1 have s1: "w_db s1 = w_db s" "w_env s1 = w_env s" "session_ok (w_db s) g1"
    "g_id (gs_group g1) = g_id (gs_group g)" by (auto simp: session_step_def)
  from assms(2) [of s1 g1] s1 2
  show "w_db t = w_db s \<and> w_env t = w_env s \<and> session_ok (w_db s) g' \<and> g_id (gs_group g') = g_id (gs_group g)"
    by (auto simp: session_step_def)
qed

lemma each_member_step:
  assumes "\<And>i g t. session_ok (w_db t) g \<Longrightarrow> session_step t g (f i g t)" and "session_ok (w_db s) g"
  shows "session_step s g (each_member f ids g s)"
  using assms(2)
proof (induction ids arbitrary: g s)
  case (Cons i ids)
  then show ?case by (auto intro!: session_step_and_then assms(1))
qed (simp add: session_step_def)

lemma patch_group_operation_step:
  assumes "session_ok (w_db s) g" and "unique_names g_id group_name (db_groups (w_db s))"
  shows "session_step s g (patch_group_operation p g s)"
proof (cases p)
  case (DisplayNamePatch opr name)
  then show ?thesis using rename_group_step [OF assms] by (auto simp: session_step_def)
next
  case (MembersPatch opr ids)
  then show ?thesis
    using assms(1) replace_members_step
      each_member_step [where f = add_member] each_member_step [where f = remove_member]
      add_member_step remove_member_step by auto
qed

lemma patch_group_operations_step:
  assumes "session_ok (w_db s) g" and "unique_names g_id group_name (db_groups (w_db s))"
  shows "session_step s g (patch_group_operations ps g s)"
  using assms
proof (induction ps arbitrary: g s)
  case (Cons p ps)
  show ?case unfolding patch_group_operations.simps
  proof (rule session_step_and_then)
    show "session_step s g (patch_group_operation p g s)" by (rule patch_group_operation_step [OF Cons.prems])
    fix g' :: group_session and t :: world assume "session_ok (w_db t) g'" and "w_db t = w_db s"
    with Cons.prems(2) show "session_step t g' (patch_group_operations ps g' t)" by (intro Cons.IH) simp_all
  qed
qed (simp add: session_step_def)

lemma require_group_ok:
  assumes "require_group i s = (Inr g, t)" and wf: "wf_groups (w_db s)"
  shows "t = s \<and> find_group i (w_db s) = Some (gs_group g) \<and> session_ok (w_db s) g \<and>
     gs_memberships g = map Stored (filter (\<lambda>m. gm_group_id m = g_id (gs_group g)) (db_group_members (w_db s)))"
proof -
  obtain r where r: "find_group i (w_db s) = Some r"
    using assms(1) by (cases "find_group i (w_db s)") (simp_all add: require_group_def run_ops)
  then have g: "g = \<lparr>gs_group = r, gs_memberships =
       map Stored (filter (\<lambda>m. gm_group_id m = g_id r) (db_group_members (w_db s)))\<rparr>" and t: "t = s"
    using assms(1) by (auto simp: require_group_def run_ops)
  from r have rin: "r \<in> set (db_groups (w_db s))"
    by (auto simp: find_group_def dest: row_by_Some split: option.splits if_splits)
  have "name_free g_id group_name r (db_groups (w_db s))"
    using _ rin by (rule old_name_free) (use wf in \<open>simp_all add: wf_groups_def\<close>)
  with r rin t show ?thesis by (auto simp: g session_ok_def)
qed

section \<open>The flush\<close>

definition added :: "membership list \<Rightarrow> int list" where
  "added ms = concat (map (\<lambda>m. case m of Stored _ \<Rightarrow> [] | Added i \<Rightarrow> [i]) ms)"

definition member_ids :: "db \<Rightarrow> int \<Rightarrow> int list" where
  "member_ids d i = map gm_user_id (filter (\<lambda>m. gm_group_id m = i) (db_group_members d))"

lemma write_group_ok:
  assumes "write_group g s = (Inr r, t)" and wf: "wf_groups (w_db s)"
    and free: "name_free g_id group_name g (db_groups (w_db s))" and g: "g_id g \<in> g_id ` set (db_groups (w_db s))"
  shows "w_env t = w_env s \<and> wf_groups (w_db t) \<and>
     (\<exists>rows. w_db t = (w_db s)\<lparr>db_groups := rows\<rparr> \<and> map g_id rows = map g_id (db_groups (w_db s)) \<and>
        map_option g_display_name (row_by g_id (g_id g) rows) = Some (g_display_name g))"
proof (cases "row_by g_id (g_id g) (db_groups (w_db s)) = Some g")
  case True
  with assms show ?thesis by (auto simp: write_group_def run_ops intro: exI [of _ "db_groups (w_db s)"])
next
  case False
  with assms(1) obtain now where
    t: "w_db t = (w_db s)\<lparr>db_groups := put_row g_id (g\<lparr>g_updated_at := now\<rparr>) (db_groups (w_db s))\<rparr>" "w_env t = w_env s"
    by (auto simp: write_group_def run_ops split: if_splits)
  have ids: "map g_id (put_row g_id (g\<lparr>g_updated_at := now\<rparr>) (db_groups (w_db s))) = map g_id (db_groups (w_db s))"
    by simp
  have "name_free g_id group_name (g\<lparr>g_updated_at := now\<rparr>) (db_groups (w_db s))"
    using free by (simp add: name_free_def same_name_def group_name_def)
  then have "unique_names g_id group_name (db_groups (w_db t))"
    using wf by (simp add: t wf_groups_def unique_names_put_row)
  moreover have "g_id ` set (db_groups (w_db t)) = g_id ` set (db_groups (w_db s))"
    unfolding t by (simp flip: set_map)
  ultimately have "wf_groups (w_db t)" using wf by (simp add: wf_groups_def t)
  moreover have "map_option g_display_name (row_by g_id (g_id g)
      (put_row g_id (g\<lparr>g_updated_at := now\<rparr>) (db_groups (w_db s)))) = Some (g_display_name g)"
    using g by (simp add: row_by_put_row row_by_absent)
  ultimately show ?thesis using t ids by blast
qed

lemma wf_groups_snoc:
  assumes "wf_groups d" and "gm_id m \<notin> gm_id ` set (db_group_members d)"
    and "\<not> list_ex (\<lambda>q. gm_group_id q = gm_group_id m \<and> gm_user_id q = gm_user_id m) (db_group_members d)"
    and "gm_group_id m \<in> g_id ` set (db_groups d)" and "gm_user_id m \<in> user_ids d"
  shows "wf_groups (d\<lparr>db_group_members := db_group_members d @ [m]\<rparr>)"
  using assms by (auto simp: wf_groups_def user_ids_def list_ex_iff)

lemma insert_membership_ok:
  assumes run: "insert_membership gi i s = (Inr r, t)" and wf: "wf_groups (w_db s)" and env: "fresh_keys (w_env s)"
    and gi: "gi \<in> g_id ` set (db_groups (w_db s))" and i: "i \<in> user_ids (w_db s)"
  shows "w_env t = w_env s \<and> wf_groups (w_db t) \<and> i \<notin> set (member_ids (w_db s) gi) \<and>
     (\<exists>m. gm_group_id m = gi \<and> gm_user_id m = i \<and> gm_id m \<notin> gm_id ` set (db_group_members (w_db s)) \<and>
        w_db t = (w_db s)\<lparr>db_group_members := db_group_members (w_db s) @ [m]\<rparr>)"
proof -
  let ?m = "\<lparr>gm_id = env_key (w_env s) (map gm_id (db_group_members (w_db s))), gm_group_id = gi, gm_user_id = i,
     gm_created_at = env_clock (w_env s) (w_clock_reads s)\<rparr>"
  from run have free: "\<not> list_ex (\<lambda>m. gm_group_id m = gi \<and> gm_user_id m = i) (db_group_members (w_db s))"
    and t: "w_db t = (w_db s)\<lparr>db_group_members := db_group_members (w_db s) @ [?m]\<rparr>" "w_env t = w_env s"
    by (auto simp: insert_membership_def run_ops split: if_splits)
  have key: "gm_id ?m \<notin> gm_id ` set (db_group_members (w_db s))" using fresh_keys_map [OF env] by simp
  have "wf_groups (w_db t)" unfolding t by (rule wf_groups_snoc [OF wf key]) (use free gi i in simp_all)
  moreover have "i \<notin> set (member_ids (w_db s) gi)" using free by (auto simp: member_ids_def list_ex_iff)
  ultimately show ?thesis using t key by (intro conjI exI [of _ ?m]) simp_all
qed

lemma insert_memberships_ok:
  assumes "insert_memberships gi ms s = (Inr r, t)" and "wf_groups (w_db s)" and "fresh_keys (w_env s)"
    and "gi \<in> g_id ` set (db_groups (w_db s))" and "\<forall>i. Added i \<in> set ms \<longrightarrow> i \<in> user_ids (w_db s)"
  shows "w_env t = w_env s \<and> wf_groups (w_db t) \<and> set (added ms) \<inter> set (member_ids (w_db s) gi) = {} \<and>
     (\<exists>new. map gm_user_id new = added ms \<and> (\<forall>m \<in> set new. gm_group_id m = gi \<and>
          gm_id m \<notin> gm_id ` set (db_group_members (w_db s))) \<and>
        w_db t = (w_db s)\<lparr>db_group_members := db_group_members (w_db s) @ new\<rparr>)"
  using assms
proof (induction ms arbitrary: s)
  case Nil
  then show ?case by (auto simp: added_def)
next
  case (Cons m ms)
  show ?case
  proof (cases m)
    case (Stored q)
    with Cons.prems have "insert_memberships gi ms s = (Inr r, t)" by simp
    from Cons.IH [OF this] Cons.prems Stored show ?thesis by (simp add: added_def)
  next
    case (Added i)
    with Cons.prems(1) obtain s1 where 1: "insert_membership gi i s = (Inr (), s1)"
      and 2: "insert_memberships gi ms s1 = (Inr r, t)" by (auto elim: and_then_okE)
    have "i \<in> user_ids (w_db s)" using Cons.prems(5) Added by simp
    from insert_membership_ok [OF 1 Cons.prems(2-4) this] obtain q where
      s1: "w_env s1 = w_env s" "wf_groups (w_db s1)" "i \<notin> set (member_ids (w_db s) gi)" and
      q: "gm_group_id q = gi" "gm_user_id q = i" "gm_id q \<notin> gm_id ` set (db_group_members (w_db s))"
      "w_db s1 = (w_db s)\<lparr>db_group_members := db_group_members (w_db s) @ [q]\<rparr>" by blast
    have "\<forall>i. Added i \<in> set ms \<longrightarrow> i \<in> user_ids (w_db s1)"
      using Cons.prems(5) by (simp add: q(4) user_ids_def)
    from Cons.IH [OF 2 s1(2) _ _ this] Cons.prems(3,4) s1(1) obtain new where
      t: "w_env t = w_env s1" "wf_groups (w_db t)" "set (added ms) \<inter> set (member_ids (w_db s1) gi) = {}" and
      new: "map gm_user_id new = added ms"
      "\<forall>m \<in> set new. gm_group_id m = gi \<and> gm_id m \<notin> gm_id ` set (db_group_members (w_db s1))"
      "w_db t = (w_db s1)\<lparr>db_group_members := db_group_members (w_db s1) @ new\<rparr>" by (auto simp: q(4))
    have "set (added (m # ms)) \<inter> set (member_ids (w_db s) gi) = {}"
      using t(3) s1(3) by (auto simp: added_def Added member_ids_def q(4))
    moreover have "w_db t = (w_db s)\<lparr>db_group_members := db_group_members (w_db s) @ (q # new)\<rparr>"
      by (simp add: new(3) q(4))
    moreover have "map gm_user_id (q # new) = added (m # ms)" using new(1) q(2) by (simp add: added_def Added)
    moreover have "\<forall>m \<in> set (q # new). gm_group_id m = gi \<and> gm_id m \<notin> gm_id ` set (db_group_members (w_db s))"
      using new(2) q by auto
    ultimately show ?thesis using t s1 by metis
  qed
qed

lemma wf_groups_filter: "wf_groups d \<Longrightarrow> wf_groups (d\<lparr>db_group_members := filter P (db_group_members d)\<rparr>)"
  by (auto simp: wf_groups_def distinct_map_filter)

text \<open>
  The flush of a sound session: the stored memberships the session kept stay, the added ones
  follow, and none of the added users was a member in the table.
\<close>

definition group_written :: "db \<Rightarrow> int \<Rightarrow> db \<Rightarrow> bool" where
  "group_written d k d' \<longleftrightarrow> (\<exists>groups members. d' = d\<lparr>db_groups := groups, db_group_members := members\<rparr> \<and>
     filter (\<lambda>m. gm_group_id m \<noteq> k) members = filter (\<lambda>m. gm_group_id m \<noteq> k) (db_group_members d))"

lemma flush_group_ok:
  assumes run: "flush_group g s = (Inr r, t)" and wf: "wf_groups (w_db s)" and env: "fresh_keys (w_env s)"
    and ok: "session_ok (w_db s) g"
  defines "k \<equiv> g_id (gs_group g)"
  shows "r = gs_group g \<and> w_env t = w_env s \<and> wf_groups (w_db t) \<and> group_written (w_db s) k (w_db t) \<and>
     map g_id (db_groups (w_db t)) = map g_id (db_groups (w_db s)) \<and>
     map_option g_display_name (row_by g_id k (db_groups (w_db t))) = Some (g_display_name (gs_group g)) \<and>
     set (added (gs_memberships g)) \<inter> set (member_ids (w_db s) k) = {} \<and>
     member_ids (w_db t) k =
       map gm_user_id (filter (\<lambda>m. gm_group_id m = k \<and> Stored m \<in> set (gs_memberships g)) (db_group_members (w_db s))) @
       added (gs_memberships g)"
proof -
  let ?old = "db_group_members (w_db s)" and ?ms = "gs_memberships g"
  let ?gone = "removed_memberships g (w_db s)"
  from run have "and_then (block [write_group (gs_group g), insert_memberships k ?ms, delete_memberships ?gone])
      (\<lambda>_. ret (gs_group g)) s = (Inr r, t)"
    by (simp add: flush_group_def k_def del: block.simps)
  then have r: "r = gs_group g"
    and "block [write_group (gs_group g), insert_memberships k ?ms, delete_memberships ?gone] s = (Inr (), t)"
    by (auto simp del: block.simps elim!: and_then_okE)
  then obtain s1 s2 where 1: "write_group (gs_group g) s = (Inr (), s1)"
    and 2: "insert_memberships k ?ms s1 = (Inr (), s2)" and 3: "delete_memberships ?gone s2 = (Inr (), t)"
    by (auto elim!: and_then_okE)
  from write_group_ok [OF 1 wf] ok obtain rows where s1: "w_env s1 = w_env s" "wf_groups (w_db s1)"
    "w_db s1 = (w_db s)\<lparr>db_groups := rows\<rparr>" and rows: "map g_id rows = map g_id (db_groups (w_db s))"
    "map_option g_display_name (row_by g_id k rows) = Some (g_display_name (gs_group g))"
    by (auto simp: session_ok_def k_def)
  have "g_id ` set rows = g_id ` set (db_groups (w_db s))" using arg_cong [OF rows(1), of set] by simp
  then have k: "k \<in> g_id ` set (db_groups (w_db s1))" using ok by (simp add: session_ok_def k_def s1)
  have users: "\<forall>i. Added i \<in> set ?ms \<longrightarrow> i \<in> user_ids (w_db s1)"
    using ok by (simp add: session_ok_def s1 user_ids_def)
  from insert_memberships_ok [OF 2 s1(2) _ k users] env s1 obtain new where
    s2: "w_env s2 = w_env s" "wf_groups (w_db s2)" "set (added ?ms) \<inter> set (member_ids (w_db s) k) = {}" and
    new: "map gm_user_id new = added ?ms" "\<forall>m \<in> set new. gm_group_id m = k \<and> gm_id m \<notin> gm_id ` set ?old"
      "w_db s2 = (w_db s)\<lparr>db_groups := rows, db_group_members := ?old @ new\<rparr>"
    by (auto simp: member_ids_def)
  have t: "w_env t = w_env s2"
    "w_db t = (w_db s2)\<lparr>db_group_members := filter (\<lambda>m. m \<notin> set ?gone) (db_group_members (w_db s2))\<rparr>"
    using 3 by (auto simp: delete_memberships_def)
  have keep: "filter (\<lambda>m. m \<notin> set ?gone) new = new"
    using new(2) by (auto simp: removed_memberships_def filter_id_conv)
  have members: "db_group_members (w_db t) = filter (\<lambda>m. m \<notin> set ?gone) ?old @ new"
    by (simp add: t new(3) keep)
  have here: "filter (\<lambda>m. gm_group_id m = k) new = new" "filter (\<lambda>m. gm_group_id m \<noteq> k) new = []"
    using new(2) by (auto simp: filter_id_conv filter_empty_conv)
  have stay: "filter (\<lambda>m. gm_group_id m = k) (filter (\<lambda>m. m \<notin> set ?gone) ?old) =
      filter (\<lambda>m. gm_group_id m = k \<and> Stored m \<in> set ?ms) ?old"
    unfolding filter_filter by (rule filter_cong) (auto simp: removed_memberships_def k_def)
  have others: "filter (\<lambda>m. gm_group_id m \<noteq> k) (filter (\<lambda>m. m \<notin> set ?gone) ?old) =
      filter (\<lambda>m. gm_group_id m \<noteq> k) ?old"
    unfolding filter_filter by (rule filter_cong) (auto simp: removed_memberships_def k_def)
  have "member_ids (w_db t) k = map gm_user_id
      (filter (\<lambda>m. gm_group_id m = k \<and> Stored m \<in> set ?ms) ?old) @ added ?ms"
    by (simp add: member_ids_def members here stay new(1) del: filter_filter)
  moreover have "group_written (w_db s) k (w_db t)"
    unfolding group_written_def
    by (rule exI [of _ rows], rule exI [of _ "db_group_members (w_db t)"])
      (simp add: members here others del: filter_filter, simp add: t new(3) keep)
  moreover have "wf_groups (w_db t)" unfolding t by (rule wf_groups_filter [OF s2(2)])
  ultimately show ?thesis using r s2 t rows by (simp add: new(3))
qed

section \<open>The requests\<close>

lemma record_group_audit_ok:
  assumes "record_group_audit actor action ''succeeded'' reason s = (Inr r, t)"
  shows "audits_added actor (u_id actor) [action] (w_db s) (w_db t) \<and> w_env t = w_env s \<and>
     w_published t = w_published s \<and> w_pending t = w_pending s"
proof -
  from assms obtain e where e: "find_audit_entitlement SCIM_GROUP_AUDIT_ENTITLEMENT_SLUG (w_db s) = Some e"
    by (cases "find_audit_entitlement SCIM_GROUP_AUDIT_ENTITLEMENT_SLUG (w_db s)")
      (auto simp: record_group_audit_def run_ops)
  let ?ev = "audit_row (u_id actor) (u_id actor) action (ent_application_id e) (ent_id e) ''succeeded'' reason None s"
  have "t = audit_post ?ev s" using assms by (simp add: record_group_audit_def run_ops e)
  moreover have "audits_added actor (u_id actor) [action] (w_db s) (w_db (audit_post ?ev s))"
    unfolding audits_added_def by (rule exI [of _ "[?ev]"]) simp
  ultimately show ?thesis by simp
qed

lemma finish_group_mutation_ok:
  assumes "finish_group_mutation actor action reason g s = (Inr k, t)"
  shows "k = g_id g \<and> audits_added actor (u_id actor) [action] (w_db s) (w_db t) \<and> w_env t = w_env s"
proof -
  from assms obtain s1 where 1: "record_group_audit actor action ''succeeded'' reason s = (Inr (), s1)"
    and 2: "(publish_pending_events :: unit wop) s1 = (Inr (), t)" and k: "k = g_id g"
    by (auto simp: finish_group_mutation_def elim!: and_then_okE)
  from record_group_audit_ok [OF 1] publish_pending_events_ok [OF 2] k show ?thesis by simp
qed

lemma quiet_finish_group: "quiet_failure (finish_group_mutation actor action reason g)"
  unfolding finish_group_mutation_def
  by (intro quiet_failure_then_no_raise quiet_failure_block unpublished_intro quiet_failure_no_raise op_intro)

definition group_title :: "db \<Rightarrow> int \<Rightarrow> string option" where
  "group_title d k = map_option g_display_name (row_by g_id k (db_groups d))"

definition group_ids :: "db \<Rightarrow> int list" where
  "group_ids d = map g_id (db_groups d)"

lemma find_group_id: "find_group i d = Some g \<Longrightarrow> g_id g \<in> set (group_ids d)"
  by (auto simp: group_ids_def find_group_def dest!: row_by_Some split: option.splits if_splits)

lemma added_map [simp]: "added (map Added ids) = ids"
  by (induction ids) (simp_all add: added_def)

lemma no_stored [simp]: "Stored m \<notin> Added ` X"
  by auto

lemma replace_group_ok:
  assumes run: "replace_group i n ids s = (Inr g, t)" and wf: "wf_groups (w_db s)" and env: "fresh_keys (w_env s)"
  shows "\<exists>old. find_group i (w_db s) = Some old \<and> g_id g = g_id old \<and> w_env t = w_env s \<and> wf_groups (w_db t) \<and>
     group_written (w_db s) (g_id g) (w_db t) \<and> group_ids (w_db t) = group_ids (w_db s) \<and>
     group_title (w_db t) (g_id g) = Some n \<and> member_ids (w_db t) (g_id g) = ids \<and>
     set ids \<inter> set (member_ids (w_db s) (g_id g)) = {}"
proof -
  from run obtain gs s1 s2 s3 gs' s4 where 1: "require_group i s = (Inr gs, s1)"
    and 2: "check_duplicate_group n (Some (gs_group gs)) s1 = (Inr (), s2)"
    and 3: "(only_if (g_display_name (gs_group gs) \<noteq> n)
       (append_pending (IdentityEvent (GroupUpdated (g_id (gs_group gs)) n))) :: unit wop) s2 = (Inr (), s3)"
    and 4: "replace_members ids (gs\<lparr>gs_group := (gs_group gs)\<lparr>g_display_name := n\<rparr>\<rparr>) s3 = (Inr gs', s4)"
    and 5: "flush_group gs' s4 = (Inr g, t)"
    unfolding replace_group_def by (auto elim!: and_then_okE)
  from require_group_ok [OF 1 wf] have s1: "s1 = s" "find_group i (w_db s) = Some (gs_group gs)"
    "session_ok (w_db s) gs" by auto
  have "s2 = s1 \<and> name_free g_id group_name ((gs_group gs)\<lparr>g_display_name := n\<rparr>) (db_groups (w_db s1))"
    by (rule check_duplicate_group_ok [OF 2]) (use wf s1 in \<open>simp_all add: wf_groups_def\<close>)
  then have s2: "s2 = s" "name_free g_id group_name ((gs_group gs)\<lparr>g_display_name := n\<rparr>) (db_groups (w_db s))"
    using s1 by auto
  have s3: "w_db s3 = w_db s" "w_env s3 = w_env s"
    using 3 s2(1) by (auto simp: only_if_def split: if_splits)
  from replace_members_ok [OF 4] s3 have s4: "w_db s4 = w_db s" "w_env s4 = w_env s"
    and gs': "gs' = gs\<lparr>gs_group := (gs_group gs)\<lparr>g_display_name := n\<rparr>, gs_memberships := map Added ids\<rparr>"
    and ids: "set ids \<subseteq> user_ids (w_db s)" by auto
  have "session_ok (w_db s4) gs'" using s1(3) s2(2) ids by (auto simp: session_ok_def gs' s4)
  from flush_group_ok [OF 5 _ _ this] wf env s4 s1(2) show ?thesis
    by (simp add: gs' group_title_def group_ids_def)
qed

lemma patch_group_ok:
  assumes run: "patch_group i ps s = (Inr g, t)" and wf: "wf_groups (w_db s)" and env: "fresh_keys (w_env s)"
  shows "\<exists>old. find_group i (w_db s) = Some old \<and> g_id g = g_id old \<and> w_env t = w_env s \<and> wf_groups (w_db t) \<and>
     group_written (w_db s) (g_id g) (w_db t) \<and> group_ids (w_db t) = group_ids (w_db s)"
proof -
  from run obtain gs s1 gs' s2 where 1: "require_group i s = (Inr gs, s1)"
    and 2: "patch_group_operations ps gs s1 = (Inr gs', s2)" and 3: "flush_group gs' s2 = (Inr g, t)"
    unfolding patch_group_def by (auto elim!: and_then_okE)
  from require_group_ok [OF 1 wf] have s1: "s1 = s" "find_group i (w_db s) = Some (gs_group gs)"
    "session_ok (w_db s) gs" by auto
  have "session_step s gs (patch_group_operations ps gs s)"
    by (rule patch_group_operations_step) (use s1 wf in \<open>simp_all add: wf_groups_def\<close>)
  with 2 s1(1) have s2: "w_db s2 = w_db s" "w_env s2 = w_env s" "session_ok (w_db s) gs'"
    "g_id (gs_group gs') = g_id (gs_group gs)" by (auto simp: session_step_def)
  from flush_group_ok [OF 3] wf env s2 s1(2) show ?thesis by (simp add: group_ids_def)
qed

lemma create_group_ok:
  assumes run: "create_group n ids s = (Inr g, t)" and wf: "wf_groups (w_db s)" and env: "fresh_keys (w_env s)"
  shows "w_env t = w_env s \<and> wf_groups (w_db t) \<and> g_id g \<notin> set (group_ids (w_db s)) \<and>
     group_written (w_db s) (g_id g) (w_db t) \<and> group_ids (w_db t) = group_ids (w_db s) @ [g_id g] \<and>
     group_title (w_db t) (g_id g) = Some n \<and> member_ids (w_db t) (g_id g) = ids"
proof -
  from run obtain s1 us s2 where 1: "check_duplicate_group n None s = (Inr (), s1)"
    and 2: "require_distinct_users ids s1 = (Inr us, s2)"
    unfolding create_group_def by (auto elim!: and_then_okE)
  let ?key = "env_key (w_env s) (group_ids (w_db s))"
  have s1: "s1 = s" using 1
    by (auto simp: check_duplicate_group_def run_ops split: option.splits if_splits)
  from require_distinct_users_ok [OF 2] s1 have s2: "s2 = s" and us: "map u_id us = ids"
    "distinct ids" "set ids \<subseteq> user_ids (w_db s)" by auto
  let ?g = "\<lparr>g_id = ?key, g_display_name = n, g_created_at = env_clock (w_env s) (w_clock_reads s),
     g_updated_at = env_clock (w_env s) (Suc (w_clock_reads s))\<rparr>"
  let ?ms = "map (\<lambda>u. Added (u_id u)) us"
  have ms: "?ms = map Added ids" using us(1) by (auto simp flip: us(1))
  let ?s2 = "s\<lparr>w_clock_reads := Suc (Suc (w_clock_reads s))\<rparr>"
  let ?s3 = "?s2\<lparr>w_db := (w_db s)\<lparr>db_groups := db_groups (w_db s) @ [?g]\<rparr>\<rparr>"
  have rest: "and_then (query (group_name_free ?g)) (\<lambda>free.
      and_then (unique_constraint free) (\<lambda>_.
      and_then (update_db (\<lambda>d. d\<lparr>db_groups := db_groups d @ [?g]\<rparr>)) (\<lambda>_.
      and_then (flush_group \<lparr>gs_group = ?g, gs_memberships = ?ms\<rparr>) (\<lambda>_.
      and_then (append_pending (IdentityEvent (GroupCreated ?key n))) (\<lambda>_.
      and_then (only_if (us \<noteq> []) (append_pending (IdentityEvent
        (GroupMembershipReplaced ?key (map u_id us))))) (\<lambda>_. ret ?g)))))) ?s2 = (Inr g, t)"
    using run 1 2 s1 s2 by (simp add: create_group_def Let_def group_ids_def)
  have unique: "group_name_free ?g (w_db s)" by (rule ccontr) (use rest in \<open>simp add: and_then_def\<close>)
  obtain q s4 where q: "flush_group \<lparr>gs_group = ?g, gs_memberships = ?ms\<rparr> ?s3 = (q, s4)" by fastforce
  then obtain r where flush: "flush_group \<lparr>gs_group = ?g, gs_memberships = ?ms\<rparr> ?s3 = (Inr r, s4)"
    using rest unique by (cases q) simp_all
  then have final: "w_db t = w_db s4" "w_env t = w_env s4" and g: "g = ?g"
    using rest unique by (cases "us = []"; auto)+
  have fresh: "?key \<notin> g_id ` set (db_groups (w_db s))"
    using fresh_keys_map [OF env] by (simp add: group_ids_def)
  have free: "name_free g_id group_name ?g (db_groups (w_db s))"
    using new_group_name_ok [OF 1, of ?g] wf by (simp add: wf_groups_def)
  have "unique_names g_id group_name (db_groups (w_db s) @ [?g])"
    by (rule unique_names_snoc [OF _ free]) (use wf in \<open>simp add: wf_groups_def\<close>)
  then have wf3: "wf_groups (w_db ?s3)" using wf fresh by (auto simp: wf_groups_def)
  have ok: "session_ok (w_db ?s3) \<lparr>gs_group = ?g, gs_memberships = ?ms\<rparr>"
    using free us(3) by (auto simp: session_ok_def ms name_free_def same_name_def user_ids_def)
  from flush_group_ok [OF flush wf3 _ ok] env final g fresh show ?thesis
    by (simp add: ms group_title_def group_ids_def group_written_def)
qed

text \<open>
  What a request on group \<open>k\<close> leaves: its row and its memberships written, one audit event.
\<close>

definition group_changed :: "user \<Rightarrow> string \<Rightarrow> int \<Rightarrow> db \<Rightarrow> db \<Rightarrow> bool" where
  "group_changed actor action k d d' \<longleftrightarrow>
     (\<exists>d1. group_written d k d1 \<and> audits_added actor (u_id actor) [action] d1 d')"

lemma group_body_ok:
  assumes run: "and_then m (finish_group_mutation actor action reason) s = (Inr k, t)"
    and m: "\<And>g s1. m s = (Inr g, s1) \<Longrightarrow> w_env s1 = w_env s \<and> wf_groups (w_db s1) \<and>
       group_written (w_db s) (g_id g) (w_db s1) \<and> g_id g \<in> set (group_ids (w_db s1))"
    and wf: "wf_directory (w_db s)"
  shows "\<exists>g s1. m s = (Inr g, s1) \<and> k = g_id g \<and> group_changed actor action k (w_db s) (w_db t) \<and>
     wf_directory (w_db t) \<and> group_ids (w_db t) = group_ids (w_db s1) \<and>
     group_title (w_db t) k = group_title (w_db s1) k \<and> member_ids (w_db t) k = member_ids (w_db s1) k \<and>
     k \<in> g_id ` set (db_groups (w_db t)) \<and> w_env t = w_env s"
proof -
  from run obtain g s1 where 1: "m s = (Inr g, s1)"
    and 2: "finish_group_mutation actor action reason g s1 = (Inr k, t)" by (auto elim: and_then_okE)
  note a = finish_group_mutation_ok [OF 2] and b = m [OF 1]
  then have audits: "audits_added actor (u_id actor) [action] (w_db s1) (w_db t)" by simp
  from b obtain groups members where "w_db s1 = (w_db s)\<lparr>db_groups := groups, db_group_members := members\<rparr>"
    by (auto simp: group_written_def)
  with wf b have "wf_directory (w_db s1)"
    by (simp add: wf_directory_def wf_profiles_def wf_users_def manager_edges_def)
  with a b 1 audits_added_sel [OF audits] show ?thesis
    by (auto simp: group_changed_def group_ids_def group_title_def member_ids_def)
qed

lemma group_attempt:
  assumes run: "and_then (try_except (rollback_on_error (and_then m (finish_group_mutation actor action reason))) h)
      (\<lambda>k. group_result k b) s = (r, t)"
    and handler: "\<And>e s'. (\<And>x. e \<noteq> ScimExn x) \<Longrightarrow> failed_with actor s' (h e s')"
    and quiet: "unpublished m"
    and m: "\<And>g s1. m s = (Inr g, s1) \<Longrightarrow> w_env s1 = w_env s \<and> wf_groups (w_db s1) \<and>
       group_written (w_db s) (g_id g) (w_db s1) \<and> g_id g \<in> set (group_ids (w_db s1))"
    and wf: "wf_directory (w_db s)"
  shows "case r of Inl e \<Rightarrow> only_denied actor (scim_response_error e) s t
    | Inr res \<Rightarrow> \<exists>g s1 k. m s = (Inr g, s1) \<and> k = g_id g \<and> group_changed actor action k (w_db s) (w_db t) \<and>
        wf_directory (w_db t) \<and> group_ids (w_db t) = group_ids (w_db s1) \<and>
        group_title (w_db t) k = group_title (w_db s1) k \<and> member_ids (w_db t) k = member_ids (w_db s1) k \<and>
        group_result k b t = (Inr res, t) \<and> w_env t = w_env s"
proof -
  let ?body = "and_then m (finish_group_mutation actor action reason)"
  obtain q s1 where attempt: "try_except (rollback_on_error ?body) h s = (q, s1)" by fastforce
  have body: "quiet_failure ?body" by (intro quiet_failure_and_then quiet_finish_group quiet)
  note res = attempt_result [OF attempt body handler]
  show ?thesis
  proof (cases q)
    case (Inl e)
    with attempt run res show ?thesis by auto
  next
    case (Inr k)
    with res have ok: "?body s = (Inr k, s1)" by simp
    note finished = group_body_ok [OF ok m wf]
    then have "row_by g_id k (db_groups (w_db s1)) \<noteq> None" by (auto simp: row_by_absent)
    then obtain x where x: "group_result k b s1 = (Inr x, s1)" using no_raise_group_result by blast
    with attempt run Inr have "r = Inr x" and "t = s1" by auto
    with finished x show ?thesis by auto
  qed
qed

lemma group_parse_failed:
  assumes "(case e of ScimExn exc \<Rightarrow> group_audit_and_raise actor (se_detail exc) (se_status_code exc) (se_scim_type exc)
      | _ \<Rightarrow> raise e) s = (r, t)"
  shows "\<exists>e. r = Inl e \<and> only_denied actor (scim_response_error e) s t"
proof (rule failed_withD [OF _ assms])
  show "failed_with actor s ((case e of ScimExn exc \<Rightarrow>
      group_audit_and_raise actor (se_detail exc) (se_status_code exc) (se_scim_type exc) | _ \<Rightarrow> raise e) s)"
    using not_scim_500 [of e] by (cases e) (auto simp: failed_group_audit_and_raise failed_Inl_500)
qed

lemma create_scim_group_result:
  assumes run: "create_scim_group actor payload b s = (r, t)"
    and wf: "wf_directory (w_db s)" and env: "fresh_keys (w_env s)"
  shows "case r of Inl e \<Rightarrow> only_denied actor (scim_response_error e) s t
    | Inr res \<Rightarrow> \<exists>group_data k. parse_group_payload payload = Inr group_data \<and>
        group_changed actor ''scim_group_create'' k (w_db s) (w_db t) \<and> wf_directory (w_db t) \<and>
        k \<notin> set (group_ids (w_db s)) \<and> group_ids (w_db t) = group_ids (w_db s) @ [k] \<and>
        group_title (w_db t) k = Some (sgp_display_name group_data) \<and>
        member_ids (w_db t) k = sgp_member_ids group_data \<and> group_result k b t = (Inr res, t) \<and>
        w_env t = w_env s"
proof (cases "parse_group_payload payload")
  case (Inl e)
  with run have "(case e of ScimExn exc \<Rightarrow> group_audit_and_raise actor (se_detail exc) (se_status_code exc)
      (se_scim_type exc) | _ \<Rightarrow> raise e) s = (r, t)"
    by (cases e) (simp_all add: create_scim_group_def)
  from group_parse_failed [OF this] show ?thesis by auto
next
  case (Inr group_data)
  let ?m = "create_group (sgp_display_name group_data) (sgp_member_ids group_data)"
  have wfg: "wf_groups (w_db s)" using wf by (simp add: wf_directory_def)
  have m: "w_env s1 = w_env s \<and> wf_groups (w_db s1) \<and> group_written (w_db s) (g_id g) (w_db s1) \<and>
      g_id g \<in> set (group_ids (w_db s1))" if "?m s = (Inr g, s1)" for g s1
    using create_group_ok [OF that wfg env] by simp
  from run Inr have "and_then (try_except (rollback_on_error
      (and_then ?m (finish_group_mutation actor ''scim_group_create'' ''Group created''))) (group_mutation_failed actor))
      (\<lambda>k. group_result k b) s = (r, t)"
    by (simp add: create_scim_group_def)
  from group_attempt [OF this failed_group_mutation unpublished_groups(1) m wf] Inr show ?thesis
    by (auto dest!: create_group_ok [OF _ wfg env] split: sum.splits)
qed

lemma replace_scim_group_result:
  assumes run: "replace_scim_group actor i payload b s = (r, t)"
    and wf: "wf_directory (w_db s)" and env: "fresh_keys (w_env s)"
  shows "case r of Inl e \<Rightarrow> only_denied actor (scim_response_error e) s t
    | Inr res \<Rightarrow> \<exists>group_data old k. parse_group_payload payload = Inr group_data \<and>
        find_group i (w_db s) = Some old \<and> k = g_id old \<and>
        group_changed actor ''scim_group_update'' k (w_db s) (w_db t) \<and> wf_directory (w_db t) \<and>
        group_ids (w_db t) = group_ids (w_db s) \<and>
        group_title (w_db t) k = Some (sgp_display_name group_data) \<and>
        member_ids (w_db t) k = sgp_member_ids group_data \<and>
        set (sgp_member_ids group_data) \<inter> set (member_ids (w_db s) k) = {} \<and> group_result k b t = (Inr res, t) \<and>
        w_env t = w_env s"
proof (cases "parse_group_payload payload")
  case (Inl e)
  with run have "(case e of ScimExn exc \<Rightarrow> group_audit_and_raise actor (se_detail exc) (se_status_code exc)
      (se_scim_type exc) | _ \<Rightarrow> raise e) s = (r, t)"
    by (cases e) (simp_all add: replace_scim_group_def)
  from group_parse_failed [OF this] show ?thesis by auto
next
  case (Inr group_data)
  let ?m = "replace_group i (sgp_display_name group_data) (sgp_member_ids group_data)"
  have wfg: "wf_groups (w_db s)" using wf by (simp add: wf_directory_def)
  have m: "w_env s1 = w_env s \<and> wf_groups (w_db s1) \<and> group_written (w_db s) (g_id g) (w_db s1) \<and>
      g_id g \<in> set (group_ids (w_db s1))" if "?m s = (Inr g, s1)" for g s1
    using replace_group_ok [OF that wfg env]
    by (auto dest: find_group_id)
  from run Inr have "and_then (try_except (rollback_on_error
      (and_then ?m (finish_group_mutation actor ''scim_group_update'' ''Group updated''))) (group_mutation_failed actor))
      (\<lambda>k. group_result k b) s = (r, t)"
    by (simp add: replace_scim_group_def)
  note res = group_attempt [OF this failed_group_mutation unpublished_groups(2) m wf]
  show ?thesis
  proof (cases r)
    case (Inl e)
    with res show ?thesis by simp
  next
    case r: (Inr x)
    with res obtain g s1 k where g: "?m s = (Inr g, s1)" and k: "k = g_id g"
      and t: "group_changed actor ''scim_group_update'' k (w_db s) (w_db t)" "wf_directory (w_db t)"
        "group_ids (w_db t) = group_ids (w_db s1)" "group_title (w_db t) k = group_title (w_db s1) k"
        "member_ids (w_db t) k = member_ids (w_db s1) k" "group_result k b t = (Inr x, t)" "w_env t = w_env s" by auto
    from replace_group_ok [OF g wfg env] k t Inr r show ?thesis by auto
  qed
qed

lemma patch_scim_group_result:
  assumes run: "patch_scim_group actor i payload b s = (r, t)"
    and wf: "wf_directory (w_db s)" and env: "fresh_keys (w_env s)"
  shows "case r of Inl e \<Rightarrow> only_denied actor (scim_response_error e) s t
    | Inr res \<Rightarrow> \<exists>operations old k. parse_group_patch_payload payload = Inr operations \<and>
        find_group i (w_db s) = Some old \<and> k = g_id old \<and>
        group_changed actor (audit_action_for_patch operations) k (w_db s) (w_db t) \<and> wf_directory (w_db t) \<and>
        group_ids (w_db t) = group_ids (w_db s) \<and> group_result k b t = (Inr res, t) \<and>
        w_env t = w_env s"
proof -
  let ?h = "\<lambda>e. case e of
      ScimExn exc \<Rightarrow> group_audit_and_raise actor (se_detail exc) (se_status_code exc) (se_scim_type exc)
    | ValueError message \<Rightarrow> group_audit_and_raise actor message 400 (Some ''invalidValue'')
    | _ \<Rightarrow> group_mutation_failed actor e"
  have h: "failed_with actor s' (?h e s')" for e and s' :: world
    by (cases e) (auto intro: failed_group_audit_and_raise failed_group_mutation)
  show ?thesis
  proof (cases "parse_group_patch_payload payload")
    case (Inl e)
    obtain q :: "exn + int" and s1 where q: "?h e s = (q, s1)" by fastforce
    from failed_withD [OF h q] obtain e' where "q = Inl e'" and "only_denied actor (scim_response_error e') s s1"
      by auto
    with run Inl q show ?thesis
      by (auto simp: patch_scim_group_def try_except_def rollback_on_error_def and_then_def)
  next
    case (Inr operations)
    let ?m = "patch_group i operations"
    have wfg: "wf_groups (w_db s)" using wf by (simp add: wf_directory_def)
    have m: "w_env s1 = w_env s \<and> wf_groups (w_db s1) \<and> group_written (w_db s) (g_id g) (w_db s1) \<and>
        g_id g \<in> set (group_ids (w_db s1))" if "?m s = (Inr g, s1)" for g s1
      using patch_group_ok [OF that wfg env]
      by (auto dest: find_group_id)
    have "and_then (lift_sum (parse_group_patch_payload payload)) (\<lambda>operations.
        and_then (patch_group i operations)
          (finish_group_mutation actor (audit_action_for_patch operations) (audit_reason_for_patch operations))) =
        and_then ?m (finish_group_mutation actor (audit_action_for_patch operations) (audit_reason_for_patch operations))"
      by (simp add: Inr fun_eq_iff)
    with run have "and_then (try_except (rollback_on_error (and_then ?m (finish_group_mutation actor
        (audit_action_for_patch operations) (audit_reason_for_patch operations)))) ?h) (\<lambda>k. group_result k b) s = (r, t)"
      by (simp add: patch_scim_group_def)
    note res = group_attempt [OF this h unpublished_groups(3) m wf]
    show ?thesis
    proof (cases r)
      case (Inl e)
      with res show ?thesis by simp
    next
      case r: (Inr x)
      with res obtain g s1 k where g: "?m s = (Inr g, s1)" and k: "k = g_id g"
        and t: "group_changed actor (audit_action_for_patch operations) k (w_db s) (w_db t)" "wf_directory (w_db t)"
          "group_ids (w_db t) = group_ids (w_db s1)" "group_result k b t = (Inr x, t)" "w_env t = w_env s" by auto
      from patch_group_ok [OF g wfg env] k t Inr r show ?thesis by auto
    qed
  qed
qed

end
