(* ===== verification/ScimProperties.thy ===== *)
theory ScimProperties
  imports ScimMembers
begin

text \<open>
  The SCIM interface as a whole: what every request preserves, what a failing request leaves,
  what it can never touch, and the effect of the main requests.
\<close>

section \<open>One request\<close>

text \<open>The result of a request, case by case.\<close>

lemma run_scim_request_ok:
  assumes "run_scim_request r actor b s = (Inr x, t)"
  obtains s1 where "scim_request_op r actor b s1 = (Inr x, t)" and "w_db s1 = w_db s" and "w_env s1 = w_env s"
    and "w_published s1 = w_published s" and "w_pending s1 = []"
  using assms unfolding run_scim_request_def by (rule scim_route_ok)

lemma scim_request_op_err:
  assumes run: "scim_request_op r actor b s = (Inl x, t)" and wf: "wf_directory (w_db s)"
    and env: "fresh_keys (w_env s)" and pending: "w_pending s = []"
  shows "only_denied actor (scim_response_error x) s t"
proof (cases r)
  case (CreateUser payload)
  with run show ?thesis using create_scim_user_result [of actor payload b s "Inl x" t] wf env pending by simp
next
  case (ReplaceUser i payload)
  with run show ?thesis using replace_scim_user_result [of actor i payload b s "Inl x" t] wf env by simp
next
  case (PatchUser i payload)
  with run show ?thesis using patch_scim_user_result [of actor i payload b s "Inl x" t] wf env by simp
next
  case (CreateGroup payload)
  with run show ?thesis using create_scim_group_result [of actor payload b s "Inl x" t] wf env by simp
next
  case (ReplaceGroup i payload)
  with run show ?thesis using replace_scim_group_result [of actor i payload b s "Inl x" t] wf env by simp
next
  case (PatchGroup i payload)
  with run show ?thesis using patch_scim_group_result [of actor i payload b s "Inl x" t] wf env by simp
qed

lemma run_scim_request_err:
  assumes run: "run_scim_request r actor b s = (Inl e, t)" and wf: "wf_directory (w_db s)" and env: "fresh_keys (w_env s)"
  shows "only_denied actor e s t"
proof (cases "scim_gate actor s")
  case (Pair g s0)
  note gate = scim_gate_result [OF Pair]
  show ?thesis
  proof (cases g)
    case (Inl h)
    with run Pair have "e = scim_http_exception (he_status_code h) (he_detail h) None" and "t = s0"
      by (auto simp: run_scim_request_def scim_route_def map_error_def run_ops)
    with gate Inl show ?thesis by (auto simp: only_denied_def)
  next
    case (Inr v)
    let ?s1 = "s0\<lparr>w_pending := []\<rparr>"
    from run Pair Inr obtain x where op: "scim_request_op r actor b ?s1 = (Inl x, t)" and e: "e = scim_response_error x"
      by (auto simp: run_scim_request_def scim_route_def map_error_def new_service_def run_ops
          split: prod.splits sum.splits)
    have "only_denied actor (scim_response_error x) ?s1 t"
      by (rule scim_request_op_err [OF op]) (use gate wf env in simp_all)
    with gate e show ?thesis by (simp add: only_denied_def)
  qed
qed

section \<open>What stays\<close>

text \<open>What a user may do rests on the operator role and the password hash of the row.\<close>

definition credentials :: "user \<Rightarrow> int \<times> string \<times> string" where
  "credentials u = (u_id u, u_operator_role u, u_password_hash u)"

text \<open>The tables outside the directory, the audit events aside.\<close>

definition elsewhere :: "db \<Rightarrow> db" where
  "elsewhere d = d\<lparr>db_users := [], db_profiles := [], db_groups := [], db_group_members := [], db_audit := []\<rparr>"

definition no_new_power :: "db \<Rightarrow> db \<Rightarrow> bool" where
  "no_new_power d d' \<longleftrightarrow>
     (\<exists>new. map credentials (db_users d') = map credentials (db_users d) @ map credentials new \<and>
        list_all (\<lambda>u. u_operator_role u = ''employee'') new) \<and>
     elsewhere d' = elsewhere d \<and> prefix (db_audit d) (db_audit d')"

lemma no_new_powerI:
  "map credentials (db_users d') = map credentials (db_users d) \<Longrightarrow> elsewhere d' = elsewhere d \<Longrightarrow>
   prefix (db_audit d) (db_audit d') \<Longrightarrow> no_new_power d d'"
  unfolding no_new_power_def by (auto intro: exI [of _ "[]"])

lemma audits_elsewhere: "audits_added actor i as d d' \<Longrightarrow> elsewhere d' = elsewhere d"
  by (auto simp: elsewhere_def elim!: audits_addedE)

lemma put_row_credentials:
  assumes "distinct (map u_id users)" and "old \<in> set users" and "credentials u = credentials old"
  shows "map credentials (put_row u_id u users) = map credentials users"
proof (rule map_put_row_other)
  fix r assume "r \<in> set users" and "u_id r = u_id u"
  with assms have "r = old" by (auto simp: credentials_def distinct_map inj_on_def)
  with assms(3) show "credentials r = credentials u" by simp
qed

lemma outcome_credentials:
  assumes out: "mutation_outcome u desired changes events d d1" and u: "u \<in> set (db_users d)"
    and d: "distinct (map u_id (db_users d))"
  shows "map credentials (db_users d1) = map credentials (db_users d) \<and> elsewhere d1 = elsewhere d \<and>
     db_audit d1 = db_audit d"
proof -
  from mutation_outcome_frame [OF out] obtain users profiles where
    d1: "d1 = d\<lparr>db_users := users, db_profiles := profiles\<rparr>"
    and users: "users = db_users d \<or> (\<exists>dep. users = put_row u_id (u\<lparr>u_department := dep\<rparr>) (db_users d))"
    by blast
  from users have "map credentials users = map credentials (db_users d)"
    using put_row_credentials [OF d u] by (auto simp: credentials_def)
  then show ?thesis by (simp add: d1 elsewhere_def)
qed

lemma user_changed_power:
  assumes ch: "user_changed actor i new desired s t k" and wf: "wf_directory (w_db s)"
    and new: "\<And>u. credentials (new u) = credentials u"
  shows "no_new_power (w_db s) (w_db t)"
proof -
  from ch obtain old changes events d1 where old: "find_user i (w_db s) = Some old" and
    out: "mutation_outcome (new old) desired changes events
          ((w_db s)\<lparr>db_users := put_row u_id (new old) (db_users (w_db s))\<rparr>) d1"
    and audits: "audits_added actor k (successful_update_action (new old) # enterprise_actions changes) d1 (w_db t)"
    unfolding user_changed_def by blast
  from find_user_row [OF old] have oin: "old \<in> set (db_users (w_db s))" by simp
  have d: "distinct (map u_id (db_users (w_db s)))" using wf by (simp add: wf_directory_def wf_profiles_def)
  have id: "u_id (new old) = u_id old" using new [of old] by (simp add: credentials_def)
  have nin: "new old \<in> set (put_row u_id (new old) (db_users (w_db s)))" using oin id by (auto simp: put_row_iff)
  from outcome_credentials [OF out] nin d have "map credentials (db_users d1) =
      map credentials (put_row u_id (new old) (db_users (w_db s)))" "elsewhere d1 = elsewhere (w_db s)"
    "db_audit d1 = db_audit (w_db s)" by (simp_all add: elsewhere_def)
  with put_row_credentials [OF d oin new] audits_elsewhere [OF audits] audits_added_sel [OF audits]
  show ?thesis by (intro no_new_powerI) simp_all
qed

lemma user_created_power:
  assumes cr: "user_created actor user_data s t k" and wf: "wf_directory (w_db s)"
  shows "no_new_power (w_db s) (w_db t)"
proof -
  from cr obtain u changes events d1 where k: "k = u_id u" "k \<notin> u_id ` set (db_users (w_db s))"
    and role: "u_operator_role u = ''employee''" and
    out: "mutation_outcome u (enterprise_desired False (sup_enterprise_profile user_data)) changes events
          ((w_db s)\<lparr>db_users := db_users (w_db s) @ [u]\<rparr>) d1"
    and audits: "audits_added actor k (''scim_user_create'' # enterprise_actions changes) d1 (w_db t)"
    unfolding user_created_def by blast
  have d: "distinct (map u_id (db_users (w_db s) @ [u]))"
    using wf k by (simp add: wf_directory_def wf_profiles_def)
  from outcome_credentials [OF out] d have "map credentials (db_users d1) =
      map credentials (db_users (w_db s)) @ map credentials [u]" "elsewhere d1 = elsewhere (w_db s)"
    "db_audit d1 = db_audit (w_db s)" by (simp_all add: elsewhere_def)
  with role audits_elsewhere [OF audits] audits_added_sel [OF audits]
  show ?thesis unfolding no_new_power_def by (intro conjI exI [of _ "[u]"]) simp_all
qed

lemma group_changed_power:
  assumes "group_changed actor action k d d'" shows "no_new_power d d'"
proof -
  from assms obtain d1 where d1: "group_written d k d1" and audits: "audits_added actor (u_id actor) [action] d1 d'"
    unfolding group_changed_def by blast
  from d1 have "db_users d1 = db_users d" "elsewhere d1 = elsewhere d" "db_audit d1 = db_audit d"
    by (auto simp: group_written_def elsewhere_def)
  with audits_elsewhere [OF audits] audits_added_sel [OF audits] show ?thesis by (intro no_new_powerI) simp_all
qed

lemma only_denied_power:
  assumes "only_denied actor e s t" shows "no_new_power (w_db s) (w_db t)"
  using assms by (intro no_new_powerI) (auto simp: only_denied_def elsewhere_def)

lemma only_denied_wf:
  assumes "only_denied actor e s t" and "wf_directory (w_db s)" shows "wf_directory (w_db t)"
  using assms by (auto simp: only_denied_def wf_directory_def wf_users_def wf_groups_def wf_profiles_def manager_edges_def)

lemma scim_request_op_ok:
  assumes run: "scim_request_op r actor b s = (Inr x, t)" and wf: "wf_directory (w_db s)"
    and env: "fresh_keys (w_env s)" and pending: "w_pending s = []"
  shows "wf_directory (w_db t) \<and> no_new_power (w_db s) (w_db t) \<and> w_env t = w_env s"
proof (cases r)
  case (CreateUser payload)
  with run obtain user_data k where c: "user_created actor user_data s t k" and "wf_directory (w_db t)"
    using create_scim_user_result [of actor payload b s "Inr x" t] wf env pending by auto
  moreover have "w_env t = w_env s" using c by (auto simp: user_created_def)
  ultimately show ?thesis using user_created_power [OF c wf] by simp
next
  case (ReplaceUser i payload)
  with run obtain user_data :: scim_user_payload and k where
    "user_changed actor i (\<lambda>u. u\<lparr>u_email := lower (sup_user_name user_data), u_name := sup_display_name user_data,
       u_active := sup_active user_data\<rparr>) (enterprise_desired True (sup_enterprise_profile user_data)) s t k"
    and "wf_directory (w_db t)"
    using replace_scim_user_result [of actor i payload b s "Inr x" t] wf env by auto
  moreover from this(1) have "no_new_power (w_db s) (w_db t)"
    by (rule user_changed_power [OF _ wf]) (simp add: credentials_def)
  ultimately show ?thesis by (auto simp: user_changed_def)
next
  case (PatchUser i payload)
  with run obtain patch :: scim_user_patch and k where
    "user_changed actor i (patched_user (spt_user_mutation patch))
       (enterprise_desired False (spt_enterprise_profile patch)) s t k"
    and "wf_directory (w_db t)"
    using patch_scim_user_result [of actor i payload b s "Inr x" t] wf env by auto
  moreover from this(1) have "no_new_power (w_db s) (w_db t)"
    by (rule user_changed_power [OF _ wf]) (simp add: credentials_def)
  ultimately show ?thesis by (auto simp: user_changed_def)
next
  case (CreateGroup payload)
  with run show ?thesis using create_scim_group_result [of actor payload b s "Inr x" t] wf env
    by (auto dest: group_changed_power)
next
  case (ReplaceGroup i payload)
  with run show ?thesis using replace_scim_group_result [of actor i payload b s "Inr x" t] wf env
    by (auto dest: group_changed_power)
next
  case (PatchGroup i payload)
  with run show ?thesis using patch_scim_group_result [of actor i payload b s "Inr x" t] wf env
    by (auto dest: group_changed_power)
qed

lemma scim_request_keeps:
  assumes run: "run_scim_request r actor b s = (res, t)" and wf: "wf_directory (w_db s)" and env: "fresh_keys (w_env s)"
  shows "wf_directory (w_db t) \<and> no_new_power (w_db s) (w_db t) \<and> w_env t = w_env s"
proof (cases res)
  case (Inl e)
  with run_scim_request_err [of r actor b s e t] run wf env
  have d: "only_denied actor e s t" by simp
  with only_denied_power [OF d] only_denied_wf [OF d wf] show ?thesis by (simp add: only_denied_def)
next
  case (Inr x)
  with run obtain s1 where op: "scim_request_op r actor b s1 = (Inr x, t)"
    and s1: "w_db s1 = w_db s" "w_env s1 = w_env s" "w_pending s1 = []" by (auto elim: run_scim_request_ok)
  from scim_request_op_ok [OF op] s1 wf env show ?thesis by simp
qed

section \<open>Sequences of requests\<close>

text \<open>The states that a well-formed directory can reach by SCIM requests, each from some caller.\<close>

inductive scim_step :: "world \<Rightarrow> world \<Rightarrow> bool" where
  request: "run_scim_request r actor b s = (res, t) \<Longrightarrow> scim_step s t"

inductive_cases scim_stepE: "scim_step s t"

lemma no_new_power_refl: "no_new_power d d"
  by (rule no_new_powerI) simp_all

lemma no_new_power_trans:
  assumes "no_new_power d1 d2" and "no_new_power d2 d3" shows "no_new_power d1 d3"
proof -
  from assms(1) obtain new1 where 1: "map credentials (db_users d2) = map credentials (db_users d1) @ map credentials new1"
    "list_all (\<lambda>u. u_operator_role u = ''employee'') new1" unfolding no_new_power_def by blast
  from assms(2) obtain new2 where 2: "map credentials (db_users d3) = map credentials (db_users d2) @ map credentials new2"
    "list_all (\<lambda>u. u_operator_role u = ''employee'') new2" unfolding no_new_power_def by blast
  have "map credentials (db_users d3) = map credentials (db_users d1) @ map credentials (new1 @ new2)"
    using 1 2 by simp
  moreover have "list_all (\<lambda>u. u_operator_role u = ''employee'') (new1 @ new2)" using 1 2 by simp
  moreover have "elsewhere d3 = elsewhere d1" "prefix (db_audit d1) (db_audit d3)"
    using assms by (auto simp: no_new_power_def)
  ultimately show ?thesis unfolding no_new_power_def by blast
qed

lemma scim_steps_keep:
  assumes "scim_step\<^sup>*\<^sup>* s t" and wf: "wf_directory (w_db s)" and env: "fresh_keys (w_env s)"
  shows "wf_directory (w_db t) \<and> no_new_power (w_db s) (w_db t) \<and> w_env t = w_env s"
  using assms(1)
proof (induction rule: rtranclp_induct)
  case base
  then show ?case using wf no_new_power_refl by simp
next
  case (step u v)
  from step.hyps(2) obtain r actor b res where "run_scim_request r actor b u = (res, v)" by (rule scim_stepE)
  from scim_request_keeps [OF this] step.IH env no_new_power_trans show ?case by metis
qed

section \<open>The resource a request returns\<close>

lemma length_digits: "n < 10 ^ Suc m \<Longrightarrow> length (digits n) \<le> Suc m"
proof (induction n arbitrary: m rule: digits.induct)
  case (1 n)
  show ?case
  proof (cases "n < 10")
    case True
    then show ?thesis by (subst digits.simps) simp
  next
    case False
    with 1 obtain m' where m: "m = Suc m'" by (cases m) auto
    with 1 have "n div 10 < 10 ^ Suc m'" by (simp add: less_mult_imp_div_less)
    from "1.IH" [OF False this] False m show ?thesis by (subst digits.simps) simp
  qed
qed

lemma find_by_printed_id:
  assumes "row_by u_id k (db_users d) = Some u" and "1 \<le> k" and "k < 2 ^ 63"
  shows "find_user (str_int k) d = Some u"
proof -
  have "nat k < 10 ^ Suc 18" using assms(3) by simp
  then have "length (str_int k) \<le> 19" using assms(2) length_digits [of "nat k" 18] by (simp add: str_int_def)
  then have "parse_int (str_int k) = Some k" by (intro parse_int_str_int) simp
  with assms show ?thesis by (simp add: find_user_def)
qed

lemma whole_projection:
  "parse_attribute_projection None None = Inr p \<Longrightarrow> apply_attribute_projection resource p = resource"
  by (auto simp: parse_attribute_projection_def parse_attribute_list_def apply_attribute_projection_def
      selected_keys_def List.map_filter_def intro!: filter_True rev_image_eqI)

lemma no_projection: "\<exists>p. parse_attribute_projection None None = Inr p"
  by (simp add: parse_attribute_projection_def parse_attribute_list_def)

lemma scim_gate_fst: "fst (scim_gate u t) = fst (scim_gate u s)"
proof -
  have "require_roles [''security_admin'', ''iam_admin''] = Inr [''security_admin'', ''iam_admin'']" by code_simp
  from require_roles_gate_fst [OF this] show ?thesis by (simp add: scim_gate_def)
qed

lemma get_user_again:
  assumes run: "scim_route actor m s = (Inr x, s')"
    and row: "row_by u_id k (db_users (w_db t)) = Some u" and k: "1 \<le> k" "k < 2 ^ 63"
  shows "fst (get_user_route actor (str_int k) None None b t) = Inr (user_to_scim_resource (w_db t) u b)"
proof -
  from run obtain v s0 where "scim_gate actor s = (Inr v, s0)"
    by (auto simp: scim_route_def map_error_def run_ops split: prod.splits sum.splits)
  then have "fst (scim_gate actor t) = Inr v" using scim_gate_fst [of actor t s] by simp
  then obtain t0 where gate: "scim_gate actor t = (Inr v, t0)" by (cases "scim_gate actor t") auto
  from scim_gate_result [OF gate] have "w_db t0 = w_db t" by simp
  moreover obtain p where "parse_attribute_projection None None = Inr p" using no_projection by blast
  ultimately show ?thesis
    using find_by_printed_id [OF row k] whole_projection [of p]
    by (simp add: get_user_route_def scim_route_def map_error_def gate new_service_def scim_read_def
        get_scim_user_def run_ops)
qed

lemma user_result_eq:
  "user_result k b t = (Inr (resource, location), t') \<Longrightarrow>
   \<exists>u. row_by u_id k (db_users (w_db t)) = Some u \<and> resource = user_to_scim_resource (w_db t) u b \<and>
     location = build_user_location b k"
  by (auto simp: user_result_def from_option_def run_ops split: option.splits)

lemma user_created_cong:
  "user_created actor user_data s1 t k \<Longrightarrow> w_db s1 = w_db s \<Longrightarrow> w_env s1 = w_env s \<Longrightarrow>
   w_published s1 = w_published s \<Longrightarrow> user_created actor user_data s t k"
  by (simp add: user_created_def)

lemma user_changed_cong:
  "user_changed actor i new desired s1 t k \<Longrightarrow> w_db s1 = w_db s \<Longrightarrow> w_env s1 = w_env s \<Longrightarrow>
   w_published s1 = w_published s \<Longrightarrow> user_changed actor i new desired s t k"
  by (simp add: user_changed_def)

section \<open>A directory with the audit entitlements\<close>

definition sample_directory :: db where
  "sample_directory = sample_db
     \<lparr>db_applications := db_applications sample_db @
        [\<lparr>app_id = 4, app_name = ''SCIM'', app_slug = ''scim-provisioning''\<rparr>],
      db_entitlements := db_entitlements sample_db @
        [\<lparr>ent_id = 4, ent_name = ''Users'', ent_slug = ''user-lifecycle'', ent_application_id = 4\<rparr>,
         \<lparr>ent_id = 5, ent_name = ''Enterprise'', ent_slug = ''enterprise-user-extension'', ent_application_id = 4\<rparr>,
         \<lparr>ent_id = 6, ent_name = ''Groups'', ent_slug = ''group-lifecycle'', ent_application_id = 4\<rparr>]\<rparr>"

definition sample_scim :: world where
  "sample_scim = sample_world\<lparr>w_db := sample_directory\<rparr>"

definition sample_person :: json where
  "sample_person = JObj [(''userName'', JStr ''Zoe@Example.com''), (''displayName'', JStr '' Zoe ''),
     (SCIM_SCHEMA_ENTERPRISE_USER, JObj [(''department'', JStr ''Sales''), (''manager'', JObj [(''value'', JStr ''2'')])])]"

definition sample_change :: json where
  "sample_change = JObj [(''schemas'', JList [JStr ''urn:ietf:params:scim:api:messages:2.0:PatchOp'']),
     (''Operations'', JList [JObj [(''op'', JStr ''replace''), (''path'', JStr ''active''), (''value'', JBool False)]])]"

definition sample_staff :: json where
  "sample_staff = JObj [(''displayName'', JStr ''Staff''), (''members'', JList [JObj [(''value'', JStr ''4'')]])]"

lemma sample_scim_wf: "wf_directory (w_db sample_scim)" "fresh_keys (w_env sample_scim)"
proof -
  have lower: "lower ''root@example.com'' = ''root@example.com''" "lower ''ann@example.com'' = ''ann@example.com''"
    "lower ''hal@example.com'' = ''hal@example.com''" "lower ''bob@example.com'' = ''bob@example.com''"
    "lower ''eve@example.com'' = ''eve@example.com''" by code_simp+
  show "wf_directory (w_db sample_scim)"
    by (simp add: wf_directory_def wf_profiles_def wf_users_def wf_groups_def sample_scim_def sample_directory_def
        sample_db_def sample_user_def unique_names_def same_name_def email_name_def group_name_def lower
        manager_edges_def acyclic_def)
  show "fresh_keys (w_env sample_scim)" using sample_fresh by (simp add: sample_scim_def)
qed

lemma sample_scim_created: "returned (run_scim_request (CreateUser sample_person) root_admin ''http://x'' sample_scim)"
  by code_simp

lemma sample_scim_patched: "returned (run_scim_request (PatchUser ''4'' sample_change) root_admin ''http://x'' sample_scim)"
  by code_simp

lemma sample_scim_group: "returned (run_scim_request (ReplaceGroup ''1'' sample_staff) root_admin ''http://x'' sample_scim)"
  by code_simp

section \<open>The properties\<close>

text \<open>
  C7. SCIM requests, in any number and order and whether they succeed or fail, keep the directory well formed:
  identifiers are unique, e-mail addresses, employee numbers and group names are unique up to
  case, profiles and memberships refer to rows that exist, no user is twice in a group, and the
  manager relation is acyclic.
\<close>

theorem scim_directory_invariant:
  assumes "scim_step\<^sup>*\<^sup>* s t" and "wf_directory (w_db s)" and "fresh_keys (w_env s)"
  shows "wf_directory (w_db t)"
  using scim_steps_keep [OF assms] by simp

theorem scim_directory_invariant_witness:
  "wf_directory (w_db (snd (run_scim_request (CreateUser sample_person) root_admin ''http://x'' sample_scim)))"
proof (rule scim_directory_invariant [OF r_into_rtranclp sample_scim_wf])
  show "scim_step sample_scim (snd (run_scim_request (CreateUser sample_person) root_admin ''http://x'' sample_scim))"
    by (rule scim_step.request) (rule surjective_pairing)
qed

text \<open>
  C8. SCIM requests give nobody power: whatever requests run, every user keeps the operator role and the
  password hash, users that appear are plain employees, the audit log only grows, and the
  tables of access, delegations, campaigns, remediations and jobs stay as they were.
\<close>

theorem scim_grants_no_power:
  assumes "scim_step\<^sup>*\<^sup>* s t" and "wf_directory (w_db s)" and "fresh_keys (w_env s)"
  shows "no_new_power (w_db s) (w_db t)"
  using scim_steps_keep [OF assms] by simp

theorem scim_grants_no_power_witness:
  "no_new_power sample_directory
     (w_db (snd (run_scim_request (PatchUser ''4'' sample_change) root_admin ''http://x'' sample_scim)))"
proof -
  have "scim_step sample_scim (snd (run_scim_request (PatchUser ''4'' sample_change) root_admin ''http://x'' sample_scim))"
    by (rule scim_step.request) (rule surjective_pairing)
  then have "scim_step\<^sup>*\<^sup>* sample_scim
      (snd (run_scim_request (PatchUser ''4'' sample_change) root_admin ''http://x'' sample_scim))"
    by (rule r_into_rtranclp)
  from scim_grants_no_power [OF this sample_scim_wf] show ?thesis
    by (simp add: sample_scim_def)
qed

text \<open>
  C13. A SCIM request that fails publishes nothing and rolls its changes back.  It leaves one
  audit event, a denied one of the caller that carries the detail of the error response, unless
  the error is 403 (the role gate) or 500, in which case the tables may be untouched.
\<close>

theorem scim_request_failed:
  assumes "run_scim_request r actor b s = (Inl e, t)" and "wf_directory (w_db s)" and "fresh_keys (w_env s)"
  shows "w_published t = w_published s \<and>
    (w_db t = w_db s \<and> se_status_code e \<in> {403, 500} \<or>
     (\<exists>ev. ae_result ev = ''denied'' \<and> ae_requester_id ev = u_id actor \<and> ae_reason ev = se_detail e \<and>
        w_db t = (w_db s)\<lparr>db_audit := db_audit (w_db s) @ [ev]\<rparr>))"
  using run_scim_request_err [OF assms] unfolding only_denied_def denied_event_def by blast

theorem scim_request_failed_witness:
  "\<exists>ev. ae_result ev = ''denied'' \<and> ae_reason ev = ''Group 9 not found'' \<and>
     db_audit (w_db (snd (run_scim_request (ReplaceGroup ''9'' sample_staff) root_admin ''http://x'' sample_scim))) = [ev]"
proof -
  let ?r = "run_scim_request (ReplaceGroup ''9'' sample_staff) root_admin ''http://x'' sample_scim"
  have "fst ?r = Inl \<lparr>se_status_code = 404, se_detail = ''Group 9 not found'', se_scim_type = None\<rparr>" by code_simp
  then have "?r = (Inl \<lparr>se_status_code = 404, se_detail = ''Group 9 not found'', se_scim_type = None\<rparr>, snd ?r)"
    by (metis prod.collapse)
  from scim_request_failed [OF this sample_scim_wf] show ?thesis
    by (auto simp: sample_scim_def sample_directory_def sample_db_def)
qed

text \<open>
  C16. Creating a user works and can be read back: the new row has the parsed name and the address in lower
  case, the role of an employee and a fresh identifier, the enterprise profile holds the
  attributes of the payload, the events say so, and GET on the identifier returns the resource
  that the creation returned.
\<close>

theorem scim_created_user_found:
  assumes "run_scim_request (CreateUser payload) actor b s = (Inr (resource, location), t)"
    and "wf_directory (w_db s)" and "fresh_keys (w_env s)"
    and "1 \<le> env_key (w_env s) (map u_id (db_users (w_db s)))"
    and "env_key (w_env s) (map u_id (db_users (w_db s))) < 2 ^ 63"
  shows "\<exists>user_data k. parse_user_payload (env_email_address (w_env s)) payload = Inr user_data \<and>
    user_created actor user_data s t k \<and> location = build_user_location b k \<and>
    fst (get_user_route actor (str_int k) None None b t) = Inr resource"
proof -
  from assms(1) obtain s1 where op: "create_scim_user actor payload b s1 = (Inr (resource, location), t)"
    and s1: "w_db s1 = w_db s" "w_env s1 = w_env s" "w_published s1 = w_published s" "w_pending s1 = []"
    by (auto elim: run_scim_request_ok)
  from create_scim_user_result [OF op] s1 assms(2,3) obtain user_data k where
    data: "parse_user_payload (env_email_address (w_env s)) payload = Inr user_data"
    and c1: "user_created actor user_data s1 t k"
    and res: "user_result k b t = (Inr (resource, location), t)" by auto
  have c: "user_created actor user_data s t k" by (rule user_created_cong [OF c1 s1(1-3)])
  from user_result_eq [OF res] obtain u where u: "row_by u_id k (db_users (w_db t)) = Some u"
    "resource = user_to_scim_resource (w_db t) u b" "location = build_user_location b k" by auto
  have k: "1 \<le> k" "k < 2 ^ 63" using c assms(4,5) by (auto simp: user_created_def)
  from get_user_again [OF assms(1) [unfolded run_scim_request_def] u(1) k] data c u show ?thesis by blast
qed

theorem scim_created_user_found_witness:
  "\<exists>resource location t user_data.
     run_scim_request (CreateUser sample_person) root_admin ''http://x'' sample_scim = (Inr (resource, location), t) \<and>
     user_created root_admin user_data sample_scim t 6 \<and>
     fst (get_user_route root_admin (str_int 6) None None ''http://x'' t) = Inr resource"
proof -
  from sample_scim_created obtain res where run: "run_scim_request (CreateUser sample_person) root_admin ''http://x''
      sample_scim = (Inr res, snd (run_scim_request (CreateUser sample_person) root_admin ''http://x'' sample_scim))"
    by (rule returnedE)
  have key: "env_key (w_env sample_scim) (map u_id (db_users (w_db sample_scim))) = 6"
    by (simp add: sample_scim_def sample_directory_def sample_simps)
  obtain resource location where "res = (resource, location)" by fastforce
  with run scim_created_user_found [of sample_person root_admin "''http://x''" sample_scim resource location
      "snd (run_scim_request (CreateUser sample_person) root_admin ''http://x'' sample_scim)"] sample_scim_wf key
  show ?thesis by (fastforce simp: user_created_def)
qed

text \<open>
  C17. PATCH on a user changes what it names and nothing else: the operations parse to new values for
  name, address and activity and to a mutation of the enterprise profile, the row and the
  profile change accordingly, there is one audit event for the update (a deactivation, if the
  user is inactive afterwards) and one for each attribute that changed, and the published
  events are those of the profile.
\<close>

theorem scim_patch_user_effect:
  assumes "run_scim_request (PatchUser i payload) actor b s = (Inr (resource, location), t)"
    and "wf_directory (w_db s)" and "fresh_keys (w_env s)"
  shows "\<exists>old patch k. find_user i (w_db s) = Some old \<and>
    parse_patch_payload (env_email_address (w_env s)) old payload = Inr patch \<and>
    user_changed actor i (patched_user (spt_user_mutation patch))
      (enterprise_desired False (spt_enterprise_profile patch)) s t k \<and>
    location = build_user_location b k"
proof -
  from assms(1) obtain s1 where op: "patch_scim_user actor i payload b s1 = (Inr (resource, location), t)"
    and s1: "w_db s1 = w_db s" "w_env s1 = w_env s" "w_published s1 = w_published s"
    by (auto elim: run_scim_request_ok)
  from patch_scim_user_result [OF op] s1 assms(2,3) obtain old patch k where
    parsed: "find_user i (w_db s) = Some old"
      "parse_patch_payload (env_email_address (w_env s)) old payload = Inr patch"
    and c: "user_changed actor i (patched_user (spt_user_mutation patch))
      (enterprise_desired False (spt_enterprise_profile patch)) s1 t k"
    and res: "user_result k b t = (Inr (resource, location), t)" by auto
  from user_result_eq [OF res] have "location = build_user_location b k" by auto
  with parsed user_changed_cong [OF c s1] show ?thesis by blast
qed

theorem scim_patch_user_effect_witness:
  "\<exists>t patch. parse_patch_payload (env_email_address sample_env) bob sample_change = Inr patch \<and>
     user_changed root_admin ''4'' (patched_user (spt_user_mutation patch))
       (enterprise_desired False (spt_enterprise_profile patch)) sample_scim t 4"
proof -
  from sample_scim_patched obtain res where run: "run_scim_request (PatchUser ''4'' sample_change) root_admin
      ''http://x'' sample_scim = (Inr res, snd (run_scim_request (PatchUser ''4'' sample_change) root_admin
      ''http://x'' sample_scim))" by (rule returnedE)
  obtain resource location where res: "res = (resource, location)" by fastforce
  have bob: "find_user ''4'' (w_db sample_scim) = Some bob" by code_simp
  have env: "w_env sample_scim = sample_env" by (simp add: sample_scim_def sample_world_def)
  from scim_patch_user_effect [OF run [unfolded res] sample_scim_wf] bob obtain patch k where
    "parse_patch_payload (env_email_address sample_env) bob sample_change = Inr patch" and
    c: "user_changed root_admin ''4'' (patched_user (spt_user_mutation patch))
       (enterprise_desired False (spt_enterprise_profile patch)) sample_scim
       (snd (run_scim_request (PatchUser ''4'' sample_change) root_admin ''http://x'' sample_scim)) k"
    by (auto simp: env)
  moreover have "k = 4" using c bob by (auto simp: user_changed_def sample_user_def)
  ultimately show ?thesis by blast
qed

text \<open>
  C18. PUT on a group, when it succeeds, gives the group the name and exactly the members of the payload, in its
  order, with one audit event, and leaves the members of other groups alone.  It cannot succeed
  when the payload names a user who is a member already: the new memberships are inserted
  before the old ones are deleted, and a user is in a group once.
\<close>

theorem scim_put_group_effect:
  assumes "run_scim_request (ReplaceGroup i payload) actor b s = (Inr res, t)"
    and "wf_directory (w_db s)" and "fresh_keys (w_env s)"
  shows "\<exists>group_data old. parse_group_payload payload = Inr group_data \<and> find_group i (w_db s) = Some old \<and>
    group_changed actor ''scim_group_update'' (g_id old) (w_db s) (w_db t) \<and>
    group_title (w_db t) (g_id old) = Some (sgp_display_name group_data) \<and>
    member_ids (w_db t) (g_id old) = sgp_member_ids group_data \<and>
    set (sgp_member_ids group_data) \<inter> set (member_ids (w_db s) (g_id old)) = {}"
proof -
  from assms(1) obtain s1 where op: "replace_scim_group actor i payload b s1 = (Inr res, t)"
    and s1: "w_db s1 = w_db s" "w_env s1 = w_env s" by (auto elim: run_scim_request_ok)
  from replace_scim_group_result [OF op] s1 assms(2,3) show ?thesis by auto
qed

theorem scim_put_group_effect_witness:
  "\<exists>(t::world) group_data. parse_group_payload sample_staff = Inr group_data \<and> sgp_member_ids group_data = [4] \<and>
     member_ids (w_db t) 1 = [4] \<and> group_changed root_admin ''scim_group_update'' 1 sample_directory (w_db t)"
proof -
  from sample_scim_group obtain res where run: "run_scim_request (ReplaceGroup ''1'' sample_staff) root_admin
      ''http://x'' sample_scim = (Inr res, snd (run_scim_request (ReplaceGroup ''1'' sample_staff) root_admin
      ''http://x'' sample_scim))" by (rule returnedE)
  have staff: "map_option g_id (find_group ''1'' (w_db sample_scim)) = Some 1" by code_simp
  have parsed: "(case parse_group_payload sample_staff of Inr d \<Rightarrow> sgp_member_ids d | _ \<Rightarrow> []) = [4]" by code_simp
  let ?t = "snd (run_scim_request (ReplaceGroup ''1'' sample_staff) root_admin ''http://x'' sample_scim)"
  from scim_put_group_effect [OF run sample_scim_wf] staff parsed obtain d where
    "parse_group_payload sample_staff = Inr d" "sgp_member_ids d = [4]" "member_ids (w_db ?t) 1 = [4]"
    "group_changed root_admin ''scim_group_update'' 1 (w_db sample_scim) (w_db ?t)" by auto
  moreover have "w_db sample_scim = sample_directory" by (simp add: sample_scim_def)
  ultimately show ?thesis by auto
qed

text \<open>
  PUT is not idempotent on groups: when a PUT with at least one member succeeds, sending the same request again
  fails, whoever sends it.
\<close>

theorem scim_put_group_twice_fails:
  assumes "run_scim_request (ReplaceGroup i payload) actor b s = (Inr res, t)"
    and "wf_directory (w_db s)" and "fresh_keys (w_env s)"
    and "parse_group_payload payload = Inr group_data" and "sgp_member_ids group_data \<noteq> []"
  shows "\<exists>e. fst (run_scim_request (ReplaceGroup i payload) actor2 b t) = Inl e"
proof (cases "fst (run_scim_request (ReplaceGroup i payload) actor2 b t)")
  case (Inr x)
  then have again: "run_scim_request (ReplaceGroup i payload) actor2 b t =
      (Inr x, snd (run_scim_request (ReplaceGroup i payload) actor2 b t))" by (rule run_fst)
  from scim_request_keeps [OF assms(1-3)] assms(3) have t: "wf_directory (w_db t)" "fresh_keys (w_env t)" by simp_all
  from assms(1) obtain s1 where op1: "replace_scim_group actor i payload b s1 = (Inr res, t)"
    and s1: "w_db s1 = w_db s" "w_env s1 = w_env s" by (auto elim: run_scim_request_ok)
  from replace_scim_group_result [OF op1] s1 assms(2-4) obtain old where
    old: "find_group i (w_db s) = Some old" "member_ids (w_db t) (g_id old) = sgp_member_ids group_data" by auto
  from again obtain t1 t2 where op2: "replace_scim_group actor2 i payload b t1 = (Inr x, t2)"
    and t1: "w_db t1 = w_db t" "w_env t1 = w_env t" by (auto elim: run_scim_request_ok)
  from replace_scim_group_result [OF op2] t1 t assms(4) obtain old2 where
    old2: "find_group i (w_db t) = Some old2"
    "set (sgp_member_ids group_data) \<inter> set (member_ids (w_db t) (g_id old2)) = {}" by auto
  have "g_id old2 = g_id old" using old(1) old2(1)
    by (auto simp: find_group_def dest!: row_by_Some split: option.splits if_splits)
  with old(2) old2(2) assms(5) show ?thesis by simp
qed simp

theorem scim_put_group_twice_fails_witness:
  "\<exists>e. fst (run_scim_request (ReplaceGroup ''1'' sample_staff) root_admin ''http://x''
     (snd (run_scim_request (ReplaceGroup ''1'' sample_staff) root_admin ''http://x'' sample_scim))) = Inl e"
proof -
  from sample_scim_group obtain res where run: "run_scim_request (ReplaceGroup ''1'' sample_staff) root_admin
      ''http://x'' sample_scim = (Inr res, snd (run_scim_request (ReplaceGroup ''1'' sample_staff) root_admin
      ''http://x'' sample_scim))" by (rule returnedE)
  have "(case parse_group_payload sample_staff of Inr d \<Rightarrow> sgp_member_ids d | _ \<Rightarrow> []) = [4]" by code_simp
  then obtain d where "parse_group_payload sample_staff = Inr d" and "sgp_member_ids d \<noteq> []"
    by (auto split: sum.splits)
  from scim_put_group_twice_fails [OF run sample_scim_wf this] show ?thesis .
qed

end
