(* ===== verification/Graph.thy ===== *)
theory Graph
  imports Connectors
begin

text \<open>
  The authorization graph of \<open>app/graph/models.py\<close>: typed nodes in a dictionary, edges in
  insertion order with an index of the outgoing and incoming ones, and the breadth first search
  for a shortest path.  Property values are JSON values; a date is the integer of its column.

  The search is proved correct against reachability along the edges of the graph, taken in
  either direction: it finds a path exactly when there is one, and the path is a shortest one.
\<close>

section \<open>Nodes and edges\<close>

datatype node_type =
    USER | GROUP | APPLICATION | ENTITLEMENT | DELEGATION | CERTIFICATION_CAMPAIGN | REVIEW_ITEM
  | PROVISIONING_JOB | PROVISIONING_HISTORY | REMEDIATION_JOB | AUDIT_EVENT | CONNECTOR | ENTERPRISE_PROFILE

fun node_type_value :: "node_type \<Rightarrow> string" where
  "node_type_value USER = ''User''"
| "node_type_value GROUP = ''Group''"
| "node_type_value APPLICATION = ''Application''"
| "node_type_value ENTITLEMENT = ''Entitlement''"
| "node_type_value DELEGATION = ''Delegation''"
| "node_type_value CERTIFICATION_CAMPAIGN = ''CertificationCampaign''"
| "node_type_value REVIEW_ITEM = ''ReviewItem''"
| "node_type_value PROVISIONING_JOB = ''ProvisioningJob''"
| "node_type_value PROVISIONING_HISTORY = ''ProvisioningHistory''"
| "node_type_value REMEDIATION_JOB = ''RemediationJob''"
| "node_type_value AUDIT_EVENT = ''AuditEvent''"
| "node_type_value CONNECTOR = ''Connector''"
| "node_type_value ENTERPRISE_PROFILE = ''EnterpriseProfile''"

datatype edge_type =
    MEMBER_OF | HAS_ENTITLEMENT | GRANTS_ACCESS_TO | PROVISIONED_BY | REVIEWED_IN | REMEDIATED_BY
  | MANAGED_BY | DELEGATED_TO | CONNECTED_TO | AUDITED_BY

fun edge_type_value :: "edge_type \<Rightarrow> string" where
  "edge_type_value MEMBER_OF = ''MEMBER_OF''"
| "edge_type_value HAS_ENTITLEMENT = ''HAS_ENTITLEMENT''"
| "edge_type_value GRANTS_ACCESS_TO = ''GRANTS_ACCESS_TO''"
| "edge_type_value PROVISIONED_BY = ''PROVISIONED_BY''"
| "edge_type_value REVIEWED_IN = ''REVIEWED_IN''"
| "edge_type_value REMEDIATED_BY = ''REMEDIATED_BY''"
| "edge_type_value MANAGED_BY = ''MANAGED_BY''"
| "edge_type_value DELEGATED_TO = ''DELEGATED_TO''"
| "edge_type_value CONNECTED_TO = ''CONNECTED_TO''"
| "edge_type_value AUDITED_BY = ''AUDITED_BY''"

record graph_node =
  gn_id :: string
  gn_type :: node_type
  gn_label :: string
  gn_reference :: string
  gn_properties :: payload
  gn_timestamp :: "int option"

record graph_edge =
  ge_id :: string
  ge_source :: string
  ge_target :: string
  ge_type :: edge_type
  ge_label :: string
  ge_reference :: string
  ge_properties :: payload
  ge_timestamp :: "int option"
  ge_correlation_id :: "string option"

record authorization_graph =
  ag_nodes :: "(string \<times> graph_node) list"
  ag_edges :: "graph_edge list"
  ag_outgoing :: "(string \<times> graph_edge list) list"
  ag_incoming :: "(string \<times> graph_edge list) list"

definition empty_graph :: authorization_graph where
  "empty_graph = \<lparr>ag_nodes = [], ag_edges = [], ag_outgoing = [], ag_incoming = []\<rparr>"

definition graph_node_id :: "node_type \<Rightarrow> string \<Rightarrow> string" where
  "graph_node_id node_type source_id = node_type_value node_type @ '':'' @ source_id"

text \<open>\<open>d.setdefault(k, [])\<close>, and \<open>d.setdefault(k, []).append(x)\<close>.\<close>

definition set_default :: "string \<Rightarrow> (string \<times> 'a list) list \<Rightarrow> (string \<times> 'a list) list" where
  "set_default k d = (if k \<in> fst ` set d then d else d @ [(k, [])])"

definition append_to :: "string \<Rightarrow> 'a \<Rightarrow> (string \<times> 'a list) list \<Rightarrow> (string \<times> 'a list) list" where
  "append_to k x d = dict_set k (dict_get [] d k @ [x]) d"

definition add_node :: "graph_node \<Rightarrow> authorization_graph \<Rightarrow> authorization_graph" where
  "add_node node g = g\<lparr>ag_nodes := dict_set (gn_id node) node (ag_nodes g),
     ag_outgoing := set_default (gn_id node) (ag_outgoing g),
     ag_incoming := set_default (gn_id node) (ag_incoming g)\<rparr>"

text \<open>The arguments of \<open>add_edge\<close>; the identifier of the edge is its position.\<close>

record edge_spec =
  es_source :: string
  es_target :: string
  es_type :: edge_type
  es_label :: string
  es_reference :: string
  es_properties :: payload
  es_timestamp :: "int option"
  es_correlation_id :: "string option"

definition new_edge :: "nat \<Rightarrow> edge_spec \<Rightarrow> graph_edge" where
  "new_edge n e = \<lparr>ge_id = ''edge:'' @ digits (n + 1), ge_source = es_source e, ge_target = es_target e,
     ge_type = es_type e, ge_label = es_label e, ge_reference = es_reference e,
     ge_properties = es_properties e, ge_timestamp = es_timestamp e, ge_correlation_id = es_correlation_id e\<rparr>"

definition add_edge :: "edge_spec \<Rightarrow> authorization_graph \<Rightarrow> authorization_graph" where
  "add_edge e g = (let edge = new_edge (length (ag_edges g)) e in
     g\<lparr>ag_edges := ag_edges g @ [edge],
       ag_outgoing := append_to (es_source e) edge (ag_outgoing g),
       ag_incoming := append_to (es_target e) edge (ag_incoming g)\<rparr>)"

definition get_node :: "authorization_graph \<Rightarrow> string \<Rightarrow> graph_node option" where
  "get_node g node_id = map_of (ag_nodes g) node_id"

definition edges_for :: "authorization_graph \<Rightarrow> string \<Rightarrow> graph_edge list" where
  "edges_for g node_id =
     sort_key ge_id (dict_get [] (ag_outgoing g) node_id @ dict_get [] (ag_incoming g) node_id)"

definition of_type :: "edge_type option \<Rightarrow> graph_edge list \<Rightarrow> graph_edge list" where
  "of_type edge_type edges = (case edge_type of None \<Rightarrow> edges | Some ty \<Rightarrow> filter (\<lambda>e. ge_type e = ty) edges)"

definition outgoing :: "authorization_graph \<Rightarrow> string \<Rightarrow> edge_type option \<Rightarrow> graph_edge list" where
  "outgoing g node_id edge_type = sort_key ge_id (of_type edge_type (dict_get [] (ag_outgoing g) node_id))"

definition incoming :: "authorization_graph \<Rightarrow> string \<Rightarrow> edge_type option \<Rightarrow> graph_edge list" where
  "incoming g node_id edge_type = sort_key ge_id (of_type edge_type (dict_get [] (ag_incoming g) node_id))"

section \<open>The shortest path\<close>

record graph_path =
  gp_source :: string
  gp_target :: string
  gp_nodes :: "graph_node list"
  gp_edges :: "graph_edge list"
  gp_found :: bool

type_synonym search_entry = "string \<times> string list \<times> graph_edge list"

definition neighbor :: "string \<Rightarrow> graph_edge \<Rightarrow> string" where
  "neighbor current edge = (if ge_source edge = current then ge_target edge else ge_source edge)"

text \<open>The inner loop: the edges of the current node, the visited set, the queue.\<close>

fun visit_edges ::
  "string \<Rightarrow> string list \<Rightarrow> graph_edge list \<Rightarrow> graph_edge list \<Rightarrow> string list \<times> search_entry list \<Rightarrow>
   string list \<times> search_entry list" where
  "visit_edges current path_nodes path_edges [] state = state"
| "visit_edges current path_nodes path_edges (e # es) (visited, queue) =
     visit_edges current path_nodes path_edges es
       (if neighbor current e \<in> set visited then (visited, queue)
        else (neighbor current e # visited,
              queue @ [(neighbor current e, path_nodes @ [neighbor current e], path_edges @ [e])]))"

definition endpoints :: "authorization_graph \<Rightarrow> string set" where
  "endpoints g = (\<Union>e \<in> set (concat (map snd (ag_outgoing g)) @ concat (map snd (ag_incoming g))).
     {ge_source e, ge_target e})"

lemma finite_endpoints: "finite (endpoints g)"
  by (simp add: endpoints_def)

lemma dict_get_in:
  assumes "x \<in> set (dict_get [] d k)"
  shows "x \<in> set (concat (map snd d))"
proof (cases "map_of d k")
  case None
  with assms show ?thesis by (simp add: dict_get_def)
next
  case (Some xs)
  then have "(k, xs) \<in> set d" by (rule map_of_SomeD)
  with Some assms show ?thesis by (force simp: dict_get_def)
qed

lemma edges_for_endpoints:
  assumes "e \<in> set (edges_for g x)"
  shows "neighbor y e \<in> endpoints g"
proof -
  from assms have "e \<in> set (concat (map snd (ag_outgoing g)) @ concat (map snd (ag_incoming g)))"
    unfolding edges_for_def set_sort set_append by (blast dest: dict_get_in)
  moreover have "neighbor y e \<in> {ge_source e, ge_target e}" by (simp add: neighbor_def)
  ultimately show ?thesis unfolding endpoints_def by (rule UN_I)
qed

text \<open>Visiting marks nodes and queues as many entries: the unvisited nodes become fewer or nothing is queued.\<close>

lemma visit_edges_progress:
  assumes "visit_edges c pn pe es (visited, queue) = (visited', queue')"
    and "\<forall>e \<in> set es. neighbor c e \<in> V" and "finite V"
  shows "set visited \<subseteq> set visited' \<and>
    (card (V - set visited') < card (V - set visited) \<or> queue' = queue \<and> set visited' = set visited)"
  using assms(1,2)
proof (induction es arbitrary: visited queue)
  case Nil
  then show ?case by simp
next
  case (Cons e es)
  show ?case
  proof (cases "neighbor c e \<in> set visited")
    case True
    with Cons show ?thesis by simp
  next
    case False
    let ?v = "neighbor c e # visited"
    from Cons.IH [of ?v "queue @ [(neighbor c e, pn @ [neighbor c e], pe @ [e])]"] Cons.prems False
    have ih: "set ?v \<subseteq> set visited'" "card (V - set visited') \<le> card (V - set ?v)" by auto
    have "V - set ?v \<subset> V - set visited" using False Cons.prems(2) by auto
    then have "card (V - set ?v) < card (V - set visited)" using assms(3) by (simp add: psubset_card_mono)
    with ih show ?thesis by auto
  qed
qed

function search ::
  "authorization_graph \<Rightarrow> string \<Rightarrow> string list \<Rightarrow> search_entry list \<Rightarrow> (string list \<times> graph_edge list) option" where
  "search g target visited [] = None"
| "search g target visited ((current, path_nodes, path_edges) # queue) =
     (if current = target then Some (path_nodes, path_edges)
      else case visit_edges current path_nodes path_edges (edges_for g current) (visited, queue) of
             (visited', queue') \<Rightarrow> search g target visited' queue')"
  by pat_completeness auto
termination
proof (relation "measures [\<lambda>(g, target, visited, queue). card (endpoints g - set visited),
    \<lambda>(g, target, visited, queue). length queue]")
  fix g :: authorization_graph and target :: string and visited current path_nodes path_edges
    and queue :: "search_entry list" and visited' queue'
  assume "(visited', queue') = visit_edges current path_nodes path_edges (edges_for g current) (visited, queue)"
  then have "visit_edges current path_nodes path_edges (edges_for g current) (visited, queue) = (visited', queue')"
    by simp
  from visit_edges_progress [OF this _ finite_endpoints [of g]]
  show "((g, target, visited', queue'), g, target, visited, (current, path_nodes, path_edges) # queue)
      \<in> measures [\<lambda>(g, target, visited, queue). card (endpoints g - set visited),
        \<lambda>(g, target, visited, queue). length queue]"
    by (auto simp: edges_for_endpoints)
qed simp

declare search.simps [simp del]

definition not_found :: "string \<Rightarrow> string \<Rightarrow> graph_path" where
  "not_found source target =
     \<lparr>gp_source = source, gp_target = target, gp_nodes = [], gp_edges = [], gp_found = False\<rparr>"

text \<open>A node on the path that is not in the dictionary would be a \<open>KeyError\<close>: \<open>None\<close>.\<close>

definition path_nodes_of :: "authorization_graph \<Rightarrow> string list \<Rightarrow> graph_node list option" where
  "path_nodes_of g ids = those (map (get_node g) ids)"

definition shortest_path :: "authorization_graph \<Rightarrow> string \<Rightarrow> string \<Rightarrow> graph_path option" where
  "shortest_path g source target =
     (if source \<notin> fst ` set (ag_nodes g) \<or> target \<notin> fst ` set (ag_nodes g)
      then Some (not_found source target)
      else case search g target [source] [(source, [source], [])] of
             None \<Rightarrow> Some (not_found source target)
           | Some (path_nodes, path_edges) \<Rightarrow>
               map_option (\<lambda>nodes. \<lparr>gp_source = source, gp_target = target, gp_nodes = nodes,
                 gp_edges = path_edges, gp_found = True\<rparr>) (path_nodes_of g path_nodes))"

section \<open>The search is correct\<close>

inductive walk :: "authorization_graph \<Rightarrow> string \<Rightarrow> graph_edge list \<Rightarrow> string \<Rightarrow> bool"
  for g :: authorization_graph and s :: string where
  start: "walk g s [] s"
| step: "walk g s es x \<Longrightarrow> e \<in> set (edges_for g x) \<Longrightarrow> walk g s (es @ [e]) (neighbor x e)"

inductive_cases walk_NilE: "walk g s [] y"
inductive_cases walk_snocE: "walk g s (es @ [e]) y"

primrec nodes_along :: "string \<Rightarrow> graph_edge list \<Rightarrow> string list" where
  "nodes_along s [] = [s]"
| "nodes_along s (e # es) = s # nodes_along (neighbor s e) es"

lemma last_nodes_along: "walk g s es x \<Longrightarrow> last (nodes_along s es) = x"
proof (induction rule: walk.induct)
  case (step es x e)
  have ne: "nodes_along s es \<noteq> []" for s es by (cases es) simp_all
  have "last (nodes_along s (es @ [e])) = neighbor (last (nodes_along s es)) e" for s
    by (induction es arbitrary: s) (auto simp: ne)
  with step.IH show ?case by simp
qed simp

lemma nodes_along_snoc: "walk g s es x \<Longrightarrow> nodes_along s (es @ [e]) = nodes_along s es @ [neighbor x e]"
proof -
  have ne: "nodes_along s es \<noteq> []" for s es by (cases es) simp_all
  have "nodes_along s (es @ [e]) = nodes_along s es @ [neighbor (last (nodes_along s es)) e]" for s
    by (induction es arbitrary: s) (auto simp: ne)
  then show "walk g s es x \<Longrightarrow> nodes_along s (es @ [e]) = nodes_along s es @ [neighbor x e]"
    by (simp add: last_nodes_along)
qed

text \<open>What the inner loop adds.\<close>

definition fresh_entry ::
  "string \<Rightarrow> string list \<Rightarrow> graph_edge list \<Rightarrow> graph_edge list \<Rightarrow> string list \<Rightarrow> search_entry \<Rightarrow> bool" where
  "fresh_entry c pn pe es visited entry \<longleftrightarrow>
     (\<exists>e \<in> set es. neighbor c e \<notin> set visited \<and> entry = (neighbor c e, pn @ [neighbor c e], pe @ [e]))"

lemma visit_edges_spec:
  assumes "visit_edges c pn pe es (visited, queue) = (visited', queue')"
  shows "\<exists>new. queue' = queue @ new \<and> set visited' = set visited \<union> neighbor c ` set es \<and>
     set visited' = set visited \<union> fst ` set new \<and> list_all (fresh_entry c pn pe es visited) new"
  using assms
proof (induction es arbitrary: visited queue)
  case Nil
  then show ?case by simp
next
  case (Cons e es)
  show ?case
  proof (cases "neighbor c e \<in> set visited")
    case True
    with Cons.prems have "visit_edges c pn pe es (visited, queue) = (visited', queue')" by simp
    from Cons.IH [OF this] obtain new where new: "queue' = queue @ new"
      "set visited' = set visited \<union> neighbor c ` set es" "set visited' = set visited \<union> fst ` set new"
      "list_all (fresh_entry c pn pe es visited) new" by blast
    have "list_all (fresh_entry c pn pe (e # es) visited) new"
      using new(4) by (auto simp: list_all_iff fresh_entry_def)
    with new True show ?thesis by auto
  next
    case False
    let ?x = "(neighbor c e, pn @ [neighbor c e], pe @ [e])"
    from Cons.prems False have "visit_edges c pn pe es (neighbor c e # visited, queue @ [?x]) = (visited', queue')"
      by simp
    from Cons.IH [OF this] obtain new where new: "queue' = (queue @ [?x]) @ new"
      "set visited' = set (neighbor c e # visited) \<union> neighbor c ` set es"
      "set visited' = set (neighbor c e # visited) \<union> fst ` set new"
      "list_all (fresh_entry c pn pe es (neighbor c e # visited)) new" by blast
    have "list_all (fresh_entry c pn pe (e # es) visited) (?x # new)"
      using new(4) False by (auto simp: list_all_iff fresh_entry_def)
    moreover have "queue' = queue @ (?x # new)" using new(1) by simp
    moreover have "set visited' = set visited \<union> neighbor c ` set (e # es)" using new(2) by auto
    moreover have "set visited' = set visited \<union> fst ` set (?x # new)" using new(3) by auto
    ultimately show ?thesis by blast
  qed
qed

definition entry_length :: "search_entry \<Rightarrow> nat" where
  "entry_length x = length (snd (snd x))"

definition good_entry :: "authorization_graph \<Rightarrow> string \<Rightarrow> string list \<Rightarrow> search_entry \<Rightarrow> bool" where
  "good_entry g s visited x \<longleftrightarrow> walk g s (snd (snd x)) (fst x) \<and> fst (snd x) = nodes_along s (snd (snd x)) \<and>
     fst x \<in> set visited \<and> (\<forall>es. walk g s es (fst x) \<longrightarrow> entry_length x \<le> length es)"

definition closed_node :: "authorization_graph \<Rightarrow> string \<Rightarrow> string list \<Rightarrow> string \<Rightarrow> bool" where
  "closed_node g target visited v \<longleftrightarrow> v \<noteq> target \<and> neighbor v ` set (edges_for g v) \<subseteq> set visited"

text \<open>
  The invariant: the queue holds shortest paths, in order of length, at most two lengths apart;
  a visited node is queued or done with; everything as near as the head has been visited.
\<close>

definition search_invariant ::
  "authorization_graph \<Rightarrow> string \<Rightarrow> string \<Rightarrow> string list \<Rightarrow> search_entry list \<Rightarrow> bool" where
  "search_invariant g s target visited queue \<longleftrightarrow>
     (\<forall>x \<in> set queue. good_entry g s visited x) \<and>
     sorted (map entry_length queue) \<and> (\<forall>x \<in> set queue. entry_length x \<le> Suc (entry_length (hd queue))) \<and>
     (\<forall>v \<in> set visited. v \<in> fst ` set queue \<or> closed_node g target visited v) \<and>
     (queue \<noteq> [] \<longrightarrow> (\<forall>es v. walk g s es v \<longrightarrow> length es \<le> entry_length (hd queue) \<longrightarrow> v \<in> set visited)) \<and>
     s \<in> set visited"

lemma search_invariant_start: "search_invariant g s target [s] [(s, [s], [])]"
  by (auto simp: search_invariant_def good_entry_def entry_length_def intro: walk.start elim: walk_NilE)

lemma search_invariant_step:
  assumes inv: "search_invariant g s target visited ((c, pn, pe) # queue)" and "c \<noteq> target"
    and visit: "visit_edges c pn pe (edges_for g c) (visited, queue) = (visited', queue')"
  shows "search_invariant g s target visited' queue'"
proof -
  let ?d = "length pe"
  from visit_edges_spec [OF visit] obtain new where queue': "queue' = queue @ new"
    and vis: "set visited' = set visited \<union> neighbor c ` set (edges_for g c)"
    and vis2: "set visited' = set visited \<union> fst ` set new"
    and new: "\<And>x. x \<in> set new \<Longrightarrow> fresh_entry c pn pe (edges_for g c) visited x"
    by (auto simp: list_all_iff)
  from inv have good: "\<And>x. x \<in> set ((c, pn, pe) # queue) \<Longrightarrow> good_entry g s visited x"
    and sorted: "sorted (map entry_length ((c, pn, pe) # queue))"
    and near: "\<And>x. x \<in> set queue \<Longrightarrow> entry_length x \<le> Suc ?d"
    and closed: "\<And>v. v \<in> set visited \<Longrightarrow> v \<in> fst ` set ((c, pn, pe) # queue) \<or> closed_node g target visited v"
    and seen: "\<And>es v. walk g s es v \<Longrightarrow> length es \<le> ?d \<Longrightarrow> v \<in> set visited" and s: "s \<in> set visited"
    by (auto simp: search_invariant_def entry_length_def)
  from good [of "(c, pn, pe)"] have c: "walk g s pe c" "pn = nodes_along s pe" by (auto simp: good_entry_def)
  have new_length: "entry_length x = Suc ?d" if "x \<in> set new" for x
    using new [OF that] by (auto simp: fresh_entry_def entry_length_def)
  have new_good: "good_entry g s visited' x" if x: "x \<in> set new" for x
  proof -
    from new [OF x] obtain e where e: "e \<in> set (edges_for g c)" "neighbor c e \<notin> set visited"
      "x = (neighbor c e, pn @ [neighbor c e], pe @ [e])" by (auto simp: fresh_entry_def)
    have "Suc ?d \<le> length es" if "walk g s es (neighbor c e)" for es
      using seen [OF that] e(2) by (meson not_less_eq_eq)
    then show ?thesis
      using walk.step [OF c(1) e(1)] c vis e nodes_along_snoc [OF c(1)]
      by (auto simp: good_entry_def entry_length_def)
  qed
  have old_good: "good_entry g s visited' x" if "x \<in> set queue" for x
    using good [of x] that vis by (auto simp: good_entry_def)
  have A: "\<forall>x \<in> set queue'. good_entry g s visited' x" using new_good old_good queue' by auto
  have B: "sorted (map entry_length queue')"
  proof -
    have "map entry_length new = replicate (length new) (Suc ?d)"
      using new_length by (intro replicate_eqI) auto
    then show ?thesis using sorted near by (auto simp: queue' sorted_append)
  qed
  have low: "?d \<le> entry_length x" if "x \<in> set queue'" for x
  proof (cases "x \<in> set new")
    case True
    then show ?thesis by (simp add: new_length)
  next
    case False
    with that sorted show ?thesis by (auto simp: queue' entry_length_def)
  qed
  have up: "entry_length x \<le> Suc ?d" if "x \<in> set queue'" for x
  proof (cases "x \<in> set new")
    case True
    then show ?thesis by (simp add: new_length)
  next
    case False
    with that near [of x] show ?thesis by (simp add: queue')
  qed
  have B2: "\<forall>x \<in> set queue'. entry_length x \<le> Suc (entry_length (hd queue'))"
    using low up by (metis hd_in_set empty_iff empty_set le_trans not_less_eq_eq order_refl)
  have C: "v \<in> fst ` set queue' \<or> closed_node g target visited' v" if "v \<in> set visited'" for v
  proof (cases "v \<in> set visited")
    case True
    with closed [of v] show ?thesis
      using \<open>c \<noteq> target\<close> vis by (auto simp: queue' closed_node_def)
  qed (use that vis2 queue' in auto)
  have D: "v \<in> set visited'" if w: "walk g s es v" and l: "length es \<le> entry_length (hd queue')" and q: "queue' \<noteq> []"
    for es v
  proof (cases "length es \<le> ?d")
    case True
    with seen [OF w] vis show ?thesis by auto
  next
    case False
    with l up [of "hd queue'"] q have len: "length es = Suc ?d" and hd: "entry_length (hd queue') = Suc ?d" by auto
    from len obtain es0 e where es: "es = es0 @ [e]" by (cases es rule: rev_cases) auto
    with w obtain x where x: "walk g s es0 x" "e \<in> set (edges_for g x)" "v = neighbor x e"
      by (auto elim: walk_snocE)
    from es len have "length es0 = ?d" by simp
    then have "x \<in> set visited'" using seen [OF x(1)] vis by auto
    from C [OF this] show ?thesis
    proof
      assume "x \<in> fst ` set queue'"
      then obtain y where y: "y \<in> set queue'" "fst y = x" by auto
      have "Suc ?d \<le> entry_length y" using B y(1) hd by (cases queue') (auto simp: hd)
      moreover have "entry_length y \<le> length es0"
      proof -
        from A y(1) have "good_entry g s visited' y" by blast
        with x(1) y(2) show ?thesis unfolding good_entry_def by blast
      qed
      ultimately show ?thesis using \<open>length es0 = ?d\<close> by simp
    next
      assume "closed_node g target visited' x"
      with x show ?thesis by (auto simp: closed_node_def)
    qed
  qed
  have E: "s \<in> set visited'" using s vis by auto
  show ?thesis unfolding search_invariant_def using A B B2 C D E by blast
qed

lemma walk_closed:
  assumes "walk g s es v" and "s \<in> V" and "\<And>v. v \<in> V \<Longrightarrow> neighbor v ` set (edges_for g v) \<subseteq> V"
  shows "v \<in> V"
  using assms(1) by (induction rule: walk.induct) (use assms in auto)

lemma search_correct:
  assumes "search_invariant g s target visited queue"
  shows "case search g target visited queue of
      None \<Rightarrow> \<not> (\<exists>es. walk g s es target)
    | Some (pn, pe) \<Rightarrow> walk g s pe target \<and> pn = nodes_along s pe \<and>
        (\<forall>es. walk g s es target \<longrightarrow> length pe \<le> length es)"
  using assms
proof (induction g target visited queue rule: search.induct)
  case (1 g target visited)
  then have closed: "\<And>v. v \<in> set visited \<Longrightarrow> closed_node g target visited v" and s: "s \<in> set visited"
    by (auto simp: search_invariant_def)
  have "v \<in> set visited" if "walk g s es v" for es v
    using that s by (rule walk_closed) (use closed in \<open>auto simp: closed_node_def\<close>)
  with closed show ?case by (auto simp: search.simps closed_node_def)
next
  case (2 g target visited c pn pe queue)
  show ?case
  proof (cases "c = target")
    case True
    with "2.prems" show ?thesis
      by (auto simp: search.simps search_invariant_def good_entry_def entry_length_def)
  next
    case False
    obtain visited' queue' where v: "visit_edges c pn pe (edges_for g c) (visited, queue) = (visited', queue')"
      by fastforce
    have "search_invariant g s target visited' queue'" by (rule search_invariant_step [OF "2.prems" False v])
    from "2.IH" [OF False v [symmetric] this] show ?thesis using False v by (simp add: search.simps)
  qed
qed

section \<open>Well-formed graphs\<close>

text \<open>
  Between its operations the graph keeps the indexes equal to the edges they index, the two ends
  of every edge among the nodes, and every node under its own identifier.
\<close>

definition wf_graph :: "authorization_graph \<Rightarrow> bool" where
  "wf_graph g \<longleftrightarrow>
     (\<forall>k. dict_get [] (ag_outgoing g) k = filter (\<lambda>e. ge_source e = k) (ag_edges g)) \<and>
     (\<forall>k. dict_get [] (ag_incoming g) k = filter (\<lambda>e. ge_target e = k) (ag_edges g)) \<and>
     (\<forall>e \<in> set (ag_edges g). get_node g (ge_source e) \<noteq> None \<and> get_node g (ge_target e) \<noteq> None) \<and>
     (\<forall>k n. get_node g k = Some n \<longrightarrow> gn_id n = k)"

text \<open>\<open>_add_edge_if_nodes_exist\<close> of \<open>app/graph/builder.py\<close>: the only way edges are added.\<close>

definition add_edge_if_nodes_exist :: "edge_spec \<Rightarrow> authorization_graph \<Rightarrow> authorization_graph" where
  "add_edge_if_nodes_exist e g =
     (if es_source e \<notin> fst ` set (ag_nodes g) \<or> es_target e \<notin> fst ` set (ag_nodes g) then g
      else add_edge e g)"

lemma dict_get_set_default [simp]: "dict_get [] (set_default k d) k' = dict_get [] d k'"
  by (auto simp: set_default_def dict_get_def map_add_def split: option.splits dest: weak_map_of_SomeI)

lemma dict_get_append_to [simp]:
  "dict_get [] (append_to k x d) k' = dict_get [] d k' @ (if k' = k then [x] else [])"
  by (simp add: append_to_def)

lemma get_node_keys: "k \<in> fst ` set (ag_nodes g) \<longleftrightarrow> get_node g k \<noteq> None"
  by (simp add: get_node_def map_of_eq_None_iff)

lemma wf_empty_graph: "wf_graph empty_graph"
  by (simp add: wf_graph_def empty_graph_def get_node_def dict_get_def)

lemma get_node_add_node [simp]: "get_node (add_node n g) k = (if k = gn_id n then Some n else get_node g k)"
  by (simp add: get_node_def add_node_def)

lemma ag_edges_add_node [simp]: "ag_edges (add_node n g) = ag_edges g"
  by (simp add: add_node_def)

lemma wf_add_node: "wf_graph g \<Longrightarrow> wf_graph (add_node n g)"
  by (auto simp: wf_graph_def) (auto simp: add_node_def)

lemma get_node_add_edge [simp]: "get_node (add_edge_if_nodes_exist e g) = get_node g"
  by (simp add: fun_eq_iff get_node_def add_edge_if_nodes_exist_def add_edge_def Let_def)

lemma ag_edges_add_edge:
  "ag_edges (add_edge_if_nodes_exist e g) = ag_edges g @
     (if get_node g (es_source e) \<noteq> None \<and> get_node g (es_target e) \<noteq> None
      then [new_edge (length (ag_edges g)) e] else [])"
  by (auto simp: add_edge_if_nodes_exist_def add_edge_def Let_def get_node_keys)

lemma new_edge_ends [simp]: "ge_source (new_edge n e) = es_source e" "ge_target (new_edge n e) = es_target e"
  by (simp_all add: new_edge_def)

lemma wf_add_edge:
  assumes "wf_graph g"
  shows "wf_graph (add_edge_if_nodes_exist e g)"
proof (cases "get_node g (es_source e) \<noteq> None \<and> get_node g (es_target e) \<noteq> None")
  case True
  then have g': "add_edge_if_nodes_exist e g = add_edge e g"
    by (simp add: add_edge_if_nodes_exist_def get_node_keys)
  have n: "get_node (add_edge e g) = get_node g"
    by (simp add: fun_eq_iff get_node_def add_edge_def Let_def)
  show ?thesis
    unfolding g' wf_graph_def n using assms True
    by (auto simp: wf_graph_def add_edge_def Let_def)
next
  case False
  then have "add_edge_if_nodes_exist e g = g" by (auto simp: add_edge_if_nodes_exist_def get_node_keys)
  with assms show ?thesis by simp
qed

lemma edges_for_iff:
  assumes "wf_graph g"
  shows "e \<in> set (edges_for g x) \<longleftrightarrow> e \<in> set (ag_edges g) \<and> (ge_source e = x \<or> ge_target e = x)"
  using assms by (auto simp: wf_graph_def edges_for_def)

text \<open>Edges that lead from one node to another, each crossed in either direction.\<close>

fun trail :: "authorization_graph \<Rightarrow> string \<Rightarrow> graph_edge list \<Rightarrow> string \<Rightarrow> bool" where
  "trail g s [] t \<longleftrightarrow> s = t"
| "trail g s (e # es) t \<longleftrightarrow> e \<in> set (ag_edges g) \<and> (ge_source e = s \<or> ge_target e = s) \<and> trail g (neighbor s e) es t"

lemma trail_snoc:
  "trail g s (es @ [e]) t \<longleftrightarrow>
     (\<exists>x. trail g s es x \<and> e \<in> set (ag_edges g) \<and> (ge_source e = x \<or> ge_target e = x) \<and> t = neighbor x e)"
  by (induction es arbitrary: s) auto

lemma walk_trail:
  assumes "wf_graph g"
  shows "walk g s es t \<longleftrightarrow> trail g s es t"
proof (induction es arbitrary: t rule: rev_induct)
  case Nil
  then show ?case by (auto intro: walk.start elim: walk_NilE)
next
  case (snoc e es)
  have "walk g s (es @ [e]) t \<longleftrightarrow> (\<exists>x. walk g s es x \<and> e \<in> set (edges_for g x) \<and> t = neighbor x e)"
    by (blast intro: walk.step elim: walk_snocE)
  with snoc show ?case by (simp add: trail_snoc edges_for_iff [OF assms])
qed

lemma trail_known:
  assumes "wf_graph g" and "trail g s es t" and "get_node g s \<noteq> None"
  shows "\<forall>x \<in> set (nodes_along s es). get_node g x \<noteq> None"
  using assms(2,3)
proof (induction es arbitrary: s)
  case (Cons e es)
  from Cons.prems assms(1) have "get_node g (neighbor s e) \<noteq> None" by (auto simp: wf_graph_def neighbor_def)
  with Cons show ?case by auto
qed simp

lemma path_nodes_of_known:
  assumes "\<forall>x \<in> set ids. get_node g x \<noteq> None"
  shows "path_nodes_of g ids = Some (map (\<lambda>x. the (get_node g x)) ids)"
  using assms by (induction ids) (auto simp: path_nodes_of_def)

lemma node_ids_known:
  assumes "wf_graph g" and "\<forall>x \<in> set ids. get_node g x \<noteq> None"
  shows "map (\<lambda>x. gn_id (the (get_node g x))) ids = ids"
  by (rule map_idI) (use assms in \<open>auto simp: wf_graph_def\<close>)

lemma shortest_path_result:
  assumes "wf_graph g" and "get_node g s \<noteq> None" and "get_node g t \<noteq> None"
  shows "\<exists>p. shortest_path g s t = Some p \<and> gp_source p = s \<and> gp_target p = t \<and>
     (gp_found p \<longleftrightarrow> (\<exists>es. trail g s es t)) \<and>
     (if gp_found p
      then trail g s (gp_edges p) t \<and> map gn_id (gp_nodes p) = nodes_along s (gp_edges p) \<and>
           (\<forall>es. trail g s es t \<longrightarrow> length (gp_edges p) \<le> length es)
      else gp_edges p = [] \<and> gp_nodes p = [])"
proof (cases "search g t [s] [(s, [s], [])]")
  case None
  with search_correct [OF search_invariant_start, of g s t]
  have "\<not> (\<exists>es. trail g s es t)" by (simp add: walk_trail [OF assms(1)])
  moreover have "shortest_path g s t = Some (not_found s t)"
    using assms(2,3) None by (simp add: shortest_path_def get_node_keys)
  ultimately show ?thesis by (simp add: not_found_def)
next
  case (Some r)
  then obtain pn pe where r: "search g t [s] [(s, [s], [])] = Some (pn, pe)" by (cases r) auto
  from r search_correct [OF search_invariant_start, of g s t]
  have ok: "trail g s pe t" "pn = nodes_along s pe" "\<forall>es. trail g s es t \<longrightarrow> length pe \<le> length es"
    by (simp_all add: walk_trail [OF assms(1)])
  have known: "\<forall>x \<in> set pn. get_node g x \<noteq> None"
    unfolding ok(2) by (rule trail_known [OF assms(1) ok(1) assms(2)])
  have "shortest_path g s t = Some \<lparr>gp_source = s, gp_target = t,
      gp_nodes = map (\<lambda>x. the (get_node g x)) pn, gp_edges = pe, gp_found = True\<rparr>"
    using assms(2,3) r by (simp add: shortest_path_def get_node_keys path_nodes_of_known [OF known])
  moreover have "map (\<lambda>x. gn_id (the (get_node g x))) pn = nodes_along s pe"
    using node_ids_known [OF assms(1) known] ok(2) by simp
  ultimately show ?thesis using ok(1,3) by (auto simp: o_def)
qed

text \<open>
  C15. The breadth first search is exact.  In a well-formed graph, for two nodes of the graph,
  \<open>shortest_path\<close> never raises; it reports a path exactly when edges of the graph, crossed in
  either direction, lead from the source to the target; and the path it reports is such a path,
  its nodes are the ones the edges visit in order, and no other path has fewer edges.
\<close>

theorem shortest_path_correct:
  assumes "wf_graph g" and "get_node g s \<noteq> None" and "get_node g t \<noteq> None"
  shows "\<exists>p. shortest_path g s t = Some p \<and> gp_source p = s \<and> gp_target p = t \<and>
     (gp_found p \<longleftrightarrow> (\<exists>es. trail g s es t)) \<and>
     (if gp_found p
      then trail g s (gp_edges p) t \<and> map gn_id (gp_nodes p) = nodes_along s (gp_edges p) \<and>
           (\<forall>es. trail g s es t \<longrightarrow> length (gp_edges p) \<le> length es)
      else gp_edges p = [] \<and> gp_nodes p = [])"
  by (rule shortest_path_result [OF assms])

text \<open>A sample graph: two groups share a member, and an application is connected to nothing.\<close>

definition sample_node :: "node_type \<Rightarrow> string \<Rightarrow> graph_node" where
  "sample_node ty i = \<lparr>gn_id = graph_node_id ty i, gn_type = ty, gn_label = ''n'', gn_reference = ''/'',
     gn_properties = [], gn_timestamp = None\<rparr>"

definition sample_edge :: "string \<Rightarrow> string \<Rightarrow> edge_spec" where
  "sample_edge a b = \<lparr>es_source = a, es_target = b, es_type = MEMBER_OF, es_label = ''e'', es_reference = ''/'',
     es_properties = [], es_timestamp = None, es_correlation_id = None\<rparr>"

definition sample_graph :: authorization_graph where
  "sample_graph = add_edge_if_nodes_exist (sample_edge ''User:1'' ''Group:2'')
     (add_edge_if_nodes_exist (sample_edge ''User:1'' ''Group:1'')
       (add_node (sample_node APPLICATION ''1'') (add_node (sample_node GROUP ''2'')
         (add_node (sample_node GROUP ''1'') (add_node (sample_node USER ''1'') empty_graph)))))"

lemma sample_graph_nodes:
  "wf_graph sample_graph" "get_node sample_graph ''Group:1'' \<noteq> None" "get_node sample_graph ''Group:2'' \<noteq> None"
  by (simp_all add: sample_graph_def wf_add_edge wf_add_node wf_empty_graph sample_node_def graph_node_id_def)

theorem shortest_path_correct_witness:
  "\<exists>p. shortest_path sample_graph ''Group:1'' ''Group:2'' = Some p \<and>
     (gp_found p \<longleftrightarrow> (\<exists>es. trail sample_graph ''Group:1'' es ''Group:2''))"
  using shortest_path_correct [OF sample_graph_nodes] by blast

lemma sample_path_found: "\<exists>es. trail sample_graph ''Group:1'' es ''Group:2''"
proof
  show "trail sample_graph ''Group:1''
      [new_edge 0 (sample_edge ''User:1'' ''Group:1''), new_edge 1 (sample_edge ''User:1'' ''Group:2'')] ''Group:2''"
    by (simp add: sample_graph_def ag_edges_add_edge neighbor_def sample_edge_def sample_node_def graph_node_id_def
        empty_graph_def)
qed

end
