(* ===== verification/GraphBuilder.thy ===== *)
theory GraphBuilder
  imports Graph Filtering
begin

text \<open>
  Building the authorization graph from the tables, \<open>app/graph/builder.py\<close>: one node per row and
  per connector, one edge per relationship whose two ends are nodes.  Tables are read in the
  order of their keys.

  The graph that is built is well formed and typed: a node is named by its type and its key, and
  every kind of edge joins the types of its signature.
\<close>

section \<open>Values of properties\<close>

definition optional_int :: "int option \<Rightarrow> json" where
  "optional_int x = (case x of None \<Rightarrow> JNull | Some i \<Rightarrow> JInt i)"

definition optional_str :: "string option \<Rightarrow> json" where
  "optional_str x = (case x of None \<Rightarrow> JNull | Some s \<Rightarrow> JStr s)"

text \<open>\<open>x or ''\<close>.\<close>

definition or_empty :: "string option \<Rightarrow> string" where
  "or_empty x = (case x of None \<Rightarrow> '''' | Some s \<Rightarrow> s)"

definition typed_node :: "node_type \<Rightarrow> string \<Rightarrow> string \<Rightarrow> string \<Rightarrow> int option \<Rightarrow> payload \<Rightarrow> graph_node" where
  "typed_node ty source_id label reference timestamp properties =
     \<lparr>gn_id = graph_node_id ty source_id, gn_type = ty, gn_label = label, gn_reference = reference,
      gn_properties = properties, gn_timestamp = timestamp\<rparr>"

section \<open>Nodes\<close>

definition user_node :: "user \<Rightarrow> graph_node" where
  "user_node u = typed_node USER (str_int (u_id u)) (u_name u) (''/users/'' @ str_int (u_id u)) None
     [(''source_id'', JInt (u_id u)), (''email'', JStr (u_email u)), (''department'', JStr (u_department u)),
      (''active'', JBool (u_active u)), (''operator_role'', JStr (u_operator_role u))]"

definition group_node :: "group \<Rightarrow> graph_node" where
  "group_node g = typed_node GROUP (str_int (g_id g)) (g_display_name g) (''/scim/v2/Groups/'' @ str_int (g_id g))
     (Some (g_created_at g))
     [(''source_id'', JInt (g_id g)), (''display_name'', JStr (g_display_name g)), (''updated_at'', JInt (g_updated_at g))]"

definition profile_node :: "enterprise_user_profile \<Rightarrow> graph_node" where
  "profile_node p = typed_node ENTERPRISE_PROFILE (str_int (ep_id p)) (''Enterprise profile '' @ str_int (ep_id p))
     (''/scim/v2/Users/'' @ str_int (ep_user_id p)) (Some (ep_created_at p))
     [(''source_id'', JInt (ep_id p)), (''user_id'', JInt (ep_user_id p)),
      (''employee_number'', optional_str (ep_employee_number p)), (''department'', optional_str (ep_department p)),
      (''division'', optional_str (ep_division p)), (''organization'', optional_str (ep_organization p)),
      (''cost_center'', optional_str (ep_cost_center p)), (''manager_id'', optional_int (ep_manager_id p)),
      (''updated_at'', JInt (ep_updated_at p))]"

definition application_node :: "application \<Rightarrow> graph_node" where
  "application_node a = typed_node APPLICATION (str_int (app_id a)) (app_name a)
     (''/applications/'' @ str_int (app_id a)) None
     [(''source_id'', JInt (app_id a)), (''slug'', JStr (app_slug a))]"

definition entitlement_node :: "entitlement \<Rightarrow> graph_node" where
  "entitlement_node e = typed_node ENTITLEMENT (str_int (ent_id e)) (ent_name e)
     (''/applications/'' @ str_int (ent_application_id e) @ ''/entitlements'') None
     [(''source_id'', JInt (ent_id e)), (''slug'', JStr (ent_slug e)),
      (''application_id'', JInt (ent_application_id e))]"

definition connector_node :: "mock_connector \<Rightarrow> graph_node" where
  "connector_node c = typed_node CONNECTOR (mk_name c) (mk_display_name c) (''/connectors/'' @ mk_name c) None
     [(''source_id'', JStr (mk_name c)), (''enabled'', JBool (mk_enabled c)),
      (''supported_operations'', JList (map (\<lambda>operation. JStr (connector_operation_value operation))
         (mk_supported_operations c)))]"

definition campaign_node :: "certification_campaign \<Rightarrow> graph_node" where
  "campaign_node c = typed_node CERTIFICATION_CAMPAIGN (str_int (cc_id c)) (cc_name c)
     (''/access-reviews/campaigns/'' @ str_int (cc_id c)) (Some (cc_created_at c))
     [(''source_id'', JInt (cc_id c)), (''status'', JStr (cc_status c)), (''created_by'', JInt (cc_created_by c)),
      (''default_reviewer_id'', JInt (cc_default_reviewer_id c)), (''total_items'', JInt (int (cc_total_items c))),
      (''completed_items'', JInt (int (cc_completed_items c))),
      (''approval_count'', JInt (int (cc_approval_count c))),
      (''revocation_count'', JInt (int (cc_revocation_count c))),
      (''abstain_count'', JInt (int (cc_abstain_count c)))]"

definition item_node :: "certification_review_item \<Rightarrow> graph_node" where
  "item_node i = typed_node REVIEW_ITEM (str_int (ri_id i)) (''Review item '' @ str_int (ri_id i))
     (''/access-reviews/items/'' @ str_int (ri_id i)) (Some (ri_created_at i))
     [(''source_id'', JInt (ri_id i)), (''campaign_id'', JInt (ri_campaign_id i)),
      (''access_assignment_id'', JInt (ri_access_assignment_id i)), (''user_id'', JInt (ri_user_id i)),
      (''application_id'', JInt (ri_application_id i)), (''entitlement_id'', JInt (ri_entitlement_id i)),
      (''group_id'', optional_int (ri_group_id i)), (''reviewer_id'', JInt (ri_reviewer_id i)),
      (''status'', JStr (ri_status i)), (''reviewed_at'', optional_int (ri_reviewed_at i))]"

definition delegation_node :: "delegation_assignment \<Rightarrow> graph_node" where
  "delegation_node a = typed_node DELEGATION (str_int (da_id a)) (da_delegation_role a @ '' delegation'')
     (''/delegation/assignments/'' @ str_int (da_id a)) (Some (da_created_at a))
     [(''source_id'', JInt (da_id a)), (''delegate_user_id'', JInt (da_delegate_user_id a)),
      (''scope_type'', JStr (da_scope_type a)), (''scope_id'', JInt (da_scope_id a)),
      (''delegation_role'', JStr (da_delegation_role a)), (''created_by'', JInt (da_created_by a)),
      (''expires_at'', optional_int (da_expires_at a)), (''active'', JBool (da_active a))]"

definition job_node :: "provisioning_job \<Rightarrow> graph_node" where
  "job_node j = typed_node PROVISIONING_JOB (str_int (pj_id j)) (pj_connector j @ '' '' @ pj_operation j)
     (''/provisioning/jobs/'' @ str_int (pj_id j)) (Some (pj_created_at j))
     [(''source_id'', JInt (pj_id j)), (''correlation_id'', JStr (pj_correlation_id j)),
      (''connector'', JStr (pj_connector j)), (''operation'', JStr (pj_operation j)),
      (''target_type'', JStr (pj_target_type j)), (''target_id'', optional_str (pj_target_id j)),
      (''status'', JStr (pj_status j)), (''attempt_count'', JInt (pj_attempt_count j)),
      (''retry_count'', JInt (pj_retry_count j)), (''completed_at'', optional_int (pj_completed_at j))]"

definition history_node :: "provisioning_history \<Rightarrow> graph_node" where
  "history_node h = typed_node PROVISIONING_HISTORY (str_int (ph_id h)) (ph_event_type h @ '' '' @ ph_status h)
     (''/provisioning/history?correlation_id='' @ ph_correlation_id h) (Some (ph_created_at h))
     [(''source_id'', JInt (ph_id h)), (''job_id'', JInt (ph_job_id h)),
      (''correlation_id'', JStr (ph_correlation_id h)), (''connector'', JStr (ph_connector h)),
      (''operation'', JStr (ph_operation h)), (''event_type'', JStr (ph_event_type h)),
      (''status'', JStr (ph_status h)), (''message'', JStr (ph_message h)), (''attempt'', JInt (ph_attempt h))]"

definition remediation_node :: "remediation_job \<Rightarrow> graph_node" where
  "remediation_node j = typed_node REMEDIATION_JOB (str_int (rj_id j)) (''Remediation job '' @ str_int (rj_id j))
     (''/remediation/jobs/'' @ str_int (rj_id j)) (Some (rj_created_at j))
     [(''source_id'', JInt (rj_id j)), (''campaign_id'', JInt (rj_campaign_id j)),
      (''review_item_id'', JInt (rj_review_item_id j)),
      (''provisioning_job_id'', optional_int (rj_provisioning_job_id j)),
      (''correlation_id'', JStr (rj_correlation_id j)), (''remediation_type'', JStr (rj_remediation_type j)),
      (''status'', JStr (rj_status j)), (''initiated_by'', JInt (rj_initiated_by j))]"

definition audit_node :: "audit_event \<Rightarrow> graph_node" where
  "audit_node e = typed_node AUDIT_EVENT (str_int (ae_id e)) (ae_action e @ '' '' @ ae_result e)
     (''/audit-events?correlation_id='' @ or_empty (ae_correlation_id e)) (Some (ae_created_at e))
     [(''source_id'', JInt (ae_id e)), (''requester_id'', JInt (ae_requester_id e)),
      (''target_user_id'', JInt (ae_target_user_id e)), (''action'', JStr (ae_action e)),
      (''application_id'', JInt (ae_application_id e)), (''entitlement_id'', JInt (ae_entitlement_id e)),
      (''result'', JStr (ae_result e)), (''reason'', JStr (ae_reason e)),
      (''correlation_id'', optional_str (ae_correlation_id e))]"

text \<open>One node for each row of a table, in the order of a key.\<close>

definition add_nodes :: "('r \<Rightarrow> int) \<Rightarrow> ('r \<Rightarrow> graph_node) \<Rightarrow> 'r list \<Rightarrow> authorization_graph \<Rightarrow> authorization_graph" where
  "add_nodes key node rows g = fold (\<lambda>r. add_node (node r)) (sort_key key rows) g"

definition add_identity_nodes :: "db \<Rightarrow> authorization_graph \<Rightarrow> authorization_graph" where
  "add_identity_nodes d g = add_nodes ep_id profile_node (db_profiles d)
     (add_nodes g_id group_node (db_groups d) (add_nodes u_id user_node (db_users d) g))"

definition add_application_nodes :: "db \<Rightarrow> authorization_graph \<Rightarrow> authorization_graph" where
  "add_application_nodes d g = add_nodes ent_id entitlement_node (db_entitlements d)
     (add_nodes app_id application_node (db_applications d) g)"

definition add_connector_nodes :: "(string \<times> mock_connector) list \<Rightarrow> authorization_graph \<Rightarrow> authorization_graph" where
  "add_connector_nodes registry g = fold (\<lambda>c. add_node (connector_node c)) (registry_list registry) g"

definition add_governance_nodes :: "db \<Rightarrow> authorization_graph \<Rightarrow> authorization_graph" where
  "add_governance_nodes d g = add_nodes ri_id item_node (db_items d)
     (add_nodes cc_id campaign_node (db_campaigns d) g)"

definition add_operations_nodes :: "db \<Rightarrow> authorization_graph \<Rightarrow> authorization_graph" where
  "add_operations_nodes d g = add_nodes ae_id audit_node (db_audit d)
     (add_nodes rj_id remediation_node (db_rjobs d)
     (add_nodes ph_id history_node (db_history d)
     (add_nodes pj_id job_node (db_jobs d)
     (add_nodes da_id delegation_node (db_delegations d) g))))"

section \<open>Edges\<close>

definition edge_between ::
  "string \<Rightarrow> string \<Rightarrow> edge_type \<Rightarrow> string \<Rightarrow> string \<Rightarrow> payload \<Rightarrow> int option \<Rightarrow> string option \<Rightarrow> edge_spec" where
  "edge_between source target ty label reference properties timestamp correlation_id =
     \<lparr>es_source = source, es_target = target, es_type = ty, es_label = label, es_reference = reference,
      es_properties = properties, es_timestamp = timestamp, es_correlation_id = correlation_id\<rparr>"

abbreviation key_id :: "node_type \<Rightarrow> int \<Rightarrow> string" where
  "key_id ty i \<equiv> graph_node_id ty (str_int i)"

definition entitlement_edges :: "entitlement \<Rightarrow> edge_spec list" where
  "entitlement_edges e =
     [edge_between (key_id ENTITLEMENT (ent_id e)) (key_id APPLICATION (ent_application_id e)) GRANTS_ACCESS_TO
        ''Entitlement belongs to application''
        (''/applications/'' @ str_int (ent_application_id e) @ ''/entitlements'')
        [(''entitlement_id'', JInt (ent_id e))] None None]"

definition membership_edges :: "group_member \<Rightarrow> edge_spec list" where
  "membership_edges m =
     [edge_between (key_id USER (gm_user_id m)) (key_id GROUP (gm_group_id m)) MEMBER_OF
        ''User is member of group'' (''/scim/v2/Groups/'' @ str_int (gm_group_id m))
        [(''membership_id'', JInt (gm_id m))] (Some (gm_created_at m)) None]"

definition access_edges :: "access_assignment \<Rightarrow> edge_spec list" where
  "access_edges a =
     [edge_between (key_id USER (aa_user_id a)) (key_id ENTITLEMENT (aa_entitlement_id a)) HAS_ENTITLEMENT
        ''User has entitlement'' (''/users/'' @ str_int (aa_user_id a) @ ''/access'')
        [(''access_assignment_id'', JInt (aa_id a))] (Some (aa_granted_at a)) None]"

definition profile_edges :: "enterprise_user_profile \<Rightarrow> edge_spec list" where
  "profile_edges p =
     edge_between (key_id USER (ep_user_id p)) (key_id ENTERPRISE_PROFILE (ep_id p)) CONNECTED_TO
       ''User has enterprise profile'' (''/scim/v2/Users/'' @ str_int (ep_user_id p)) []
       (Some (ep_created_at p)) None #
     (case ep_manager_id p of
        None \<Rightarrow> []
      | Some m \<Rightarrow>
          [edge_between (key_id USER (ep_user_id p)) (key_id USER m) MANAGED_BY
             ''User is managed by user'' (''/scim/v2/Users/'' @ str_int (ep_user_id p))
             [(''enterprise_profile_id'', JInt (ep_id p))] (Some (ep_updated_at p)) None])"

definition delegation_scope_node_id :: "string \<Rightarrow> int \<Rightarrow> string option" where
  "delegation_scope_node_id scope_type scope_id =
     (let scope = upper scope_type in
      if scope = ''APPLICATION'' then Some (key_id APPLICATION scope_id)
      else if scope = ''GROUP'' then Some (key_id GROUP scope_id)
      else if scope = ''ENTITLEMENT'' then Some (key_id ENTITLEMENT scope_id)
      else None)"

definition provisioning_target_node_id :: "string \<Rightarrow> string option \<Rightarrow> string option" where
  "provisioning_target_node_id target_type target_id =
     (case target_id of
        None \<Rightarrow> None
      | Some i \<Rightarrow>
          (let normalized_type = lower target_type in
           if normalized_type = ''user'' then Some (graph_node_id USER i)
           else if normalized_type = ''group'' then Some (graph_node_id GROUP i)
           else if normalized_type = ''entitlement'' then Some (graph_node_id USER i)
           else None))"

definition delegation_edges :: "delegation_assignment \<Rightarrow> edge_spec list" where
  "delegation_edges a =
     (let delegation_id = key_id DELEGATION (da_id a);
          reference = ''/delegation/assignments/'' @ str_int (da_id a)
      in [edge_between (key_id USER (da_delegate_user_id a)) delegation_id DELEGATED_TO
            ''User has delegated administration assignment'' reference [] (Some (da_created_at a)) None,
          edge_between (key_id USER (da_created_by a)) delegation_id AUDITED_BY
            ''User created delegation assignment'' reference [] (Some (da_created_at a)) None] @
         (case delegation_scope_node_id (da_scope_type a) (da_scope_id a) of
            None \<Rightarrow> []
          | Some scope_target \<Rightarrow>
              [edge_between delegation_id scope_target CONNECTED_TO ''Delegation applies to scope'' reference
                 [(''scope_type'', JStr (da_scope_type a))] (Some (da_created_at a)) None]))"

definition campaign_edges :: "certification_campaign \<Rightarrow> edge_spec list" where
  "campaign_edges c = map (\<lambda>(user_id, label).
     edge_between (key_id USER user_id) (key_id CERTIFICATION_CAMPAIGN (cc_id c)) REVIEWED_IN label
       (''/access-reviews/campaigns/'' @ str_int (cc_id c)) [] (Some (cc_created_at c)) None)
     [(cc_created_by c, ''User created certification campaign''),
      (cc_default_reviewer_id c, ''User is default campaign reviewer'')]"

definition item_edges :: "certification_review_item \<Rightarrow> edge_spec list" where
  "item_edges i =
     (let item_id = key_id REVIEW_ITEM (ri_id i);
          reference = ''/access-reviews/items/'' @ str_int (ri_id i)
      in [edge_between item_id (key_id CERTIFICATION_CAMPAIGN (ri_campaign_id i)) REVIEWED_IN
            ''Review item belongs to campaign''
            (''/access-reviews/campaigns/'' @ str_int (ri_campaign_id i) @ ''/items'') []
            (Some (ri_created_at i)) None] @
         map (\<lambda>(ty, source_id, label).
           edge_between (key_id ty source_id) item_id REVIEWED_IN label reference [] (Some (ri_created_at i)) None)
           [(USER, ri_user_id i, ''User access reviewed in item''),
            (USER, ri_reviewer_id i, ''Reviewer assigned to item''),
            (APPLICATION, ri_application_id i, ''Application reviewed in item''),
            (ENTITLEMENT, ri_entitlement_id i, ''Entitlement reviewed in item'')] @
         (case ri_group_id i of
            None \<Rightarrow> []
          | Some group_id \<Rightarrow>
              [edge_between (key_id GROUP group_id) item_id REVIEWED_IN ''Group reviewed in item'' reference []
                 (Some (ri_created_at i)) None]))"

definition job_edges :: "provisioning_job \<Rightarrow> edge_spec list" where
  "job_edges j =
     (let job_id = key_id PROVISIONING_JOB (pj_id j);
          reference = ''/provisioning/jobs/'' @ str_int (pj_id j)
      in edge_between job_id (graph_node_id CONNECTOR (pj_connector j)) CONNECTED_TO
           ''Provisioning job executed through connector'' reference []
           (Some (pj_created_at j)) (Some (pj_correlation_id j)) #
         (case provisioning_target_node_id (pj_target_type j) (pj_target_id j) of
            None \<Rightarrow> []
          | Some target_node \<Rightarrow>
              [edge_between target_node job_id PROVISIONED_BY ''Target provisioned by job'' reference []
                 (Some (pj_created_at j)) (Some (pj_correlation_id j))]))"

definition history_edges :: "provisioning_history \<Rightarrow> edge_spec list" where
  "history_edges h =
     [edge_between (key_id PROVISIONING_HISTORY (ph_id h)) (key_id PROVISIONING_JOB (ph_job_id h)) PROVISIONED_BY
        ''Provisioning history belongs to job''
        (''/provisioning/history?correlation_id='' @ ph_correlation_id h) []
        (Some (ph_created_at h)) (Some (ph_correlation_id h))]"

definition remediation_edges :: "remediation_job \<Rightarrow> edge_spec list" where
  "remediation_edges j =
     (let remediation_id = key_id REMEDIATION_JOB (rj_id j);
          edge = (\<lambda>source target ty label.
            edge_between source target ty label (''/remediation/jobs/'' @ str_int (rj_id j)) []
              (Some (rj_created_at j)) (Some (rj_correlation_id j)))
      in [edge (key_id REVIEW_ITEM (rj_review_item_id j)) remediation_id REMEDIATED_BY
            ''Review item remediated by job'',
          edge remediation_id (key_id CERTIFICATION_CAMPAIGN (rj_campaign_id j)) REMEDIATED_BY
            ''Remediation belongs to campaign'',
          edge (key_id USER (rj_initiated_by j)) remediation_id AUDITED_BY ''User initiated remediation''] @
         (case rj_provisioning_job_id j of
            None \<Rightarrow> []
          | Some provisioning_job_id \<Rightarrow>
              [edge remediation_id (key_id PROVISIONING_JOB provisioning_job_id) PROVISIONED_BY
                 ''Remediation executed by provisioning job'']))"

definition audit_edges :: "audit_event \<Rightarrow> edge_spec list" where
  "audit_edges e = map (\<lambda>(source, label).
     edge_between source (key_id AUDIT_EVENT (ae_id e)) AUDITED_BY label
       (''/audit-events?correlation_id='' @ or_empty (ae_correlation_id e))
       [(''audit_event_id'', JInt (ae_id e)), (''action'', JStr (ae_action e))]
       (Some (ae_created_at e)) (ae_correlation_id e))
     [(key_id USER (ae_requester_id e), ''Requester audited by event''),
      (key_id USER (ae_target_user_id e), ''Target user audited by event''),
      (key_id APPLICATION (ae_application_id e), ''Application audited by event''),
      (key_id ENTITLEMENT (ae_entitlement_id e), ''Entitlement audited by event'')]"

text \<open>The loops over the tables, in the order of a key.\<close>

definition add_edges ::
  "('r \<Rightarrow> int) \<Rightarrow> ('r \<Rightarrow> edge_spec list) \<Rightarrow> 'r list \<Rightarrow> authorization_graph \<Rightarrow> authorization_graph" where
  "add_edges key edges rows g = fold (\<lambda>r. fold add_edge_if_nodes_exist (edges r)) (sort_key key rows) g"

definition add_delegation_edges :: "db \<Rightarrow> authorization_graph \<Rightarrow> authorization_graph" where
  "add_delegation_edges d g = add_edges da_id delegation_edges (db_delegations d) g"

definition add_governance_edges :: "db \<Rightarrow> authorization_graph \<Rightarrow> authorization_graph" where
  "add_governance_edges d g =
     add_edges ri_id item_edges (db_items d) (add_edges cc_id campaign_edges (db_campaigns d) g)"

definition add_provisioning_edges :: "db \<Rightarrow> authorization_graph \<Rightarrow> authorization_graph" where
  "add_provisioning_edges d g =
     add_edges ph_id history_edges (db_history d) (add_edges pj_id job_edges (db_jobs d) g)"

definition add_remediation_edges :: "db \<Rightarrow> authorization_graph \<Rightarrow> authorization_graph" where
  "add_remediation_edges d g = add_edges rj_id remediation_edges (db_rjobs d) g"

definition add_audit_edges :: "db \<Rightarrow> authorization_graph \<Rightarrow> authorization_graph" where
  "add_audit_edges d g = add_edges ae_id audit_edges (db_audit d) g"

definition add_relationship_edges :: "db \<Rightarrow> authorization_graph \<Rightarrow> authorization_graph" where
  "add_relationship_edges d g =
     add_audit_edges d
     (add_remediation_edges d
     (add_provisioning_edges d
     (add_governance_edges d
     (add_delegation_edges d
     (add_edges ep_id profile_edges (db_profiles d)
     (add_edges aa_id access_edges (db_access d)
     (add_edges gm_id membership_edges (db_group_members d)
     (add_edges ent_id entitlement_edges (db_entitlements d) g))))))))"

definition build_authorization_graph :: "db \<Rightarrow> (string \<times> mock_connector) list \<Rightarrow> authorization_graph" where
  "build_authorization_graph d registry =
     add_relationship_edges d
     (add_operations_nodes d
     (add_governance_nodes d
     (add_connector_nodes registry
     (add_application_nodes d
     (add_identity_nodes d empty_graph)))))"

section \<open>Names of nodes\<close>

lemma node_type_value_no_colon: "CHR '':'' \<notin> set (node_type_value ty)"
  by (cases ty) simp_all

lemma node_type_value_inj: "node_type_value a = node_type_value b \<Longrightarrow> a = b"
  by (cases a; cases b) simp_all

lemma graph_node_id_inj [simp]: "graph_node_id a i = graph_node_id b j \<longleftrightarrow> a = b \<and> i = j"
proof
  assume eq: "graph_node_id a i = graph_node_id b j"
  have type: "takeWhile (\<lambda>c. c \<noteq> CHR '':'') (graph_node_id ty k) = node_type_value ty" for ty k
    using node_type_value_no_colon [of ty] by (simp add: graph_node_id_def takeWhile_append)
  from arg_cong [OF eq, of "takeWhile (\<lambda>c. c \<noteq> CHR '':'')"] have "a = b"
    unfolding type by (rule node_type_value_inj)
  with eq show "a = b \<and> i = j" by (simp add: graph_node_id_def)
qed simp

lemma digits_inj: "digits m = digits n \<Longrightarrow> m = n"
  by (drule arg_cong [where f = "\<lambda>ds. fold (\<lambda>c a. 10 * a + (of_char c - 48)) ds (0 :: nat)"]) (simp only: fold_digits)

lemma str_int_inj [simp]: "str_int i = str_int j \<longleftrightarrow> i = j"
proof
  have head: "hd (digits n) \<noteq> CHR ''-''" for n
  proof -
    have "digit_char (hd (digits n))"
      using digits_are_digits [of n] digits_nonempty [of n] by (cases "digits n") auto
    moreover have "\<not> digit_char (CHR ''-'')" by code_simp
    ultimately show ?thesis by metis
  qed
  assume eq: "str_int i = str_int j"
  show "i = j"
  proof (cases "i < 0 \<longleftrightarrow> j < 0")
    case True
    with eq have "digits (nat (if i < 0 then - i else i)) = digits (nat (if i < 0 then - j else j))"
      by (auto simp: str_int_def split: if_splits)
    then have "nat (if i < 0 then - i else i) = nat (if i < 0 then - j else j)" by (rule digits_inj)
    with True show ?thesis by (auto split: if_splits)
  next
    case False
    with eq head [of "nat i"] head [of "nat j"] show ?thesis
      by (auto simp: str_int_def split: if_splits) (metis list.sel(1))+
  qed
qed simp

lemma typed_node_sel [simp]:
  "gn_id (typed_node ty i l r t ps) = graph_node_id ty i" "gn_type (typed_node ty i l r t ps) = ty"
  "gn_label (typed_node ty i l r t ps) = l" "gn_properties (typed_node ty i l r t ps) = ps"
  by (simp_all add: typed_node_def)

section \<open>The nodes of the graph\<close>

definition rows_of :: "('r \<Rightarrow> int) \<Rightarrow> ('r \<Rightarrow> graph_node) \<Rightarrow> 'r list \<Rightarrow> graph_node list" where
  "rows_of key node rows = map node (sort_key key rows)"

definition all_nodes :: "db \<Rightarrow> (string \<times> mock_connector) list \<Rightarrow> graph_node list" where
  "all_nodes d registry =
     rows_of u_id user_node (db_users d) @ rows_of g_id group_node (db_groups d) @
     rows_of ep_id profile_node (db_profiles d) @ rows_of app_id application_node (db_applications d) @
     rows_of ent_id entitlement_node (db_entitlements d) @ map connector_node (registry_list registry) @
     rows_of cc_id campaign_node (db_campaigns d) @ rows_of ri_id item_node (db_items d) @
     rows_of da_id delegation_node (db_delegations d) @ rows_of pj_id job_node (db_jobs d) @
     rows_of ph_id history_node (db_history d) @ rows_of rj_id remediation_node (db_rjobs d) @
     rows_of ae_id audit_node (db_audit d)"

definition node_graph :: "db \<Rightarrow> (string \<times> mock_connector) list \<Rightarrow> authorization_graph" where
  "node_graph d registry = fold add_node (all_nodes d registry) empty_graph"

lemma fold_add_node_map: "fold (\<lambda>r. add_node (f r)) rows g = fold add_node (map f rows) g"
  by (simp add: fold_map comp_def)

lemma add_nodes_fold: "add_nodes key node rows g = fold add_node (rows_of key node rows) g"
  unfolding add_nodes_def rows_of_def by (rule fold_add_node_map)

lemma node_phase:
  "add_operations_nodes d (add_governance_nodes d (add_connector_nodes registry
     (add_application_nodes d (add_identity_nodes d empty_graph)))) = node_graph d registry"
  by (simp add: add_operations_nodes_def add_governance_nodes_def add_connector_nodes_def
      add_application_nodes_def add_identity_nodes_def add_nodes_fold node_graph_def all_nodes_def
      fold_add_node_map [of connector_node])

lemma get_node_fold_SomeD:
  "get_node (fold add_node ns g) k = Some n \<Longrightarrow> n \<in> set ns \<and> gn_id n = k \<or> get_node g k = Some n"
proof (induction ns arbitrary: g)
  case (Cons m ns)
  from Cons.IH [of "add_node m g"] Cons.prems show ?case by (auto split: if_splits)
qed simp

lemma get_node_fold_mono: "get_node g k \<noteq> None \<Longrightarrow> get_node (fold add_node ns g) k \<noteq> None"
proof (induction ns arbitrary: g)
  case (Cons n ns)
  then have "get_node (add_node n g) k \<noteq> None" by auto
  from Cons.IH [OF this] show ?case by simp
qed simp

lemma get_node_fold_known: "n \<in> set ns \<Longrightarrow> get_node (fold add_node ns g) (gn_id n) \<noteq> None"
proof (induction ns arbitrary: g)
  case (Cons m ns)
  show ?case
  proof (cases "n \<in> set ns")
    case False
    with Cons.prems have "get_node (add_node m g) (gn_id n) \<noteq> None" by simp
    from get_node_fold_mono [OF this] show ?thesis by simp
  qed (use Cons.IH in simp)
qed simp

lemma get_node_empty [simp]: "get_node empty_graph k = None"
  by (simp add: get_node_def empty_graph_def)

lemma node_graph_SomeD: "get_node (node_graph d registry) k = Some n \<Longrightarrow> n \<in> set (all_nodes d registry) \<and> gn_id n = k"
  unfolding node_graph_def by (drule get_node_fold_SomeD) simp

lemma node_graph_known:
  "get_node (node_graph d registry) k \<noteq> None \<longleftrightarrow> k \<in> gn_id ` set (all_nodes d registry)"
  using get_node_fold_known [of _ "all_nodes d registry" empty_graph]
  by (auto simp: node_graph_def [symmetric] dest: node_graph_SomeD)

lemma wf_node_graph: "wf_graph (node_graph d registry)" "ag_edges (node_graph d registry) = []"
proof -
  have "wf_graph (fold add_node ns g)" if "wf_graph g" for ns g
    using that by (induction ns arbitrary: g) (auto intro: wf_add_node)
  then show "wf_graph (node_graph d registry)" by (simp add: node_graph_def wf_empty_graph)
  have "ag_edges (fold add_node ns g) = ag_edges g" for ns g by (induction ns arbitrary: g) auto
  then show "ag_edges (node_graph d registry) = []" by (simp add: node_graph_def empty_graph_def)
qed

lemmas node_definitions = user_node_def group_node_def profile_node_def application_node_def
  entitlement_node_def connector_node_def campaign_node_def item_node_def delegation_node_def job_node_def
  history_node_def remediation_node_def audit_node_def

lemma all_nodes_typed:
  assumes "n \<in> set (all_nodes d registry)"
  shows "\<exists>i. gn_id n = graph_node_id (gn_type n) i"
  using assms by (auto simp: all_nodes_def rows_of_def node_definitions)

lemma user_nodes:
  "n \<in> set (all_nodes d registry) \<and> gn_id n = key_id USER i \<longleftrightarrow> (\<exists>u \<in> set (db_users d). u_id u = i \<and> n = user_node u)"
  by (auto simp: all_nodes_def rows_of_def node_definitions)

lemma entitlement_nodes:
  "n \<in> set (all_nodes d registry) \<and> gn_id n = key_id ENTITLEMENT i \<longleftrightarrow>
     (\<exists>e \<in> set (db_entitlements d). ent_id e = i \<and> n = entitlement_node e)"
  by (auto simp: all_nodes_def rows_of_def node_definitions)

section \<open>The edges of the graph\<close>

definition all_edges :: "db \<Rightarrow> edge_spec list" where
  "all_edges d =
     concat (map entitlement_edges (sort_key ent_id (db_entitlements d))) @
     concat (map membership_edges (sort_key gm_id (db_group_members d))) @
     concat (map access_edges (sort_key aa_id (db_access d))) @
     concat (map profile_edges (sort_key ep_id (db_profiles d))) @
     concat (map delegation_edges (sort_key da_id (db_delegations d))) @
     concat (map campaign_edges (sort_key cc_id (db_campaigns d))) @
     concat (map item_edges (sort_key ri_id (db_items d))) @
     concat (map job_edges (sort_key pj_id (db_jobs d))) @
     concat (map history_edges (sort_key ph_id (db_history d))) @
     concat (map remediation_edges (sort_key rj_id (db_rjobs d))) @
     concat (map audit_edges (sort_key ae_id (db_audit d)))"

lemma fold_concat: "fold (\<lambda>r. fold f (h r)) rows g = fold f (concat (map h rows)) g"
  by (induction rows arbitrary: g) simp_all

lemma build_graph:
  "build_authorization_graph d registry = fold add_edge_if_nodes_exist (all_edges d) (node_graph d registry)"
  by (simp add: build_authorization_graph_def node_phase add_relationship_edges_def add_audit_edges_def
      add_remediation_edges_def add_provisioning_edges_def add_governance_edges_def add_delegation_edges_def
      add_edges_def fold_concat all_edges_def)

text \<open>What an edge says, without its identifier.\<close>

definition spec_of :: "graph_edge \<Rightarrow> edge_spec" where
  "spec_of e = \<lparr>es_source = ge_source e, es_target = ge_target e, es_type = ge_type e, es_label = ge_label e,
     es_reference = ge_reference e, es_properties = ge_properties e, es_timestamp = ge_timestamp e,
     es_correlation_id = ge_correlation_id e\<rparr>"

definition joins :: "authorization_graph \<Rightarrow> edge_spec \<Rightarrow> bool" where
  "joins g e \<longleftrightarrow> get_node g (es_source e) \<noteq> None \<and> get_node g (es_target e) \<noteq> None"

lemma spec_of_sel [simp]:
  "es_source (spec_of e) = ge_source e" "es_target (spec_of e) = ge_target e" "es_type (spec_of e) = ge_type e"
  by (simp_all add: spec_of_def)

lemma spec_of_new_edge [simp]: "spec_of (new_edge n e) = e"
  by (simp add: spec_of_def new_edge_def)

lemma edges_fold:
  "get_node (fold add_edge_if_nodes_exist es g) = get_node g \<and>
   map spec_of (ag_edges (fold add_edge_if_nodes_exist es g)) = map spec_of (ag_edges g) @ filter (joins g) es"
proof (induction es arbitrary: g)
  case (Cons e es)
  have "joins (add_edge_if_nodes_exist e g) = joins g" by (simp add: fun_eq_iff joins_def)
  with Cons [of "add_edge_if_nodes_exist e g"] show ?case by (auto simp: ag_edges_add_edge joins_def)
qed simp

lemma built_nodes: "get_node (build_authorization_graph d registry) = get_node (node_graph d registry)"
  by (simp add: build_graph edges_fold)

lemma built_edges:
  "map spec_of (ag_edges (build_authorization_graph d registry)) = filter (joins (node_graph d registry)) (all_edges d)"
  by (simp add: build_graph edges_fold wf_node_graph)

lemma wf_built: "wf_graph (build_authorization_graph d registry)"
proof -
  have "wf_graph (fold add_edge_if_nodes_exist es g)" if "wf_graph g" for es g
    using that by (induction es arbitrary: g) (auto intro: wf_add_edge)
  then show ?thesis by (simp add: build_graph wf_node_graph)
qed

section \<open>The types of edges\<close>

fun edge_signature :: "edge_type \<Rightarrow> (node_type \<times> node_type) list" where
  "edge_signature MEMBER_OF = [(USER, GROUP)]"
| "edge_signature HAS_ENTITLEMENT = [(USER, ENTITLEMENT)]"
| "edge_signature GRANTS_ACCESS_TO = [(ENTITLEMENT, APPLICATION)]"
| "edge_signature PROVISIONED_BY =
     [(USER, PROVISIONING_JOB), (GROUP, PROVISIONING_JOB), (PROVISIONING_HISTORY, PROVISIONING_JOB),
      (REMEDIATION_JOB, PROVISIONING_JOB)]"
| "edge_signature REVIEWED_IN =
     [(USER, CERTIFICATION_CAMPAIGN), (REVIEW_ITEM, CERTIFICATION_CAMPAIGN), (USER, REVIEW_ITEM),
      (APPLICATION, REVIEW_ITEM), (ENTITLEMENT, REVIEW_ITEM), (GROUP, REVIEW_ITEM)]"
| "edge_signature REMEDIATED_BY = [(REVIEW_ITEM, REMEDIATION_JOB), (REMEDIATION_JOB, CERTIFICATION_CAMPAIGN)]"
| "edge_signature MANAGED_BY = [(USER, USER)]"
| "edge_signature DELEGATED_TO = [(USER, DELEGATION)]"
| "edge_signature CONNECTED_TO =
     [(USER, ENTERPRISE_PROFILE), (DELEGATION, APPLICATION), (DELEGATION, GROUP), (DELEGATION, ENTITLEMENT),
      (PROVISIONING_JOB, CONNECTOR)]"
| "edge_signature AUDITED_BY =
     [(USER, DELEGATION), (USER, REMEDIATION_JOB), (USER, AUDIT_EVENT), (APPLICATION, AUDIT_EVENT),
      (ENTITLEMENT, AUDIT_EVENT)]"

definition typed_spec :: "edge_spec \<Rightarrow> bool" where
  "typed_spec e \<longleftrightarrow> (\<exists>a b i j. (a, b) \<in> set (edge_signature (es_type e)) \<and>
     es_source e = graph_node_id a i \<and> es_target e = graph_node_id b j)"

lemma edge_between_sel [simp]:
  "es_source (edge_between s t ty l r ps ts c) = s" "es_target (edge_between s t ty l r ps ts c) = t"
  "es_type (edge_between s t ty l r ps ts c) = ty"
  by (simp_all add: edge_between_def)

lemma typed_edge_between:
  "(a, b) \<in> set (edge_signature ty) \<Longrightarrow> typed_spec (edge_between (graph_node_id a i) (graph_node_id b j) ty l r ps ts c)"
  by (auto simp: typed_spec_def)

lemmas edge_definitions = entitlement_edges_def membership_edges_def access_edges_def profile_edges_def
  delegation_edges_def campaign_edges_def item_edges_def job_edges_def history_edges_def
  remediation_edges_def audit_edges_def Let_def delegation_scope_node_id_def provisioning_target_node_id_def

lemma edges_typed:
  "list_all typed_spec (entitlement_edges e)" "list_all typed_spec (membership_edges m)"
  "list_all typed_spec (access_edges a)" "list_all typed_spec (profile_edges p)"
  "list_all typed_spec (delegation_edges da)" "list_all typed_spec (campaign_edges c)"
  "list_all typed_spec (item_edges i)" "list_all typed_spec (job_edges j)"
  "list_all typed_spec (history_edges h)" "list_all typed_spec (remediation_edges rj)"
  "list_all typed_spec (audit_edges ae)"
  by (auto simp: edge_definitions intro!: typed_edge_between split: option.splits)

lemma list_all_concat_map: "(\<And>x. list_all P (f x)) \<Longrightarrow> list_all P (concat (map f xs))"
  by (induction xs) simp_all

lemma all_edges_typed: "list_all typed_spec (all_edges d)"
  unfolding all_edges_def list_all_append by (intro conjI list_all_concat_map edges_typed)

lemma built_edge_spec:
  assumes "e \<in> set (ag_edges (build_authorization_graph d registry))"
  shows "spec_of e \<in> set (all_edges d) \<and> joins (node_graph d registry) (spec_of e)"
proof -
  from assms have "spec_of e \<in> set (map spec_of (ag_edges (build_authorization_graph d registry)))" by simp
  then show ?thesis unfolding built_edges by simp
qed

lemma node_of_type:
  assumes "get_node (node_graph d registry) (graph_node_id ty i) = Some n"
  shows "gn_type n = ty"
proof -
  from node_graph_SomeD [OF assms] have n: "n \<in> set (all_nodes d registry)" "gn_id n = graph_node_id ty i" by simp_all
  from all_nodes_typed [OF n(1)] n(2) show ?thesis by auto
qed

definition edge_typed :: "authorization_graph \<Rightarrow> graph_edge \<Rightarrow> bool" where
  "edge_typed g e =
     (case (get_node g (ge_source e), get_node g (ge_target e)) of
        (Some a, Some b) \<Rightarrow> (gn_type a, gn_type b) \<in> set (edge_signature (ge_type e))
      | _ \<Rightarrow> False)"

lemma built_edge_typed:
  assumes "e \<in> set (ag_edges (build_authorization_graph d registry))"
  shows "edge_typed (build_authorization_graph d registry) e"
proof -
  from built_edge_spec [OF assms] have spec: "spec_of e \<in> set (all_edges d)" "joins (node_graph d registry) (spec_of e)"
    by simp_all
  with all_edges_typed [of d] have "typed_spec (spec_of e)" by (simp add: list_all_iff)
  then obtain a b i j where ab: "(a, b) \<in> set (edge_signature (ge_type e))"
    "ge_source e = graph_node_id a i" "ge_target e = graph_node_id b j" by (auto simp: typed_spec_def)
  from spec(2) obtain m n where "get_node (node_graph d registry) (graph_node_id a i) = Some m"
    "get_node (node_graph d registry) (graph_node_id b j) = Some n" by (auto simp: joins_def ab)
  with ab show ?thesis by (simp add: edge_typed_def built_nodes node_of_type)
qed

text \<open>
  C22. The graph is well formed and well typed, whatever the tables and the connectors hold: the
  indexes agree with the edges, every node is found under its own name, and every edge joins two
  nodes of the graph whose types are in the signature of the edge type.
\<close>

theorem graph_well_typed:
  "wf_graph (build_authorization_graph d registry) \<and>
   list_all (edge_typed (build_authorization_graph d registry)) (ag_edges (build_authorization_graph d registry))"
  by (simp add: wf_built list_all_iff built_edge_typed)

end
