(* ===== verification/GraphQueries.thy ===== *)
theory GraphQueries
  imports GraphBuilder Managers
begin

text \<open>
  Reading the authorization graph: the queries of \<open>app/graph/query.py\<close>, the evidence of
  \<open>evidence.py\<close>, the exports of \<open>export.py\<close>, the process-wide cache of \<open>cache.py\<close> and the
  routes of \<open>routes.py\<close>.  A \<open>KeyError\<close> is \<open>None\<close>.  The serialisation of responses is not modelled:
  the JSON export is the list of the nodes and the list of the edges.

  The graph tells the truth about the tables it was built from: it lists the entitlements of a
  user, each with a path of one edge, and the managers above a user, in order.
\<close>

section \<open>Queries\<close>

definition find_user_node :: "authorization_graph \<Rightarrow> int \<Rightarrow> graph_node option" where
  "find_user_node g user_id = get_node g (key_id USER user_id)"

definition find_group_node :: "authorization_graph \<Rightarrow> int \<Rightarrow> graph_node option" where
  "find_group_node g group_id = get_node g (key_id GROUP group_id)"

definition find_application_node :: "authorization_graph \<Rightarrow> int \<Rightarrow> graph_node option" where
  "find_application_node g application_id = get_node g (key_id APPLICATION application_id)"

definition targets :: "authorization_graph \<Rightarrow> int \<Rightarrow> edge_type \<Rightarrow> graph_node list" where
  "targets g user_id ty =
     List.map_filter (\<lambda>edge. get_node g (ge_target edge)) (outgoing g (key_id USER user_id) (Some ty))"

definition find_entitlements :: "authorization_graph \<Rightarrow> int \<Rightarrow> graph_node list" where
  "find_entitlements g user_id = targets g user_id HAS_ENTITLEMENT"

definition find_delegations :: "authorization_graph \<Rightarrow> int \<Rightarrow> graph_node list" where
  "find_delegations g user_id = targets g user_id DELEGATED_TO"

definition find_review_history :: "authorization_graph \<Rightarrow> int \<Rightarrow> graph_node list" where
  "find_review_history g user_id = filter (\<lambda>node. gn_type node = REVIEW_ITEM) (targets g user_id REVIEWED_IN)"

definition query_shortest_path ::
  "authorization_graph \<Rightarrow> node_type \<Rightarrow> string \<Rightarrow> node_type \<Rightarrow> string \<Rightarrow> graph_path option" where
  "query_shortest_path g source_type source_id target_type target_id =
     shortest_path g (graph_node_id source_type source_id) (graph_node_id target_type target_id)"

definition find_access_path :: "authorization_graph \<Rightarrow> int \<Rightarrow> string \<Rightarrow> graph_path option" where
  "find_access_path g user_id entitlement_id =
     query_shortest_path g USER (str_int user_id) ENTITLEMENT entitlement_id"

text \<open>The loop of \<open>find_manager_chain\<close>: every turn sees a new node of the graph.\<close>

function manager_chain :: "authorization_graph \<Rightarrow> string \<Rightarrow> string list \<Rightarrow> graph_node list" where
  "manager_chain g current seen =
     (case outgoing g current (Some MANAGED_BY) of
        [] \<Rightarrow> []
      | edge # _ \<Rightarrow>
          if ge_target edge \<in> set seen then []
          else case get_node g (ge_target edge) of
                 None \<Rightarrow> []
               | Some node \<Rightarrow> node # manager_chain g (ge_target edge) (ge_target edge # seen))"
  by pat_completeness auto
termination
proof (relation "measure (\<lambda>(g, current, seen). card (fst ` set (ag_nodes g) - set seen))")
  fix g :: authorization_graph and current :: string and seen :: "string list"
    and edge :: graph_edge and edges node
  assume "ge_target edge \<notin> set seen" and "get_node g (ge_target edge) = Some node"
  then have "ge_target edge \<in> fst ` set (ag_nodes g) - set seen" by (simp add: get_node_keys)
  then have "fst ` set (ag_nodes g) - set (ge_target edge # seen) \<subset> fst ` set (ag_nodes g) - set seen" by auto
  then show "((g, ge_target edge, ge_target edge # seen), g, current, seen)
      \<in> measure (\<lambda>(g, current, seen). card (fst ` set (ag_nodes g) - set seen))"
    by (simp add: psubset_card_mono)
qed simp

declare manager_chain.simps [simp del]

definition find_manager_chain :: "authorization_graph \<Rightarrow> int \<Rightarrow> graph_node list" where
  "find_manager_chain g user_id = manager_chain g (key_id USER user_id) [key_id USER user_id]"

text \<open>\<open>node.properties.get(key)\<close>; \<open>node.properties["source_id"]\<close> for each node, which may raise.\<close>

definition property_get :: "graph_node \<Rightarrow> string \<Rightarrow> json" where
  "property_get node key = (case map_of (gn_properties node) key of None \<Rightarrow> JNull | Some v \<Rightarrow> v)"

definition source_ids :: "graph_node list \<Rightarrow> json list option" where
  "source_ids nodes = those (map (\<lambda>node. map_of (gn_properties node) ''source_id'') nodes)"

definition find_provisioning_history :: "authorization_graph \<Rightarrow> int \<Rightarrow> graph_node list option" where
  "find_provisioning_history g user_id =
     (let nodes = map snd (ag_nodes g);
          job_nodes = filter (\<lambda>node. gn_type node = PROVISIONING_JOB \<and>
            property_get node ''target_type'' \<in> {JStr ''user'', JStr ''entitlement''} \<and>
            py_str (property_get node ''target_id'') = str_int user_id) nodes
      in map_option (\<lambda>job_ids. filter (\<lambda>node. gn_type node = PROVISIONING_HISTORY \<and>
           property_get node ''job_id'' \<in> set job_ids) nodes) (source_ids job_nodes))"

definition find_remediation_history :: "authorization_graph \<Rightarrow> int \<Rightarrow> graph_node list option" where
  "find_remediation_history g user_id =
     map_option (\<lambda>review_item_ids. filter (\<lambda>node. gn_type node = REMEDIATION_JOB \<and>
       property_get node ''review_item_id'' \<in> set review_item_ids) (map snd (ag_nodes g)))
     (source_ids (find_review_history g user_id))"

section \<open>Evidence\<close>

record evidence_item =
  ev_type :: string
  ev_title :: string
  ev_description :: string
  ev_reference :: string
  ev_timestamp :: "int option"
  ev_correlation_id :: "string option"

definition edge_evidence :: "authorization_graph \<Rightarrow> graph_edge \<Rightarrow> evidence_item" where
  "edge_evidence g edge =
     (let label = (\<lambda>node_id. case get_node g node_id of None \<Rightarrow> node_id | Some node \<Rightarrow> gn_label node)
      in \<lparr>ev_type = edge_type_value (ge_type edge), ev_title = ge_label edge,
          ev_description = label (ge_source edge) @ '' --'' @ edge_type_value (ge_type edge) @ ''-> '' @
            label (ge_target edge),
          ev_reference = ge_reference edge, ev_timestamp = ge_timestamp edge,
          ev_correlation_id = ge_correlation_id edge\<rparr>)"

definition node_evidence :: "authorization_graph \<Rightarrow> graph_node \<Rightarrow> evidence_item list" where
  "node_evidence g node =
     \<lparr>ev_type = node_type_value (gn_type node),
      ev_title = node_type_value (gn_type node) @ '': '' @ gn_label node,
      ev_description = ''Graph node '' @ gn_id node @ '' exists in the authorization graph.'',
      ev_reference = gn_reference node, ev_timestamp = gn_timestamp node, ev_correlation_id = None\<rparr> #
     map (edge_evidence g) (edges_for g (gn_id node))"

definition user_evidence :: "authorization_graph \<Rightarrow> int \<Rightarrow> evidence_item list" where
  "user_evidence g user_id = (case get_node g (key_id USER user_id) of None \<Rightarrow> [] | Some node \<Rightarrow> node_evidence g node)"

definition access_evidence :: "authorization_graph \<Rightarrow> int \<Rightarrow> evidence_item list" where
  "access_evidence g user_id = map (edge_evidence g) (outgoing g (key_id USER user_id) (Some HAS_ENTITLEMENT))"

record graph_node_detail =
  nd_node :: graph_node
  nd_edges :: "graph_edge list"
  nd_evidence :: "evidence_item list"

definition node_detail :: "authorization_graph \<Rightarrow> graph_node \<Rightarrow> graph_node_detail" where
  "node_detail g node = \<lparr>nd_node = node, nd_edges = edges_for g (gn_id node), nd_evidence = node_evidence g node\<rparr>"

record graph_user_access =
  ua_user :: graph_node
  ua_entitlements :: "graph_node list"
  ua_paths :: "graph_path list"
  ua_evidence :: "evidence_item list"

definition entitlement_path :: "authorization_graph \<Rightarrow> int \<Rightarrow> graph_node \<Rightarrow> graph_path option" where
  "entitlement_path g user_id entitlement =
     (case map_of (gn_properties entitlement) ''source_id'' of
        None \<Rightarrow> None
      | Some source_id \<Rightarrow> find_access_path g user_id (py_str source_id))"

text \<open>\<open>user_access\<close>: \<open>Some None\<close> is the answer that the user is not in the graph.\<close>

definition user_access :: "authorization_graph \<Rightarrow> int \<Rightarrow> graph_user_access option option" where
  "user_access g user_id =
     (case find_user_node g user_id of
        None \<Rightarrow> Some None
      | Some user \<Rightarrow>
          (let entitlements = find_entitlements g user_id in
           map_option (\<lambda>paths. Some \<lparr>ua_user = user, ua_entitlements = entitlements, ua_paths = paths,
             ua_evidence = access_evidence g user_id\<rparr>)
           (those (map (entitlement_path g user_id) entitlements))))"

section \<open>Export\<close>

definition replace_char :: "char \<Rightarrow> string \<Rightarrow> string \<Rightarrow> string" where
  "replace_char old new s = concat (map (\<lambda>c. if c = old then new else [c]) s)"

definition safe_id :: "string \<Rightarrow> string" where
  "safe_id s = replace_char (CHR ''/'') ''_'' (replace_char (CHR ''.'') ''_''
     (replace_char (CHR ''-'') ''_'' (replace_char (CHR '':'') ''_'' s)))"

definition backslash :: char where
  "backslash = char_of (92 :: nat)"

definition quotation :: char where
  "quotation = char_of (34 :: nat)"

definition escape_label :: "string \<Rightarrow> string" where
  "escape_label s = replace_char quotation [backslash, quotation] (replace_char backslash [backslash, backslash] s)"

definition sorted_nodes :: "authorization_graph \<Rightarrow> graph_node list" where
  "sorted_nodes g = sort_key gn_id (map snd (ag_nodes g))"

record graph_document =
  gd_nodes :: "graph_node list"
  gd_edges :: "graph_edge list"

definition export_json :: "authorization_graph \<Rightarrow> graph_document" where
  "export_json g = \<lparr>gd_nodes = sorted_nodes g, gd_edges = ag_edges g\<rparr>"

definition export_mermaid :: "authorization_graph \<Rightarrow> string" where
  "export_mermaid g = sep_concat [newline] (''flowchart LR'' #
     map (\<lambda>node. ''    '' @ safe_id (gn_id node) @ ''['' @ [quotation] @ escape_label (gn_label node) @ [quotation] @ '']'')
       (sorted_nodes g) @
     map (\<lambda>edge. ''    '' @ safe_id (ge_source edge) @ '' -->|'' @ edge_type_value (ge_type edge) @ ''| '' @
       safe_id (ge_target edge)) (ag_edges g))"

definition quoted :: "string \<Rightarrow> string" where
  "quoted s = [quotation] @ s @ [quotation]"

definition export_graphviz_dot :: "authorization_graph \<Rightarrow> string" where
  "export_graphviz_dot g = sep_concat [newline] (''digraph AuthorizationGraph {'' #
     map (\<lambda>node. ''  '' @ quoted (gn_id node) @ '' [label='' @ quoted (escape_label (gn_label node)) @ ''];'')
       (sorted_nodes g) @
     map (\<lambda>edge. ''  '' @ quoted (ge_source edge) @ '' -> '' @ quoted (ge_target edge) @ '' [label='' @
       quoted (edge_type_value (ge_type edge)) @ ''];'') (ag_edges g) @ [''}''])"

section \<open>The cache\<close>

record graph_cache =
  gc_graph :: "authorization_graph option"
  gc_loaded_at :: "int option"
  gc_valid :: bool
  gc_version :: nat

definition empty_cache :: graph_cache where
  "empty_cache = \<lparr>gc_graph = None, gc_loaded_at = None, gc_valid = False, gc_version = 0\<rparr>"

text \<open>The process: the world of the services and the cache.  \<open>in_world\<close> runs a service operation.\<close>

record graph_process =
  gp_world :: world
  gp_cache :: graph_cache

definition in_world :: "(world, 'e, 'a) op \<Rightarrow> (graph_process, 'e, 'a) op" where
  "in_world m = (\<lambda>s. case m (gp_world s) of (r, w) \<Rightarrow> (r, s\<lparr>gp_world := w\<rparr>))"

definition refresh_locked :: "(graph_process, 'e, authorization_graph) op" where
  "refresh_locked =
     and_then (gets (\<lambda>s. build_authorization_graph (w_db (gp_world s)) (w_connectors (gp_world s)))) (\<lambda>graph.
     and_then (in_world utc_now) (\<lambda>now.
     and_then (modify (\<lambda>s. s\<lparr>gp_cache := (gp_cache s)\<lparr>gc_graph := Some graph, gc_loaded_at := Some now,
       gc_valid := True, gc_version := gc_version (gp_cache s) + 1\<rparr>\<rparr>)) (\<lambda>_.
     ret graph)))"

definition cache_load :: "(graph_process, 'e, authorization_graph) op" where
  "cache_load =
     and_then (gets gp_cache) (\<lambda>cache.
     case gc_graph cache of
       None \<Rightarrow> refresh_locked
     | Some graph \<Rightarrow> if gc_valid cache then ret graph else refresh_locked)"

definition cache_refresh :: "(graph_process, 'e, authorization_graph) op" where
  "cache_refresh = refresh_locked"

definition cache_invalidate :: "(graph_process, 'e, unit) op" where
  "cache_invalidate = modify (\<lambda>s. s\<lparr>gp_cache := (gp_cache s)\<lparr>gc_valid := False\<rparr>\<rparr>)"

record graph_cache_status =
  cs_loaded :: bool
  cs_valid :: bool
  cs_node_count :: nat
  cs_edge_count :: nat
  cs_version :: nat
  cs_loaded_at :: "int option"

definition cache_status :: "graph_cache \<Rightarrow> graph_cache_status" where
  "cache_status c =
     \<lparr>cs_loaded = (gc_graph c \<noteq> None), cs_valid = gc_valid c,
      cs_node_count = (case gc_graph c of None \<Rightarrow> 0 | Some g \<Rightarrow> length (ag_nodes g)),
      cs_edge_count = (case gc_graph c of None \<Rightarrow> 0 | Some g \<Rightarrow> length (ag_edges g)),
      cs_version = gc_version c, cs_loaded_at = gc_loaded_at c\<rparr>"

section \<open>Routes\<close>

definition GRAPH_ROLES :: "string list" where
  "GRAPH_ROLES = [''security_admin'', ''iam_admin'', ''auditor'']"

type_synonym 'a graph_route = "(graph_process, http_error, 'a) op"

definition graph_gate :: "user \<Rightarrow> user graph_route" where
  "graph_gate current_user = in_world (require_roles_gate GRAPH_ROLES current_user)"

definition graph_not_found :: "string \<Rightarrow> http_error + 'a" where
  "graph_not_found detail = Inl (HTTPException 404 detail)"

text \<open>A route that answers from the cached graph, loading it first.\<close>

definition graph_reading :: "user \<Rightarrow> (authorization_graph \<Rightarrow> http_error + 'a) \<Rightarrow> 'a graph_route" where
  "graph_reading current_user answer =
     and_then (graph_gate current_user) (\<lambda>_.
     and_then cache_load (\<lambda>graph.
     case answer graph of Inl e \<Rightarrow> raise e | Inr x \<Rightarrow> ret x))"

definition get_cache_status :: "user \<Rightarrow> graph_cache_status graph_route" where
  "get_cache_status current_user =
     and_then (graph_gate current_user) (\<lambda>_. gets (\<lambda>s. cache_status (gp_cache s)))"

definition refresh_cache :: "user \<Rightarrow> graph_cache_status graph_route" where
  "refresh_cache current_user =
     and_then (graph_gate current_user) (\<lambda>_.
     and_then cache_refresh (\<lambda>_. gets (\<lambda>s. cache_status (gp_cache s))))"

definition invalidate_cache :: "user \<Rightarrow> graph_cache_status graph_route" where
  "invalidate_cache current_user =
     and_then (graph_gate current_user) (\<lambda>_.
     and_then cache_invalidate (\<lambda>_. gets (\<lambda>s. cache_status (gp_cache s))))"

definition detail_or_404 :: "string \<Rightarrow> authorization_graph \<Rightarrow> graph_node option \<Rightarrow> http_error + graph_node_detail" where
  "detail_or_404 detail g found =
     (case found of None \<Rightarrow> graph_not_found detail | Some node \<Rightarrow> Inr (node_detail g node))"

definition find_user_route :: "int \<Rightarrow> user \<Rightarrow> graph_node_detail graph_route" where
  "find_user_route user_id current_user =
     graph_reading current_user (\<lambda>g. detail_or_404 ''Graph user node not found'' g (find_user_node g user_id))"

definition find_user_access :: "int \<Rightarrow> user \<Rightarrow> graph_user_access graph_route" where
  "find_user_access user_id current_user =
     graph_reading current_user (\<lambda>g.
       case user_access g user_id of
         None \<Rightarrow> Inl internal_server_error
       | Some None \<Rightarrow> graph_not_found ''Graph user node not found''
       | Some (Some result) \<Rightarrow> Inr result)"

definition find_user_evidence :: "int \<Rightarrow> user \<Rightarrow> evidence_item list graph_route" where
  "find_user_evidence user_id current_user =
     graph_reading current_user (\<lambda>g.
       let evidence = user_evidence g user_id in
       if evidence = [] \<and> find_user_node g user_id = None
       then graph_not_found ''Graph user node not found'' else Inr evidence)"

definition find_group_route :: "int \<Rightarrow> user \<Rightarrow> graph_node_detail graph_route" where
  "find_group_route group_id current_user =
     graph_reading current_user (\<lambda>g. detail_or_404 ''Graph group node not found'' g (find_group_node g group_id))"

definition find_application_route :: "int \<Rightarrow> user \<Rightarrow> graph_node_detail graph_route" where
  "find_application_route application_id current_user =
     graph_reading current_user
       (\<lambda>g. detail_or_404 ''Graph application node not found'' g (find_application_node g application_id))"

definition find_shortest_path ::
  "node_type \<Rightarrow> string \<Rightarrow> node_type \<Rightarrow> string \<Rightarrow> user \<Rightarrow> graph_path graph_route" where
  "find_shortest_path source_type source_id target_type target_id current_user =
     graph_reading current_user (\<lambda>g.
       case query_shortest_path g source_type source_id target_type target_id of
         None \<Rightarrow> Inl internal_server_error
       | Some path \<Rightarrow> Inr path)"

datatype graph_export = DocumentExport graph_document | TextExport string

definition export_graph :: "string \<Rightarrow> user \<Rightarrow> graph_export graph_route" where
  "export_graph export_format current_user =
     graph_reading current_user (\<lambda>g.
       Inr (if export_format = ''json'' then DocumentExport (export_json g)
            else if export_format = ''mermaid'' then TextExport (export_mermaid g)
            else TextExport (export_graphviz_dot g)))"

end
