(* ===== verification/Sha1.thy ===== *)
theory Sha1
  imports Prelude "HOL-Library.Word"
begin

text \<open>
  SHA-1 (\<open>hashlib.sha1(s).hexdigest()\<close> of the standard library) on the bytes of a text, with
  32-bit words; the identifiers of AI evidence are prefixes of it.  One character is one byte,
  as it is for ASCII text in UTF-8.
\<close>

unbundle bit_operations_syntax

type_synonym w32 = "32 word"

definition sha1_pad :: "nat list \<Rightarrow> nat list" where
  "sha1_pad bytes =
     (let l = length bytes
      in bytes @ 128 # replicate ((119 - l mod 64) mod 64) 0 @
         map (\<lambda>i. nat (8 * int l div 256 ^ i mod 256)) (rev [0..<8]))"

fun big_endian_words :: "nat list \<Rightarrow> w32 list" where
  "big_endian_words (a # b # c # d # bytes) =
     (((word_of_nat a * 256 + word_of_nat b) * 256 + word_of_nat c) * 256 + word_of_nat d) # big_endian_words bytes"
| "big_endian_words _ = []"

text \<open>The schedule of a block, newest word first.\<close>

definition schedule_word :: "w32 list \<Rightarrow> w32 list" where
  "schedule_word ws = word_rotl 1 (((ws ! 2 XOR ws ! 7) XOR ws ! 13) XOR ws ! 15) # ws"

definition sha1_schedule :: "w32 list \<Rightarrow> w32 list" where
  "sha1_schedule chunk = rev ((schedule_word ^^ 64) (rev chunk))"

type_synonym sha1_state = "w32 \<times> w32 \<times> w32 \<times> w32 \<times> w32"

definition sha1_mix :: "nat \<Rightarrow> w32 \<Rightarrow> w32 \<Rightarrow> w32 \<Rightarrow> w32" where
  "sha1_mix t b c d =
     (if t < 20 then ((b AND c) OR (NOT b AND d)) + 0x5A827999
      else if t < 40 then (b XOR c XOR d) + 0x6ED9EBA1
      else if t < 60 then ((b AND c) OR (b AND d) OR (c AND d)) + 0x8F1BBCDC
      else (b XOR c XOR d) + 0xCA62C1D6)"

fun sha1_round :: "nat \<times> w32 \<Rightarrow> sha1_state \<Rightarrow> sha1_state" where
  "sha1_round (t, w) (a, b, c, d, e) =
     (word_rotl 5 a + sha1_mix t b c d + e + w, a, word_rotl 30 b, c, d)"

fun add_states :: "sha1_state \<Rightarrow> sha1_state \<Rightarrow> sha1_state" where
  "add_states (a, b, c, d, e) (a', b', c', d', e') = (a + a', b + b', c + c', d + d', e + e')"

definition sha1_block :: "w32 list \<Rightarrow> sha1_state \<Rightarrow> sha1_state" where
  "sha1_block chunk h = add_states h (fold sha1_round (enumerate 0 (sha1_schedule chunk)) h)"

fun blocks_of :: "w32 list \<Rightarrow> w32 list list" where
  "blocks_of [] = []"
| "blocks_of (w # ws) = take 16 (w # ws) # blocks_of (drop 15 ws)"

definition sha1_start :: sha1_state where
  "sha1_start = (0x67452301, 0xEFCDAB89, 0x98BADCFE, 0x10325476, 0xC3D2E1F0)"

definition word_hex :: "w32 \<Rightarrow> string" where
  "word_hex w = map (\<lambda>i. hex_digit (unat (drop_bit (4 * i) w AND 15))) (rev [0..<8])"

definition sha1_hexdigest :: "string \<Rightarrow> string" where
  "sha1_hexdigest s =
     (case fold sha1_block (blocks_of (big_endian_words (sha1_pad (map of_char s)))) sha1_start of
        (a, b, c, d, e) \<Rightarrow> concat (map word_hex [a, b, c, d, e]))"

end
