(* ===== verification/AiContext.thy ===== *)
theory AiContext
  imports GraphQueries Sha1
begin

text \<open>
  The deterministic half of the AI explanation assistant, \<open>app/ai\<close>: classifying a question
  (\<open>intents.py\<close>), collecting evidence from the authorization graph (\<open>evidence.py\<close>), ranking it
  (\<open>ranking.py\<close>), fitting it to a token budget (\<open>budget.py\<close>), and assembling context and prompt
  (\<open>context.py\<close>, \<open>prompt.py\<close>).  A confidence is a number of hundredths.  A \<open>KeyError\<close> is \<open>None\<close>.
\<close>

section \<open>Models\<close>

datatype intent_type =
    EXPLAIN_ACCESS | ACCESS_GAP | PROVISIONING | REMEDIATION | REVIEW | ACCESS_PATH | MANAGER_CHAIN | GENERAL

fun intent_type_value :: "intent_type \<Rightarrow> string" where
  "intent_type_value EXPLAIN_ACCESS = ''explain_access''"
| "intent_type_value ACCESS_GAP = ''access_gap''"
| "intent_type_value PROVISIONING = ''provisioning''"
| "intent_type_value REMEDIATION = ''remediation''"
| "intent_type_value REVIEW = ''review''"
| "intent_type_value ACCESS_PATH = ''access_path''"
| "intent_type_value MANAGER_CHAIN = ''manager_chain''"
| "intent_type_value GENERAL = ''general''"

record ai_context_request =
  aq_question :: string
  aq_user_id :: "int option"
  aq_application_id :: "int option"
  aq_entitlement_id :: "int option"
  aq_source_type :: "node_type option"
  aq_source_id :: "string option"
  aq_target_type :: "node_type option"
  aq_target_id :: "string option"
  aq_max_tokens :: int

text \<open>The constraints of the fields, which the framework checks before the route runs.\<close>

definition valid_context_request :: "ai_context_request \<Rightarrow> bool" where
  "valid_context_request r \<longleftrightarrow>
     1 \<le> length (aq_question r) \<and> length (aq_question r) \<le> 1000 \<and> 50 \<le> aq_max_tokens r \<and> aq_max_tokens r \<le> 8000"

record intent_classification =
  ic_intent :: intent_type
  ic_confidence :: nat
  ic_matched_rules :: "string list"
  ic_normalized_question :: string
  ic_user_id :: "int option"
  ic_application_id :: "int option"
  ic_entitlement_id :: "int option"

record ai_evidence =
  ai_id :: string
  ai_evidence_type :: string
  ai_title :: string
  ai_description :: string
  ai_reference :: string
  ai_timestamp :: "int option"
  ai_correlation_id :: "string option"
  ai_relationship_type :: "string option"
  ai_node_id :: "string option"
  ai_edge_id :: "string option"
  ai_distance :: "int option"
  ai_priority :: int
  ai_rank_score :: int
  ai_token_estimate :: int

record citation =
  ci_id :: string
  ci_title :: string
  ci_reference :: string
  ci_correlation_id :: "string option"

record token_budget =
  tb_max_tokens :: int
  tb_reserved_tokens :: int
  tb_evidence_tokens :: int
  tb_total_estimated_tokens :: int
  tb_included_evidence_count :: nat
  tb_omitted_evidence_count :: nat
  tb_truncated :: bool

record ai_context =
  ac_question :: string
  ac_intent :: intent_classification
  ac_subject :: payload
  ac_evidence :: "ai_evidence list"
  ac_citations :: "citation list"
  ac_token_budget :: token_budget
  ac_graph_summary :: payload

section \<open>Intents\<close>

text \<open>\<open>re.sub(r"\s+", " ", s)\<close>; the flag says that the previous character was a space.\<close>

primrec collapse_spaces :: "bool \<Rightarrow> string \<Rightarrow> string" where
  "collapse_spaces after_space [] = []"
| "collapse_spaces after_space (c # s) =
     (if is_space c then (if after_space then collapse_spaces True s else CHR '' '' # collapse_spaces True s)
      else c # collapse_spaces False s)"

definition question_char :: "char \<Rightarrow> bool" where
  "question_char c \<longleftrightarrow> (let n = (of_char c :: nat) in 97 \<le> n \<and> n \<le> 122) \<or> digit_char c \<or> is_space c \<or>
     c \<in> {CHR ''#'', CHR ''_'', CHR ''-''}"

definition apostrophe :: char where
  "apostrophe = char_of (39 :: nat)"

definition normalize_question :: "string \<Rightarrow> string" where
  "normalize_question question =
     (let lowered = lower (strip question);
          without_punctuation = map (\<lambda>c. if question_char c then c else CHR '' '')
            (filter (\<lambda>c. c \<noteq> apostrophe) lowered)
      in strip (collapse_spaces False without_punctuation))"

definition contains_any :: "string \<Rightarrow> string list \<Rightarrow> bool" where
  "contains_any text needles \<longleftrightarrow> list_ex (\<lambda>needle. sublist (filter (\<lambda>c. c \<noteq> apostrophe) needle) text) needles"

text \<open>\<open>re.search(rf"\b{label}\s+#?(\d+)\b", value)\<close>, the label being a word of letters.\<close>

definition word_char :: "char \<Rightarrow> bool" where
  "word_char c \<longleftrightarrow> is_letter c \<or> digit_char c \<or> c = CHR ''_''"

definition match_id_here :: "string \<Rightarrow> string \<Rightarrow> string option" where
  "match_id_here label text =
     (if \<not> prefix label text then None
      else
      (let after = drop (length label) text;
           unspaced = dropWhile is_space after;
           number = (case unspaced of [] \<Rightarrow> [] | c # cs \<Rightarrow> if c = CHR ''#'' then cs else unspaced);
           found = takeWhile digit_char number
       in if unspaced = after \<or> found = [] then None
          else case dropWhile digit_char number of
                 [] \<Rightarrow> Some found
               | c # _ \<Rightarrow> if word_char c then None else Some found))"

fun search_id :: "string \<Rightarrow> bool \<Rightarrow> string \<Rightarrow> string option" where
  "search_id label after_word [] = None"
| "search_id label after_word (c # text) =
     (case (if after_word then None else match_id_here label (c # text)) of
        Some found \<Rightarrow> Some found
      | None \<Rightarrow> search_id label (word_char c) text)"

definition extract_id :: "string \<Rightarrow> string \<Rightarrow> int option" where
  "extract_id text label = Option.bind (search_id label False text) parse_int"

text \<open>\<open>x or y\<close> on an optional integer, of which zero is false.\<close>

definition or_else :: "int option \<Rightarrow> int option \<Rightarrow> int option" where
  "or_else x y = (case x of None \<Rightarrow> y | Some i \<Rightarrow> if i = 0 then y else Some i)"

definition classify_text :: "string \<Rightarrow> intent_type \<times> nat \<times> string list" where
  "classify_text normalized =
     (if contains_any normalized [''cant access'', ''can'' @ [apostrophe] @ ''t access'', ''cannot access'',
           ''can not access'', ''why cant'', ''why can'' @ [apostrophe] @ ''t'', ''access denied'',
           ''does not have access'', ''doesnt have access'']
      then (ACCESS_GAP, 95, [''access_gap_phrase''])
      else if contains_any normalized [''access path'', ''show path'', ''shortest path'']
      then (ACCESS_PATH, 95, [''access_path_phrase''])
      else if contains_any normalized [''manager chain'', ''management chain'']
      then (MANAGER_CHAIN, 95, [''manager_chain_phrase''])
      else if sublist ''provision'' normalized then (PROVISIONING, 90, [''provisioning_keyword''])
      else if sublist ''remediat'' normalized then (REMEDIATION, 90, [''remediation_keyword''])
      else if contains_any normalized [''review'', ''certification'', ''certify'']
      then (REVIEW, 90, [''review_keyword''])
      else if contains_any normalized [''why does'', ''why do'', ''why has'', ''why have'', ''has access'',
           ''have access'', ''explain access'']
      then (EXPLAIN_ACCESS, 85, [''explain_access_phrase''])
      else (GENERAL, 55, [''fallback_general'']))"

definition classify_intent :: "ai_context_request \<Rightarrow> intent_classification" where
  "classify_intent request =
     (let normalized = normalize_question (aq_question request) in
      case classify_text normalized of (intent, confidence, matched_rules) \<Rightarrow>
        \<lparr>ic_intent = intent, ic_confidence = confidence, ic_matched_rules = matched_rules,
         ic_normalized_question = normalized,
         ic_user_id = or_else (aq_user_id request) (extract_id normalized ''user''),
         ic_application_id = or_else (aq_application_id request)
           (or_else (extract_id normalized ''application'') (extract_id normalized ''app'')),
         ic_entitlement_id = or_else (aq_entitlement_id request) (extract_id normalized ''entitlement'')\<rparr>)"

section \<open>Evidence\<close>

definition stable_id :: "string list \<Rightarrow> string" where
  "stable_id parts = ''ai-evidence:'' @ take 12 (sha1_hexdigest (sep_concat ''|'' parts))"

definition edge_type_values :: "string list" where
  "edge_type_values = map edge_type_value [MEMBER_OF, HAS_ENTITLEMENT, GRANTS_ACCESS_TO, PROVISIONED_BY,
     REVIEWED_IN, REMEDIATED_BY, MANAGED_BY, DELEGATED_TO, CONNECTED_TO, AUDITED_BY]"

definition from_node :: "int \<Rightarrow> int \<Rightarrow> graph_node \<Rightarrow> ai_evidence" where
  "from_node distance priority node =
     \<lparr>ai_id = stable_id [node_type_value (gn_type node), gn_reference node, gn_label node, str_int distance],
      ai_evidence_type = node_type_value (gn_type node),
      ai_title = node_type_value (gn_type node) @ '': '' @ gn_label node,
      ai_description = ''Graph node '' @ gn_id node @ '' exists in the authorization graph.'',
      ai_reference = gn_reference node, ai_timestamp = gn_timestamp node, ai_correlation_id = None,
      ai_relationship_type = None, ai_node_id = Some (gn_id node), ai_edge_id = None,
      ai_distance = Some distance, ai_priority = priority, ai_rank_score = 0, ai_token_estimate = 0\<rparr>"

definition from_graph_evidence ::
  "int \<Rightarrow> graph_node option \<Rightarrow> graph_edge option \<Rightarrow> int \<Rightarrow> evidence_item \<Rightarrow> ai_evidence" where
  "from_graph_evidence distance node edge priority item =
     \<lparr>ai_id = stable_id [ev_type item, ev_reference item, ev_title item, or_empty (ev_correlation_id item)],
      ai_evidence_type = ev_type item, ai_title = ev_title item, ai_description = ev_description item,
      ai_reference = ev_reference item, ai_timestamp = ev_timestamp item,
      ai_correlation_id = ev_correlation_id item,
      ai_relationship_type = (if ev_type item \<in> set edge_type_values then Some (ev_type item) else None),
      ai_node_id = map_option gn_id node, ai_edge_id = map_option ge_id edge,
      ai_distance = Some distance, ai_priority = priority, ai_rank_score = 0, ai_token_estimate = 0\<rparr>"

definition synthetic_evidence :: "string \<Rightarrow> string \<Rightarrow> string \<Rightarrow> string \<Rightarrow> int \<Rightarrow> ai_evidence" where
  "synthetic_evidence evidence_type title description reference priority =
     \<lparr>ai_id = stable_id [evidence_type, reference, title, description], ai_evidence_type = evidence_type,
      ai_title = title, ai_description = description, ai_reference = reference, ai_timestamp = None,
      ai_correlation_id = None, ai_relationship_type = None, ai_node_id = None, ai_edge_id = None,
      ai_distance = Some 0, ai_priority = priority, ai_rank_score = 0, ai_token_estimate = 0\<rparr>"

definition ai_user_evidence :: "authorization_graph \<Rightarrow> int \<Rightarrow> ai_evidence list" where
  "ai_user_evidence g user_id = map (from_graph_evidence 0 None None 0) (user_evidence g user_id)"

definition node_detail_evidence :: "authorization_graph \<Rightarrow> string \<Rightarrow> int \<Rightarrow> ai_evidence list" where
  "node_detail_evidence g node_id distance =
     (case get_node g node_id of
        None \<Rightarrow> []
      | Some node \<Rightarrow> map (from_graph_evidence distance (Some node) None 0) (nd_evidence (node_detail g node)))"

definition history_evidence :: "graph_node list \<Rightarrow> ai_evidence list" where
  "history_evidence nodes = map (from_node 1 70) nodes"

definition manager_chain_evidence :: "authorization_graph \<Rightarrow> int \<Rightarrow> ai_evidence list" where
  "manager_chain_evidence g user_id =
     (let manager_nodes = find_manager_chain g user_id in
      if manager_nodes = []
      then [synthetic_evidence ''QUERY_RESULT'' ''No manager chain found''
              (''User '' @ str_int user_id @ '' has no manager chain in the authorization graph.'')
              (''/graph/users/'' @ str_int user_id) 65]
      else map (\<lambda>(index, node). from_node (int index + 1) 75 node) (enumerate 0 manager_nodes))"

definition graph_path_evidence :: "authorization_graph \<Rightarrow> int \<Rightarrow> graph_path \<Rightarrow> ai_evidence list" where
  "graph_path_evidence g distance path =
     map (\<lambda>(index, node). from_node (distance + int index) 60 node) (enumerate 0 (gp_nodes path)) @
     map (\<lambda>(index, edge). from_graph_evidence (distance + int index) None (Some edge) 80 (edge_evidence g edge))
       (enumerate 0 (gp_edges path))"

text \<open>The path a question is about: \<open>None\<close> is a \<open>KeyError\<close>, \<open>Some None\<close> no path to look for.\<close>

definition resolve_path ::
  "authorization_graph \<Rightarrow> ai_context_request \<Rightarrow> intent_classification \<Rightarrow> graph_path option option" where
  "resolve_path g request classification =
     (case (aq_source_type request, aq_source_id request, aq_target_type request, aq_target_id request) of
        (Some source_type, Some source_id, Some target_type, Some target_id) \<Rightarrow>
          map_option Some (query_shortest_path g source_type source_id target_type target_id)
      | _ \<Rightarrow>
          (case ic_user_id classification of
             None \<Rightarrow> Some None
           | Some user_id \<Rightarrow>
               (case ic_entitlement_id classification of
                  Some entitlement_id \<Rightarrow> map_option Some (find_access_path g user_id (str_int entitlement_id))
                | None \<Rightarrow>
                    (case ic_application_id classification of
                       Some application_id \<Rightarrow>
                         map_option Some (query_shortest_path g USER (str_int user_id) APPLICATION (str_int application_id))
                     | None \<Rightarrow> Some None))))"

definition path_evidence ::
  "authorization_graph \<Rightarrow> ai_context_request \<Rightarrow> intent_classification \<Rightarrow> ai_evidence list option" where
  "path_evidence g request classification =
     map_option (\<lambda>path. case path of None \<Rightarrow> [] | Some p \<Rightarrow> graph_path_evidence g 0 p)
       (resolve_path g request classification)"

definition access_gap_evidence ::
  "authorization_graph \<Rightarrow> ai_context_request \<Rightarrow> intent_classification \<Rightarrow> ai_evidence list option" where
  "access_gap_evidence g request classification =
     map_option (\<lambda>path. case path of
         None \<Rightarrow> []
       | Some p \<Rightarrow>
           (let result = (if gp_found p then ''found'' else ''not found'') in
            synthetic_evidence ''PATH_RESULT'' (''Graph path '' @ result)
              (''Path lookup from '' @ gp_source p @ '' to '' @ gp_target p @ '' returned '' @ result @
               '' using deterministic graph traversal.'') ''/graph/path'' 90 #
            graph_path_evidence g 0 p))
       (resolve_path g request classification)"

text \<open>The dictionary of \<open>deduplicate_evidence\<close>, and its replacement of a weaker duplicate.\<close>

type_synonym evidence_key = "string \<times> string \<times> string \<times> string \<times> string option"

definition evidence_key :: "ai_evidence \<Rightarrow> evidence_key" where
  "evidence_key item =
     (ai_evidence_type item, ai_title item, ai_description item, ai_reference item, ai_correlation_id item)"

definition distance_or_far :: "ai_evidence \<Rightarrow> int" where
  "distance_or_far item = (case ai_distance item of None \<Rightarrow> 9999 | Some d \<Rightarrow> d)"

definition keep_stronger :: "ai_evidence \<Rightarrow> (evidence_key \<times> ai_evidence) list \<Rightarrow> (evidence_key \<times> ai_evidence) list" where
  "keep_stronger item deduplicated =
     (case map_of deduplicated (evidence_key item) of
        None \<Rightarrow> dict_set (evidence_key item) item deduplicated
      | Some existing \<Rightarrow>
          if ai_priority item > ai_priority existing \<or> distance_or_far item < distance_or_far existing
          then dict_set (evidence_key item) item deduplicated else deduplicated)"

definition deduplicate_evidence :: "ai_evidence list \<Rightarrow> ai_evidence list" where
  "deduplicate_evidence evidence = sort_key ai_id (map snd (fold keep_stronger evidence []))"

text \<open>What the intent adds; without a user only the two path questions add anything.\<close>

definition intent_evidence ::
  "authorization_graph \<Rightarrow> ai_context_request \<Rightarrow> intent_classification \<Rightarrow> ai_evidence list option" where
  "intent_evidence g request classification =
     (case (ic_intent classification, ic_user_id classification) of
        (ACCESS_PATH, _) \<Rightarrow> path_evidence g request classification
      | (ACCESS_GAP, _) \<Rightarrow> access_gap_evidence g request classification
      | (MANAGER_CHAIN, Some user_id) \<Rightarrow> Some (manager_chain_evidence g user_id)
      | (PROVISIONING, Some user_id) \<Rightarrow> map_option history_evidence (find_provisioning_history g user_id)
      | (REMEDIATION, Some user_id) \<Rightarrow> map_option history_evidence (find_remediation_history g user_id)
      | (REVIEW, Some user_id) \<Rightarrow> Some (history_evidence (find_review_history g user_id))
      | (EXPLAIN_ACCESS, Some user_id) \<Rightarrow>
          map_option (\<lambda>access. case access of
              None \<Rightarrow> []
            | Some a \<Rightarrow> concat (map (graph_path_evidence g 1) (ua_paths a))) (user_access g user_id)
      | _ \<Rightarrow> Some [])"

definition collect_evidence ::
  "authorization_graph \<Rightarrow> ai_context_request \<Rightarrow> intent_classification \<Rightarrow> ai_evidence list option" where
  "collect_evidence g request classification =
     (let user = (case ic_user_id classification of None \<Rightarrow> [] | Some user_id \<Rightarrow> ai_user_evidence g user_id);
          application = (case ic_application_id classification of
              None \<Rightarrow> []
            | Some application_id \<Rightarrow> node_detail_evidence g (key_id APPLICATION application_id) 1);
          entitlement = (case ic_entitlement_id classification of
              None \<Rightarrow> []
            | Some entitlement_id \<Rightarrow> node_detail_evidence g (key_id ENTITLEMENT entitlement_id) 1)
      in map_option (\<lambda>more. deduplicate_evidence (user @ application @ entitlement @ more))
           (intent_evidence g request classification))"

section \<open>Ranking\<close>

definition BASE_PRIORITY :: "(string \<times> int) list" where
  "BASE_PRIORITY = [(edge_type_value HAS_ENTITLEMENT, 100), (edge_type_value REVIEWED_IN, 80),
     (edge_type_value REMEDIATED_BY, 80), (edge_type_value PROVISIONED_BY, 75), (edge_type_value MANAGED_BY, 70),
     (edge_type_value DELEGATED_TO, 65), (edge_type_value MEMBER_OF, 60), (edge_type_value GRANTS_ACCESS_TO, 55),
     (edge_type_value AUDITED_BY, 50), (edge_type_value CONNECTED_TO, 40), (''PATH_RESULT'', 85),
     (''QUERY_RESULT'', 45)]"

fun INTENT_BOOSTS :: "intent_type \<Rightarrow> (string \<times> int) list" where
  "INTENT_BOOSTS EXPLAIN_ACCESS = [(edge_type_value HAS_ENTITLEMENT, 25), (edge_type_value GRANTS_ACCESS_TO, 15),
     (edge_type_value MEMBER_OF, 10)]"
| "INTENT_BOOSTS ACCESS_GAP = [(''PATH_RESULT'', 30), (edge_type_value GRANTS_ACCESS_TO, 15),
     (edge_type_value HAS_ENTITLEMENT, 15)]"
| "INTENT_BOOSTS PROVISIONING = [(edge_type_value PROVISIONED_BY, 35), (''ProvisioningJob'', 25),
     (''ProvisioningHistory'', 25)]"
| "INTENT_BOOSTS REMEDIATION = [(edge_type_value REMEDIATED_BY, 35), (''RemediationJob'', 25)]"
| "INTENT_BOOSTS REVIEW = [(edge_type_value REVIEWED_IN, 35), (''ReviewItem'', 25), (''CertificationCampaign'', 20)]"
| "INTENT_BOOSTS ACCESS_PATH = [(''PATH_RESULT'', 35), (edge_type_value HAS_ENTITLEMENT, 20),
     (edge_type_value GRANTS_ACCESS_TO, 20)]"
| "INTENT_BOOSTS MANAGER_CHAIN = [(edge_type_value MANAGED_BY, 35), (''User'', 10)]"
| "INTENT_BOOSTS GENERAL = []"

definition ranked_type :: "ai_evidence \<Rightarrow> string" where
  "ranked_type item = (case ai_relationship_type item of
     None \<Rightarrow> ai_evidence_type item | Some ty \<Rightarrow> if ty = '''' then ai_evidence_type item else ty)"

definition priority_for :: "intent_type \<Rightarrow> ai_evidence \<Rightarrow> int" where
  "priority_for intent item =
     (let base = (if ai_priority item \<noteq> 0 then ai_priority item else dict_get 35 BASE_PRIORITY (ranked_type item))
      in base + dict_get 0 (INTENT_BOOSTS intent) (ranked_type item) +
         dict_get 0 (INTENT_BOOSTS intent) (ai_evidence_type item))"

definition score_for :: "intent_type \<Rightarrow> ai_evidence \<Rightarrow> int" where
  "score_for intent item =
     priority_for intent item +
     (case ai_distance item of None \<Rightarrow> 0 | Some d \<Rightarrow> max 0 (25 - d * 5)) +
     (if ai_timestamp item \<noteq> None then 10 else 0)"

text \<open>Newer evidence first, and evidence without a time last (its sort value is infinite).\<close>

definition timestamp_sort_value :: "int option \<Rightarrow> nat \<times> int" where
  "timestamp_sort_value timestamp = (case timestamp of None \<Rightarrow> (1, 0) | Some t \<Rightarrow> (0, - t))"

definition rank_key :: "ai_evidence \<Rightarrow> int \<times> (nat \<times> int) \<times> string \<times> string \<times> string" where
  "rank_key item = (- ai_rank_score item, timestamp_sort_value (ai_timestamp item), ai_reference item,
     ai_title item, ai_id item)"

definition ranked :: "intent_type \<Rightarrow> ai_evidence \<Rightarrow> ai_evidence" where
  "ranked intent item =
     item\<lparr>ai_priority := priority_for intent item, ai_rank_score := score_for intent item\<rparr>"

definition rank_evidence :: "intent_type \<Rightarrow> ai_evidence list \<Rightarrow> ai_evidence list" where
  "rank_evidence intent evidence = sort_key rank_key (map (ranked intent) evidence)"

section \<open>The token budget\<close>

definition estimate_tokens :: "string \<Rightarrow> int" where
  "estimate_tokens text =
     (let stripped = strip text in
      if stripped = [] then 0 else max 1 (int ((length stripped + 3) div 4)))"

definition estimate_evidence_tokens :: "ai_evidence \<Rightarrow> int" where
  "estimate_evidence_tokens item =
     estimate_tokens (sep_concat '' '' (filter (\<lambda>part. part \<noteq> [])
       [ai_title item, ai_description item, ai_reference item, or_empty (ai_correlation_id item)]))"

text \<open>The loop: what is included, and how many tokens it takes.\<close>

fun fit_budget :: "int \<Rightarrow> ai_evidence list \<Rightarrow> ai_evidence list \<times> int \<Rightarrow> ai_evidence list \<times> int" where
  "fit_budget available [] acc = acc"
| "fit_budget available (item # items) (included, evidence_tokens) =
     (let item_tokens = estimate_evidence_tokens item in
      if evidence_tokens + item_tokens > available then fit_budget available items (included, evidence_tokens)
      else fit_budget available items
             (included @ [item\<lparr>ai_token_estimate := item_tokens\<rparr>], evidence_tokens + item_tokens))"

definition apply_token_budget :: "int \<Rightarrow> int \<Rightarrow> ai_evidence list \<Rightarrow> ai_evidence list \<times> token_budget" where
  "apply_token_budget max_tokens reserved_tokens evidence =
     (case fit_budget (max 0 (max_tokens - reserved_tokens)) evidence ([], 0) of
        (included, evidence_tokens) \<Rightarrow>
          (let omitted_count = length evidence - length included in
           (included, \<lparr>tb_max_tokens = max_tokens, tb_reserved_tokens = reserved_tokens,
              tb_evidence_tokens = evidence_tokens, tb_total_estimated_tokens = reserved_tokens + evidence_tokens,
              tb_included_evidence_count = length included, tb_omitted_evidence_count = omitted_count,
              tb_truncated = (omitted_count > 0)\<rparr>)))"

section \<open>The context and the prompt\<close>

definition citation_of :: "ai_evidence \<Rightarrow> citation" where
  "citation_of item = \<lparr>ci_id = ai_id item, ci_title = ai_title item, ci_reference = ai_reference item,
     ci_correlation_id = ai_correlation_id item\<rparr>"

definition reserved_tokens_for :: "ai_context_request \<Rightarrow> int" where
  "reserved_tokens_for request =
     min (aq_max_tokens request div 3) (estimate_tokens (aq_question request) + 80)"

definition assemble :: "authorization_graph \<Rightarrow> ai_context_request \<Rightarrow> ai_context option" where
  "assemble g request =
     (let classification = classify_intent request;
          node_type_json = (\<lambda>ty. optional_str (map_option node_type_value ty))
      in map_option (\<lambda>evidence.
           let ranked_evidence = rank_evidence (ic_intent classification) evidence
           in case apply_token_budget (aq_max_tokens request) (reserved_tokens_for request) ranked_evidence of
                (budgeted_evidence, budget) \<Rightarrow>
                  \<lparr>ac_question = aq_question request, ac_intent = classification,
                   ac_subject = [(''user_id'', optional_int (ic_user_id classification)),
                     (''application_id'', optional_int (ic_application_id classification)),
                     (''entitlement_id'', optional_int (ic_entitlement_id classification)),
                     (''source_type'', node_type_json (aq_source_type request)),
                     (''source_id'', optional_str (aq_source_id request)),
                     (''target_type'', node_type_json (aq_target_type request)),
                     (''target_id'', optional_str (aq_target_id request))],
                   ac_evidence = budgeted_evidence, ac_citations = map citation_of budgeted_evidence,
                   ac_token_budget = budget,
                   ac_graph_summary = [(''source'', JStr ''authorization_graph''),
                     (''node_count'', JInt (int (length (ag_nodes g)))),
                     (''edge_count'', JInt (int (length (ag_edges g))))]\<rparr>)
         (collect_evidence g request classification))"

record prompt_message =
  pm_role :: string
  pm_content :: string

record structured_prompt =
  sp_system_instructions :: "string list"
  sp_user_question :: string
  sp_assembled_evidence :: "ai_evidence list"
  sp_citations :: "citation list"
  sp_constraints :: "string list"
  sp_messages :: "prompt_message list"

definition SYSTEM_INSTRUCTIONS :: "string list" where
  "SYSTEM_INSTRUCTIONS =
     [''Use only the assembled AccessIQ evidence supplied in this prompt.'',
      ''Do not make authorization, provisioning, governance, or policy decisions.'',
      ''Do not invent facts that are not present in the evidence.'',
      ''Cite evidence by reference when explaining graph relationships.'']"

definition CONSTRAINTS :: "string list" where
  "CONSTRAINTS =
     [''The authorization graph is deterministic and read-only.'',
      ''The future LLM provider must not mutate AccessIQ state.'',
      ''Policy, provisioning, review, and remediation decisions remain outside AI.'',
      ''If evidence is insufficient, say what evidence is missing.'']"

definition evidence_line :: "nat \<times> ai_evidence \<Rightarrow> string" where
  "evidence_line = (\<lambda>(index, item). ''['' @ digits index @ ''] '' @ ai_title item @ '' | '' @ ai_description item @
     '' | reference='' @ ai_reference item)"

definition build_prompt :: "ai_context \<Rightarrow> structured_prompt" where
  "build_prompt context =
     (let evidence_lines = map evidence_line (enumerate 1 (ac_evidence context));
          evidence_text = (if evidence_lines \<noteq> [] then sep_concat [newline] evidence_lines else ''No evidence.'');
          user_content = ''Question: '' @ ac_question context @ [newline] @
            ''Intent: '' @ intent_type_value (ic_intent (ac_intent context)) @ [newline, newline] @
            ''Evidence:'' @ [newline] @ evidence_text
      in \<lparr>sp_system_instructions = SYSTEM_INSTRUCTIONS, sp_user_question = ac_question context,
          sp_assembled_evidence = ac_evidence context, sp_citations = ac_citations context,
          sp_constraints = CONSTRAINTS,
          sp_messages =
            [\<lparr>pm_role = ''system'', pm_content = sep_concat [newline] (SYSTEM_INSTRUCTIONS @ CONSTRAINTS)\<rparr>,
             \<lparr>pm_role = ''user'', pm_content = user_content\<rparr>]\<rparr>)"

end
