(* ===== verification/AiChat.thy ===== *)
theory AiChat
  imports AiContext
begin

text \<open>
  The AI explanation service of \<open>app/ai/explanation.py\<close> with its providers (\<open>providers\<close>), the
  conversations it keeps in memory (\<open>conversation.py\<close>) and the routes (\<open>routes.py\<close>).  The two
  network providers take the transport as a parameter: what \<open>urlopen\<close> and \<open>json.loads\<close> answer
  to a request.  Times are microseconds, of which a rounded number of milliseconds is a thousandth.
\<close>

section \<open>Providers\<close>

datatype provider_exn =
    ProviderUnavailableError string
  | ProviderTimeoutError string
  | ProviderConfigurationError string
  | ProviderRateLimitError string
  | ProviderFailureError string
  | OtherProviderError

record provider_metadata =
  pv_name :: string
  pv_display_name :: string
  pv_enabled :: bool
  pv_available :: bool
  pv_supports_streaming :: bool
  pv_model :: string
  pv_details :: payload

record provider_health =
  ph_provider :: string
  ph_health_status :: string
  ph_health_message :: string
  ph_metadata :: provider_metadata

record generation_result =
  gr_answer :: string
  gr_provider :: string
  gr_model :: string
  gr_citations :: "citation list"
  gr_metadata :: payload

type_synonym generator = "structured_prompt \<Rightarrow> int \<Rightarrow> int \<Rightarrow> provider_exn + generation_result"

record llm_provider =
  lp_name :: string
  lp_metadata :: provider_metadata
  lp_health :: provider_health
  lp_generate :: generator

text \<open>The settings of \<open>config.py\<close>, read from the environment variables.\<close>

record ai_settings =
  as_enabled :: bool
  as_provider :: string
  as_openai_api_key :: "string option"
  as_anthropic_api_key :: "string option"
  as_timeout_seconds :: int
  as_max_tokens :: int
  as_openai_model :: string
  as_anthropic_model :: string

type_synonym environ = "string \<Rightarrow> string option"

definition get_bool_env :: "environ \<Rightarrow> string \<Rightarrow> bool \<Rightarrow> bool" where
  "get_bool_env getenv name dflt =
     (case getenv name of None \<Rightarrow> dflt | Some v \<Rightarrow> lower (strip v) \<in> {''1'', ''true'', ''yes'', ''on''})"

definition get_int_env :: "environ \<Rightarrow> string \<Rightarrow> int \<Rightarrow> int" where
  "get_int_env getenv name dflt =
     (case getenv name of None \<Rightarrow> dflt | Some v \<Rightarrow> (case parse_int v of None \<Rightarrow> dflt | Some i \<Rightarrow> i))"

definition get_text_env :: "environ \<Rightarrow> string \<Rightarrow> string \<Rightarrow> string" where
  "get_text_env getenv name dflt = (case getenv name of None \<Rightarrow> dflt | Some v \<Rightarrow> v)"

definition nonempty :: "string option \<Rightarrow> string option" where
  "nonempty x = (case x of None \<Rightarrow> None | Some v \<Rightarrow> if v = [] then None else Some v)"

definition get_ai_settings :: "environ \<Rightarrow> ai_settings" where
  "get_ai_settings getenv =
     (let provider = lower (strip (get_text_env getenv ''LLM_PROVIDER'' ''mock'')) in
      \<lparr>as_enabled = get_bool_env getenv ''AI_ENABLED'' True,
       as_provider = (if provider = [] then ''mock'' else provider),
       as_openai_api_key = nonempty (getenv ''OPENAI_API_KEY''),
       as_anthropic_api_key = nonempty (getenv ''ANTHROPIC_API_KEY''),
       as_timeout_seconds = get_int_env getenv ''AI_TIMEOUT'' 30,
       as_max_tokens = get_int_env getenv ''AI_MAX_TOKENS'' 1200,
       as_openai_model = get_text_env getenv ''OPENAI_MODEL'' ''gpt-4.1-mini'',
       as_anthropic_model = get_text_env getenv ''ANTHROPIC_MODEL'' ''claude-3-5-sonnet-latest''\<rparr>)"

subsection \<open>The mock provider\<close>

definition mock_metadata :: provider_metadata where
  "mock_metadata = \<lparr>pv_name = ''mock'', pv_display_name = ''Deterministic Mock Provider'', pv_enabled = True,
     pv_available = True, pv_supports_streaming = False, pv_model = ''mock-grounded-explainer'',
     pv_details = [(''network'', JStr ''disabled''), (''deterministic'', JBool True)]\<rparr>"

definition mock_fact :: "nat \<times> ai_evidence \<Rightarrow> string" where
  "mock_fact = (\<lambda>(index, item). digits index @ ''. '' @ ai_title item @ '': '' @ ai_description item @
     '' (reference: '' @ ai_reference item @ '').'')"

definition mock_generate :: generator where
  "mock_generate prompt timeout_seconds max_tokens =
     (let evidence = sp_assembled_evidence prompt;
          answer = (if evidence = []
            then ''I do not have enough AccessIQ evidence to explain this. No authorization decision was made.''
            else ''Based only on deterministic AccessIQ evidence, here is the grounded explanation for: '' @
              sp_user_question prompt @ '' '' @
              sep_concat '' '' (map mock_fact (enumerate 1 (take 5 evidence))) @
              '' This explanation is informational only; AccessIQ'' @ [apostrophe] @
              ''s policy, provisioning, review, and remediation services remain authoritative.'')
      in Inr \<lparr>gr_answer = answer, gr_provider = ''mock'', gr_model = pv_model mock_metadata,
             gr_citations = map citation_of evidence,
             gr_metadata = [(''evidence_count'', JInt (int (length evidence))), (''deterministic'', JBool True)]\<rparr>)"

definition mock_provider :: llm_provider where
  "mock_provider = \<lparr>lp_name = ''mock'', lp_metadata = mock_metadata,
     lp_health = \<lparr>ph_provider = ''mock'', ph_health_status = ''healthy'',
       ph_health_message = ''Mock provider is available and deterministic.'', ph_metadata = mock_metadata\<rparr>,
     lp_generate = mock_generate\<rparr>"

subsection \<open>The network providers\<close>

text \<open>
  What a request to a URL with headers and a JSON body comes to: a timeout, an HTTP error status,
  another \<open>OSError\<close>, a body that is not JSON text, or a JSON body.
\<close>

datatype http_outcome = HttpTimeout | HttpStatus int | HttpOSError | HttpNotJson | HttpBody json

type_synonym transport = "string \<Rightarrow> (string \<times> string) list \<Rightarrow> json \<Rightarrow> int \<Rightarrow> http_outcome"

definition http_body :: "string \<Rightarrow> http_outcome \<Rightarrow> provider_exn + json" where
  "http_body display_name outcome =
     (case outcome of
        HttpTimeout \<Rightarrow> Inl (ProviderTimeoutError (display_name @ '' provider timed out''))
      | HttpStatus code \<Rightarrow>
          if code = 429 then Inl (ProviderRateLimitError (display_name @ '' provider rate limited the request''))
          else Inl (ProviderFailureError (display_name @ '' provider failed with HTTP '' @ str_int code))
      | HttpOSError \<Rightarrow> Inl (ProviderFailureError (display_name @ '' provider request failed''))
      | HttpNotJson \<Rightarrow> Inl OtherProviderError
      | HttpBody body \<Rightarrow> Inr body)"

text \<open>\<open>value.get(key, default)\<close>, \<open>value[0]\<close> and \<open>value.strip()\<close>, which may raise.\<close>

definition json_get :: "string \<Rightarrow> json \<Rightarrow> json \<Rightarrow> provider_exn + json" where
  "json_get key dflt v =
     (case v of JObj kvs \<Rightarrow> Inr (dict_get dflt kvs key) | _ \<Rightarrow> Inl OtherProviderError)"

definition json_first :: "json \<Rightarrow> provider_exn + json" where
  "json_first v = (case v of JList (x # _) \<Rightarrow> Inr x | JStr (c # _) \<Rightarrow> Inr (JStr [c]) | _ \<Rightarrow> Inl OtherProviderError)"

definition json_text :: "json \<Rightarrow> provider_exn + string" where
  "json_text v = (case v of JStr s \<Rightarrow> Inr s | _ \<Rightarrow> Inl OtherProviderError)"

definition provider_answer ::
  "string \<Rightarrow> string \<Rightarrow> string \<Rightarrow> structured_prompt \<Rightarrow> string \<Rightarrow> provider_exn + generation_result" where
  "provider_answer name display_name model prompt answer =
     (if answer = [] then Inl (ProviderFailureError (display_name @ '' provider returned an empty answer''))
      else Inr \<lparr>gr_answer = answer, gr_provider = name, gr_model = model, gr_citations = sp_citations prompt,
             gr_metadata = [(''raw_provider'', JStr name)]\<rparr>)"

definition openai_answer :: "json \<Rightarrow> provider_exn + string" where
  "openai_answer body =
     sum_then (json_get ''choices'' (JList [JObj []]) body) (\<lambda>choices.
     sum_then (json_first choices) (\<lambda>choice.
     sum_then (json_get ''message'' (JObj []) choice) (\<lambda>message.
     sum_then (json_get ''content'' (JStr '''') message) (\<lambda>content.
     map_sum id strip (json_text content)))))"

definition openai_generate :: "transport \<Rightarrow> ai_settings \<Rightarrow> generator" where
  "openai_generate post settings prompt timeout_seconds max_tokens =
     (case as_openai_api_key settings of
        None \<Rightarrow> Inl (ProviderConfigurationError ''OPENAI_API_KEY is not configured'')
      | Some key \<Rightarrow>
          sum_then (http_body ''OpenAI'' (post ''https://api.openai.com/v1/chat/completions''
              [(''Authorization'', ''Bearer '' @ key), (''Content-Type'', ''application/json'')]
              (JObj [(''model'', JStr (as_openai_model settings)),
                (''messages'', JList (map (\<lambda>m. JObj [(''role'', JStr (pm_role m)), (''content'', JStr (pm_content m))])
                   (sp_messages prompt))),
                (''max_tokens'', JInt max_tokens)]) timeout_seconds)) (\<lambda>body.
          sum_then (openai_answer body)
            (provider_answer ''openai'' ''OpenAI'' (as_openai_model settings) prompt)))"

text \<open>The text items of an Anthropic answer: an item that is no object has no \<open>get\<close>.\<close>

definition anthropic_item :: "json \<Rightarrow> provider_exn + string list" where
  "anthropic_item item =
     sum_then (json_get ''type'' JNull item) (\<lambda>ty.
     if ty \<noteq> JStr ''text'' then Inr []
     else sum_then (json_get ''text'' (JStr '''') item) (\<lambda>t. map_sum id (\<lambda>s. [s]) (json_text t)))"

definition anthropic_answer :: "json \<Rightarrow> provider_exn + string" where
  "anthropic_answer body =
     sum_then (json_get ''content'' (JList []) body) (\<lambda>content.
     case content of
       JList items \<Rightarrow> map_sum id (\<lambda>texts. strip (sep_concat '' '' (concat texts))) (sum_map anthropic_item items)
     | JStr [] \<Rightarrow> Inr []
     | JObj [] \<Rightarrow> Inr []
     | _ \<Rightarrow> Inl OtherProviderError)"

definition anthropic_generate :: "transport \<Rightarrow> ai_settings \<Rightarrow> generator" where
  "anthropic_generate post settings prompt timeout_seconds max_tokens =
     (case as_anthropic_api_key settings of
        None \<Rightarrow> Inl (ProviderConfigurationError ''ANTHROPIC_API_KEY is not configured'')
      | Some key \<Rightarrow>
          (case filter (\<lambda>m. pm_role m = ''user'') (sp_messages prompt) of
             [] \<Rightarrow> Inl OtherProviderError
           | message # _ \<Rightarrow>
               sum_then (http_body ''Anthropic'' (post ''https://api.anthropic.com/v1/messages''
                   [(''x-api-key'', key), (''anthropic-version'', ''2023-06-01''), (''Content-Type'', ''application/json'')]
                   (JObj [(''model'', JStr (as_anthropic_model settings)), (''max_tokens'', JInt max_tokens),
                     (''system'', JStr (sep_concat [newline] (sp_system_instructions prompt @ sp_constraints prompt))),
                     (''messages'', JList [JObj [(''role'', JStr ''user''), (''content'', JStr (pm_content message))]])])
                   timeout_seconds)) (\<lambda>body.
               sum_then (anthropic_answer body)
                 (provider_answer ''anthropic'' ''Anthropic'' (as_anthropic_model settings) prompt))))"

text \<open>The metadata and the health of a provider that needs an API key.\<close>

definition keyed_provider ::
  "ai_settings \<Rightarrow> string \<Rightarrow> string \<Rightarrow> string \<Rightarrow> string option \<Rightarrow> string \<Rightarrow> generator \<Rightarrow> llm_provider" where
  "keyed_provider settings name display_name key_name key model generate =
     (let available = (key \<noteq> None);
          metadata = \<lparr>pv_name = name, pv_display_name = display_name, pv_enabled = as_enabled settings,
            pv_available = (as_enabled settings \<and> available), pv_supports_streaming = True, pv_model = model,
            pv_details = [(''api_key_configured'', JBool available)]\<rparr>;
          health = (\<lambda>status message. \<lparr>ph_provider = name, ph_health_status = status, ph_health_message = message,
            ph_metadata = metadata\<rparr>)
      in \<lparr>lp_name = name, lp_metadata = metadata,
          lp_health = (if \<not> as_enabled settings then health ''disabled'' ''AI is disabled by AI_ENABLED.''
            else if \<not> available then health ''configuration_missing'' (key_name @ '' is not configured.'')
            else health ''healthy'' (display_name @ '' provider is configured.'')),
          lp_generate = generate\<rparr>)"

definition openai_provider :: "transport \<Rightarrow> ai_settings \<Rightarrow> llm_provider" where
  "openai_provider post settings = keyed_provider settings ''openai'' ''OpenAI'' ''OPENAI_API_KEY''
     (as_openai_api_key settings) (as_openai_model settings) (openai_generate post settings)"

definition anthropic_provider :: "transport \<Rightarrow> ai_settings \<Rightarrow> llm_provider" where
  "anthropic_provider post settings = keyed_provider settings ''anthropic'' ''Anthropic'' ''ANTHROPIC_API_KEY''
     (as_anthropic_api_key settings) (as_anthropic_model settings) (anthropic_generate post settings)"

definition build_provider_registry :: "transport \<Rightarrow> ai_settings \<Rightarrow> (string \<times> llm_provider) list" where
  "build_provider_registry post settings =
     map (\<lambda>provider. (lp_name provider, provider))
       [mock_provider, openai_provider post settings, anthropic_provider post settings]"

section \<open>Conversations\<close>

record conversation_message =
  cm_role :: string
  cm_content :: string
  cm_created_at :: int
  cm_metadata :: payload

record conversation =
  cv_conversation_id :: string
  cv_messages :: "conversation_message list"
  cv_metadata :: payload
  cv_created_at :: int
  cv_updated_at :: int

record ai_process =
  ap_graph :: graph_process
  ap_conversations :: "(string \<times> conversation) list"

definition in_graph :: "(graph_process, 'e, 'a) op \<Rightarrow> (ai_process, 'e, 'a) op" where
  "in_graph m = (\<lambda>s. case m (ap_graph s) of (r, g) \<Rightarrow> (r, s\<lparr>ap_graph := g\<rparr>))"

definition get_or_create :: "string option \<Rightarrow> payload \<Rightarrow> (ai_process, 'e, conversation) op" where
  "get_or_create conversation_id metadata =
     and_then (in_graph (in_world utc_now)) (\<lambda>now.
     and_then (gets ap_conversations) (\<lambda>conversations.
     case Option.bind conversation_id (map_of conversations) of
       Some conversation \<Rightarrow> ret conversation
     | None \<Rightarrow>
         and_then (case nonempty conversation_id of
             Some i \<Rightarrow> ret i
           | None \<Rightarrow> in_graph (in_world uuid4)) (\<lambda>resolved_id.
         let conversation = \<lparr>cv_conversation_id = resolved_id, cv_messages = [], cv_metadata = metadata,
               cv_created_at = now, cv_updated_at = now\<rparr>
         in and_then (modify (\<lambda>s. s\<lparr>ap_conversations := dict_set resolved_id conversation (ap_conversations s)\<rparr>))
              (\<lambda>_. ret conversation))))"

text \<open>\<open>append_message\<close> of a conversation the store has; otherwise a \<open>KeyError\<close>.\<close>

definition append_message ::
  "'e \<Rightarrow> string \<Rightarrow> string \<Rightarrow> string \<Rightarrow> payload \<Rightarrow> (ai_process, 'e, conversation_message) op" where
  "append_message key_error conversation_id role content metadata =
     and_then (in_graph (in_world utc_now)) (\<lambda>now.
     let message = \<lparr>cm_role = role, cm_content = content, cm_created_at = now, cm_metadata = metadata\<rparr> in
     and_then (gets (\<lambda>s. map_of (ap_conversations s) conversation_id)) (\<lambda>found.
     case found of
       None \<Rightarrow> raise key_error
     | Some conversation \<Rightarrow>
         and_then (modify (\<lambda>s. s\<lparr>ap_conversations := dict_set conversation_id
             (conversation\<lparr>cv_messages := cv_messages conversation @ [message], cv_updated_at := now\<rparr>)
             (ap_conversations s)\<rparr>)) (\<lambda>_. ret message)))"

section \<open>The service\<close>

datatype ai_error =
    AIProviderNotFoundError string
  | AIProviderUnavailableError string
  | AIProviderTimeoutError string
  | AIProviderRateLimitError string
  | AIProviderFailureError string
  | UnexpectedAIError

fun ai_http_error :: "ai_error \<Rightarrow> http_error" where
  "ai_http_error (AIProviderNotFoundError m) = HTTPException 404 m"
| "ai_http_error (AIProviderUnavailableError m) = HTTPException 503 m"
| "ai_http_error (AIProviderTimeoutError m) = HTTPException 504 m"
| "ai_http_error (AIProviderRateLimitError m) = HTTPException 429 m"
| "ai_http_error (AIProviderFailureError m) = HTTPException 502 m"
| "ai_http_error UnexpectedAIError = internal_server_error"

type_synonym 'a ai_op = "(ai_process, ai_error, 'a) op"

record ai_timing =
  at_context :: int
  at_provider :: int
  at_total :: int

record ai_explanation =
  ax_answer :: string
  ax_citations :: "citation list"
  ax_evidence :: "ai_evidence list"
  ax_provider :: provider_metadata
  ax_timing :: ai_timing
  ax_intent :: intent_classification
  ax_context :: ai_context

definition resolve_provider ::
  "ai_settings \<Rightarrow> (string \<times> llm_provider) list \<Rightarrow> string option \<Rightarrow> ai_error + llm_provider" where
  "resolve_provider settings providers provider_name =
     (if \<not> as_enabled settings then Inl (AIProviderUnavailableError ''AI is disabled by AI_ENABLED'')
      else
      (let resolved_name = lower (strip (case nonempty provider_name of
             None \<Rightarrow> as_provider settings | Some name \<Rightarrow> name))
       in case map_of providers resolved_name of
            None \<Rightarrow> Inl (AIProviderNotFoundError (''Unknown LLM provider: '' @ resolved_name))
          | Some provider \<Rightarrow>
              if \<not> pv_available (lp_metadata provider)
              then Inl (AIProviderUnavailableError (ph_health_message (lp_health provider)))
              else Inr provider))"

text \<open>What becomes of an exception of the provider, and the status that is counted.\<close>

fun provider_failure :: "provider_exn \<Rightarrow> string option \<times> ai_error" where
  "provider_failure (ProviderConfigurationError m) = (Some ''unavailable'', AIProviderUnavailableError m)"
| "provider_failure (ProviderUnavailableError m) = (Some ''unavailable'', AIProviderUnavailableError m)"
| "provider_failure (ProviderTimeoutError m) = (Some ''timeout'', AIProviderTimeoutError m)"
| "provider_failure (ProviderRateLimitError m) = (Some ''rate_limited'', AIProviderRateLimitError m)"
| "provider_failure (ProviderFailureError m) = (Some ''failed'', AIProviderFailureError m)"
| "provider_failure OtherProviderError = (None, UnexpectedAIError)"

definition record_ai_provider_result :: "string \<Rightarrow> string \<Rightarrow> int \<Rightarrow> (ai_process, 'e, unit) op" where
  "record_ai_provider_result provider_name status started =
     (let labels = Some [(''provider'', Some provider_name), (''status'', Some status)] in
      and_then (in_graph (in_world perf_counter)) (\<lambda>finished.
      and_then (in_graph (in_world (metric_increment ''accessiq_ai_provider_requests_total'' 1 labels
        (Some ''AI provider requests grouped by provider and status.'')))) (\<lambda>_.
      in_graph (in_world (metric_observe ''accessiq_ai_provider_duration_seconds'' (finished - started) labels
        (Some ''AI provider request duration in seconds.''))))))"

abbreviation ai_perf_counter :: "(ai_process, 'e, int) op" where
  "ai_perf_counter \<equiv> in_graph (in_world perf_counter)"

definition explain ::
  "ai_settings \<Rightarrow> (string \<times> llm_provider) list \<Rightarrow> authorization_graph \<Rightarrow> ai_context_request \<Rightarrow> string option \<Rightarrow>
   ai_explanation ai_op" where
  "explain settings providers g request provider_name =
     and_then ai_perf_counter (\<lambda>started.
     and_then (from_option UnexpectedAIError (assemble g request)) (\<lambda>context.
     and_then ai_perf_counter (\<lambda>context_at.
     let prompt = build_prompt context in
     case resolve_provider settings providers provider_name of
       Inl e \<Rightarrow> raise e
     | Inr provider \<Rightarrow>
         and_then ai_perf_counter (\<lambda>provider_started.
         case lp_generate provider prompt (as_timeout_seconds settings)
                (min (aq_max_tokens request) (as_max_tokens settings)) of
           Inl e \<Rightarrow>
             (case provider_failure e of
                (None, err) \<Rightarrow> raise err
              | (Some status, err) \<Rightarrow>
                  and_then (record_ai_provider_result (lp_name provider) status provider_started) (\<lambda>_. raise err))
         | Inr result \<Rightarrow>
             and_then ai_perf_counter (\<lambda>provider_at.
             and_then (record_ai_provider_result (lp_name provider) ''succeeded'' provider_started) (\<lambda>_.
             and_then ai_perf_counter (\<lambda>total_at.
             ret \<lparr>ax_answer = gr_answer result,
                  ax_citations = (if gr_citations result \<noteq> [] then gr_citations result else ac_citations context),
                  ax_evidence = ac_evidence context, ax_provider = lp_metadata provider,
                  ax_timing = \<lparr>at_context = context_at - started, at_provider = provider_at - provider_started,
                    at_total = total_at - started\<rparr>,
                  ax_intent = ac_intent context, ax_context = context\<rparr>)))))))"

record ai_chat_response =
  ar_conversation_id :: string
  ar_message :: conversation_message
  ar_explanation :: ai_explanation
  ar_conversation :: conversation

text \<open>
  The conversation of the answer is the object in the store: it is read again at the end.
\<close>

definition chat ::
  "ai_settings \<Rightarrow> (string \<times> llm_provider) list \<Rightarrow> authorization_graph \<Rightarrow> ai_context_request \<Rightarrow> string option \<Rightarrow>
   string option \<Rightarrow> ai_chat_response ai_op" where
  "chat settings providers g request provider_name conversation_id =
     and_then (get_or_create conversation_id
       [(''provider'', JStr (case nonempty provider_name of None \<Rightarrow> as_provider settings | Some name \<Rightarrow> name))])
       (\<lambda>conversation.
     and_then (append_message UnexpectedAIError (cv_conversation_id conversation) ''user'' (aq_question request)
       [(''intent_request'', JBool True)]) (\<lambda>_.
     and_then (explain settings providers g request provider_name) (\<lambda>explanation.
     and_then (append_message UnexpectedAIError (cv_conversation_id conversation) ''assistant''
       (ax_answer explanation)
       [(''provider'', JStr (pv_name (ax_provider explanation))),
        (''citation_count'', JInt (int (length (ax_citations explanation))))]) (\<lambda>assistant_message.
     and_then (gets (\<lambda>s. map_of (ap_conversations s) (cv_conversation_id conversation))) (\<lambda>stored.
     ret \<lparr>ar_conversation_id = cv_conversation_id conversation, ar_message = assistant_message,
          ar_explanation = explanation,
          ar_conversation = (case stored of None \<Rightarrow> conversation | Some c \<Rightarrow> c)\<rparr>)))))"

section \<open>Routes\<close>

type_synonym 'a ai_route = "(ai_process, http_error, 'a) op"

definition ai_gate :: "user \<Rightarrow> user ai_route" where
  "ai_gate current_user = in_graph (graph_gate current_user)"

text \<open>The gate, then the graph of the query engine, then the answer.\<close>

definition ai_route :: "user \<Rightarrow> (authorization_graph \<Rightarrow> 'a ai_route) \<Rightarrow> 'a ai_route" where
  "ai_route current_user answer =
     and_then (ai_gate current_user) (\<lambda>_. and_then (in_graph cache_load) answer)"

definition with_ai_errors :: "'a ai_op \<Rightarrow> 'a ai_route" where
  "with_ai_errors m = (\<lambda>s. case m s of (Inl e, t) \<Rightarrow> (Inl (ai_http_error e), t) | (Inr x, t) \<Rightarrow> (Inr x, t))"

definition assemble_context_route :: "ai_context_request \<Rightarrow> user \<Rightarrow> ai_context ai_route" where
  "assemble_context_route request current_user =
     ai_route current_user (\<lambda>g. from_option internal_server_error (assemble g request))"

record ai_evidence_response =
  ae_question :: string
  ae_intent :: intent_classification
  ae_evidence :: "ai_evidence list"
  ae_citations :: "citation list"
  ae_token_budget :: token_budget

definition assemble_evidence_route :: "ai_context_request \<Rightarrow> user \<Rightarrow> ai_evidence_response ai_route" where
  "assemble_evidence_route request current_user =
     and_then (assemble_context_route request current_user) (\<lambda>context.
     ret \<lparr>ae_question = ac_question context, ae_intent = ac_intent context, ae_evidence = ac_evidence context,
          ae_citations = ac_citations context, ae_token_budget = ac_token_budget context\<rparr>)"

record ai_prompt_response =
  ap_question :: string
  ap_intent :: intent_classification
  ap_context :: ai_context
  ap_prompt :: structured_prompt

definition assemble_prompt_route :: "ai_context_request \<Rightarrow> user \<Rightarrow> ai_prompt_response ai_route" where
  "assemble_prompt_route request current_user =
     and_then (assemble_context_route request current_user) (\<lambda>context.
     ret \<lparr>ap_question = ac_question context, ap_intent = ac_intent context, ap_context = context,
          ap_prompt = build_prompt context\<rparr>)"

definition explain_route ::
  "transport \<Rightarrow> ai_settings \<Rightarrow> ai_context_request \<Rightarrow> string option \<Rightarrow> user \<Rightarrow> ai_explanation ai_route" where
  "explain_route post settings request provider_name current_user =
     ai_route current_user (\<lambda>g.
       with_ai_errors (explain settings (build_provider_registry post settings) g request provider_name))"

definition chat_route ::
  "transport \<Rightarrow> ai_settings \<Rightarrow> ai_context_request \<Rightarrow> string option \<Rightarrow> string option \<Rightarrow> user \<Rightarrow>
   ai_chat_response ai_route" where
  "chat_route post settings request provider_name conversation_id current_user =
     ai_route current_user (\<lambda>g.
       with_ai_errors (chat settings (build_provider_registry post settings) g request provider_name conversation_id))"

definition list_providers_route :: "transport \<Rightarrow> ai_settings \<Rightarrow> user \<Rightarrow> (string \<times> bool \<times> provider_health list) ai_route" where
  "list_providers_route post settings current_user =
     and_then (ai_gate current_user) (\<lambda>_.
     ret (as_provider settings, as_enabled settings,
       map lp_health (sort_key lp_name (map snd (build_provider_registry post settings)))))"

end
