(* ===== verification/GraphTruth.thy ===== *)
theory GraphTruth
  imports GraphQueries
begin

text \<open>
  The graph tells the truth about the tables it was built from: what a query of the graph
  returns is computed here a second time, from the tables alone.
\<close>

section \<open>Outgoing edges and the tables\<close>

text \<open>The edges of one type that leave a node, as the loops over the tables specified them.\<close>

definition specs_from :: "db \<Rightarrow> string \<Rightarrow> edge_type \<Rightarrow> edge_spec list" where
  "specs_from d source ty = filter (\<lambda>e. es_source e = source \<and> es_type e = ty) (all_edges d)"

lemma mset_outgoing:
  assumes "wf_graph g"
  shows "mset (outgoing g k (Some ty)) = mset (filter (\<lambda>e. ge_source e = k \<and> ge_type e = ty) (ag_edges g))"
proof -
  have "dict_get [] (ag_outgoing g) k = filter (\<lambda>e. ge_source e = k) (ag_edges g)" using assms by (simp add: wf_graph_def)
  then show ?thesis by (simp add: outgoing_def of_type_def conj_commute)
qed

lemma outgoing_specs:
  "image_mset spec_of (mset (outgoing (build_authorization_graph d registry) k (Some ty))) =
     mset (filter (joins (node_graph d registry)) (specs_from d k ty))"
proof -
  let ?g = "build_authorization_graph d registry"
  have "map spec_of (filter (\<lambda>e. ge_source e = k \<and> ge_type e = ty) (ag_edges ?g)) =
      filter (\<lambda>e. es_source e = k \<and> es_type e = ty) (map spec_of (ag_edges ?g))"
    by (simp add: filter_map o_def)
  then have "map spec_of (filter (\<lambda>e. ge_source e = k \<and> ge_type e = ty) (ag_edges ?g)) =
      filter (joins (node_graph d registry)) (specs_from d k ty)"
    by (simp add: built_edges specs_from_def filter_filter conj_commute)
  then show ?thesis unfolding mset_outgoing [OF wf_built] by (metis mset_map)
qed

lemma filter_concat_map: "filter P (concat (map f xs)) = concat (map (\<lambda>x. filter P (f x)) xs)"
  by (induction xs) simp_all

lemma concat_map_Nil: "(\<And>x. x \<in> set xs \<Longrightarrow> f x = []) \<Longrightarrow> concat (map f xs) = []"
  by (induction xs) simp_all

lemma concat_Nil: "concat (map (\<lambda>_. []) xs) = []"
  by (induction xs) simp_all

section \<open>Entitlements\<close>

text \<open>What the tables say a user holds: one entry for each access row.\<close>

definition held_entitlements :: "db \<Rightarrow> int \<Rightarrow> entitlement list" where
  "held_entitlements d i = concat (map (\<lambda>a.
     if aa_user_id a = i then filter (\<lambda>e. ent_id e = aa_entitlement_id a) (db_entitlements d) else []) (db_access d))"

lemma entitlement_specs:
  "specs_from d k HAS_ENTITLEMENT =
     filter (\<lambda>e. es_source e = k) (concat (map access_edges (sort_key aa_id (db_access d))))"
proof -
  have access: "filter (\<lambda>e. es_source e = k \<and> es_type e = HAS_ENTITLEMENT) (access_edges a) =
      filter (\<lambda>e. es_source e = k) (access_edges a)" for a
    by (simp add: access_edges_def)
  have none: "filter (\<lambda>e. es_source e = k \<and> es_type e = HAS_ENTITLEMENT) (entitlement_edges en) = []"
    "filter (\<lambda>e. es_source e = k \<and> es_type e = HAS_ENTITLEMENT) (membership_edges m) = []"
    "filter (\<lambda>e. es_source e = k \<and> es_type e = HAS_ENTITLEMENT) (profile_edges p) = []"
    "filter (\<lambda>e. es_source e = k \<and> es_type e = HAS_ENTITLEMENT) (delegation_edges da) = []"
    "filter (\<lambda>e. es_source e = k \<and> es_type e = HAS_ENTITLEMENT) (campaign_edges c) = []"
    "filter (\<lambda>e. es_source e = k \<and> es_type e = HAS_ENTITLEMENT) (item_edges i) = []"
    "filter (\<lambda>e. es_source e = k \<and> es_type e = HAS_ENTITLEMENT) (job_edges j) = []"
    "filter (\<lambda>e. es_source e = k \<and> es_type e = HAS_ENTITLEMENT) (history_edges h) = []"
    "filter (\<lambda>e. es_source e = k \<and> es_type e = HAS_ENTITLEMENT) (remediation_edges rj) = []"
    "filter (\<lambda>e. es_source e = k \<and> es_type e = HAS_ENTITLEMENT) (audit_edges ae) = []"
    for en m p da c i j h rj ae
    by (simp_all add: edge_definitions split: option.split)
  show ?thesis by (simp add: specs_from_def all_edges_def filter_concat_map none access concat_Nil)
qed

lemma map_filter_mset: "mset (List.map_filter f xs) = image_mset (\<lambda>x. the (f x)) (filter_mset (\<lambda>x. f x \<noteq> None) (mset xs))"
  by (simp add: List.map_filter_def o_def)

lemma targets_mset:
  "mset (targets (build_authorization_graph d registry) i ty) =
     mset (List.map_filter (\<lambda>e. get_node (node_graph d registry) (es_target e))
       (filter (joins (node_graph d registry)) (specs_from d (key_id USER i) ty)))"
proof -
  let ?g = "build_authorization_graph d registry" and ?h = "node_graph d registry"
  let ?f = "\<lambda>e. get_node ?h (es_target e)"
  have "mset (targets ?g i ty) =
      image_mset (\<lambda>x. the (?f x)) (filter_mset (\<lambda>x. ?f x \<noteq> None)
        (image_mset spec_of (mset (outgoing ?g (key_id USER i) (Some ty)))))"
    unfolding targets_def map_filter_mset built_nodes
    by (simp add: filter_mset_image_mset image_mset.compositionality o_def)
  then show ?thesis by (simp only: outgoing_specs map_filter_mset)
qed

lemma user_known: "get_node (node_graph d registry) (key_id USER i) \<noteq> None \<longleftrightarrow> i \<in> u_id ` set (db_users d)"
proof -
  have "get_node (node_graph d registry) (key_id USER i) \<noteq> None \<longleftrightarrow>
      (\<exists>n. n \<in> set (all_nodes d registry) \<and> gn_id n = key_id USER i)"
    unfolding node_graph_known by (auto simp: image_iff) (metis)
  then show ?thesis unfolding user_nodes by auto
qed

lemma entitlement_known:
  "get_node (node_graph d registry) (key_id ENTITLEMENT i) \<noteq> None \<longleftrightarrow> i \<in> ent_id ` set (db_entitlements d)"
proof -
  have "get_node (node_graph d registry) (key_id ENTITLEMENT i) \<noteq> None \<longleftrightarrow>
      (\<exists>n. n \<in> set (all_nodes d registry) \<and> gn_id n = key_id ENTITLEMENT i)"
    unfolding node_graph_known by (auto simp: image_iff) (metis)
  then show ?thesis unfolding entitlement_nodes by auto
qed

lemma user_found:
  assumes "distinct (map u_id (db_users d))" and "u \<in> set (db_users d)"
  shows "get_node (node_graph d registry) (key_id USER (u_id u)) = Some (user_node u)"
proof -
  from assms(2) obtain n where n: "get_node (node_graph d registry) (key_id USER (u_id u)) = Some n"
    using user_known [of d registry "u_id u"] by auto
  from node_graph_SomeD [OF n] obtain v where "v \<in> set (db_users d)" "u_id v = u_id u" "n = user_node v"
    unfolding user_nodes by auto
  with assms n show ?thesis by (metis distinct_map inj_onD)
qed

lemma entitlement_found:
  assumes "distinct (map ent_id (db_entitlements d))" and "e \<in> set (db_entitlements d)"
  shows "get_node (node_graph d registry) (key_id ENTITLEMENT (ent_id e)) = Some (entitlement_node e)"
proof -
  from assms(2) obtain n where n: "get_node (node_graph d registry) (key_id ENTITLEMENT (ent_id e)) = Some n"
    using entitlement_known [of d registry "ent_id e"] by auto
  from node_graph_SomeD [OF n] obtain v where "v \<in> set (db_entitlements d)" "ent_id v = ent_id e" "n = entitlement_node v"
    unfolding entitlement_nodes by auto
  with assms n show ?thesis by (metis distinct_map inj_onD)
qed

text \<open>One access row: its edge, followed to its target.\<close>

lemma filter_key:
  assumes "distinct (map k rows)" and "r \<in> set rows"
  shows "filter (\<lambda>x. k x = k r) rows = [r]"
  using assms by (induction rows) (auto simp: filter_empty_conv image_iff)

lemma access_row_target:
  assumes "distinct (map ent_id (db_entitlements d))" and "i \<in> u_id ` set (db_users d)"
  shows "List.map_filter (\<lambda>e. get_node (node_graph d registry) (es_target e))
      (filter (joins (node_graph d registry)) (filter (\<lambda>e. es_source e = key_id USER i) (access_edges a))) =
    map entitlement_node (if aa_user_id a = i then filter (\<lambda>e. ent_id e = aa_entitlement_id a) (db_entitlements d) else [])"
proof (cases "aa_user_id a = i \<and> aa_entitlement_id a \<in> ent_id ` set (db_entitlements d)")
  case True
  then obtain e where e: "e \<in> set (db_entitlements d)" "aa_entitlement_id a = ent_id e" by auto
  with True assms show ?thesis
    using user_known [of d registry i]
    by (simp add: access_edges_def joins_def entitlement_found filter_key List.map_filter_def)
next
  case False
  then have "\<not> joins (node_graph d registry) (hd (access_edges a)) \<or> aa_user_id a \<noteq> i"
    using entitlement_known [of d registry "aa_entitlement_id a"] by (auto simp: joins_def access_edges_def)
  moreover have "filter (\<lambda>e. ent_id e = aa_entitlement_id a) (db_entitlements d) = [] \<or> aa_user_id a \<noteq> i"
    using False by (auto simp: filter_empty_conv image_iff)
  ultimately show ?thesis by (auto simp: access_edges_def List.map_filter_def)
qed

lemma map_filter_concat: "List.map_filter f (concat xss) = concat (map (List.map_filter f) xss)"
  by (induction xss) (simp_all add: List.map_filter_def)

lemma mset_concat_sort: "mset (concat (map f (sort_key k xs))) = mset (concat (map f xs))"
proof -
  have "mset (map (mset \<circ> f) (sort_key k xs)) = mset (map (mset \<circ> f) xs)" by (simp only: mset_map mset_sort)
  then show ?thesis by (metis mset_concat map_map sum_mset_sum_list)
qed

lemma find_entitlements_exact:
  assumes "distinct (map ent_id (db_entitlements d))" and "i \<in> u_id ` set (db_users d)"
  shows "mset (find_entitlements (build_authorization_graph d registry) i) =
     mset (map entitlement_node (held_entitlements d i))"
proof -
  let ?h = "node_graph d registry"
  have "List.map_filter (\<lambda>e. get_node ?h (es_target e)) (filter (joins ?h) (specs_from d (key_id USER i) HAS_ENTITLEMENT)) =
      concat (map (\<lambda>a. map entitlement_node
        (if aa_user_id a = i then filter (\<lambda>e. ent_id e = aa_entitlement_id a) (db_entitlements d) else []))
        (sort_key aa_id (db_access d)))"
    unfolding entitlement_specs filter_concat_map map_filter_concat map_map
    by (simp only: o_def access_row_target [OF assms])
  then show ?thesis
    unfolding find_entitlements_def targets_mset
    by (simp only: mset_concat_sort held_entitlements_def map_concat map_map o_def)
qed

section \<open>The access of a user\<close>

definition direct_path :: "string \<Rightarrow> graph_node \<Rightarrow> graph_path \<Rightarrow> bool" where
  "direct_path source n p \<longleftrightarrow> gp_found p \<and>
     (case gp_edges p of [e] \<Rightarrow> ge_type e = HAS_ENTITLEMENT \<and> ge_source e = source \<and> ge_target e = gn_id n | _ \<Rightarrow> False)"

lemma entitlement_edge_types:
  assumes "edge_typed g e" and "get_node g (ge_source e) = Some a" and "get_node g (ge_target e) = Some b"
  shows "(gn_type a, gn_type b) \<in> set (edge_signature (ge_type e))"
  using assms by (simp add: edge_typed_def)

lemma user_entitlement_signature:
  "(USER, ENTITLEMENT) \<in> set (edge_signature ty) \<longleftrightarrow> ty = HAS_ENTITLEMENT"
  "(ENTITLEMENT, USER) \<notin> set (edge_signature ty)"
  by (cases ty; simp)+

lemma target_edge:
  assumes "n \<in> set (targets g i ty)" and "wf_graph g"
  shows "\<exists>e \<in> set (ag_edges g). ge_source e = key_id USER i \<and> ge_type e = ty \<and> get_node g (ge_target e) = Some n"
proof -
  from assms(1) obtain e where e: "e \<in> set (outgoing g (key_id USER i) (Some ty))" "get_node g (ge_target e) = Some n"
    by (auto simp: targets_def List.map_filter_def)
  from mset_eq_setD [OF mset_outgoing [OF assms(2), of "key_id USER i" ty]] e show ?thesis by auto
qed

lemma entitlement_target:
  assumes "n \<in> set (find_entitlements (build_authorization_graph d registry) i)"
  shows "\<exists>x e. e \<in> set (ag_edges (build_authorization_graph d registry)) \<and> ge_source e = key_id USER i \<and>
     ge_type e = HAS_ENTITLEMENT \<and> ge_target e = key_id ENTITLEMENT (ent_id x) \<and> n = entitlement_node x \<and>
     get_node (build_authorization_graph d registry) (ge_target e) = Some n"
proof -
  let ?g = "build_authorization_graph d registry"
  from target_edge [OF assms [unfolded find_entitlements_def] wf_built] obtain e where
    e: "e \<in> set (ag_edges ?g)" "ge_source e = key_id USER i" "ge_type e = HAS_ENTITLEMENT"
      "get_node ?g (ge_target e) = Some n" by blast
  from built_edge_typed [OF e(1)] e(3,4) have "gn_type n = ENTITLEMENT"
    by (auto simp: edge_typed_def split: option.splits)
  from e(4) have n: "n \<in> set (all_nodes d registry)" "gn_id n = ge_target e"
    by (auto simp: built_nodes dest: node_graph_SomeD)
  from n(1) \<open>gn_type n = ENTITLEMENT\<close> obtain x where "n = entitlement_node x"
    by (auto simp: all_nodes_def rows_of_def node_definitions)
  moreover from this n(2) have "ge_target e = key_id ENTITLEMENT (ent_id x)" by (simp add: entitlement_node_def)
  ultimately show ?thesis using e by blast
qed

lemma entitlement_path_direct:
  assumes "n \<in> set (find_entitlements (build_authorization_graph d registry) i)"
  shows "\<exists>p. entitlement_path (build_authorization_graph d registry) i n = Some p \<and> direct_path (key_id USER i) n p"
proof -
  let ?g = "build_authorization_graph d registry" and ?s = "key_id USER i"
  from entitlement_target [OF assms] obtain x e where e: "e \<in> set (ag_edges ?g)" "ge_source e = ?s"
    "ge_target e = key_id ENTITLEMENT (ent_id x)" "n = entitlement_node x" "get_node ?g (ge_target e) = Some n" by blast
  let ?t = "key_id ENTITLEMENT (ent_id x)"
  from e(1,2) wf_built [of d registry] obtain m where m: "get_node ?g ?s = Some m" by (auto simp: wf_graph_def)
  from shortest_path_result [OF wf_built, of d registry ?s ?t] e m obtain p where
    p: "shortest_path ?g ?s ?t = Some p" "gp_found p \<longleftrightarrow> (\<exists>es. trail ?g ?s es ?t)"
      "gp_found p \<Longrightarrow> trail ?g ?s (gp_edges p) ?t \<and> (\<forall>es. trail ?g ?s es ?t \<longrightarrow> length (gp_edges p) \<le> length es)"
    by (auto split: if_splits)
  have one: "trail ?g ?s [e] ?t" using e by (simp add: neighbor_def)
  with p(2) have found: "gp_found p" by blast
  with p(3) have tr: "trail ?g ?s (gp_edges p) ?t" and "length (gp_edges p) \<le> length [e]" using one by blast+
  then obtain y where y: "gp_edges p = [y]" by (cases "gp_edges p") auto
  with tr have yg: "y \<in> set (ag_edges ?g)" and ends: "ge_source y = ?s \<and> ge_target y = ?t \<or> ge_source y = ?t \<and> ge_target y = ?s"
    by (auto simp: neighbor_def split: if_splits)
  have types: "gn_type m = USER" "gn_type n = ENTITLEMENT"
    using m e(3,5) by (auto simp: built_nodes dest: node_of_type)
  from built_edge_typed [OF yg] ends e(3,5) m types
  have "ge_source y = ?s \<and> ge_target y = ?t \<and> ge_type y = HAS_ENTITLEMENT"
    by (auto simp: edge_typed_def user_entitlement_signature)
  then have "direct_path ?s n p" using y found e(4) by (simp add: direct_path_def entitlement_node_def)
  moreover have "entitlement_path ?g i n = Some p"
    using p(1) e(4) by (simp add: entitlement_path_def entitlement_node_def find_access_path_def query_shortest_path_def py_str_def)
  ultimately show ?thesis by blast
qed

lemma those_map_Some:
  "(\<And>x. x \<in> set xs \<Longrightarrow> \<exists>y. f x = Some y \<and> P x y) \<Longrightarrow> \<exists>ys. those (map f xs) = Some ys \<and> list_all2 P xs ys"
proof (induction xs)
  case (Cons x xs)
  then obtain y ys where "f x = Some y" "P x y" "those (map f xs) = Some ys" "list_all2 P xs ys" by force
  then show ?case by simp
qed simp

lemma user_access_exact:
  "(case find_user_node (build_authorization_graph d registry) i of
      None \<Rightarrow> user_access (build_authorization_graph d registry) i = Some None
    | Some n \<Rightarrow> (\<exists>r. user_access (build_authorization_graph d registry) i = Some (Some r) \<and> ua_user r = n \<and>
        ua_entitlements r = find_entitlements (build_authorization_graph d registry) i \<and>
        list_all2 (direct_path (key_id USER i)) (ua_entitlements r) (ua_paths r)))"
proof (cases "find_user_node (build_authorization_graph d registry) i")
  case None
  then show ?thesis by (simp add: user_access_def)
next
  case (Some n)
  have "\<And>x. x \<in> set (find_entitlements (build_authorization_graph d registry) i) \<Longrightarrow>
      \<exists>p. entitlement_path (build_authorization_graph d registry) i x = Some p \<and> direct_path (key_id USER i) x p"
    by (rule entitlement_path_direct)
  from those_map_Some [where P = "direct_path (key_id USER i)", OF this] obtain ps where
    "those (map (entitlement_path (build_authorization_graph d registry) i)
       (find_entitlements (build_authorization_graph d registry) i)) = Some ps"
    "list_all2 (direct_path (key_id USER i)) (find_entitlements (build_authorization_graph d registry) i) ps" by blast
  with Some show ?thesis by (simp add: user_access_def Let_def)
qed

section \<open>The managers above a user\<close>

definition manager_of :: "db \<Rightarrow> int \<Rightarrow> int option" where
  "manager_of d i = (case profile_of d i of None \<Rightarrow> None | Some p \<Rightarrow> ep_manager_id p)"

fun reports_up :: "db \<Rightarrow> int \<Rightarrow> int list \<Rightarrow> bool" where
  "reports_up d i [] \<longleftrightarrow> manager_of d i = None"
| "reports_up d i (m # ms) \<longleftrightarrow> manager_of d i = Some m \<and> reports_up d m ms"

lemma manager_of_iff: "wf_profiles d \<Longrightarrow> manager_of d i = Some m \<longleftrightarrow> (i, m) \<in> manager_edges d"
  by (auto simp: manager_edges_iff manager_of_def split: option.splits)

definition manager_spec :: "int \<Rightarrow> enterprise_user_profile \<Rightarrow> edge_spec list" where
  "manager_spec i p = (if ep_user_id p = i then filter (\<lambda>e. es_type e = MANAGED_BY) (profile_edges p) else [])"

lemma manager_specs:
  "specs_from d (key_id USER i) MANAGED_BY = concat (map (manager_spec i) (sort_key ep_id (db_profiles d)))"
proof -
  let ?P = "\<lambda>e. es_source e = key_id USER i \<and> es_type e = MANAGED_BY"
  have profile: "filter ?P (profile_edges p) = manager_spec i p" for p
    by (simp add: profile_edges_def manager_spec_def split: option.split)
  have none: "filter ?P (entitlement_edges en) = []" "filter ?P (membership_edges m) = []"
    "filter ?P (access_edges a) = []" "filter ?P (delegation_edges da) = []" "filter ?P (campaign_edges c) = []"
    "filter ?P (item_edges it) = []" "filter ?P (job_edges j) = []" "filter ?P (history_edges h) = []"
    "filter ?P (remediation_edges rj) = []" "filter ?P (audit_edges ae) = []"
    for en m a da c it j h rj ae
    by (simp_all add: edge_definitions split: option.split)
  show ?thesis by (simp add: specs_from_def all_edges_def filter_concat_map none profile concat_Nil)
qed

lemma concat_map_single:
  assumes "distinct (map k rows)" and "\<And>r. k r \<noteq> i \<Longrightarrow> f r = []"
  shows "mset (concat (map f rows)) = (case row_by k i rows of None \<Rightarrow> {#} | Some r \<Rightarrow> mset (f r))"
  using assms(1)
proof (induction rows)
  case (Cons r rows)
  show ?case
  proof (cases "k r = i")
    case True
    with Cons.prems have "concat (map f rows) = []" by (intro concat_map_Nil assms(2)) (auto simp: image_iff)
    with True show ?thesis by (simp add: row_by_def)
  next
    case False
    with Cons assms(2) show ?thesis by (simp add: row_by_def)
  qed
qed (simp add: row_by_def)

lemma manager_edge:
  assumes wf: "wf_profiles d"
  shows "case outgoing (build_authorization_graph d registry) (key_id USER i) (Some MANAGED_BY) of
      [] \<Rightarrow> manager_of d i = None
    | e # _ \<Rightarrow> (\<exists>m. manager_of d i = Some m \<and> ge_target e = key_id USER m)"
proof -
  let ?h = "node_graph d registry"
  let ?out = "outgoing (build_authorization_graph d registry) (key_id USER i) (Some MANAGED_BY)"
  have "mset (specs_from d (key_id USER i) MANAGED_BY) =
      (case profile_of d i of None \<Rightarrow> {#} | Some p \<Rightarrow> mset (manager_spec i p))"
    using concat_map_single [of ep_user_id "db_profiles d" i "manager_spec i"] wf
    by (simp add: manager_specs mset_concat_sort profile_of_row wf_profiles_def manager_spec_def)
  then have out: "image_mset spec_of (mset ?out) =
      (case profile_of d i of None \<Rightarrow> {#} | Some p \<Rightarrow> filter_mset (joins ?h) (mset (manager_spec i p)))"
    by (simp add: outgoing_specs split: option.splits)
  show ?thesis
  proof (cases "manager_of d i")
    case None
    then have "image_mset spec_of (mset ?out) = {#}"
      unfolding out by (auto simp: manager_of_def manager_spec_def profile_edges_def split: option.splits)
    with None show ?thesis by simp
  next
    case (Some m)
    then obtain p where p: "profile_of d i = Some p" "ep_manager_id p = Some m"
      by (auto simp: manager_of_def split: option.splits)
    from profile_of_Some [OF p(1)] have row: "p \<in> set (db_profiles d)" "ep_user_id p = i" by simp_all
    with wf p(2) have users: "i \<in> u_id ` set (db_users d)" "m \<in> u_id ` set (db_users d)"
      by (auto simp: wf_profiles_def)
    let ?spec = "edge_between (key_id USER i) (key_id USER m) MANAGED_BY
        ''User is managed by user'' (''/scim/v2/Users/'' @ str_int i)
        [(''enterprise_profile_id'', JInt (ep_id p))] (Some (ep_updated_at p)) None"
    have "image_mset spec_of (mset ?out) = {#?spec#}"
      unfolding out using p row users user_known [of d registry]
      by (simp add: manager_spec_def profile_edges_def joins_def)
    then have "map spec_of ?out = [?spec]"
      unfolding mset_map [symmetric] by (simp only: mset_single_iff)
    then obtain e where e: "?out = [e]" "spec_of e = ?spec" by blast
    from arg_cong [OF e(2), of es_target] have "ge_target e = key_id USER m" by simp
    with Some e(1) show ?thesis by simp
  qed
qed

lemma manager_chain_reports:
  assumes wf: "wf_profiles d"
    and seen: "\<And>k. k \<in> set seen \<Longrightarrow> \<exists>j. k = key_id USER j \<and> (j, i) \<in> (manager_edges d)\<^sup>*"
  shows "\<exists>us. reports_up d i (map u_id us) \<and> set us \<subseteq> set (db_users d) \<and>
     manager_chain (build_authorization_graph d registry) (key_id USER i) seen = map user_node us"
  using seen
proof (induction "build_authorization_graph d registry" "key_id USER i" seen arbitrary: i rule: manager_chain.induct)
  case (1 seen)
  let ?g = "build_authorization_graph d registry"
  show ?case
  proof (cases "outgoing ?g (key_id USER i) (Some MANAGED_BY)")
    case Nil
    with manager_edge [OF wf, where registry = registry and i = i] have "reports_up d i (map u_id [])" by simp
    moreover have "manager_chain ?g (key_id USER i) seen = map user_node []"
      using Nil by (simp add: manager_chain.simps)
    ultimately show ?thesis by (metis empty_set empty_subsetI)
  next
    case (Cons e es)
    with manager_edge [OF wf, where registry = registry and i = i] obtain m where m: "manager_of d i = Some m" "ge_target e = key_id USER m"
      by auto
    then have edge: "(i, m) \<in> manager_edges d" using wf by (simp add: manager_of_iff)
    have fresh: "key_id USER m \<notin> set seen"
    proof
      assume "key_id USER m \<in> set seen"
      from "1.prems" [OF this] have "(m, i) \<in> (manager_edges d)\<^sup>*" by auto
      with edge have "(i, i) \<in> (manager_edges d)\<^sup>+" by (rule rtrancl_into_trancl2)
      with wf show False by (simp add: wf_profiles_def acyclic_def)
    qed
    from m(1) obtain p where p: "profile_of d i = Some p" "ep_manager_id p = Some m"
      by (auto simp: manager_of_def split: option.splits)
    from wf_managerE [OF wf p] obtain u where u: "u_id u = m" "u \<in> set (db_users d)" by metis
    have node: "get_node ?g (ge_target e) = Some (user_node u)"
      using user_found [of d u registry] wf u m(2) by (simp add: built_nodes wf_profiles_def)
    have "\<exists>j. k = key_id USER j \<and> (j, m) \<in> (manager_edges d)\<^sup>*" if "k \<in> set (ge_target e # seen)" for k
      using that m(2) "1.prems" [of k] edge by (auto intro: rtrancl_into_rtrancl)
    with "1.hyps" [OF Cons _ node m(2)] fresh m(2) obtain us where
      us: "reports_up d m (map u_id us)" "set us \<subseteq> set (db_users d)"
        "manager_chain ?g (ge_target e) (ge_target e # seen) = map user_node us" by auto
    have "manager_chain ?g (key_id USER i) seen = map user_node (u # us)"
      using Cons node fresh m(2) us(3) by (subst manager_chain.simps) simp
    moreover have "reports_up d i (map u_id (u # us))" using us(1) u(1) m(1) by simp
    ultimately show ?thesis using us(2) u(2) by (metis insert_subset list.simps(15))
  qed
qed

text \<open>
  C23. In a well-formed directory the manager chain the graph reports is the chain of the tables:
  the manager of the user, the manager of that manager, and so on, each as the node of its row,
  until somebody has no manager.  The check for repeated nodes never cuts it short.
\<close>

theorem manager_chain_exact:
  assumes "wf_profiles d"
  shows "\<exists>us. reports_up d i (map u_id us) \<and> set us \<subseteq> set (db_users d) \<and>
     find_manager_chain (build_authorization_graph d registry) i = map user_node us"
  unfolding find_manager_chain_def by (rule manager_chain_reports [OF assms]) auto

definition sample_line :: db where
  "sample_line = sample_db\<lparr>db_profiles := [\<lparr>ep_id = 1, ep_user_id = 4, ep_employee_number = None, ep_department = None,
     ep_division = None, ep_cost_center = None, ep_organization = None, ep_manager_id = Some 2, ep_created_at = 0,
     ep_updated_at = 0\<rparr>]\<rparr>"

lemma sample_line_wf: "wf_profiles sample_line"
proof -
  have "manager_edges sample_line = insert (4, 2) {}" by (auto simp: manager_edges_def sample_line_def)
  then have "acyclic (manager_edges sample_line)" by (simp only: acyclic_insert) (simp add: acyclic_def)
  then show ?thesis
    by (simp add: wf_profiles_def sample_line_def sample_db_def sample_user_def unique_names_def same_name_def)
qed

theorem manager_chain_exact_witness:
  "find_manager_chain (build_authorization_graph sample_line []) 4 = [user_node ann]"
proof -
  from manager_chain_exact [OF sample_line_wf, of 4 "[]"] obtain us where us: "reports_up sample_line 4 (map u_id us)"
    "set us \<subseteq> set (db_users sample_line)" "find_manager_chain (build_authorization_graph sample_line []) 4 = map user_node us"
    by blast
  have up: "manager_of sample_line 4 = Some 2" "manager_of sample_line 2 = None"
    by (simp_all add: manager_of_def profile_of_def sample_line_def)
  from us(1) up obtain u where "us = [u]" "u_id u = 2"
    by (cases us; cases "tl us") (auto split: if_splits)
  moreover from this us(2) have "u = ann" by (auto simp: sample_line_def sample_db_def sample_user_def)
  ultimately show ?thesis using us(3) by simp
qed

section \<open>The process\<close>

definition may_read_graph :: "user \<Rightarrow> bool" where
  "may_read_graph u \<longleftrightarrow> normalize_operator_role (u_operator_role u) \<in> set GRAPH_ROLES"

lemma graph_gate_result:
  assumes "graph_gate u s = (r, t)"
  shows "gp_cache t = gp_cache s \<and> w_db (gp_world t) = w_db (gp_world s) \<and>
     w_published (gp_world t) = w_published (gp_world s) \<and> w_connectors (gp_world t) = w_connectors (gp_world s) \<and>
     r = (if may_read_graph u then Inr u else Inl forbidden_exception)"
proof -
  have roles: "require_roles GRAPH_ROLES = Inr GRAPH_ROLES"
    "normalize_operator_role ` set GRAPH_ROLES = set GRAPH_ROLES" by code_simp+
  have "keeps (same w_connectors) (role_dependency GRAPH_ROLES u)"
    by (auto simp: role_dependency_def record_rbac_denial_def intro!: op_intro split: sum.split)
  then have "w_connectors (snd (role_dependency GRAPH_ROLES u w)) = w_connectors w" for w
    by (metis keeps_same_result prod.collapse)
  moreover from assms have "r = fst (role_dependency GRAPH_ROLES u (gp_world s))"
    "t = s\<lparr>gp_world := snd (role_dependency GRAPH_ROLES u (gp_world s))\<rparr>"
    by (auto simp: graph_gate_def in_world_def require_roles_gate_def roles(1) split: prod.splits)
  ultimately show ?thesis
    using role_dependency_result [OF roles(1), of u "gp_world s"] by (simp add: may_read_graph_def roles(2))
qed

definition built_from :: "world \<Rightarrow> authorization_graph" where
  "built_from w = build_authorization_graph (w_db w) (w_connectors w)"

lemma refresh_locked_result:
  "refresh_locked s = (r, t) \<Longrightarrow> r = Inr (built_from (gp_world s)) \<and>
     gc_graph (gp_cache t) = Some (built_from (gp_world s)) \<and> gc_valid (gp_cache t) \<and>
     w_db (gp_world t) = w_db (gp_world s) \<and> w_published (gp_world t) = w_published (gp_world s)"
  by (auto simp: refresh_locked_def run_ops in_world_def utc_now_def built_from_def)

lemma cache_load_result:
  "cache_load s = (r, t) \<Longrightarrow> \<exists>g. r = Inr g \<and> gc_graph (gp_cache t) = Some g \<and>
     (gc_graph (gp_cache s) = Some g \<and> gc_valid (gp_cache s) \<and> t = s \<or>
      \<not> (gc_graph (gp_cache s) \<noteq> None \<and> gc_valid (gp_cache s)) \<and> g = built_from (gp_world s)) \<and>
     w_db (gp_world t) = w_db (gp_world s) \<and> w_published (gp_world t) = w_published (gp_world s)"
  by (auto simp: cache_load_def run_ops split: option.splits if_splits dest!: refresh_locked_result)

lemma graph_reading_result:
  assumes "graph_reading u answer s = (r, t)"
  shows "w_db (gp_world t) = w_db (gp_world s) \<and> w_published (gp_world t) = w_published (gp_world s) \<and>
     (if may_read_graph u
      then \<exists>g. gc_graph (gp_cache t) = Some g \<and> r = answer g \<and>
        (if gc_valid (gp_cache s) \<and> gc_graph (gp_cache s) \<noteq> None
         then gc_graph (gp_cache s) = Some g \<and> gp_cache t = gp_cache s
         else \<exists>registry. g = build_authorization_graph (w_db (gp_world s)) registry)
      else r = Inl forbidden_exception \<and> gp_cache t = gp_cache s)"
proof -
  obtain r1 s1 where gate: "graph_gate u s = (r1, s1)" by fastforce
  obtain r2 s2 where load: "cache_load s1 = (r2 :: http_error + authorization_graph, s2)" by fastforce
  note g = graph_gate_result [OF gate]
  from cache_load_result [OF load] obtain gr where l: "r2 = Inr gr" "gc_graph (gp_cache s2) = Some gr"
    "gc_graph (gp_cache s1) = Some gr \<and> gc_valid (gp_cache s1) \<and> s2 = s1 \<or>
     \<not> (gc_graph (gp_cache s1) \<noteq> None \<and> gc_valid (gp_cache s1)) \<and> gr = built_from (gp_world s1)"
    "w_db (gp_world s2) = w_db (gp_world s1)" "w_published (gp_world s2) = w_published (gp_world s1)" by blast
  show ?thesis
  proof (cases "may_read_graph u")
    case True
    with assms gate g load l(1) have rt: "r = answer gr" "t = s2"
      by (auto simp: graph_reading_def run_ops split: sum.splits)
    from l(3) have "if gc_valid (gp_cache s) \<and> gc_graph (gp_cache s) \<noteq> None
         then gc_graph (gp_cache s) = Some gr \<and> gp_cache s2 = gp_cache s
         else \<exists>registry. gr = build_authorization_graph (w_db (gp_world s)) registry"
      using g by (auto simp: built_from_def)
    with True rt l(2,4,5) g show ?thesis by auto
  next
    case False
    with assms gate g show ?thesis by (auto simp: graph_reading_def run_ops)
  qed
qed

text \<open>
  C10. After a refresh, the access page of a user is the truth about the tables: a user that is
  not there is answered with 404; otherwise the page shows the user, exactly the entitlements of
  the access rows of that user, as often as there are rows, and beside each one a path that
  consists of the one edge from the user to the entitlement.
\<close>

theorem graph_access_after_refresh:
  assumes "refresh_cache v s = (Inr st, s1)" and "d = w_db (gp_world s)"
    and "distinct (map u_id (db_users d))" and "distinct (map ent_id (db_entitlements d))"
  shows "case row_by u_id i (db_users d) of
      None \<Rightarrow> fst (find_user_access i v s1) = Inl (HTTPException 404 ''Graph user node not found'')
    | Some u \<Rightarrow> (\<exists>r. fst (find_user_access i v s1) = Inr r \<and> ua_user r = user_node u \<and>
        mset (ua_entitlements r) = mset (map entitlement_node (held_entitlements d i)) \<and>
        list_all2 (direct_path (key_id USER i)) (ua_entitlements r) (ua_paths r))"
proof -
  obtain r1 sg where gate: "graph_gate v s = (r1, sg)" by fastforce
  note g = graph_gate_result [OF gate]
  obtain r2 sr where ref: "refresh_locked sg = (r2 :: http_error + authorization_graph, sr)" by fastforce
  note f = refresh_locked_result [OF ref]
  from assms(1) gate g ref f have v: "may_read_graph v" and s1: "s1 = sr"
    by (auto simp: refresh_cache_def cache_refresh_def run_ops split: if_splits)
  let ?g = "build_authorization_graph d (w_connectors (gp_world sg))"
  have cache: "gc_graph (gp_cache s1) = Some ?g" "gc_valid (gp_cache s1)"
    using f g by (simp_all add: s1 built_from_def assms(2))
  obtain r t where read: "find_user_access i v s1 = (r, t)" by fastforce
  from graph_reading_result [OF read [unfolded find_user_access_def]] v cache
  have r: "r = (case user_access ?g i of None \<Rightarrow> Inl internal_server_error
       | Some None \<Rightarrow> graph_not_found ''Graph user node not found'' | Some (Some result) \<Rightarrow> Inr result)" by auto
  show ?thesis
  proof (cases "row_by u_id i (db_users d)")
    case None
    then have "i \<notin> u_id ` set (db_users d)" by (simp add: row_by_absent)
    with user_known [of d "w_connectors (gp_world sg)" i] have "find_user_node ?g i = None"
      by (simp add: find_user_node_def built_nodes)
    with None read r show ?thesis by (simp add: user_access_def graph_not_found_def)
  next
    case (Some u)
    from row_by_Some [OF Some] have u: "u \<in> set (db_users d)" "u_id u = i" by simp_all
    with user_found [OF assms(3) u(1), of "w_connectors (gp_world sg)"] have "find_user_node ?g i = Some (user_node u)"
      by (simp add: find_user_node_def built_nodes)
    with user_access_exact [of d "w_connectors (gp_world sg)" i] obtain a where
      a: "user_access ?g i = Some (Some a)" "ua_user a = user_node u" "ua_entitlements a = find_entitlements ?g i"
        "list_all2 (direct_path (key_id USER i)) (ua_entitlements a) (ua_paths a)" by auto
    moreover have "mset (find_entitlements ?g i) = mset (map entitlement_node (held_entitlements d i))"
      using find_entitlements_exact [OF assms(4)] u by blast
    ultimately show ?thesis using Some read r by simp
  qed
qed

lemma refresh_cache_ok: "may_read_graph u \<Longrightarrow> \<exists>st. refresh_cache u s = (Inr st, snd (refresh_cache u s))"
  by (auto simp: refresh_cache_def cache_refresh_def run_ops split: prod.splits sum.splits
      dest!: graph_gate_result refresh_locked_result)

definition sample_process :: graph_process where
  "sample_process = \<lparr>gp_world = sample_world, gp_cache = empty_cache\<rparr>"

lemma sample_may_read: "may_read_graph root_admin" "\<not> may_read_graph eve"
  by code_simp+

lemma sample_process_db:
  "w_db (gp_world sample_process) = sample_db" "distinct (map u_id (db_users sample_db))"
  "distinct (map ent_id (db_entitlements sample_db))"
  by (simp_all add: sample_process_def sample_world_def sample_db_def sample_user_def viewer_def)

theorem graph_access_after_refresh_witness:
  "fst (find_user_access 9 root_admin (snd (refresh_cache root_admin sample_process))) =
     Inl (HTTPException 404 ''Graph user node not found'') \<and>
   (\<exists>r. fst (find_user_access 5 root_admin (snd (refresh_cache root_admin sample_process))) = Inr r \<and>
      ua_user r = user_node eve \<and>
      mset (ua_entitlements r) = {#entitlement_node \<lparr>ent_id = 3, ent_name = ''Developer'',
        ent_slug = ''developer'', ent_application_id = 2\<rparr>#})"
proof -
  from refresh_cache_ok [OF sample_may_read(1), of sample_process] obtain st where
    st: "refresh_cache root_admin sample_process = (Inr st, snd (refresh_cache root_admin sample_process))" by blast
  note page = graph_access_after_refresh [OF st sample_process_db(1) [symmetric] sample_process_db(2,3)]
  have "row_by u_id 9 (db_users sample_db) = None" "row_by u_id 5 (db_users sample_db) = Some eve"
    by (simp_all add: row_by_def sample_db_def sample_user_def)
  with page [of 9] page [of 5] show ?thesis
    by (auto simp: held_entitlements_def sample_db_def viewer_def)
qed

section \<open>Any sequence of requests\<close>

datatype graph_request =
    ReadCacheStatus | RefreshCache | InvalidateCache
  | ReadUser int | ReadUserAccess int | ReadUserEvidence int | ReadGroup int | ReadApplication int
  | ReadPath node_type string node_type string | ReadExport string

definition answered :: "'a graph_route \<Rightarrow> unit graph_route" where
  "answered m = and_then m (\<lambda>_. ret ())"

fun graph_request_op :: "graph_request \<Rightarrow> user \<Rightarrow> unit graph_route" where
  "graph_request_op ReadCacheStatus u = answered (get_cache_status u)"
| "graph_request_op RefreshCache u = answered (refresh_cache u)"
| "graph_request_op InvalidateCache u = answered (invalidate_cache u)"
| "graph_request_op (ReadUser i) u = answered (find_user_route i u)"
| "graph_request_op (ReadUserAccess i) u = answered (find_user_access i u)"
| "graph_request_op (ReadUserEvidence i) u = answered (find_user_evidence i u)"
| "graph_request_op (ReadGroup i) u = answered (find_group_route i u)"
| "graph_request_op (ReadApplication i) u = answered (find_application_route i u)"
| "graph_request_op (ReadPath a i b j) u = answered (find_shortest_path a i b j u)"
| "graph_request_op (ReadExport f) u = answered (export_graph f u)"

text \<open>The process: requests for the graph, and everything else, which never touches the cache.\<close>

inductive process_step :: "graph_process \<Rightarrow> graph_process \<Rightarrow> bool" where
  graph_request: "process_step s (snd (graph_request_op r u s))"
| elsewhere: "process_step s (s\<lparr>gp_world := w\<rparr>)"

definition cache_built :: "graph_cache \<Rightarrow> bool" where
  "cache_built c \<longleftrightarrow> (case gc_graph c of None \<Rightarrow> True | Some g \<Rightarrow> \<exists>d registry. g = build_authorization_graph d registry)"

definition well_behaved :: "'a graph_route \<Rightarrow> bool" where
  "well_behaved m \<longleftrightarrow> (\<forall>s r t. m s = (r, t) \<longrightarrow> cache_built (gp_cache s) \<longrightarrow>
     cache_built (gp_cache t) \<and> w_db (gp_world t) = w_db (gp_world s) \<and>
     (\<forall>e. r = Inl e \<longrightarrow> he_status_code e \<in> {403, 404}))"

lemma well_behaved_answered: "well_behaved m \<Longrightarrow> well_behaved (answered m)"
  by (auto simp: well_behaved_def answered_def run_ops split: prod.splits sum.splits)

lemma well_behaved_reading:
  assumes "\<And>d registry e. answer (build_authorization_graph d registry) = Inl e \<Longrightarrow> he_status_code e \<in> {403, 404}"
  shows "well_behaved (graph_reading u answer)"
  unfolding well_behaved_def
proof (intro allI impI)
  fix s r t assume run: "graph_reading u answer s = (r, t)" and c: "cache_built (gp_cache s)"
  note res = graph_reading_result [OF run]
  show "cache_built (gp_cache t) \<and> w_db (gp_world t) = w_db (gp_world s) \<and>
     (\<forall>e. r = Inl e \<longrightarrow> he_status_code e \<in> {403, 404})"
  proof (cases "may_read_graph u")
    case True
    with res obtain g where g: "gc_graph (gp_cache t) = Some g" "r = answer g"
      and cached: "gc_graph (gp_cache s) = Some g \<or> (\<exists>registry. g = build_authorization_graph (w_db (gp_world s)) registry)"
      by (auto split: if_splits)
    from cached c obtain d registry where "g = build_authorization_graph d registry" by (auto simp: cache_built_def)
    with g res assms show ?thesis by (auto simp: cache_built_def)
  next
    case False
    with res c show ?thesis by (simp add: forbidden_exception_def)
  qed
qed

lemma well_behaved_cache_routes:
  "well_behaved (get_cache_status u)" "well_behaved (refresh_cache u)" "well_behaved (invalidate_cache u)"
  unfolding well_behaved_def get_cache_status_def refresh_cache_def invalidate_cache_def cache_refresh_def cache_invalidate_def
  by (auto simp: run_ops cache_built_def built_from_def forbidden_exception_def split: prod.splits sum.splits if_splits
      dest!: graph_gate_result refresh_locked_result) blast+

lemma shortest_path_total: "shortest_path (build_authorization_graph d registry) a b \<noteq> None"
proof (cases "get_node (build_authorization_graph d registry) a \<noteq> None \<and> get_node (build_authorization_graph d registry) b \<noteq> None")
  case True
  with shortest_path_result [OF wf_built, of d registry a b] show ?thesis by auto
qed (auto simp: shortest_path_def get_node_keys)

lemma user_access_total: "user_access (build_authorization_graph d registry) i \<noteq> None"
  using user_access_exact [of d registry i]
  by (cases "find_user_node (build_authorization_graph d registry) i") auto

lemma graph_request_well_behaved: "well_behaved (graph_request_op r u)"
proof (cases r)
  case (ReadPath a i b j)
  then show ?thesis
    by (auto simp: shortest_path_total find_shortest_path_def query_shortest_path_def split: option.splits
        intro!: well_behaved_answered well_behaved_reading)
next
  case (ReadUserAccess i)
  then show ?thesis
    by (auto simp: user_access_total find_user_access_def graph_not_found_def HTTPException_def split: option.splits
        intro!: well_behaved_answered well_behaved_reading)
qed (auto simp: find_user_route_def find_user_evidence_def find_group_route_def find_application_route_def
    export_graph_def detail_or_404_def graph_not_found_def HTTPException_def Let_def split: option.splits if_splits
    intro!: well_behaved_answered well_behaved_reading well_behaved_cache_routes)

lemma process_keeps_cache_built:
  assumes "process_step\<^sup>*\<^sup>* s t" and "cache_built (gp_cache s)"
  shows "cache_built (gp_cache t)"
  using assms
proof (induction rule: rtranclp_induct)
  case (step t t')
  then have t: "cache_built (gp_cache t)" by simp
  from step.hyps(2) show ?case
  proof cases
    case (graph_request r u)
    with graph_request_well_behaved [of r u] t show ?thesis
      by (metis well_behaved_def prod.collapse)
  next
    case (elsewhere w)
    with t show ?thesis by simp
  qed
qed

text \<open>
  C24. The graph interface never crashes and never writes.  However requests for the graph and
  changes of the tables have been interleaved since the process started, a request for the graph
  leaves the tables as they are and, when it is refused, is refused with 403 or 404: no missing
  node, property or edge ends a query with an internal error, however stale the cached graph is.
\<close>

theorem graph_requests_safe:
  assumes "process_step\<^sup>*\<^sup>* start s" and "gp_cache start = empty_cache"
    and "graph_request_op r u s = (answer, t)"
  shows "w_db (gp_world t) = w_db (gp_world s) \<and> (\<forall>e. answer = Inl e \<longrightarrow> he_status_code e \<in> {403, 404})"
proof -
  have "cache_built (gp_cache start)" by (simp add: assms(2) cache_built_def empty_cache_def)
  with assms(1) have "cache_built (gp_cache s)" by (rule process_keeps_cache_built)
  with graph_request_well_behaved [of r u] assms(3) show ?thesis unfolding well_behaved_def by blast
qed

theorem graph_requests_safe_witness:
  "\<exists>e. fst (graph_request_op (ReadUser 1) eve sample_process) = Inl e \<and> he_status_code e \<in> {403, 404}"
proof -
  obtain answer t where run: "graph_request_op (ReadUser 1) eve sample_process = (answer, t)" by fastforce
  have "answer = Inl forbidden_exception"
    using run sample_may_read(2) by (auto simp: answered_def find_user_route_def run_ops split: prod.splits sum.splits
        dest!: graph_reading_result)
  moreover have "gp_cache sample_process = empty_cache" by (simp add: sample_process_def)
  ultimately show ?thesis
    using graph_requests_safe [OF rtranclp.rtrancl_refl _ run] run by auto
qed

end
