(* ===== verification/AiProperties.thy ===== *)
theory AiProperties
  imports AiChat GraphTruth
begin

text \<open>
  What the AI assistant guarantees: the context stays within its budget, everything it says is
  in the graph, what an answer cites is the evidence it was given, and a conversation records
  exactly what was asked and answered.
\<close>

section \<open>Ranking and the budget\<close>

lemma rank_evidence_ranked:
  "sorted (map rank_key (rank_evidence intent evidence))"
  "mset (rank_evidence intent evidence) = mset (map (ranked intent) evidence)"
  by (simp_all add: rank_evidence_def)

definition estimated :: "ai_evidence \<Rightarrow> ai_evidence" where
  "estimated x = x\<lparr>ai_token_estimate := estimate_evidence_tokens x\<rparr>"

lemma estimate_tokens_nonneg: "0 \<le> estimate_tokens s"
  by (auto simp: estimate_tokens_def Let_def)

lemma estimate_nonneg: "0 \<le> estimate_evidence_tokens x"
  by (simp add: estimate_evidence_tokens_def estimate_tokens_nonneg)

lemma estimate_estimated [simp]: "estimate_evidence_tokens (estimated x) = estimate_evidence_tokens x"
  by (simp add: estimate_evidence_tokens_def estimated_def)

text \<open>The greedy loop: a subsequence that fits, of which nothing left out would still fit.\<close>

lemma fit_budget_spec:
  assumes "fit_budget available items (included, used) = (included', used')" and "used \<le> available"
  shows "\<exists>kept. included' = included @ map estimated kept \<and> subseq kept items \<and>
     used' = used + sum_list (map estimate_evidence_tokens kept) \<and> used' \<le> available \<and>
     (\<forall>x \<in> set items. x \<in> set kept \<or> available < used' + estimate_evidence_tokens x)"
  using assms
proof (induction items arbitrary: included used)
  case Nil
  then show ?case by (auto intro!: exI [of _ "[]"])
next
  case (Cons item items)
  show ?case
  proof (cases "used + estimate_evidence_tokens item > available")
    case True
    with Cons.prems have "fit_budget available items (included, used) = (included', used')" by simp
    from Cons.IH [OF this Cons.prems(2)] obtain kept where m: "included' = included @ map estimated kept"
      "subseq kept items" "used' = used + sum_list (map estimate_evidence_tokens kept)" "used' \<le> available"
      "\<forall>x \<in> set items. x \<in> set kept \<or> available < used' + estimate_evidence_tokens x" by blast
    have "0 \<le> sum_list (map estimate_evidence_tokens kept)"
      by (rule sum_list_nonneg) (auto simp: estimate_nonneg)
    with True m(3) have "available < used' + estimate_evidence_tokens item" by simp
    with m show ?thesis by (intro exI [of _ kept]) (auto intro: subseq_Cons')
  next
    case False
    with Cons.prems have run: "fit_budget available items
        (included @ [estimated item], used + estimate_evidence_tokens item) = (included', used')"
      by (simp add: estimated_def Let_def)
    from Cons.IH [OF run] False obtain kept where m: "included' = (included @ [estimated item]) @ map estimated kept"
      "subseq kept items" "used' = used + estimate_evidence_tokens item + sum_list (map estimate_evidence_tokens kept)"
      "used' \<le> available" "\<forall>x \<in> set items. x \<in> set kept \<or> available < used' + estimate_evidence_tokens x"
      by auto
    then show ?thesis by (intro exI [of _ "item # kept"]) auto
  qed
qed

section \<open>Duplicates\<close>

definition evidence_dict :: "(evidence_key \<times> ai_evidence) list \<Rightarrow> bool" where
  "evidence_dict d \<longleftrightarrow> distinct (map fst d) \<and> map fst d = map (evidence_key \<circ> snd) d"

lemma dict_set_keys_of: "map fst d = map (f \<circ> snd) d \<Longrightarrow> map fst (dict_set (f v) v d) = map (f \<circ> snd) (dict_set (f v) v d)"
proof (induction d)
  case (Cons p d)
  then show ?case by (cases p) auto
qed simp

lemma dict_set_values: "snd ` set (dict_set k v d) \<subseteq> insert v (snd ` set d)"
  by (induction k v d rule: dict_set.induct) auto

lemma map_of_key: "map_of d k = Some v \<Longrightarrow> k \<in> fst ` set d"
  by (metis domI dom_map_of_conv_image_fst)

lemma keep_stronger_dict:
  assumes "evidence_dict d"
  shows "evidence_dict (keep_stronger item d)"
    and "fst ` set (keep_stronger item d) = insert (evidence_key item) (fst ` set d)"
    and "snd ` set (keep_stronger item d) \<subseteq> insert item (snd ` set d)"
proof -
  have put: "evidence_dict (dict_set (evidence_key item) item d)"
    using assms unfolding evidence_dict_def by (blast intro: distinct_dict_set dict_set_keys_of)
  show "evidence_dict (keep_stronger item d)"
    using put assms by (simp add: keep_stronger_def split: option.split)
  show "fst ` set (keep_stronger item d) = insert (evidence_key item) (fst ` set d)"
    by (auto simp: keep_stronger_def keys_dict_set insert_absorb dest: map_of_key split: option.split)
  show "snd ` set (keep_stronger item d) \<subseteq> insert item (snd ` set d)"
    using dict_set_values [of "evidence_key item" item d] by (auto simp: keep_stronger_def split: option.split)
qed

lemma fold_keep_stronger:
  assumes "evidence_dict d"
  shows "evidence_dict (fold keep_stronger evidence d) \<and>
     fst ` set (fold keep_stronger evidence d) = evidence_key ` set evidence \<union> fst ` set d \<and>
     snd ` set (fold keep_stronger evidence d) \<subseteq> set evidence \<union> snd ` set d"
  using assms
proof (induction evidence arbitrary: d)
  case (Cons item evidence)
  note k = keep_stronger_dict [OF Cons.prems, of item]
  note ih = Cons.IH [OF k(1)]
  from ih k(3) have "snd ` set (fold keep_stronger (item # evidence) d) \<subseteq> set (item # evidence) \<union> snd ` set d"
    unfolding fold_simps list.set by blast
  moreover have "fst ` set (fold keep_stronger (item # evidence) d) = evidence_key ` set (item # evidence) \<union> fst ` set d"
    using ih k(2) by auto
  ultimately show ?case using ih by simp
qed simp

lemma deduplicated:
  "distinct (map evidence_key (deduplicate_evidence evidence)) \<and>
   set (deduplicate_evidence evidence) \<subseteq> set evidence \<and>
   evidence_key ` set (deduplicate_evidence evidence) = evidence_key ` set evidence"
proof -
  define d where "d = fold keep_stronger evidence []"
  have "evidence_dict []" by (simp add: evidence_dict_def)
  from fold_keep_stronger [OF this, of evidence] have d: "evidence_dict d"
    "fst ` set d = evidence_key ` set evidence" "snd ` set d \<subseteq> set evidence" unfolding d_def by auto
  then have keys: "map evidence_key (map snd d) = map fst d" by (simp add: evidence_dict_def)
  have "mset (map evidence_key (deduplicate_evidence evidence)) = mset (map fst d)"
    unfolding keys [symmetric] by (simp add: deduplicate_evidence_def d_def image_mset.compositionality)
  then have "distinct (map evidence_key (deduplicate_evidence evidence))"
    using d(1) unfolding evidence_dict_def by (metis mset_eq_imp_distinct_iff)
  moreover have set: "set (deduplicate_evidence evidence) = snd ` set d" by (simp add: deduplicate_evidence_def d_def)
  moreover have "evidence_key ` snd ` set d = fst ` set d"
    using arg_cong [OF keys, of set] by (simp add: image_image)
  ultimately show ?thesis using d(2,3) by simp
qed

section \<open>The assembled context\<close>

lemma evidence_key_ranked [simp]: "evidence_key (ranked intent x) = evidence_key x"
  by (simp add: evidence_key_def ranked_def)

lemma evidence_key_estimated [simp]: "evidence_key (estimated x) = evidence_key x"
  by (simp add: evidence_key_def estimated_def)

lemma rank_key_estimated [simp]: "rank_key (estimated x) = rank_key x"
  by (simp add: rank_key_def estimated_def)

lemma assemble_evidence:
  assumes "assemble g request = Some c"
  obtains evidence kept where
    "collect_evidence g request (classify_intent request) = Some evidence"
    "subseq kept (rank_evidence (ic_intent (classify_intent request)) evidence)"
    "ac_evidence c = map estimated kept" "ac_citations c = map citation_of (ac_evidence c)"
    "apply_token_budget (aq_max_tokens request) (reserved_tokens_for request)
       (rank_evidence (ic_intent (classify_intent request)) evidence) = (ac_evidence c, ac_token_budget c)"
    "ac_intent c = classify_intent request"
proof -
  from assms obtain evidence where e: "collect_evidence g request (classify_intent request) = Some evidence"
    by (auto simp: assemble_def Let_def)
  let ?r = "rank_evidence (ic_intent (classify_intent request)) evidence"
  from assms e have budget: "apply_token_budget (aq_max_tokens request) (reserved_tokens_for request) ?r =
      (ac_evidence c, ac_token_budget c)" and c: "ac_citations c = map citation_of (ac_evidence c)"
    "ac_intent c = classify_intent request"
    by (auto simp: assemble_def Let_def split: prod.splits)
  obtain inc used where fit: "fit_budget (max 0 (aq_max_tokens request - reserved_tokens_for request)) ?r ([], 0) = (inc, used)"
    by fastforce
  from fit_budget_spec [OF fit] obtain kept where kept: "inc = map estimated kept" "subseq kept ?r" by auto
  from budget fit have "inc = ac_evidence c" by (simp add: apply_token_budget_def Let_def)
  with kept(1) have inc: "ac_evidence c = map estimated kept" by simp
  show thesis by (rule that [OF e kept(2) inc c(1) budget c(2)])
qed

lemma rank_evidence_keys:
  "map evidence_key (rank_evidence intent evidence) = map evidence_key (sort_key rank_key (map (ranked intent) evidence))"
  "set (map evidence_key (rank_evidence intent evidence)) = evidence_key ` set evidence"
  "distinct (map evidence_key evidence) \<Longrightarrow> distinct (map evidence_key (rank_evidence intent evidence))"
proof -
  show "map evidence_key (rank_evidence intent evidence) = map evidence_key (sort_key rank_key (map (ranked intent) evidence))"
    by (simp add: rank_evidence_def)
  show "set (map evidence_key (rank_evidence intent evidence)) = evidence_key ` set evidence"
    by (simp add: rank_evidence_def image_image)
  have "mset (map evidence_key (rank_evidence intent evidence)) = mset (map evidence_key evidence)"
    by (simp add: rank_evidence_def image_mset.compositionality o_def)
  then show "distinct (map evidence_key evidence) \<Longrightarrow> distinct (map evidence_key (rank_evidence intent evidence))"
    by (metis mset_eq_imp_distinct_iff)
qed

lemma estimate_ranked [simp]: "estimate_evidence_tokens (ranked intent x) = estimate_evidence_tokens x"
  by (simp add: estimate_evidence_tokens_def ranked_def)

lemma subseq_set: "subseq xs ys \<Longrightarrow> set xs \<subseteq> set ys"
  by (metis notin_set_nthsI subsetI subseq_conv_nths)

lemma subseq_sorted_distinct:
  "subseq xs ys \<Longrightarrow> (sorted (map f ys) \<longrightarrow> sorted (map f xs)) \<and> (distinct (map h ys) \<longrightarrow> distinct (map h xs))"
proof (induction rule: list_emb.induct)
  case (list_emb_Cons2 x y xs ys)
  from subseq_set [OF list_emb_Cons2.hyps(2)] list_emb_Cons2 show ?case by fastforce
qed simp_all

lemma reserved_bounds:
  assumes "valid_context_request request"
  shows "0 \<le> reserved_tokens_for request" "3 * reserved_tokens_for request \<le> aq_max_tokens request"
  using assms estimate_tokens_nonneg [of "aq_question request"]
  by (auto simp: valid_context_request_def reserved_tokens_for_def min_def)

lemma sum_estimated: "map ai_token_estimate (map estimated kept) = map estimate_evidence_tokens kept"
  by (simp add: estimated_def)

text \<open>
  C27. The context of a question stays within its budget and says nothing twice.  The tokens
  reserved are at most a third of the budget; the tokens of the evidence are the sum of the
  estimates of its items; both together are at most the budget.  The items are in rank order, no
  two agree in type, title, description, reference and correlation identifier; and an item that
  was collected but left out would have exceeded what the others left of the budget.
\<close>

theorem context_within_budget:
  assumes "assemble g request = Some c" and "valid_context_request request"
  shows "0 \<le> tb_reserved_tokens (ac_token_budget c) \<and>
    3 * tb_reserved_tokens (ac_token_budget c) \<le> aq_max_tokens request \<and>
    tb_evidence_tokens (ac_token_budget c) = sum_list (map ai_token_estimate (ac_evidence c)) \<and>
    tb_total_estimated_tokens (ac_token_budget c) =
      tb_reserved_tokens (ac_token_budget c) + tb_evidence_tokens (ac_token_budget c) \<and>
    tb_total_estimated_tokens (ac_token_budget c) \<le> aq_max_tokens request \<and>
    tb_included_evidence_count (ac_token_budget c) = length (ac_evidence c) \<and>
    sorted (map rank_key (ac_evidence c)) \<and> distinct (map evidence_key (ac_evidence c)) \<and>
    (\<exists>collected. collect_evidence g request (classify_intent request) = Some collected \<and>
       tb_omitted_evidence_count (ac_token_budget c) = length collected - length (ac_evidence c) \<and>
       (\<forall>x \<in> set collected. evidence_key x \<in> evidence_key ` set (ac_evidence c) \<or>
          aq_max_tokens request < tb_total_estimated_tokens (ac_token_budget c) + estimate_evidence_tokens x))"
proof -
  from assms(1) obtain collected kept where c: "collect_evidence g request (classify_intent request) = Some collected"
    and budget: "apply_token_budget (aq_max_tokens request) (reserved_tokens_for request)
       (rank_evidence (ic_intent (classify_intent request)) collected) = (ac_evidence c, ac_token_budget c)"
    by (rule assemble_evidence) blast
  let ?r = "rank_evidence (ic_intent (classify_intent request)) collected"
  let ?av = "max 0 (aq_max_tokens request - reserved_tokens_for request)"
  obtain inc used where fit: "fit_budget ?av ?r ([], 0) = (inc, used)" by fastforce
  from fit_budget_spec [OF fit] obtain kept where m: "inc = map estimated kept" "subseq kept ?r"
    "used = sum_list (map estimate_evidence_tokens kept)" "used \<le> ?av"
    "\<forall>x \<in> set ?r. x \<in> set kept \<or> ?av < used + estimate_evidence_tokens x" by auto
  from budget fit have inc: "ac_evidence c = map estimated kept" by (simp add: apply_token_budget_def Let_def m(1))
  from budget [symmetric] fit have b: "ac_token_budget c =
      \<lparr>tb_max_tokens = aq_max_tokens request, tb_reserved_tokens = reserved_tokens_for request,
       tb_evidence_tokens = used, tb_total_estimated_tokens = reserved_tokens_for request + used,
       tb_included_evidence_count = length inc, tb_omitted_evidence_count = length ?r - length inc,
       tb_truncated = (length ?r - length inc > 0)\<rparr>"
    by (simp add: apply_token_budget_def Let_def)
  note res = reserved_bounds [OF assms(2)]
  have av: "?av = aq_max_tokens request - reserved_tokens_for request"
    using res assms(2) by (simp add: valid_context_request_def)
  have dd: "distinct (map evidence_key collected)"
    using c deduplicated by (auto simp: collect_evidence_def Let_def)
  have sorted: "sorted (map rank_key (ac_evidence c))"
    unfolding inc using subseq_sorted_distinct [OF m(2), where f = rank_key and h = evidence_key] rank_evidence_ranked(1) by (simp add: o_def)
  have distinct: "distinct (map evidence_key (ac_evidence c))"
    unfolding inc using subseq_sorted_distinct [OF m(2), where f = rank_key and h = evidence_key] rank_evidence_keys(3) [OF dd] by (simp add: o_def)
  have left: "evidence_key x \<in> evidence_key ` set (ac_evidence c) \<or>
      aq_max_tokens request < tb_total_estimated_tokens (ac_token_budget c) + estimate_evidence_tokens x"
    if x: "x \<in> set collected" for x
  proof -
    let ?y = "ranked (ic_intent (classify_intent request)) x"
    have "?y \<in> set ?r" using x by (simp add: rank_evidence_def)
    with m(5) have "?y \<in> set kept \<or> ?av < used + estimate_evidence_tokens ?y" by blast
    then show ?thesis
    proof
      assume "?y \<in> set kept"
      then have "estimated ?y \<in> set (ac_evidence c)" by (simp add: inc)
      then have "evidence_key (estimated ?y) \<in> evidence_key ` set (ac_evidence c)" by (rule imageI)
      then show ?thesis by simp
    next
      assume "?av < used + estimate_evidence_tokens ?y"
      then show ?thesis by (simp add: b av)
    qed
  qed
  have sum: "used = sum_list (map ai_token_estimate (ac_evidence c))" unfolding inc sum_estimated by (rule m(3))
  have length: "length ?r = length collected" by (simp add: rank_evidence_def)
  show ?thesis
    unfolding b using res sum m(1,4) av sorted distinct left [unfolded b] c length inc assms(2)
    by (simp add: valid_context_request_def)
qed

section \<open>The context of a built graph\<close>

text \<open>Every node of the graph has the property \<open>source_id\<close> that the queries read.\<close>

lemma fold_add_node_values:
  "snd ` set (ag_nodes (fold add_node ns g)) \<subseteq> set ns \<union> snd ` set (ag_nodes g)"
proof (induction ns arbitrary: g)
  case (Cons n ns)
  have "snd ` set (ag_nodes (add_node n g)) \<subseteq> insert n (snd ` set (ag_nodes g))"
    using dict_set_values [of "gn_id n" n "ag_nodes g"] by (simp add: add_node_def)
  with Cons.IH [of "add_node n g"] show ?case unfolding fold_simps list.set by blast
qed simp

lemma ag_nodes_add_edges: "ag_nodes (fold add_edge_if_nodes_exist es g) = ag_nodes g"
proof (induction es arbitrary: g)
  case (Cons e es)
  have "ag_nodes (add_edge_if_nodes_exist e g) = ag_nodes g"
    by (simp add: add_edge_if_nodes_exist_def add_edge_def Let_def)
  with Cons show ?case by simp
qed simp

lemma built_node_values:
  "snd ` set (ag_nodes (build_authorization_graph d registry)) \<subseteq> set (all_nodes d registry)"
  using fold_add_node_values [of "all_nodes d registry" empty_graph]
  by (simp add: build_graph ag_nodes_add_edges node_graph_def empty_graph_def)

lemma all_nodes_source_id: "n \<in> set (all_nodes d registry) \<Longrightarrow> map_of (gn_properties n) ''source_id'' \<noteq> None"
  by (auto simp: all_nodes_def rows_of_def node_definitions)

lemma get_node_value: "get_node g k = Some n \<Longrightarrow> n \<in> snd ` set (ag_nodes g)"
  unfolding get_node_def by (force dest: map_of_SomeD)

lemma source_ids_total:
  assumes "set ns \<subseteq> set (all_nodes d registry)"
  shows "source_ids ns \<noteq> None"
proof -
  from assms have "\<exists>y. map_of (gn_properties n) ''source_id'' = Some y \<and> True" if "n \<in> set ns" for n
    using that all_nodes_source_id by blast
  with those_map_Some [of ns "\<lambda>n. map_of (gn_properties n) ''source_id''" "\<lambda>_ _. True"] show ?thesis
    by (auto simp: source_ids_def)
qed

lemma targets_values: "set (targets g i ty) \<subseteq> snd ` set (ag_nodes g)"
proof
  fix n assume "n \<in> set (targets g i ty)"
  then obtain e :: graph_edge where "get_node g (ge_target e) = Some n" by (auto simp: targets_def List.map_filter_def)
  then show "n \<in> snd ` set (ag_nodes g)" by (rule get_node_value)
qed

lemma histories_total:
  "find_provisioning_history (build_authorization_graph d registry) i \<noteq> None"
  "find_remediation_history (build_authorization_graph d registry) i \<noteq> None"
proof -
  let ?g = "build_authorization_graph d registry"
  have "set (filter P (map snd (ag_nodes ?g))) \<subseteq> set (all_nodes d registry)" for P
    using built_node_values [of d registry] by auto
  from source_ids_total [OF this] show "find_provisioning_history ?g i \<noteq> None"
    by (simp add: find_provisioning_history_def Let_def)
  have "set (find_review_history ?g i) \<subseteq> set (all_nodes d registry)"
    using built_node_values [of d registry] targets_values [of ?g i REVIEWED_IN]
    by (auto simp: find_review_history_def)
  from source_ids_total [OF this] show "find_remediation_history ?g i \<noteq> None"
    by (simp add: find_remediation_history_def)
qed

lemma resolve_path_total: "resolve_path (build_authorization_graph d registry) request classification \<noteq> None"
proof -
  have "\<exists>p. shortest_path (build_authorization_graph d registry) a b = Some p" for a b
    using shortest_path_total [of d registry a b] by blast
  then show ?thesis
    by (auto simp: resolve_path_def query_shortest_path_def find_access_path_def split: option.split)
qed

lemma assemble_total: "assemble (build_authorization_graph d registry) request \<noteq> None"
proof -
  let ?g = "build_authorization_graph d registry" and ?c = "classify_intent request"
  have "intent_evidence ?g request ?c \<noteq> None"
    using resolve_path_total [of d registry request ?c] histories_total [of d registry] user_access_total [of d registry]
    by (auto simp: intent_evidence_def path_evidence_def access_gap_evidence_def split: intent_type.split option.split)
  then show ?thesis by (auto simp: assemble_def collect_evidence_def Let_def)
qed

definition sample_question :: ai_context_request where
  "sample_question = \<lparr>aq_question = ''Why does user 5 have access?'', aq_user_id = None, aq_application_id = None,
     aq_entitlement_id = None, aq_source_type = None, aq_source_id = None, aq_target_type = None,
     aq_target_id = None, aq_max_tokens = 1200\<rparr>"

lemma sample_question_classified:
  "ic_intent (classify_intent sample_question) = EXPLAIN_ACCESS" "ic_user_id (classify_intent sample_question) = Some 5"
  "valid_context_request sample_question"
  by code_simp+

theorem context_within_budget_witness:
  "\<exists>c. assemble (build_authorization_graph sample_db []) sample_question = Some c \<and>
     tb_total_estimated_tokens (ac_token_budget c) \<le> 1200 \<and> distinct (map evidence_key (ac_evidence c))"
proof -
  from assemble_total [of sample_db "[]" sample_question] obtain c where
    c: "assemble (build_authorization_graph sample_db []) sample_question = Some c" by blast
  from context_within_budget [OF c sample_question_classified(3)] c show ?thesis
    by (simp add: sample_question_def)
qed

section \<open>Evidence tells what is in the graph\<close>

definition tells_node :: "graph_node \<Rightarrow> ai_evidence \<Rightarrow> bool" where
  "tells_node n x \<longleftrightarrow> ai_evidence_type x = node_type_value (gn_type n) \<and>
     ai_title x = node_type_value (gn_type n) @ '': '' @ gn_label n \<and>
     ai_description x = ''Graph node '' @ gn_id n @ '' exists in the authorization graph.'' \<and>
     ai_reference x = gn_reference n"

definition tells_edge :: "authorization_graph \<Rightarrow> graph_edge \<Rightarrow> ai_evidence \<Rightarrow> bool" where
  "tells_edge g e x \<longleftrightarrow> ai_evidence_type x = edge_type_value (ge_type e) \<and> ai_title x = ge_label e \<and>
     ai_description x = ev_description (edge_evidence g e) \<and> ai_reference x = ge_reference e \<and>
     ai_correlation_id x = ge_correlation_id e"

text \<open>The two items that report the result of a query: it must be the result on this graph.\<close>

definition tells_no_manager :: "authorization_graph \<Rightarrow> ai_evidence \<Rightarrow> bool" where
  "tells_no_manager g x \<longleftrightarrow> ai_evidence_type x = ''QUERY_RESULT'' \<and>
     (\<exists>i. find_manager_chain g i = [] \<and>
        ai_description x = ''User '' @ str_int i @ '' has no manager chain in the authorization graph.'')"

definition tells_path_result :: "authorization_graph \<Rightarrow> ai_evidence \<Rightarrow> bool" where
  "tells_path_result g x \<longleftrightarrow> ai_evidence_type x = ''PATH_RESULT'' \<and>
     (\<exists>a b p. shortest_path g a b = Some p \<and>
        ai_description x = ''Path lookup from '' @ gp_source p @ '' to '' @ gp_target p @ '' returned '' @
          (if gp_found p then ''found'' else ''not found'') @ '' using deterministic graph traversal.'')"

text \<open>An item speaks of a node or an edge of the graph, or of the result of a query.\<close>

definition grounded :: "authorization_graph \<Rightarrow> ai_evidence \<Rightarrow> bool" where
  "grounded g x \<longleftrightarrow>
     list_ex (\<lambda>(k, n). tells_node n x) (ag_nodes g) \<or> list_ex (\<lambda>e. tells_edge g e x) (ag_edges g) \<or>
     tells_no_manager g x \<or> tells_path_result g x"

lemma grounded_node: "n \<in> snd ` set (ag_nodes g) \<Longrightarrow> tells_node n x \<Longrightarrow> grounded g x"
  by (auto simp: grounded_def list_ex_iff)

lemma grounded_edge: "e \<in> set (ag_edges g) \<Longrightarrow> tells_edge g e x \<Longrightarrow> grounded g x"
  by (auto simp: grounded_def list_ex_iff)

lemma grounded_from_node: "n \<in> snd ` set (ag_nodes g) \<Longrightarrow> grounded g (from_node distance priority n)"
  by (rule grounded_node) (simp_all add: tells_node_def from_node_def)

lemma grounded_from_edge:
  "e \<in> set (ag_edges g) \<Longrightarrow> grounded g (from_graph_evidence distance n me priority (edge_evidence g e))"
  by (rule grounded_edge) (simp_all add: tells_edge_def from_graph_evidence_def edge_evidence_def Let_def)

lemma grounded_ranked [simp]: "grounded g (ranked intent x) = grounded g x"
  by (simp add: grounded_def tells_node_def tells_edge_def tells_no_manager_def tells_path_result_def ranked_def)

lemma grounded_estimated [simp]: "grounded g (estimated x) = grounded g x"
  by (simp add: grounded_def tells_node_def tells_edge_def tells_no_manager_def tells_path_result_def estimated_def)

lemma grounded_node_evidence:
  assumes "wf_graph g" and "n \<in> snd ` set (ag_nodes g)"
  shows "list_all (grounded g) (map (from_graph_evidence distance m me priority) (node_evidence g n))"
proof -
  have "grounded g (from_graph_evidence distance m me priority (hd (node_evidence g n)))"
    by (rule grounded_node [OF assms(2)]) (simp add: tells_node_def from_graph_evidence_def node_evidence_def)
  moreover have "grounded g (from_graph_evidence distance m me priority (edge_evidence g e))"
    if "e \<in> set (edges_for g (gn_id n))" for e
    using that by (simp add: edges_for_iff [OF assms(1)] grounded_from_edge)
  ultimately show ?thesis by (simp add: node_evidence_def list_all_iff)
qed

lemma list_all_map_from_node:
  "set ns \<subseteq> snd ` set (ag_nodes g) \<Longrightarrow> list_all (grounded g) (map (from_node distance priority) ns)"
  by (auto simp: list_all_iff intro!: grounded_from_node)

lemma manager_chain_values: "set (manager_chain g k seen) \<subseteq> snd ` set (ag_nodes g)"
proof (induction g k seen rule: manager_chain.induct)
  case (1 g k seen)
  show ?case
  proof (cases "outgoing g k (Some MANAGED_BY)")
    case Nil
    then show ?thesis by (simp add: manager_chain.simps)
  next
    case (Cons e es)
    then have turn: "manager_chain g k seen =
        (if ge_target e \<in> set seen then []
         else case get_node g (ge_target e) of
                None \<Rightarrow> [] | Some n \<Rightarrow> n # manager_chain g (ge_target e) (ge_target e # seen))"
      by (simp add: manager_chain.simps [of g k])
    have "set (manager_chain g (ge_target e) (ge_target e # seen)) \<subseteq> snd ` set (ag_nodes g)"
      if "ge_target e \<notin> set seen" "get_node g (ge_target e) = Some n" for n
      using 1 [OF Cons that] .
    then show ?thesis
      unfolding turn by (cases "get_node g (ge_target e)") (simp_all add: get_node_value)
  qed
qed

lemma path_values:
  assumes "wf_graph g" and "shortest_path g a b = Some p"
  shows "set (gp_nodes p) \<subseteq> snd ` set (ag_nodes g) \<and> set (gp_edges p) \<subseteq> set (ag_edges g)"
proof (cases "get_node g a \<noteq> None \<and> get_node g b \<noteq> None")
  case True
  have edges: "trail g s es t \<Longrightarrow> set es \<subseteq> set (ag_edges g)" for s es t by (induction es arbitrary: s) auto
  from shortest_path_result [OF assms(1)] True assms(2) edges have "set (gp_edges p) \<subseteq> set (ag_edges g)"
    by (fastforce split: if_splits)
  moreover have nodes: "set ns \<subseteq> snd ` set (ag_nodes g)" if "path_nodes_of g ids = Some ns" for ids ns
    using that
  proof (induction ids arbitrary: ns)
    case (Cons i ids)
    then obtain n ms where "get_node g i = Some n" "path_nodes_of g ids = Some ms" "ns = n # ms"
      by (auto simp: path_nodes_of_def split: option.splits)
    with Cons.IH show ?case by (auto dest: get_node_value)
  qed (simp add: path_nodes_of_def)
  have "set (gp_nodes p) \<subseteq> snd ` set (ag_nodes g)"
  proof (cases "search g b [a] [(a, [a], [])]")
    case None
    with True assms(2) show ?thesis by (auto simp: shortest_path_def get_node_keys not_found_def)
  next
    case (Some r)
    with True assms(2) obtain ns where "path_nodes_of g (fst r) = Some ns" "gp_nodes p = ns"
      by (auto simp: shortest_path_def get_node_keys split: prod.splits)
    with nodes show ?thesis by simp
  qed
  ultimately show ?thesis by blast
next
  case False
  with assms(2) show ?thesis by (auto simp: shortest_path_def get_node_keys not_found_def)
qed

lemma grounded_path:
  assumes "wf_graph g" and "shortest_path g a b = Some p"
  shows "list_all (grounded g) (graph_path_evidence g distance p)"
  using path_values [OF assms]
  by (auto simp: graph_path_evidence_def list_all_iff intro!: grounded_from_node grounded_from_edge
      dest!: in_set_enumerate_eq [THEN iffD1] nth_mem)

lemma resolve_path_found:
  assumes "resolve_path g request classification = Some (Some p)"
  obtains a b where "shortest_path g a b = Some p"
  using assms that by (auto simp: resolve_path_def query_shortest_path_def find_access_path_def split: option.splits)

lemma grounded_resolved:
  assumes "wf_graph g" and "resolve_path g request classification = Some (Some p)"
  shows "list_all (grounded g) (graph_path_evidence g distance p)"
  using resolve_path_found [OF assms(2)] grounded_path [OF assms(1)] by metis

lemma grounded_path_result:
  assumes "resolve_path g request classification = Some (Some p)"
  shows "grounded g (synthetic_evidence ''PATH_RESULT'' title
     (''Path lookup from '' @ gp_source p @ '' to '' @ gp_target p @ '' returned '' @
        (if gp_found p then ''found'' else ''not found'') @ '' using deterministic graph traversal.'') reference priority)"
proof -
  from assms obtain a b where "shortest_path g a b = Some p" by (rule resolve_path_found)
  then show ?thesis by (auto simp: grounded_def tells_path_result_def synthetic_evidence_def)
qed

lemma grounded_gap:
  assumes wf: "wf_graph g" and run: "access_gap_evidence g request c = Some evidence"
  shows "list_all (grounded g) evidence"
proof (cases "resolve_path g request c")
  case None
  with run show ?thesis by (simp add: access_gap_evidence_def)
next
  case (Some r)
  show ?thesis
  proof (cases r)
    case None
    with Some run show ?thesis by (auto simp: access_gap_evidence_def)
  next
    case (Some p)
    with \<open>resolve_path g request c = Some r\<close> have p: "resolve_path g request c = Some (Some p)" by simp
    let ?found = "if gp_found p then ''found'' else ''not found''"
    have "list_all (grounded g)
        (synthetic_evidence ''PATH_RESULT'' (''Graph path '' @ ?found)
           (''Path lookup from '' @ gp_source p @ '' to '' @ gp_target p @ '' returned '' @ ?found @
            '' using deterministic graph traversal.'') ''/graph/path'' 90 # graph_path_evidence g 0 p)"
      unfolding list.pred_inject(2) using grounded_path_result [OF p] grounded_resolved [OF wf p] by blast
    with p run show ?thesis by (simp add: access_gap_evidence_def Let_def)
  qed
qed

lemma those_member: "those xs = Some ys \<Longrightarrow> y \<in> set ys \<Longrightarrow> Some y \<in> set xs"
  by (induction xs arbitrary: ys) (auto split: option.splits)

lemma user_access_paths:
  assumes "user_access g i = Some (Some a)" and "p \<in> set (ua_paths a)"
  shows "\<exists>x y. shortest_path g x y = Some p"
proof -
  from assms(1) have "those (map (entitlement_path g i) (find_entitlements g i)) = Some (ua_paths a)"
    by (auto simp: user_access_def Let_def split: option.splits)
  from those_member [OF this assms(2)] obtain n where "entitlement_path g i n = Some p" by auto
  then show ?thesis
    by (auto simp: entitlement_path_def find_access_path_def query_shortest_path_def split: option.splits)
qed

lemma grounded_manager_chain: "list_all (grounded g) (manager_chain_evidence g i)"
proof (cases "find_manager_chain g i = []")
  case True
  then have "tells_no_manager g (hd (manager_chain_evidence g i))"
    by (auto simp: tells_no_manager_def manager_chain_evidence_def synthetic_evidence_def)
  with True show ?thesis by (simp add: manager_chain_evidence_def grounded_def)
next
  case False
  have chain: "set (find_manager_chain g i) \<subseteq> snd ` set (ag_nodes g)"
    unfolding find_manager_chain_def by (rule manager_chain_values)
  have "grounded g (from_node (int k + 1) 75 n)" if "(k, n) \<in> set (enumerate 0 (find_manager_chain g i))" for k n
    using that chain by (intro grounded_from_node) (auto simp: in_set_enumerate_eq)
  with False show ?thesis by (auto simp: manager_chain_evidence_def Let_def list_all_iff)
qed

lemma histories_values:
  "find_provisioning_history g i = Some ns \<Longrightarrow> set ns \<subseteq> snd ` set (ag_nodes g)"
  "find_remediation_history g i = Some ns \<Longrightarrow> set ns \<subseteq> snd ` set (ag_nodes g)"
  "set (find_review_history g i) \<subseteq> snd ` set (ag_nodes g)"
  using targets_values [of g i REVIEWED_IN]
  by (auto simp: find_provisioning_history_def find_remediation_history_def find_review_history_def Let_def)

lemma grounded_intent_evidence:
  assumes wf: "wf_graph g" and run: "intent_evidence g request c = Some evidence"
  shows "list_all (grounded g) evidence"
proof (cases "ic_intent c")
  case ACCESS_PATH
  with run wf show ?thesis
    by (auto simp: intent_evidence_def path_evidence_def grounded_resolved split: option.splits)
next
  case ACCESS_GAP
  with run wf show ?thesis
    by (simp add: intent_evidence_def grounded_gap)
next
  case EXPLAIN_ACCESS
  show ?thesis
  proof (cases "ic_user_id c")
    case None
    with EXPLAIN_ACCESS run show ?thesis by (simp add: intent_evidence_def)
  next
    case (Some i)
    with EXPLAIN_ACCESS run obtain access where a: "user_access g i = Some access"
      and e: "evidence = (case access of None \<Rightarrow> [] | Some a \<Rightarrow> concat (map (graph_path_evidence g 1) (ua_paths a)))"
      by (auto simp: intent_evidence_def)
    have "list_all (grounded g) (graph_path_evidence g 1 p)" if "access = Some u" "p \<in> set (ua_paths u)" for u p
      using user_access_paths [of g i u p] a that grounded_path [OF wf] by blast
    then show ?thesis unfolding e by (auto simp: list_all_iff split: option.splits)
  qed
qed (use run in \<open>auto simp: intent_evidence_def history_evidence_def grounded_manager_chain
    intro!: list_all_map_from_node dest: histories_values(1,2) subsetD [OF histories_values(3)] split: option.splits\<close>)

lemma grounded_collected:
  assumes wf: "wf_graph g" and run: "collect_evidence g request c = Some evidence"
  shows "list_all (grounded g) evidence"
proof -
  from run obtain rest user application entitlement where
    rest: "intent_evidence g request c = Some rest" "evidence = deduplicate_evidence (user @ application @ entitlement @ rest)"
    and parts: "user = (case ic_user_id c of None \<Rightarrow> [] | Some i \<Rightarrow> ai_user_evidence g i)"
      "application = (case ic_application_id c of None \<Rightarrow> [] | Some i \<Rightarrow> node_detail_evidence g (key_id APPLICATION i) 1)"
      "entitlement = (case ic_entitlement_id c of None \<Rightarrow> [] | Some i \<Rightarrow> node_detail_evidence g (key_id ENTITLEMENT i) 1)"
    by (auto simp: collect_evidence_def Let_def)
  have detail: "list_all (grounded g) (node_detail_evidence g k distance)" for k distance
    using grounded_node_evidence [OF wf get_node_value]
    by (auto simp: node_detail_evidence_def node_detail_def split: option.split)
  have user: "list_all (grounded g) (ai_user_evidence g i)" for i
    using grounded_node_evidence [OF wf get_node_value]
    by (auto simp: ai_user_evidence_def user_evidence_def split: option.split)
  have "list_all (grounded g) (user @ application @ entitlement @ rest)"
    using grounded_intent_evidence [OF wf rest(1)] detail user by (simp add: parts split: option.split)
  with deduplicated [of "user @ application @ entitlement @ rest"] rest(2) show ?thesis
    by (auto simp: list_all_iff)
qed

lemma grounded_context:
  assumes wf: "wf_graph g" and run: "assemble g request = Some c"
  shows "list_all (grounded g) (ac_evidence c)"
proof -
  from run obtain evidence kept where e: "collect_evidence g request (classify_intent request) = Some evidence"
    and kept: "subseq kept (rank_evidence (ic_intent (classify_intent request)) evidence)" "ac_evidence c = map estimated kept"
    by (rule assemble_evidence)
  have "list_all (grounded g) (rank_evidence (ic_intent (classify_intent request)) evidence)"
    using grounded_collected [OF wf e] by (auto simp: rank_evidence_def list_all_iff)
  with subseq_set [OF kept(1)] kept(2) show ?thesis by (auto simp: list_all_iff)
qed

section \<open>Providers cite what they were given\<close>

locale citing_provider =
  fixes generate :: generator
  assumes cites: "generate p timeout tokens = Inr r \<Longrightarrow> sp_citations p = map citation_of (sp_assembled_evidence p) \<Longrightarrow>
      gr_citations r = sp_citations p"
    and answers: "generate p timeout tokens = Inr r \<Longrightarrow> gr_answer r \<noteq> []"
begin

lemma cites_evidence:
  assumes "generate (build_prompt c) timeout tokens = Inr r" and "ac_citations c = map citation_of (ac_evidence c)"
  shows "gr_citations r = map citation_of (ac_evidence c) \<and> gr_answer r \<noteq> []"
  using cites [OF assms(1)] answers [OF assms(1)] assms(2) by (simp add: build_prompt_def Let_def)

end

interpretation mock_citing: citing_provider mock_generate
  by unfold_locales (auto simp: mock_generate_def Let_def)

lemma sum_then_Inr: "sum_then m f = Inr y \<longleftrightarrow> (\<exists>x. m = Inr x \<and> f x = Inr y)"
  by (cases m) (simp_all add: sum_then_def)

lemma provider_answer_Inr:
  "provider_answer name display_name model p answer = Inr r \<Longrightarrow> gr_citations r = sp_citations p \<and> gr_answer r \<noteq> []"
  by (auto simp: provider_answer_def split: if_splits)

interpretation openai_citing: citing_provider "openai_generate post settings" for post settings
  by unfold_locales (auto simp: openai_generate_def sum_then_Inr dest!: provider_answer_Inr split: option.splits)

interpretation anthropic_citing: citing_provider "anthropic_generate post settings" for post settings
  by unfold_locales
    (auto simp: anthropic_generate_def sum_then_Inr dest!: provider_answer_Inr split: option.splits list.splits)

lemma registered_provider:
  assumes "resolve_provider settings (build_provider_registry post settings) name = Inr provider"
  shows "citing_provider (lp_generate provider)"
proof -
  from assms obtain k where "map_of (build_provider_registry post settings) k = Some provider"
    by (auto simp: resolve_provider_def Let_def split: if_splits option.splits)
  then have "lp_generate provider \<in> {mock_generate, openai_generate post settings, anthropic_generate post settings}"
    by (auto simp: build_provider_registry_def mock_provider_def openai_provider_def anthropic_provider_def
        keyed_provider_def Let_def split: if_splits)
  then show ?thesis
    using mock_citing.citing_provider_axioms openai_citing.citing_provider_axioms anthropic_citing.citing_provider_axioms
    by auto
qed


section \<open>What an answer leaves as it was\<close>

definition world_data :: "world \<Rightarrow> db \<times> timed_event list" where
  "world_data w = (w_db w, w_published w)"

definition ai_data :: "ai_process \<Rightarrow> graph_cache \<times> db \<times> timed_event list" where
  "ai_data s = (gp_cache (ap_graph s), world_data (gp_world (ap_graph s)))"

definition ai_state :: "ai_process \<Rightarrow> (graph_cache \<times> db \<times> timed_event list) \<times> (string \<times> conversation) list" where
  "ai_state s = (ai_data s, ap_conversations s)"

lemma keeps_in_graph [op_intro]:
  assumes "keeps (same world_data) m"
  shows "keeps (same ai_state) (in_graph (in_world m))"
  unfolding keeps_def
proof (intro allI)
  fix s :: ai_process
  obtain r w where m: "m (gp_world (ap_graph s)) = (r, w)" by fastforce
  with keeps_same_result [OF assms m]
  show "ai_state (snd (in_graph (in_world m) s)) = ai_state s"
    by (simp add: in_graph_def in_world_def ai_data_def ai_state_def)
qed

lemma keeps_explain:
  "keeps (same ai_state) (explain settings providers g request provider_name)"
  by (auto simp: explain_def record_ai_provider_result_def Let_def world_data_def
      intro!: op_intro split: option.splits sum.splits prod.splits)

lemma explained:
  assumes "explain settings providers g request provider_name s = (r, t)"
  shows "ai_data t = ai_data s \<and> ap_conversations t = ap_conversations s \<and>
     (case r of Inl e \<Rightarrow> True
      | Inr x \<Rightarrow> \<exists>c provider result. assemble g request = Some c \<and>
          resolve_provider settings providers provider_name = Inr provider \<and>
          lp_generate provider (build_prompt c) (as_timeout_seconds settings)
            (min (aq_max_tokens request) (as_max_tokens settings)) = Inr result \<and>
          ax_answer x = gr_answer result \<and> ax_evidence x = ac_evidence c \<and>
          ax_citations x = (if gr_citations result \<noteq> [] then gr_citations result else ac_citations c))"
proof -
  have "ai_data t = ai_data s \<and> ap_conversations t = ap_conversations s"
    using keeps_same_result [OF keeps_explain assms] by (simp add: ai_state_def)
  moreover have "case r of Inl e \<Rightarrow> True
      | Inr x \<Rightarrow> \<exists>c provider result. assemble g request = Some c \<and>
          resolve_provider settings providers provider_name = Inr provider \<and>
          lp_generate provider (build_prompt c) (as_timeout_seconds settings)
            (min (aq_max_tokens request) (as_max_tokens settings)) = Inr result \<and>
          ax_answer x = gr_answer result \<and> ax_evidence x = ac_evidence c \<and>
          ax_citations x = (if gr_citations result \<noteq> [] then gr_citations result else ac_citations c)"
  proof (cases r)
    case (Inr x)
    with assms show ?thesis
      by (fastforce simp: explain_def Let_def elim!: and_then_okE from_option_okE
          split: sum.splits prod.splits option.splits)
  qed simp
  ultimately show ?thesis by blast
qed

lemma explanation_cites:
  assumes run: "explain settings (build_provider_registry post settings) g request provider_name s = (Inr x, t)"
    and wf: "wf_graph g"
  shows "as_enabled settings \<and> list_all (grounded g) (ax_evidence x) \<and>
     ax_citations x = map citation_of (ax_evidence x) \<and> ax_answer x \<noteq> []"
proof -
  from explained [OF run] obtain c provider result where c: "assemble g request = Some c"
    and provider: "resolve_provider settings (build_provider_registry post settings) provider_name = Inr provider"
    and result: "lp_generate provider (build_prompt c) (as_timeout_seconds settings)
       (min (aq_max_tokens request) (as_max_tokens settings)) = Inr result"
    and x: "ax_answer x = gr_answer result" "ax_evidence x = ac_evidence c"
       "ax_citations x = (if gr_citations result \<noteq> [] then gr_citations result else ac_citations c)"
    by auto
  have cited: "ac_citations c = map citation_of (ac_evidence c)" using c by (rule assemble_evidence)
  from citing_provider.cites_evidence [OF registered_provider [OF provider] result cited] x cited
  have "ax_citations x = map citation_of (ax_evidence x) \<and> ax_answer x \<noteq> []" by simp
  moreover have "as_enabled settings" using provider by (auto simp: resolve_provider_def split: if_splits)
  ultimately show ?thesis using grounded_context [OF wf c] x(2) by simp
qed

text \<open>A request for an answer: the gate, the graph that the cache then holds, the answer.\<close>

lemma ai_route_result:
  assumes "ai_route u answer s = (r, t)" and "cache_built (gp_cache (ap_graph s))"
  shows "if may_read_graph u
     then \<exists>g s'. gc_graph (gp_cache (ap_graph s')) = Some g \<and> wf_graph g \<and> answer g s' = (r, t) \<and>
        ap_conversations s' = ap_conversations s \<and>
        world_data (gp_world (ap_graph s')) = world_data (gp_world (ap_graph s))
     else r = Inl forbidden_exception \<and> ap_conversations t = ap_conversations s \<and> ai_data t = ai_data s"
proof -
  obtain r1 s1 where gate: "graph_gate u (ap_graph s) = (r1, s1)" by fastforce
  obtain r2 s2 where load: "cache_load s1 = (r2 :: http_error + authorization_graph, s2)" by fastforce
  note g = graph_gate_result [OF gate]
  from cache_load_result [OF load] obtain gr where l: "r2 = Inr gr" "gc_graph (gp_cache s2) = Some gr"
    "gc_graph (gp_cache s1) = Some gr \<or> gr = built_from (gp_world s1)"
    "w_db (gp_world s2) = w_db (gp_world s1)" "w_published (gp_world s2) = w_published (gp_world s1)" by blast
  have "wf_graph gr" using l(3) assms(2) g wf_built by (auto simp: cache_built_def built_from_def)
  with l g gate load assms(1) show ?thesis
    by (cases "may_read_graph u")
      (auto simp: ai_route_def ai_gate_def in_graph_def and_then_def world_data_def ai_data_def
        intro!: exI [of _ gr] exI [of _ "s\<lparr>ap_graph := s2\<rparr>"])
qed

section \<open>Conversations\<close>

definition conversations_keyed :: "ai_process \<Rightarrow> bool" where
  "conversations_keyed s \<longleftrightarrow> list_all (\<lambda>(k, c). cv_conversation_id c = k) (ap_conversations s)"

lemma list_all_dict_set: "list_all P d \<Longrightarrow> P (k, v) \<Longrightarrow> list_all P (dict_set k v d)"
  by (induction k v d rule: dict_set.induct) auto

lemma conversations_keyed_lookup:
  "conversations_keyed s \<Longrightarrow> map_of (ap_conversations s) k = Some c \<Longrightarrow> cv_conversation_id c = k"
  by (auto simp: conversations_keyed_def list_all_iff dest!: map_of_SomeD)

definition messages_of :: "ai_process \<Rightarrow> string \<Rightarrow> conversation_message list" where
  "messages_of s k = (case map_of (ap_conversations s) k of None \<Rightarrow> [] | Some c \<Rightarrow> cv_messages c)"

lemma append_message_run:
  assumes "map_of (ap_conversations s) k = Some c"
  shows "\<exists>m now t. append_message e k role content metadata s = (Inr m, t) \<and> cm_role m = role \<and>
     cm_content m = content \<and> ai_data t = ai_data s \<and>
     ap_conversations t = dict_set k (c\<lparr>cv_messages := cv_messages c @ [m], cv_updated_at := now\<rparr>) (ap_conversations s)"
  using assms by (simp add: append_message_def in_graph_def in_world_def utc_now_def and_then_def
      gets_def modify_def ret_def Let_def ai_data_def world_data_def) (rule exI, rule refl)

lemma get_or_create_run:
  assumes "conversations_keyed s"
  shows "\<exists>c t. get_or_create conversation_id metadata s = (Inr c, t) \<and> conversations_keyed t \<and> ai_data t = ai_data s \<and>
     map_of (ap_conversations t) (cv_conversation_id c) = Some c \<and>
     (\<forall>j. j \<noteq> cv_conversation_id c \<longrightarrow> map_of (ap_conversations t) j = map_of (ap_conversations s) j) \<and>
     cv_messages c = (if conversation_id = Some (cv_conversation_id c) then messages_of s (cv_conversation_id c) else []) \<and>
     (\<forall>k. nonempty conversation_id = Some k \<longrightarrow> cv_conversation_id c = k)"
proof (cases "Option.bind conversation_id (map_of (ap_conversations s))")
  case (Some c)
  then obtain k where k: "conversation_id = Some k" "map_of (ap_conversations s) k = Some c" by (auto simp: bind_eq_Some_conv)
  with conversations_keyed_lookup [OF assms] have "cv_conversation_id c = k" by blast
  with k assms show ?thesis
    by (auto simp: get_or_create_def in_graph_def in_world_def utc_now_def and_then_def gets_def ret_def
        ai_data_def world_data_def conversations_keyed_def messages_of_def nonempty_def split: list.splits if_splits)
next
  case None
  then have absent: "conversation_id = Some k \<Longrightarrow> map_of (ap_conversations s) k = None" for k by simp
  show ?thesis
    using assms None absent
    by (auto simp: get_or_create_def in_graph_def in_world_def utc_now_def uuid4_def and_then_def gets_def modify_def
        ret_def ai_data_def world_data_def conversations_keyed_def messages_of_def nonempty_def Let_def
        intro!: list_all_dict_set split: option.splits list.splits if_splits)
qed

section \<open>Explanations\<close>

text \<open>
  C25. An explanation is grounded.  When a request for an explanation succeeds, whichever provider
  wrote it and whatever the network answered, the reader has one of the roles of the graph and AI
  is enabled; every item of its evidence speaks of a node or an edge of the authorization graph
  that the cache holds, or reports the result of a query on that graph; the citations are the
  citations of exactly this evidence, in its order, and the answer is not empty.  The tables, the
  published events and the conversations are as before.
\<close>

theorem explanation_grounded:
  assumes "cache_built (gp_cache (ap_graph s))"
    and "explain_route post settings request provider_name u s = (Inr x, t)"
  shows "may_read_graph u \<and> as_enabled settings \<and>
     (\<exists>g. gc_graph (gp_cache (ap_graph t)) = Some g \<and> list_all (grounded g) (ax_evidence x)) \<and>
     ax_citations x = map citation_of (ax_evidence x) \<and> ax_answer x \<noteq> [] \<and>
     w_db (gp_world (ap_graph t)) = w_db (gp_world (ap_graph s)) \<and>
     w_published (gp_world (ap_graph t)) = w_published (gp_world (ap_graph s)) \<and>
     ap_conversations t = ap_conversations s"
proof -
  note route = ai_route_result [OF assms(2) [unfolded explain_route_def] assms(1)]
  show ?thesis
  proof (cases "may_read_graph u")
    case True
    with route obtain g s' where g: "gc_graph (gp_cache (ap_graph s')) = Some g" "wf_graph g"
      and run: "with_ai_errors (explain settings (build_provider_registry post settings) g request provider_name) s' = (Inr x, t)"
      and same: "ap_conversations s' = ap_conversations s"
        "world_data (gp_world (ap_graph s')) = world_data (gp_world (ap_graph s))" by auto
    from run have run: "explain settings (build_provider_registry post settings) g request provider_name s' = (Inr x, t)"
      by (auto simp: with_ai_errors_def split: prod.splits sum.splits)
    from explanation_cites [OF run g(2)] explained [OF run] True g(1) same show ?thesis
      by (simp add: ai_data_def world_data_def)
  next
    case False
    with route show ?thesis by simp
  qed
qed

text \<open>A question to the mock provider about a built graph is always answered.\<close>

definition sample_settings :: ai_settings where
  "sample_settings = get_ai_settings (\<lambda>_. None)"

definition silent_network :: transport where
  "silent_network = (\<lambda>url headers body timeout. HttpTimeout)"

definition sample_ai :: ai_process where
  "sample_ai = \<lparr>ap_graph = sample_process, ap_conversations = []\<rparr>"

lemma sample_provider:
  "resolve_provider sample_settings (build_provider_registry silent_network sample_settings) None = Inr mock_provider"
proof -
  have "as_enabled sample_settings" "lower (strip (as_provider sample_settings)) = ''mock''" by code_simp+
  then show ?thesis
    by (simp add: resolve_provider_def nonempty_def build_provider_registry_def mock_provider_def mock_metadata_def
        Let_def)
qed

lemma in_graph_world: "in_graph (in_world m) s =
   (fst (m (gp_world (ap_graph s))), s\<lparr>ap_graph := (ap_graph s)\<lparr>gp_world := snd (m (gp_world (ap_graph s)))\<rparr>\<rparr>)"
  by (simp add: in_graph_def in_world_def split: prod.splits)

lemma mock_explains:
  assumes "assemble g request = Some c"
  shows "\<exists>x t. explain sample_settings (build_provider_registry silent_network sample_settings) g request None s = (Inr x, t)"
  unfolding explain_def assms sample_provider record_ai_provider_result_def
  by (simp add: mock_provider_def mock_generate_def in_graph_world perf_counter_def metric_increment_def
      metric_observe_def and_then_def modify_def gets_def ret_def Let_def split: prod.splits)

lemma sample_route:
  assumes "ai_route root_admin answer sample_ai = (r, t)"
  shows "\<exists>s' d registry. answer (build_authorization_graph d registry) s' = (r, t) \<and> ap_conversations s' = []"
proof -
  obtain r1 s1 where gate: "graph_gate root_admin sample_process = (r1, s1)" by fastforce
  obtain r2 s2 where load: "cache_load s1 = (r2 :: http_error + authorization_graph, s2)" by fastforce
  note g = graph_gate_result [OF gate]
  from cache_load_result [OF load] g obtain gr where "r2 = Inr gr" "gr = built_from (gp_world s1)"
    by (auto simp: sample_process_def empty_cache_def)
  with g gate load assms sample_may_read(1)
  have "gr = build_authorization_graph (w_db (gp_world s1)) (w_connectors (gp_world s1)) \<and>
     answer gr (sample_ai\<lparr>ap_graph := s2\<rparr>) = (r, t) \<and> ap_conversations (sample_ai\<lparr>ap_graph := s2\<rparr>) = []"
    by (simp add: ai_route_def ai_gate_def in_graph_def sample_ai_def and_then_def built_from_def)
  then show ?thesis by blast
qed

lemma sample_cache: "cache_built (gp_cache (ap_graph sample_ai))"
  by (simp add: sample_ai_def sample_process_def empty_cache_def cache_built_def)

theorem explanation_grounded_witness:
  "\<exists>x t g. explain_route silent_network sample_settings sample_question None root_admin sample_ai = (Inr x, t) \<and>
     gc_graph (gp_cache (ap_graph t)) = Some g \<and> list_all (grounded g) (ax_evidence x) \<and>
     ax_citations x = map citation_of (ax_evidence x)"
proof -
  obtain r t where run: "explain_route silent_network sample_settings sample_question None root_admin sample_ai = (r, t)"
    by fastforce
  from sample_route [OF this [unfolded explain_route_def]] obtain d registry s' where
    e: "with_ai_errors (explain sample_settings (build_provider_registry silent_network sample_settings)
       (build_authorization_graph d registry) sample_question None) s' = (r, t)" by blast
  from assemble_total [of d registry sample_question] obtain c where
    "assemble (build_authorization_graph d registry) sample_question = Some c" by blast
  from mock_explains [OF this, of s'] e obtain x where "r = Inr x" by (auto simp: with_ai_errors_def)
  with explanation_grounded [OF sample_cache run [unfolded this]] run show ?thesis by auto
qed

section \<open>Chats\<close>

text \<open>What one exchange does to the conversations; \<open>answer\<close> is the response, when there is one.\<close>

definition exchanged ::
  "string option \<Rightarrow> string \<Rightarrow> ai_process \<Rightarrow> ai_chat_response option \<Rightarrow> ai_process \<Rightarrow> bool" where
  "exchanged conversation_id question s answer t \<longleftrightarrow>
     (\<exists>k stored asked. (\<forall>i. nonempty conversation_id = Some i \<longrightarrow> k = i) \<and>
        (\<forall>j. j \<noteq> k \<longrightarrow> map_of (ap_conversations t) j = map_of (ap_conversations s) j) \<and>
        map_of (ap_conversations t) k = Some stored \<and> cm_role asked = ''user'' \<and> cm_content asked = question \<and>
        cv_messages stored = (if conversation_id = Some k then messages_of s k else []) @ [asked] @
          (case answer of None \<Rightarrow> [] | Some y \<Rightarrow> [ar_message y]) \<and>
        (case answer of None \<Rightarrow> True
         | Some y \<Rightarrow> ar_conversation_id y = k \<and> ar_conversation y = stored \<and>
             cm_role (ar_message y) = ''assistant'' \<and> cm_content (ar_message y) = ax_answer (ar_explanation y)))"

lemma exchanged_cong: "ap_conversations s = ap_conversations s' \<Longrightarrow> exchanged i q s a t = exchanged i q s' a t"
  by (simp add: exchanged_def messages_of_def)

definition answered_chat :: "'e + ai_chat_response \<Rightarrow> ai_chat_response option" where
  "answered_chat r = (case r of Inl e \<Rightarrow> None | Inr y \<Rightarrow> Some y)"

lemma chat_run:
  assumes keyed: "conversations_keyed s" and run: "chat settings providers g request provider_name cid s = (r, t)"
  shows "conversations_keyed t \<and> ai_data t = ai_data s \<and>
     exchanged cid (aq_question request) s (answered_chat r) t \<and>
     (\<exists>s2. isl (fst (explain settings providers g request provider_name s2)) = isl r)"
proof -
  let ?md = "[(''provider'', JStr (case nonempty provider_name of None \<Rightarrow> as_provider settings | Some name \<Rightarrow> name))]"
  from get_or_create_run [OF keyed, of cid ?md] obtain c s1 where create: "get_or_create cid ?md s = (Inr c :: ai_error + conversation, s1)"
    and s1: "conversations_keyed s1" "ai_data s1 = ai_data s"
    and c: "map_of (ap_conversations s1) (cv_conversation_id c) = Some c"
      "\<forall>j. j \<noteq> cv_conversation_id c \<longrightarrow> map_of (ap_conversations s1) j = map_of (ap_conversations s) j"
      "cv_messages c = (if cid = Some (cv_conversation_id c) then messages_of s (cv_conversation_id c) else [])"
      "\<forall>k. nonempty cid = Some k \<longrightarrow> cv_conversation_id c = k" by (elim exE conjE) (rule that)
  let ?k = "cv_conversation_id c"
  from append_message_run [OF c(1), where e = UnexpectedAIError and role = "''user''"
      and content = "aq_question request" and metadata = "[(''intent_request'', JBool True)]"] obtain q now s2 where
    ask: "append_message UnexpectedAIError ?k ''user'' (aq_question request) [(''intent_request'', JBool True)] s1 = (Inr q, s2)"
    and q: "cm_role q = ''user''" "cm_content q = aq_question request" and s2: "ai_data s2 = ai_data s1"
      "ap_conversations s2 = dict_set ?k (c\<lparr>cv_messages := cv_messages c @ [q], cv_updated_at := now\<rparr>) (ap_conversations s1)"
    by (elim exE conjE) (rule that)
  obtain r3 s3 where exp: "explain settings providers g request provider_name s2 = (r3, s3)" by fastforce
  note e = explained [OF exp]
  let ?c = "c\<lparr>cv_messages := cv_messages c @ [q], cv_updated_at := now\<rparr>"
  have keyed3: "conversations_keyed s3"
    using s1(1) s2(2) e by (auto simp: conversations_keyed_def intro: list_all_dict_set)
  have others: "\<forall>j. j \<noteq> ?k \<longrightarrow> map_of (ap_conversations s3) j = map_of (ap_conversations s) j"
    and stored: "map_of (ap_conversations s3) ?k = Some ?c" and data: "ai_data s3 = ai_data s"
    using c(2) s2 e s1(2) by auto
  show ?thesis
  proof (cases r3)
    case (Inl e)
    with run create ask exp have "r = Inl e" "t = s3" by (simp_all add: chat_def)
    moreover have "exchanged cid (aq_question request) s None s3"
      unfolding exchanged_def
      by (rule exI [of _ ?k], rule exI [of _ ?c], rule exI [of _ q]) (use others stored c(3,4) q in simp)
    ultimately show ?thesis using data keyed3 exp Inl by (auto simp: answered_chat_def intro!: exI [of _ s2])
  next
    case (Inr x)
    from append_message_run [OF stored, where e = UnexpectedAIError and role = "''assistant''" and content = "ax_answer x"
      and metadata = "[(''provider'', JStr (pv_name (ax_provider x))), (''citation_count'', JInt (int (length (ax_citations x))))]"]
    obtain m later s4 where
      answer: "append_message UnexpectedAIError ?k ''assistant'' (ax_answer x)
         [(''provider'', JStr (pv_name (ax_provider x))), (''citation_count'', JInt (int (length (ax_citations x))))] s3 = (Inr m, s4)"
      and m: "cm_role m = ''assistant''" "cm_content m = ax_answer x" and s4: "ai_data s4 = ai_data s3"
        "ap_conversations s4 = dict_set ?k (?c\<lparr>cv_messages := cv_messages ?c @ [m], cv_updated_at := later\<rparr>) (ap_conversations s3)"
      by (elim exE conjE) (rule that)
    let ?d = "?c\<lparr>cv_messages := cv_messages ?c @ [m], cv_updated_at := later\<rparr>"
    from run create ask exp Inr answer s4(2)
    have r: "r = Inr \<lparr>ar_conversation_id = ?k, ar_message = m, ar_explanation = x, ar_conversation = ?d\<rparr>" and t: "t = s4"
      by (simp_all add: chat_def)
    have "conversations_keyed s4"
      unfolding conversations_keyed_def s4(2)
      by (rule list_all_dict_set) (use keyed3 in \<open>simp_all add: conversations_keyed_def\<close>)
    moreover have "exchanged cid (aq_question request) s
        (Some \<lparr>ar_conversation_id = ?k, ar_message = m, ar_explanation = x, ar_conversation = ?d\<rparr>) s4"
      unfolding exchanged_def
      by (rule exI [of _ ?k], rule exI [of _ ?d], rule exI [of _ q]) (use others c(3,4) q m s4 in simp)
    ultimately show ?thesis
      using data exp Inr r t s4(1) by (auto simp: answered_chat_def intro!: exI [of _ s2])
  qed
qed

lemma ai_http_error_codes: "he_status_code (ai_http_error e) \<in> {404, 429, 500, 502, 503, 504}"
  by (cases e) (simp_all add: HTTPException_def internal_server_error_def)

text \<open>
  C26. A chat records exactly what was asked and answered.  Without a role of the graph the request
  is refused and records nothing.  Otherwise one conversation changes, the one that was named when
  the request names one: to the messages it had (none when it is new) the question of the user is
  appended and, exactly when the request succeeds, the answer, which is the answer of the
  explanation; the response carries the conversation as it is stored.  A failure has one of six
  status codes.  The tables and the published events are as before.
\<close>

theorem chat_records_exchange:
  assumes "conversations_keyed s" and "cache_built (gp_cache (ap_graph s))"
    and "chat_route post settings request provider_name cid u s = (r, t)"
  shows "conversations_keyed t \<and> w_db (gp_world (ap_graph t)) = w_db (gp_world (ap_graph s)) \<and>
     w_published (gp_world (ap_graph t)) = w_published (gp_world (ap_graph s)) \<and>
     (if \<not> may_read_graph u then r = Inl forbidden_exception \<and> ap_conversations t = ap_conversations s
      else (\<forall>e. r = Inl e \<longrightarrow> he_status_code e \<in> {404, 429, 500, 502, 503, 504}) \<and>
        exchanged cid (aq_question request) s (answered_chat r) t)"
proof (cases "may_read_graph u")
  case False
  with ai_route_result [OF assms(3) [unfolded chat_route_def] assms(2)] assms(1) show ?thesis
    by (simp add: ai_data_def world_data_def conversations_keyed_def)
next
  case True
  with ai_route_result [OF assms(3) [unfolded chat_route_def] assms(2)] obtain g s' where
    run: "with_ai_errors (chat settings (build_provider_registry post settings) g request provider_name cid) s' = (r, t)"
    and same: "ap_conversations s' = ap_conversations s"
      "world_data (gp_world (ap_graph s')) = world_data (gp_world (ap_graph s))" by auto
  obtain r' where chat: "chat settings (build_provider_registry post settings) g request provider_name cid s' = (r', t)"
    and r: "r = (case r' of Inl e \<Rightarrow> Inl (ai_http_error e) | Inr y \<Rightarrow> Inr y)"
    using run by (auto simp: with_ai_errors_def split: prod.splits sum.splits)
  have keyed: "conversations_keyed s'" using assms(1) same(1) by (simp add: conversations_keyed_def)
  have "answered_chat r = answered_chat r'" by (simp add: answered_chat_def r split: sum.split)
  moreover have "he_status_code e \<in> {404, 429, 500, 502, 503, 504}" if "r = Inl e" for e
    using that ai_http_error_codes by (auto simp: r split: sum.splits)
  ultimately show ?thesis
    using True chat_run [OF keyed chat] same exchanged_cong [OF same(1)] by (auto simp: ai_data_def world_data_def)
qed

theorem chat_records_exchange_witness:
  "\<exists>y t. chat_route silent_network sample_settings sample_question None (Some ''c1'') root_admin sample_ai = (Inr y, t) \<and>
     exchanged (Some ''c1'') ''Why does user 5 have access?'' sample_ai (Some y) t"
proof -
  obtain r t where run: "chat_route silent_network sample_settings sample_question None (Some ''c1'') root_admin sample_ai = (r, t)"
    by fastforce
  from sample_route [OF this [unfolded chat_route_def]] obtain d registry s' where
    e: "with_ai_errors (chat sample_settings (build_provider_registry silent_network sample_settings)
       (build_authorization_graph d registry) sample_question None (Some ''c1'')) s' = (r, t)"
    and s': "ap_conversations s' = []" by blast
  have keyed: "conversations_keyed s'" "conversations_keyed sample_ai"
    by (simp_all add: conversations_keyed_def s' sample_ai_def)
  from assemble_total [of d registry sample_question] obtain c where
    "assemble (build_authorization_graph d registry) sample_question = Some c" by blast
  note answer = mock_explains [OF this]
  obtain r' t' where chat: "chat sample_settings (build_provider_registry silent_network sample_settings)
       (build_authorization_graph d registry) sample_question None (Some ''c1'') s' = (r', t')" by fastforce
  from chat_run [OF keyed(1) chat] answer have "\<not> isl r'" by (metis fst_conv isl_def sum.distinct(1))
  with e chat obtain y where "r = Inr y" by (cases r') (auto simp: with_ai_errors_def)
  with chat_records_exchange [OF keyed(2) sample_cache run] run sample_may_read(1) show ?thesis
    by (auto simp: answered_chat_def sample_question_def)
qed

end
