(* ===== verification/Spec2Isabelle.thy ===== *)
theory Spec2Isabelle
  imports Access Revocation ScimProperties AiProperties
begin

text \<open>
  A model of AccessIQ, an identity governance service written in Python on FastAPI and
  SQLAlchemy (src/app).  Requests arrive at routes, which check the operator role of the caller
  and construct one service per request; a service reads and changes rows in one database
  transaction, appends audit events to the same transaction, collects domain events, and
  publishes them when the transaction has been committed.

  The state.  \<open>Tables\<close> has one record per mapped class (app/models.py and the \<open>models\<close>
  modules of governance, remediation and delegation) and the record \<open>db\<close> of all tables.
  \<open>Store\<close> has the record \<open>world\<close>: the database, the pending and the published events, the
  metrics registry, the connectors, and the environment \<open>env\<close>.  The environment is the
  parameter for what the repository does not contain: the clock, the primary keys the database
  hands out, the random identifiers, password hashing and the email parser.  \<open>fresh_keys\<close> is the
  only law about the environment that the properties use: a new key is not a key in use.

  Effects.  An operation is a function from the state to a result and a state (\<open>Prelude\<close>); the
  result is \<open>Inl\<close> an exception or \<open>Inr\<close> a value.  Exceptions are a datatype with one constructor
  per class (\<open>Store\<close>).  A transaction that fails rolls its tables back and drops its events
  (\<open>Http\<close>).  Unique constraints are checked where the code flushes.

  Parts, from the leaves up.

  \<^item> \<open>Prelude\<close>, \<open>Json\<close>, \<open>Listing\<close>, \<open>Http\<close>, \<open>Sample\<close>: operations and their frame rules, dictionaries,
    strings, JSON values, ordered and paged queries, what the routes share, a sample installation
    on which the properties are exercised.
  \<^item> \<open>Enums\<close>: the string enumerations, each an instance of the locale \<open>str_enum\<close> (parsing a value
    gives the member back).
  \<^item> \<open>Observability\<close> (app/observability.py): the metrics registry, the provider and its text
    exposition; the counts of a rendered histogram are those of its observations.
  \<^item> \<open>Events\<close>, \<open>Store\<close> (app/domain, app/audit_service.py, app/request_context.py): events, the
    publisher, audit events.
  \<^item> \<open>Policy\<close> (app/roles.py, app/rbac.py, app/policy_engine.py): roles, the role gate, the two
    business policies, equivalent to a declarative rule.
  \<^item> \<open>Delegation\<close> (app/delegation): assigning, removing and querying delegated authority.
  \<^item> \<open>Access\<close> (app/main.py): granting and revoking entitlements, the audit listing.  These combine
    the gate, the delegations, the policies and the audit service; the listing accounts for every
    change of access that the handlers make.
  \<^item> \<open>Connectors\<close> (app/connectors): connectors, the registry and the retry policy.  The locale
    \<open>identity_connector\<close> is what a caller may rely on; the mock connector interprets it.
  \<^item> \<open>Jobs\<close>, \<open>Orchestrator\<close>, \<open>Orchestration\<close> (app/services/provisioning_job_service.py,
    app/connectors/orchestrator.py): provisioning jobs, the retry loop, the ordered history it
    writes, and its refinement of the abstract specification \<open>attempts_spec\<close>, for every connector that follows a script (locale
    \<open>scripted_connector\<close>), of which the mock connector is one.
  \<^item> \<open>Governance\<close>, \<open>Certification\<close> (app/governance): certification campaigns, their items and
    decisions; the invariant of any sequence of requests.
  \<^item> \<open>Remediation\<close>, \<open>Revocation\<close> (app/remediation): the revoke decisions of a completed campaign
    become jobs for the orchestrator, each exactly once.
  \<^item> \<open>Scim\<close>, \<open>Filtering\<close> (app/scim): paging, sorting, filters, projection, resources; a filter
    selects exactly the users it describes.
  \<^item> \<open>Profiles\<close>, \<open>Managers\<close>, \<open>ScimUsers\<close>, \<open>ScimProvisioning\<close> (app/services/user_service.py and
    enterprise_user_service.py, app/scim/provisioning.py and routes.py): users, enterprise
    profiles with managers, the parsers of payloads and PATCH operations, the user routes.
  \<^item> \<open>ScimGroups\<close>, \<open>ScimGroupProvisioning\<close> (app/services/group_service.py,
    app/scim/group_provisioning.py): groups, with the session object and its flush explicit,
    because the order of the writes of a flush decides which requests fail.
  \<^item> \<open>ScimRequests\<close>, \<open>ScimDirectory\<close>, \<open>ScimMembers\<close>, \<open>ScimProperties\<close>: what SCIM requests do, one
    at a time and in sequence: the directory stays well formed and nobody gains power.
  \<^item> \<open>Graph\<close>, \<open>GraphBuilder\<close>, \<open>GraphQueries\<close>, \<open>GraphTruth\<close> (app/graph): the authorization graph, its
    shortest path search, its construction from the tables, its queries, evidence, exports,
    cache and routes; what it says is what the tables say.
  \<^item> \<open>Sha1\<close>, \<open>AiContext\<close>, \<open>AiChat\<close>, \<open>AiProperties\<close> (app/ai): the AI explanation assistant, from the
    classification of a question to the evidence, its rank and its token budget, the providers,
    the conversations and the routes.  The network transport of the two remote providers is a
    parameter.  Whatever it answers, an explanation cites exactly its evidence, and all of it is
    in the graph (locale \<open>citing_provider\<close>, which the three providers interpret).

  Loops.  Every loop of the code is total here: retrying by the attempts the policy has left,
  the manager walk by the users not yet seen, the path search by the nodes not yet visited, the
  \<open>LIKE\<close> matcher by the two texts.  No fuel is used.

  Bounds.  Integers are unbounded, as in Python; times are microseconds since the epoch.  Where a
  database column bounds an integer the property says so (a new key below \<open>2 ^ 63\<close>).

  Not modelled.  Text beyond ASCII in case folding, and escapes of code points above 127 in
  quoted filters; floating point numbers and duplicate keys in request bodies; the concurrency of
  transactions of different requests, which the database isolates; request parsing by the
  framework and the serialisation of responses outside SCIM, and the null members its response
  models may add to the answers of SCIM PUT and PATCH; the static discovery documents of
  SCIM; log lines and traces; login, tokens, seeding and start-up (app/auth.py, app/database.py
  and the rest of app/main.py), which rest on third-party libraries; releases (app/releases),
  which share no state with identity and access.  The database is modelled by its unique
  constraints: foreign keys are not enforced, as SQLite does by default, so that revoking an access
  row that certification items refer to succeeds here and could be refused by PostgreSQL; and an
  identifier of \<open>2 ^ 63\<close> and more in a path finds no row here, where a driver may raise.  The
  completion percentage is the exact quotient, not its floating point value.
\<close>

end
